(* ===== verification/Prelude.thy ===== *)
theory Prelude
  imports Main "HOL-Library.Word" "HOL-Library.AList"
begin

text \<open>
  Shared vocabulary of the development: the machine integer types of the C++ code, the
  outcome type that makes every way a call can fail to return a value explicit, the base
  of the process state (the reference count of the runtime and the supply of addresses
  that the host's allocator hands out), and generic lemmas on words, association lists
  and outcomes that the component theories share.
\<close>

unbundle bit_operations_syntax

named_theorems outcome_simps "characterisations of outcomes"
named_theorems api_defs "definitions of one-line API entry points"

section \<open>Machine integers and addresses\<close>

type_synonym u8 = "8 word"
type_synonym u16 = "16 word"
type_synonym u32 = "32 word"
type_synonym u64 = "64 word"
type_synonym i32 = "32 word"
type_synonym i64 = "64 word"
type_synonym addr = u64

abbreviation nullptr :: addr where
  "nullptr \<equiv> 0"

definition u64_max :: u64 where
  "u64_max = 0xFFFFFFFFFFFFFFFF"

definition i64_max :: i64 where
  "i64_max = 0x7FFFFFFFFFFFFFFF"

lemma unat_u64_max [simp]: "unat u64_max = 2 ^ 64 - 1"
  by (simp add: u64_max_def)

lemma sint_i64_max [simp]: "sint i64_max = 2 ^ 63 - 1"
  by (simp add: i64_max_def)

section \<open>Outcomes\<close>

text \<open>
  A C++ call either returns a value or does not return one: it dereferences a null pointer,
  calls \<open>abort()\<close>, fails an \<open>assert\<close>, throws, or does something the language leaves
  undefined (an out-of-range access, the use of a destroyed object).
\<close>

datatype fault =
    Null_Dereference
  | Aborted
  | Assertion_Failure
  | Exception_Thrown
  | Undefined_Behaviour

type_synonym 'a outcome = "fault + 'a"

fun and_then :: "'a outcome \<Rightarrow> ('a \<Rightarrow> 'b outcome) \<Rightarrow> 'b outcome" where
  "and_then (Inl e) f = Inl e"
| "and_then (Inr a) f = f a"

lemma and_then_eq_Inr [outcome_simps]:
  "and_then m f = Inr b \<longleftrightarrow> (\<exists>a. m = Inr a \<and> f a = Inr b)"
  by (cases m) auto

lemma and_then_eq_Inl [outcome_simps]:
  "and_then m f = Inl e \<longleftrightarrow> m = Inl e \<or> (\<exists>a. m = Inr a \<and> f a = Inl e)"
  by (cases m) auto

lemma and_then_assoc:
  "and_then (and_then m f) g = and_then m (\<lambda>a. and_then (f a) g)"
  by (cases m) auto

lemma and_then_cong [fundef_cong]:
  assumes "m = m'" and "\<And>a. m' = Inr a \<Longrightarrow> f a = f' a"
  shows "and_then m f = and_then m' f'"
  using assms by (cases m') auto

text \<open>Reading an object through a pointer.\<close>

definition deref :: "(addr \<rightharpoonup> 'o) \<Rightarrow> addr \<Rightarrow> 'o outcome" where
  "deref objects p =
     (if p = nullptr then Inl Null_Dereference
      else case objects p of None \<Rightarrow> Inl Undefined_Behaviour | Some x \<Rightarrow> Inr x)"

lemma deref_eq_Inr [outcome_simps]:
  "deref objects p = Inr x \<longleftrightarrow> p \<noteq> nullptr \<and> objects p = Some x"
  by (auto simp: deref_def split: option.splits)

lemma deref_null [simp]: "deref objects nullptr = Inl Null_Dereference"
  by (simp add: deref_def)

lemma deref_Some: "p \<noteq> nullptr \<Longrightarrow> objects p = Some x \<Longrightarrow> deref objects p = Inr x"
  by (simp add: deref_def)

section \<open>The base of the process state\<close>

text \<open>
  \<open>ReferenceCounter\<close> is the static member \<open>Runtime::ReferenceCounter\<close>, a 32-bit signed
  integer; \<open>Instance\<close> is the static pointer to the one runtime object. \<open>HostHeap\<close> is the sequence of addresses that the host's allocation functions
  (\<open>malloc\<close>, \<open>posix_memalign\<close>, \<open>operator new\<close>) will hand out, one per call; 0 or an
  exhausted supply means that the call fails. The components add their own state by
  extending this record.
\<close>

record base_state =
  ReferenceCounter :: i32
  Instance :: addr
  HostHeap :: "addr list"

definition host_malloc :: "'m base_state_scheme \<Rightarrow> addr \<times> 'm base_state_scheme" where
  "host_malloc s =
     (case HostHeap s of [] \<Rightarrow> (nullptr, s) | p # ps \<Rightarrow> (p, s\<lparr>HostHeap := ps\<rparr>))"

definition operator_new :: "'m base_state_scheme \<Rightarrow> (addr \<times> 'm base_state_scheme) outcome" where
  "operator_new s =
     (let (p, s') = host_malloc s
      in if p = nullptr then Inl Exception_Thrown else Inr (p, s'))"

text \<open>
  \<open>posix_memalign\<close>: \<open>EINVAL\<close> unless the alignment is a power of two multiple of the
  pointer size, \<open>ENOMEM\<close> when the allocator has no memory; \<open>None\<close> is a nonzero return.
\<close>

definition is_pow2 :: "u64 \<Rightarrow> bool" where
  "is_pow2 a \<longleftrightarrow> a \<noteq> 0 \<and> a AND (a - 1) = 0"

definition posix_memalign ::
  "u64 \<Rightarrow> u64 \<Rightarrow> 'm base_state_scheme \<Rightarrow> addr option \<times> 'm base_state_scheme" where
  "posix_memalign Align Size s =
     (if \<not> is_pow2 Align \<or> unat Align mod 8 \<noteq> 0 then (None, s)
      else let (p, s') = host_malloc s
           in (if p = nullptr then None else Some p, s'))"

text \<open>\<open>Runtime::isInitialized\<close>: the counter, read as a signed number, is positive.\<close>

definition isInitialized :: "'m base_state_scheme \<Rightarrow> bool" where
  "isInitialized s \<longleftrightarrow> 0 < sint (ReferenceCounter s)"

text \<open>\<open>Runtime::get\<close> asserts that the instance exists.\<close>

definition Runtime_get :: "'m base_state_scheme \<Rightarrow> addr outcome" where
  "Runtime_get s = (if Instance s = nullptr then Inl Assertion_Failure else Inr (Instance s))"

lemma Runtime_get_Inr: "Instance s \<noteq> nullptr \<Longrightarrow> Runtime_get s = Inr (Instance s)"
  by (simp add: Runtime_get_def)

lemma host_malloc_cases:
  obtains (empty) "HostHeap s = []" "host_malloc s = (nullptr, s)"
  | (next_addr) p ps where "HostHeap s = p # ps" "host_malloc s = (p, s\<lparr>HostHeap := ps\<rparr>)"
  by (cases "HostHeap s") (simp_all add: host_malloc_def)

section \<open>Words\<close>

lemma unat_add_no_overflow:
  fixes a b :: "'w::len word"
  assumes "unat a + unat b < 2 ^ LENGTH('w)"
  shows "unat (a + b) = unat a + unat b"
  using assms by (simp add: unat_word_ariths)

lemma unat_Suc_less:
  fixes a b :: "'w::len word"
  assumes "a < b"
  shows "unat (a + 1) = Suc (unat a)"
proof -
  from assms have "unat a < unat b" by (simp add: word_less_nat_alt)
  moreover have "unat b < 2 ^ LENGTH('w)" by simp
  ultimately have "Suc (unat a) < 2 ^ LENGTH('w)" by linarith
  then have "unat a + unat (1::'w word) < 2 ^ LENGTH('w)" by simp
  then have "unat (a + 1) = unat a + unat (1::'w word)"
    by (rule unat_add_no_overflow)
  then show ?thesis by simp
qed

lemma word_Suc_le:
  fixes a b :: "'w::len word"
  shows "a < b \<Longrightarrow> a + 1 \<le> b"
  by (simp add: word_le_nat_alt word_less_nat_alt unat_Suc_less)

lemma unat_u64_lt: "unat (x :: u64) < 2 ^ 64"
  using unsigned_less [of x] by simp

lemma unat_mod_u64: "unat (a mod b) = unat a mod unat (b :: u64)"
  by (simp add: unat_mod)

lemma sint_huge:
  fixes w :: "64 word"
  assumes "2 ^ 63 \<le> unat w" shows "sint w = int (unat w) - 2 ^ 64"
proof -
  have "int (2 ^ 63) \<le> int (unat w)" using assms by (simp only: of_nat_le_iff)
  then have lo: "2 ^ 63 \<le> uint w" by (simp only: of_nat_power of_nat_numeral uint_nat)
  have "int (unat w) < int (2 ^ 64)" using unat_u64_lt [of w] by (simp only: of_nat_less_iff)
  then have hi: "uint w < 2 ^ 64" by (simp only: of_nat_power of_nat_numeral uint_nat)
  have "uint w div 2 ^ 63 = 1"
    by (rule int_div_pos_eq [where r = "uint w - 2 ^ 63"]) (use lo hi in auto)
  then have "bit (uint w) 63" by (simp only: bit_iff_odd) simp
  moreover have "take_bit 64 (uint w) = uint w" using hi by (intro take_bit_int_eq_self) simp_all
  ultimately have "sint w = uint w - 2 ^ 64"
    by (simp add: sint_uint signed_take_bit_eq_take_bit_minus)
  then show ?thesis by (simp only: uint_nat)
qed

section \<open>Association lists\<close>

lemma map_of_update [simp]: "map_of (AList.update k v xs) = (map_of xs)(k \<mapsto> v)"
  by (simp add: update_conv')

lemma map_of_delete [simp]: "map_of (AList.delete k xs) = (map_of xs)(k := None)"
  by (simp add: delete_conv')

end
