(* ===== verification/Hsa_Types.thy ===== *)
theory Hsa_Types
  imports Prelude
begin

text \<open>
  The enumerations of the HSA headers (\<open>include/hsa.h\<close>, \<open>include/hsa_ext_finalize.h\<close>)
  with their numeric values. A C enumeration variable can hold any value of its underlying
  type, and the API entry points test for it (the \<open>default:\<close> branches), so an
  enumeration that reaches such a test has one more constructor, \<open>..._unlisted v\<close>, for
  the values that the header does not name.
\<close>

section \<open>Status codes\<close>

datatype (plugins only: code size) hsa_status_t =
    HSA_STATUS_SUCCESS
  | HSA_STATUS_INFO_BREAK
  | HSA_STATUS_ERROR
  | HSA_STATUS_ERROR_INVALID_ARGUMENT
  | HSA_STATUS_ERROR_INVALID_QUEUE_CREATION
  | HSA_STATUS_ERROR_INVALID_ALLOCATION
  | HSA_STATUS_ERROR_INVALID_AGENT
  | HSA_STATUS_ERROR_INVALID_REGION
  | HSA_STATUS_ERROR_INVALID_SIGNAL
  | HSA_STATUS_ERROR_INVALID_QUEUE
  | HSA_STATUS_ERROR_OUT_OF_RESOURCES
  | HSA_STATUS_ERROR_INVALID_PACKET_FORMAT
  | HSA_STATUS_ERROR_RESOURCE_FREE
  | HSA_STATUS_ERROR_NOT_INITIALIZED
  | HSA_STATUS_ERROR_REFCOUNT_OVERFLOW
  | HSA_STATUS_ERROR_INCOMPATIBLE_ARGUMENTS
  | HSA_STATUS_ERROR_INVALID_INDEX
  | HSA_STATUS_ERROR_INVALID_ISA
  | HSA_STATUS_ERROR_INVALID_ISA_NAME
  | HSA_STATUS_ERROR_INVALID_CODE_OBJECT
  | HSA_STATUS_ERROR_INVALID_EXECUTABLE
  | HSA_STATUS_ERROR_FROZEN_EXECUTABLE
  | HSA_STATUS_ERROR_INVALID_SYMBOL_NAME
  | HSA_STATUS_ERROR_VARIABLE_ALREADY_DEFINED
  | HSA_STATUS_ERROR_VARIABLE_UNDEFINED
  | HSA_STATUS_ERROR_EXCEPTION
  | HSA_EXT_STATUS_ERROR_INVALID_PROGRAM
  | HSA_EXT_STATUS_ERROR_INVALID_MODULE
  | HSA_EXT_STATUS_ERROR_INCOMPATIBLE_MODULE
  | HSA_EXT_STATUS_ERROR_MODULE_ALREADY_INCLUDED
  | HSA_EXT_STATUS_ERROR_SYMBOL_MISMATCH
  | HSA_EXT_STATUS_ERROR_FINALIZATION_FAILED
  | HSA_EXT_STATUS_ERROR_DIRECTIVE_MISMATCH
  | hsa_status_t_unlisted u32

primrec hsa_status_t_value :: "hsa_status_t \<Rightarrow> u32" where
  "hsa_status_t_value HSA_STATUS_SUCCESS = 0x0"
| "hsa_status_t_value HSA_STATUS_INFO_BREAK = 0x1"
| "hsa_status_t_value HSA_STATUS_ERROR = 0x1000"
| "hsa_status_t_value HSA_STATUS_ERROR_INVALID_ARGUMENT = 0x1001"
| "hsa_status_t_value HSA_STATUS_ERROR_INVALID_QUEUE_CREATION = 0x1002"
| "hsa_status_t_value HSA_STATUS_ERROR_INVALID_ALLOCATION = 0x1003"
| "hsa_status_t_value HSA_STATUS_ERROR_INVALID_AGENT = 0x1004"
| "hsa_status_t_value HSA_STATUS_ERROR_INVALID_REGION = 0x1005"
| "hsa_status_t_value HSA_STATUS_ERROR_INVALID_SIGNAL = 0x1006"
| "hsa_status_t_value HSA_STATUS_ERROR_INVALID_QUEUE = 0x1007"
| "hsa_status_t_value HSA_STATUS_ERROR_OUT_OF_RESOURCES = 0x1008"
| "hsa_status_t_value HSA_STATUS_ERROR_INVALID_PACKET_FORMAT = 0x1009"
| "hsa_status_t_value HSA_STATUS_ERROR_RESOURCE_FREE = 0x100A"
| "hsa_status_t_value HSA_STATUS_ERROR_NOT_INITIALIZED = 0x100B"
| "hsa_status_t_value HSA_STATUS_ERROR_REFCOUNT_OVERFLOW = 0x100C"
| "hsa_status_t_value HSA_STATUS_ERROR_INCOMPATIBLE_ARGUMENTS = 0x100D"
| "hsa_status_t_value HSA_STATUS_ERROR_INVALID_INDEX = 0x100E"
| "hsa_status_t_value HSA_STATUS_ERROR_INVALID_ISA = 0x100F"
| "hsa_status_t_value HSA_STATUS_ERROR_INVALID_ISA_NAME = 0x1017"
| "hsa_status_t_value HSA_STATUS_ERROR_INVALID_CODE_OBJECT = 0x1010"
| "hsa_status_t_value HSA_STATUS_ERROR_INVALID_EXECUTABLE = 0x1011"
| "hsa_status_t_value HSA_STATUS_ERROR_FROZEN_EXECUTABLE = 0x1012"
| "hsa_status_t_value HSA_STATUS_ERROR_INVALID_SYMBOL_NAME = 0x1013"
| "hsa_status_t_value HSA_STATUS_ERROR_VARIABLE_ALREADY_DEFINED = 0x1014"
| "hsa_status_t_value HSA_STATUS_ERROR_VARIABLE_UNDEFINED = 0x1015"
| "hsa_status_t_value HSA_STATUS_ERROR_EXCEPTION = 0x1016"
| "hsa_status_t_value HSA_EXT_STATUS_ERROR_INVALID_PROGRAM = 0x2000"
| "hsa_status_t_value HSA_EXT_STATUS_ERROR_INVALID_MODULE = 0x2001"
| "hsa_status_t_value HSA_EXT_STATUS_ERROR_INCOMPATIBLE_MODULE = 0x2002"
| "hsa_status_t_value HSA_EXT_STATUS_ERROR_MODULE_ALREADY_INCLUDED = 0x2003"
| "hsa_status_t_value HSA_EXT_STATUS_ERROR_SYMBOL_MISMATCH = 0x2004"
| "hsa_status_t_value HSA_EXT_STATUS_ERROR_FINALIZATION_FAILED = 0x2005"
| "hsa_status_t_value HSA_EXT_STATUS_ERROR_DIRECTIVE_MISMATCH = 0x2006"
| "hsa_status_t_value (hsa_status_t_unlisted v) = v"

section \<open>System, extensions\<close>

datatype (plugins only: code size) hsa_endianness_t =
    HSA_ENDIANNESS_LITTLE
  | HSA_ENDIANNESS_BIG

primrec hsa_endianness_t_value :: "hsa_endianness_t \<Rightarrow> u32" where
  "hsa_endianness_t_value HSA_ENDIANNESS_LITTLE = 0"
| "hsa_endianness_t_value HSA_ENDIANNESS_BIG = 1"

datatype (plugins only: code size) hsa_machine_model_t =
    HSA_MACHINE_MODEL_SMALL
  | HSA_MACHINE_MODEL_LARGE
  | hsa_machine_model_t_unlisted u32

primrec hsa_machine_model_t_value :: "hsa_machine_model_t \<Rightarrow> u32" where
  "hsa_machine_model_t_value HSA_MACHINE_MODEL_SMALL = 0"
| "hsa_machine_model_t_value HSA_MACHINE_MODEL_LARGE = 1"
| "hsa_machine_model_t_value (hsa_machine_model_t_unlisted v) = v"

datatype (plugins only: code size) hsa_profile_t =
    HSA_PROFILE_BASE
  | HSA_PROFILE_FULL
  | hsa_profile_t_unlisted u32

primrec hsa_profile_t_value :: "hsa_profile_t \<Rightarrow> u32" where
  "hsa_profile_t_value HSA_PROFILE_BASE = 0"
| "hsa_profile_t_value HSA_PROFILE_FULL = 1"
| "hsa_profile_t_value (hsa_profile_t_unlisted v) = v"

datatype (plugins only: code size) hsa_system_info_t =
    HSA_SYSTEM_INFO_VERSION_MAJOR
  | HSA_SYSTEM_INFO_VERSION_MINOR
  | HSA_SYSTEM_INFO_TIMESTAMP
  | HSA_SYSTEM_INFO_TIMESTAMP_FREQUENCY
  | HSA_SYSTEM_INFO_SIGNAL_MAX_WAIT
  | HSA_SYSTEM_INFO_ENDIANNESS
  | HSA_SYSTEM_INFO_MACHINE_MODEL
  | HSA_SYSTEM_INFO_EXTENSIONS
  | hsa_system_info_t_unlisted u32

definition HSA_EXTENSION_FINALIZER :: u64 where
  "HSA_EXTENSION_FINALIZER = 0"

section \<open>Agents\<close>

datatype (plugins only: code size) hsa_agent_feature_t =
    HSA_AGENT_FEATURE_KERNEL_DISPATCH
  | HSA_AGENT_FEATURE_AGENT_DISPATCH

primrec hsa_agent_feature_t_value :: "hsa_agent_feature_t \<Rightarrow> u32" where
  "hsa_agent_feature_t_value HSA_AGENT_FEATURE_KERNEL_DISPATCH = 1"
| "hsa_agent_feature_t_value HSA_AGENT_FEATURE_AGENT_DISPATCH = 2"

datatype (plugins only: code size) hsa_device_type_t =
    HSA_DEVICE_TYPE_CPU
  | HSA_DEVICE_TYPE_GPU
  | HSA_DEVICE_TYPE_DSP

primrec hsa_device_type_t_value :: "hsa_device_type_t \<Rightarrow> u32" where
  "hsa_device_type_t_value HSA_DEVICE_TYPE_CPU = 0"
| "hsa_device_type_t_value HSA_DEVICE_TYPE_GPU = 1"
| "hsa_device_type_t_value HSA_DEVICE_TYPE_DSP = 2"

datatype (plugins only: code size) hsa_default_float_rounding_mode_t =
    HSA_DEFAULT_FLOAT_ROUNDING_MODE_DEFAULT
  | HSA_DEFAULT_FLOAT_ROUNDING_MODE_ZERO
  | HSA_DEFAULT_FLOAT_ROUNDING_MODE_NEAR
  | hsa_default_float_rounding_mode_t_unlisted u32

primrec hsa_default_float_rounding_mode_t_value :: "hsa_default_float_rounding_mode_t \<Rightarrow> u32" where
  "hsa_default_float_rounding_mode_t_value HSA_DEFAULT_FLOAT_ROUNDING_MODE_DEFAULT = 0"
| "hsa_default_float_rounding_mode_t_value HSA_DEFAULT_FLOAT_ROUNDING_MODE_ZERO = 1"
| "hsa_default_float_rounding_mode_t_value HSA_DEFAULT_FLOAT_ROUNDING_MODE_NEAR = 2"
| "hsa_default_float_rounding_mode_t_value (hsa_default_float_rounding_mode_t_unlisted v) = v"

datatype (plugins only: code size) hsa_agent_info_t =
    HSA_AGENT_INFO_NAME
  | HSA_AGENT_INFO_VENDOR_NAME
  | HSA_AGENT_INFO_FEATURE
  | HSA_AGENT_INFO_MACHINE_MODEL
  | HSA_AGENT_INFO_PROFILE
  | HSA_AGENT_INFO_DEFAULT_FLOAT_ROUNDING_MODE
  | HSA_AGENT_INFO_BASE_PROFILE_DEFAULT_FLOAT_ROUNDING_MODES
  | HSA_AGENT_INFO_FAST_F16_OPERATION
  | HSA_AGENT_INFO_WAVEFRONT_SIZE
  | HSA_AGENT_INFO_WORKGROUP_MAX_DIM
  | HSA_AGENT_INFO_WORKGROUP_MAX_SIZE
  | HSA_AGENT_INFO_GRID_MAX_DIM
  | HSA_AGENT_INFO_GRID_MAX_SIZE
  | HSA_AGENT_INFO_FBARRIER_MAX_SIZE
  | HSA_AGENT_INFO_QUEUES_MAX
  | HSA_AGENT_INFO_QUEUE_MIN_SIZE
  | HSA_AGENT_INFO_QUEUE_MAX_SIZE
  | HSA_AGENT_INFO_QUEUE_TYPE
  | HSA_AGENT_INFO_NODE
  | HSA_AGENT_INFO_DEVICE
  | HSA_AGENT_INFO_CACHE_SIZE
  | HSA_AGENT_INFO_ISA
  | HSA_AGENT_INFO_EXTENSIONS
  | HSA_AGENT_INFO_VERSION_MAJOR
  | HSA_AGENT_INFO_VERSION_MINOR
  | HSA_AMD_AGENT_INFO_COMPUTE_UNIT_COUNT
  | hsa_agent_info_t_unlisted u32

section \<open>Signals and queues\<close>

datatype (plugins only: code size) hsa_signal_condition_t =
    HSA_SIGNAL_CONDITION_EQ
  | HSA_SIGNAL_CONDITION_NE
  | HSA_SIGNAL_CONDITION_LT
  | HSA_SIGNAL_CONDITION_GTE
  | hsa_signal_condition_t_unlisted u32

datatype (plugins only: code size) hsa_wait_state_t =
    HSA_WAIT_STATE_BLOCKED
  | HSA_WAIT_STATE_ACTIVE

datatype (plugins only: code size) hsa_queue_type_t =
    HSA_QUEUE_TYPE_MULTI
  | HSA_QUEUE_TYPE_SINGLE
  | hsa_queue_type_t_unlisted u32

primrec hsa_queue_type_t_value :: "hsa_queue_type_t \<Rightarrow> u32" where
  "hsa_queue_type_t_value HSA_QUEUE_TYPE_MULTI = 0"
| "hsa_queue_type_t_value HSA_QUEUE_TYPE_SINGLE = 1"
| "hsa_queue_type_t_value (hsa_queue_type_t_unlisted v) = v"

section \<open>Memory regions\<close>

datatype (plugins only: code size) hsa_region_segment_t =
    HSA_REGION_SEGMENT_GLOBAL
  | HSA_REGION_SEGMENT_READONLY
  | HSA_REGION_SEGMENT_PRIVATE
  | HSA_REGION_SEGMENT_GROUP

primrec hsa_region_segment_t_value :: "hsa_region_segment_t \<Rightarrow> u32" where
  "hsa_region_segment_t_value HSA_REGION_SEGMENT_GLOBAL = 0"
| "hsa_region_segment_t_value HSA_REGION_SEGMENT_READONLY = 1"
| "hsa_region_segment_t_value HSA_REGION_SEGMENT_PRIVATE = 2"
| "hsa_region_segment_t_value HSA_REGION_SEGMENT_GROUP = 3"

definition HSA_REGION_GLOBAL_FLAG_KERNARG :: u32 where
  "HSA_REGION_GLOBAL_FLAG_KERNARG = 1"

definition HSA_REGION_GLOBAL_FLAG_FINE_GRAINED :: u32 where
  "HSA_REGION_GLOBAL_FLAG_FINE_GRAINED = 2"

datatype (plugins only: code size) hsa_region_info_t =
    HSA_REGION_INFO_SEGMENT
  | HSA_REGION_INFO_GLOBAL_FLAGS
  | HSA_REGION_INFO_SIZE
  | HSA_REGION_INFO_ALLOC_MAX_SIZE
  | HSA_REGION_INFO_RUNTIME_ALLOC_ALLOWED
  | HSA_REGION_INFO_RUNTIME_ALLOC_GRANULE
  | HSA_REGION_INFO_RUNTIME_ALLOC_ALIGNMENT
  | hsa_region_info_t_unlisted u32

primrec hsa_region_info_t_value :: "hsa_region_info_t \<Rightarrow> u32" where
  "hsa_region_info_t_value HSA_REGION_INFO_SEGMENT = 0"
| "hsa_region_info_t_value HSA_REGION_INFO_GLOBAL_FLAGS = 1"
| "hsa_region_info_t_value HSA_REGION_INFO_SIZE = 2"
| "hsa_region_info_t_value HSA_REGION_INFO_ALLOC_MAX_SIZE = 4"
| "hsa_region_info_t_value HSA_REGION_INFO_RUNTIME_ALLOC_ALLOWED = 5"
| "hsa_region_info_t_value HSA_REGION_INFO_RUNTIME_ALLOC_GRANULE = 6"
| "hsa_region_info_t_value HSA_REGION_INFO_RUNTIME_ALLOC_ALIGNMENT = 7"
| "hsa_region_info_t_value (hsa_region_info_t_unlisted v) = v"

section \<open>Symbols, code objects, executables, programs\<close>

datatype (plugins only: code size) hsa_symbol_kind_t =
    HSA_SYMBOL_KIND_VARIABLE
  | HSA_SYMBOL_KIND_KERNEL
  | HSA_SYMBOL_KIND_INDIRECT_FUNCTION

primrec hsa_symbol_kind_t_value :: "hsa_symbol_kind_t \<Rightarrow> u32" where
  "hsa_symbol_kind_t_value HSA_SYMBOL_KIND_VARIABLE = 0"
| "hsa_symbol_kind_t_value HSA_SYMBOL_KIND_KERNEL = 1"
| "hsa_symbol_kind_t_value HSA_SYMBOL_KIND_INDIRECT_FUNCTION = 2"

datatype (plugins only: code size) hsa_variable_allocation_t =
    HSA_VARIABLE_ALLOCATION_AGENT
  | HSA_VARIABLE_ALLOCATION_PROGRAM

primrec hsa_variable_allocation_t_value :: "hsa_variable_allocation_t \<Rightarrow> u32" where
  "hsa_variable_allocation_t_value HSA_VARIABLE_ALLOCATION_AGENT = 0"
| "hsa_variable_allocation_t_value HSA_VARIABLE_ALLOCATION_PROGRAM = 1"

datatype (plugins only: code size) hsa_symbol_linkage_t =
    HSA_SYMBOL_LINKAGE_MODULE
  | HSA_SYMBOL_LINKAGE_PROGRAM

primrec hsa_symbol_linkage_t_value :: "hsa_symbol_linkage_t \<Rightarrow> u32" where
  "hsa_symbol_linkage_t_value HSA_SYMBOL_LINKAGE_MODULE = 0"
| "hsa_symbol_linkage_t_value HSA_SYMBOL_LINKAGE_PROGRAM = 1"

datatype (plugins only: code size) hsa_variable_segment_t =
    HSA_VARIABLE_SEGMENT_GLOBAL
  | HSA_VARIABLE_SEGMENT_READONLY

primrec hsa_variable_segment_t_value :: "hsa_variable_segment_t \<Rightarrow> u32" where
  "hsa_variable_segment_t_value HSA_VARIABLE_SEGMENT_GLOBAL = 0"
| "hsa_variable_segment_t_value HSA_VARIABLE_SEGMENT_READONLY = 1"

datatype (plugins only: code size) hsa_isa_info_t =
    HSA_ISA_INFO_NAME_LENGTH
  | HSA_ISA_INFO_NAME
  | HSA_ISA_INFO_CALL_CONVENTION_COUNT
  | HSA_ISA_INFO_CALL_CONVENTION_INFO_WAVEFRONT_SIZE
  | HSA_ISA_INFO_CALL_CONVENTION_INFO_WAVEFRONTS_PER_COMPUTE_UNIT
  | hsa_isa_info_t_unlisted u32

datatype (plugins only: code size) hsa_code_object_info_t =
    HSA_CODE_OBJECT_INFO_VERSION
  | HSA_CODE_OBJECT_INFO_TYPE
  | HSA_CODE_OBJECT_INFO_ISA
  | HSA_CODE_OBJECT_INFO_MACHINE_MODEL
  | HSA_CODE_OBJECT_INFO_PROFILE
  | HSA_CODE_OBJECT_INFO_DEFAULT_FLOAT_ROUNDING_MODE
  | hsa_code_object_info_t_unlisted u32

datatype (plugins only: code size) hsa_code_symbol_info_t =
    HSA_CODE_SYMBOL_INFO_TYPE
  | HSA_CODE_SYMBOL_INFO_NAME_LENGTH
  | HSA_CODE_SYMBOL_INFO_NAME
  | HSA_CODE_SYMBOL_INFO_MODULE_NAME_LENGTH
  | HSA_CODE_SYMBOL_INFO_MODULE_NAME
  | HSA_CODE_SYMBOL_INFO_LINKAGE
  | HSA_CODE_SYMBOL_INFO_IS_DEFINITION
  | HSA_CODE_SYMBOL_INFO_VARIABLE_ALLOCATION
  | HSA_CODE_SYMBOL_INFO_VARIABLE_SEGMENT
  | HSA_CODE_SYMBOL_INFO_VARIABLE_ALIGNMENT
  | HSA_CODE_SYMBOL_INFO_VARIABLE_SIZE
  | HSA_CODE_SYMBOL_INFO_VARIABLE_IS_CONST
  | HSA_CODE_SYMBOL_INFO_KERNEL_KERNARG_SEGMENT_SIZE
  | HSA_CODE_SYMBOL_INFO_KERNEL_KERNARG_SEGMENT_ALIGNMENT
  | HSA_CODE_SYMBOL_INFO_KERNEL_GROUP_SEGMENT_SIZE
  | HSA_CODE_SYMBOL_INFO_KERNEL_PRIVATE_SEGMENT_SIZE
  | HSA_CODE_SYMBOL_INFO_KERNEL_DYNAMIC_CALLSTACK
  | HSA_CODE_SYMBOL_INFO_INDIRECT_FUNCTION_CALL_CONVENTION
  | hsa_code_symbol_info_t_unlisted u32

datatype (plugins only: code size) hsa_executable_state_t =
    HSA_EXECUTABLE_STATE_UNFROZEN
  | HSA_EXECUTABLE_STATE_FROZEN
  | hsa_executable_state_t_unlisted u32

primrec hsa_executable_state_t_value :: "hsa_executable_state_t \<Rightarrow> u32" where
  "hsa_executable_state_t_value HSA_EXECUTABLE_STATE_UNFROZEN = 0"
| "hsa_executable_state_t_value HSA_EXECUTABLE_STATE_FROZEN = 1"
| "hsa_executable_state_t_value (hsa_executable_state_t_unlisted v) = v"

datatype (plugins only: code size) hsa_executable_info_t =
    HSA_EXECUTABLE_INFO_PROFILE
  | HSA_EXECUTABLE_INFO_STATE
  | hsa_executable_info_t_unlisted u32

datatype (plugins only: code size) hsa_executable_symbol_info_t =
    HSA_EXECUTABLE_SYMBOL_INFO_TYPE
  | HSA_EXECUTABLE_SYMBOL_INFO_NAME_LENGTH
  | HSA_EXECUTABLE_SYMBOL_INFO_NAME
  | HSA_EXECUTABLE_SYMBOL_INFO_MODULE_NAME_LENGTH
  | HSA_EXECUTABLE_SYMBOL_INFO_MODULE_NAME
  | HSA_EXECUTABLE_SYMBOL_INFO_AGENT
  | HSA_EXECUTABLE_SYMBOL_INFO_VARIABLE_ADDRESS
  | HSA_EXECUTABLE_SYMBOL_INFO_LINKAGE
  | HSA_EXECUTABLE_SYMBOL_INFO_IS_DEFINITION
  | HSA_EXECUTABLE_SYMBOL_INFO_VARIABLE_ALLOCATION
  | HSA_EXECUTABLE_SYMBOL_INFO_VARIABLE_SEGMENT
  | HSA_EXECUTABLE_SYMBOL_INFO_VARIABLE_ALIGNMENT
  | HSA_EXECUTABLE_SYMBOL_INFO_VARIABLE_SIZE
  | HSA_EXECUTABLE_SYMBOL_INFO_VARIABLE_IS_CONST
  | HSA_EXECUTABLE_SYMBOL_INFO_KERNEL_OBJECT
  | HSA_EXECUTABLE_SYMBOL_INFO_KERNEL_KERNARG_SEGMENT_SIZE
  | HSA_EXECUTABLE_SYMBOL_INFO_KERNEL_KERNARG_SEGMENT_ALIGNMENT
  | HSA_EXECUTABLE_SYMBOL_INFO_KERNEL_GROUP_SEGMENT_SIZE
  | HSA_EXECUTABLE_SYMBOL_INFO_KERNEL_PRIVATE_SEGMENT_SIZE
  | HSA_EXECUTABLE_SYMBOL_INFO_KERNEL_DYNAMIC_CALLSTACK
  | HSA_EXECUTABLE_SYMBOL_INFO_INDIRECT_FUNCTION_OBJECT
  | HSA_EXECUTABLE_SYMBOL_INFO_INDIRECT_FUNCTION_CALL_CONVENTION
  | hsa_executable_symbol_info_t_unlisted u32

datatype (plugins only: code size) hsa_ext_program_info_t =
    HSA_EXT_PROGRAM_INFO_MACHINE_MODEL
  | HSA_EXT_PROGRAM_INFO_PROFILE
  | HSA_EXT_PROGRAM_INFO_DEFAULT_FLOAT_ROUNDING_MODE
  | hsa_ext_program_info_t_unlisted u32

end
