(* ===== verification/Status.thy ===== *)
theory Status
  imports Hsa_Types
begin

text \<open>
  \<open>hsa_status_string\<close> (\<open>src/hsa/hsa_status.cc\<close>): the text of a status code. Every code that the
  headers name maps to its own identifier; any other code is printed in hexadecimal and the
  call reports an invalid argument.
\<close>

section \<open>Definitions\<close>

text \<open>The \<open>STATUS_CASE\<close> rows: the identifier itself.\<close>

primrec status_name :: "hsa_status_t \<Rightarrow> string" where
  "status_name HSA_STATUS_SUCCESS = ''HSA_STATUS_SUCCESS''"
| "status_name HSA_STATUS_INFO_BREAK = ''HSA_STATUS_INFO_BREAK''"
| "status_name HSA_STATUS_ERROR = ''HSA_STATUS_ERROR''"
| "status_name HSA_STATUS_ERROR_INVALID_ARGUMENT = ''HSA_STATUS_ERROR_INVALID_ARGUMENT''"
| "status_name HSA_STATUS_ERROR_INVALID_QUEUE_CREATION = ''HSA_STATUS_ERROR_INVALID_QUEUE_CREATION''"
| "status_name HSA_STATUS_ERROR_INVALID_ALLOCATION = ''HSA_STATUS_ERROR_INVALID_ALLOCATION''"
| "status_name HSA_STATUS_ERROR_INVALID_AGENT = ''HSA_STATUS_ERROR_INVALID_AGENT''"
| "status_name HSA_STATUS_ERROR_INVALID_REGION = ''HSA_STATUS_ERROR_INVALID_REGION''"
| "status_name HSA_STATUS_ERROR_INVALID_SIGNAL = ''HSA_STATUS_ERROR_INVALID_SIGNAL''"
| "status_name HSA_STATUS_ERROR_INVALID_QUEUE = ''HSA_STATUS_ERROR_INVALID_QUEUE''"
| "status_name HSA_STATUS_ERROR_OUT_OF_RESOURCES = ''HSA_STATUS_ERROR_OUT_OF_RESOURCES''"
| "status_name HSA_STATUS_ERROR_INVALID_PACKET_FORMAT = ''HSA_STATUS_ERROR_INVALID_PACKET_FORMAT''"
| "status_name HSA_STATUS_ERROR_RESOURCE_FREE = ''HSA_STATUS_ERROR_RESOURCE_FREE''"
| "status_name HSA_STATUS_ERROR_NOT_INITIALIZED = ''HSA_STATUS_ERROR_NOT_INITIALIZED''"
| "status_name HSA_STATUS_ERROR_REFCOUNT_OVERFLOW = ''HSA_STATUS_ERROR_REFCOUNT_OVERFLOW''"
| "status_name HSA_STATUS_ERROR_INCOMPATIBLE_ARGUMENTS = ''HSA_STATUS_ERROR_INCOMPATIBLE_ARGUMENTS''"
| "status_name HSA_STATUS_ERROR_INVALID_INDEX = ''HSA_STATUS_ERROR_INVALID_INDEX''"
| "status_name HSA_STATUS_ERROR_INVALID_ISA = ''HSA_STATUS_ERROR_INVALID_ISA''"
| "status_name HSA_STATUS_ERROR_INVALID_ISA_NAME = ''HSA_STATUS_ERROR_INVALID_ISA_NAME''"
| "status_name HSA_STATUS_ERROR_INVALID_CODE_OBJECT = ''HSA_STATUS_ERROR_INVALID_CODE_OBJECT''"
| "status_name HSA_STATUS_ERROR_INVALID_EXECUTABLE = ''HSA_STATUS_ERROR_INVALID_EXECUTABLE''"
| "status_name HSA_STATUS_ERROR_FROZEN_EXECUTABLE = ''HSA_STATUS_ERROR_FROZEN_EXECUTABLE''"
| "status_name HSA_STATUS_ERROR_INVALID_SYMBOL_NAME = ''HSA_STATUS_ERROR_INVALID_SYMBOL_NAME''"
| "status_name HSA_STATUS_ERROR_VARIABLE_ALREADY_DEFINED = ''HSA_STATUS_ERROR_VARIABLE_ALREADY_DEFINED''"
| "status_name HSA_STATUS_ERROR_VARIABLE_UNDEFINED = ''HSA_STATUS_ERROR_VARIABLE_UNDEFINED''"
| "status_name HSA_STATUS_ERROR_EXCEPTION = ''HSA_STATUS_ERROR_EXCEPTION''"
| "status_name HSA_EXT_STATUS_ERROR_INVALID_PROGRAM = ''HSA_EXT_STATUS_ERROR_INVALID_PROGRAM''"
| "status_name HSA_EXT_STATUS_ERROR_INVALID_MODULE = ''HSA_EXT_STATUS_ERROR_INVALID_MODULE''"
| "status_name HSA_EXT_STATUS_ERROR_INCOMPATIBLE_MODULE = ''HSA_EXT_STATUS_ERROR_INCOMPATIBLE_MODULE''"
| "status_name HSA_EXT_STATUS_ERROR_MODULE_ALREADY_INCLUDED = ''HSA_EXT_STATUS_ERROR_MODULE_ALREADY_INCLUDED''"
| "status_name HSA_EXT_STATUS_ERROR_SYMBOL_MISMATCH = ''HSA_EXT_STATUS_ERROR_SYMBOL_MISMATCH''"
| "status_name HSA_EXT_STATUS_ERROR_FINALIZATION_FAILED = ''HSA_EXT_STATUS_ERROR_FINALIZATION_FAILED''"
| "status_name HSA_EXT_STATUS_ERROR_DIRECTIVE_MISMATCH = ''HSA_EXT_STATUS_ERROR_DIRECTIVE_MISMATCH''"
| "status_name (hsa_status_t_unlisted v) = []"

text \<open>\<open>std::hex\<close>: lower-case digits, no padding.\<close>

definition hex_digit :: "nat \<Rightarrow> char" where
  "hex_digit d = ''0123456789abcdef'' ! d"

fun hex_of_nat :: "nat \<Rightarrow> string" where
  "hex_of_nat n = (if n < 16 then [hex_digit n] else hex_of_nat (n div 16) @ [hex_digit (n mod 16)])"

declare hex_of_nat.simps [simp del]

definition hsa_status_string ::
  "'m base_state_scheme \<Rightarrow> hsa_status_t \<Rightarrow> addr \<Rightarrow> hsa_status_t \<times> string option" where
  "hsa_status_string s status status_string =
     (if \<not> isInitialized s then (HSA_STATUS_ERROR_NOT_INITIALIZED, None)
      else if status_string = nullptr then (HSA_STATUS_ERROR_INVALID_ARGUMENT, None)
      else case status of
             hsa_status_t_unlisted v \<Rightarrow>
               (HSA_STATUS_ERROR_INVALID_ARGUMENT,
                Some (''unknown status code 0x'' @ hex_of_nat (unat v)))
           | _ \<Rightarrow> (HSA_STATUS_SUCCESS, Some (status_name status)))"

section \<open>The names are pairwise distinct\<close>

definition listed_statuses :: "hsa_status_t list" where
  "listed_statuses =
    [HSA_STATUS_SUCCESS,
     HSA_STATUS_INFO_BREAK,
     HSA_STATUS_ERROR,
     HSA_STATUS_ERROR_INVALID_ARGUMENT,
     HSA_STATUS_ERROR_INVALID_QUEUE_CREATION,
     HSA_STATUS_ERROR_INVALID_ALLOCATION,
     HSA_STATUS_ERROR_INVALID_AGENT,
     HSA_STATUS_ERROR_INVALID_REGION,
     HSA_STATUS_ERROR_INVALID_SIGNAL,
     HSA_STATUS_ERROR_INVALID_QUEUE,
     HSA_STATUS_ERROR_OUT_OF_RESOURCES,
     HSA_STATUS_ERROR_INVALID_PACKET_FORMAT,
     HSA_STATUS_ERROR_RESOURCE_FREE,
     HSA_STATUS_ERROR_NOT_INITIALIZED,
     HSA_STATUS_ERROR_REFCOUNT_OVERFLOW,
     HSA_STATUS_ERROR_INCOMPATIBLE_ARGUMENTS,
     HSA_STATUS_ERROR_INVALID_INDEX,
     HSA_STATUS_ERROR_INVALID_ISA,
     HSA_STATUS_ERROR_INVALID_ISA_NAME,
     HSA_STATUS_ERROR_INVALID_CODE_OBJECT,
     HSA_STATUS_ERROR_INVALID_EXECUTABLE,
     HSA_STATUS_ERROR_FROZEN_EXECUTABLE,
     HSA_STATUS_ERROR_INVALID_SYMBOL_NAME,
     HSA_STATUS_ERROR_VARIABLE_ALREADY_DEFINED,
     HSA_STATUS_ERROR_VARIABLE_UNDEFINED,
     HSA_STATUS_ERROR_EXCEPTION,
     HSA_EXT_STATUS_ERROR_INVALID_PROGRAM,
     HSA_EXT_STATUS_ERROR_INVALID_MODULE,
     HSA_EXT_STATUS_ERROR_INCOMPATIBLE_MODULE,
     HSA_EXT_STATUS_ERROR_MODULE_ALREADY_INCLUDED,
     HSA_EXT_STATUS_ERROR_SYMBOL_MISMATCH,
     HSA_EXT_STATUS_ERROR_FINALIZATION_FAILED,
     HSA_EXT_STATUS_ERROR_DIRECTIVE_MISMATCH]"

primrec is_listed :: "hsa_status_t \<Rightarrow> bool" where
  "is_listed HSA_STATUS_SUCCESS = True"
| "is_listed HSA_STATUS_INFO_BREAK = True"
| "is_listed HSA_STATUS_ERROR = True"
| "is_listed HSA_STATUS_ERROR_INVALID_ARGUMENT = True"
| "is_listed HSA_STATUS_ERROR_INVALID_QUEUE_CREATION = True"
| "is_listed HSA_STATUS_ERROR_INVALID_ALLOCATION = True"
| "is_listed HSA_STATUS_ERROR_INVALID_AGENT = True"
| "is_listed HSA_STATUS_ERROR_INVALID_REGION = True"
| "is_listed HSA_STATUS_ERROR_INVALID_SIGNAL = True"
| "is_listed HSA_STATUS_ERROR_INVALID_QUEUE = True"
| "is_listed HSA_STATUS_ERROR_OUT_OF_RESOURCES = True"
| "is_listed HSA_STATUS_ERROR_INVALID_PACKET_FORMAT = True"
| "is_listed HSA_STATUS_ERROR_RESOURCE_FREE = True"
| "is_listed HSA_STATUS_ERROR_NOT_INITIALIZED = True"
| "is_listed HSA_STATUS_ERROR_REFCOUNT_OVERFLOW = True"
| "is_listed HSA_STATUS_ERROR_INCOMPATIBLE_ARGUMENTS = True"
| "is_listed HSA_STATUS_ERROR_INVALID_INDEX = True"
| "is_listed HSA_STATUS_ERROR_INVALID_ISA = True"
| "is_listed HSA_STATUS_ERROR_INVALID_ISA_NAME = True"
| "is_listed HSA_STATUS_ERROR_INVALID_CODE_OBJECT = True"
| "is_listed HSA_STATUS_ERROR_INVALID_EXECUTABLE = True"
| "is_listed HSA_STATUS_ERROR_FROZEN_EXECUTABLE = True"
| "is_listed HSA_STATUS_ERROR_INVALID_SYMBOL_NAME = True"
| "is_listed HSA_STATUS_ERROR_VARIABLE_ALREADY_DEFINED = True"
| "is_listed HSA_STATUS_ERROR_VARIABLE_UNDEFINED = True"
| "is_listed HSA_STATUS_ERROR_EXCEPTION = True"
| "is_listed HSA_EXT_STATUS_ERROR_INVALID_PROGRAM = True"
| "is_listed HSA_EXT_STATUS_ERROR_INVALID_MODULE = True"
| "is_listed HSA_EXT_STATUS_ERROR_INCOMPATIBLE_MODULE = True"
| "is_listed HSA_EXT_STATUS_ERROR_MODULE_ALREADY_INCLUDED = True"
| "is_listed HSA_EXT_STATUS_ERROR_SYMBOL_MISMATCH = True"
| "is_listed HSA_EXT_STATUS_ERROR_FINALIZATION_FAILED = True"
| "is_listed HSA_EXT_STATUS_ERROR_DIRECTIVE_MISMATCH = True"
| "is_listed (hsa_status_t_unlisted v) = False"

lemma listed_statuses_complete: "is_listed a \<Longrightarrow> a \<in> set listed_statuses"
  by (cases a) (simp_all add: listed_statuses_def)

lemma distinct_status_names: "distinct (map status_name listed_statuses)"
  by code_simp

lemma status_name_inject:
  assumes "is_listed a" and "is_listed b" and "status_name a = status_name b"
  shows "a = b"
  using assms distinct_status_names
  by (auto simp: distinct_map inj_on_def dest: listed_statuses_complete)

lemma status_name_head: "is_listed a \<Longrightarrow> take 1 (status_name a) = ''H''"
  by (cases a) simp_all

section \<open>Hexadecimal printing is invertible\<close>

definition hex_digit_value :: "char \<Rightarrow> nat" where
  "hex_digit_value c = length (takeWhile (\<lambda>d. d \<noteq> c) ''0123456789abcdef'')"

definition hex_value :: "string \<Rightarrow> nat" where
  "hex_value = foldl (\<lambda>acc c. acc * 16 + hex_digit_value c) 0"

lemma hex_digit_roundtrip: "d < 16 \<Longrightarrow> hex_digit_value (hex_digit d) = d"
proof -
  assume "d < 16"
  then have "d \<in> set [0..<16]" by simp
  moreover have "\<forall>d \<in> set [0..<16]. hex_digit_value (hex_digit d) = d" by code_simp
  ultimately show ?thesis by blast
qed

lemma hex_roundtrip: "hex_value (hex_of_nat n) = n"
proof (induction n rule: hex_of_nat.induct)
  case (1 n)
  then show ?case
    by (subst hex_of_nat.simps) (simp add: hex_value_def hex_digit_roundtrip)
qed

lemma hex_of_nat_inject: "hex_of_nat a = hex_of_nat b \<Longrightarrow> a = b"
  by (metis hex_roundtrip)

lemma hsa_status_string_eq:
  assumes "isInitialized s" and "p \<noteq> nullptr"
  shows "hsa_status_string s a p =
    (if is_listed a then (HSA_STATUS_SUCCESS, Some (status_name a))
     else case a of hsa_status_t_unlisted v \<Rightarrow>
       (HSA_STATUS_ERROR_INVALID_ARGUMENT, Some (''unknown status code 0x'' @ hex_of_nat (unat v))))"
  using assms by (cases a) (simp_all add: hsa_status_string_def)

end
