(* ===== verification/Region_Interface.thy ===== *)
theory Region_Interface
  imports Hsa_Types
begin

text \<open>
  The interface \<open>MemoryRegion\<close> (\<open>include/MemoryRegion.hh\<close>): a region hands out chunks and
  takes them back. The laws are what the queues, the signals and the memory API rely on; they
  are discharged for both implementations, \<open>FixedMemoryRegion\<close> and \<open>CPUMemoryRegion\<close>.
  \<open>live\<close> is the set of addresses of the chunks handed out and not yet freed, \<open>request\<close> says
  which requests the caller may make in a state.
\<close>

locale memory_region =
  fixes alloc :: "'r \<Rightarrow> u64 \<Rightarrow> u64 \<Rightarrow> (addr \<times> 'r) outcome"
    and release :: "'r \<Rightarrow> addr \<Rightarrow> (bool \<times> 'r) outcome"
    and live :: "'r \<Rightarrow> addr set"
    and ok :: "'r \<Rightarrow> bool"
    and request :: "'r \<Rightarrow> u64 \<Rightarrow> u64 \<Rightarrow> bool"
  assumes alloc_ok: "ok r \<Longrightarrow> request r n a \<Longrightarrow> alloc r n a = Inr (p, r') \<Longrightarrow> ok r'"
    and alloc_live: "ok r \<Longrightarrow> request r n a \<Longrightarrow> alloc r n a = Inr (p, r') \<Longrightarrow>
      live r' = (if p = nullptr then live r else insert p (live r))"
    and alloc_fresh: "ok r \<Longrightarrow> request r n a \<Longrightarrow> alloc r n a = Inr (p, r') \<Longrightarrow> p \<notin> live r"
    and release_total: "ok r \<Longrightarrow> \<exists>b r'. release r p = Inr (b, r')"
    and release_ok: "ok r \<Longrightarrow> release r p = Inr (b, r') \<Longrightarrow> ok r'"
    and release_found: "ok r \<Longrightarrow> release r p = Inr (b, r') \<Longrightarrow> b \<longleftrightarrow> p \<in> live r"
    and release_live: "ok r \<Longrightarrow> release r p = Inr (b, r') \<Longrightarrow> live r' = live r - {p}"
begin

text \<open>A chunk that was handed out can be freed once, and freeing it restores the live set.\<close>

lemma alloc_release:
  assumes "ok r" "request r n a" "alloc r n a = Inr (p, r')" "p \<noteq> nullptr"
  shows "\<exists>r''. release r' p = Inr (True, r'') \<and> live r'' = live r \<and> ok r''"
proof -
  have ok': "ok r'" using assms by (blast intro: alloc_ok)
  then obtain b r'' where rel: "release r' p = Inr (b, r'')"
    using release_total by blast
  have "b" using release_found [OF ok' rel] alloc_live [OF assms(1-3)] assms(4) by simp
  moreover have "live r'' = live r"
    using release_live [OF ok' rel] alloc_live [OF assms(1-3)] alloc_fresh [OF assms(1-3)] assms(4)
    by simp
  ultimately show ?thesis using rel release_ok [OF ok' rel] by (intro exI [of _ r'']) simp
qed

lemma release_twice:
  assumes "ok r" "release r p = Inr (b, r')"
  shows "\<exists>r''. release r' p = Inr (False, r'') \<and> live r'' = live r'"
proof -
  have ok': "ok r'" using assms by (rule release_ok)
  then obtain b' r'' where rel: "release r' p = Inr (b', r'')"
    using release_total by blast
  have "\<not> b'" using release_found [OF ok' rel] release_live [OF assms] by simp
  moreover have "live r'' = live r'"
    using release_live [OF ok' rel] release_live [OF assms] by simp
  ultimately show ?thesis using rel by auto
qed

lemma release_unknown:
  assumes "ok r" "p \<notin> live r"
  shows "\<exists>r'. release r p = Inr (False, r') \<and> live r' = live r"
proof -
  obtain b r' where rel: "release r p = Inr (b, r')"
    using release_total [OF assms(1)] by blast
  then show ?thesis
    using release_found [OF assms(1) rel] release_live [OF assms(1) rel] assms(2) by auto
qed

end

end
