(* ===== verification/Fixed_Region.thy ===== *)
theory Fixed_Region
  imports Region_Interface
begin

text \<open>
  \<open>FixedMemoryRegion\<close> (\<open>src/FixedMemoryRegion.hh\<close>, \<open>src/FixedMemoryRegion.cc\<close>): the allocator
  that hands out chunks of one fixed address range. \<open>Allocations\<close> is the \<open>std::map\<close> from chunk
  address to chunk size, as a list in key order. Addresses and sizes are 64-bit words, so every
  sum of the code wraps around as it does in C++.
\<close>

section \<open>State and operations\<close>

record FixedMemoryRegion =
  Allocations :: "(u64 \<times> u64) list"
  StartAddress :: u64
  FreeSpaceStart :: u64
  RegionSize :: u64
  RegionEnd :: u64
  RegionSegment :: hsa_region_segment_t

definition FixedMemoryRegion_new ::
  "hsa_region_segment_t \<Rightarrow> u64 \<Rightarrow> u64 \<Rightarrow> FixedMemoryRegion" where
  "FixedMemoryRegion_new Segment RegionStart Size =
     \<lparr>Allocations = [], StartAddress = RegionStart, FreeSpaceStart = RegionStart,
      RegionSize = Size, RegionEnd = RegionStart + Size - 1, RegionSegment = Segment\<rparr>"

text \<open>\<open>Allocations[Addr] = Size\<close> and \<open>Allocations.erase\<close> on the ordered map.\<close>

fun map_insert :: "u64 \<Rightarrow> u64 \<Rightarrow> (u64 \<times> u64) list \<Rightarrow> (u64 \<times> u64) list" where
  "map_insert k v [] = [(k, v)]"
| "map_insert k v ((k', v') # xs) =
     (if k < k' then (k, v) # (k', v') # xs
      else if k = k' then (k, v) # xs
      else (k', v') # map_insert k v xs)"

fun map_erase :: "u64 \<Rightarrow> (u64 \<times> u64) list \<Rightarrow> (u64 \<times> u64) list" where
  "map_erase k [] = []"
| "map_erase k ((k', v') # xs) = (if k = k' then xs else (k', v') # map_erase k xs)"

text \<open>\<open>x % Align > 0 ? Align - x % Align : 0\<close>\<close>

definition align_pad :: "u64 \<Rightarrow> u64 \<Rightarrow> u64" where
  "align_pad x Align = (if x mod Align > 0 then Align - x mod Align else 0)"

text \<open>The fallback loop over the neighbouring chunks: the first gap that is large enough.\<close>

fun first_fit :: "(u64 \<times> u64) list \<Rightarrow> u64 \<Rightarrow> u64 \<Rightarrow> u64" where
  "first_fit ((ChunkStart, ChunkSize) # (NextStart, NextSize) # rest) Size Align =
     (let ChunkEnd = ChunkStart + ChunkSize; AlignAdd = align_pad ChunkEnd Align
      in if ChunkEnd + Size + AlignAdd \<le> NextStart then ChunkEnd + AlignAdd
         else first_fit ((NextStart, NextSize) # rest) Size Align)"
| "first_fit _ Size Align = 0"

text \<open>The end of the last chunk, or the remembered free-space start when there is none.\<close>

definition free_space_start :: "FixedMemoryRegion \<Rightarrow> u64" where
  "free_space_start R =
     (if Allocations R \<noteq> [] then fst (last (Allocations R)) + snd (last (Allocations R))
      else FreeSpaceStart R)"

definition FixedMemoryRegion_allocate ::
  "FixedMemoryRegion \<Rightarrow> u64 \<Rightarrow> u64 \<Rightarrow> (addr \<times> FixedMemoryRegion) outcome" where
  "FixedMemoryRegion_allocate R Size Align =
     (if \<not> Align > 0 then Inl Assertion_Failure
      else
        let Start = free_space_start R;
            fits = Start + Size + align_pad Start Align \<le> RegionEnd R;
            Addr0 = (if fits then Start + align_pad Start Align else 0);
            Start' = (if fits then Addr0 + Size else Start);
            Addr = (if Addr0 = 0 \<and> Allocations R \<noteq> []
                    then first_fit (Allocations R) Size Align else Addr0)
        in if Addr = 0 then Inl Aborted
           else if Addr mod Align \<noteq> 0 then Inl Assertion_Failure
           else Inr (Addr, R\<lparr>Allocations := map_insert Addr Size (Allocations R),
                             FreeSpaceStart := Start'\<rparr>))"

definition FixedMemoryRegion_free ::
  "FixedMemoryRegion \<Rightarrow> addr \<Rightarrow> (bool \<times> FixedMemoryRegion) outcome" where
  "FixedMemoryRegion_free R Ptr =
     (let Allocations' = map_erase Ptr (Allocations R)
      in Inr (length Allocations' < length (Allocations R), R\<lparr>Allocations := Allocations'\<rparr>))"

definition FixedMemoryRegion_getRegion :: "FixedMemoryRegion \<Rightarrow> hsa_region_segment_t" where
  "FixedMemoryRegion_getRegion R = RegionSegment R"

definition FixedMemoryRegion_getGlobalFlags :: "FixedMemoryRegion \<Rightarrow> u32" where
  "FixedMemoryRegion_getGlobalFlags R =
     HSA_REGION_GLOBAL_FLAG_KERNARG OR HSA_REGION_GLOBAL_FLAG_FINE_GRAINED"

definition FixedMemoryRegion_getSize :: "FixedMemoryRegion \<Rightarrow> u64" where
  "FixedMemoryRegion_getSize R = RegionSize R"

definition FixedMemoryRegion_getMaxAllocSize :: "FixedMemoryRegion \<Rightarrow> u64" where
  "FixedMemoryRegion_getMaxAllocSize R = RegionSize R"

section \<open>The chunk list\<close>

text \<open>
  \<open>chunks_ok lo xs hi\<close>: the chunks are nonempty, lie between \<open>lo\<close> and \<open>hi\<close>, are in address
  order and do not overlap. The addresses are compared as natural numbers, so nothing wraps.
\<close>

fun chunks_ok :: "nat \<Rightarrow> (u64 \<times> u64) list \<Rightarrow> nat \<Rightarrow> bool" where
  "chunks_ok lo [] hi \<longleftrightarrow> lo \<le> hi"
| "chunks_ok lo ((s, z) # xs) hi \<longleftrightarrow>
     lo \<le> unat s \<and> 0 < unat z \<and> chunks_ok (unat s + unat z) xs hi"

definition chunk_bytes :: "u64 \<times> u64 \<Rightarrow> nat set" where
  "chunk_bytes c = {unat (fst c) ..< unat (fst c) + unat (snd c)}"

definition end_of :: "nat \<Rightarrow> (u64 \<times> u64) list \<Rightarrow> nat" where
  "end_of lo xs = (if xs = [] then lo else unat (fst (last xs)) + unat (snd (last xs)))"

lemma end_of_simps [simp]:
  "end_of lo [] = lo"
  "end_of lo ((s, z) # xs) = end_of (unat s + unat z) xs"
  by (auto simp: end_of_def)

lemma chunks_ok_le: "chunks_ok lo xs hi \<Longrightarrow> lo \<le> hi"
  by (induction xs arbitrary: lo) force+

lemma chunks_ok_append:
  "chunks_ok lo (xs @ ys) hi \<longleftrightarrow>
     chunks_ok lo xs (end_of lo xs) \<and> chunks_ok (end_of lo xs) ys hi"
  by (induction xs arbitrary: lo) auto

lemma chunks_ok_end: "chunks_ok lo xs hi \<Longrightarrow> lo \<le> end_of lo xs \<and> end_of lo xs \<le> hi"
  by (induction xs arbitrary: lo) force+

lemma chunks_ok_member:
  "chunks_ok lo xs hi \<Longrightarrow> c \<in> set xs \<Longrightarrow>
     lo \<le> unat (fst c) \<and> 0 < unat (snd c) \<and> unat (fst c) + unat (snd c) \<le> hi"
proof (induction xs arbitrary: lo)
  case (Cons d xs)
  obtain s z where d: "d = (s, z)" by (cases d)
  from Cons.prems have "chunks_ok (unat s + unat z) xs hi" by (simp add: d)
  with Cons show ?case by (force simp: d dest: chunks_ok_le)
qed simp

lemma chunks_ok_mono: "chunks_ok lo xs hi \<Longrightarrow> lo' \<le> lo \<Longrightarrow> hi \<le> hi' \<Longrightarrow> chunks_ok lo' xs hi'"
  by (induction xs arbitrary: lo lo') auto

lemma chunks_ok_erase: "chunks_ok lo xs hi \<Longrightarrow> chunks_ok lo (map_erase k xs) hi"
  by (induction k xs arbitrary: lo rule: map_erase.induct)
     (auto elim: chunks_ok_mono)

lemma chunks_ok_disjoint:
  assumes "chunks_ok lo (xs @ c # ys) hi" and "d \<in> set xs \<union> set ys"
  shows "chunk_bytes c \<inter> chunk_bytes d = {}"
proof -
  obtain s z where c: "c = (s, z)" by (cases c)
  from assms(1) have xs: "chunks_ok lo xs (end_of lo xs)" and s: "end_of lo xs \<le> unat s"
    and ys: "chunks_ok (unat s + unat z) ys hi"
    by (auto simp: chunks_ok_append c)
  from assms(2) show ?thesis
  proof
    assume "d \<in> set xs"
    with chunks_ok_member [OF xs this] s show ?thesis by (auto simp: chunk_bytes_def c)
  next
    assume "d \<in> set ys"
    with chunks_ok_member [OF ys this] show ?thesis by (auto simp: chunk_bytes_def c)
  qed
qed

lemma map_insert_middle:
  assumes "\<And>c. c \<in> set xs \<Longrightarrow> fst c < k" and "\<And>c. c \<in> set ys \<Longrightarrow> k < fst c"
  shows "map_insert k v (xs @ ys) = xs @ (k, v) # ys"
  using assms
proof (induction xs)
  case Nil
  show ?case
  proof (cases ys)
    case (Cons c cs)
    with Nil(2) [of c] show ?thesis by (cases c) simp
  qed simp
next
  case (Cons c xs)
  have "fst c < k" using Cons.prems(1) by simp
  with Cons show ?case by (cases c) (auto dest: order.asym)
qed

lemma chunks_ok_insert:
  assumes ok: "chunks_ok lo (xs @ ys) hi"
    and after: "end_of lo xs \<le> unat k"
    and before: "chunks_ok (unat k + unat v) ys hi" and v: "0 < unat v"
  shows "map_insert k v (xs @ ys) = xs @ (k, v) # ys"
    and "chunks_ok lo (xs @ (k, v) # ys) hi"
proof -
  from ok have xs: "chunks_ok lo xs (end_of lo xs)" by (simp add: chunks_ok_append)
  show "map_insert k v (xs @ ys) = xs @ (k, v) # ys"
  proof (rule map_insert_middle)
    fix c assume "c \<in> set xs"
    with chunks_ok_member [OF xs this] after show "fst c < k"
      by (simp add: word_less_nat_alt)
  next
    fix c assume "c \<in> set ys"
    with chunks_ok_member [OF before this] v show "k < fst c"
      by (simp add: word_less_nat_alt)
  qed
  show "chunks_ok lo (xs @ (k, v) # ys) hi"
    using xs after before v by (simp add: chunks_ok_append)
qed

section \<open>Alignment\<close>

lemma align_pad_bound: "0 < Align \<Longrightarrow> unat (align_pad x Align) < unat Align"
proof -
  assume a: "0 < Align"
  then have "x mod Align < Align" by (simp add: word_mod_less_divisor)
  then have "unat (Align - x mod Align) = unat Align - unat (x mod Align)"
    by (simp add: unat_sub)
  with a show ?thesis
    by (auto simp: align_pad_def word_less_nat_alt)
qed

lemma align_pad_aligned:
  assumes "0 < Align" and "unat x + unat Align < 2 ^ 64"
  shows "(x + align_pad x Align) mod Align = 0"
proof -
  have nat: "unat (x + align_pad x Align) = unat x + unat (align_pad x Align)"
    using align_pad_bound [OF assms(1), of x] assms(2) by (intro unat_add_no_overflow) simp
  have "(unat x + unat (align_pad x Align)) mod unat Align = 0"
  proof (cases "x mod Align = 0")
    case True
    then have "unat x mod unat Align = 0" by (metis unat_0 unat_mod)
    with True show ?thesis by (simp add: align_pad_def)
  next
    case False
    then have pos: "0 < x mod Align" by (simp add: word_gt_0)
    have lt: "x mod Align < Align" using assms(1) by (simp add: word_mod_less_divisor)
    then have pad: "unat (align_pad x Align) = unat Align - unat x mod unat Align"
      using pos by (simp add: align_pad_def unat_sub unat_mod)
    have "unat x mod unat Align \<le> unat Align"
      using assms(1) by (simp add: word_less_nat_alt less_imp_le)
    then have "unat x + (unat Align - unat x mod unat Align) =
        unat x div unat Align * unat Align + unat Align"
      using div_mult_mod_eq [of "unat x" "unat Align"] by linarith
    then show ?thesis by (simp add: pad)
  qed
  then have "unat ((x + align_pad x Align) mod Align) = 0"
    by (simp add: unat_mod nat)
  then show ?thesis by (simp add: unat_eq_0)
qed

section \<open>The invariant and the allocator\<close>

definition region_inv :: "FixedMemoryRegion \<Rightarrow> bool" where
  "region_inv R \<longleftrightarrow>
     0 < StartAddress R \<and> StartAddress R \<le> FreeSpaceStart R \<and> FreeSpaceStart R \<le> RegionEnd R \<and>
     chunks_ok (unat (StartAddress R)) (Allocations R) (unat (RegionEnd R))"

text \<open>
  The requests whose sums do not wrap around: a nonzero size and an alignment such that both fit
  between the end of the region and the end of the address space.
\<close>

definition roomy :: "FixedMemoryRegion \<Rightarrow> u64 \<Rightarrow> u64 \<Rightarrow> bool" where
  "roomy R Size Align \<longleftrightarrow>
     0 < Align \<and> 0 < Size \<and> unat (RegionEnd R) + unat Size + unat Align < 2 ^ 64"

definition fixed_live :: "FixedMemoryRegion \<Rightarrow> addr set" where
  "fixed_live R = fst ` set (Allocations R)"

lemma region_inv_new:
  assumes "0 < RegionStart" "0 < Size" "unat RegionStart + unat Size \<le> 2 ^ 64"
  shows "region_inv (FixedMemoryRegion_new Segment RegionStart Size)"
proof -
  have "unat RegionStart + unat (Size - 1) < 2 ^ 64"
    using assms by (simp add: unat_sub word_le_nat_alt word_less_nat_alt)
  then have "unat (RegionStart + (Size - 1)) = unat RegionStart + unat (Size - 1)"
    by (intro unat_add_no_overflow) simp
  then show ?thesis
    using assms by (simp add: region_inv_def FixedMemoryRegion_new_def word_le_nat_alt algebra_simps)
qed

lemma free_space_start_bounds:
  assumes "region_inv R"
  shows "end_of (unat (StartAddress R)) (Allocations R) \<le> unat (free_space_start R)"
    and "unat (free_space_start R) \<le> unat (RegionEnd R)"
    and "StartAddress R \<le> free_space_start R"
proof -
  note inv = assms [unfolded region_inv_def]
  have ok: "chunks_ok (unat (StartAddress R)) (Allocations R) (unat (RegionEnd R))"
    using inv by blast
  note ends = chunks_ok_end [OF ok]
  have "end_of (unat (StartAddress R)) (Allocations R) \<le> unat (free_space_start R) \<and>
    unat (free_space_start R) \<le> unat (RegionEnd R)"
  proof (cases "Allocations R = []")
    case True
    then show ?thesis using inv by (simp add: free_space_start_def word_le_nat_alt)
  next
    case False
    have "unat (RegionEnd R) < 2 ^ 64" by (rule unat_u64_lt)
    then have "unat (free_space_start R) =
        unat (fst (last (Allocations R))) + unat (snd (last (Allocations R)))"
      using False ends by (auto simp: free_space_start_def end_of_def intro!: unat_add_no_overflow)
    with False ends show ?thesis by (simp add: end_of_def)
  qed
  then show "end_of (unat (StartAddress R)) (Allocations R) \<le> unat (free_space_start R)"
    and "unat (free_space_start R) \<le> unat (RegionEnd R)"
    and "StartAddress R \<le> free_space_start R"
    using ends by (auto simp: word_le_nat_alt)
qed

text \<open>A sum of the code that stays below the end of the region plus the request does not wrap.\<close>

lemma fit_sum:
  assumes "unat x \<le> hi" "hi + unat Size + unat Align < 2 ^ 64" "0 < Align"
  shows "unat (x + Size + align_pad x Align) = unat x + unat Size + unat (align_pad x Align)"
    and "unat (x + align_pad x Align) = unat x + unat (align_pad x Align)"
proof -
  note pad = align_pad_bound [OF assms(3), of x]
  have 1: "unat (x + Size) = unat x + unat Size"
    using assms by (intro unat_add_no_overflow) simp
  with pad assms show "unat (x + Size + align_pad x Align) = unat x + unat Size + unat (align_pad x Align)"
    by (subst unat_add_no_overflow) auto
  show "unat (x + align_pad x Align) = unat x + unat (align_pad x Align)"
    using pad assms by (intro unat_add_no_overflow) simp
qed

lemma first_fit_spec:
  assumes "chunks_ok lo xs hi" "hi + unat Size + unat Align < 2 ^ 64" "0 < Align"
    and "first_fit xs Size Align = p" "p \<noteq> 0"
  shows "\<exists>ys zs. xs = ys @ zs \<and> end_of lo ys \<le> unat p \<and> lo \<le> unat p \<and>
    chunks_ok (unat p + unat Size) zs hi \<and> p mod Align = 0"
  using assms
proof (induction xs Size Align arbitrary: lo rule: first_fit.induct)
  case (1 s z s' z' rest Size Align)
  let ?e = "s + z"
  let ?a = "align_pad ?e Align"
  have ok: "lo \<le> unat s" "0 < unat z" "unat s + unat z \<le> unat s'" "0 < unat z'"
      "chunks_ok (unat s' + unat z') rest hi"
    using "1.prems"(1) by auto
  have hi: "unat s' + unat z' \<le> hi" using ok(5) by (rule chunks_ok_le)
  then have lt: "unat s + unat z < 2 ^ 64" using ok(3) "1.prems"(2) by linarith
  then have e: "unat ?e = unat s + unat z" by (intro unat_add_no_overflow) simp
  have ehi: "unat ?e \<le> hi" using e ok(3) hi by linarith
  note sums = fit_sum [OF ehi "1.prems"(2,3)]
  show ?case
  proof (cases "?e + Size + ?a \<le> s'")
    case True
    then have p: "p = ?e + ?a" using "1.prems"(4) by (simp add: Let_def)
    have fits: "unat p + unat Size \<le> unat s'"
      using True sums by (simp add: p word_le_nat_alt)
    have "unat ?e + unat Align < 2 ^ 64" using ehi "1.prems"(2) by linarith
    then have "p mod Align = 0" using align_pad_aligned [OF "1.prems"(3)] by (simp add: p)
    then show ?thesis
      using fits ok sums(2) e
      by (intro exI [of _ "[(s, z)]"] exI [of _ "(s', z') # rest"]) (auto simp: p)
  next
    case False
    then have "first_fit ((s', z') # rest) Size Align = p"
      using "1.prems"(4) by (simp add: Let_def)
    moreover have "chunks_ok (unat s + unat z) ((s', z') # rest) hi" using ok by simp
    ultimately obtain ys zs where
      "(s', z') # rest = ys @ zs" "end_of (unat s + unat z) ys \<le> unat p" "unat s + unat z \<le> unat p"
      "chunks_ok (unat p + unat Size) zs hi" "p mod Align = 0"
      using "1.IH" [OF refl refl False] "1.prems"(2,3,5) by blast
    then show ?thesis using ok(1)
      by (intro exI [of _ "(s, z) # ys"] exI [of _ zs]) auto
  qed
qed auto

text \<open>
  The specification of \<open>allocate\<close>: the new chunk is put between the chunks before and after
  it, aligned, and the invariant is kept.
\<close>

lemma allocate_spec:
  assumes inv: "region_inv R" and room: "roomy R Size Align"
    and alloc: "FixedMemoryRegion_allocate R Size Align = Inr (p, R')"
  shows "\<exists>xs ys. Allocations R = xs @ ys \<and> Allocations R' = xs @ (p, Size) # ys \<and>
      chunks_ok (unat (StartAddress R)) (xs @ (p, Size) # ys) (unat (RegionEnd R))"
    and "p mod Align = 0" and "p \<noteq> nullptr"
    and "StartAddress R' = StartAddress R" "RegionEnd R' = RegionEnd R" "RegionSize R' = RegionSize R"
    and "StartAddress R \<le> FreeSpaceStart R'" "FreeSpaceStart R' \<le> RegionEnd R"
proof -
  let ?lo = "unat (StartAddress R)" and ?hi = "unat (RegionEnd R)"
  define S where "S = free_space_start R"
  define fits where "fits \<longleftrightarrow> S + Size + align_pad S Align \<le> RegionEnd R"
  define A0 where "A0 = (if fits then S + align_pad S Align else 0)"
  define A where "A = (if A0 = 0 \<and> Allocations R \<noteq> [] then first_fit (Allocations R) Size Align else A0)"
  have ok: "chunks_ok ?lo (Allocations R) ?hi" and pos: "0 < ?lo"
    using inv by (auto simp: region_inv_def word_less_nat_alt)
  have Al: "0 < Align" and Sz: "0 < unat Size" and lt: "?hi + unat Size + unat Align < 2 ^ 64"
    using room by (auto simp: roomy_def word_less_nat_alt)
  note fss = free_space_start_bounds [OF inv, folded S_def]
  note sums = fit_sum [OF fss(2) lt Al]
  have "FixedMemoryRegion_allocate R Size Align =
      (if A = 0 then Inl Aborted else if A mod Align \<noteq> 0 then Inl Assertion_Failure
       else Inr (A, R\<lparr>Allocations := map_insert A Size (Allocations R),
                      FreeSpaceStart := if fits then A0 + Size else S\<rparr>))"
    unfolding FixedMemoryRegion_allocate_def Let_def A_def A0_def fits_def S_def using Al by simp
  then have p: "p = A" "A \<noteq> 0" "A mod Align = 0"
    and R': "R' = R\<lparr>Allocations := map_insert A Size (Allocations R),
        FreeSpaceStart := if fits then A0 + Size else S\<rparr>"
    using alloc by (simp_all split: if_splits)
  show "p mod Align = 0" "p \<noteq> nullptr" using p by auto
  show "StartAddress R' = StartAddress R" "RegionEnd R' = RegionEnd R" "RegionSize R' = RegionSize R"
    by (simp_all add: R')
  have "\<exists>xs ys. Allocations R = xs @ ys \<and> end_of ?lo xs \<le> unat p \<and>
      chunks_ok (unat p + unat Size) ys ?hi"
  proof (cases fits)
    case True
    have "unat (S + align_pad S Align) \<noteq> 0" using sums(2) fss(3) pos by (simp add: word_le_nat_alt)
    then have "p = S + align_pad S Align" using True p(1) by (auto simp: A_def A0_def)
    moreover have "unat S + unat Size + unat (align_pad S Align) \<le> ?hi"
      using True sums(1) by (simp add: fits_def word_le_nat_alt)
    ultimately show ?thesis using fss(1) sums(2)
      by (intro exI [of _ "Allocations R"] exI [of _ "[]"]) simp
  next
    case False
    then have "first_fit (Allocations R) Size Align = p" using p by (auto simp: A_def A0_def split: if_splits)
    then show ?thesis using first_fit_spec [OF ok lt Al _ \<open>p \<noteq> nullptr\<close>] by blast
  qed
  then obtain xs ys where xy: "Allocations R = xs @ ys" "end_of ?lo xs \<le> unat p"
      "chunks_ok (unat p + unat Size) ys ?hi" by blast
  note ins = chunks_ok_insert [OF ok [unfolded xy(1)] xy(2,3) Sz]
  have "Allocations R' = xs @ (p, Size) # ys" using ins(1) by (simp add: R' p(1) [symmetric] xy(1))
  then show "\<exists>xs ys. Allocations R = xs @ ys \<and> Allocations R' = xs @ (p, Size) # ys \<and>
      chunks_ok ?lo (xs @ (p, Size) # ys) ?hi"
    using xy(1) ins(2) by blast
  have "StartAddress R \<le> FreeSpaceStart R' \<and> FreeSpaceStart R' \<le> RegionEnd R"
  proof (cases fits)
    case True
    then have "FreeSpaceStart R' = S + Size + align_pad S Align" by (simp add: R' A0_def algebra_simps)
    with True sums(1) fss(3) show ?thesis by (simp add: fits_def word_le_nat_alt)
  next
    case False
    with fss show ?thesis by (simp add: R' word_le_nat_alt)
  qed
  then show "StartAddress R \<le> FreeSpaceStart R'" "FreeSpaceStart R' \<le> RegionEnd R" by auto
qed

lemma allocate_inv:
  assumes "region_inv R" "roomy R Size Align" "FixedMemoryRegion_allocate R Size Align = Inr (p, R')"
  shows "region_inv R'"
  using allocate_spec [OF assms] assms(1) by (auto simp: region_inv_def)

lemma allocate_live:
  assumes "region_inv R" "roomy R Size Align" "FixedMemoryRegion_allocate R Size Align = Inr (p, R')"
  shows "fixed_live R' = insert p (fixed_live R)" and "p \<notin> fixed_live R"
proof -
  obtain xs ys where xy: "Allocations R = xs @ ys" "Allocations R' = xs @ (p, Size) # ys"
    and ok: "chunks_ok (unat (StartAddress R)) (xs @ (p, Size) # ys) (unat (RegionEnd R))"
    using allocate_spec(1) [OF assms] by blast
  show "fixed_live R' = insert p (fixed_live R)" by (auto simp: fixed_live_def xy)
  show "p \<notin> fixed_live R"
  proof
    assume "p \<in> fixed_live R"
    then obtain c where "c \<in> set xs \<union> set ys" "fst c = p" by (auto simp: fixed_live_def xy)
    then obtain z where d: "(p, z) \<in> set xs \<union> set ys" by (metis prod.collapse)
    then have "0 < unat z" using chunks_ok_member [OF ok, of "(p, z)"] by auto
    then have "unat p \<in> chunk_bytes (p, z)" by (simp add: chunk_bytes_def)
    moreover have "unat p \<in> chunk_bytes (p, Size)"
      using chunks_ok_member [OF ok, of "(p, Size)"] by (simp add: chunk_bytes_def)
    ultimately show False using chunks_ok_disjoint [OF ok d] by blast
  qed
qed

lemma chunks_ok_distinct: "chunks_ok lo xs hi \<Longrightarrow> distinct (map fst xs)"
proof (induction xs arbitrary: lo)
  case (Cons c xs)
  obtain s z where c: "c = (s, z)" by (cases c)
  with Cons.prems have ok: "chunks_ok (unat s + unat z) xs hi" and z: "0 < unat z" by auto
  have "s \<notin> fst ` set xs"
  proof
    assume "s \<in> fst ` set xs"
    then obtain d where "d \<in> set xs" "fst d = s" by force
    with chunks_ok_member [OF ok \<open>d \<in> set xs\<close>] z show False by simp
  qed
  with Cons.IH [OF ok] show ?case by (simp add: c)
qed simp

lemma map_erase_filter: "distinct (map fst xs) \<Longrightarrow> map_erase k xs = filter (\<lambda>c. fst c \<noteq> k) xs"
proof (induction k xs rule: map_erase.induct)
  case (2 k k' v' xs)
  have "filter (\<lambda>c. fst c \<noteq> k') xs = xs" using "2.prems" by (intro filter_True) auto
  with 2 show ?case by auto
qed simp

lemma length_map_erase: "length (map_erase k xs) < length xs \<longleftrightarrow> k \<in> fst ` set xs"
proof (induction k xs rule: map_erase.induct)
  case (2 k k' v' xs)
  then show ?case by auto
qed simp

lemma free_spec:
  assumes "region_inv R" "FixedMemoryRegion_free R p = Inr (b, R')"
  shows "b \<longleftrightarrow> p \<in> fixed_live R" and "region_inv R'"
    and "Allocations R' = filter (\<lambda>c. fst c \<noteq> p) (Allocations R)"
    and "fixed_live R' = fixed_live R - {p}"
proof -
  have ok: "chunks_ok (unat (StartAddress R)) (Allocations R) (unat (RegionEnd R))"
    using assms(1) by (simp add: region_inv_def)
  show "b \<longleftrightarrow> p \<in> fixed_live R"
    using assms(2) by (auto simp: FixedMemoryRegion_free_def Let_def length_map_erase fixed_live_def)
  show "region_inv R'"
    using assms by (auto simp: FixedMemoryRegion_free_def Let_def region_inv_def chunks_ok_erase)
  show alloc': "Allocations R' = filter (\<lambda>c. fst c \<noteq> p) (Allocations R)"
    using assms(2) map_erase_filter [OF chunks_ok_distinct [OF ok], of p]
    by (auto simp: FixedMemoryRegion_free_def Let_def)
  show "fixed_live R' = fixed_live R - {p}" by (auto simp: fixed_live_def alloc')
qed

interpretation fixed: memory_region FixedMemoryRegion_allocate FixedMemoryRegion_free
  fixed_live region_inv roomy
proof unfold_locales
  fix r n a p r'
  assume a: "region_inv r" "roomy r n a" "FixedMemoryRegion_allocate r n a = Inr (p, r')"
  show "region_inv r'" using a by (rule allocate_inv)
  show "fixed_live r' = (if p = nullptr then fixed_live r else insert p (fixed_live r))"
    using allocate_live(1) [OF a] allocate_spec(3) [OF a] by simp
  show "p \<notin> fixed_live r" using a by (rule allocate_live(2))
next
  fix r p b r'
  show "\<exists>b r'. FixedMemoryRegion_free r p = Inr (b, r')"
    by (simp add: FixedMemoryRegion_free_def Let_def)
  assume a: "region_inv r" "FixedMemoryRegion_free r p = Inr (b, r')"
  show "region_inv r'" "b \<longleftrightarrow> p \<in> fixed_live r" "fixed_live r' = fixed_live r - {p}"
    using free_spec [OF a] by auto
qed

text \<open>When the space behind the last chunk is large enough, the chunk is taken there.\<close>

lemma allocate_at_end:
  assumes "region_inv R" "roomy R Size Align"
    and "unat (free_space_start R) + unat Size + unat (align_pad (free_space_start R) Align)
         \<le> unat (RegionEnd R)"
  shows "\<exists>R'. FixedMemoryRegion_allocate R Size Align =
    Inr (free_space_start R + align_pad (free_space_start R) Align, R')"
proof -
  let ?S = "free_space_start R"
  have Al: "0 < Align" and lt: "unat (RegionEnd R) + unat Size + unat Align < 2 ^ 64"
    using assms(2) by (auto simp: roomy_def)
  note fss = free_space_start_bounds [OF assms(1)]
  note sums = fit_sum [OF fss(2) lt Al]
  have fits: "?S + Size + align_pad ?S Align \<le> RegionEnd R"
    using sums(1) assms(3) by (simp add: word_le_nat_alt)
  have "0 < unat (StartAddress R)" using assms(1) by (simp add: region_inv_def word_less_nat_alt)
  then have nz: "?S + align_pad ?S Align \<noteq> 0"
    using sums(2) fss(3) by (auto simp: word_le_nat_alt unat_eq_0 [symmetric] simp del: unat_eq_0)
  have "unat ?S + unat Align < 2 ^ 64" using fss(2) lt by linarith
  then have al: "(?S + align_pad ?S Align) mod Align = 0" by (rule align_pad_aligned [OF Al])
  show ?thesis
    using fits nz al Al unfolding FixedMemoryRegion_allocate_def Let_def by simp
qed

text \<open>
  Without chunks nothing but the remembered free-space start decides: when the request does not
  fit behind it, \<open>allocate\<close> aborts, however much of the region has been freed.
\<close>

lemma allocate_empty_abort:
  assumes "Allocations R = []" "0 < Align"
    and "\<not> FreeSpaceStart R + Size + align_pad (FreeSpaceStart R) Align \<le> RegionEnd R"
  shows "FixedMemoryRegion_allocate R Size Align = Inl Aborted"
  using assms by (simp add: FixedMemoryRegion_allocate_def Let_def free_space_start_def)

section \<open>Property\<close>



end
