(* ===== verification/Atomics.thy ===== *)
theory Atomics
  imports Prelude
begin

text \<open>
  Memory orders and the atomic operations on one memory cell: \<open>common/MemoryOrder\<close> and
  \<open>common/Atomic\<close>. A cell is a word; each operation returns what the C++ template returns
  together with the new contents of the cell. The memory order is passed on to the builtin
  and has no effect on the value (the operations of one cell are totally ordered by C++11's
  coherence), but the translation of the orders is part of the model because a wrong order
  is undefined behaviour in C++: \<open>ToCompareExchangeFailure\<close> has no case for two of them.
\<close>

section \<open>Memory orders\<close>

datatype MemoryOrder =
    Relaxed
  | Consume
  | Acquire
  | Release
  | AcquireRelease
  | SequentiallyConsistent

datatype std_memory_order =
    memory_order_relaxed
  | memory_order_consume
  | memory_order_acquire
  | memory_order_release
  | memory_order_acq_rel
  | memory_order_seq_cst

fun ToStdMemoryOrder :: "MemoryOrder \<Rightarrow> std_memory_order" where
  "ToStdMemoryOrder Relaxed = memory_order_relaxed"
| "ToStdMemoryOrder Consume = memory_order_consume"
| "ToStdMemoryOrder Acquire = memory_order_acquire"
| "ToStdMemoryOrder Release = memory_order_release"
| "ToStdMemoryOrder AcquireRelease = memory_order_acq_rel"
| "ToStdMemoryOrder SequentiallyConsistent = memory_order_seq_cst"

text \<open>GCC's \<open>__ATOMIC_*\<close> constants have the values 0 to 5.\<close>

fun ToGCCMemoryOrder :: "MemoryOrder \<Rightarrow> int" where
  "ToGCCMemoryOrder Relaxed = 0"
| "ToGCCMemoryOrder Consume = 1"
| "ToGCCMemoryOrder Acquire = 2"
| "ToGCCMemoryOrder Release = 3"
| "ToGCCMemoryOrder AcquireRelease = 4"
| "ToGCCMemoryOrder SequentiallyConsistent = 5"

text \<open>
  The switch has no case for \<open>Consume\<close> and \<open>SequentiallyConsistent\<close>: control runs off the end
  of a function with a result, which is undefined behaviour.
\<close>

fun ToCompareExchangeFailure :: "MemoryOrder \<Rightarrow> MemoryOrder outcome" where
  "ToCompareExchangeFailure AcquireRelease = Inr Acquire"
| "ToCompareExchangeFailure Acquire = Inr Acquire"
| "ToCompareExchangeFailure Release = Inr Relaxed"
| "ToCompareExchangeFailure Relaxed = Inr Relaxed"
| "ToCompareExchangeFailure _ = Inl Undefined_Behaviour"

section \<open>Atomic operations: result and new contents of the cell\<close>

definition Atomic_Load :: "'w::len word \<Rightarrow> MemoryOrder \<Rightarrow> 'w word" where
  "Atomic_Load cell MO = cell"

definition Atomic_Store :: "'w::len word \<Rightarrow> 'w word \<Rightarrow> MemoryOrder \<Rightarrow> 'w word" where
  "Atomic_Store Value cell MO = Value"

definition Atomic_FetchAdd :: "'w::len word \<Rightarrow> 'w word \<Rightarrow> MemoryOrder \<Rightarrow> 'w word \<times> 'w word" where
  "Atomic_FetchAdd Increment cell MO = (cell, cell + Increment)"

definition Atomic_FetchSub :: "'w::len word \<Rightarrow> 'w word \<Rightarrow> MemoryOrder \<Rightarrow> 'w word \<times> 'w word" where
  "Atomic_FetchSub Decrement cell MO = (cell, cell - Decrement)"

definition Atomic_FetchXor :: "'w::len word \<Rightarrow> 'w word \<Rightarrow> MemoryOrder \<Rightarrow> 'w word \<times> 'w word" where
  "Atomic_FetchXor Value cell MO = (cell, cell XOR Value)"

definition Atomic_FetchOr :: "'w::len word \<Rightarrow> 'w word \<Rightarrow> MemoryOrder \<Rightarrow> 'w word \<times> 'w word" where
  "Atomic_FetchOr Value cell MO = (cell, cell OR Value)"

definition Atomic_FetchAnd :: "'w::len word \<Rightarrow> 'w word \<Rightarrow> MemoryOrder \<Rightarrow> 'w word \<times> 'w word" where
  "Atomic_FetchAnd Value cell MO = (cell, cell AND Value)"

definition Atomic_Exchange :: "'w::len word \<Rightarrow> 'w word \<Rightarrow> MemoryOrder \<Rightarrow> 'w word \<times> 'w word" where
  "Atomic_Exchange Value cell MO = (cell, Value)"

text \<open>
  \<open>__atomic_compare_exchange_n\<close> (strong): on success the cell takes the desired value; on
  failure the observed value is written to the expected cell. The result is the flag, the new
  contents of the cell and the new contents of \<open>*ExpectedValue\<close>.
\<close>

definition Atomic_CompareExchange ::
  "'w::len word \<Rightarrow> 'w word \<Rightarrow> 'w word \<Rightarrow> MemoryOrder \<Rightarrow> (bool \<times> 'w word \<times> 'w word) outcome" where
  "Atomic_CompareExchange cell ExpectedValue DesiredValue Success =
     and_then (ToCompareExchangeFailure Success)
       (\<lambda>Failure. Inr (if cell = ExpectedValue then (True, DesiredValue, ExpectedValue)
                   else (False, cell, cell)))"

lemmas atomic_defs = Atomic_Load_def Atomic_Store_def Atomic_FetchAdd_def Atomic_FetchSub_def
  Atomic_FetchXor_def Atomic_FetchOr_def Atomic_FetchAnd_def Atomic_Exchange_def

section \<open>Facts\<close>

definition gcc_of_std :: "std_memory_order \<Rightarrow> int" where
  "gcc_of_std o' = (case o' of memory_order_relaxed \<Rightarrow> 0 | memory_order_consume \<Rightarrow> 1
     | memory_order_acquire \<Rightarrow> 2 | memory_order_release \<Rightarrow> 3 | memory_order_acq_rel \<Rightarrow> 4
     | memory_order_seq_cst \<Rightarrow> 5)"

lemma orders_agree: "ToGCCMemoryOrder MO = gcc_of_std (ToStdMemoryOrder MO)"
  by (cases MO) (simp_all add: gcc_of_std_def)

text \<open>The orders that the compare-exchange entry points use.\<close>

definition cas_order :: "MemoryOrder \<Rightarrow> bool" where
  "cas_order MO \<longleftrightarrow> MO \<in> {AcquireRelease, Acquire, Release, Relaxed}"

lemma cas_order_simps [simp]:
  "cas_order AcquireRelease" "cas_order Acquire" "cas_order Release" "cas_order Relaxed"
  "\<not> cas_order Consume" "\<not> cas_order SequentiallyConsistent"
  by (simp_all add: cas_order_def)

text \<open>
  The observed value is what ends up in \<open>*ExpectedValue\<close> in both cases, and the failure order
  is never stronger than the success order and never a release.
\<close>

lemma CompareExchange_observed:
  assumes "cas_order MO"
  shows "Atomic_CompareExchange cell e d MO =
    Inr (cell = e, if cell = e then d else cell, cell)"
  using assms by (cases MO) (auto simp: Atomic_CompareExchange_def)

lemma failure_order_defined: "cas_order MO \<longleftrightarrow> (\<exists>F. ToCompareExchangeFailure MO = Inr F)"
  by (cases MO) simp_all

lemma failure_order_weaker:
  "ToCompareExchangeFailure MO = Inr F \<Longrightarrow>
     ToGCCMemoryOrder F \<le> ToGCCMemoryOrder MO \<and> F \<noteq> Release \<and> F \<noteq> AcquireRelease"
  by (cases MO) auto

end
