(* ===== verification/Object_Registry.thy ===== *)
theory Object_Registry
  imports Prelude
begin

text \<open>
  \<open>HSAObjectMapping\<close> (\<open>include/HSAObjectMapping.hh\<close>): the map between the opaque 64-bit
  handles of the HSA API and the runtime's objects. Each class that derives from the template
  has one static \<open>Registry\<close>, a hash map from handles to object pointers. A registry is an
  association list in the map's iteration order; its lookups do not depend on the order.
\<close>

section \<open>The registry and its operations\<close>

type_synonym registry = "(u64 \<times> addr) list"

text \<open>\<open>fromHSAObject\<close>: a find that yields null for an unknown handle.\<close>

definition fromHSAObject :: "registry \<Rightarrow> u64 \<Rightarrow> addr" where
  "fromHSAObject R handle = (case map_of R handle of Some p \<Rightarrow> p | None \<Rightarrow> nullptr)"

text \<open>\<open>fromHandle\<close>: \<open>operator[]\<close>, which inserts a null pointer for an unknown handle.\<close>

definition fromHandle :: "registry \<Rightarrow> u64 \<Rightarrow> addr \<times> registry" where
  "fromHandle R handle =
     (case map_of R handle of Some p \<Rightarrow> (p, R) | None \<Rightarrow> (nullptr, (handle, nullptr) # R))"

definition registerObject :: "registry \<Rightarrow> u64 \<Rightarrow> addr \<Rightarrow> registry" where
  "registerObject R handle Object = AList.update handle Object R"

definition deregisterObject :: "registry \<Rightarrow> u64 \<Rightarrow> registry" where
  "deregisterObject R handle = AList.delete handle R"

text \<open>The destructor erases the first item that holds the object, whatever its handle.\<close>

fun destroyMapping :: "registry \<Rightarrow> addr \<Rightarrow> registry" where
  "destroyMapping [] this = []"
| "destroyMapping ((h, p) # R) this = (if p = this then R else (h, p) # destroyMapping R this)"

text \<open>
  \<open>garbageCollect\<close>: delete the object of the first item until the registry is empty. Deleting
  a null pointer does nothing, so the first item stays and the loop does not end. The second
  component collects the objects deleted, in order.
\<close>

partial_function (option) garbageCollect :: "registry \<Rightarrow> addr list \<Rightarrow> (registry \<times> addr list) option" where
  "garbageCollect R deleted =
     (if R = [] then Some ([], deleted)
      else if snd (hd R) = nullptr then garbageCollect R deleted
      else garbageCollect (destroyMapping R (snd (hd R))) (deleted @ [snd (hd R)]))"

section \<open>Well-formed registries\<close>

text \<open>
  Handles are unique (it is a map), every object is registered under one handle and no item
  holds a null pointer.
\<close>

definition wf_registry :: "registry \<Rightarrow> bool" where
  "wf_registry R \<longleftrightarrow> distinct (map fst R) \<and> distinct (map snd R) \<and> nullptr \<notin> set (map snd R)"

definition objects_of :: "registry \<Rightarrow> addr set" where
  "objects_of R = set (map snd R)"

lemma wf_registry_empty [simp]: "wf_registry []"
  by (simp add: wf_registry_def)

lemma objects_of_empty [simp]: "objects_of [] = {}"
  by (simp add: objects_of_def)

lemma snd_update_fresh:
  "h \<notin> set (map fst R) \<Longrightarrow> AList.update h p R = R @ [(h, p)]"
  by (induction R) auto

lemma wf_registerObject:
  assumes "wf_registry R" and "h \<notin> set (map fst R)" and "p \<noteq> nullptr" and "p \<notin> objects_of R"
  shows "wf_registry (registerObject R h p)"
  using assms
  by (auto simp: wf_registry_def registerObject_def snd_update_fresh objects_of_def)

lemma set_destroyMapping: "set (destroyMapping R p) \<subseteq> set R"
  by (induction R p rule: destroyMapping.induct) auto

lemma destroyMapping_filter:
  "distinct (map snd R) \<Longrightarrow> destroyMapping R p = filter (\<lambda>e. snd e \<noteq> p) R"
proof (induction R p rule: destroyMapping.induct)
  case (2 h q R p)
  have "filter (\<lambda>e. snd e \<noteq> q) R = R"
    using "2.prems" by (intro filter_True) auto
  with 2 show ?case by auto
qed simp

lemma wf_destroyMapping: "wf_registry R \<Longrightarrow> wf_registry (destroyMapping R p)"
  by (auto simp: wf_registry_def destroyMapping_filter distinct_map_filter)

lemma objects_of_destroyMapping:
  "wf_registry R \<Longrightarrow> objects_of (destroyMapping R p) = objects_of R - {p}"
  by (auto simp: wf_registry_def destroyMapping_filter objects_of_def)

lemma length_destroyMapping:
  "p \<in> set (map snd R) \<Longrightarrow> length (destroyMapping R p) < length R"
  by (induction R p rule: destroyMapping.induct) auto

lemma map_of_filter_snd:
  assumes "distinct (map fst R)"
  shows "map_of (filter (\<lambda>e. snd e \<noteq> p) R) h = (if map_of R h = Some p then None else map_of R h)"
  using assms
proof (induction R)
  case (Cons e R)
  obtain k q where e: "e = (k, q)" by (cases e)
  have "map_of R k = None" using Cons.prems by (simp add: e map_of_eq_None_iff)
  with Cons show ?case by (auto simp: e)
qed simp

lemma map_of_destroyMapping:
  "wf_registry R \<Longrightarrow> map_of (destroyMapping R p) h = (if map_of R h = Some p then None else map_of R h)"
  by (simp add: wf_registry_def destroyMapping_filter map_of_filter_snd)

section \<open>The interface: a directory of live objects\<close>

text \<open>
  What the API entry points rely on: a handle finds the object that was registered under it
  until that object is destroyed, and destroying an object leaves no handle to it.
\<close>

locale object_directory =
  fixes find :: "'d \<Rightarrow> u64 \<Rightarrow> addr"
    and enter :: "'d \<Rightarrow> u64 \<Rightarrow> addr \<Rightarrow> 'd"
    and remove :: "'d \<Rightarrow> addr \<Rightarrow> 'd"
    and live :: "'d \<Rightarrow> addr set"
    and valid :: "'d \<Rightarrow> bool"
  assumes find_enter: "find (enter d h p) h' = (if h' = h then p else find d h')"
    and find_remove: "valid d \<Longrightarrow> p \<noteq> nullptr \<Longrightarrow>
      find (remove d p) h = (if find d h = p then nullptr else find d h)"
    and valid_enter: "valid d \<Longrightarrow> find d h = nullptr \<Longrightarrow> p \<noteq> nullptr \<Longrightarrow> p \<notin> live d \<Longrightarrow>
      valid (enter d h p)"
    and valid_remove: "valid d \<Longrightarrow> valid (remove d p)"
    and live_enter: "valid d \<Longrightarrow> find d h = nullptr \<Longrightarrow> live (enter d h p) = insert p (live d)"
    and live_remove: "valid d \<Longrightarrow> live (remove d p) = live d - {p}"
    and find_live: "valid d \<Longrightarrow> find d h \<noteq> nullptr \<Longrightarrow> find d h \<in> live d"
begin

lemma find_enter_same [simp]: "find (enter d h p) h = p"
  by (simp add: find_enter)

lemma find_enter_other [simp]: "h' \<noteq> h \<Longrightarrow> find (enter d h p) h' = find d h'"
  by (simp add: find_enter)

lemma destroyed_is_gone:
  assumes "valid d" and "p \<noteq> nullptr"
  shows "find (remove d p) h \<noteq> p"
  using assms by (simp add: find_remove)

lemma others_survive:
  assumes "valid d" and "p \<noteq> nullptr" and "find d h \<noteq> p"
  shows "find (remove d p) h = find d h"
  using assms by (simp add: find_remove)

lemma create_destroy_roundtrip:
  assumes "valid d" and "find d h = nullptr" and "p \<noteq> nullptr" and "p \<notin> live d"
  shows "find (remove (enter d h p) p) = find d"
proof
  fix h'
  have v: "valid (enter d h p)" using assms by (rule valid_enter)
  show "find (remove (enter d h p) p) h' = find d h'"
  proof (cases "h' = h")
    case True
    with v assms show ?thesis by (simp add: find_remove)
  next
    case False
    have "find d h' \<noteq> p" using find_live [OF assms(1), of h'] assms(3,4) by auto
    with False v assms show ?thesis by (simp add: find_remove)
  qed
qed

lemma live_after_roundtrip:
  assumes "valid d" and "find d h = nullptr" and "p \<noteq> nullptr" and "p \<notin> live d"
  shows "live (remove (enter d h p) p) = live d"
  using assms by (simp add: live_remove live_enter valid_enter)

end

lemma map_of_not_null:
  assumes "wf_registry R" and "map_of R h = Some p"
  shows "p \<noteq> nullptr"
proof -
  from assms(2) have "(h, p) \<in> set R" by (rule map_of_SomeD)
  then have "p \<in> set (map snd R)" by force
  with assms(1) show ?thesis by (auto simp: wf_registry_def)
qed

lemma find_eq_nullptr:
  assumes "wf_registry R"
  shows "fromHSAObject R h = nullptr \<longleftrightarrow> h \<notin> set (map fst R)"
proof (cases "map_of R h")
  case None
  then have "h \<notin> fst ` set R" by (simp only: map_of_eq_None_iff not_False_eq_True)
  moreover have "fromHSAObject R h = nullptr" using None by (simp add: fromHSAObject_def)
  ultimately show ?thesis by simp
next
  case (Some p)
  then have "h \<in> set (map fst R)" by (force dest: map_of_SomeD)
  with Some map_of_not_null [OF assms Some] show ?thesis by (simp add: fromHSAObject_def)
qed

interpretation om: object_directory fromHSAObject registerObject destroyMapping objects_of wf_registry
proof unfold_locales
  fix d h p h'
  show "fromHSAObject (registerObject d h p) h' = (if h' = h then p else fromHSAObject d h')"
    by (simp add: fromHSAObject_def registerObject_def)
next
  fix d p h
  assume "wf_registry d" and "p \<noteq> nullptr"
  then show "fromHSAObject (destroyMapping d p) h =
      (if fromHSAObject d h = p then nullptr else fromHSAObject d h)"
    by (auto simp: fromHSAObject_def map_of_destroyMapping split: option.splits)
next
  fix d h p
  assume a: "wf_registry d" "fromHSAObject d h = nullptr"
  then have "h \<notin> set (map fst d)" by (simp only: find_eq_nullptr simp_thms)
  note fresh = this
  show "wf_registry (registerObject d h p)" if "p \<noteq> nullptr" "p \<notin> objects_of d"
    using a(1) fresh that by (rule wf_registerObject)
  show "objects_of (registerObject d h p) = insert p (objects_of d)"
    using fresh by (simp add: registerObject_def snd_update_fresh objects_of_def)
next
  fix d p
  assume "wf_registry d"
  then show "wf_registry (destroyMapping d p)" and "objects_of (destroyMapping d p) = objects_of d - {p}"
    by (simp_all add: wf_destroyMapping objects_of_destroyMapping)
next
  fix d h
  assume "wf_registry d" and "fromHSAObject d h \<noteq> nullptr"
  then show "fromHSAObject d h \<in> objects_of d"
    by (force simp: fromHSAObject_def objects_of_def dest: map_of_SomeD split: option.splits)
qed

section \<open>Collecting the registry\<close>

text \<open>
  On a well-formed registry the collection ends, empties the registry and deletes every object
  exactly once, in iteration order.
\<close>

lemma garbageCollect_step:
  assumes "wf_registry ((h, p) # R)"
  shows "garbageCollect ((h, p) # R) del = garbageCollect R (del @ [p])"
  using assms by (subst garbageCollect.simps) (simp add: wf_registry_def)

lemma garbageCollect_wf:
  "wf_registry R \<Longrightarrow> garbageCollect R del = Some ([], del @ map snd R)"
proof (induction R arbitrary: del)
  case Nil
  show ?case by (subst garbageCollect.simps) simp
next
  case (Cons e R)
  obtain h p where e: "e = (h, p)" by (cases e)
  from Cons.prems have "wf_registry R" by (simp add: wf_registry_def)
  then show ?case using Cons.IH [of "del @ [p]"] Cons.prems
    by (simp add: e garbageCollect_step)
qed

text \<open>With a null pointer in the first item the collection does not return.\<close>

lemma garbageCollect_null_aux:
  assumes "garbageCollect R del = Some r"
  shows "R = [] \<or> snd (hd R) \<noteq> nullptr"
proof (rule garbageCollect.raw_induct
    [where P = "\<lambda>R del r. R = [] \<or> snd (hd R) \<noteq> nullptr", OF _ assms])
  fix f :: "registry \<Rightarrow> addr list \<Rightarrow> (registry \<times> addr list) option" and R del r
  assume IH: "\<And>R del r. f R del = Some r \<Longrightarrow> R = [] \<or> snd (hd R) \<noteq> nullptr"
    and eq: "(if R = [] then Some ([], del) else if snd (hd R) = nullptr then f R del
         else f (destroyMapping R (snd (hd R))) (del @ [snd (hd R)])) = Some r"
  show "R = [] \<or> snd (hd R) \<noteq> nullptr"
  proof (rule ccontr)
    assume "\<not> (R = [] \<or> snd (hd R) \<noteq> nullptr)"
    with eq have "f R del = Some r" by simp
    then have "R = [] \<or> snd (hd R) \<noteq> nullptr" by (rule IH)
    with \<open>\<not> (R = [] \<or> snd (hd R) \<noteq> nullptr)\<close> show False by blast
  qed
qed

lemma garbageCollect_null:
  "R \<noteq> [] \<Longrightarrow> snd (hd R) = nullptr \<Longrightarrow> garbageCollect R del = None"
  by (cases "garbageCollect R del") (auto dest: garbageCollect_null_aux)

end
