(* ===== verification/Info.thy ===== *)
theory Info
  imports Hsa_Types
begin

text \<open>
  \<open>common/Info\<close>: how the query functions write an attribute into the buffer that the client
  passes as \<open>void *value\<close>, and the loop that the iteration functions of the API share.
\<close>

section \<open>Written attributes\<close>

text \<open>
  \<open>WriteField<T>\<close> stores one object of type \<open>T\<close>; a \<open>field\<close> is the stored object with the type that
  the C++ overload resolution picks (enumerations are 32-bit). \<open>F_string Str MaxLength\<close> is the
  overload for strings, whose effect on the buffer is \<open>WriteString\<close>.
\<close>

datatype field =
    F_bool bool
  | F_u8 u8
  | F_u16 u16
  | F_u32 u32
  | F_u64 u64
  | F_array16 "u16 list"
  | F_array32 "u32 list"
  | F_dim3 u32 u32 u32
  | F_bytes "u8 list"
  | F_string string nat

text \<open>\<open>WriteField(void *Ptr, std::string Str, std::size_t MaxLength)\<close> on the bytes at \<open>Ptr\<close>.\<close>

definition WriteString :: "string \<Rightarrow> nat \<Rightarrow> (nat \<Rightarrow> char) \<Rightarrow> (nat \<Rightarrow> char)" where
  "WriteString Str MaxLength Buffer =
     (let filled = (\<lambda>i. if i < MaxLength then CHR 0x00 else Buffer i);
          copied = (\<lambda>i. if i < min (length Str) MaxLength then Str ! i else filled i)
      in copied(length Str := CHR 0x00))"

text \<open>The number of bytes from the start of the buffer that the call may change.\<close>

fun field_size :: "field \<Rightarrow> nat" where
  "field_size (F_bool b) = 1"
| "field_size (F_u8 v) = 1"
| "field_size (F_u16 v) = 2"
| "field_size (F_u32 v) = 4"
| "field_size (F_u64 v) = 8"
| "field_size (F_array16 xs) = 2 * length xs"
| "field_size (F_array32 xs) = 4 * length xs"
| "field_size (F_dim3 x y z) = 12"
| "field_size (F_bytes bs) = length bs"
| "field_size (F_string Str MaxLength) = max MaxLength (length Str + 1)"

text \<open>The C string that a reader finds at the start of a buffer, up to \<open>n\<close> bytes.\<close>

fun c_string :: "(nat \<Rightarrow> char) \<Rightarrow> nat \<Rightarrow> nat \<Rightarrow> string" where
  "c_string Buffer i 0 = []"
| "c_string Buffer i (Suc n) =
     (if Buffer i = CHR 0x00 then [] else Buffer i # c_string Buffer (Suc i) n)"

lemma WriteString_frame:
  "field_size (F_string Str MaxLength) \<le> i \<Longrightarrow> WriteString Str MaxLength Buffer i = Buffer i"
  by (simp add: WriteString_def Let_def)

lemma WriteString_nth:
  "i < length Str \<Longrightarrow> length Str \<le> MaxLength \<Longrightarrow> WriteString Str MaxLength Buffer i = Str ! i"
  by (simp add: WriteString_def Let_def)

lemma WriteString_nul: "WriteString Str MaxLength Buffer (length Str) = CHR 0x00"
  by (simp add: WriteString_def Let_def)

lemma c_string_drop:
  assumes "CHR 0x00 \<notin> set Str" and "length Str \<le> MaxLength" and "i \<le> length Str"
    and "length Str - i \<le> n"
  shows "c_string (WriteString Str MaxLength Buffer) i n = drop i Str"
  using assms
proof (induction n arbitrary: i)
  case 0
  then show ?case by simp
next
  case (Suc n)
  show ?case
  proof (cases "i < length Str")
    case True
    then have "Str ! i \<noteq> CHR 0x00" using Suc.prems(1) by (metis nth_mem)
    with True Suc show ?thesis by (simp add: WriteString_nth Cons_nth_drop_Suc)
  next
    case False
    with Suc.prems have "i = length Str" by simp
    then show ?thesis by (simp add: WriteString_nul)
  qed
qed

lemma WriteString_read:
  assumes "CHR 0x00 \<notin> set Str" and "length Str \<le> MaxLength"
  shows "c_string (WriteString Str MaxLength Buffer) 0 MaxLength = Str"
  using c_string_drop [OF assms, of 0 MaxLength Buffer] assms by simp

section \<open>Iteration with a client callback\<close>

text \<open>
  The iteration functions call the client's callback on each element in order and stop at the
  first status other than success, which they return. The callback threads the client's data.
\<close>

fun iterate_callback ::
  "('h \<Rightarrow> 'd \<Rightarrow> hsa_status_t \<times> 'd) \<Rightarrow> 'h list \<Rightarrow> 'd \<Rightarrow> hsa_status_t \<times> 'd" where
  "iterate_callback callback [] data = (HSA_STATUS_SUCCESS, data)"
| "iterate_callback callback (x # xs) data =
     (let (Status, data') = callback x data
      in if Status \<noteq> HSA_STATUS_SUCCESS then (Status, data')
         else iterate_callback callback xs data')"

lemma iterate_all:
  assumes "\<And>x d. x \<in> set xs \<Longrightarrow> fst (callback x d) = HSA_STATUS_SUCCESS"
  shows "iterate_callback callback xs d =
    (HSA_STATUS_SUCCESS, fold (\<lambda>x d. snd (callback x d)) xs d)"
  using assms
proof (induction xs arbitrary: d)
  case (Cons x xs)
  have "fst (callback x d) = HSA_STATUS_SUCCESS" using Cons.prems by simp
  with Cons show ?case by (simp add: case_prod_beta Let_def)
qed simp

lemma iterate_stops:
  assumes "\<And>y d. y \<in> set xs \<Longrightarrow> fst (callback y d) = HSA_STATUS_SUCCESS"
    and "fst (callback x (fold (\<lambda>x d. snd (callback x d)) xs d)) \<noteq> HSA_STATUS_SUCCESS"
  shows "iterate_callback callback (xs @ x # ys) d =
    callback x (fold (\<lambda>x d. snd (callback x d)) xs d)"
  using assms
proof (induction xs arbitrary: d)
  case Nil
  then show ?case by (simp add: case_prod_beta Let_def)
next
  case (Cons y xs)
  have "fst (callback y d) = HSA_STATUS_SUCCESS" using Cons.prems by simp
  with Cons show ?case by (simp add: case_prod_beta Let_def)
qed

end
