(* ===== verification/Cpu_Region.thy ===== *)
theory Cpu_Region
  imports Region_Interface Object_Registry Info
begin

text \<open>
  \<open>CPUMemoryRegion\<close> (\<open>src/Devices/CPU/CPUMemoryRegion.hh\<close> and \<open>.cc\<close>), the regions of the
  CPU-only platform, on top of the host's allocator; \<open>Runtime::freePointer\<close>; and the memory and
  region entry points of the API (\<open>src/hsa/hsa_memory.cc\<close>, \<open>src/hsa/hsa_region.cc\<close>).
\<close>

section \<open>State\<close>

record CPUMemoryRegion =
  CPURegionSegment :: hsa_region_segment_t
  CPUAllocations :: "addr set"

text \<open>
  \<open>RegionRegistry\<close> is the registry of \<open>HSAObjectMapping<MemoryRegion, hsa_region_t>\<close>, \<open>CPURegions\<close>
  the region objects by address, \<open>MemoryRegions\<close> the member of the same name of the runtime.
\<close>

record region_state = base_state +
  RegionRegistry :: registry
  CPURegions :: "addr \<rightharpoonup> CPUMemoryRegion"
  MemoryRegions :: "addr list"

section \<open>The region\<close>

text \<open>\<open>new CPUMemoryRegion(Segment)\<close>: the base class registers the object under its address.\<close>

definition CPUMemoryRegion_new ::
  "hsa_region_segment_t \<Rightarrow> 'm region_state_scheme \<Rightarrow> (addr \<times> 'm region_state_scheme) outcome" where
  "CPUMemoryRegion_new Segment s =
     and_then (operator_new s) (\<lambda>(this, s1).
       Inr (this, s1\<lparr>RegionRegistry := registerObject (RegionRegistry s1) this this,
         CPURegions := (CPURegions s1)(this \<mapsto> \<lparr>CPURegionSegment = Segment, CPUAllocations = {}\<rparr>)\<rparr>))"

definition set_allocations ::
  "addr \<Rightarrow> CPUMemoryRegion \<Rightarrow> addr set \<Rightarrow> 'm region_state_scheme \<Rightarrow> 'm region_state_scheme" where
  "set_allocations this R A s =
     s\<lparr>CPURegions := (CPURegions s)(this \<mapsto> R\<lparr>CPUAllocations := A\<rparr>)\<rparr>"

definition CPUMemoryRegion_allocate ::
  "addr \<Rightarrow> 'm region_state_scheme \<Rightarrow> u64 \<Rightarrow> u64 \<Rightarrow> (addr \<times> 'm region_state_scheme) outcome" where
  "CPUMemoryRegion_allocate this s Size Align =
     and_then (deref (CPURegions s) this) (\<lambda>R.
       if Align < 8
       then let (Ptr, s1) = host_malloc s
            in Inr (Ptr, set_allocations this R (insert Ptr (CPUAllocations R)) s1)
       else case posix_memalign Align Size s of
              (None, s1) \<Rightarrow> Inr (nullptr, s1)
            | (Some Ptr, s1) \<Rightarrow> Inr (Ptr, set_allocations this R (insert Ptr (CPUAllocations R)) s1))"

definition CPUMemoryRegion_free ::
  "addr \<Rightarrow> 'm region_state_scheme \<Rightarrow> addr \<Rightarrow> (bool \<times> 'm region_state_scheme) outcome" where
  "CPUMemoryRegion_free this s Ptr =
     and_then (deref (CPURegions s) this) (\<lambda>R.
       if Ptr \<in> CPUAllocations R
       then Inr (True, set_allocations this R (CPUAllocations R - {Ptr}) s)
       else Inr (False, s))"

definition CPUMemoryRegion_getRegion :: "CPUMemoryRegion \<Rightarrow> hsa_region_segment_t" where
  "CPUMemoryRegion_getRegion R = CPURegionSegment R"

definition CPUMemoryRegion_getGlobalFlags :: "CPUMemoryRegion \<Rightarrow> u32" where
  "CPUMemoryRegion_getGlobalFlags R =
     HSA_REGION_GLOBAL_FLAG_KERNARG OR HSA_REGION_GLOBAL_FLAG_FINE_GRAINED"

definition CPUMemoryRegion_getSize :: "CPUMemoryRegion \<Rightarrow> u64" where
  "CPUMemoryRegion_getSize R = 1024 * 1024 * 1024"

definition CPUMemoryRegion_getMaxAllocSize :: "CPUMemoryRegion \<Rightarrow> u64" where
  "CPUMemoryRegion_getMaxAllocSize R = 512 * 1024 * 1024"

definition CPUMemoryRegion_getRuntimeAllocAllowed :: "CPUMemoryRegion \<Rightarrow> bool" where
  "CPUMemoryRegion_getRuntimeAllocAllowed R = True"

definition CPUMemoryRegion_getRuntimeAllocGranularity :: "CPUMemoryRegion \<Rightarrow> u64" where
  "CPUMemoryRegion_getRuntimeAllocGranularity R = 1"

definition CPUMemoryRegion_getRuntimeAllocAlignment :: "CPUMemoryRegion \<Rightarrow> u64" where
  "CPUMemoryRegion_getRuntimeAllocAlignment R = 1"

section \<open>Freeing a pointer\<close>

text \<open>\<open>Runtime::freePointer\<close>: the first region that knows the pointer frees it.\<close>

fun free_in_regions ::
  "addr list \<Rightarrow> 'm region_state_scheme \<Rightarrow> addr \<Rightarrow> 'm region_state_scheme outcome" where
  "free_in_regions [] s Ptr = Inr s"
| "free_in_regions (MemRegion # rest) s Ptr =
     and_then (CPUMemoryRegion_free MemRegion s Ptr) (\<lambda>(found, s').
       if found then Inr s' else free_in_regions rest s' Ptr)"

definition Runtime_freePointer ::
  "'m region_state_scheme \<Rightarrow> addr \<Rightarrow> 'm region_state_scheme outcome" where
  "Runtime_freePointer s Ptr = free_in_regions (MemoryRegions s) s Ptr"

section \<open>Entry points\<close>

definition hsa_memory_allocate ::
  "'m region_state_scheme \<Rightarrow> u64 \<Rightarrow> u64 \<Rightarrow> addr \<Rightarrow>
   (hsa_status_t \<times> addr option \<times> 'm region_state_scheme) outcome" where
  "hsa_memory_allocate s region size' ptr =
     (if \<not> isInitialized s then Inr (HSA_STATUS_ERROR_NOT_INITIALIZED, None, s)
      else if size' = 0 \<or> ptr = nullptr then Inr (HSA_STATUS_ERROR_INVALID_ARGUMENT, None, s)
      else
        let MR = fromHSAObject (RegionRegistry s) region
        in if MR = nullptr then Inr (HSA_STATUS_ERROR_INVALID_REGION, None, s)
           else and_then (deref (CPURegions s) MR) (\<lambda>R.
             if CPUMemoryRegion_getMaxAllocSize R < size' \<or> \<not> CPUMemoryRegion_getRuntimeAllocAllowed R
             then Inr (HSA_STATUS_ERROR_INVALID_ALLOCATION, None, s)
             else and_then (CPUMemoryRegion_allocate MR s size' 128) (\<lambda>(p, s').
               Inr (if p = nullptr then HSA_STATUS_ERROR_OUT_OF_RESOURCES else HSA_STATUS_SUCCESS,
                    Some p, s'))))"

definition hsa_memory_free ::
  "'m region_state_scheme \<Rightarrow> addr \<Rightarrow> (hsa_status_t \<times> 'm region_state_scheme) outcome" where
  "hsa_memory_free s Ptr =
     (if \<not> isInitialized s then Inr (HSA_STATUS_ERROR_NOT_INITIALIZED, s)
      else if Ptr = nullptr then Inr (HSA_STATUS_ERROR_INVALID_ARGUMENT, s)
      else and_then (Runtime_get s) (\<lambda>_.
        and_then (Runtime_freePointer s Ptr) (\<lambda>s'. Inr (HSA_STATUS_SUCCESS, s'))))"

text \<open>\<open>memmove\<close> on a byte-addressed memory; the ranges may overlap.\<close>

definition memmove :: "addr \<Rightarrow> addr \<Rightarrow> u64 \<Rightarrow> (addr \<Rightarrow> u8) \<Rightarrow> (addr \<Rightarrow> u8)" where
  "memmove dst src n mem = (\<lambda>a. if a - dst < n then mem (src + (a - dst)) else mem a)"

definition hsa_memory_copy ::
  "'m base_state_scheme \<Rightarrow> addr \<Rightarrow> addr \<Rightarrow> u64 \<Rightarrow> (addr \<Rightarrow> u8) \<Rightarrow> hsa_status_t \<times> (addr \<Rightarrow> u8)" where
  "hsa_memory_copy s dst src size' mem =
     (if \<not> isInitialized s then (HSA_STATUS_ERROR_NOT_INITIALIZED, mem)
      else if dst = nullptr \<or> src = nullptr \<or> size' = 0
      then (HSA_STATUS_ERROR_INVALID_ARGUMENT, mem)
      else (HSA_STATUS_SUCCESS, memmove dst src size' mem))"

definition hsa_memory_assign_agent :: "'m base_state_scheme \<Rightarrow> addr \<Rightarrow> u64 \<Rightarrow> u32 \<Rightarrow> hsa_status_t" where
  "hsa_memory_assign_agent s ptr agent access = HSA_STATUS_SUCCESS"

definition hsa_memory_register :: "'m base_state_scheme \<Rightarrow> addr \<Rightarrow> u64 \<Rightarrow> hsa_status_t" where
  "hsa_memory_register s ptr size' =
     (if \<not> isInitialized s then HSA_STATUS_ERROR_NOT_INITIALIZED
      else if ptr = nullptr \<or> size' = 0 then HSA_STATUS_ERROR_INVALID_ARGUMENT
      else HSA_STATUS_SUCCESS)"

definition hsa_memory_deregister :: "'m base_state_scheme \<Rightarrow> addr \<Rightarrow> u64 \<Rightarrow> hsa_status_t" where
  "hsa_memory_deregister s ptr size' =
     (if \<not> isInitialized s then HSA_STATUS_ERROR_NOT_INITIALIZED
      else if ptr = nullptr \<or> size' = 0 then HSA_STATUS_ERROR_INVALID_ARGUMENT
      else HSA_STATUS_SUCCESS)"

text \<open>
  The range test compares numbers; a value in the range that names no attribute falls through the
  switch, which has no default.
\<close>

definition region_attribute :: "CPUMemoryRegion \<Rightarrow> hsa_region_info_t \<Rightarrow> field option" where
  "region_attribute MR attribute =
     (case attribute of
        HSA_REGION_INFO_SEGMENT \<Rightarrow>
          Some (F_u32 (hsa_region_segment_t_value (CPUMemoryRegion_getRegion MR)))
      | HSA_REGION_INFO_GLOBAL_FLAGS \<Rightarrow> Some (F_u32 (CPUMemoryRegion_getGlobalFlags MR))
      | HSA_REGION_INFO_SIZE \<Rightarrow> Some (F_u64 (CPUMemoryRegion_getSize MR))
      | HSA_REGION_INFO_ALLOC_MAX_SIZE \<Rightarrow> Some (F_u64 (CPUMemoryRegion_getMaxAllocSize MR))
      | HSA_REGION_INFO_RUNTIME_ALLOC_ALLOWED \<Rightarrow>
          Some (F_bool (CPUMemoryRegion_getRuntimeAllocAllowed MR))
      | HSA_REGION_INFO_RUNTIME_ALLOC_GRANULE \<Rightarrow>
          Some (F_u64 (CPUMemoryRegion_getRuntimeAllocGranularity MR))
      | HSA_REGION_INFO_RUNTIME_ALLOC_ALIGNMENT \<Rightarrow>
          Some (F_u64 (CPUMemoryRegion_getRuntimeAllocAlignment MR))
      | hsa_region_info_t_unlisted v \<Rightarrow> None)"

definition hsa_region_get_info ::
  "'m region_state_scheme \<Rightarrow> u64 \<Rightarrow> hsa_region_info_t \<Rightarrow> addr \<Rightarrow>
   (hsa_status_t \<times> field option) outcome" where
  "hsa_region_get_info s region attribute value =
     (if \<not> isInitialized s then Inr (HSA_STATUS_ERROR_NOT_INITIALIZED, None)
      else if value = nullptr
        \<or> hsa_region_info_t_value attribute < hsa_region_info_t_value HSA_REGION_INFO_SEGMENT
        \<or> hsa_region_info_t_value HSA_REGION_INFO_RUNTIME_ALLOC_ALIGNMENT < hsa_region_info_t_value attribute
      then Inr (HSA_STATUS_ERROR_INVALID_ARGUMENT, None)
      else
        let MR = fromHSAObject (RegionRegistry s) region
        in if MR = nullptr then Inr (HSA_STATUS_ERROR_INVALID_REGION, None)
           else and_then (deref (CPURegions s) MR) (\<lambda>R.
             Inr (HSA_STATUS_SUCCESS, region_attribute R attribute)))"

section \<open>The region keeps the laws of the interface\<close>

definition cpu_live :: "addr \<Rightarrow> 'm region_state_scheme \<Rightarrow> addr set" where
  "cpu_live this s = (case CPURegions s this of None \<Rightarrow> {} | Some R \<Rightarrow> CPUAllocations R)"

definition cpu_ok :: "addr \<Rightarrow> 'm region_state_scheme \<Rightarrow> bool" where
  "cpu_ok this s \<longleftrightarrow> this \<noteq> nullptr \<and> CPURegions s this \<noteq> None \<and> nullptr \<notin> cpu_live this s"

text \<open>
  What the caller owes: the alignment is at least the pointer size (every caller in the runtime
  passes 8, 16, 64 or 128), and what the host owes: the address it hands out is not in use.
\<close>

definition cpu_request :: "addr \<Rightarrow> 'm region_state_scheme \<Rightarrow> u64 \<Rightarrow> u64 \<Rightarrow> bool" where
  "cpu_request this s Size Align \<longleftrightarrow>
     8 \<le> Align \<and> (case HostHeap s of [] \<Rightarrow> True | p # _ \<Rightarrow> p = nullptr \<or> p \<notin> cpu_live this s)"

lemma cpu_live_set_allocations [simp]:
  "cpu_live r (set_allocations this R A s) = (if r = this then A else cpu_live r s)"
  by (simp add: cpu_live_def set_allocations_def)

lemma cpu_live_HostHeap [simp]: "cpu_live r (s\<lparr>HostHeap := h\<rparr>) = cpu_live r s"
  by (simp add: cpu_live_def)

lemma CPURegions_set_allocations [simp]:
  "CPURegions (set_allocations this R A s) = (CPURegions s)(this \<mapsto> R\<lparr>CPUAllocations := A\<rparr>)"
  by (simp add: set_allocations_def)

lemma posix_memalign_cases:
  obtains (fail) s' where "posix_memalign Align Size s = (None, s')" "CPURegions s' = CPURegions s"
  | (success) p ps where "posix_memalign Align Size s = (Some p, s\<lparr>HostHeap := ps\<rparr>)"
      "HostHeap s = p # ps" "p \<noteq> nullptr"
proof (cases s rule: host_malloc_cases)
  case empty
  then show ?thesis by (intro fail [of s]) (auto simp: posix_memalign_def)
next
  case (next_addr p ps)
  consider "\<not> is_pow2 Align \<or> unat Align mod 8 \<noteq> 0"
    | "is_pow2 Align" "unat Align mod 8 = 0" "p = nullptr"
    | "is_pow2 Align" "unat Align mod 8 = 0" "p \<noteq> nullptr" by blast
  then show ?thesis
  proof cases
    case 1
    then show ?thesis by (intro fail [of s]) (auto simp: posix_memalign_def)
  next
    case 2
    with next_addr show ?thesis
      by (intro fail [of "s\<lparr>HostHeap := ps\<rparr>"]) (simp_all add: posix_memalign_def)
  next
    case 3
    with next_addr show ?thesis by (intro success [of p ps]) (simp_all add: posix_memalign_def)
  qed
qed

text \<open>An aligned allocation either fails and changes no region, or inserts a fresh address.\<close>

lemma CPUMemoryRegion_allocate_cases:
  assumes "CPUMemoryRegion_allocate this s Size Align = Inr (p, s')" and "8 \<le> Align"
  obtains (fail) "p = nullptr" "CPURegions s' = CPURegions s"
  | (success) R ps where "p \<noteq> nullptr" "this \<noteq> nullptr" "CPURegions s this = Some R"
      "HostHeap s = p # ps"
      "s' = set_allocations this R (insert p (CPUAllocations R)) (s\<lparr>HostHeap := ps\<rparr>)"
proof -
  have "\<not> Align < 8" using assms(2) by (simp add: not_less)
  with assms(1) obtain R where R: "this \<noteq> nullptr" "CPURegions s this = Some R"
    and eq: "(case posix_memalign Align Size s of (None, s1) \<Rightarrow> Inr (nullptr, s1)
        | (Some Ptr, s1) \<Rightarrow> Inr (Ptr, set_allocations this R (insert Ptr (CPUAllocations R)) s1)) = (Inr (p, s') :: _ outcome)"
    by (auto simp: CPUMemoryRegion_allocate_def outcome_simps)
  show ?thesis
  proof (cases rule: posix_memalign_cases [of Align Size s])
    case (fail s1)
    with eq that(1) show ?thesis by simp
  next
    case (success q ps)
    from eq success have "q = p"
      and "s' = set_allocations this R (insert p (CPUAllocations R)) (s\<lparr>HostHeap := ps\<rparr>)"
      by auto
    with R success show ?thesis by (intro that(2)) simp_all
  qed
qed

lemma CPUMemoryRegion_free_spec:
  assumes "this \<noteq> nullptr" and "CPURegions s this = Some R"
  shows "CPUMemoryRegion_free this s p =
    Inr (p \<in> cpu_live this s,
         if p \<in> cpu_live this s then set_allocations this R (cpu_live this s - {p}) s else s)"
  using assms by (simp add: CPUMemoryRegion_free_def deref_Some cpu_live_def)

interpretation cpu: memory_region "CPUMemoryRegion_allocate this" "CPUMemoryRegion_free this"
  "cpu_live this" "cpu_ok this" "cpu_request this" for this :: addr
proof unfold_locales
  fix r :: "'m region_state_scheme" and n a p r'
  assume ok: "cpu_ok this r" and req: "cpu_request this r n a"
    and alloc: "CPUMemoryRegion_allocate this r n a = Inr (p, r')"
  from req have a8: "8 \<le> a" by (simp add: cpu_request_def)
  have "cpu_ok this r' \<and> cpu_live this r' = (if p = nullptr then cpu_live this r else insert p (cpu_live this r))
      \<and> p \<notin> cpu_live this r"
    using alloc a8
  proof (cases rule: CPUMemoryRegion_allocate_cases)
    case fail
    with ok show ?thesis by (simp add: cpu_ok_def cpu_live_def)
  next
    case (success R ps)
    moreover from success have "cpu_live this r = CPUAllocations R" by (simp add: cpu_live_def)
    ultimately show ?thesis using ok req by (simp add: cpu_ok_def cpu_request_def)
  qed
  then show "cpu_ok this r'"
    and "cpu_live this r' = (if p = nullptr then cpu_live this r else insert p (cpu_live this r))"
    and "p \<notin> cpu_live this r" by blast+
next
  fix r :: "'m region_state_scheme" and p b r'
  assume ok: "cpu_ok this r"
  then obtain R where R: "this \<noteq> nullptr" "CPURegions r this = Some R" by (auto simp: cpu_ok_def)
  note free_spec = CPUMemoryRegion_free_spec [OF R, of p]
  show "\<exists>b r'. CPUMemoryRegion_free this r p = Inr (b, r')" by (simp add: free_spec)
  assume "CPUMemoryRegion_free this r p = Inr (b, r')"
  with free_spec have b: "b = (p \<in> cpu_live this r)"
    and r': "r' = (if p \<in> cpu_live this r then set_allocations this R (cpu_live this r - {p}) r else r)"
    by simp_all
  show "b \<longleftrightarrow> p \<in> cpu_live this r" by (rule b)
  show live: "cpu_live this r' = cpu_live this r - {p}" by (simp add: r')
  have "CPURegions r' this \<noteq> None" using R by (simp add: r')
  with ok live show "cpu_ok this r'" by (simp add: cpu_ok_def)
qed

end
