(* ===== verification/Signals.thy ===== *)
theory Signals
  imports Atomics Cpu_Region
begin

text \<open>
  Signals: the interface \<open>Signal\<close> (\<open>include/Signal.hh\<close>), the implementation that the CPU-only
  platform creates, \<open>GCCBuiltinSignal\<close> (\<open>src/Devices/CPU/GCCBuiltinSignal\<close>), the alternative
  \<open>StdAtomicSignal\<close>, \<open>CPURuntime::createSignal\<close>, and the entry points of
  \<open>src/hsa/hsa_signal.cc\<close>. A value of type \<open>hsa_signal_value_t\<close> is a 64-bit signed integer
  (the large machine model).
\<close>

section \<open>State\<close>

text \<open>
  The value of a signal lives in memory allocated from a region, at the address that is also
  the handle of the signal; \<open>SignalValues\<close> is that memory.
\<close>

record GCCBuiltinSignal =
  CurrentValue :: addr
  SignalMemory :: addr

record signal_state = region_state +
  SignalRegistry :: registry
  Signals :: "addr \<rightharpoonup> GCCBuiltinSignal"
  SignalValues :: "addr \<rightharpoonup> i64"

section \<open>Construction and destruction\<close>

text \<open>
  The constructor allocates eight bytes aligned to eight, stores the initial value (a null
  dereference when the region had no memory) and registers the object last, because its
  handle is the address just allocated.
\<close>

definition GCCBuiltinSignal_new ::
  "i64 \<Rightarrow> addr \<Rightarrow> 'm signal_state_scheme \<Rightarrow> (addr \<times> 'm signal_state_scheme) outcome" where
  "GCCBuiltinSignal_new InitialValue Region s =
     and_then (operator_new s) (\<lambda>(this, s1).
       and_then (CPUMemoryRegion_allocate Region s1 8 8) (\<lambda>(cell, s2).
         if cell = nullptr then Inl Null_Dereference
         else Inr (this, s2\<lparr>Signals := (Signals s2)(this \<mapsto> \<lparr>CurrentValue = cell, SignalMemory = Region\<rparr>),
                       SignalValues := (SignalValues s2)(cell \<mapsto> InitialValue),
                       SignalRegistry := registerObject (SignalRegistry s2) cell this\<rparr>)))"

text \<open>
  \<open>delete\<close>: the destructor frees the memory of the value, the base class erases the registry
  entry, then the object is gone.
\<close>

definition GCCBuiltinSignal_delete ::
  "'m signal_state_scheme \<Rightarrow> addr \<Rightarrow> 'm signal_state_scheme outcome" where
  "GCCBuiltinSignal_delete s this =
     and_then (deref (Signals s) this) (\<lambda>Obj.
       and_then (CPUMemoryRegion_free (SignalMemory Obj) s (CurrentValue Obj)) (\<lambda>(found, s1).
         Inr (s1\<lparr>SignalRegistry := destroyMapping (SignalRegistry s1) this,
                Signals := (Signals s1)(this := None)\<rparr>)))"

section \<open>Operations\<close>

definition signal_cell :: "'m signal_state_scheme \<Rightarrow> addr \<Rightarrow> (addr \<times> i64) outcome" where
  "signal_cell s this =
     and_then (deref (Signals s) this) (\<lambda>Obj.
       and_then (deref (SignalValues s) (CurrentValue Obj)) (\<lambda>v. Inr (CurrentValue Obj, v)))"

definition set_cell :: "addr \<Rightarrow> i64 \<Rightarrow> 'm signal_state_scheme \<Rightarrow> 'm signal_state_scheme" where
  "set_cell c v s = s\<lparr>SignalValues := (SignalValues s)(c \<mapsto> v)\<rparr>"

text \<open>\<open>Runtime::get().memoryFence()\<close> and \<open>Runtime::get().flush(...)\<close> are empty functions.\<close>

definition Runtime_memoryFence :: "'m base_state_scheme \<Rightarrow> unit outcome" where
  "Runtime_memoryFence s = and_then (Runtime_get s) (\<lambda>_. Inr ())"

definition Runtime_flush :: "'m base_state_scheme \<Rightarrow> addr \<Rightarrow> u64 \<Rightarrow> unit outcome" where
  "Runtime_flush s address size' = and_then (Runtime_get s) (\<lambda>_. Inr ())"

definition loadRelaxed :: "'m signal_state_scheme \<Rightarrow> addr \<Rightarrow> i64 outcome" where
  "loadRelaxed s this = and_then (signal_cell s this) (\<lambda>(c, v). Inr v)"

definition loadAcquire :: "'m signal_state_scheme \<Rightarrow> addr \<Rightarrow> i64 outcome" where
  "loadAcquire s this =
     and_then (signal_cell s this) (\<lambda>(c, v). and_then (Runtime_memoryFence s) (\<lambda>_. Inr v))"

definition GCCBuiltinSignal_load :: "'m signal_state_scheme \<Rightarrow> addr \<Rightarrow> MemoryOrder \<Rightarrow> i64 outcome" where
  "GCCBuiltinSignal_load s this MO =
     and_then (deref (Signals s) this) (\<lambda>_.
       case MO of Acquire \<Rightarrow> loadAcquire s this | Relaxed \<Rightarrow> loadRelaxed s this | _ \<Rightarrow> Inl Aborted)"

definition storeRelaxed ::
  "'m signal_state_scheme \<Rightarrow> addr \<Rightarrow> i64 \<Rightarrow> 'm signal_state_scheme outcome" where
  "storeRelaxed s this Value = and_then (signal_cell s this) (\<lambda>(c, v). Inr (set_cell c Value s))"

definition storeRelease ::
  "'m signal_state_scheme \<Rightarrow> addr \<Rightarrow> i64 \<Rightarrow> 'm signal_state_scheme outcome" where
  "storeRelease s this Value =
     and_then (Runtime_memoryFence s) (\<lambda>_.
       and_then (signal_cell s this) (\<lambda>(c, v).
         and_then (Runtime_flush s c 8) (\<lambda>_. Inr (set_cell c Value s))))"

definition GCCBuiltinSignal_store ::
  "'m signal_state_scheme \<Rightarrow> addr \<Rightarrow> i64 \<Rightarrow> MemoryOrder \<Rightarrow> 'm signal_state_scheme outcome" where
  "GCCBuiltinSignal_store s this Value MO =
     and_then (deref (Signals s) this) (\<lambda>_.
       case MO of Relaxed \<Rightarrow> storeRelaxed s this Value
       | Release \<Rightarrow> storeRelease s this Value | _ \<Rightarrow> Inl Aborted)"

definition GCCBuiltinSignal_exchange ::
  "'m signal_state_scheme \<Rightarrow> addr \<Rightarrow> i64 \<Rightarrow> MemoryOrder \<Rightarrow> (i64 \<times> 'm signal_state_scheme) outcome" where
  "GCCBuiltinSignal_exchange s this Value MO =
     and_then (signal_cell s this) (\<lambda>(c, v).
       let (old, v') = Atomic_Exchange Value v MO in Inr (old, set_cell c v' s))"

text \<open>The flag of the exchange is dropped; what is returned is the \<open>Expected\<close> cell afterwards.\<close>

definition GCCBuiltinSignal_compareExchange ::
  "'m signal_state_scheme \<Rightarrow> addr \<Rightarrow> i64 \<Rightarrow> i64 \<Rightarrow> MemoryOrder \<Rightarrow>
   (i64 \<times> 'm signal_state_scheme) outcome" where
  "GCCBuiltinSignal_compareExchange s this Expected Value MO =
     and_then (signal_cell s this) (\<lambda>(c, v).
       and_then (Atomic_CompareExchange v Expected Value MO) (\<lambda>(flag, v', Expected').
         Inr (Expected', set_cell c v' s)))"

definition GCCBuiltinSignal_subtract ::
  "'m signal_state_scheme \<Rightarrow> addr \<Rightarrow> i64 \<Rightarrow> MemoryOrder \<Rightarrow> 'm signal_state_scheme outcome" where
  "GCCBuiltinSignal_subtract s this value MO =
     and_then (signal_cell s this) (\<lambda>(c, v). Inr (set_cell c (snd (Atomic_FetchSub value v MO)) s))"

definition GCCBuiltinSignal_add ::
  "'m signal_state_scheme \<Rightarrow> addr \<Rightarrow> i64 \<Rightarrow> MemoryOrder \<Rightarrow> 'm signal_state_scheme outcome" where
  "GCCBuiltinSignal_add s this value MO =
     and_then (signal_cell s this) (\<lambda>(c, v). Inr (set_cell c (snd (Atomic_FetchAdd value v MO)) s))"

definition GCCBuiltinSignal_xor ::
  "'m signal_state_scheme \<Rightarrow> addr \<Rightarrow> i64 \<Rightarrow> MemoryOrder \<Rightarrow> 'm signal_state_scheme outcome" where
  "GCCBuiltinSignal_xor s this value MO =
     and_then (signal_cell s this) (\<lambda>(c, v). Inr (set_cell c (snd (Atomic_FetchXor value v MO)) s))"

definition GCCBuiltinSignal_and ::
  "'m signal_state_scheme \<Rightarrow> addr \<Rightarrow> i64 \<Rightarrow> MemoryOrder \<Rightarrow> 'm signal_state_scheme outcome" where
  "GCCBuiltinSignal_and s this value MO =
     and_then (signal_cell s this) (\<lambda>(c, v). Inr (set_cell c (snd (Atomic_FetchAnd value v MO)) s))"

definition GCCBuiltinSignal_or ::
  "'m signal_state_scheme \<Rightarrow> addr \<Rightarrow> i64 \<Rightarrow> MemoryOrder \<Rightarrow> 'm signal_state_scheme outcome" where
  "GCCBuiltinSignal_or s this value MO =
     and_then (signal_cell s this) (\<lambda>(c, v). Inr (set_cell c (snd (Atomic_FetchOr value v MO)) s))"

section \<open>Waiting\<close>

text \<open>
  The loop polls the value and the clock while other threads run: \<open>loads i\<close> is what the i-th
  load returns and \<open>nows i\<close> the clock reading after it (nanoseconds). The loop need not end.
\<close>

partial_function (option) wait_loop ::
  "(i64 \<Rightarrow> bool) \<Rightarrow> int \<Rightarrow> int \<Rightarrow> (nat \<Rightarrow> i64) \<Rightarrow> (nat \<Rightarrow> int) \<Rightarrow> nat \<Rightarrow> i64 option" where
  "wait_loop Condition Timeout StartTime loads nows i =
     (if Timeout < nows i - StartTime then Some (loads i)
      else if Condition (loads i) then Some (loads i)
      else wait_loop Condition Timeout StartTime loads nows (Suc i))"

definition GCCBuiltinSignal_wait ::
  "'m signal_state_scheme \<Rightarrow> addr \<Rightarrow> (i64 \<Rightarrow> bool) \<Rightarrow> i64 \<Rightarrow> MemoryOrder \<Rightarrow>
   int \<Rightarrow> (nat \<Rightarrow> i64) \<Rightarrow> (nat \<Rightarrow> int) \<Rightarrow> i64 option outcome" where
  "GCCBuiltinSignal_wait s this Condition Timeout MO StartTime loads nows =
     and_then (GCCBuiltinSignal_load s this MO) (\<lambda>_.
       Inr (wait_loop Condition (sint Timeout) StartTime loads nows 0))"

section \<open>The alternative implementation\<close>

text \<open>
  \<open>StdAtomicSignal\<close> keeps its value in a \<open>std::atomic\<close> member; a state is that value. The result
  of \<open>compareExchange\<close> is the flag of \<open>compare_exchange_strong\<close> converted to a signal value.
  C++ leaves a load with a releasing order and a store with an acquiring order undefined.
\<close>

definition StdAtomicSignal_load :: "i64 \<Rightarrow> MemoryOrder \<Rightarrow> i64 outcome" where
  "StdAtomicSignal_load v MO =
     (if MO = Release \<or> MO = AcquireRelease then Inl Undefined_Behaviour else Inr v)"

definition StdAtomicSignal_store :: "i64 \<Rightarrow> i64 \<Rightarrow> MemoryOrder \<Rightarrow> i64 outcome" where
  "StdAtomicSignal_store v Value MO =
     (if MO = Consume \<or> MO = Acquire \<or> MO = AcquireRelease then Inl Undefined_Behaviour
      else Inr Value)"

definition StdAtomicSignal_exchange :: "i64 \<Rightarrow> i64 \<Rightarrow> MemoryOrder \<Rightarrow> (i64 \<times> i64) outcome" where
  "StdAtomicSignal_exchange v Value MO = Inr (v, Value)"

definition StdAtomicSignal_compareExchange ::
  "i64 \<Rightarrow> i64 \<Rightarrow> i64 \<Rightarrow> MemoryOrder \<Rightarrow> (i64 \<times> i64) outcome" where
  "StdAtomicSignal_compareExchange v Expected Value MO =
     and_then (ToCompareExchangeFailure MO) (\<lambda>_.
       Inr (if v = Expected then (1, Value) else (0, v)))"

definition StdAtomicSignal_add :: "i64 \<Rightarrow> i64 \<Rightarrow> MemoryOrder \<Rightarrow> i64 outcome" where
  "StdAtomicSignal_add v value MO = Inr (v + value)"

definition StdAtomicSignal_subtract :: "i64 \<Rightarrow> i64 \<Rightarrow> MemoryOrder \<Rightarrow> i64 outcome" where
  "StdAtomicSignal_subtract v value MO = Inr (v - value)"

definition StdAtomicSignal_xor :: "i64 \<Rightarrow> i64 \<Rightarrow> MemoryOrder \<Rightarrow> i64 outcome" where
  "StdAtomicSignal_xor v value MO = Inr (v XOR value)"

definition StdAtomicSignal_and :: "i64 \<Rightarrow> i64 \<Rightarrow> MemoryOrder \<Rightarrow> i64 outcome" where
  "StdAtomicSignal_and v value MO = Inr (v AND value)"

definition StdAtomicSignal_or :: "i64 \<Rightarrow> i64 \<Rightarrow> MemoryOrder \<Rightarrow> i64 outcome" where
  "StdAtomicSignal_or v value MO = Inr (v OR value)"

definition StdAtomicSignal_wait ::
  "(i64 \<Rightarrow> bool) \<Rightarrow> i64 \<Rightarrow> MemoryOrder \<Rightarrow> int \<Rightarrow> (nat \<Rightarrow> i64) \<Rightarrow> (nat \<Rightarrow> int) \<Rightarrow> i64 option" where
  "StdAtomicSignal_wait Condition Timeout MO StartTime loads nows =
     wait_loop Condition (sint Timeout) StartTime loads nows 0"

section \<open>Entry points\<close>

text \<open>\<open>CPURuntime::createSignal\<close> uses the first region of the runtime.\<close>

definition CPURuntime_createSignal ::
  "'m signal_state_scheme \<Rightarrow> i64 \<Rightarrow> (hsa_status_t \<times> u64 \<times> 'm signal_state_scheme) outcome" where
  "CPURuntime_createSignal s InitialValue =
     (case MemoryRegions s of
        [] \<Rightarrow> Inl Undefined_Behaviour
      | Region # _ \<Rightarrow>
          and_then (GCCBuiltinSignal_new InitialValue Region s) (\<lambda>(Sign, s').
            and_then (deref (Signals s') Sign) (\<lambda>Obj.
              Inr (HSA_STATUS_SUCCESS, CurrentValue Obj, s'))))"

definition hsa_signal_create ::
  "'m signal_state_scheme \<Rightarrow> i64 \<Rightarrow> u32 \<Rightarrow> addr \<Rightarrow> addr \<Rightarrow>
   (hsa_status_t \<times> u64 option \<times> 'm signal_state_scheme) outcome" where
  "hsa_signal_create s initial_value num_consumers consumers signal =
     (if \<not> isInitialized s then Inr (HSA_STATUS_ERROR_NOT_INITIALIZED, None, s)
      else if signal = nullptr \<or> (0 < num_consumers \<and> consumers = nullptr)
      then Inr (HSA_STATUS_ERROR_INVALID_ARGUMENT, None, s)
      else and_then (Runtime_get s) (\<lambda>_.
        and_then (CPURuntime_createSignal s initial_value) (\<lambda>(status, handle, s').
          Inr (status, Some handle, s'))))"

definition hsa_signal_destroy ::
  "'m signal_state_scheme \<Rightarrow> u64 \<Rightarrow> (hsa_status_t \<times> 'm signal_state_scheme) outcome" where
  "hsa_signal_destroy s signal =
     (if \<not> isInitialized s then Inr (HSA_STATUS_ERROR_NOT_INITIALIZED, s)
      else if signal = 0 then Inr (HSA_STATUS_ERROR_INVALID_ARGUMENT, s)
      else
        let S = fromHSAObject (SignalRegistry s) signal
        in if S = nullptr then Inr (HSA_STATUS_ERROR_INVALID_SIGNAL, s)
           else and_then (GCCBuiltinSignal_delete s S) (\<lambda>s'. Inr (HSA_STATUS_SUCCESS, s')))"

definition hsa_signal_load_acquire :: "'m signal_state_scheme \<Rightarrow> u64 \<Rightarrow> i64 outcome" where
  "hsa_signal_load_acquire s signal =
     GCCBuiltinSignal_load s (fromHSAObject (SignalRegistry s) signal) Acquire"

definition hsa_signal_load_relaxed :: "'m signal_state_scheme \<Rightarrow> u64 \<Rightarrow> i64 outcome" where
  "hsa_signal_load_relaxed s signal =
     GCCBuiltinSignal_load s (fromHSAObject (SignalRegistry s) signal) Relaxed"

definition hsa_signal_store_relaxed ::
  "'m signal_state_scheme \<Rightarrow> u64 \<Rightarrow> i64 \<Rightarrow> 'm signal_state_scheme outcome" where
  "hsa_signal_store_relaxed s signal value =
     GCCBuiltinSignal_store s (fromHSAObject (SignalRegistry s) signal) value Relaxed"

definition hsa_signal_store_release ::
  "'m signal_state_scheme \<Rightarrow> u64 \<Rightarrow> i64 \<Rightarrow> 'm signal_state_scheme outcome" where
  "hsa_signal_store_release s signal value =
     GCCBuiltinSignal_store s (fromHSAObject (SignalRegistry s) signal) value Release"

definition hsa_signal_exchange_acq_rel ::
  "'m signal_state_scheme \<Rightarrow> u64 \<Rightarrow> i64 \<Rightarrow> (i64 \<times> 'm signal_state_scheme) outcome" where
  "hsa_signal_exchange_acq_rel s signal value =
     GCCBuiltinSignal_exchange s (fromHSAObject (SignalRegistry s) signal) value AcquireRelease"

definition hsa_signal_exchange_acquire ::
  "'m signal_state_scheme \<Rightarrow> u64 \<Rightarrow> i64 \<Rightarrow> (i64 \<times> 'm signal_state_scheme) outcome" where
  "hsa_signal_exchange_acquire s signal value =
     GCCBuiltinSignal_exchange s (fromHSAObject (SignalRegistry s) signal) value Acquire"

definition hsa_signal_exchange_relaxed ::
  "'m signal_state_scheme \<Rightarrow> u64 \<Rightarrow> i64 \<Rightarrow> (i64 \<times> 'm signal_state_scheme) outcome" where
  "hsa_signal_exchange_relaxed s signal value =
     GCCBuiltinSignal_exchange s (fromHSAObject (SignalRegistry s) signal) value Relaxed"

definition hsa_signal_exchange_release ::
  "'m signal_state_scheme \<Rightarrow> u64 \<Rightarrow> i64 \<Rightarrow> (i64 \<times> 'm signal_state_scheme) outcome" where
  "hsa_signal_exchange_release s signal value =
     GCCBuiltinSignal_exchange s (fromHSAObject (SignalRegistry s) signal) value Release"

definition hsa_signal_cas_acq_rel ::
  "'m signal_state_scheme \<Rightarrow> u64 \<Rightarrow> i64 \<Rightarrow> i64 \<Rightarrow> (i64 \<times> 'm signal_state_scheme) outcome" where
  "hsa_signal_cas_acq_rel s signal expected value =
     GCCBuiltinSignal_compareExchange s (fromHSAObject (SignalRegistry s) signal) expected value AcquireRelease"

definition hsa_signal_cas_acquire ::
  "'m signal_state_scheme \<Rightarrow> u64 \<Rightarrow> i64 \<Rightarrow> i64 \<Rightarrow> (i64 \<times> 'm signal_state_scheme) outcome" where
  "hsa_signal_cas_acquire s signal expected value =
     GCCBuiltinSignal_compareExchange s (fromHSAObject (SignalRegistry s) signal) expected value Acquire"

definition hsa_signal_cas_relaxed ::
  "'m signal_state_scheme \<Rightarrow> u64 \<Rightarrow> i64 \<Rightarrow> i64 \<Rightarrow> (i64 \<times> 'm signal_state_scheme) outcome" where
  "hsa_signal_cas_relaxed s signal expected value =
     GCCBuiltinSignal_compareExchange s (fromHSAObject (SignalRegistry s) signal) expected value Relaxed"

definition hsa_signal_cas_release ::
  "'m signal_state_scheme \<Rightarrow> u64 \<Rightarrow> i64 \<Rightarrow> i64 \<Rightarrow> (i64 \<times> 'm signal_state_scheme) outcome" where
  "hsa_signal_cas_release s signal expected value =
     GCCBuiltinSignal_compareExchange s (fromHSAObject (SignalRegistry s) signal) expected value Release"

definition hsa_signal_add_acq_rel ::
  "'m signal_state_scheme \<Rightarrow> u64 \<Rightarrow> i64 \<Rightarrow> 'm signal_state_scheme outcome" where
  "hsa_signal_add_acq_rel s signal value =
     GCCBuiltinSignal_add s (fromHSAObject (SignalRegistry s) signal) value AcquireRelease"

definition hsa_signal_add_acquire ::
  "'m signal_state_scheme \<Rightarrow> u64 \<Rightarrow> i64 \<Rightarrow> 'm signal_state_scheme outcome" where
  "hsa_signal_add_acquire s signal value =
     GCCBuiltinSignal_add s (fromHSAObject (SignalRegistry s) signal) value Acquire"

definition hsa_signal_add_relaxed ::
  "'m signal_state_scheme \<Rightarrow> u64 \<Rightarrow> i64 \<Rightarrow> 'm signal_state_scheme outcome" where
  "hsa_signal_add_relaxed s signal value =
     GCCBuiltinSignal_add s (fromHSAObject (SignalRegistry s) signal) value Relaxed"

definition hsa_signal_add_release ::
  "'m signal_state_scheme \<Rightarrow> u64 \<Rightarrow> i64 \<Rightarrow> 'm signal_state_scheme outcome" where
  "hsa_signal_add_release s signal value =
     GCCBuiltinSignal_add s (fromHSAObject (SignalRegistry s) signal) value Release"

definition hsa_signal_subtract_acq_rel ::
  "'m signal_state_scheme \<Rightarrow> u64 \<Rightarrow> i64 \<Rightarrow> 'm signal_state_scheme outcome" where
  "hsa_signal_subtract_acq_rel s signal value =
     GCCBuiltinSignal_subtract s (fromHSAObject (SignalRegistry s) signal) value AcquireRelease"

definition hsa_signal_subtract_acquire ::
  "'m signal_state_scheme \<Rightarrow> u64 \<Rightarrow> i64 \<Rightarrow> 'm signal_state_scheme outcome" where
  "hsa_signal_subtract_acquire s signal value =
     GCCBuiltinSignal_subtract s (fromHSAObject (SignalRegistry s) signal) value Acquire"

definition hsa_signal_subtract_relaxed ::
  "'m signal_state_scheme \<Rightarrow> u64 \<Rightarrow> i64 \<Rightarrow> 'm signal_state_scheme outcome" where
  "hsa_signal_subtract_relaxed s signal value =
     GCCBuiltinSignal_subtract s (fromHSAObject (SignalRegistry s) signal) value Relaxed"

definition hsa_signal_subtract_release ::
  "'m signal_state_scheme \<Rightarrow> u64 \<Rightarrow> i64 \<Rightarrow> 'm signal_state_scheme outcome" where
  "hsa_signal_subtract_release s signal value =
     GCCBuiltinSignal_subtract s (fromHSAObject (SignalRegistry s) signal) value Release"

definition hsa_signal_and_acq_rel ::
  "'m signal_state_scheme \<Rightarrow> u64 \<Rightarrow> i64 \<Rightarrow> 'm signal_state_scheme outcome" where
  "hsa_signal_and_acq_rel s signal value =
     GCCBuiltinSignal_and s (fromHSAObject (SignalRegistry s) signal) value AcquireRelease"

definition hsa_signal_and_acquire ::
  "'m signal_state_scheme \<Rightarrow> u64 \<Rightarrow> i64 \<Rightarrow> 'm signal_state_scheme outcome" where
  "hsa_signal_and_acquire s signal value =
     GCCBuiltinSignal_and s (fromHSAObject (SignalRegistry s) signal) value Acquire"

definition hsa_signal_and_relaxed ::
  "'m signal_state_scheme \<Rightarrow> u64 \<Rightarrow> i64 \<Rightarrow> 'm signal_state_scheme outcome" where
  "hsa_signal_and_relaxed s signal value =
     GCCBuiltinSignal_and s (fromHSAObject (SignalRegistry s) signal) value Relaxed"

definition hsa_signal_and_release ::
  "'m signal_state_scheme \<Rightarrow> u64 \<Rightarrow> i64 \<Rightarrow> 'm signal_state_scheme outcome" where
  "hsa_signal_and_release s signal value =
     GCCBuiltinSignal_and s (fromHSAObject (SignalRegistry s) signal) value Release"

definition hsa_signal_or_acq_rel ::
  "'m signal_state_scheme \<Rightarrow> u64 \<Rightarrow> i64 \<Rightarrow> 'm signal_state_scheme outcome" where
  "hsa_signal_or_acq_rel s signal value =
     GCCBuiltinSignal_or s (fromHSAObject (SignalRegistry s) signal) value AcquireRelease"

definition hsa_signal_or_acquire ::
  "'m signal_state_scheme \<Rightarrow> u64 \<Rightarrow> i64 \<Rightarrow> 'm signal_state_scheme outcome" where
  "hsa_signal_or_acquire s signal value =
     GCCBuiltinSignal_or s (fromHSAObject (SignalRegistry s) signal) value Acquire"

definition hsa_signal_or_relaxed ::
  "'m signal_state_scheme \<Rightarrow> u64 \<Rightarrow> i64 \<Rightarrow> 'm signal_state_scheme outcome" where
  "hsa_signal_or_relaxed s signal value =
     GCCBuiltinSignal_or s (fromHSAObject (SignalRegistry s) signal) value Relaxed"

definition hsa_signal_or_release ::
  "'m signal_state_scheme \<Rightarrow> u64 \<Rightarrow> i64 \<Rightarrow> 'm signal_state_scheme outcome" where
  "hsa_signal_or_release s signal value =
     GCCBuiltinSignal_or s (fromHSAObject (SignalRegistry s) signal) value Release"

definition hsa_signal_xor_acq_rel ::
  "'m signal_state_scheme \<Rightarrow> u64 \<Rightarrow> i64 \<Rightarrow> 'm signal_state_scheme outcome" where
  "hsa_signal_xor_acq_rel s signal value =
     GCCBuiltinSignal_xor s (fromHSAObject (SignalRegistry s) signal) value AcquireRelease"

definition hsa_signal_xor_acquire ::
  "'m signal_state_scheme \<Rightarrow> u64 \<Rightarrow> i64 \<Rightarrow> 'm signal_state_scheme outcome" where
  "hsa_signal_xor_acquire s signal value =
     GCCBuiltinSignal_xor s (fromHSAObject (SignalRegistry s) signal) value Acquire"

definition hsa_signal_xor_relaxed ::
  "'m signal_state_scheme \<Rightarrow> u64 \<Rightarrow> i64 \<Rightarrow> 'm signal_state_scheme outcome" where
  "hsa_signal_xor_relaxed s signal value =
     GCCBuiltinSignal_xor s (fromHSAObject (SignalRegistry s) signal) value Relaxed"

definition hsa_signal_xor_release ::
  "'m signal_state_scheme \<Rightarrow> u64 \<Rightarrow> i64 \<Rightarrow> 'm signal_state_scheme outcome" where
  "hsa_signal_xor_release s signal value =
     GCCBuiltinSignal_xor s (fromHSAObject (SignalRegistry s) signal) value Release"

text \<open>The switch covers the four conditions; another value runs off the end of the function.\<close>

fun ToPredicate :: "hsa_signal_condition_t \<Rightarrow> i64 \<Rightarrow> (i64 \<Rightarrow> bool) outcome" where
  "ToPredicate HSA_SIGNAL_CONDITION_EQ compare_value = Inr (\<lambda>Value. Value = compare_value)"
| "ToPredicate HSA_SIGNAL_CONDITION_NE compare_value = Inr (\<lambda>Value. Value \<noteq> compare_value)"
| "ToPredicate HSA_SIGNAL_CONDITION_LT compare_value =
     Inr (\<lambda>Value. sint Value < sint compare_value)"
| "ToPredicate HSA_SIGNAL_CONDITION_GTE compare_value =
     Inr (\<lambda>Value. sint compare_value \<le> sint Value)"
| "ToPredicate (hsa_signal_condition_t_unlisted v) compare_value = Inl Undefined_Behaviour"

text \<open>A duration is a signed 64-bit count of nanoseconds.\<close>

definition ToStdPeriod :: "u64 \<Rightarrow> i64" where
  "ToStdPeriod Timeout = (if Timeout = u64_max then i64_max else Timeout)"

definition hsa_signal_wait_acquire ::
  "'m signal_state_scheme \<Rightarrow> u64 \<Rightarrow> hsa_signal_condition_t \<Rightarrow> i64 \<Rightarrow> u64 \<Rightarrow> hsa_wait_state_t \<Rightarrow>
   int \<Rightarrow> (nat \<Rightarrow> i64) \<Rightarrow> (nat \<Rightarrow> int) \<Rightarrow> i64 option outcome" where
  "hsa_signal_wait_acquire s signal condition compare_value timeout_hint wait_state_hint
     StartTime loads nows =
     (let S = fromHSAObject (SignalRegistry s) signal
      in and_then (ToPredicate condition compare_value) (\<lambda>Condition.
           GCCBuiltinSignal_wait s S Condition (ToStdPeriod timeout_hint) Acquire StartTime loads nows))"

definition hsa_signal_wait_relaxed ::
  "'m signal_state_scheme \<Rightarrow> u64 \<Rightarrow> hsa_signal_condition_t \<Rightarrow> i64 \<Rightarrow> u64 \<Rightarrow> hsa_wait_state_t \<Rightarrow>
   int \<Rightarrow> (nat \<Rightarrow> i64) \<Rightarrow> (nat \<Rightarrow> int) \<Rightarrow> i64 option outcome" where
  "hsa_signal_wait_relaxed s signal condition compare_value timeout_hint wait_state_hint
     StartTime loads nows =
     (let S = fromHSAObject (SignalRegistry s) signal
      in and_then (ToPredicate condition compare_value) (\<lambda>Condition.
           GCCBuiltinSignal_wait s S Condition (ToStdPeriod timeout_hint) Relaxed StartTime loads nows))"

section \<open>The wait loop returns at the first iteration that may stop it\<close>

definition wait_stops :: "(i64 \<Rightarrow> bool) \<Rightarrow> int \<Rightarrow> int \<Rightarrow> (nat \<Rightarrow> i64) \<Rightarrow> (nat \<Rightarrow> int) \<Rightarrow> nat \<Rightarrow> bool" where
  "wait_stops Condition Timeout StartTime loads nows i \<longleftrightarrow>
     Timeout < nows i - StartTime \<or> Condition (loads i)"

lemma wait_loop_unfold:
  "wait_loop Condition Timeout StartTime loads nows i =
     (if wait_stops Condition Timeout StartTime loads nows i then Some (loads i)
      else wait_loop Condition Timeout StartTime loads nows (Suc i))"
  by (subst wait_loop.simps) (simp add: wait_stops_def)

lemma wait_loop_returns:
  assumes "wait_stops C T t0 loads nows k" and "i \<le> k"
    and "\<And>j. i \<le> j \<Longrightarrow> j < k \<Longrightarrow> \<not> wait_stops C T t0 loads nows j"
  shows "wait_loop C T t0 loads nows i = Some (loads k)"
  using assms
proof (induction "k - i" arbitrary: i)
  case 0
  then show ?case by (simp add: wait_loop_unfold [of _ _ _ _ _ i])
next
  case (Suc n)
  then have "\<not> wait_stops C T t0 loads nows i" by simp
  moreover from Suc have "wait_loop C T t0 loads nows (Suc i) = Some (loads k)" by simp
  ultimately show ?case by (simp add: wait_loop_unfold [of _ _ _ _ _ i])
qed

lemma wait_loop_SomeD:
  assumes "wait_loop C T t0 loads nows i = Some v"
  shows "\<exists>k\<ge>i. wait_stops C T t0 loads nows k \<and> v = loads k"
proof (rule wait_loop.raw_induct [where P = "\<lambda>C T t0 loads nows i v.
    \<exists>k\<ge>i. wait_stops C T t0 loads nows k \<and> v = loads k", OF _ assms])
  fix f :: "(i64 \<Rightarrow> bool) \<Rightarrow> int \<Rightarrow> int \<Rightarrow> (nat \<Rightarrow> i64) \<Rightarrow> (nat \<Rightarrow> int) \<Rightarrow> nat \<Rightarrow> i64 option"
    and C T t0 loads nows i v
  assume IH: "\<And>C T t0 loads nows i v. f C T t0 loads nows i = Some v \<Longrightarrow>
      \<exists>k\<ge>i. wait_stops C T t0 loads nows k \<and> v = loads k"
    and eq: "(if T < nows i - t0 then Some (loads i) else if C (loads i) then Some (loads i)
        else f C T t0 loads nows (Suc i)) = Some v"
  show "\<exists>k\<ge>i. wait_stops C T t0 loads nows k \<and> v = loads k"
  proof (cases "wait_stops C T t0 loads nows i")
    case True
    with eq show ?thesis by (auto simp: wait_stops_def split: if_splits)
  next
    case False
    with eq have "f C T t0 loads nows (Suc i) = Some v"
      by (auto simp: wait_stops_def split: if_splits)
    from IH [OF this] show ?thesis by (blast dest: Suc_leD)
  qed
qed

lemma wait_loop_eq:
  "wait_loop C T t0 loads nows 0 =
     (if \<exists>k. wait_stops C T t0 loads nows k
      then Some (loads (LEAST k. wait_stops C T t0 loads nows k)) else None)"
proof (cases "\<exists>k. wait_stops C T t0 loads nows k")
  case True
  then have "wait_stops C T t0 loads nows (LEAST k. wait_stops C T t0 loads nows k)"
    by (rule LeastI_ex)
  then have "wait_loop C T t0 loads nows 0 = Some (loads (LEAST k. wait_stops C T t0 loads nows k))"
    by (rule wait_loop_returns) (auto dest: not_less_Least)
  with True show ?thesis by simp
next
  case False
  then have "wait_loop C T t0 loads nows 0 = None"
    by (cases "wait_loop C T t0 loads nows 0") (auto dest: wait_loop_SomeD)
  with False show ?thesis by simp
qed

section \<open>The interface of a signal\<close>

text \<open>
  What a client of \<open>Signal\<close> relies on, with the memory orders an implementation accepts for
  loads and stores as parameters: the operations act on one 64-bit value.
\<close>

locale signal_operations =
  fixes val :: "'s \<Rightarrow> i64"
    and usable :: "'s \<Rightarrow> bool"
    and load :: "'s \<Rightarrow> MemoryOrder \<Rightarrow> i64 outcome"
    and store sig_add sig_subtract sig_xor sig_and sig_or :: "'s \<Rightarrow> i64 \<Rightarrow> MemoryOrder \<Rightarrow> 's outcome"
    and exchange :: "'s \<Rightarrow> i64 \<Rightarrow> MemoryOrder \<Rightarrow> (i64 \<times> 's) outcome"
  assumes load: "usable s \<Longrightarrow> MO = Acquire \<or> MO = Relaxed \<Longrightarrow> load s MO = Inr (val s)"
    and store: "usable s \<Longrightarrow> MO = Release \<or> MO = Relaxed \<Longrightarrow>
      \<exists>s'. store s v MO = Inr s' \<and> usable s' \<and> val s' = v"
    and exchange: "usable s \<Longrightarrow>
      \<exists>s'. exchange s v MO = Inr (val s, s') \<and> usable s' \<and> val s' = v"
    and add: "usable s \<Longrightarrow>
      \<exists>s'. sig_add s v MO = Inr s' \<and> usable s' \<and> val s' = val s + v"
    and subtract: "usable s \<Longrightarrow>
      \<exists>s'. sig_subtract s v MO = Inr s' \<and> usable s' \<and> val s' = val s - v"
    and xor: "usable s \<Longrightarrow> \<exists>s'. sig_xor s v MO = Inr s' \<and> usable s' \<and> val s' = val s XOR v"
    and conj: "usable s \<Longrightarrow> \<exists>s'. sig_and s v MO = Inr s' \<and> usable s' \<and> val s' = val s AND v"
    and disj: "usable s \<Longrightarrow> \<exists>s'. sig_or s v MO = Inr s' \<and> usable s' \<and> val s' = val s OR v"
begin

lemma store_then_load:
  assumes "usable s" and "MO = Release \<or> MO = Relaxed" and "MO' = Acquire \<or> MO' = Relaxed"
  shows "\<exists>s'. store s v MO = Inr s' \<and> load s' MO' = Inr v"
  using store [OF assms(1,2), of v] load assms(3) by blast

text \<open>A counting barrier: \<open>n\<close> decrements by one take a signal from \<open>n\<close> to zero.\<close>

fun countdown :: "nat \<Rightarrow> 's \<Rightarrow> MemoryOrder \<Rightarrow> 's outcome" where
  "countdown 0 s MO = Inr s"
| "countdown (Suc n) s MO = and_then (sig_subtract s 1 MO) (\<lambda>s'. countdown n s' MO)"

lemma countdown_value:
  "usable s \<Longrightarrow> \<exists>s'. countdown n s MO = Inr s' \<and> usable s' \<and> val s' = val s - of_nat n"
proof (induction n arbitrary: s)
  case (Suc n)
  obtain s1 where s1: "sig_subtract s 1 MO = Inr s1" "usable s1" "val s1 = val s - 1"
    using subtract [OF Suc.prems] by blast
  with Suc.IH [OF s1(2)] show ?case by (auto simp: algebra_simps)
qed simp

lemma countdown_to_zero:
  assumes "usable s" and "val s = of_nat n"
  shows "\<exists>s'. countdown n s MO = Inr s' \<and> val s' = 0"
  using countdown_value [OF assms(1), of n] assms(2) by auto

lemma xor_twice:
  assumes "usable s"
  shows "\<exists>s'. and_then (sig_xor s v MO) (\<lambda>s1. sig_xor s1 v MO') = Inr s' \<and> usable s' \<and> val s' = val s"
proof -
  obtain s1 where s1: "sig_xor s v MO = Inr s1" "usable s1" "val s1 = val s XOR v"
    using xor [OF assms] by blast
  with xor [OF s1(2), of v MO'] show ?thesis by (auto simp: xor.assoc)
qed

end

text \<open>
  A compare-exchange that returns the value it observed, so that the caller can compare it with
  the expected one to learn whether the exchange happened.
\<close>

locale signal_compare_exchange =
  signal_operations val usable load store sig_add sig_subtract sig_xor sig_and sig_or exchange
  for val :: "'s \<Rightarrow> i64" and usable load store sig_add sig_subtract sig_xor sig_and sig_or exchange +
  fixes compareExchange :: "'s \<Rightarrow> i64 \<Rightarrow> i64 \<Rightarrow> MemoryOrder \<Rightarrow> (i64 \<times> 's) outcome"
  assumes compareExchange: "usable s \<Longrightarrow> cas_order MO \<Longrightarrow>
    \<exists>s'. compareExchange s e d MO = Inr (val s, s') \<and> usable s' \<and>
      val s' = (if val s = e then d else val s)"
begin

text \<open>Of two contenders for a lock word, the first to run gets it and the second sees it taken.\<close>

lemma lock_exclusive:
  assumes "usable s" and "val s = 0" and "cas_order MO" and "cas_order MO'"
  shows "\<exists>s1 s2. compareExchange s 0 1 MO = Inr (0, s1) \<and> compareExchange s1 0 1 MO' = Inr (1, s2)
    \<and> val s2 = 1"
proof -
  obtain s1 where s1: "compareExchange s 0 1 MO = Inr (0, s1)" "usable s1" "val s1 = 1"
    using compareExchange [OF assms(1,3), of 0 1] assms(2) by auto
  with compareExchange [OF s1(2) assms(4), of 0 1] show ?thesis by auto
qed

end

section \<open>Both implementations keep the laws; one of them keeps the compare-exchange law\<close>

definition signal_value :: "addr \<Rightarrow> 'm signal_state_scheme \<Rightarrow> i64" where
  "signal_value S s =
     (case Signals s S of None \<Rightarrow> 0
      | Some Obj \<Rightarrow> (case SignalValues s (CurrentValue Obj) of None \<Rightarrow> 0 | Some v \<Rightarrow> v))"

definition signal_usable :: "addr \<Rightarrow> 'm signal_state_scheme \<Rightarrow> bool" where
  "signal_usable S s \<longleftrightarrow> S \<noteq> nullptr \<and> Instance s \<noteq> nullptr \<and>
     (case Signals s S of None \<Rightarrow> False
      | Some Obj \<Rightarrow> CurrentValue Obj \<noteq> nullptr \<and> SignalValues s (CurrentValue Obj) \<noteq> None)"

lemma signal_usable_cell:
  assumes "signal_usable S s"
  obtains Obj where "S \<noteq> nullptr" "Instance s \<noteq> nullptr" "Signals s S = Some Obj" "CurrentValue Obj \<noteq> nullptr"
    "signal_cell s S = Inr (CurrentValue Obj, signal_value S s)"
  using assms
  by (auto simp: signal_usable_def signal_cell_def signal_value_def deref_Some split: option.splits)

lemma signal_usable_set_cell:
  assumes "signal_usable S s" and "Signals s S = Some Obj"
  shows "signal_usable S (set_cell (CurrentValue Obj) v s)"
    and "signal_value S (set_cell (CurrentValue Obj) v s) = v"
  using assms by (simp_all add: signal_usable_def signal_value_def set_cell_def)

lemmas gcc_rmw_defs = GCCBuiltinSignal_exchange_def GCCBuiltinSignal_subtract_def
  GCCBuiltinSignal_add_def GCCBuiltinSignal_xor_def GCCBuiltinSignal_and_def
  GCCBuiltinSignal_or_def atomic_defs

interpretation gcc: signal_compare_exchange "signal_value S" "signal_usable S"
  "\<lambda>s. GCCBuiltinSignal_load s S" "\<lambda>s. GCCBuiltinSignal_store s S" "\<lambda>s. GCCBuiltinSignal_add s S"
  "\<lambda>s. GCCBuiltinSignal_subtract s S" "\<lambda>s. GCCBuiltinSignal_xor s S"
  "\<lambda>s. GCCBuiltinSignal_and s S" "\<lambda>s. GCCBuiltinSignal_or s S"
  "\<lambda>s. GCCBuiltinSignal_exchange s S" "\<lambda>s. GCCBuiltinSignal_compareExchange s S" for S :: addr
proof (unfold_locales, goal_cases)
  case (1 s MO)
  from 1(1) show ?case
    by (rule signal_usable_cell)
      (use 1(2) in \<open>auto simp: GCCBuiltinSignal_load_def loadAcquire_def loadRelaxed_def deref_Some
        Runtime_memoryFence_def Runtime_get_Inr\<close>)
next
  case (2 s MO v)
  from 2(1) show ?case
    by (rule signal_usable_cell)
      (use 2 in \<open>auto simp: GCCBuiltinSignal_store_def storeRelease_def storeRelaxed_def deref_Some
        Runtime_memoryFence_def Runtime_flush_def Runtime_get_Inr signal_usable_set_cell\<close>)
next
  case (3 s v MO)
  from 3 show ?case
    by (rule signal_usable_cell) (use 3 in \<open>simp add: gcc_rmw_defs signal_usable_set_cell\<close>)
next
  case (4 s v MO)
  from 4 show ?case
    by (rule signal_usable_cell) (use 4 in \<open>simp add: gcc_rmw_defs signal_usable_set_cell\<close>)
next
  case (5 s v MO)
  from 5 show ?case
    by (rule signal_usable_cell) (use 5 in \<open>simp add: gcc_rmw_defs signal_usable_set_cell\<close>)
next
  case (6 s v MO)
  from 6 show ?case
    by (rule signal_usable_cell) (use 6 in \<open>simp add: gcc_rmw_defs signal_usable_set_cell\<close>)
next
  case (7 s v MO)
  from 7 show ?case
    by (rule signal_usable_cell) (use 7 in \<open>simp add: gcc_rmw_defs signal_usable_set_cell\<close>)
next
  case (8 s v MO)
  from 8 show ?case
    by (rule signal_usable_cell) (use 8 in \<open>simp add: gcc_rmw_defs signal_usable_set_cell\<close>)
next
  case (9 s MO e d)
  from 9(1) show ?case
    by (rule signal_usable_cell)
      (use 9 in \<open>simp add: GCCBuiltinSignal_compareExchange_def CompareExchange_observed
        signal_usable_set_cell\<close>)
qed

interpretation std: signal_operations "\<lambda>v. v" "\<lambda>v. True"
  StdAtomicSignal_load StdAtomicSignal_store StdAtomicSignal_add StdAtomicSignal_subtract
  StdAtomicSignal_xor StdAtomicSignal_and StdAtomicSignal_or StdAtomicSignal_exchange
  by unfold_locales
    (auto simp: StdAtomicSignal_load_def StdAtomicSignal_store_def StdAtomicSignal_add_def
      StdAtomicSignal_subtract_def StdAtomicSignal_xor_def StdAtomicSignal_and_def
      StdAtomicSignal_or_def StdAtomicSignal_exchange_def)

text \<open>
  \<open>StdAtomicSignal\<close> returns the flag instead of the observed value: a failing exchange that
  observed 7 returns 0, a successful one 1.
\<close>

lemma std_compareExchange_flag:
  "cas_order MO \<Longrightarrow> StdAtomicSignal_compareExchange v e d MO =
     Inr (if v = e then 1 else 0, if v = e then d else v)"
  by (cases MO) (simp_all add: StdAtomicSignal_compareExchange_def)

lemma std_not_compare_exchange:
  "\<not> signal_compare_exchange (\<lambda>v. v) (\<lambda>v. True)
     StdAtomicSignal_load StdAtomicSignal_store StdAtomicSignal_add StdAtomicSignal_subtract
     StdAtomicSignal_xor StdAtomicSignal_and StdAtomicSignal_or StdAtomicSignal_exchange
     StdAtomicSignal_compareExchange"
proof
  assume "signal_compare_exchange (\<lambda>v. v) (\<lambda>v. True)
     StdAtomicSignal_load StdAtomicSignal_store StdAtomicSignal_add StdAtomicSignal_subtract
     StdAtomicSignal_xor StdAtomicSignal_and StdAtomicSignal_or StdAtomicSignal_exchange
     StdAtomicSignal_compareExchange"
  from signal_compare_exchange.compareExchange [OF this, of Relaxed 7 0 1]
  show False by (simp add: std_compareExchange_flag)
qed

section \<open>Life of a signal\<close>

definition signal_region :: "'m signal_state_scheme \<Rightarrow> addr" where
  "signal_region s = hd (MemoryRegions s)"

text \<open>
  Every handle in the registry is the address of a live cell of the runtime's first region and
  belongs to exactly one live object; every live object is registered.
\<close>

definition signal_entry_ok :: "'m signal_state_scheme \<Rightarrow> u64 \<Rightarrow> addr \<Rightarrow> bool" where
  "signal_entry_ok s h p \<longleftrightarrow>
     h \<noteq> nullptr \<and> h \<in> cpu_live (signal_region s) s \<and> SignalValues s h \<noteq> None \<and>
     Signals s p = Some \<lparr>CurrentValue = h, SignalMemory = signal_region s\<rparr>"

definition signals_inv :: "'m signal_state_scheme \<Rightarrow> bool" where
  "signals_inv s \<longleftrightarrow>
     wf_registry (SignalRegistry s) \<and> dom (Signals s) = objects_of (SignalRegistry s) \<and>
     MemoryRegions s \<noteq> [] \<and> cpu_ok (signal_region s) s \<and>
     (\<forall>h. fromHSAObject (SignalRegistry s) h \<noteq> nullptr \<longrightarrow>
        signal_entry_ok s h (fromHSAObject (SignalRegistry s) h))"

text \<open>
  What the host owes a creation: two successful allocations, of an address that is not an object
  and of one that is not a live chunk.
\<close>

definition signal_supply :: "'m signal_state_scheme \<Rightarrow> addr \<Rightarrow> addr \<Rightarrow> addr list \<Rightarrow> bool" where
  "signal_supply s p c ps \<longleftrightarrow> HostHeap s = p # c # ps \<and> p \<noteq> nullptr \<and> c \<noteq> nullptr \<and>
     p \<notin> dom (Signals s) \<and> c \<notin> cpu_live (signal_region s) s"

lemma posix_memalign_8:
  "HostHeap s = c # ps \<Longrightarrow> posix_memalign 8 n s =
     (if c = nullptr then None else Some c, s\<lparr>HostHeap := ps\<rparr>)"
  by (simp add: posix_memalign_def host_malloc_def is_pow2_def)

definition signal_created :: "'m signal_state_scheme \<Rightarrow> addr \<Rightarrow> addr \<Rightarrow> addr list \<Rightarrow> i64 \<Rightarrow> 'm signal_state_scheme" where
  "signal_created s p c ps v =
     (set_allocations (signal_region s) (the (CPURegions s (signal_region s)))
       (insert c (cpu_live (signal_region s) s)) (s\<lparr>HostHeap := ps\<rparr>))
     \<lparr>Signals := (Signals s)(p \<mapsto> \<lparr>CurrentValue = c, SignalMemory = signal_region s\<rparr>),
      SignalValues := (SignalValues s)(c \<mapsto> v),
      SignalRegistry := registerObject (SignalRegistry s) c p\<rparr>"

lemma GCCBuiltinSignal_new_eq:
  assumes "cpu_ok (signal_region s) s" and "signal_supply s p c ps"
  shows "GCCBuiltinSignal_new v (signal_region s) s = Inr (p, signal_created s p c ps v)"
proof -
  obtain R where R: "signal_region s \<noteq> nullptr" "CPURegions s (signal_region s) = Some R"
    using assms(1) by (auto simp: cpu_ok_def)
  have "operator_new s = Inr (p, s\<lparr>HostHeap := c # ps\<rparr>)"
    using assms(2) by (simp add: operator_new_def host_malloc_def signal_supply_def)
  moreover have "posix_memalign 8 8 (s\<lparr>HostHeap := c # ps\<rparr>) = (Some c, s\<lparr>HostHeap := ps\<rparr>)"
    using assms(2) by (simp add: posix_memalign_8 signal_supply_def)
  ultimately show ?thesis
    using assms(2) R
    by (simp add: GCCBuiltinSignal_new_def CPUMemoryRegion_allocate_def deref_Some signal_created_def
        set_allocations_def cpu_live_def signal_supply_def)
qed

lemma signal_created_simps [simp]:
  "MemoryRegions (signal_created s p c ps v) = MemoryRegions s"
  "signal_region (signal_created s p c ps v) = signal_region s"
  "Signals (signal_created s p c ps v) =
     (Signals s)(p \<mapsto> \<lparr>CurrentValue = c, SignalMemory = signal_region s\<rparr>)"
  "SignalValues (signal_created s p c ps v) = (SignalValues s)(c \<mapsto> v)"
  "SignalRegistry (signal_created s p c ps v) = registerObject (SignalRegistry s) c p"
  "Instance (signal_created s p c ps v) = Instance s"
  "ReferenceCounter (signal_created s p c ps v) = ReferenceCounter s"
  "HostHeap (signal_created s p c ps v) = ps"
  by (simp_all add: signal_created_def signal_region_def set_allocations_def)

lemma cpu_live_signal_created [simp]:
  "cpu_live (signal_region s) (signal_created s p c ps v) = insert c (cpu_live (signal_region s) s)"
  by (simp add: signal_created_def set_allocations_def cpu_live_def)

lemma signals_inv_supply:
  assumes "signals_inv s" and "signal_supply s p c ps"
  shows "fromHSAObject (SignalRegistry s) c = nullptr" and "p \<notin> objects_of (SignalRegistry s)"
  using assms by (auto simp: signals_inv_def signal_supply_def signal_entry_ok_def)

lemma signals_inv_created:
  assumes inv: "signals_inv s" and sup: "signal_supply s p c ps"
  shows "signals_inv (signal_created s p c ps v)"
proof -
  have wf: "wf_registry (SignalRegistry s)" and ok: "cpu_ok (signal_region s) s"
    using inv by (auto simp: signals_inv_def)
  have p0: "p \<noteq> nullptr" "c \<noteq> nullptr" using sup by (auto simp: signal_supply_def)
  note fresh = signals_inv_supply [OF inv sup]
  have "CPURegions (signal_created s p c ps v) (signal_region s) \<noteq> None"
    by (simp add: signal_created_def set_allocations_def)
  with ok p0 have "cpu_ok (signal_region s) (signal_created s p c ps v)"
    by (simp add: cpu_ok_def)
  moreover have "signal_entry_ok (signal_created s p c ps v) h q"
    if "q \<noteq> nullptr" "q = (if h = c then p else fromHSAObject (SignalRegistry s) h)" for h q
  proof (cases "h = c")
    case True
    with that p0 show ?thesis by (simp add: signal_entry_ok_def)
  next
    case False
    with that have q: "q = fromHSAObject (SignalRegistry s) h" by simp
    then have "q \<in> objects_of (SignalRegistry s)" using om.find_live [OF wf] that(1) by simp
    with fresh(2) have "q \<noteq> p" by auto
    moreover have "signal_entry_ok s h q" using inv that(1) q by (simp add: signals_inv_def)
    ultimately show ?thesis by (simp add: signal_entry_ok_def)
  qed
  ultimately show ?thesis
    using inv om.valid_enter [OF wf fresh(1) p0(1) fresh(2)] om.live_enter [OF wf fresh(1)]
    by (auto simp: signals_inv_def om.find_enter)
qed

definition signal_destroyed :: "'m signal_state_scheme \<Rightarrow> addr \<Rightarrow> addr \<Rightarrow> 'm signal_state_scheme" where
  "signal_destroyed s p c =
     (set_allocations (signal_region s) (the (CPURegions s (signal_region s)))
       (cpu_live (signal_region s) s - {c}) s)
     \<lparr>SignalRegistry := destroyMapping (SignalRegistry s) p, Signals := (Signals s)(p := None)\<rparr>"

lemma signal_destroyed_simps [simp]:
  "MemoryRegions (signal_destroyed s p c) = MemoryRegions s"
  "signal_region (signal_destroyed s p c) = signal_region s"
  "Signals (signal_destroyed s p c) = (Signals s)(p := None)"
  "SignalValues (signal_destroyed s p c) = SignalValues s"
  "SignalRegistry (signal_destroyed s p c) = destroyMapping (SignalRegistry s) p"
  "Instance (signal_destroyed s p c) = Instance s"
  "ReferenceCounter (signal_destroyed s p c) = ReferenceCounter s"
  "HostHeap (signal_destroyed s p c) = HostHeap s"
  by (simp_all add: signal_destroyed_def signal_region_def set_allocations_def)

lemma cpu_live_signal_destroyed [simp]:
  "cpu_live (signal_region s) (signal_destroyed s p c) = cpu_live (signal_region s) s - {c}"
  by (simp add: signal_destroyed_def set_allocations_def cpu_live_def)

lemma GCCBuiltinSignal_delete_eq:
  assumes inv: "signals_inv s" and h: "fromHSAObject (SignalRegistry s) h = p" "p \<noteq> nullptr"
  shows "GCCBuiltinSignal_delete s p = Inr (signal_destroyed s p h)"
proof -
  have ok: "signal_entry_ok s h p" and "cpu_ok (signal_region s) s"
    using inv h by (auto simp: signals_inv_def)
  then obtain R where R: "signal_region s \<noteq> nullptr" "CPURegions s (signal_region s) = Some R"
    by (auto simp: cpu_ok_def)
  from ok have "Signals s p = Some \<lparr>CurrentValue = h, SignalMemory = signal_region s\<rparr>"
    and "h \<in> cpu_live (signal_region s) s" by (auto simp: signal_entry_ok_def)
  with R h(2) show ?thesis
    by (simp add: GCCBuiltinSignal_delete_def deref_Some CPUMemoryRegion_free_spec
        signal_destroyed_def set_allocations_def)
qed

lemma signals_inv_destroyed:
  assumes inv: "signals_inv s" and h: "fromHSAObject (SignalRegistry s) h = p" "p \<noteq> nullptr"
  shows "signals_inv (signal_destroyed s p h)"
proof -
  have wf: "wf_registry (SignalRegistry s)" and ok: "cpu_ok (signal_region s) s"
    using inv by (auto simp: signals_inv_def)
  have entry: "signal_entry_ok s h p" using inv h by (auto simp: signals_inv_def)
  have "CPURegions (signal_destroyed s p h) (signal_region s) \<noteq> None"
    by (simp add: signal_destroyed_def set_allocations_def)
  with ok have "cpu_ok (signal_region s) (signal_destroyed s p h)" by (simp add: cpu_ok_def)
  moreover have "signal_entry_ok (signal_destroyed s p h) h' q"
    if q: "q \<noteq> nullptr" "q = (if fromHSAObject (SignalRegistry s) h' = p then nullptr
        else fromHSAObject (SignalRegistry s) h')" for h' q
  proof -
    from q have "q \<noteq> p" "q = fromHSAObject (SignalRegistry s) h'" by (auto split: if_splits)
    moreover from this q(1) have "signal_entry_ok s h' q" using inv by (simp add: signals_inv_def)
    moreover have "h' \<noteq> h" using calculation h(1) by auto
    ultimately show ?thesis by (simp add: signal_entry_ok_def)
  qed
  ultimately show ?thesis
    using inv om.valid_remove [OF wf] om.live_remove [OF wf]
    by (auto simp: signals_inv_def om.find_remove [OF wf h(2)])
qed

lemma signals_inv_set_cell:
  "signals_inv s \<Longrightarrow> signals_inv (set_cell c v s)"
  by (auto simp: signals_inv_def signal_entry_ok_def set_cell_def signal_region_def cpu_ok_def cpu_live_def)

lemma signal_usable_registered:
  assumes "signals_inv s" and "Instance s \<noteq> nullptr"
    and "fromHSAObject (SignalRegistry s) h \<noteq> nullptr"
  shows "signal_usable (fromHSAObject (SignalRegistry s) h) s"
  using assms by (auto simp: signals_inv_def signal_entry_ok_def signal_usable_def)

section \<open>Properties of the entry points\<close>

lemma hsa_signal_create_eq:
  assumes "isInitialized s" and "Instance s \<noteq> nullptr" and "signals_inv s" and "signal_supply s p c ps"
    and "signal \<noteq> nullptr" and "num_consumers = 0 \<or> consumers \<noteq> nullptr"
  shows "hsa_signal_create s v num_consumers consumers signal =
    Inr (HSA_STATUS_SUCCESS, Some c, signal_created s p c ps v)"
proof -
  obtain rs where rs: "MemoryRegions s = signal_region s # rs"
    using assms(3) by (cases "MemoryRegions s") (auto simp: signals_inv_def signal_region_def)
  have "cpu_ok (signal_region s) s" and "p \<noteq> nullptr"
    using assms(3,4) by (auto simp: signals_inv_def signal_supply_def)
  with assms rs GCCBuiltinSignal_new_eq [of s p c ps v] show ?thesis
    by (auto simp: hsa_signal_create_def CPURuntime_createSignal_def Runtime_get_Inr deref_Some)
qed

lemma hsa_signal_destroy_eq:
  assumes "isInitialized s" and "signals_inv s" and "fromHSAObject (SignalRegistry s) h \<noteq> nullptr"
  shows "hsa_signal_destroy s h =
    Inr (HSA_STATUS_SUCCESS, signal_destroyed s (fromHSAObject (SignalRegistry s) h) h)"
proof -
  from assms have "h \<noteq> 0" by (auto simp: signals_inv_def signal_entry_ok_def)
  with assms show ?thesis
    by (simp add: hsa_signal_destroy_def GCCBuiltinSignal_delete_eq)
qed

text \<open>A small process state: one region at 16, the host hands out 4096, 4104, 4112, ...\<close>

definition signal_demo :: signal_state where
  "signal_demo = \<lparr>ReferenceCounter = 1, Instance = 8, HostHeap = [4096, 4104, 4112, 4120],
     RegionRegistry = [(16, 16)],
     CPURegions = [16 \<mapsto> \<lparr>CPURegionSegment = HSA_REGION_SEGMENT_GLOBAL, CPUAllocations = {}\<rparr>],
     MemoryRegions = [16], SignalRegistry = [], Signals = Map.empty, SignalValues = Map.empty\<rparr>"

lemma signal_demo_ok:
  "isInitialized signal_demo" "Instance signal_demo \<noteq> nullptr" "signals_inv signal_demo"
  "signal_supply signal_demo 4096 4104 [4112, 4120]"
  by (simp_all add: signal_demo_def isInitialized_def signals_inv_def signal_supply_def
      signal_region_def cpu_ok_def cpu_live_def fromHSAObject_def)

text \<open>
  C21. A signal that was just created holds its initial value under a handle that is new, no other
  handle changes its meaning, and destroying it restores the directory of signals, the objects
  and the live memory of the region to what they were.
\<close>

theorem signal_create_destroy:
  assumes "isInitialized s" and "Instance s \<noteq> nullptr" and "signals_inv s" and "signal_supply s p c ps"
    and "signal \<noteq> nullptr" and "num_consumers = 0 \<or> consumers \<noteq> nullptr"
  shows "\<exists>s' s''. hsa_signal_create s v num_consumers consumers signal =
      Inr (HSA_STATUS_SUCCESS, Some c, s') \<and>
    signals_inv s' \<and> hsa_signal_load_acquire s' c = Inr v \<and>
    (\<forall>h. fromHSAObject (SignalRegistry s') h = (if h = c then p else fromHSAObject (SignalRegistry s) h)) \<and>
    hsa_signal_destroy s' c = Inr (HSA_STATUS_SUCCESS, s'') \<and> signals_inv s'' \<and>
    fromHSAObject (SignalRegistry s'') = fromHSAObject (SignalRegistry s) \<and> Signals s'' = Signals s \<and>
    cpu_live (signal_region s) s'' = cpu_live (signal_region s) s"
proof -
  let ?s' = "signal_created s p c ps v" and ?s'' = "signal_destroyed (signal_created s p c ps v) p c"
  have p0: "p \<noteq> nullptr" "c \<noteq> nullptr" "p \<notin> dom (Signals s)" "c \<notin> cpu_live (signal_region s) s"
    using assms(4) by (auto simp: signal_supply_def)
  note fresh = signals_inv_supply [OF assms(3,4)]
  have wf: "wf_registry (SignalRegistry s)" using assms(3) by (simp add: signals_inv_def)
  have inv': "signals_inv ?s'" using assms(3,4) by (rule signals_inv_created)
  have found: "fromHSAObject (SignalRegistry ?s') c = p" by (simp add: om.find_enter)
  have init': "isInitialized ?s'" using assms(1) by (simp add: isInitialized_def)
  have "signal_usable p ?s'" using signal_usable_registered [OF inv', of c] assms(2) found p0 by simp
  then have "hsa_signal_load_acquire ?s' c = Inr (signal_value p ?s')"
    unfolding hsa_signal_load_acquire_def found by (intro gcc.load) simp_all
  then have load: "hsa_signal_load_acquire ?s' c = Inr v" by (simp add: signal_value_def)
  have destroy: "hsa_signal_destroy ?s' c = Inr (HSA_STATUS_SUCCESS, ?s'')"
    using hsa_signal_destroy_eq [OF init' inv'] found p0 by metis
  have inv'': "signals_inv ?s''" by (rule signals_inv_destroyed [OF inv' found p0(1)])
  have reg: "fromHSAObject (SignalRegistry ?s'') = fromHSAObject (SignalRegistry s)"
    using om.create_destroy_roundtrip [OF wf fresh(1) p0(1) fresh(2)] by simp
  have sigs: "Signals ?s'' = Signals s" using p0(3) by (auto simp: fun_upd_idem_iff)
  have "cpu_live (signal_region s) ?s'' = cpu_live (signal_region s) s"
    using p0(4) cpu_live_signal_destroyed [of ?s' p c] by simp
  with load destroy inv' inv'' reg sigs show ?thesis
    by (intro exI [of _ ?s'] exI [of _ ?s'']) (simp add: hsa_signal_create_eq assms om.find_enter)
qed

theorem signal_create_destroy_witness:
  "\<exists>s' s''. hsa_signal_create signal_demo 5 0 nullptr 64 = Inr (HSA_STATUS_SUCCESS, Some 4104, s') \<and>
     hsa_signal_load_acquire s' 4104 = Inr 5 \<and>
     hsa_signal_destroy s' 4104 = Inr (HSA_STATUS_SUCCESS, s'') \<and> Signals s'' = Map.empty"
  using signal_create_destroy [OF signal_demo_ok, of 64 0 0 5]
  by (auto simp: signal_demo_def)

text \<open>
  C22. Waiting on a registered signal returns the value of the first load at which the condition
  holds or the timeout has passed, and returns if and only if there is such a load; a timeout
  of \<open>UINT64_MAX\<close> is the largest duration of the clock.
\<close>

theorem signal_wait_returns_first:
  assumes "signals_inv s" and "Instance s \<noteq> nullptr"
    and "fromHSAObject (SignalRegistry s) signal \<noteq> nullptr"
    and "ToPredicate condition compare_value = Inr C"
  shows "hsa_signal_wait_acquire s signal condition compare_value timeout hint t0 loads nows =
    Inr (if \<exists>k. wait_stops C (sint (ToStdPeriod timeout)) t0 loads nows k
         then Some (loads (LEAST k. wait_stops C (sint (ToStdPeriod timeout)) t0 loads nows k))
         else None)"
proof -
  have "signal_usable (fromHSAObject (SignalRegistry s) signal) s"
    using assms by (intro signal_usable_registered)
  then have "GCCBuiltinSignal_load s (fromHSAObject (SignalRegistry s) signal) Acquire =
      Inr (signal_value (fromHSAObject (SignalRegistry s) signal) s)" by (intro gcc.load) simp_all
  with assms(4) show ?thesis
    by (simp add: hsa_signal_wait_acquire_def GCCBuiltinSignal_wait_def wait_loop_eq)
qed

definition signal_demo1 :: signal_state where
  "signal_demo1 = signal_created signal_demo 4096 4104 [4112, 4120] 5"

lemma signal_demo1_ok:
  "signals_inv signal_demo1" "Instance signal_demo1 \<noteq> nullptr"
  "fromHSAObject (SignalRegistry signal_demo1) 4104 \<noteq> nullptr"
  using signals_inv_created [OF signal_demo_ok(3,4)] signal_demo_ok(2)
  by (simp_all add: signal_demo1_def om.find_enter)

theorem signal_wait_returns_first_witness:
  "hsa_signal_wait_acquire signal_demo1 4104 HSA_SIGNAL_CONDITION_LT 3 1000 HSA_WAIT_STATE_BLOCKED 0
     (\<lambda>i. if i < 2 then 5 else 2) (\<lambda>i. int i) = Inr (Some 2)"
proof -
  let ?stop = "wait_stops (\<lambda>v. sint v < sint (3 :: i64)) 1000 0 (\<lambda>i. if i < 2 then 5 else 2) (\<lambda>i. int i)"
  have "(LEAST k. ?stop k) = 2"
  proof (rule Least_equality)
    show "?stop 2" by (simp add: wait_stops_def)
  next
    fix k assume "?stop k"
    then show "2 \<le> k" by (cases "k < 2") (auto simp: wait_stops_def)
  qed
  moreover have "\<exists>k. ?stop k" by (rule exI [of _ 2]) (simp add: wait_stops_def)
  ultimately show ?thesis
    using signal_wait_returns_first [OF signal_demo1_ok, of HSA_SIGNAL_CONDITION_LT 3
        "\<lambda>v. sint v < sint (3 :: i64)" 1000]
    by (simp add: ToStdPeriod_def u64_max_def)
qed



text \<open>
  A lock built on the compare-exchange entry points is exclusive: of two contenders that try to
  swap 0 for 1, the first to run observes 0 and owns the lock, the second observes 1, whatever
  orders they use.
\<close>

theorem signal_cas_lock_exclusive:
  assumes "signals_inv s" and "Instance s \<noteq> nullptr"
    and "fromHSAObject (SignalRegistry s) signal \<noteq> nullptr"
    and "hsa_signal_load_relaxed s signal = Inr 0"
  shows "\<exists>s1 s2. hsa_signal_cas_acq_rel s signal 0 1 = Inr (0, s1) \<and>
    hsa_signal_cas_acquire s1 signal 0 1 = Inr (1, s2) \<and> hsa_signal_load_acquire s2 signal = Inr 1 \<and>
    signals_inv s2"
proof -
  let ?S = "fromHSAObject (SignalRegistry s) signal"
  have use0: "signal_usable ?S s" using assms by (intro signal_usable_registered)
  from use0 obtain Obj where Obj: "Signals s ?S = Some Obj"
    and cell: "signal_cell s ?S = Inr (CurrentValue Obj, signal_value ?S s)" by (rule signal_usable_cell)
  have "signal_value ?S s = 0"
    using assms(4) gcc.load [OF use0, of Relaxed] by (simp add: hsa_signal_load_relaxed_def)
  then have first: "hsa_signal_cas_acq_rel s signal 0 1 = Inr (0, set_cell (CurrentValue Obj) 1 s)"
    using cell by (simp add: hsa_signal_cas_acq_rel_def GCCBuiltinSignal_compareExchange_def CompareExchange_observed)
  let ?s1 = "set_cell (CurrentValue Obj) 1 s"
  have use1: "signal_usable ?S ?s1" and v1: "signal_value ?S ?s1 = 1"
    using signal_usable_set_cell [OF use0 Obj] by blast+
  have reg: "SignalRegistry (set_cell c v s') = SignalRegistry s'" for c v and s' :: "'a signal_state_scheme"
    by (simp add: set_cell_def)
  have "Signals ?s1 = Signals s" by (simp add: set_cell_def)
  then have "signal_cell ?s1 ?S = Inr (CurrentValue Obj, 1)"
    using use1 v1 Obj by (auto elim!: signal_usable_cell)
  then have second: "hsa_signal_cas_acquire ?s1 signal 0 1 = Inr (1, set_cell (CurrentValue Obj) 1 ?s1)"
    by (simp add: hsa_signal_cas_acquire_def GCCBuiltinSignal_compareExchange_def
        CompareExchange_observed reg)
  have "signals_inv (set_cell (CurrentValue Obj) 1 ?s1)"
    using assms(1) by (intro signals_inv_set_cell)
  moreover have "set_cell (CurrentValue Obj) 1 ?s1 = ?s1" by (simp add: set_cell_def)
  moreover have "hsa_signal_load_acquire ?s1 signal = Inr 1"
    using gcc.load [OF use1, of Acquire] v1 by (simp add: hsa_signal_load_acquire_def reg)
  ultimately show ?thesis using first second by auto
qed

definition signal_demo0 :: signal_state where
  "signal_demo0 = signal_created signal_demo 4096 4104 [4112, 4120] 0"

theorem signal_cas_lock_exclusive_witness:
  "\<exists>s1 s2. hsa_signal_cas_acq_rel signal_demo0 4104 0 1 = Inr (0, s1) \<and>
     hsa_signal_cas_acquire s1 4104 0 1 = Inr (1, s2)"
proof -
  have inv: "signals_inv signal_demo0"
    using signals_inv_created [OF signal_demo_ok(3,4)] by (simp add: signal_demo0_def)
  have inst: "Instance signal_demo0 \<noteq> nullptr" using signal_demo_ok(2) by (simp add: signal_demo0_def)
  have found: "fromHSAObject (SignalRegistry signal_demo0) 4104 \<noteq> nullptr"
    by (simp add: signal_demo0_def om.find_enter)
  have "hsa_signal_load_relaxed signal_demo0 4104 = Inr 0"
    by (simp add: hsa_signal_load_relaxed_def GCCBuiltinSignal_load_def loadRelaxed_def signal_cell_def
        deref_Some signal_demo0_def om.find_enter)
  from signal_cas_lock_exclusive [OF inv inst found this] show ?thesis by blast
qed


end
