(* ===== verification/Queues.thy ===== *)
theory Queues
  imports Signals
begin

text \<open>
  Queues: the AQL packets (\<open>include/AQLPacket.hh\<close>, \<open>include/hsa.h\<close>), the class \<open>Queue\<close>
  (\<open>include/Queue.hh\<close>, \<open>src/Queue.cc\<close>), its implementation \<open>UserModeQueue\<close>
  (\<open>src/Devices/CPU/UserModeQueue\<close>) and the entry points on the read and write index
  (\<open>src/hsa/hsa_queue.cc\<close>). The \<open>hsa_queue_t\<close> that a client holds is a member of the \<open>Queue\<close>
  object; the model identifies the address of the member with the address of the object.
\<close>

section \<open>Packets\<close>

text \<open>
  A packet is a union of 64 bytes; it is kept as its eight quadwords, in little-endian order, and
  every view of the union reads its fields from them.
\<close>

record AQLPacket =
  quad0 :: u64
  quad1 :: u64
  quad2 :: u64
  quad3 :: u64
  quad4 :: u64
  quad5 :: u64
  quad6 :: u64
  quad7 :: u64

definition half_at :: "nat \<Rightarrow> u64 \<Rightarrow> u16" where
  "half_at i q = ucast (drop_bit (16 * i) q)"

definition word_at :: "nat \<Rightarrow> u64 \<Rightarrow> u32" where
  "word_at i q = ucast (drop_bit (32 * i) q)"

definition quad_of_halves :: "u16 \<Rightarrow> u16 \<Rightarrow> u16 \<Rightarrow> u16 \<Rightarrow> u64" where
  "quad_of_halves a b c d =
     (ucast a OR push_bit 16 (ucast b)) OR (push_bit 32 (ucast c) OR push_bit 48 (ucast d))"

definition quad_of_words :: "u32 \<Rightarrow> u32 \<Rightarrow> u64" where
  "quad_of_words a b = ucast a OR push_bit 32 (ucast b)"

text \<open>The header is the first field of every view.\<close>

definition packet_header :: "AQLPacket \<Rightarrow> u16" where
  "packet_header P = half_at 0 (quad0 P)"

definition set_packet_header :: "u16 \<Rightarrow> AQLPacket \<Rightarrow> AQLPacket" where
  "set_packet_header h P =
     P\<lparr>quad0 := quad_of_halves h (half_at 1 (quad0 P)) (half_at 2 (quad0 P)) (half_at 3 (quad0 P))\<rparr>"

record hsa_kernel_dispatch_packet_t =
  kd_header :: u16
  kd_setup :: u16
  kd_workgroup_size_x :: u16
  kd_workgroup_size_y :: u16
  kd_workgroup_size_z :: u16
  kd_grid_size_x :: u32
  kd_grid_size_y :: u32
  kd_grid_size_z :: u32
  kd_private_segment_size :: u32
  kd_group_segment_size :: u32
  kd_kernel_object :: u64
  kd_kernarg_address :: addr
  kd_completion_signal :: u64

definition KernelDispatch :: "AQLPacket \<Rightarrow> hsa_kernel_dispatch_packet_t" where
  "KernelDispatch P =
     \<lparr>kd_header = half_at 0 (quad0 P), kd_setup = half_at 1 (quad0 P),
      kd_workgroup_size_x = half_at 2 (quad0 P), kd_workgroup_size_y = half_at 3 (quad0 P),
      kd_workgroup_size_z = half_at 0 (quad1 P), kd_grid_size_x = word_at 1 (quad1 P),
      kd_grid_size_y = word_at 0 (quad2 P), kd_grid_size_z = word_at 1 (quad2 P),
      kd_private_segment_size = word_at 0 (quad3 P), kd_group_segment_size = word_at 1 (quad3 P),
      kd_kernel_object = quad4 P, kd_kernarg_address = quad5 P, kd_completion_signal = quad7 P\<rparr>"

record hsa_agent_dispatch_packet_t =
  ad_header :: u16
  ad_type :: u16
  ad_return_address :: addr
  ad_arg :: "u64 list"
  ad_completion_signal :: u64

definition AgentDispatch :: "AQLPacket \<Rightarrow> hsa_agent_dispatch_packet_t" where
  "AgentDispatch P =
     \<lparr>ad_header = half_at 0 (quad0 P), ad_type = half_at 1 (quad0 P), ad_return_address = quad1 P,
      ad_arg = [quad2 P, quad3 P, quad4 P, quad5 P], ad_completion_signal = quad7 P\<rparr>"

record hsa_barrier_and_packet_t =
  ba_header :: u16
  ba_dep_signal :: "u64 list"
  ba_completion_signal :: u64

definition BarrierAnd :: "AQLPacket \<Rightarrow> hsa_barrier_and_packet_t" where
  "BarrierAnd P =
     \<lparr>ba_header = half_at 0 (quad0 P),
      ba_dep_signal = [quad1 P, quad2 P, quad3 P, quad4 P, quad5 P],
      ba_completion_signal = quad7 P\<rparr>"

record hsa_barrier_or_packet_t =
  bo_header :: u16
  bo_dep_signal :: "u64 list"
  bo_completion_signal :: u64

definition BarrierOr :: "AQLPacket \<Rightarrow> hsa_barrier_or_packet_t" where
  "BarrierOr P =
     \<lparr>bo_header = half_at 0 (quad0 P),
      bo_dep_signal = [quad1 P, quad2 P, quad3 P, quad4 P, quad5 P],
      bo_completion_signal = quad7 P\<rparr>"

definition HSA_PACKET_HEADER_TYPE :: nat where
  "HSA_PACKET_HEADER_TYPE = 0"

definition HSA_KERNEL_DISPATCH_PACKET_SETUP_DIMENSIONS :: nat where
  "HSA_KERNEL_DISPATCH_PACKET_SETUP_DIMENSIONS = 0"

definition HSA_KERNEL_DISPATCH_PACKET_SETUP_WIDTH_DIMENSIONS :: nat where
  "HSA_KERNEL_DISPATCH_PACKET_SETUP_WIDTH_DIMENSIONS = 2"

definition HSA_PACKET_TYPE_VENDOR_SPECIFIC :: u16 where
  "HSA_PACKET_TYPE_VENDOR_SPECIFIC = 0"

definition HSA_PACKET_TYPE_INVALID :: u16 where
  "HSA_PACKET_TYPE_INVALID = 1"

definition HSA_PACKET_TYPE_KERNEL_DISPATCH :: u16 where
  "HSA_PACKET_TYPE_KERNEL_DISPATCH = 2"

definition HSA_PACKET_TYPE_BARRIER_AND :: u16 where
  "HSA_PACKET_TYPE_BARRIER_AND = 3"

definition HSA_PACKET_TYPE_AGENT_DISPATCH :: u16 where
  "HSA_PACKET_TYPE_AGENT_DISPATCH = 4"

definition HSA_PACKET_TYPE_BARRIER_OR :: u16 where
  "HSA_PACKET_TYPE_BARRIER_OR = 5"

lemmas packet_type_defs = HSA_PACKET_TYPE_VENDOR_SPECIFIC_def HSA_PACKET_TYPE_INVALID_def
  HSA_PACKET_TYPE_KERNEL_DISPATCH_def HSA_PACKET_TYPE_BARRIER_AND_def
  HSA_PACKET_TYPE_AGENT_DISPATCH_def HSA_PACKET_TYPE_BARRIER_OR_def

text \<open>\<open>(Packet.AgentDispatch.header >> HSA_PACKET_HEADER_TYPE) & 0xff\<close>\<close>

definition packet_type :: "AQLPacket \<Rightarrow> u16" where
  "packet_type P = drop_bit HSA_PACKET_HEADER_TYPE (packet_header P) AND 0xff"

section \<open>State\<close>

record hsa_queue_t =
  queue_type :: hsa_queue_type_t
  queue_features :: u32
  base_address :: addr
  doorbell_signal :: u64
  queue_size :: u32
  queue_reserved1 :: u32
  queue_id :: u64

record phsa_queue = hsa_queue_t +
  read_index :: u64
  write_index :: u64

text \<open>
  The members of \<open>Queue\<close> and of \<open>UserModeQueue\<close>. \<open>QueueOwner\<close> is null for a soft queue, \<open>CB\<close> is
  null when there is no callback.
\<close>

record UserModeQueue =
  HSAQueue :: phsa_queue
  QueueOwner :: addr
  Destroyed :: bool
  Inactivated :: bool
  PacketIsProcessed :: "bool list"
  LastHandledDoorBell :: i64
  Region :: addr
  CB :: addr
  IsDoorbellOwned :: bool

text \<open>\<open>Buffers\<close> is the memory of the ring buffers, by base address.\<close>

record queue_state = signal_state +
  QueueRegistry :: registry
  Queues :: "addr \<rightharpoonup> UserModeQueue"
  Buffers :: "addr \<rightharpoonup> AQLPacket list"

section \<open>Construction and destruction\<close>

definition invalid_packet :: AQLPacket where
  "invalid_packet = \<lparr>quad0 = ucast HSA_PACKET_TYPE_INVALID, quad1 = 0, quad2 = 0, quad3 = 0,
     quad4 = 0, quad5 = 0, quad6 = 0, quad7 = 0\<rparr>"

text \<open>
  The memory of a new buffer is unspecified except for the headers; the model fills it with zeros.
  Writing the first header through a null base address faults. The doorbell of a soft queue is
  the client's signal; any other queue creates and owns its doorbell.
\<close>

definition new_doorbell ::
  "addr \<Rightarrow> addr \<Rightarrow> 'm signal_state_scheme \<Rightarrow> (addr \<times> 'm signal_state_scheme) outcome" where
  "new_doorbell Doorbell TargetRegion s =
     (if Doorbell = nullptr then GCCBuiltinSignal_new i64_max TargetRegion s else Inr (Doorbell, s))"

definition UserModeQueue_new ::
  "u32 \<Rightarrow> hsa_queue_type_t \<Rightarrow> addr \<Rightarrow> addr \<Rightarrow> addr \<Rightarrow> addr \<Rightarrow> 'm queue_state_scheme \<Rightarrow>
   (addr \<times> 'm queue_state_scheme) outcome" where
  "UserModeQueue_new Size Type TargetRegion CB' Owner Doorbell s =
     and_then (operator_new s) (\<lambda>(this, s1).
       let s2 = s1\<lparr>QueueRegistry := registerObject (QueueRegistry s1) this this\<rparr>
       in and_then (CPUMemoryRegion_allocate TargetRegion s2 (ucast Size * 64) 64) (\<lambda>(buf, s3).
         if buf = nullptr \<and> Size \<noteq> 0 then Inl Null_Dereference
         else
           let s4 = s3\<lparr>Buffers := (Buffers s3)(buf \<mapsto> replicate (unat Size) invalid_packet)\<rparr>
           in and_then (new_doorbell Doorbell TargetRegion s4) (\<lambda>(S, s5).
             and_then (deref (Signals s5) S) (\<lambda>Sig.
               Inr (this, s5\<lparr>Queues := (Queues s5)(this \<mapsto>
                 \<lparr>HSAQueue = \<lparr>queue_type = Type,
                    queue_features = hsa_agent_feature_t_value HSA_AGENT_FEATURE_KERNEL_DISPATCH,
                    base_address = buf, doorbell_signal = CurrentValue Sig, queue_size = Size,
                    queue_reserved1 = 0, queue_id = 0, read_index = 0, write_index = 0\<rparr>,
                  QueueOwner = Owner, Destroyed = False, Inactivated = False,
                  PacketIsProcessed = [], LastHandledDoorBell = i64_max, Region = TargetRegion,
                  CB = CB', IsDoorbellOwned = (Doorbell = nullptr)\<rparr>)\<rparr>)))))"

text \<open>The destructor of \<open>Queue\<close> leaves the registry entry.\<close>

definition UserModeQueue_delete ::
  "'m queue_state_scheme \<Rightarrow> addr \<Rightarrow> 'm queue_state_scheme outcome" where
  "UserModeQueue_delete s this =
     and_then (deref (Queues s) this) (\<lambda>Q.
       and_then (CPUMemoryRegion_free (Region Q) s (base_address (HSAQueue Q))) (\<lambda>(found, s1).
         let S = fromHSAObject (SignalRegistry s1) (doorbell_signal (HSAQueue Q))
         in and_then (if IsDoorbellOwned Q \<and> S \<noteq> nullptr then GCCBuiltinSignal_delete s1 S else Inr s1)
              (\<lambda>s2. Inr (s2\<lparr>Queues := (Queues s2)(this := None)\<rparr>))))"

text \<open>\<open>Queue::garbageCollect\<close> deletes the queues in iteration order and then empties the registry.\<close>

fun delete_queues :: "addr list \<Rightarrow> 'm queue_state_scheme \<Rightarrow> 'm queue_state_scheme outcome" where
  "delete_queues [] s = Inr s"
| "delete_queues (q # qs) s = and_then (UserModeQueue_delete s q) (\<lambda>s'. delete_queues qs s')"

definition Queue_garbageCollect :: "'m queue_state_scheme \<Rightarrow> 'm queue_state_scheme outcome" where
  "Queue_garbageCollect s =
     and_then (delete_queues (map snd (QueueRegistry s)) s) (\<lambda>s'. Inr (s'\<lparr>QueueRegistry := []\<rparr>))"

section \<open>Operations of the class\<close>

definition update_queue ::
  "addr \<Rightarrow> (UserModeQueue \<Rightarrow> UserModeQueue) \<Rightarrow> 'm queue_state_scheme \<Rightarrow> 'm queue_state_scheme outcome" where
  "update_queue this f s =
     and_then (deref (Queues s) this) (\<lambda>Q. Inr (s\<lparr>Queues := (Queues s)(this \<mapsto> f Q)\<rparr>))"

definition setDestroyed :: "UserModeQueue \<Rightarrow> UserModeQueue" where
  "setDestroyed Q = Q\<lparr>Destroyed := True\<rparr>"

definition isDestroyed :: "UserModeQueue \<Rightarrow> bool" where
  "isDestroyed Q = Destroyed Q"

definition isInactivated :: "UserModeQueue \<Rightarrow> bool" where
  "isInactivated Q = Inactivated Q"

text \<open>The flags are allocated on first use; an index beyond them is out of range.\<close>

definition SetPacketProcessed :: "nat \<Rightarrow> bool \<Rightarrow> UserModeQueue \<Rightarrow> UserModeQueue outcome" where
  "SetPacketProcessed QI Flag Q =
     (let flags = (if PacketIsProcessed Q = [] then replicate (unat (queue_size (HSAQueue Q))) False
                   else PacketIsProcessed Q)
      in if QI < length flags then Inr (Q\<lparr>PacketIsProcessed := flags[QI := Flag]\<rparr>)
         else Inl Undefined_Behaviour)"

definition IsPacketProcessed :: "UserModeQueue \<Rightarrow> nat \<Rightarrow> bool outcome" where
  "IsPacketProcessed Q QI =
     (if PacketIsProcessed Q = [] then Inr False
      else if QI < length (PacketIsProcessed Q) then Inr (PacketIsProcessed Q ! QI)
      else Inl Undefined_Behaviour)"

definition getLastHandledDoorBell :: "UserModeQueue \<Rightarrow> i64" where
  "getLastHandledDoorBell Q = LastHandledDoorBell Q"

definition setLastHandledDoorBell :: "i64 \<Rightarrow> UserModeQueue \<Rightarrow> UserModeQueue" where
  "setLastHandledDoorBell DBValue Q = Q\<lparr>LastHandledDoorBell := DBValue\<rparr>"

definition UserModeQueue_loadWriteIndex ::
  "'m queue_state_scheme \<Rightarrow> addr \<Rightarrow> MemoryOrder \<Rightarrow> u64 outcome" where
  "UserModeQueue_loadWriteIndex s this MO =
     and_then (deref (Queues s) this) (\<lambda>Q. Inr (Atomic_Load (write_index (HSAQueue Q)) MO))"

definition UserModeQueue_storeWriteIndex ::
  "'m queue_state_scheme \<Rightarrow> addr \<Rightarrow> u64 \<Rightarrow> MemoryOrder \<Rightarrow> 'm queue_state_scheme outcome" where
  "UserModeQueue_storeWriteIndex s this Value MO =
     update_queue this (\<lambda>Q. Q\<lparr>HSAQueue := (HSAQueue Q)\<lparr>write_index :=
       Atomic_Store Value (write_index (HSAQueue Q)) MO\<rparr>\<rparr>) s"

definition UserModeQueue_addWriteIndex ::
  "'m queue_state_scheme \<Rightarrow> addr \<Rightarrow> u64 \<Rightarrow> MemoryOrder \<Rightarrow> (u64 \<times> 'm queue_state_scheme) outcome" where
  "UserModeQueue_addWriteIndex s this Increment MO =
     and_then (deref (Queues s) this) (\<lambda>Q.
       let (old, new) = Atomic_FetchAdd Increment (write_index (HSAQueue Q)) MO
       in Inr (old, s\<lparr>Queues := (Queues s)(this \<mapsto> Q\<lparr>HSAQueue := (HSAQueue Q)\<lparr>write_index := new\<rparr>\<rparr>)\<rparr>))"

definition UserModeQueue_compareExchangeWriteIndex ::
  "'m queue_state_scheme \<Rightarrow> addr \<Rightarrow> u64 \<Rightarrow> u64 \<Rightarrow> MemoryOrder \<Rightarrow>
   (u64 \<times> 'm queue_state_scheme) outcome" where
  "UserModeQueue_compareExchangeWriteIndex s this ExpectedValue Value MO =
     and_then (deref (Queues s) this) (\<lambda>Q.
       and_then (Atomic_CompareExchange (write_index (HSAQueue Q)) ExpectedValue Value MO)
         (\<lambda>(flag, new, ExpectedValue').
           Inr (ExpectedValue',
                s\<lparr>Queues := (Queues s)(this \<mapsto> Q\<lparr>HSAQueue := (HSAQueue Q)\<lparr>write_index := new\<rparr>\<rparr>)\<rparr>)))"

definition UserModeQueue_loadReadIndex ::
  "'m queue_state_scheme \<Rightarrow> addr \<Rightarrow> MemoryOrder \<Rightarrow> u64 outcome" where
  "UserModeQueue_loadReadIndex s this MO =
     and_then (deref (Queues s) this) (\<lambda>Q. Inr (Atomic_Load (read_index (HSAQueue Q)) MO))"

definition UserModeQueue_storeReadIndex ::
  "'m queue_state_scheme \<Rightarrow> addr \<Rightarrow> u64 \<Rightarrow> MemoryOrder \<Rightarrow> 'm queue_state_scheme outcome" where
  "UserModeQueue_storeReadIndex s this Value MO =
     update_queue this (\<lambda>Q. Q\<lparr>HSAQueue := (HSAQueue Q)\<lparr>read_index :=
       Atomic_Store Value (read_index (HSAQueue Q)) MO\<rparr>\<rparr>) s"

text \<open>\<open>FindQueue\<close> reads the \<open>id\<close> field, where the runtime keeps the object's address.\<close>

definition FindQueue :: "'m queue_state_scheme \<Rightarrow> addr \<Rightarrow> addr outcome" where
  "FindQueue s HSAQueuePtr =
     and_then (deref (Queues s) HSAQueuePtr) (\<lambda>Q. Inr (queue_id (HSAQueue Q)))"

section \<open>Entry points on the indices\<close>

definition hsa_queue_load_read_index_acquire :: "'m queue_state_scheme \<Rightarrow> addr \<Rightarrow> u64 outcome" where
  "hsa_queue_load_read_index_acquire s queue =
     and_then (FindQueue s queue) (\<lambda>Q. UserModeQueue_loadReadIndex s Q Acquire)"

definition hsa_queue_load_read_index_relaxed :: "'m queue_state_scheme \<Rightarrow> addr \<Rightarrow> u64 outcome" where
  "hsa_queue_load_read_index_relaxed s queue =
     and_then (FindQueue s queue) (\<lambda>Q. UserModeQueue_loadReadIndex s Q Relaxed)"

definition hsa_queue_load_write_index_acquire :: "'m queue_state_scheme \<Rightarrow> addr \<Rightarrow> u64 outcome" where
  "hsa_queue_load_write_index_acquire s queue =
     and_then (FindQueue s queue) (\<lambda>Q. UserModeQueue_loadWriteIndex s Q Acquire)"

definition hsa_queue_load_write_index_relaxed :: "'m queue_state_scheme \<Rightarrow> addr \<Rightarrow> u64 outcome" where
  "hsa_queue_load_write_index_relaxed s queue =
     and_then (FindQueue s queue) (\<lambda>Q. UserModeQueue_loadWriteIndex s Q Relaxed)"

definition hsa_queue_store_write_index_relaxed ::
  "'m queue_state_scheme \<Rightarrow> addr \<Rightarrow> u64 \<Rightarrow> 'm queue_state_scheme outcome" where
  "hsa_queue_store_write_index_relaxed s queue value =
     and_then (FindQueue s queue) (\<lambda>Q. UserModeQueue_storeWriteIndex s Q value Relaxed)"

definition hsa_queue_store_write_index_release ::
  "'m queue_state_scheme \<Rightarrow> addr \<Rightarrow> u64 \<Rightarrow> 'm queue_state_scheme outcome" where
  "hsa_queue_store_write_index_release s queue value =
     and_then (FindQueue s queue) (\<lambda>Q. UserModeQueue_storeWriteIndex s Q value Release)"

definition hsa_queue_store_read_index_relaxed ::
  "'m queue_state_scheme \<Rightarrow> addr \<Rightarrow> u64 \<Rightarrow> 'm queue_state_scheme outcome" where
  "hsa_queue_store_read_index_relaxed s queue value =
     and_then (FindQueue s queue) (\<lambda>Q. UserModeQueue_storeReadIndex s Q value Relaxed)"

definition hsa_queue_store_read_index_release ::
  "'m queue_state_scheme \<Rightarrow> addr \<Rightarrow> u64 \<Rightarrow> 'm queue_state_scheme outcome" where
  "hsa_queue_store_read_index_release s queue value =
     and_then (FindQueue s queue) (\<lambda>Q. UserModeQueue_storeReadIndex s Q value Release)"

definition hsa_queue_cas_write_index_acq_rel ::
  "'m queue_state_scheme \<Rightarrow> addr \<Rightarrow> u64 \<Rightarrow> u64 \<Rightarrow> (u64 \<times> 'm queue_state_scheme) outcome" where
  "hsa_queue_cas_write_index_acq_rel s queue expected value =
     and_then (FindQueue s queue) (\<lambda>Q.
       UserModeQueue_compareExchangeWriteIndex s Q expected value AcquireRelease)"

definition hsa_queue_cas_write_index_acquire ::
  "'m queue_state_scheme \<Rightarrow> addr \<Rightarrow> u64 \<Rightarrow> u64 \<Rightarrow> (u64 \<times> 'm queue_state_scheme) outcome" where
  "hsa_queue_cas_write_index_acquire s queue expected value =
     and_then (FindQueue s queue) (\<lambda>Q.
       UserModeQueue_compareExchangeWriteIndex s Q expected value Acquire)"

definition hsa_queue_cas_write_index_relaxed ::
  "'m queue_state_scheme \<Rightarrow> addr \<Rightarrow> u64 \<Rightarrow> u64 \<Rightarrow> (u64 \<times> 'm queue_state_scheme) outcome" where
  "hsa_queue_cas_write_index_relaxed s queue expected value =
     and_then (FindQueue s queue) (\<lambda>Q.
       UserModeQueue_compareExchangeWriteIndex s Q expected value Relaxed)"

definition hsa_queue_cas_write_index_release ::
  "'m queue_state_scheme \<Rightarrow> addr \<Rightarrow> u64 \<Rightarrow> u64 \<Rightarrow> (u64 \<times> 'm queue_state_scheme) outcome" where
  "hsa_queue_cas_write_index_release s queue expected value =
     and_then (FindQueue s queue) (\<lambda>Q.
       UserModeQueue_compareExchangeWriteIndex s Q expected value Release)"

definition hsa_queue_add_write_index_acq_rel ::
  "'m queue_state_scheme \<Rightarrow> addr \<Rightarrow> u64 \<Rightarrow> (u64 \<times> 'm queue_state_scheme) outcome" where
  "hsa_queue_add_write_index_acq_rel s queue value =
     and_then (FindQueue s queue) (\<lambda>Q. UserModeQueue_addWriteIndex s Q value AcquireRelease)"

definition hsa_queue_add_write_index_acquire ::
  "'m queue_state_scheme \<Rightarrow> addr \<Rightarrow> u64 \<Rightarrow> (u64 \<times> 'm queue_state_scheme) outcome" where
  "hsa_queue_add_write_index_acquire s queue value =
     and_then (FindQueue s queue) (\<lambda>Q. UserModeQueue_addWriteIndex s Q value Acquire)"

definition hsa_queue_add_write_index_relaxed ::
  "'m queue_state_scheme \<Rightarrow> addr \<Rightarrow> u64 \<Rightarrow> (u64 \<times> 'm queue_state_scheme) outcome" where
  "hsa_queue_add_write_index_relaxed s queue value =
     and_then (FindQueue s queue) (\<lambda>Q. UserModeQueue_addWriteIndex s Q value Relaxed)"

definition hsa_queue_add_write_index_release ::
  "'m queue_state_scheme \<Rightarrow> addr \<Rightarrow> u64 \<Rightarrow> (u64 \<times> 'm queue_state_scheme) outcome" where
  "hsa_queue_add_write_index_release s queue value =
     and_then (FindQueue s queue) (\<lambda>Q. UserModeQueue_addWriteIndex s Q value Release)"

section \<open>The views of a packet\<close>

lemma half_of_quad [simp]:
  "half_at 0 (quad_of_halves a b c d) = a"
  "half_at (Suc 0) (quad_of_halves a b c d) = b"
  "half_at 2 (quad_of_halves a b c d) = c"
  "half_at 3 (quad_of_halves a b c d) = d"
  by (rule bit_word_eqI, force simp: half_at_def quad_of_halves_def bit_simps dest: bit_imp_le_length)+

lemma word_of_quad [simp]:
  "word_at 0 (quad_of_words a b) = a"
  "word_at (Suc 0) (quad_of_words a b) = b"
  by (rule bit_word_eqI, force simp: word_at_def quad_of_words_def bit_simps dest: bit_imp_le_length)+

lemma packet_header_set [simp]: "packet_header (set_packet_header h P) = h"
  by (simp add: packet_header_def set_packet_header_def)

lemma packet_type_set [simp]:
  "packet_type (set_packet_header HSA_PACKET_TYPE_INVALID P) = HSA_PACKET_TYPE_INVALID"
  by (simp add: packet_type_def packet_type_defs HSA_PACKET_HEADER_TYPE_def)

lemma invalid_packet_type [simp]: "packet_type invalid_packet = HSA_PACKET_TYPE_INVALID"
  by (simp add: packet_type_def packet_header_def half_at_def invalid_packet_def packet_type_defs
      HSA_PACKET_HEADER_TYPE_def)

text \<open>What a producer writes to describe a kernel dispatch, and what the agent reads back.\<close>

definition make_kernel_dispatch :: "hsa_kernel_dispatch_packet_t \<Rightarrow> AQLPacket" where
  "make_kernel_dispatch K =
     \<lparr>quad0 = quad_of_halves (kd_header K) (kd_setup K) (kd_workgroup_size_x K) (kd_workgroup_size_y K),
      quad1 = quad_of_halves (kd_workgroup_size_z K) 0
        (half_at 0 (ucast (kd_grid_size_x K))) (half_at 1 (ucast (kd_grid_size_x K))),
      quad2 = quad_of_words (kd_grid_size_y K) (kd_grid_size_z K),
      quad3 = quad_of_words (kd_private_segment_size K) (kd_group_segment_size K),
      quad4 = kd_kernel_object K, quad5 = kd_kernarg_address K, quad6 = 0,
      quad7 = kd_completion_signal K\<rparr>"

lemma word_of_halves:
  "word_at (Suc 0) (quad_of_halves a b (half_at 0 (ucast w)) (half_at (Suc 0) (ucast w))) = w"
  by (rule bit_word_eqI) (auto simp: word_at_def half_at_def quad_of_halves_def bit_simps dest: bit_imp_le_length)

lemma KernelDispatch_make: "KernelDispatch (make_kernel_dispatch K) = K"
  by (simp add: KernelDispatch_def make_kernel_dispatch_def word_of_halves)

text \<open>Clearing a slot changes the type of the packet and nothing else of it.\<close>

lemma set_packet_header_views:
  "ad_arg (AgentDispatch (set_packet_header h P)) = ad_arg (AgentDispatch P)"
  "ba_dep_signal (BarrierAnd (set_packet_header h P)) = ba_dep_signal (BarrierAnd P)"
  "KernelDispatch (set_packet_header h P) = (KernelDispatch P)\<lparr>kd_header := h\<rparr>"
  by (simp_all add: AgentDispatch_def BarrierAnd_def KernelDispatch_def set_packet_header_def)

section \<open>The interface of the write index\<close>

text \<open>
  What the producers of a queue rely on: adding to the write index hands out the packet numbers
  from the old value on, and a compare-exchange returns the value it observed.
\<close>

locale write_index_operations =
  fixes windex :: "'s \<Rightarrow> u64"
    and ok :: "'s \<Rightarrow> bool"
    and add :: "'s \<Rightarrow> u64 \<Rightarrow> (u64 \<times> 's) outcome"
    and cas :: "'s \<Rightarrow> u64 \<Rightarrow> u64 \<Rightarrow> (u64 \<times> 's) outcome"
  assumes add: "ok s \<Longrightarrow> \<exists>s'. add s n = Inr (windex s, s') \<and> ok s' \<and> windex s' = windex s + n"
    and cas: "ok s \<Longrightarrow> \<exists>s'. cas s e d = Inr (windex s, s') \<and> ok s' \<and>
      windex s' = (if windex s = e then d else windex s)"
begin

text \<open>Producers that reserve packet numbers, in the order in which their additions take effect.\<close>

fun reserve :: "'s \<Rightarrow> u64 list \<Rightarrow> (u64 list \<times> 's) outcome" where
  "reserve s [] = Inr ([], s)"
| "reserve s (n # ns) =
     and_then (add s n) (\<lambda>(first, s1). and_then (reserve s1 ns) (\<lambda>(rest, s2). Inr (first # rest, s2)))"

lemma reserve_sums:
  "ok s \<Longrightarrow> \<exists>rs s'. reserve s ns = Inr (rs, s') \<and> ok s' \<and> length rs = length ns \<and>
     windex s' = windex s + sum_list ns \<and>
     (\<forall>i < length ns. rs ! i = windex s + sum_list (take i ns))"
proof (induction ns arbitrary: s)
  case (Cons n ns)
  obtain s1 where s1: "add s n = Inr (windex s, s1)" "ok s1" "windex s1 = windex s + n"
    using add [OF Cons.prems] by blast
  obtain rs s' where rs: "reserve s1 ns = Inr (rs, s')" "ok s'" "length rs = length ns"
    "windex s' = windex s1 + sum_list ns" "\<forall>i < length ns. rs ! i = windex s1 + sum_list (take i ns)"
    using Cons.IH [OF s1(2)] by blast
  have "(windex s # rs) ! i = windex s + sum_list (take i (n # ns))" if "i < length (n # ns)" for i
    using that rs(5) s1(3) by (cases i) (simp_all add: add.assoc)
  with s1 rs show ?case
    by (intro exI [of _ "windex s # rs"] exI [of _ s']) (simp add: add.assoc)
qed simp

lemma sum_list_take_unat:
  fixes ns :: "u64 list"
  assumes "unat w + (\<Sum>n\<leftarrow>ns. unat n) < 2 ^ 64" and "i \<le> length ns"
  shows "unat (w + sum_list (take i ns)) = unat w + (\<Sum>n\<leftarrow>take i ns. unat n)"
  using assms(2)
proof (induction i)
  case (Suc i)
  have split: "take (Suc i) ns = take i ns @ [ns ! i]" using Suc.prems by (simp add: take_Suc_conv_app_nth)
  have "(\<Sum>n\<leftarrow>take (Suc i) ns. unat n) \<le> (\<Sum>n\<leftarrow>ns. unat n)"
    by (metis append_take_drop_id le_add1 map_append sum_list_append)
  then have "unat w + (\<Sum>n\<leftarrow>take i ns. unat n) + unat (ns ! i) < 2 ^ 64"
    using assms(1) by (simp add: split)
  then have "unat (w + sum_list (take i ns)) + unat (ns ! i) < 2 ^ LENGTH(64)" using Suc by simp
  from unat_add_no_overflow [OF this] show ?case using Suc by (simp add: split add.assoc)
qed simp

text \<open>
  As long as the write index does not run past \<open>2 ^ 64\<close> the reserved ranges are disjoint and in
  order: no two producers are given the same packet number.
\<close>

lemma reserve_disjoint:
  assumes "ok s" and bound: "unat (windex s) + (\<Sum>n\<leftarrow>ns. unat n) < 2 ^ 64"
    and "i < j" and "j < length ns"
  shows "\<exists>rs s'. reserve s ns = Inr (rs, s') \<and> unat (rs ! i) + unat (ns ! i) \<le> unat (rs ! j)"
proof -
  obtain rs s' where rs: "reserve s ns = Inr (rs, s')"
    "\<forall>i < length ns. rs ! i = windex s + sum_list (take i ns)"
    using reserve_sums [OF assms(1)] by blast
  have "(\<Sum>n\<leftarrow>take i ns. unat n) + unat (ns ! i) = (\<Sum>n\<leftarrow>take (Suc i) ns. unat n)"
    using assms(3,4) by (simp add: take_Suc_conv_app_nth)
  also have "\<dots> \<le> (\<Sum>n\<leftarrow>take j ns. unat n)"
  proof -
    have "take j ns = take (Suc i) ns @ drop (Suc i) (take j ns)"
      using assms(3) by (metis Suc_leI append_take_drop_id min.absorb1 take_take)
    then show ?thesis by (metis le_add1 map_append sum_list_append)
  qed
  finally show ?thesis
    using rs sum_list_take_unat [OF bound, of i] sum_list_take_unat [OF bound, of j] assms(3,4) by auto
qed

text \<open>Of two producers that try to move the index from the same value only the first succeeds.\<close>

lemma cas_exclusive:
  assumes "ok s" and "d \<noteq> windex s"
  shows "\<exists>s1 s2. cas s (windex s) d = Inr (windex s, s1) \<and> cas s1 (windex s) d' = Inr (d, s2) \<and>
    windex s2 = d"
proof -
  obtain s1 where s1: "cas s (windex s) d = Inr (windex s, s1)" "ok s1" "windex s1 = d"
    using cas [OF assms(1), of "windex s" d] by auto
  with cas [OF s1(2), of "windex s" d'] assms(2) show ?thesis by auto
qed

end

definition queue_handle_ok :: "addr \<Rightarrow> 'm queue_state_scheme \<Rightarrow> bool" where
  "queue_handle_ok q s \<longleftrightarrow>
     q \<noteq> nullptr \<and> (case Queues s q of None \<Rightarrow> False | Some Q \<Rightarrow> queue_id (HSAQueue Q) = q)"

definition queue_write_index :: "addr \<Rightarrow> 'm queue_state_scheme \<Rightarrow> u64" where
  "queue_write_index q s = (case Queues s q of None \<Rightarrow> 0 | Some Q \<Rightarrow> write_index (HSAQueue Q))"

lemma queue_handle_okE:
  assumes "queue_handle_ok q s"
  obtains Q where "q \<noteq> nullptr" "Queues s q = Some Q" "FindQueue s q = Inr q"
    "queue_write_index q s = write_index (HSAQueue Q)" "queue_id (HSAQueue Q) = q"
  using assms
  by (auto simp: queue_handle_ok_def FindQueue_def deref_Some queue_write_index_def split: option.splits)

interpretation wi: write_index_operations "queue_write_index q" "queue_handle_ok q"
  "\<lambda>s. hsa_queue_add_write_index_relaxed s q" "\<lambda>s. hsa_queue_cas_write_index_relaxed s q" for q :: addr
proof (unfold_locales, goal_cases)
  case (1 s n)
  then show ?case
    by (rule queue_handle_okE)
      (simp add: hsa_queue_add_write_index_relaxed_def UserModeQueue_addWriteIndex_def deref_Some
        atomic_defs queue_handle_ok_def queue_write_index_def)
next
  case (2 s e d)
  then show ?case
    by (rule queue_handle_okE)
      (simp add: hsa_queue_cas_write_index_relaxed_def UserModeQueue_compareExchangeWriteIndex_def
        deref_Some CompareExchange_observed queue_handle_ok_def queue_write_index_def)
qed

text \<open>The memory order of an addition does not change what it returns or stores.\<close>

lemma add_write_index_orders:
  "hsa_queue_add_write_index_acq_rel s q n = hsa_queue_add_write_index_relaxed s q n"
  "hsa_queue_add_write_index_acquire s q n = hsa_queue_add_write_index_relaxed s q n"
  "hsa_queue_add_write_index_release s q n = hsa_queue_add_write_index_relaxed s q n"
  by (simp_all add: hsa_queue_add_write_index_acq_rel_def hsa_queue_add_write_index_acquire_def
      hsa_queue_add_write_index_release_def hsa_queue_add_write_index_relaxed_def
      UserModeQueue_addWriteIndex_def atomic_defs)


end
