(* ===== verification/Symbols.thy ===== *)
theory Symbols
  imports Hsa_Types
begin

text \<open>
  The symbol classes of \<open>include/Executable.hh\<close>: variables, kernels and indirect functions, with
  the members they share.
\<close>

record Symbol =
  Sym_Name :: string
  Sym_Type :: hsa_symbol_kind_t
  Sym_ModuleName :: string
  Sym_Agent :: addr
  Sym_Linkage :: hsa_symbol_linkage_t
  Sym_IsDefinition :: bool

text \<open>\<open>None\<close> is a member that the code has not initialised.\<close>

record Variable = Symbol +
  Var_Address :: addr
  Var_Allocation :: "hsa_variable_allocation_t option"
  Var_Segment :: "hsa_variable_segment_t option"
  Var_Alignment :: "u32 option"
  Var_Size :: "u32 option"
  Var_IsConst :: "bool option"

record Kernel = Symbol +
  Krn_Object :: u64
  Krn_Address :: addr
  KernargSegmentSize :: u32
  KernargSegmentAlignment :: u32
  GroupSegmentSize :: u32
  PrivateSegmentSize :: u32
  DynamicCallStack :: bool
  ImplementationData :: addr

record IndirectFunctionCall = Symbol +
  FunctionObject :: u64
  FunctionCallConvention :: u32

text \<open>An object behind a \<open>Symbol *\<close>; \<open>dynamic_cast\<close> is the case distinction.\<close>

datatype symbol_object =
    Variable_object Variable
  | Kernel_object Kernel
  | IndirectFunction_object IndirectFunctionCall

fun symbol_base :: "symbol_object \<Rightarrow> Symbol" where
  "symbol_base (Variable_object V) = Symbol.truncate V"
| "symbol_base (Kernel_object K) = Symbol.truncate K"
| "symbol_base (IndirectFunction_object I) = Symbol.truncate I"

fun as_kernel :: "symbol_object \<Rightarrow> Kernel option" where
  "as_kernel (Kernel_object K) = Some K"
| "as_kernel _ = None"

fun as_variable :: "symbol_object \<Rightarrow> Variable option" where
  "as_variable (Variable_object V) = Some V"
| "as_variable _ = None"

fun as_indirect_function :: "symbol_object \<Rightarrow> IndirectFunctionCall option" where
  "as_indirect_function (IndirectFunction_object I) = Some I"
| "as_indirect_function _ = None"

end
