(* ===== verification/Kernel_Agent.thy ===== *)
theory Kernel_Agent
  imports Queues Symbols
begin

text \<open>
  The agent that executes kernels on the host (\<open>include/Agent.hh\<close>,
  \<open>src/Devices/CPU/CPUKernelAgent\<close>): its worker thread polls the queues of the agent and processes
  their packets. The code of a kernel is a parameter: a function of its address and of the launch
  data to new values of the signals and of the memory.
\<close>

section \<open>State\<close>

record CPUKernelAgent =
  AgentQueues :: "addr list"
  AgentRegions :: "addr list"
  KernargRegion :: addr
  UMQRegion :: addr
  GroupMemoryRegion :: addr
  QueueRegion :: addr
  AgentISA :: string
  RunningQueue :: addr
  InterruptingTheQueue :: bool

text \<open>What the client can observe of the worker thread: kernels it starts, callbacks it makes.\<close>

record PHSAKernelLaunchData =
  dp :: hsa_kernel_dispatch_packet_t
  packet_id :: u64
  kernarg_addr :: addr

datatype event =
    Kernel_Launch addr PHSAKernelLaunchData addr
  | Queue_Callback addr hsa_status_t addr

record agent_state = queue_state +
  SymbolRegistry :: registry
  SymbolObjects :: "addr \<rightharpoonup> symbol_object"
  Memory :: "addr \<Rightarrow> u8"
  AgentRegistry :: registry
  KernelAgents :: "addr \<rightharpoonup> CPUKernelAgent"
  RtAgents :: "addr list"
  ShutDown :: bool
  Events :: "event list"

type_synonym kernel_code =
  "addr \<Rightarrow> PHSAKernelLaunchData \<Rightarrow> addr \<Rightarrow> (addr \<rightharpoonup> i64) \<Rightarrow> (addr \<Rightarrow> u8) \<Rightarrow> (addr \<Rightarrow> i64) \<times> (addr \<Rightarrow> u8)"

section \<open>The agent's lists\<close>

definition registerQueue :: "addr \<Rightarrow> CPUKernelAgent \<Rightarrow> CPUKernelAgent" where
  "registerQueue Q A = A\<lparr>AgentQueues := AgentQueues A @ [Q]\<rparr>"

definition getQueues :: "CPUKernelAgent \<Rightarrow> addr list" where
  "getQueues A = AgentQueues A"

definition getQueueCount :: "CPUKernelAgent \<Rightarrow> nat" where
  "getQueueCount A = length (AgentQueues A)"

definition Agent_registerMemoryRegion :: "addr \<Rightarrow> CPUKernelAgent \<Rightarrow> CPUKernelAgent" where
  "Agent_registerMemoryRegion MR A = A\<lparr>AgentRegions := AgentRegions A @ [MR]\<rparr>"

definition setGroupMemoryRegion :: "addr \<Rightarrow> CPUKernelAgent \<Rightarrow> CPUKernelAgent" where
  "setGroupMemoryRegion MR A = A\<lparr>GroupMemoryRegion := MR\<rparr>"

definition setKernargMemoryRegion :: "addr \<Rightarrow> CPUKernelAgent \<Rightarrow> CPUKernelAgent" where
  "setKernargMemoryRegion MR A = A\<lparr>KernargRegion := MR\<rparr>"

definition setUMQMemoryRegion :: "addr \<Rightarrow> CPUKernelAgent \<Rightarrow> CPUKernelAgent" where
  "setUMQMemoryRegion MR A = A\<lparr>UMQRegion := MR\<rparr>"

definition update_agent ::
  "addr \<Rightarrow> (CPUKernelAgent \<Rightarrow> CPUKernelAgent) \<Rightarrow> 'm agent_state_scheme \<Rightarrow> 'm agent_state_scheme outcome" where
  "update_agent this f s =
     and_then (deref (KernelAgents s) this) (\<lambda>A. Inr (s\<lparr>KernelAgents := (KernelAgents s)(this \<mapsto> f A)\<rparr>))"

text \<open>\<open>createQueue\<close>: the buffer comes from the agent's queue region, the agent owns the queue.\<close>

definition CPUKernelAgent_createQueue ::
  "'m agent_state_scheme \<Rightarrow> addr \<Rightarrow> u32 \<Rightarrow> hsa_queue_type_t \<Rightarrow> addr \<Rightarrow>
   (addr \<times> 'm agent_state_scheme) outcome" where
  "CPUKernelAgent_createQueue s this Size Type CB' =
     and_then (deref (KernelAgents s) this) (\<lambda>A.
       and_then (UserModeQueue_new Size Type (QueueRegion A) CB' this nullptr s) (\<lambda>(Q, s1).
         and_then (update_agent this (registerQueue Q) s1) (\<lambda>s2. Inr (Q, s2))))"

section \<open>Packet checks\<close>

text \<open>\<open>(1 << (DIMENSIONS + WIDTH_DIMENSIONS)) - 1 & setup\<close>: the subtraction binds tighter.\<close>

definition packet_dimensions :: "hsa_kernel_dispatch_packet_t \<Rightarrow> u32" where
  "packet_dimensions KernelPacket =
     drop_bit HSA_KERNEL_DISPATCH_PACKET_SETUP_DIMENSIONS
       ((push_bit (HSA_KERNEL_DISPATCH_PACKET_SETUP_DIMENSIONS +
                   HSA_KERNEL_DISPATCH_PACKET_SETUP_WIDTH_DIMENSIONS) 1 - 1)
        AND ucast (kd_setup KernelPacket))"

definition AreDimensionsvalid :: "hsa_kernel_dispatch_packet_t \<Rightarrow> bool" where
  "AreDimensionsvalid KernelPacket =
     (let Dimensions = packet_dimensions KernelPacket
      in if Dimensions = 1
         then kd_grid_size_y KernelPacket = 1 \<and> kd_grid_size_z KernelPacket = 1 \<and>
              kd_workgroup_size_y KernelPacket = 1 \<and> kd_workgroup_size_z KernelPacket = 1
         else if Dimensions = 2
         then kd_grid_size_z KernelPacket = 1 \<and> kd_workgroup_size_z KernelPacket = 1
         else Dimensions = 3)"

text \<open>The shifted header is converted to eight bits; the comparisons are on its value.\<close>

definition IsPacketTypeValid :: "u16 \<Rightarrow> bool" where
  "IsPacketTypeValid Header =
     (let PacketType = ucast (drop_bit HSA_PACKET_HEADER_TYPE Header) :: u8
      in unat HSA_PACKET_TYPE_INVALID < unat PacketType \<and>
         unat PacketType \<le> unat HSA_PACKET_TYPE_BARRIER_OR)"

text \<open>The dependencies of the two barrier packets; the null handle is no dependency.\<close>

fun BarrierAnd_condition :: "'m signal_state_scheme \<Rightarrow> u64 list \<Rightarrow> bool outcome" where
  "BarrierAnd_condition s [] = Inr True"
| "BarrierAnd_condition s (Dep # Deps) =
     (if Dep = 0 then BarrierAnd_condition s Deps
      else and_then (hsa_signal_load_acquire s Dep) (\<lambda>Val.
        if Val \<noteq> 0 then Inr False else BarrierAnd_condition s Deps))"

fun BarrierOr_condition :: "'m signal_state_scheme \<Rightarrow> u64 list \<Rightarrow> bool outcome" where
  "BarrierOr_condition s [] = Inr False"
| "BarrierOr_condition s (Dep # Deps) =
     (if Dep = 0 then BarrierOr_condition s Deps
      else and_then (hsa_signal_load_acquire s Dep) (\<lambda>Val.
        if Val = 0 then Inr True else BarrierOr_condition s Deps))"

section \<open>Kernel dispatch\<close>

definition ExecuteCallback ::
  "'m agent_state_scheme \<Rightarrow> addr \<Rightarrow> hsa_status_t \<Rightarrow> 'm agent_state_scheme outcome" where
  "ExecuteCallback s this Status =
     and_then (deref (Queues s) this) (\<lambda>Q.
       Inr (if CB Q \<noteq> nullptr then s\<lparr>Events := Events s @ [Queue_Callback (CB Q) Status this]\<rparr> else s))"

definition call_kernel ::
  "kernel_code \<Rightarrow> addr \<Rightarrow> PHSAKernelLaunchData \<Rightarrow> addr \<Rightarrow> 'm agent_state_scheme \<Rightarrow> 'm agent_state_scheme" where
  "call_kernel code Address LaunchData GroupMemory s =
     (let (values, memory) = code Address LaunchData GroupMemory (SignalValues s) (Memory s)
      in s\<lparr>SignalValues := (\<lambda>c. case SignalValues s c of None \<Rightarrow> None | Some _ \<Rightarrow> Some (values c)),
           Memory := memory,
           Events := Events s @ [Kernel_Launch Address LaunchData GroupMemory]\<rparr>)"

text \<open>
  The kernel arguments are copied to fresh memory when their address does not have the alignment
  of the kernel's argument segment; an alignment of 0 divides by zero.
\<close>

definition launch_kernel ::
  "kernel_code \<Rightarrow> Kernel \<Rightarrow> hsa_kernel_dispatch_packet_t \<Rightarrow> u64 \<Rightarrow> addr \<Rightarrow> 'm agent_state_scheme \<Rightarrow>
   'm agent_state_scheme outcome" where
  "launch_kernel code K KernelPacket CurrentIndex GroupMemory s =
     (let Alignment = ucast (KernargSegmentAlignment K) :: u64;
          Size = ucast (KernargSegmentSize K) :: u64;
          launch = (\<lambda>a. \<lparr>dp = KernelPacket, packet_id = CurrentIndex, kernarg_addr = a\<rparr>)
      in if Alignment = 0 then Inl Undefined_Behaviour
         else if kd_kernarg_address KernelPacket mod Alignment = 0
         then Inr (call_kernel code (Krn_Address K) (launch (kd_kernarg_address KernelPacket)) GroupMemory s)
         else case posix_memalign Alignment Size s of
                (None, s1) \<Rightarrow> Inl Aborted
              | (Some p, s1) \<Rightarrow>
                  Inr (call_kernel code (Krn_Address K) (launch p) GroupMemory
                    (s1\<lparr>Memory := memmove p (kd_kernarg_address KernelPacket) Size (Memory s1)\<rparr>)))"

definition find_kernel :: "'m agent_state_scheme \<Rightarrow> u64 \<Rightarrow> (Kernel option \<times> 'm agent_state_scheme) outcome" where
  "find_kernel s handle =
     (let (p, R) = fromHandle (SymbolRegistry s) handle; s' = s\<lparr>SymbolRegistry := R\<rparr>
      in if p = nullptr then Inr (None, s')
         else and_then (deref (SymbolObjects s) p) (\<lambda>S. Inr (as_kernel S, s')))"

definition launch_or_report ::
  "kernel_code \<Rightarrow> addr \<Rightarrow> hsa_kernel_dispatch_packet_t \<Rightarrow> u64 \<Rightarrow> addr \<Rightarrow> Kernel option \<Rightarrow>
   'm agent_state_scheme \<Rightarrow> 'm agent_state_scheme outcome" where
  "launch_or_report code Q KernelPacket CurrentIndex GroupMemory K s =
     (let HasIterations = \<not> (kd_workgroup_size_x KernelPacket = 0 \<or> kd_workgroup_size_y KernelPacket = 0
            \<or> kd_workgroup_size_z KernelPacket = 0);
          ValidDimensions = AreDimensionsvalid KernelPacket;
          ValidType = IsPacketTypeValid (kd_header KernelPacket);
          ValidGroupMemory = (GroupMemory \<noteq> nullptr \<or> kd_group_segment_size KernelPacket = 0)
      in if K \<noteq> None \<and> HasIterations \<and> ValidDimensions \<and> ValidType \<and> ValidGroupMemory
         then launch_kernel code (the K) KernelPacket CurrentIndex GroupMemory s
         else if \<not> ValidType then ExecuteCallback s Q HSA_STATUS_ERROR_INVALID_PACKET_FORMAT
         else if \<not> ValidDimensions then ExecuteCallback s Q HSA_STATUS_ERROR_INCOMPATIBLE_ARGUMENTS
         else if \<not> ValidGroupMemory then ExecuteCallback s Q HSA_STATUS_ERROR_INVALID_ALLOCATION
         else ExecuteCallback s Q HSA_STATUS_ERROR_INVALID_CODE_OBJECT)"

definition allocate_group_memory ::
  "addr \<Rightarrow> u32 \<Rightarrow> 'm region_state_scheme \<Rightarrow> (addr \<times> 'm region_state_scheme) outcome" where
  "allocate_group_memory GroupRegion GroupSize s =
     (if GroupSize \<noteq> 0 then CPUMemoryRegion_allocate GroupRegion s (ucast GroupSize) 16
      else Inr (nullptr, s))"

definition free_group_memory ::
  "addr \<Rightarrow> addr \<Rightarrow> 'm region_state_scheme \<Rightarrow> 'm region_state_scheme outcome" where
  "free_group_memory GroupRegion GroupMemory s =
     (if GroupMemory \<noteq> nullptr
      then and_then (CPUMemoryRegion_free GroupRegion s GroupMemory) (\<lambda>(found, s'). Inr s')
      else Inr s)"

definition dispatch_kernel ::
  "kernel_code \<Rightarrow> addr \<Rightarrow> addr \<Rightarrow> hsa_kernel_dispatch_packet_t \<Rightarrow> u64 \<Rightarrow> 'm agent_state_scheme \<Rightarrow>
   'm agent_state_scheme outcome" where
  "dispatch_kernel code GroupRegion Q KernelPacket CurrentIndex s =
     and_then (allocate_group_memory GroupRegion (kd_group_segment_size KernelPacket) s) (\<lambda>(GroupMemory, s1).
     and_then (find_kernel s1 (kd_kernel_object KernelPacket)) (\<lambda>(K, s2).
     and_then (launch_or_report code Q KernelPacket CurrentIndex GroupMemory K s2) (\<lambda>s3.
       free_group_memory GroupRegion GroupMemory s3)))"

section \<open>One packet\<close>

text \<open>
  The type-specific part: an unsatisfied barrier blocks the queue; otherwise the packet has been
  carried out and \<open>Completed\<close> holds its completion signal (null for none).
\<close>

datatype 's packet_result =
    Blocked
  | Completed addr 's

definition handle_packet ::
  "kernel_code \<Rightarrow> addr \<Rightarrow> addr \<Rightarrow> AQLPacket \<Rightarrow> u64 \<Rightarrow> 'm agent_state_scheme \<Rightarrow>
   'm agent_state_scheme packet_result outcome" where
  "handle_packet code GroupRegion Q Packet CurrentIndex s =
     (let PacketType = packet_type Packet
      in if PacketType = HSA_PACKET_TYPE_BARRIER_AND
         then and_then (BarrierAnd_condition s (ba_dep_signal (BarrierAnd Packet))) (\<lambda>OK.
           Inr (if \<not> OK then Blocked
                else Completed (fromHSAObject (SignalRegistry s) (ba_completion_signal (BarrierAnd Packet))) s))
         else if PacketType = HSA_PACKET_TYPE_BARRIER_OR
         then and_then (BarrierOr_condition s (bo_dep_signal (BarrierOr Packet))) (\<lambda>OK.
           Inr (if \<not> OK then Blocked
                else Completed (fromHSAObject (SignalRegistry s) (bo_completion_signal (BarrierOr Packet))) s))
         else if PacketType = HSA_PACKET_TYPE_KERNEL_DISPATCH
         then and_then (dispatch_kernel code GroupRegion Q (KernelDispatch Packet) CurrentIndex s) (\<lambda>s'.
           Inr (Completed (fromHSAObject (SignalRegistry s) (kd_completion_signal (KernelDispatch Packet))) s'))
         else Inl Aborted)"

definition update_queue_outcome ::
  "addr \<Rightarrow> (UserModeQueue \<Rightarrow> UserModeQueue outcome) \<Rightarrow> 'm queue_state_scheme \<Rightarrow> 'm queue_state_scheme outcome" where
  "update_queue_outcome this f s =
     and_then (deref (Queues s) this) (\<lambda>Q. and_then (f Q) (\<lambda>Q'.
       Inr (s\<lparr>Queues := (Queues s)(this \<mapsto> Q')\<rparr>)))"

text \<open>\<open>CurrentReadIndex = CurrentIndex + 1; storeReadIndex; SetPacketProcessed(PacketIndex, false)\<close>\<close>

definition advance_read_index ::
  "addr \<Rightarrow> nat \<Rightarrow> u64 \<Rightarrow> 'm queue_state_scheme \<Rightarrow> (u64 \<times> 'm queue_state_scheme) outcome" where
  "advance_read_index Q PacketIndex CurrentIndex s =
     and_then (UserModeQueue_storeReadIndex s Q (CurrentIndex + 1) Relaxed) (\<lambda>s1.
       and_then (update_queue_outcome Q (SetPacketProcessed PacketIndex False) s1) (\<lambda>s2.
         Inr (CurrentIndex + 1, s2)))"

definition clear_slot :: "addr \<Rightarrow> nat \<Rightarrow> 'm queue_state_scheme \<Rightarrow> 'm queue_state_scheme outcome" where
  "clear_slot base PacketIndex s =
     and_then (deref (Buffers s) base) (\<lambda>buf.
       if PacketIndex < length buf
       then Inr (s\<lparr>Buffers := (Buffers s)(base \<mapsto>
              buf[PacketIndex := set_packet_header HSA_PACKET_TYPE_INVALID (buf ! PacketIndex)])\<rparr>)
       else Inl Undefined_Behaviour)"

definition load_slot :: "addr \<Rightarrow> nat \<Rightarrow> 'm queue_state_scheme \<Rightarrow> AQLPacket outcome" where
  "load_slot base PacketIndex s =
     and_then (deref (Buffers s) base) (\<lambda>buf.
       if PacketIndex < length buf then Inr (buf ! PacketIndex) else Inl Undefined_Behaviour)"

text \<open>
  The body of the packet loop after the write index check: whether the loop is left, the new
  \<open>CurrentReadIndex\<close> and the new state. \<open>PacketIndex\<close> is an \<open>int\<close>.
\<close>

definition packet_step ::
  "kernel_code \<Rightarrow> addr \<Rightarrow> addr \<Rightarrow> u64 \<Rightarrow> u64 \<Rightarrow> u64 \<Rightarrow> 'm agent_state_scheme \<Rightarrow>
   (bool \<times> u64 \<times> 'm agent_state_scheme) outcome" where
  "packet_step code GroupRegion Q QueueSize CurrentReadIndex CurrentIndex s =
     (let PacketIndex = unat (CurrentIndex mod QueueSize)
      in if 2 ^ 31 \<le> PacketIndex then Inl Undefined_Behaviour
         else and_then (deref (Queues s) Q) (\<lambda>Qobj.
           let base = base_address (HSAQueue Qobj)
           in and_then (load_slot base PacketIndex s) (\<lambda>Packet.
             if packet_type Packet = HSA_PACKET_TYPE_INVALID
             then and_then (IsPacketProcessed Qobj PacketIndex) (\<lambda>processed.
               if processed \<and> CurrentReadIndex = CurrentIndex
               then and_then (advance_read_index Q PacketIndex CurrentIndex s) (\<lambda>(cri, s').
                 Inr (False, cri, s'))
               else Inr (False, CurrentReadIndex, s))
             else and_then (handle_packet code GroupRegion Q Packet CurrentIndex s) (\<lambda>r.
               case r of
                 Blocked \<Rightarrow> Inr (True, CurrentReadIndex, s)
               | Completed CompletionSignal s1 \<Rightarrow>
                   and_then (clear_slot base PacketIndex s1) (\<lambda>s2.
                   and_then
                     (if CurrentReadIndex = CurrentIndex then advance_read_index Q PacketIndex CurrentIndex s2
                      else and_then (update_queue_outcome Q (SetPacketProcessed PacketIndex True) s2)
                             (\<lambda>s3. Inr (CurrentReadIndex, s3))) (\<lambda>(cri, s3).
                   and_then
                     (if CompletionSignal \<noteq> nullptr then GCCBuiltinSignal_store s3 CompletionSignal 0 Relaxed
                      else Inr s3) (\<lambda>s4. Inr (False, cri, s4))))))))"

section \<open>One queue\<close>

text \<open>
  The packet loop. It ends because the break at the write index is reached before the 64-bit
  index can wrap around.
\<close>

function packet_loop ::
  "kernel_code \<Rightarrow> addr \<Rightarrow> addr \<Rightarrow> u64 \<Rightarrow> u64 \<Rightarrow> u64 \<Rightarrow> u64 \<Rightarrow> u64 \<Rightarrow> 'm agent_state_scheme \<Rightarrow>
   'm agent_state_scheme outcome" where
  "packet_loop code GroupRegion Q QueueSize LastIndex CurrentWriteIndex CurrentReadIndex CurrentIndex s =
     (if LastIndex < CurrentIndex then Inr s
      else if QueueSize = 0 then Inl Undefined_Behaviour
      else if CurrentWriteIndex \<le> CurrentIndex then Inr s
      else and_then (packet_step code GroupRegion Q QueueSize CurrentReadIndex CurrentIndex s)
        (\<lambda>(stop, CurrentReadIndex', s').
          if stop then Inr s'
          else packet_loop code GroupRegion Q QueueSize LastIndex CurrentWriteIndex CurrentReadIndex'
                 (CurrentIndex + 1) s'))"
  by pat_completeness auto

termination
  by (relation "measure (\<lambda>(code, gr, Q, qs, last_i, cwi, cri, ci, s). unat cwi - unat ci)")
    (auto simp: not_le unat_Suc_less word_less_nat_alt)

declare packet_loop.simps [simp del]

text \<open>
  \<open>int PacketsToCheck\<close>: for a single-producer queue the distance from the read index to the doorbell,
  for the others the queue size, converted to 32 bits and extended again by the addition.
\<close>

definition PacketsToCheck :: "hsa_queue_type_t \<Rightarrow> i64 \<Rightarrow> u64 \<Rightarrow> u64 \<Rightarrow> i32" where
  "PacketsToCheck Type DoorBell CurrentReadIndex QueueSize =
     (if Type = HSA_QUEUE_TYPE_SINGLE then ucast (DoorBell - CurrentReadIndex) else ucast QueueSize)"

text \<open>The part of the queue loop's body from the doorbell to the end.\<close>

definition service_queue ::
  "kernel_code \<Rightarrow> addr \<Rightarrow> addr \<Rightarrow> 'm agent_state_scheme \<Rightarrow> 'm agent_state_scheme outcome" where
  "service_queue code GroupRegion Q s =
     and_then (deref (Queues s) Q) (\<lambda>Qobj.
       if isInactivated Qobj \<or> isDestroyed Qobj then Inr s
       else and_then (hsa_signal_load_acquire s (doorbell_signal (HSAQueue Qobj))) (\<lambda>DoorBell.
         if DoorBell = i64_max \<or> DoorBell = getLastHandledDoorBell Qobj then Inr s
         else and_then (update_queue Q (setLastHandledDoorBell DoorBell) s) (\<lambda>s1.
           and_then (UserModeQueue_loadReadIndex s1 Q Relaxed) (\<lambda>CurrentReadIndex.
           and_then (UserModeQueue_loadWriteIndex s1 Q Relaxed) (\<lambda>CurrentWriteIndex.
             let QueueSize = ucast (queue_size (HSAQueue Qobj)) :: u64;
                 n = PacketsToCheck (queue_type (HSAQueue Qobj)) DoorBell CurrentReadIndex QueueSize
             in packet_loop code GroupRegion Q QueueSize (CurrentReadIndex + scast n) CurrentWriteIndex
                  CurrentReadIndex CurrentReadIndex s1)))))"

section \<open>The worker thread\<close>

text \<open>
  A turn of the loop over the queues. When the agent finds that it is being interrupted it waits in
  an endless loop for the interruption signal: \<open>Spins\<close>.
\<close>

datatype 's turn =
    Spins 's
  | Proceeds 's

definition queue_turn ::
  "kernel_code \<Rightarrow> addr \<Rightarrow> addr \<Rightarrow> 'm agent_state_scheme \<Rightarrow> 'm agent_state_scheme turn outcome" where
  "queue_turn code this Q s =
     and_then (update_agent this (\<lambda>A. A\<lparr>RunningQueue := Q\<rparr>) s) (\<lambda>s1.
     and_then (deref (KernelAgents s1) this) (\<lambda>A.
       if InterruptingTheQueue A then Inr (Spins s1)
       else and_then (service_queue code (GroupMemoryRegion A) Q s1) (\<lambda>s2. Inr (Proceeds s2))))"

fun queue_turns ::
  "kernel_code \<Rightarrow> addr \<Rightarrow> addr list \<Rightarrow> 'm agent_state_scheme \<Rightarrow> 'm agent_state_scheme turn outcome" where
  "queue_turns code this [] s = Inr (Proceeds s)"
| "queue_turns code this (Q # Qs) s =
     and_then (queue_turn code this Q s) (\<lambda>t.
       case t of Spins s' \<Rightarrow> Inr (Spins s') | Proceeds s' \<Rightarrow> queue_turns code this Qs s')"

definition Execute_pass ::
  "kernel_code \<Rightarrow> addr \<Rightarrow> 'm agent_state_scheme \<Rightarrow> 'm agent_state_scheme turn outcome" where
  "Execute_pass code this s =
     and_then (deref (KernelAgents s) this) (\<lambda>A.
       let Queues' = getQueues A
       in and_then (update_agent this (\<lambda>A. A\<lparr>RunningQueue := nullptr\<rparr>) s) (\<lambda>s1.
            queue_turns code this Queues' s1))"

text \<open>
  \<open>Execute\<close> from the landing spot of the signal handler on. \<open>env n\<close> is what the other threads do
  to the state between the passes; the result is \<open>None\<close> when the thread does not end.
\<close>

partial_function (option) Execute_loop ::
  "kernel_code \<Rightarrow> addr \<Rightarrow> (nat \<Rightarrow> 'm agent_state_scheme \<Rightarrow> 'm agent_state_scheme) \<Rightarrow> nat \<Rightarrow>
   'm agent_state_scheme \<Rightarrow> 'm agent_state_scheme outcome option" where
  "Execute_loop code this env n s =
     (if ShutDown s then Some (Inr (s\<lparr>ShutDown := False\<rparr>))
      else case Execute_pass code this s of
             Inl e \<Rightarrow> Some (Inl e)
           | Inr (Spins s') \<Rightarrow> None
           | Inr (Proceeds s') \<Rightarrow> Execute_loop code this env (Suc n) (env n s'))"

definition Execute ::
  "kernel_code \<Rightarrow> addr \<Rightarrow> (nat \<Rightarrow> 'm agent_state_scheme \<Rightarrow> 'm agent_state_scheme) \<Rightarrow>
   'm agent_state_scheme \<Rightarrow> 'm agent_state_scheme outcome option" where
  "Execute code this env s =
     (case update_agent this (\<lambda>A. A\<lparr>RunningQueue := nullptr, InterruptingTheQueue := False\<rparr>) s of
        Inl e \<Rightarrow> Some (Inl e)
      | Inr s' \<Rightarrow> Execute_loop code this env 0 s')"

text \<open>\<open>shutDown\<close> raises the flag and joins the worker, which is modelled by the state it leaves.\<close>

definition CPUKernelAgent_shutDown ::
  "kernel_code \<Rightarrow> addr \<Rightarrow> 'm agent_state_scheme \<Rightarrow> 'm agent_state_scheme outcome option" where
  "CPUKernelAgent_shutDown code this s = Execute_loop code this (\<lambda>n s. s) 0 (s\<lparr>ShutDown := True\<rparr>)"

section \<open>Termination of a queue by another thread\<close>

text \<open>
  \<open>terminateQueue\<close>: when the queue is running, the caller signals the worker and polls
  \<open>RunningQueue\<close>; \<open>reads i\<close> is what the i-th read sees.
\<close>

partial_function (option) wait_until_left :: "addr \<Rightarrow> (nat \<Rightarrow> addr) \<Rightarrow> nat \<Rightarrow> unit option" where
  "wait_until_left Q reads i = (if reads i = Q then wait_until_left Q reads (Suc i) else Some ())"

definition CPUKernelAgent_terminateQueue ::
  "addr \<Rightarrow> addr \<Rightarrow> (nat \<Rightarrow> addr) \<Rightarrow> 'm agent_state_scheme \<Rightarrow> 'm agent_state_scheme option outcome" where
  "CPUKernelAgent_terminateQueue this Q reads s =
     and_then (update_agent this (\<lambda>A. A\<lparr>InterruptingTheQueue := True\<rparr>) s) (\<lambda>s1.
     and_then (deref (KernelAgents s1) this) (\<lambda>A.
       if Q = RunningQueue A \<and> wait_until_left Q reads 0 = None then Inr None
       else and_then (update_agent this (\<lambda>A. A\<lparr>InterruptingTheQueue := False\<rparr>) s1) (\<lambda>s2. Inr (Some s2))))"

text \<open>\<open>Queue::setInactivated\<close>; a soft queue has no owner.\<close>

definition setInactivated ::
  "(nat \<Rightarrow> addr) \<Rightarrow> addr \<Rightarrow> 'm agent_state_scheme \<Rightarrow> 'm agent_state_scheme option outcome" where
  "setInactivated reads this s =
     and_then (update_queue this (\<lambda>Q. Q\<lparr>Inactivated := True\<rparr>) s) (\<lambda>s1.
     and_then (deref (Queues s1) this) (\<lambda>Q.
       if QueueOwner Q \<noteq> nullptr then CPUKernelAgent_terminateQueue (QueueOwner Q) this reads s1
       else Inr (Some s1)))"

end
