(* ===== verification/Packet_Frames.thy ===== *)
theory Packet_Frames
  imports Kernel_Agent
begin

text \<open>
  What handling one packet leaves alone, and the effect of one iteration of the packet loop of
  \<open>CPUKernelAgent::Execute\<close> on the ring buffer, the read index and the flags of the queue.
\<close>

section \<open>Handling a packet leaves the queues alone\<close>

definition handling_frame :: "'m agent_state_scheme \<Rightarrow> 'm agent_state_scheme \<Rightarrow> bool" where
  "handling_frame s s' \<longleftrightarrow>
     Queues s' = Queues s \<and> Buffers s' = Buffers s \<and> SignalRegistry s' = SignalRegistry s \<and>
     Signals s' = Signals s \<and> dom (SignalValues s') = dom (SignalValues s) \<and>
     Instance s' = Instance s \<and> KernelAgents s' = KernelAgents s \<and> SymbolObjects s' = SymbolObjects s"

lemma handling_frame_refl [simp]: "handling_frame s s"
  by (simp add: handling_frame_def)

lemma handling_frame_trans: "handling_frame s s' \<Longrightarrow> handling_frame s' s'' \<Longrightarrow> handling_frame s s''"
  by (simp add: handling_frame_def)

lemma handling_frame_updates [simp]:
  "handling_frame s (s'\<lparr>Events := e\<rparr>) = handling_frame s s'"
  "handling_frame s (s'\<lparr>Memory := m\<rparr>) = handling_frame s s'"
  "handling_frame s (s'\<lparr>SymbolRegistry := r\<rparr>) = handling_frame s s'"
  "handling_frame s (s'\<lparr>HostHeap := h\<rparr>) = handling_frame s s'"
  "handling_frame s (set_allocations rg R A s') = handling_frame s s'"
  by (simp_all add: handling_frame_def set_allocations_def)

lemma host_malloc_frame: "host_malloc s = (p, s') \<Longrightarrow> handling_frame s s'"
  by (cases s rule: host_malloc_cases) auto

lemma posix_memalign_frame: "posix_memalign a n s = (r, s') \<Longrightarrow> handling_frame s s'"
  using host_malloc_frame [of s "fst (host_malloc s)" "snd (host_malloc s)"]
  by (auto simp: posix_memalign_def case_prod_unfold Let_def split: if_splits)

lemma CPUMemoryRegion_allocate_frame:
  assumes "CPUMemoryRegion_allocate r s n a = Inr (p, s')"
  shows "handling_frame s s'"
proof (cases "a < 8")
  case True
  with assms show ?thesis
    by (cases s rule: host_malloc_cases) (auto simp: CPUMemoryRegion_allocate_def outcome_simps Let_def)
next
  case False
  obtain q s1 where m: "posix_memalign a n s = (q, s1)" by (cases "posix_memalign a n s")
  note frame = posix_memalign_frame [OF m]
  from False m assms frame show ?thesis
    by (cases q) (auto simp: CPUMemoryRegion_allocate_def outcome_simps)
qed

lemma CPUMemoryRegion_free_frame:
  "CPUMemoryRegion_free r s p = Inr (b, s') \<Longrightarrow> handling_frame s s'"
  by (auto simp: CPUMemoryRegion_free_def outcome_simps split: if_splits)

lemma ExecuteCallback_frame: "ExecuteCallback s Q st = Inr s' \<Longrightarrow> handling_frame s s'"
  by (auto simp: ExecuteCallback_def outcome_simps)

lemma call_kernel_frame [simp]: "handling_frame s (call_kernel code a l g s)"
  by (auto simp: call_kernel_def handling_frame_def case_prod_beta Let_def dom_def split: option.splits)

lemma launch_kernel_frame:
  assumes "launch_kernel code K P i g s = Inr s'"
  shows "handling_frame s s'"
proof -
  have *: "handling_frame s1 s2 \<Longrightarrow> handling_frame s1 (call_kernel code a l g s2)" for s1 s2 a l
    by (rule handling_frame_trans [OF _ call_kernel_frame])
  obtain q s1 where m: "posix_memalign (ucast (KernargSegmentAlignment K)) (ucast (KernargSegmentSize K)) s = (q, s1)"
    by fastforce
  note f = posix_memalign_frame [OF this]
  from assms m f show ?thesis
    by (auto simp: launch_kernel_def Let_def intro!: * split: if_splits option.splits)
qed

lemma find_kernel_frame: "find_kernel s h = Inr (K, s') \<Longrightarrow> handling_frame s s'"
  by (auto simp: find_kernel_def outcome_simps case_prod_beta Let_def split: if_splits)

lemma launch_or_report_frame:
  "launch_or_report code Q P i g K s = Inr s' \<Longrightarrow> handling_frame s s'"
  by (auto simp: launch_or_report_def Let_def dest: launch_kernel_frame ExecuteCallback_frame
      split: if_splits)

lemma group_memory_frame:
  "allocate_group_memory gr n s = Inr (g, s') \<Longrightarrow> handling_frame s s'"
  "free_group_memory gr g s = Inr s' \<Longrightarrow> handling_frame s s'"
  by (auto simp: allocate_group_memory_def free_group_memory_def outcome_simps
      dest: CPUMemoryRegion_allocate_frame CPUMemoryRegion_free_frame split: if_splits)

lemma dispatch_kernel_frame:
  assumes "dispatch_kernel code gr Q P i s = Inr s'"
  shows "handling_frame s s'"
proof -
  from assms obtain g s1 K s2 s3 where
    "allocate_group_memory gr (kd_group_segment_size P) s = Inr (g, s1)"
    "find_kernel s1 (kd_kernel_object P) = Inr (K, s2)"
    "launch_or_report code Q P i g K s2 = Inr s3" "free_group_memory gr g s3 = Inr s'"
    by (auto simp: dispatch_kernel_def outcome_simps)
  then show ?thesis
    by (meson handling_frame_trans group_memory_frame find_kernel_frame launch_or_report_frame)
qed

lemma handle_packet_frame:
  assumes "handle_packet code gr Q P i s = Inr (Completed c s')"
  shows "handling_frame s s'"
  using assms
  by (auto simp: handle_packet_def Let_def outcome_simps dest: dispatch_kernel_frame split: if_splits)

section \<open>One iteration of the packet loop\<close>

definition norm_flags :: "UserModeQueue \<Rightarrow> bool list" where
  "norm_flags q = (if PacketIsProcessed q = [] then replicate (unat (queue_size (HSAQueue q))) False
                   else PacketIsProcessed q)"

definition mark_slot :: "nat \<Rightarrow> bool \<Rightarrow> UserModeQueue \<Rightarrow> UserModeQueue" where
  "mark_slot k b q = q\<lparr>PacketIsProcessed := (norm_flags q)[k := b]\<rparr>"

definition set_read :: "u64 \<Rightarrow> UserModeQueue \<Rightarrow> UserModeQueue" where
  "set_read v q = q\<lparr>HSAQueue := (HSAQueue q)\<lparr>read_index := v\<rparr>\<rparr>"

text \<open>A queue whose ring buffer, size and flags fit together.\<close>

definition ring_of :: "addr \<Rightarrow> 'm queue_state_scheme \<Rightarrow> UserModeQueue \<Rightarrow> AQLPacket list \<Rightarrow> bool" where
  "ring_of Q s q buf \<longleftrightarrow>
     Q \<noteq> nullptr \<and> Queues s Q = Some q \<and> base_address (HSAQueue q) \<noteq> nullptr \<and>
     Buffers s (base_address (HSAQueue q)) = Some buf \<and>
     length buf = unat (queue_size (HSAQueue q)) \<and> buf \<noteq> [] \<and> length buf < 2 ^ 31 \<and>
     length (norm_flags q) = length buf"

definition ring_size :: "UserModeQueue \<Rightarrow> u64" where
  "ring_size q = ucast (queue_size (HSAQueue q))"

lemma unat_ring_size [simp]: "unat (ring_size q) = unat (queue_size (HSAQueue q))"
  by (simp add: ring_size_def unsigned_ucast_eq take_bit_nat_eq_self unsigned_less [THEN order.strict_trans])

lemma ring_slot_less:
  assumes "ring_of Q s q buf"
  shows "unat (i mod ring_size q) < length buf" "unat (i mod ring_size q) < 2 ^ 31" "ring_size q \<noteq> 0"
proof -
  have *: "unat (ring_size q) = length buf" "0 < length buf" "length buf < 2 ^ 31"
    using assms unfolding ring_of_def unat_ring_size by (metis, metis length_greater_0_conv, metis)
  then show "ring_size q \<noteq> 0" by (auto simp del: unat_ring_size)
  show "unat (i mod ring_size q) < length buf" using * by (simp add: unat_mod_u64)
  with * show "unat (i mod ring_size q) < 2 ^ 31" by linarith
qed

lemma norm_flags_simps [simp]:
  "norm_flags (set_read v q) = norm_flags q"
  "0 < length (norm_flags q) \<Longrightarrow> norm_flags (mark_slot k b q) = (norm_flags q)[k := b]"
  "HSAQueue (mark_slot k b q) = HSAQueue q"
  "PacketIsProcessed (set_read v q) = PacketIsProcessed q"
  "read_index (HSAQueue (set_read v q)) = v"
  "write_index (HSAQueue (set_read v q)) = write_index (HSAQueue q)"
  "base_address (HSAQueue (set_read v q)) = base_address (HSAQueue q)"
  "queue_size (HSAQueue (set_read v q)) = queue_size (HSAQueue q)"
  "doorbell_signal (HSAQueue (set_read v q)) = doorbell_signal (HSAQueue q)"
  "queue_type (HSAQueue (set_read v q)) = queue_type (HSAQueue q)"
  "ring_size (set_read v q) = ring_size q"
  "ring_size (mark_slot k b q) = ring_size q"
  by (auto simp: norm_flags_def set_read_def mark_slot_def ring_size_def)

lemma SetPacketProcessed_eq:
  "k < length (norm_flags q) \<Longrightarrow> SetPacketProcessed k b q = Inr (mark_slot k b q)"
  by (simp add: SetPacketProcessed_def norm_flags_def [symmetric] mark_slot_def)

lemma IsPacketProcessed_eq:
  "k < length (norm_flags q) \<Longrightarrow> IsPacketProcessed q k = Inr (norm_flags q ! k)"
  by (auto simp: IsPacketProcessed_def norm_flags_def split: if_splits)

lemma advance_read_index_eq:
  assumes "Q \<noteq> nullptr" and "Queues s Q = Some q" and "k < length (norm_flags q)"
  shows "advance_read_index Q k i s =
    Inr (i + 1, s\<lparr>Queues := (Queues s)(Q \<mapsto> mark_slot k False (set_read (i + 1) q))\<rparr>)"
  using assms
  by (simp add: advance_read_index_def UserModeQueue_storeReadIndex_def update_queue_def deref_Some
      update_queue_outcome_def SetPacketProcessed_eq Atomic_Store_def set_read_def [symmetric])

definition cleared :: "nat \<Rightarrow> AQLPacket list \<Rightarrow> AQLPacket list" where
  "cleared k buf = buf[k := set_packet_header HSA_PACKET_TYPE_INVALID (buf ! k)]"

text \<open>The queue after a packet has been carried out.\<close>

definition bookkeep :: "nat \<Rightarrow> u64 \<Rightarrow> u64 \<Rightarrow> UserModeQueue \<Rightarrow> UserModeQueue" where
  "bookkeep k cri i q = (if cri = i then mark_slot k False (set_read (i + 1) q) else mark_slot k True q)"

definition finish_packet ::
  "addr \<Rightarrow> addr \<Rightarrow> 'm agent_state_scheme \<Rightarrow> 'm agent_state_scheme outcome" where
  "finish_packet Q c s = (if c \<noteq> nullptr then GCCBuiltinSignal_store s c 0 Relaxed else Inr s)"

lemma packet_step_eq:
  assumes ring: "ring_of Q s q buf" and k: "k = unat (i mod ring_size q)"
  shows "packet_step code gr Q (ring_size q) cri i s =
    (if packet_type (buf ! k) = HSA_PACKET_TYPE_INVALID
     then Inr (if norm_flags q ! k \<and> cri = i
               then (False, i + 1, s\<lparr>Queues := (Queues s)(Q \<mapsto> mark_slot k False (set_read (i + 1) q))\<rparr>)
               else (False, cri, s))
     else and_then (handle_packet code gr Q (buf ! k) i s) (\<lambda>r. case r of
            Blocked \<Rightarrow> Inr (True, cri, s)
          | Completed c s1 \<Rightarrow>
              and_then (finish_packet Q c (s1\<lparr>Buffers := (Buffers s)(base_address (HSAQueue q) \<mapsto> cleared k buf),
                  Queues := (Queues s)(Q \<mapsto> bookkeep k cri i q)\<rparr>))
                (\<lambda>s4. Inr (False, if cri = i then i + 1 else cri, s4))))"
proof -
  have q: "Q \<noteq> nullptr" "Queues s Q = Some q" "base_address (HSAQueue q) \<noteq> nullptr"
    "Buffers s (base_address (HSAQueue q)) = Some buf" "length (norm_flags q) = length buf"
    using ring by (auto simp: ring_of_def)
  have less: "k < length buf" "\<not> 2 ^ 31 \<le> k"
    using ring_slot_less(1,2) [OF ring, of i] k by auto
  have handle_cong: "and_then (handle_packet code gr Q (buf ! k) i s) f = and_then (handle_packet code gr Q (buf ! k) i s) g"
    if f: "f Blocked = g Blocked" "\<And>c s1. handling_frame s s1 \<Longrightarrow> f (Completed c s1) = g (Completed c s1)"
    for f g :: "'a agent_state_scheme packet_result \<Rightarrow> (bool \<times> u64 \<times> 'a agent_state_scheme) outcome"
  proof (rule and_then_cong)
    fix r
    assume "handle_packet code gr Q (buf ! k) i s = Inr r"
    then show "f r = g r" using f by (cases r) (auto dest: handle_packet_frame)
  qed simp
  show ?thesis
    unfolding packet_step_def Let_def k [symmetric]
    using q less
    by (simp add: deref_Some load_slot_def IsPacketProcessed_eq advance_read_index_eq)
      (intro impI conjI handle_cong; simp add: handling_frame_def clear_slot_def
        deref_Some cleared_def advance_read_index_eq bookkeep_def update_queue_outcome_def
        SetPacketProcessed_eq finish_packet_def)
qed

end
