(* ===== verification/Packet_Loop.thy ===== *)
theory Packet_Loop
  imports Packet_Frames
begin

text \<open>
  The packet loop as a whole: how far the read index moves and what it leaves in the ring buffer,
  and the refinement of the loop to an executor that runs the published packets in order.
\<close>

section \<open>The completion store\<close>

lemma signal_cell_SomeD: "signal_cell s S = Inr (c, v) \<Longrightarrow> SignalValues s c = Some v"
  by (auto simp: signal_cell_def outcome_simps)

lemma set_cell_frame:
  "SignalValues s c \<noteq> None \<Longrightarrow> handling_frame s (set_cell c v s)"
  by (auto simp: set_cell_def handling_frame_def)

lemma finish_packet_frame:
  assumes "finish_packet Q c s = Inr s'"
  shows "handling_frame s s'"
  using assms
  by (auto simp: finish_packet_def GCCBuiltinSignal_store_def storeRelaxed_def outcome_simps
      dest!: signal_cell_SomeD intro!: set_cell_frame split: if_splits)

section \<open>Preservation of the ring\<close>

text \<open>The members of a queue that the agent never writes.\<close>

definition shape :: "UserModeQueue \<Rightarrow> UserModeQueue" where
  "shape q = q\<lparr>PacketIsProcessed := [], HSAQueue := (HSAQueue q)\<lparr>read_index := 0\<rparr>\<rparr>"

definition same_shape :: "UserModeQueue \<Rightarrow> UserModeQueue \<Rightarrow> bool" where
  "same_shape q q' \<longleftrightarrow> shape q' = shape q"

lemma same_shape_refl [simp]: "same_shape q q"
  by (simp add: same_shape_def)

lemma same_shape_trans: "same_shape q q' \<Longrightarrow> same_shape q' q'' \<Longrightarrow> same_shape q q''"
  by (simp add: same_shape_def)

lemma same_shape_mark [simp]:
  "same_shape q (mark_slot k b q)" "same_shape q (set_read v q)"
  "same_shape q (bookkeep k cri i q)" "same_shape q (mark_slot k b (set_read v q))"
  by (simp_all add: same_shape_def shape_def mark_slot_def set_read_def bookkeep_def)

lemma same_shape_fields:
  assumes "same_shape q q'"
  shows "base_address (HSAQueue q') = base_address (HSAQueue q)"
    and "queue_size (HSAQueue q') = queue_size (HSAQueue q)" and "ring_size q' = ring_size q"
    and "write_index (HSAQueue q') = write_index (HSAQueue q)" and "CB q' = CB q"
    and "doorbell_signal (HSAQueue q') = doorbell_signal (HSAQueue q)"
    and "LastHandledDoorBell q' = LastHandledDoorBell q"
    and "queue_id (HSAQueue q') = queue_id (HSAQueue q)"
    and "Inactivated q' = Inactivated q" and "Destroyed q' = Destroyed q"
  using arg_cong [where f = "\<lambda>q. base_address (HSAQueue q)", OF assms [unfolded same_shape_def]]
    arg_cong [where f = "\<lambda>q. queue_size (HSAQueue q)", OF assms [unfolded same_shape_def]]
    arg_cong [where f = "\<lambda>q. write_index (HSAQueue q)", OF assms [unfolded same_shape_def]]
    arg_cong [where f = CB, OF assms [unfolded same_shape_def]]
    arg_cong [where f = "\<lambda>q. doorbell_signal (HSAQueue q)", OF assms [unfolded same_shape_def]]
    arg_cong [where f = LastHandledDoorBell, OF assms [unfolded same_shape_def]]
    arg_cong [where f = "\<lambda>q. queue_id (HSAQueue q)", OF assms [unfolded same_shape_def]]
    arg_cong [where f = Inactivated, OF assms [unfolded same_shape_def]]
    arg_cong [where f = Destroyed, OF assms [unfolded same_shape_def]]
  by (simp_all add: shape_def ring_size_def)

lemma ring_of_shape:
  assumes "ring_of Q s q buf" and "same_shape q q'" and "Queues s' Q = Some q'"
    and "Buffers s' (base_address (HSAQueue q)) = Some buf'" and "length buf' = length buf"
    and "length (norm_flags q') = length (norm_flags q)"
  shows "ring_of Q s' q' buf'"
  using assms same_shape_fields(1,2) [OF assms(2)] unfolding ring_of_def by auto

lemma length_norm_flags [simp]:
  "0 < length (norm_flags q) \<Longrightarrow> length (norm_flags (mark_slot k b q)) = length (norm_flags q)"
  "0 < length (norm_flags q) \<Longrightarrow> length (norm_flags (bookkeep k cri i q)) = length (norm_flags q)"
  by (auto simp: bookkeep_def)

lemma read_index_mark [simp]:
  "read_index (HSAQueue (mark_slot k b q)) = read_index (HSAQueue q)"
  by (simp add: mark_slot_def)

lemma cleared_simps [simp]:
  "length (cleared k buf) = length buf"
  "k' \<noteq> k \<Longrightarrow> cleared k buf ! k' = buf ! k'"
  "k < length buf \<Longrightarrow> cleared k buf ! k = set_packet_header HSA_PACKET_TYPE_INVALID (buf ! k)"
  by (simp_all add: cleared_def)

text \<open>
  The outcomes of one iteration: the slot was INVALID and nothing happens, or it was consumed
  earlier and the read index catches up; the packet is an unsatisfied barrier; or the packet has
  been carried out, its slot is cleared and the bookkeeping is done.
\<close>

lemma packet_step_cases:
  assumes ring: "ring_of Q s q buf" and k: "k = unat (i mod ring_size q)"
    and step: "packet_step code gr Q (ring_size q) cri i s = Inr (stop, cri', s')"
  obtains (skip) "\<not> stop" "cri' = cri" "s' = s" "packet_type (buf ! k) = HSA_PACKET_TYPE_INVALID"
      "norm_flags q ! k \<longrightarrow> cri \<noteq> i"
  | (catch_up) "\<not> stop" "cri = i" "cri' = i + 1" "packet_type (buf ! k) = HSA_PACKET_TYPE_INVALID"
      "norm_flags q ! k"
      "s' = s\<lparr>Queues := (Queues s)(Q \<mapsto> mark_slot k False (set_read (i + 1) q))\<rparr>"
      "ring_of Q s' (mark_slot k False (set_read (i + 1) q)) buf"
  | (blocked) "stop" "cri' = cri" "s' = s" "packet_type (buf ! k) \<noteq> HSA_PACKET_TYPE_INVALID"
      "handle_packet code gr Q (buf ! k) i s = Inr Blocked"
  | (carried_out) c s1 where "\<not> stop" "cri' = (if cri = i then i + 1 else cri)"
      "packet_type (buf ! k) \<noteq> HSA_PACKET_TYPE_INVALID"
      "handle_packet code gr Q (buf ! k) i s = Inr (Completed c s1)"
      "finish_packet Q c (s1\<lparr>Buffers := (Buffers s)(base_address (HSAQueue q) \<mapsto> cleared k buf),
         Queues := (Queues s)(Q \<mapsto> bookkeep k cri i q)\<rparr>) = Inr s'"
      "Queues s' = (Queues s)(Q \<mapsto> bookkeep k cri i q)"
      "Buffers s' = (Buffers s)(base_address (HSAQueue q) \<mapsto> cleared k buf)"
      "ring_of Q s' (bookkeep k cri i q) (cleared k buf)"
proof -
  have pos: "0 < length (norm_flags q)" using ring unfolding ring_of_def by (metis length_greater_0_conv)
  show ?thesis
  proof (cases "packet_type (buf ! k) = HSA_PACKET_TYPE_INVALID")
    case True
    show ?thesis
    proof (cases "norm_flags q ! k \<and> cri = i")
      case c: True
      then have eq: "s' = s\<lparr>Queues := (Queues s)(Q \<mapsto> mark_slot k False (set_read (i + 1) q))\<rparr>"
        using step packet_step_eq [OF ring k, of code gr cri] True by simp
      have "ring_of Q s' (mark_slot k False (set_read (i + 1) q)) buf"
        by (rule ring_of_shape [OF ring same_shape_mark(4)])
          (use ring pos in \<open>simp_all add: eq ring_of_def\<close>)
      then show ?thesis
        using step packet_step_eq [OF ring k, of code gr cri] True c eq by (intro catch_up) simp_all
    next
      case False
      then show ?thesis
        using step packet_step_eq [OF ring k, of code gr cri] True by (intro skip) auto
    qed
  next
    case False
    with step packet_step_eq [OF ring k, of code gr cri] obtain r where
      r: "handle_packet code gr Q (buf ! k) i s = Inr r" by (auto simp: outcome_simps)
    show ?thesis
    proof (cases r)
      case Blocked
      with r False step packet_step_eq [OF ring k, of code gr cri] show ?thesis by (intro blocked) simp_all
    next
      case (Completed c s1)
      with r False step packet_step_eq [OF ring k, of code gr cri] have
        fin: "finish_packet Q c (s1\<lparr>Buffers := (Buffers s)(base_address (HSAQueue q) \<mapsto> cleared k buf),
          Queues := (Queues s)(Q \<mapsto> bookkeep k cri i q)\<rparr>) = Inr s'"
        and "\<not> stop" "cri' = (if cri = i then i + 1 else cri)"
        by (auto simp: outcome_simps)
      from finish_packet_frame [OF fin] have
        same: "Queues s' = (Queues s)(Q \<mapsto> bookkeep k cri i q)"
          "Buffers s' = (Buffers s)(base_address (HSAQueue q) \<mapsto> cleared k buf)"
        by (simp_all add: handling_frame_def)
      have "ring_of Q s' (bookkeep k cri i q) (cleared k buf)"
        by (rule ring_of_shape [OF ring same_shape_mark(3)]) (use pos in \<open>simp_all add: same\<close>)
      then show ?thesis
        using r Completed False fin same \<open>\<not> stop\<close> \<open>cri' = _\<close> by (intro carried_out) simp_all
    qed
  qed
qed


section \<open>The whole loop\<close>

definition slot :: "UserModeQueue \<Rightarrow> u64 \<Rightarrow> nat" where
  "slot q i = unat (i mod ring_size q)"

lemma slot_same_shape: "same_shape q q' \<Longrightarrow> slot q' i = slot q i"
  by (simp add: slot_def same_shape_fields(3))

text \<open>
  What a run of the loop may do to the ring: slots are only ever cleared, only those of packets in
  the window that starts at the current index, and the read index moves up to the write index at
  most, over slots that are INVALID.
\<close>

definition ring_progress ::
  "u64 \<Rightarrow> u64 \<Rightarrow> UserModeQueue \<Rightarrow> AQLPacket list \<Rightarrow> UserModeQueue \<Rightarrow> AQLPacket list \<Rightarrow> bool" where
  "ring_progress ci cwi q buf q' buf' \<longleftrightarrow>
     same_shape q q' \<and> length buf' = length buf \<and>
     read_index (HSAQueue q) \<le> read_index (HSAQueue q') \<and> read_index (HSAQueue q') \<le> cwi \<and>
     (\<forall>k. buf' ! k = buf ! k \<or>
        packet_type (buf ! k) \<noteq> HSA_PACKET_TYPE_INVALID \<and> packet_type (buf' ! k) = HSA_PACKET_TYPE_INVALID \<and>
        (\<exists>j. ci \<le> j \<and> j < cwi \<and> k = slot q j)) \<and>
     (\<forall>j. read_index (HSAQueue q) \<le> j \<and> j < read_index (HSAQueue q') \<longrightarrow>
        packet_type (buf' ! slot q j) = HSA_PACKET_TYPE_INVALID)"

lemma ring_progress_refl:
  "read_index (HSAQueue q) \<le> cwi \<Longrightarrow> ring_progress ci cwi q buf q buf"
  by (auto simp: ring_progress_def)

text \<open>One iteration followed by a run from the next index.\<close>

lemma ring_progress_step:
  assumes rest: "ring_progress (ci + 1) cwi q1 buf1 q' buf'" and lt: "ci < cwi"
    and shape: "same_shape q q1" and len: "length buf1 = length buf"
    and read: "read_index (HSAQueue q1) = read_index (HSAQueue q) \<or>
      read_index (HSAQueue q) = ci \<and> read_index (HSAQueue q1) = ci + 1 \<and>
      packet_type (buf1 ! slot q ci) = HSA_PACKET_TYPE_INVALID"
    and slots: "buf1 = buf \<or> packet_type (buf ! slot q ci) \<noteq> HSA_PACKET_TYPE_INVALID \<and>
      packet_type (buf1 ! slot q ci) = HSA_PACKET_TYPE_INVALID \<and> (\<forall>k. k \<noteq> slot q ci \<longrightarrow> buf1 ! k = buf ! k)"
  shows "ring_progress ci cwi q buf q' buf'"
proof -
  have up: "ci < ci + 1" using lt by (simp add: word_less_nat_alt unat_Suc_less)
  have weaken: "ci + 1 \<le> j \<Longrightarrow> ci \<le> j" for j using up by simp
  note rest' = rest [unfolded ring_progress_def slot_same_shape [OF shape]]
  have keep: "packet_type (buf' ! k) = HSA_PACKET_TYPE_INVALID"
    if "packet_type (buf1 ! k) = HSA_PACKET_TYPE_INVALID" for k
    using rest' that by metis
  have le: "read_index (HSAQueue q) \<le> read_index (HSAQueue q')"
    using rest' read up by (metis order.trans order.strict_implies_order)
  have "buf' ! k = buf ! k \<or>
        packet_type (buf ! k) \<noteq> HSA_PACKET_TYPE_INVALID \<and> packet_type (buf' ! k) = HSA_PACKET_TYPE_INVALID \<and>
        (\<exists>j. ci \<le> j \<and> j < cwi \<and> k = slot q j)" for k
  proof (cases "buf1 ! k = buf ! k")
    case True
    with rest' weaken show ?thesis by metis
  next
    case False
    with slots have "k = slot q ci" "packet_type (buf ! k) \<noteq> HSA_PACKET_TYPE_INVALID"
      "packet_type (buf1 ! k) = HSA_PACKET_TYPE_INVALID" by metis+
    with keep lt show ?thesis by blast
  qed
  moreover have "packet_type (buf' ! slot q j) = HSA_PACKET_TYPE_INVALID"
    if j: "read_index (HSAQueue q) \<le> j" "j < read_index (HSAQueue q')" for j
  proof (cases "read_index (HSAQueue q1) \<le> j")
    case True
    with rest' j show ?thesis by blast
  next
    case False
    with read j(1) have eq: "read_index (HSAQueue q) = ci" "read_index (HSAQueue q1) = ci + 1"
      "packet_type (buf1 ! slot q ci) = HSA_PACKET_TYPE_INVALID" by auto
    with False have "j < ci + 1" by simp
    with eq j(1) up have "j = ci"
      using lt by (simp add: word_less_nat_alt word_le_nat_alt unat_Suc_less word_unat_eq_iff)
    with eq keep show ?thesis by blast
  qed
  ultimately show ?thesis
    using rest' le shape len same_shape_trans [OF shape] unfolding ring_progress_def by auto
qed

lemma packet_loop_stop:
  "LastI < ci \<or> cwi \<le> ci \<Longrightarrow> qs \<noteq> 0 \<Longrightarrow> packet_loop code gr Q qs LastI cwi cri ci s = Inr s"
  by (subst packet_loop.simps) auto

lemma packet_loop_step:
  "\<not> LastI < ci \<Longrightarrow> qs \<noteq> 0 \<Longrightarrow> \<not> cwi \<le> ci \<Longrightarrow>
   packet_loop code gr Q qs LastI cwi cri ci s =
     and_then (packet_step code gr Q qs cri ci s) (\<lambda>(stop, cri', s').
       if stop then Inr s' else packet_loop code gr Q qs LastI cwi cri' (ci + 1) s')"
  by (subst packet_loop.simps) simp

lemma packet_loop_ring:
  assumes "packet_loop code gr Q (ring_size q) LastI cwi cri ci s = Inr s'" and "ring_of Q s q buf"
    and "read_index (HSAQueue q) = cri" and "cri \<le> ci" and "ci \<le> cwi"
  shows "\<exists>q' buf'. ring_of Q s' q' buf' \<and> ring_progress ci cwi q buf q' buf'"
  using assms
proof (induction "unat cwi - unat ci" arbitrary: ci cri s q buf rule: less_induct)
  case less
  note ring = less.prems(2)
  have qs: "ring_size q \<noteq> 0" using ring_slot_less(3) [OF ring] .
  show ?case
  proof (cases "LastI < ci \<or> cwi \<le> ci")
    case True
    with less.prems qs have "s' = s" by (simp add: packet_loop_stop)
    with less.prems show ?thesis by (intro exI [of _ q] exI [of _ buf]) (auto intro: ring_progress_refl)
  next
    case False
    then have lt: "ci < cwi" and "\<not> LastI < ci" "\<not> cwi \<le> ci" by auto
    with less.prems(1) qs obtain stop cri1 s1 where
      step: "packet_step code gr Q (ring_size q) cri ci s = Inr (stop, cri1, s1)"
      and cont: "(if stop then Inr s1 else packet_loop code gr Q (ring_size q) LastI cwi cri1 (ci + 1) s1) = Inr s'"
      by (auto simp: packet_loop_step outcome_simps)
    have meas: "unat cwi - unat (ci + 1) < unat cwi - unat ci"
      using lt by (simp add: unat_Suc_less word_less_nat_alt)
    have le1: "ci + 1 \<le> cwi" and up: "ci < ci + 1"
      using lt by (auto simp: word_Suc_le word_less_nat_alt unat_Suc_less)
    have IH: "\<exists>q' buf'. ring_of Q s' q' buf' \<and> ring_progress (ci + 1) cwi q1 buf1 q' buf'"
      if "ring_of Q s1 q1 buf1" "same_shape q q1" "read_index (HSAQueue q1) = cri1" "cri1 \<le> ci + 1" "\<not> stop"
      for q1 buf1
      using less.hyps [OF meas _ that(1,3,4) le1] cont that(5) same_shape_fields(3) [OF that(2)] by simp
    have cri_le: "cri \<le> ci + 1" using less.prems(4) up by simp
    from ring slot_def [of q ci] step show ?thesis
    proof (cases rule: packet_step_cases)
      case skip
      have "\<exists>q' buf'. ring_of Q s' q' buf' \<and> ring_progress (ci + 1) cwi q buf q' buf'"
        by (rule IH [OF _ same_shape_refl]) (use skip ring less.prems(3) cri_le in simp_all)
      then obtain q' buf' where
        "ring_of Q s' q' buf'" "ring_progress (ci + 1) cwi q buf q' buf'" by blast
      then show ?thesis using ring_progress_step [OF _ lt same_shape_refl] by blast
    next
      case catch_up
      with IH [OF catch_up(7) same_shape_mark(4)] obtain q' buf' where
        "ring_of Q s' q' buf'"
        "ring_progress (ci + 1) cwi (mark_slot (slot q ci) False (set_read (ci + 1) q)) buf q' buf'" by auto
      then show ?thesis
        using ring_progress_step [OF _ lt same_shape_mark(4)] catch_up less.prems(3) by fastforce
    next
      case blocked
      with cont less.prems have "s' = s" by simp
      with less.prems show ?thesis by (intro exI [of _ q] exI [of _ buf]) (auto intro: ring_progress_refl)
    next
      case (carried_out c s2)
      have r: "read_index (HSAQueue (bookkeep (slot q ci) cri ci q)) = cri1"
        using carried_out(2) less.prems(3) by (simp add: bookkeep_def)
      have "cri1 \<le> ci + 1" using carried_out(2) cri_le by simp
      with IH [OF carried_out(8) same_shape_mark(3) r] carried_out(1) obtain q' buf' where
        p: "ring_of Q s' q' buf'"
        "ring_progress (ci + 1) cwi (bookkeep (slot q ci) cri ci q) (cleared (slot q ci) buf) q' buf'" by auto
      have "slot q ci < length buf" using ring_slot_less(1) [OF ring] by (simp add: slot_def)
      then have "ring_progress ci cwi q buf q' buf'"
        by (intro ring_progress_step [OF p(2) lt same_shape_mark(3)])
          (use carried_out less.prems(3) in \<open>auto simp: r\<close>)
      with p(1) show ?thesis by blast
    qed
  qed
qed

end
