(* ===== verification/Packet_Order.thy ===== *)
theory Packet_Order
  imports Packet_Loop
begin

text \<open>
  The packet loop refines an executor that has no ring buffer: it is given the published packets
  in the order of their numbers, carries them out one after the other and stops at the first
  unsatisfied barrier.
\<close>

section \<open>Handling a packet does not look at the rings\<close>

definition with_rings ::
  "(addr \<rightharpoonup> UserModeQueue) \<Rightarrow> (addr \<rightharpoonup> AQLPacket list) \<Rightarrow> 'm queue_state_scheme \<Rightarrow> 'm queue_state_scheme" where
  "with_rings M B s = s\<lparr>Queues := M, Buffers := B\<rparr>"

lemma with_rings_simps [simp]:
  "Queues (with_rings M B s) = M" "Buffers (with_rings M B s) = B"
  "Signals (with_rings M B s) = Signals s" "SignalValues (with_rings M B s) = SignalValues s"
  "SignalRegistry (with_rings M B s) = SignalRegistry s" "Instance (with_rings M B s) = Instance s"
  "CPURegions (with_rings M B s) = CPURegions s" "HostHeap (with_rings M B s) = HostHeap s"
  "with_rings M B (with_rings M' B' s) = with_rings M B s"
  by (simp_all add: with_rings_def)

lemma with_rings_agent_simps [simp]:
  "SymbolRegistry (with_rings M B s) = SymbolRegistry s" "SymbolObjects (with_rings M B s) = SymbolObjects s"
  "Memory (with_rings M B s) = Memory s" "Events (with_rings M B s) = Events s"
  by (simp_all add: with_rings_def)

lemma with_rings_same [simp]: "with_rings (Queues s) (Buffers s) s = s"
  by (simp add: with_rings_def)

lemma with_rings_swap: "s\<lparr>Buffers := B, Queues := M\<rparr> = with_rings M B s"
  by (simp add: with_rings_def)

lemma with_rings_updates:
  "(with_rings M B s)\<lparr>HostHeap := h\<rparr> = with_rings M B (s\<lparr>HostHeap := h\<rparr>)"
  "set_allocations r R A (with_rings M B s) = with_rings M B (set_allocations r R A s)"
  "set_cell c v (with_rings M B s) = with_rings M B (set_cell c v s)"
  by (simp_all add: with_rings_def set_allocations_def set_cell_def)

lemma with_rings_agent_updates:
  "(with_rings M B s)\<lparr>SymbolRegistry := R\<rparr> = with_rings M B (s\<lparr>SymbolRegistry := R\<rparr>)"
  "(with_rings M B s)\<lparr>Memory := m\<rparr> = with_rings M B (s\<lparr>Memory := m\<rparr>)"
  "(with_rings M B s)\<lparr>Events := e\<rparr> = with_rings M B (s\<lparr>Events := e\<rparr>)"
  "call_kernel code a l g (with_rings M B s) = with_rings M B (call_kernel code a l g s)"
  by (simp_all add: with_rings_def call_kernel_def case_prod_beta Let_def)

abbreviation lift_rings where
  "lift_rings M B m \<equiv> map_sum id (map_prod id (with_rings M B)) m"

lemma host_malloc_rings:
  "host_malloc (with_rings M B s) = map_prod id (with_rings M B) (host_malloc s)"
  by (cases "HostHeap s") (simp_all add: host_malloc_def with_rings_updates)

lemma posix_memalign_rings:
  "posix_memalign a n (with_rings M B s) = map_prod id (with_rings M B) (posix_memalign a n s)"
  by (auto simp: posix_memalign_def host_malloc_rings case_prod_beta Let_def)

lemma allocate_rings:
  "CPUMemoryRegion_allocate r (with_rings M B s) n a = lift_rings M B (CPUMemoryRegion_allocate r s n a)"
proof (cases "deref (CPURegions s) r")
  case (Inr R)
  obtain p s1 where m: "host_malloc s = (p, s1)" by (cases "host_malloc s")
  obtain q s2 where a: "posix_memalign a n s = (q, s2)" by (cases "posix_memalign a n s")
  show ?thesis using Inr m a
    by (cases q) (simp_all add: CPUMemoryRegion_allocate_def host_malloc_rings posix_memalign_rings
        with_rings_updates)
qed (simp add: CPUMemoryRegion_allocate_def)

lemma free_rings:
  "CPUMemoryRegion_free r (with_rings M B s) p = lift_rings M B (CPUMemoryRegion_free r s p)"
  by (cases "deref (CPURegions s) r") (simp_all add: CPUMemoryRegion_free_def with_rings_updates)

lemma signal_cell_rings [simp]: "signal_cell (with_rings M B s) S = signal_cell s S"
  by (simp add: signal_cell_def)

lemma load_acquire_rings [simp]:
  "hsa_signal_load_acquire (with_rings M B s) h = hsa_signal_load_acquire s h"
  by (simp add: hsa_signal_load_acquire_def GCCBuiltinSignal_load_def loadAcquire_def
      Runtime_memoryFence_def Runtime_get_def)

lemma barrier_rings [simp]:
  "BarrierAnd_condition (with_rings M B s) deps = BarrierAnd_condition s deps"
  "BarrierOr_condition (with_rings M B s) deps = BarrierOr_condition s deps"
  by (induction deps) (simp_all cong: if_cong)

definition same_callback :: "addr \<Rightarrow> (addr \<rightharpoonup> UserModeQueue) \<Rightarrow> (addr \<rightharpoonup> UserModeQueue) \<Rightarrow> bool" where
  "same_callback Q M M' \<longleftrightarrow> Q \<noteq> nullptr \<and> (\<exists>q q'. M Q = Some q \<and> M' Q = Some q' \<and> CB q = CB q')"

lemma callback_rings:
  "same_callback Q (Queues s) M \<Longrightarrow>
     ExecuteCallback (with_rings M B s) Q st = map_sum id (with_rings M B) (ExecuteCallback s Q st)"
  by (auto simp: same_callback_def ExecuteCallback_def deref_Some with_rings_agent_updates)

lemma launch_rings:
  "launch_kernel code K P i g (with_rings M B s) = map_sum id (with_rings M B) (launch_kernel code K P i g s)"
proof -
  obtain q s2 where a: "posix_memalign (ucast (KernargSegmentAlignment K)) (ucast (KernargSegmentSize K)) s = (q, s2)"
    by fastforce
  then show ?thesis
    by (cases q) (simp_all add: launch_kernel_def posix_memalign_rings with_rings_agent_updates Let_def)
qed

lemma find_kernel_rings:
  "find_kernel (with_rings M B s) h = lift_rings M B (find_kernel s h)"
proof (cases "fromHandle (SymbolRegistry s) h")
  case (Pair p R)
  then show ?thesis
    by (cases "deref (SymbolObjects s) p") (simp_all add: find_kernel_def with_rings_agent_updates Let_def)
qed

lemma map_sum_and_then:
  "map_sum id f (and_then m g) = and_then m (\<lambda>a. map_sum id f (g a))"
  by (cases m) simp_all

lemma and_then_map_sum:
  "and_then (map_sum id f m) g = and_then m (\<lambda>a. g (f a))"
  by (cases m) simp_all

lemma report_rings:
  assumes "same_callback Q (Queues s) M"
  shows "launch_or_report code Q P i g K (with_rings M B s) =
    map_sum id (with_rings M B) (launch_or_report code Q P i g K s)"
  using assms by (simp add: launch_or_report_def Let_def launch_rings callback_rings)

lemma group_memory_rings:
  "allocate_group_memory gr n (with_rings M B s) = lift_rings M B (allocate_group_memory gr n s)"
  "free_group_memory gr g (with_rings M B s) = map_sum id (with_rings M B) (free_group_memory gr g s)"
  by (simp_all add: allocate_group_memory_def free_group_memory_def allocate_rings free_rings
      map_sum_and_then and_then_map_sum case_prod_beta)

lemma dispatch_rings:
  assumes "same_callback Q (Queues s) M"
  shows "dispatch_kernel code gr Q P i (with_rings M B s) =
    map_sum id (with_rings M B) (dispatch_kernel code gr Q P i s)"
proof -
  have cb: "same_callback Q (Queues s2) M"
    if "allocate_group_memory gr n s = Inr (g, s1)" "find_kernel s1 h = Inr (K, s2)" for n g s1 h K s2
    using group_memory_frame(1) [OF that(1)] find_kernel_frame [OF that(2)] assms
    by (simp add: handling_frame_def)
  show ?thesis
    unfolding dispatch_kernel_def group_memory_rings map_sum_and_then and_then_map_sum
    by (rule and_then_cong [OF refl], clarsimp simp: find_kernel_rings and_then_map_sum map_sum_and_then,
        rule and_then_cong [OF refl], clarsimp simp: report_rings cb and_then_map_sum map_sum_and_then
        group_memory_rings)
qed

abbreviation lift_packet where
  "lift_packet M B m \<equiv> map_sum id (map_packet_result (with_rings M B)) m"

lemma handle_packet_rings:
  assumes "same_callback Q (Queues s) M"
  shows "handle_packet code gr Q P i (with_rings M B s) = lift_packet M B (handle_packet code gr Q P i s)"
  using assms
  by (simp add: handle_packet_def Let_def dispatch_rings map_sum_and_then and_then_map_sum
      if_distrib [of "map_packet_result (with_rings M B)"] cong: if_cong)

lemma finish_packet_rings:
  "finish_packet Q c (with_rings M B s) = map_sum id (with_rings M B) (finish_packet Q c s)"
  by (simp add: finish_packet_def GCCBuiltinSignal_store_def storeRelaxed_def map_sum_and_then
      with_rings_updates case_prod_unfold)


section \<open>The executor without a ring\<close>

text \<open>The result is the number of packets carried out and the state they leave.\<close>

fun run_packets ::
  "kernel_code \<Rightarrow> addr \<Rightarrow> addr \<Rightarrow> (u64 \<times> AQLPacket) list \<Rightarrow> 'm agent_state_scheme \<Rightarrow>
   (nat \<times> 'm agent_state_scheme) outcome" where
  "run_packets code gr Q [] s = Inr (0, s)"
| "run_packets code gr Q ((i, P) # Ps) s =
     and_then (handle_packet code gr Q P i s) (\<lambda>r.
       case r of Blocked \<Rightarrow> Inr (0, s)
       | Completed c s1 \<Rightarrow> and_then (finish_packet Q c s1) (\<lambda>s2.
           and_then (run_packets code gr Q Ps s2) (\<lambda>(n, s3). Inr (Suc n, s3))))"

text \<open>The packets of a window of the ring, with their numbers.\<close>

fun window :: "UserModeQueue \<Rightarrow> AQLPacket list \<Rightarrow> u64 \<Rightarrow> nat \<Rightarrow> (u64 \<times> AQLPacket) list" where
  "window q buf i 0 = []"
| "window q buf i (Suc n) = (i, buf ! slot q i) # window q buf (i + 1) n"

text \<open>The queue and the buffer after \<open>n\<close> packets from \<open>i\<close> on have been consumed in order.\<close>

fun consumed_queue :: "nat \<Rightarrow> u64 \<Rightarrow> UserModeQueue \<Rightarrow> UserModeQueue" where
  "consumed_queue 0 i q = q"
| "consumed_queue (Suc n) i q = consumed_queue n (i + 1) (bookkeep (slot q i) i i q)"

fun consumed_buffer :: "nat \<Rightarrow> u64 \<Rightarrow> UserModeQueue \<Rightarrow> AQLPacket list \<Rightarrow> AQLPacket list" where
  "consumed_buffer 0 i q buf = buf"
| "consumed_buffer (Suc n) i q buf = consumed_buffer n (i + 1) q (cleared (slot q i) buf)"

lemma slot_bookkeep [simp]: "slot (bookkeep k cri i q) j = slot q j"
  by (rule slot_same_shape) simp

lemma consumed_buffer_same_ring: "(\<And>j. slot q' j = slot q j) \<Longrightarrow> consumed_buffer n i q' buf = consumed_buffer n i q buf"
  by (induction n arbitrary: i buf) simp_all

lemma window_same_ring: "(\<And>j. slot q' j = slot q j) \<Longrightarrow> window q' buf i n = window q buf i n"
  by (induction n arbitrary: i) simp_all

lemma read_index_consumed:
  "read_index (HSAQueue (consumed_queue n i q)) = (if n = 0 then read_index (HSAQueue q) else i + of_nat n)"
proof (induction n arbitrary: i q)
  case (Suc n)
  show ?case using Suc.IH [of "i + 1" "bookkeep (slot q i) i i q"]
    by (simp add: bookkeep_def add.assoc add.commute)
qed simp

lemma slot_inj:
  assumes "slot q i = slot q j" and "unat i < unat j" and "unat j - unat i < unat (ring_size q)"
  shows False
proof -
  from assms(1) have "unat i mod unat (ring_size q) = unat j mod unat (ring_size q)"
    by (simp add: slot_def unat_mod_u64 del: unat_ring_size)
  with assms(2) have "unat (ring_size q) dvd unat j - unat i"
    by (metis mod_eq_dvd_iff_nat order.strict_implies_order)
  with assms(2,3) show False by (auto dest: dvd_imp_le)
qed

text \<open>Consuming a packet does not touch the later packets of the window.\<close>

lemma window_cleared:
  assumes "unat c < unat i" and "unat i + n \<le> unat c + unat (ring_size q)" and "unat i + n < 2 ^ 64"
  shows "window q (cleared (slot q c) buf) i n = window q buf i n"
  using assms
proof (induction n arbitrary: i)
  case (Suc n)
  have "unat i - unat c < unat (ring_size q)" using Suc.prems(1,2) by linarith
  then have "slot q i \<noteq> slot q c" using slot_inj [of q c i] Suc.prems(1) by metis
  moreover have "unat (i + 1) = Suc (unat i)" using Suc.prems by (simp add: unat_word_ariths)
  ultimately show ?case using Suc by simp
qed simp

section \<open>The refinement\<close>

definition refined ::
  "addr \<Rightarrow> u64 \<Rightarrow> UserModeQueue \<Rightarrow> AQLPacket list \<Rightarrow> (addr \<rightharpoonup> UserModeQueue) \<Rightarrow> (addr \<rightharpoonup> AQLPacket list) \<Rightarrow>
   nat \<times> 'm agent_state_scheme \<Rightarrow> 'm agent_state_scheme" where
  "refined Q i q buf M B r = with_rings (M(Q \<mapsto> consumed_queue (fst r) i q))
     (B(base_address (HSAQueue q) \<mapsto> consumed_buffer (fst r) i q buf)) (snd r)"

lemma packet_loop_refines:
  assumes "ring_of Q (with_rings M B t) q buf" and "same_callback Q (Queues t) M"
    and "n = unat cwi - unat i" and "unat cwi \<le> Suc (unat L)" and "n \<le> unat (ring_size q)"
    and "\<And>P. P \<in> snd ` set (window q buf i n) \<Longrightarrow> packet_type P \<noteq> HSA_PACKET_TYPE_INVALID"
  shows "packet_loop code gr Q (ring_size q) L cwi i i (with_rings M B t) =
    map_sum id (refined Q i q buf M B) (run_packets code gr Q (window q buf i n) t)"
  using assms
proof (induction n arbitrary: i M B t q buf)
  case 0
  then have "M Q = Some q" "B (base_address (HSAQueue q)) = Some buf"
    and "ring_size q \<noteq> 0" "cwi \<le> i"
    using ring_slot_less(3) [OF "0.prems"(1)] by (auto simp: ring_of_def word_le_nat_alt)
  then have "packet_loop code gr Q (ring_size q) L cwi i i (with_rings M B t) = Inr (with_rings M B t)"
    and "refined Q i q buf M B (0, t) = with_rings M B t"
    by (auto simp: packet_loop_stop refined_def fun_upd_idem)
  then show ?case by simp
next
  case (Suc n)
  note ring = Suc.prems(1)
  have MQ: "M Q = Some q" "Q \<noteq> nullptr" using ring by (auto simp: ring_of_def)
  have lt: "i < cwi" using Suc.prems(3) by (simp add: word_less_nat_alt)
  have ui: "unat (i + 1) = Suc (unat i)" using lt by (simp add: unat_Suc_less)
  have n: "n = unat cwi - unat (i + 1)" and bound: "unat (i + 1) + n < 2 ^ 64"
    using Suc.prems(3) unat_u64_lt [of cwi] by (auto simp: ui)
  have go: "\<not> L < i" "ring_size q \<noteq> 0" "\<not> cwi \<le> i"
    using lt Suc.prems(4) ring_slot_less(3) [OF ring] by (auto simp: word_less_nat_alt word_le_nat_alt)
  let ?P = "buf ! slot q i" and ?q1 = "bookkeep (slot q i) i i q" and ?buf1 = "cleared (slot q i) buf"
  let ?M1 = "M(Q \<mapsto> ?q1)" and ?B1 = "B(base_address (HSAQueue q) \<mapsto> ?buf1)"
  have published: "packet_type ?P \<noteq> HSA_PACKET_TYPE_INVALID" using Suc.prems(6) by simp
  have win: "window ?q1 ?buf1 (i + 1) n = window q buf (i + 1) n"
    using window_cleared [of i "i + 1" n q buf] Suc.prems(5) bound
    by (simp add: ui window_same_ring [of ?q1 q])
  have base1: "base_address (HSAQueue ?q1) = base_address (HSAQueue q)" "ring_size ?q1 = ring_size q"
    "CB ?q1 = CB q"
    using same_shape_fields [OF same_shape_mark(3)] by metis+
  have rest: "packet_loop code gr Q (ring_size q) L cwi (i + 1) (i + 1) (with_rings ?M1 ?B1 t2) =
      map_sum id (refined Q (i + 1) ?q1 ?buf1 ?M1 ?B1) (run_packets code gr Q (window q buf (i + 1) n) t2)"
    if "handling_frame t t2" for t2
  proof -
    have pos: "0 < length (norm_flags q)" using ring unfolding ring_of_def by (metis length_greater_0_conv)
    have ring1: "ring_of Q (with_rings ?M1 ?B1 t2) ?q1 ?buf1"
      by (rule ring_of_shape [OF ring same_shape_mark(3)]) (use pos in simp_all)
    have cb1: "same_callback Q (Queues t2) ?M1"
      using Suc.prems(2) that MQ by (auto simp: same_callback_def handling_frame_def base1(3))
    have size1: "n \<le> unat (ring_size ?q1)" using Suc.prems(5) unfolding base1(2) by linarith
    have pub: "packet_type P \<noteq> HSA_PACKET_TYPE_INVALID"
      if "P \<in> snd ` set (window ?q1 ?buf1 (i + 1) n)" for P
      using that Suc.prems(6) unfolding win by simp
    from Suc.IH [OF ring1 cb1 n Suc.prems(4) size1 pub] show ?thesis by (simp only: win base1(2))
  qed
  have refine: "refined Q (i + 1) ?q1 ?buf1 ?M1 ?B1 (m, t3) = refined Q i q buf M B (Suc m, t3)" for m t3
    by (simp add: refined_def base1 consumed_buffer_same_ring [of ?q1 q])
  have "packet_loop code gr Q (ring_size q) L cwi i i (with_rings M B t) =
      and_then (handle_packet code gr Q ?P i (with_rings M B t)) (\<lambda>r. case r of
        Blocked \<Rightarrow> Inr (with_rings M B t)
      | Completed c s1 \<Rightarrow> and_then (finish_packet Q c (with_rings ?M1 ?B1 s1)) (\<lambda>s4.
          packet_loop code gr Q (ring_size q) L cwi (i + 1) (i + 1) s4))"
    unfolding packet_loop_step [OF go] packet_step_eq [OF ring slot_def] and_then_assoc
    using published by (auto simp: and_then_assoc with_rings_swap MQ
        intro!: and_then_cong split: packet_result.splits)
  also have "\<dots> = map_sum id (refined Q i q buf M B)
      (run_packets code gr Q (window q buf i (Suc n)) t)"
  proof (cases "handle_packet code gr Q ?P i t")
    case (Inl e)
    then show ?thesis by (simp add: handle_packet_rings [OF Suc.prems(2)])
  next
    case r: (Inr r)
    show ?thesis
    proof (cases r)
      case Blocked
      have "B (base_address (HSAQueue q)) = Some buf" using ring by (auto simp: ring_of_def)
      with MQ have "refined Q i q buf M B (0, t) = with_rings M B t"
        by (simp add: refined_def fun_upd_idem)
      with r Blocked show ?thesis by (simp add: handle_packet_rings [OF Suc.prems(2)])
    next
      case (Completed c t1)
      note f1 = handle_packet_frame [OF r [unfolded Completed]]
      show ?thesis
      proof (cases "finish_packet Q c t1")
        case (Inl e)
        with r Completed show ?thesis by (simp add: handle_packet_rings [OF Suc.prems(2)] finish_packet_rings)
      next
        case (Inr t2)
        have "handling_frame t t2" by (rule handling_frame_trans [OF f1 finish_packet_frame [OF Inr]])
        from rest [OF this] Inr r Completed show ?thesis
          by (cases "run_packets code gr Q (window q buf (i + 1) n) t2")
            (auto simp: handle_packet_rings [OF Suc.prems(2)] finish_packet_rings refine)
      qed
    qed
  qed
  finally show ?case .
qed

end
