(* ===== verification/Agent_Service.thy ===== *)
theory Agent_Service
  imports Packet_Order
begin

text \<open>
  Properties of a queue's turn in \<open>CPUKernelAgent::Execute\<close>: the order in which its packets are
  carried out, the read index, barriers, and the memory and events of a kernel dispatch.
\<close>

section \<open>A queue's turn\<close>

definition queue_active :: "UserModeQueue \<Rightarrow> bool" where
  "queue_active q \<longleftrightarrow> \<not> Inactivated q \<and> \<not> Destroyed q"

definition rung :: "i64 \<Rightarrow> UserModeQueue \<Rightarrow> bool" where
  "rung v q \<longleftrightarrow> v \<noteq> i64_max \<and> v \<noteq> LastHandledDoorBell q"

definition last_index :: "i64 \<Rightarrow> UserModeQueue \<Rightarrow> u64" where
  "last_index v q = read_index (HSAQueue q) +
     scast (PacketsToCheck (queue_type (HSAQueue q)) v (read_index (HSAQueue q)) (ring_size q))"

lemma service_queue_eq:
  assumes "Q \<noteq> nullptr" and "Queues s Q = Some q" and "queue_active q"
    and "hsa_signal_load_acquire s (doorbell_signal (HSAQueue q)) = Inr v"
  shows "service_queue code gr Q s =
    (if rung v q
     then packet_loop code gr Q (ring_size q) (last_index v q) (write_index (HSAQueue q))
       (read_index (HSAQueue q)) (read_index (HSAQueue q))
       (with_rings ((Queues s)(Q \<mapsto> setLastHandledDoorBell v q)) (Buffers s) s)
     else Inr s)"
  using assms
  by (simp add: service_queue_def deref_Some queue_active_def isInactivated_def isDestroyed_def
      rung_def getLastHandledDoorBell_def update_queue_def UserModeQueue_loadReadIndex_def
      UserModeQueue_loadWriteIndex_def Atomic_Load_def setLastHandledDoorBell_def last_index_def
      ring_size_def with_rings_def Let_def)

lemma setLastHandledDoorBell_simps [simp]:
  "HSAQueue (setLastHandledDoorBell v q) = HSAQueue q" "CB (setLastHandledDoorBell v q) = CB q"
  "norm_flags (setLastHandledDoorBell v q) = norm_flags q"
  "ring_size (setLastHandledDoorBell v q) = ring_size q"
  "slot (setLastHandledDoorBell v q) i = slot q i"
  "LastHandledDoorBell (setLastHandledDoorBell v q) = v"
  "Inactivated (setLastHandledDoorBell v q) = Inactivated q"
  "Destroyed (setLastHandledDoorBell v q) = Destroyed q"
  by (simp_all add: setLastHandledDoorBell_def norm_flags_def ring_size_def slot_def)

lemma ring_of_handled:
  "ring_of Q s q buf \<Longrightarrow>
     ring_of Q (with_rings ((Queues s)(Q \<mapsto> setLastHandledDoorBell v q)) (Buffers s) s)
       (setLastHandledDoorBell v q) buf"
  by (simp add: ring_of_def)

lemma scast_small:
  fixes w :: "32 word"
  assumes "unat w < 2 ^ 31"
  shows "(scast w :: 64 word) = ucast w"
proof -
  have "int (unat w) < int (2 ^ 31)" using assms by (simp only: of_nat_less_iff)
  then have u: "uint w < 2 ^ 31" by (simp only: uint_nat of_nat_power of_nat_numeral)
  have "- (2 ^ 31) \<le> uint w" by (rule order.trans [of _ 0]) simp_all
  from signed_take_bit_int_eq_self [OF this u] have "sint w = uint w" by (simp add: sint_uint)
  then show ?thesis by (simp only: scast_eq ucast_eq)
qed

lemma ucast_up_down: "(ucast (ucast (w :: u32) :: u64) :: u32) = w"
  by (rule bit_word_eqI) (simp add: bit_simps)

text \<open>The last index covers the published window in the two kinds of queues.\<close>

lemma last_index_multi:
  assumes "queue_type (HSAQueue q) \<noteq> HSA_QUEUE_TYPE_SINGLE" and "unat (ring_size q) < 2 ^ 31"
  shows "last_index v q = read_index (HSAQueue q) + ring_size q"
proof -
  have "unat (queue_size (HSAQueue q)) < 2 ^ 31" using assms(2) by simp
  from scast_small [OF this] show ?thesis
    using assms(1) by (simp add: last_index_def PacketsToCheck_def ring_size_def ucast_up_down)
qed

lemma last_index_single:
  assumes "queue_type (HSAQueue q) = HSA_QUEUE_TYPE_SINGLE" and "unat (v - read_index (HSAQueue q)) < 2 ^ 31"
  shows "last_index v q = v"
proof -
  let ?d = "v - read_index (HSAQueue q)"
  have eq: "unat (ucast ?d :: u32) = unat ?d" using assms(2)
    by (simp add: unsigned_ucast_eq unsigned_take_bit_eq take_bit_nat_eq_self)
  then have "(scast (ucast ?d :: u32) :: u64) = ucast (ucast ?d :: u32)"
    using assms(2) by (intro scast_small) simp
  moreover have "(ucast (ucast ?d :: u32) :: u64) = ?d"
    using assms(2) eq
    by (simp add: word_unat_eq_iff unsigned_ucast_eq unsigned_take_bit_eq take_bit_nat_eq_self)
  ultimately show ?thesis using assms(1) by (simp add: last_index_def PacketsToCheck_def)
qed

text \<open>The whole window of published packets is in the reach of the loop.\<close>

definition in_reach :: "i64 \<Rightarrow> UserModeQueue \<Rightarrow> bool" where
  "in_reach v q \<longleftrightarrow>
     (if queue_type (HSAQueue q) = HSA_QUEUE_TYPE_SINGLE
      then unat (write_index (HSAQueue q)) = Suc (unat v) \<and> read_index (HSAQueue q) \<le> v \<and>
           unat v - unat (read_index (HSAQueue q)) < 2 ^ 31
      else unat (read_index (HSAQueue q)) + unat (ring_size q) < 2 ^ 64)"

lemma in_reach_last:
  assumes "in_reach v q" and "unat (ring_size q) < 2 ^ 31"
    and "unat (write_index (HSAQueue q)) - unat (read_index (HSAQueue q)) \<le> unat (ring_size q)"
  shows "unat (write_index (HSAQueue q)) \<le> Suc (unat (last_index v q))"
proof (cases "queue_type (HSAQueue q) = HSA_QUEUE_TYPE_SINGLE")
  case True
  then have a: "unat (write_index (HSAQueue q)) = Suc (unat v)" "read_index (HSAQueue q) \<le> v"
    "unat v - unat (read_index (HSAQueue q)) < 2 ^ 31"
    using assms(1) by (simp_all add: in_reach_def)
  then have "unat (v - read_index (HSAQueue q)) < 2 ^ 31" by (simp add: unat_sub)
  with True a show ?thesis by (simp add: last_index_single)
next
  case False
  with assms(1) have "unat (read_index (HSAQueue q)) + unat (ring_size q) < 2 ^ LENGTH(64)"
    by (simp add: in_reach_def)
  from unat_add_no_overflow [OF this] False assms(2,3) show ?thesis
    by (simp add: last_index_multi)
qed

definition published_window :: "UserModeQueue \<Rightarrow> AQLPacket list \<Rightarrow> (u64 \<times> AQLPacket) list" where
  "published_window q buf = window q buf (read_index (HSAQueue q))
     (unat (write_index (HSAQueue q)) - unat (read_index (HSAQueue q)))"

definition queue_loaded ::
  "addr \<Rightarrow> 'm queue_state_scheme \<Rightarrow> UserModeQueue \<Rightarrow> AQLPacket list \<Rightarrow> i64 \<Rightarrow> bool" where
  "queue_loaded Q s q buf v \<longleftrightarrow>
     ring_of Q s q buf \<and> queue_active q \<and> rung v q \<and> in_reach v q \<and>
     hsa_signal_load_acquire s (doorbell_signal (HSAQueue q)) = Inr v \<and>
     unat (write_index (HSAQueue q)) - unat (read_index (HSAQueue q)) \<le> unat (ring_size q) \<and>
     (\<forall>(i, P) \<in> set (published_window q buf). packet_type P \<noteq> HSA_PACKET_TYPE_INVALID)"

lemma window_setLast [simp]: "window (setLastHandledDoorBell v q) buf i n = window q buf i n"
  by (rule window_same_ring) simp

lemma service_queue_refines:
  assumes "queue_loaded Q s q buf v"
  shows "service_queue code gr Q s =
    map_sum id (refined Q (read_index (HSAQueue q)) (setLastHandledDoorBell v q) buf
        ((Queues s)(Q \<mapsto> setLastHandledDoorBell v q)) (Buffers s))
      (run_packets code gr Q (published_window q buf) s)"
proof -
  have ring: "ring_of Q s q buf" and pub: "\<forall>(i, P) \<in> set (published_window q buf). packet_type P \<noteq> HSA_PACKET_TYPE_INVALID"
    and n: "unat (write_index (HSAQueue q)) - unat (read_index (HSAQueue q)) \<le> unat (ring_size q)"
    using assms by (auto simp: queue_loaded_def)
  then have Q: "Q \<noteq> nullptr" "Queues s Q = Some q" "unat (ring_size q) < 2 ^ 31"
    by (auto simp: ring_of_def)
  have reach: "unat (write_index (HSAQueue q)) \<le> Suc (unat (last_index v q))"
    using assms Q(3) n by (intro in_reach_last) (simp_all add: queue_loaded_def)
  have pub': "packet_type P \<noteq> HSA_PACKET_TYPE_INVALID"
    if "P \<in> snd ` set (window (setLastHandledDoorBell v q) buf (read_index (HSAQueue q))
        (unat (write_index (HSAQueue q)) - unat (read_index (HSAQueue q))))" for P
    using that pub by (auto simp: published_window_def)
  have "same_callback Q (Queues s) ((Queues s)(Q \<mapsto> setLastHandledDoorBell v q))"
    using Q by (simp add: same_callback_def)
  from packet_loop_refines [OF ring_of_handled [OF ring] this refl reach _ pub', where code = code and gr = gr] n
  have "packet_loop code gr Q (ring_size q) (last_index v q) (write_index (HSAQueue q))
       (read_index (HSAQueue q)) (read_index (HSAQueue q))
       (with_rings ((Queues s)(Q \<mapsto> setLastHandledDoorBell v q)) (Buffers s) s) =
    map_sum id (refined Q (read_index (HSAQueue q)) (setLastHandledDoorBell v q) buf
        ((Queues s)(Q \<mapsto> setLastHandledDoorBell v q)) (Buffers s))
      (run_packets code gr Q (published_window q buf) s)"
    by (simp add: published_window_def)
  moreover have "service_queue code gr Q s =
      packet_loop code gr Q (ring_size q) (last_index v q) (write_index (HSAQueue q))
       (read_index (HSAQueue q)) (read_index (HSAQueue q))
       (with_rings ((Queues s)(Q \<mapsto> setLastHandledDoorBell v q)) (Buffers s) s)"
    using assms Q by (simp add: service_queue_eq queue_loaded_def)
  ultimately show ?thesis by simp
qed

lemma service_queue_ring:
  assumes "service_queue code gr Q s = Inr s'" and "ring_of Q s q buf" and "queue_active q"
    and "hsa_signal_load_acquire s (doorbell_signal (HSAQueue q)) = Inr v"
    and "read_index (HSAQueue q) \<le> write_index (HSAQueue q)"
  shows "\<exists>q' buf'. ring_of Q s' q' buf' \<and>
    ring_progress (read_index (HSAQueue q)) (write_index (HSAQueue q))
      (if rung v q then setLastHandledDoorBell v q else q) buf q' buf'"
proof -
  have Q: "Q \<noteq> nullptr" "Queues s Q = Some q" using assms(2) by (auto simp: ring_of_def)
  show ?thesis
  proof (cases "rung v q")
    case True
    with assms(1) Q assms(3,4) have
      "packet_loop code gr Q (ring_size (setLastHandledDoorBell v q)) (last_index v q) (write_index (HSAQueue q))
       (read_index (HSAQueue q)) (read_index (HSAQueue q))
       (with_rings ((Queues s)(Q \<mapsto> setLastHandledDoorBell v q)) (Buffers s) s) = Inr s'"
      by (simp add: service_queue_eq)
    from packet_loop_ring [OF this ring_of_handled [OF assms(2)]] assms(5) True
    show ?thesis by simp
  next
    case False
    with assms Q have "s' = s" by (simp add: service_queue_eq)
    with False assms show ?thesis
      by (intro exI [of _ q] exI [of _ buf]) (simp add: ring_progress_refl)
  qed
qed

end
