(* ===== verification/Agent_Dispatch.thy ===== *)
theory Agent_Dispatch
  imports Packet_Frames
begin

text \<open>
  Kernel dispatch packets and barriers: the checks on a packet, the event a dispatch leaves behind,
  the group memory it borrows, and the conditions of the barrier packets.
\<close>

section \<open>The number of dimensions\<close>

text \<open>
  The reference: the two low bits of \<open>setup\<close> give one to three dimensions, and the sizes in the
  dimensions that are not used are 1.
\<close>

definition dimensions_ok :: "hsa_kernel_dispatch_packet_t \<Rightarrow> bool" where
  "dimensions_ok P =
     (let d = unat (kd_setup P) mod 4
      in 1 \<le> d \<and> (d < 2 \<longrightarrow> kd_grid_size_y P = 1 \<and> kd_workgroup_size_y P = 1) \<and>
         (d < 3 \<longrightarrow> kd_grid_size_z P = 1 \<and> kd_workgroup_size_z P = 1))"

lemma packet_dimensions_unat: "unat (packet_dimensions P) = unat (kd_setup P) mod 4"
proof -
  have "packet_dimensions P = take_bit 2 (ucast (kd_setup P))"
    by (simp add: packet_dimensions_def HSA_KERNEL_DISPATCH_PACKET_SETUP_DIMENSIONS_def
        HSA_KERNEL_DISPATCH_PACKET_SETUP_WIDTH_DIMENSIONS_def take_bit_eq_mask mask_eq_exp_minus_1
        and.commute)
  then have "unat (packet_dimensions P) = take_bit 2 (unat (ucast (kd_setup P) :: u32))"
    by (simp only: unsigned_take_bit_eq)
  also have "unat (ucast (kd_setup P) :: u32) = unat (kd_setup P)"
    using unsigned_less [of "kd_setup P", where ?'a = nat]
    by (simp add: unsigned_ucast_eq take_bit_nat_eq_self)
  finally show ?thesis by (simp add: take_bit_eq_mod)
qed

lemma AreDimensionsvalid_eq: "AreDimensionsvalid P = dimensions_ok P"
proof -
  have *: "packet_dimensions P = of_nat n \<longleftrightarrow> unat (kd_setup P) mod 4 = n" if "n < 4" for n
  proof -
    have "packet_dimensions P = of_nat n \<longleftrightarrow> unat (packet_dimensions P) = unat (of_nat n :: u32)"
      by (simp add: word_unat_eq_iff)
    also have "unat (of_nat n :: u32) = n" using that by (simp add: unat_of_nat)
    finally show ?thesis by (simp add: packet_dimensions_unat)
  qed
  from * [of 1] * [of 2] * [of 3] have
    "packet_dimensions P = 1 \<longleftrightarrow> unat (kd_setup P) mod 4 = 1"
    "packet_dimensions P = 2 \<longleftrightarrow> unat (kd_setup P) mod 4 = 2"
    "packet_dimensions P = 3 \<longleftrightarrow> unat (kd_setup P) mod 4 = 3" by simp_all
  moreover have "unat (kd_setup P) mod 4 < 4" by simp
  ultimately show ?thesis
    by (auto simp: AreDimensionsvalid_def dimensions_ok_def Let_def)
qed

text \<open>In the branch of the dispatch packets the packet type is valid.\<close>

lemma packet_type_unat: "unat (packet_type P) = unat (packet_header P) mod 256"
proof -
  have "packet_type P = take_bit 8 (packet_header P)"
    by (simp add: packet_type_def HSA_PACKET_HEADER_TYPE_def take_bit_eq_mask mask_eq_exp_minus_1)
  then have "unat (packet_type P) = take_bit 8 (unat (packet_header P))"
    by (simp only: unsigned_take_bit_eq)
  then show ?thesis by (simp add: take_bit_eq_mod)
qed

lemma kd_header_KernelDispatch [simp]: "kd_header (KernelDispatch P) = packet_header P"
  by (simp add: KernelDispatch_def packet_header_def)

lemma kernel_dispatch_type_valid:
  assumes "packet_type P = HSA_PACKET_TYPE_KERNEL_DISPATCH"
  shows "IsPacketTypeValid (kd_header (KernelDispatch P))"
proof -
  have "unat (packet_type P) = 2" using assms by (simp add: packet_type_defs)
  then have "unat (packet_header P) mod 256 = 2" by (simp add: packet_type_unat)
  then have "unat (ucast (packet_header P) :: u8) = 2"
    by (simp add: unsigned_ucast_eq take_bit_eq_mod)
  then show ?thesis
    by (simp add: IsPacketTypeValid_def HSA_PACKET_HEADER_TYPE_def packet_type_defs)
qed

section \<open>What a dispatch leaves behind\<close>

text \<open>The client's callback gets this status, or none when the kernel is started.\<close>

definition dispatch_status :: "Kernel option \<Rightarrow> hsa_kernel_dispatch_packet_t \<Rightarrow> addr \<Rightarrow> hsa_status_t option" where
  "dispatch_status K P g =
     (if \<not> dimensions_ok P then Some HSA_STATUS_ERROR_INCOMPATIBLE_ARGUMENTS
      else if g = nullptr \<and> kd_group_segment_size P \<noteq> 0 then Some HSA_STATUS_ERROR_INVALID_ALLOCATION
      else if K = None \<or> kd_workgroup_size_x P = 0 \<or> kd_workgroup_size_y P = 0 \<or> kd_workgroup_size_z P = 0
      then Some HSA_STATUS_ERROR_INVALID_CODE_OBJECT
      else None)"

lemma host_malloc_Events: "host_malloc s = (p, s') \<Longrightarrow> Events s' = Events s \<and> SymbolRegistry s' = SymbolRegistry s \<and> SymbolObjects s' = SymbolObjects s"
  by (cases s rule: host_malloc_cases) auto

lemma posix_memalign_Events:
  "posix_memalign a n s = (r, s') \<Longrightarrow> Events s' = Events s \<and> SymbolRegistry s' = SymbolRegistry s \<and> SymbolObjects s' = SymbolObjects s"
  using host_malloc_Events [of s "fst (host_malloc s)" "snd (host_malloc s)"]
  by (auto simp: posix_memalign_def case_prod_unfold Let_def split: if_splits)

lemma set_allocations_Events [simp]:
  "Events (set_allocations rg R A s) = Events s" "SymbolRegistry (set_allocations rg R A s) = SymbolRegistry s"
  "SymbolObjects (set_allocations rg R A s) = SymbolObjects s"
  by (simp_all add: set_allocations_def)

lemma group_memory_Events:
  assumes "allocate_group_memory gr n s = Inr (g, s')"
  shows "Events s' = Events s \<and> SymbolRegistry s' = SymbolRegistry s \<and> SymbolObjects s' = SymbolObjects s"
proof (cases "n = 0")
  case True
  with assms show ?thesis by (simp add: allocate_group_memory_def)
next
  case False
  obtain q s1 where m: "posix_memalign 16 (ucast n) s = (q, s1)" by (cases "posix_memalign 16 (ucast n) s")
  with False assms posix_memalign_Events [OF m] show ?thesis
    by (cases q) (auto simp: allocate_group_memory_def CPUMemoryRegion_allocate_def outcome_simps)
qed

lemma free_group_memory_Events:
  "free_group_memory gr g s = Inr s' \<Longrightarrow> Events s' = Events s"
  by (auto simp: free_group_memory_def CPUMemoryRegion_free_def outcome_simps split: if_splits)

lemma group_memory_none: "allocate_group_memory gr 0 s = Inr (g, s') \<Longrightarrow> g = nullptr"
  by (simp add: allocate_group_memory_def)

lemma launch_kernel_Events:
  assumes "launch_kernel code K P i g s = Inr s'"
  shows "\<exists>a. Events s' = Events s @ [Kernel_Launch (Krn_Address K) \<lparr>dp = P, packet_id = i, kernarg_addr = a\<rparr> g] \<and>
    (kd_kernarg_address P mod ucast (KernargSegmentAlignment K) = 0 \<longrightarrow> a = kd_kernarg_address P)"
proof -
  obtain q s1 where m: "posix_memalign (ucast (KernargSegmentAlignment K)) (ucast (KernargSegmentSize K)) s = (q, s1)"
    by fastforce
  from assms m posix_memalign_Events [OF m] show ?thesis
    by (cases q) (auto simp: launch_kernel_def call_kernel_def Let_def case_prod_beta split: if_splits)
qed

lemma find_kernel_Events: "find_kernel s h = Inr (K, s') \<Longrightarrow> Events s' = Events s"
  by (auto simp: find_kernel_def outcome_simps case_prod_beta Let_def split: if_splits)

text \<open>The kernel that a handle names, if it names one.\<close>

definition named_kernel :: "'m agent_state_scheme \<Rightarrow> u64 \<Rightarrow> Kernel option" where
  "named_kernel s handle =
     (let p = fromHSAObject (SymbolRegistry s) handle
      in if p = nullptr then None else Option.bind (SymbolObjects s p) as_kernel)"

lemma find_kernel_named: "find_kernel s h = Inr (K, s') \<Longrightarrow> K = named_kernel s h"
  by (auto simp: find_kernel_def named_kernel_def fromHandle_def fromHSAObject_def outcome_simps Let_def
      split: if_splits option.splits)

lemma dispatch_kernel_event:
  assumes "dispatch_kernel code gr Q P i s = Inr s'" and "Queues s Q = Some q" "Q \<noteq> nullptr"
    and "IsPacketTypeValid (kd_header P)"
    and "named_kernel s (kd_kernel_object P) = K"
  shows "\<exists>g a. Events s' = Events s @
    (case dispatch_status K P g of
       None \<Rightarrow> [Kernel_Launch (Krn_Address (the K)) \<lparr>dp = P, packet_id = i, kernarg_addr = a\<rparr> g]
     | Some st \<Rightarrow> if CB q = nullptr then [] else [Queue_Callback (CB q) st Q]) \<and>
    (kd_group_segment_size P = 0 \<longrightarrow> g = nullptr) \<and>
    (kd_kernarg_address P mod ucast (KernargSegmentAlignment (the K)) = 0 \<longrightarrow> a = kd_kernarg_address P)"
proof -
  from assms(1) obtain g s1 K' s2 s3 where steps0:
    "allocate_group_memory gr (kd_group_segment_size P) s = Inr (g, s1)"
    "find_kernel s1 (kd_kernel_object P) = Inr (K', s2)"
    "launch_or_report code Q P i g K' s2 = Inr s3" "free_group_memory gr g s3 = Inr s'"
    by (auto simp: dispatch_kernel_def outcome_simps)
  have "K' = named_kernel s1 (kd_kernel_object P)" using steps0(2) by (rule find_kernel_named)
  then have "K' = K" using group_memory_Events [OF steps0(1)] assms(5)
    by (simp add: named_kernel_def Let_def cong: if_cong)
  note steps = steps0 [unfolded this]
  have g0: "kd_group_segment_size P = 0 \<longrightarrow> g = nullptr"
    using steps(1) group_memory_none by auto
  have ev: "Events s2 = Events s" "Events s' = Events s3"
    using group_memory_Events [OF steps(1)] find_kernel_Events [OF steps(2)]
      free_group_memory_Events [OF steps(4)] by simp_all
  have "handling_frame s s2"
    using handling_frame_trans [OF group_memory_frame(1) [OF steps(1)] find_kernel_frame [OF steps(2)]] .
  then have q: "deref (Queues s2) Q = Inr q"
    using assms(2,3) by (simp add: handling_frame_def deref_Some)
  show ?thesis
  proof (cases "dispatch_status K P g")
    case None
    then have "launch_kernel code (the K) P i g s2 = Inr s3"
      using steps(3) assms(4)
      by (auto simp: launch_or_report_def Let_def AreDimensionsvalid_eq dispatch_status_def split: if_splits)
    then obtain a where "Events s3 = Events s2 @
        [Kernel_Launch (Krn_Address (the K)) \<lparr>dp = P, packet_id = i, kernarg_addr = a\<rparr> g]"
      "kd_kernarg_address P mod ucast (KernargSegmentAlignment (the K)) = 0 \<longrightarrow> a = kd_kernarg_address P"
      by (blast dest: launch_kernel_Events)
    with None ev g0 show ?thesis by (intro exI [of _ g] exI [of _ a]) simp
  next
    case (Some st)
    then have "ExecuteCallback s2 Q st = Inr s3"
      using steps(3) assms(4)
      by (auto simp: launch_or_report_def Let_def AreDimensionsvalid_eq dispatch_status_def split: if_splits)
    then have "Events s3 = Events s2 @ (if CB q = nullptr then [] else [Queue_Callback (CB q) st Q])"
      using q by (auto simp: ExecuteCallback_def)
    with Some ev g0 show ?thesis by (intro exI [of _ g] exI [of _ "kd_kernarg_address P"]) auto
  qed
qed

section \<open>Group memory\<close>

lemma CPURegions_call_kernel [simp]: "CPURegions (call_kernel code a l g s) = CPURegions s"
  by (simp add: call_kernel_def case_prod_beta Let_def)

lemma launch_kernel_regions:
  assumes "launch_kernel code K P i g s = Inr s'"
  shows "CPURegions s' = CPURegions s"
proof (cases rule: posix_memalign_cases [of "ucast (KernargSegmentAlignment K)" "ucast (KernargSegmentSize K)" s])
  case (fail s1)
  with assms show ?thesis by (auto simp: launch_kernel_def Let_def split: if_splits)
next
  case (success p ps)
  with assms show ?thesis by (auto simp: launch_kernel_def Let_def split: if_splits)
qed

lemma ExecuteCallback_regions: "ExecuteCallback s Q st = Inr s' \<Longrightarrow> CPURegions s' = CPURegions s"
  by (auto simp: ExecuteCallback_def outcome_simps)

lemma report_regions:
  "launch_or_report code Q P i g K s = Inr s' \<Longrightarrow> CPURegions s' = CPURegions s"
  by (auto simp: launch_or_report_def Let_def dest: launch_kernel_regions ExecuteCallback_regions
      split: if_splits)

lemma find_kernel_regions: "find_kernel s h = Inr (K', s') \<Longrightarrow> CPURegions s' = CPURegions s"
  by (auto simp: find_kernel_def outcome_simps Let_def case_prod_beta split: if_splits)

lemma cpu_live_same_regions: "CPURegions s' = CPURegions s \<Longrightarrow> cpu_live r s' = cpu_live r s"
  and cpu_ok_same_regions: "CPURegions s' = CPURegions s \<Longrightarrow> cpu_ok r s' = cpu_ok r s"
  by (simp_all add: cpu_live_def cpu_ok_def)

lemma dispatch_kernel_live:
  assumes "dispatch_kernel code gr Q P i s = Inr s'"
    and "kd_group_segment_size P \<noteq> 0 \<longrightarrow>
      cpu_ok gr s \<and> cpu_request gr s (ucast (kd_group_segment_size P)) 16"
  shows "cpu_live gr s' = cpu_live gr s"
proof -
  from assms(1) obtain g s1 K s2 s3 where steps:
    "allocate_group_memory gr (kd_group_segment_size P) s = Inr (g, s1)"
    "find_kernel s1 (kd_kernel_object P) = Inr (K, s2)"
    "launch_or_report code Q P i g K s2 = Inr s3" "free_group_memory gr g s3 = Inr s'"
    by (auto simp: dispatch_kernel_def outcome_simps)
  have same: "CPURegions s3 = CPURegions s1" using find_kernel_regions [OF steps(2)] report_regions [OF steps(3)] by simp
  note live = cpu_live_same_regions [OF same, of gr] and ok_same = cpu_ok_same_regions [OF same, of gr]
  show ?thesis
  proof (cases "kd_group_segment_size P = 0")
    case True
    with steps have "g = nullptr" "s1 = s" by (auto simp: allocate_group_memory_def)
    with steps(4) live show ?thesis by (simp add: free_group_memory_def)
  next
    case False
    with steps(1) have a: "CPUMemoryRegion_allocate gr s (ucast (kd_group_segment_size P)) 16 = Inr (g, s1)"
      by (simp add: allocate_group_memory_def)
    from assms(2) False have ok: "cpu_ok gr s" and req: "cpu_request gr s (ucast (kd_group_segment_size P)) 16"
      by simp_all
    show ?thesis
    proof (cases "g = nullptr")
      case True
      with steps(4) cpu.alloc_live [OF ok req a] live show ?thesis
        by (simp add: free_group_memory_def)
    next
      case g: False
      with steps(4) obtain b where f: "CPUMemoryRegion_free gr s3 g = Inr (b, s')"
        by (auto simp: free_group_memory_def outcome_simps)
      have "cpu_ok gr s3" using cpu.alloc_ok [OF ok req a] ok_same by simp
      from cpu.release_live [OF this f] show ?thesis
        using cpu.alloc_live [OF ok req a] cpu.alloc_fresh [OF ok req a] g live by simp
    qed
  qed
qed

section \<open>Barriers\<close>

text \<open>The handles that are not null belong to registered signals.\<close>

definition deps_known :: "'m signal_state_scheme \<Rightarrow> u64 list \<Rightarrow> bool" where
  "deps_known s deps \<longleftrightarrow>
     (\<forall>d \<in> set deps. d \<noteq> 0 \<longrightarrow> fromHSAObject (SignalRegistry s) d \<noteq> nullptr)"

definition handle_value :: "'m signal_state_scheme \<Rightarrow> u64 \<Rightarrow> i64" where
  "handle_value s h = signal_value (fromHSAObject (SignalRegistry s) h) s"

lemma load_acquire_known:
  assumes "signals_inv s" and "Instance s \<noteq> nullptr" and "fromHSAObject (SignalRegistry s) d \<noteq> nullptr"
  shows "hsa_signal_load_acquire s d = Inr (handle_value s d)"
  unfolding hsa_signal_load_acquire_def handle_value_def
  using signal_usable_registered [OF assms] by (intro gcc.load) simp_all

lemma BarrierAnd_condition_eq:
  assumes "signals_inv s" and "Instance s \<noteq> nullptr" and "deps_known s deps"
  shows "BarrierAnd_condition s deps = Inr (\<forall>d \<in> set deps. d \<noteq> 0 \<longrightarrow> handle_value s d = 0)"
  using assms(3)
proof (induction deps)
  case (Cons d deps)
  with assms(1,2) show ?case by (auto simp: deps_known_def load_acquire_known)
qed simp

lemma BarrierOr_condition_eq:
  assumes "signals_inv s" and "Instance s \<noteq> nullptr" and "deps_known s deps"
  shows "BarrierOr_condition s deps = Inr (\<exists>d \<in> set deps. d \<noteq> 0 \<and> handle_value s d = 0)"
  using assms(3)
proof (induction deps)
  case (Cons d deps)
  with assms(1,2) show ?case by (auto simp: deps_known_def load_acquire_known)
qed simp

end
