(* ===== verification/Agent_Claims.thy ===== *)
theory Agent_Claims
  imports Agent_Service Agent_Dispatch
begin

text \<open>
  The properties of the kernel agent, each with a witness on a small concrete process: one queue of
  four packets, a doorbell, a dependency and a completion signal, and one kernel.
\<close>

section \<open>A concrete process\<close>

definition demo_kernel :: Kernel where
  "demo_kernel = \<lparr>Sym_Name = ''k'', Sym_Type = HSA_SYMBOL_KIND_KERNEL, Sym_ModuleName = ''m'',
     Sym_Agent = 300, Sym_Linkage = HSA_SYMBOL_LINKAGE_PROGRAM, Sym_IsDefinition = True,
     Krn_Object = 600, Krn_Address = 9000, KernargSegmentSize = 16, KernargSegmentAlignment = 16,
     GroupSegmentSize = 0, PrivateSegmentSize = 0, DynamicCallStack = False, ImplementationData = 0\<rparr>"

definition demo_dispatch :: AQLPacket where
  "demo_dispatch = make_kernel_dispatch
     \<lparr>kd_header = HSA_PACKET_TYPE_KERNEL_DISPATCH, kd_setup = 1, kd_workgroup_size_x = 4,
      kd_workgroup_size_y = 1, kd_workgroup_size_z = 1, kd_grid_size_x = 64, kd_grid_size_y = 1,
      kd_grid_size_z = 1, kd_private_segment_size = 0, kd_group_segment_size = 32,
      kd_kernel_object = 600, kd_kernarg_address = 64, kd_completion_signal = 544\<rparr>"

definition demo_barrier :: AQLPacket where
  "demo_barrier = \<lparr>quad0 = 3, quad1 = 528, quad2 = 0, quad3 = 0, quad4 = 0, quad5 = 0, quad6 = 0, quad7 = 544\<rparr>"

definition demo_queue :: UserModeQueue where
  "demo_queue = \<lparr>HSAQueue = \<lparr>queue_type = HSA_QUEUE_TYPE_MULTI, queue_features = 1, base_address = 2048,
       doorbell_signal = 512, queue_size = 4, queue_reserved1 = 0, queue_id = 256, read_index = 0,
       write_index = 1\<rparr>,
     QueueOwner = 300, Destroyed = False, Inactivated = False, PacketIsProcessed = [],
     LastHandledDoorBell = i64_max, Region = 16, CB = 0, IsDoorbellOwned = True\<rparr>"

definition demo_state :: "AQLPacket \<Rightarrow> agent_state" where
  "demo_state P = \<lparr>ReferenceCounter = 1, Instance = 8, HostHeap = [8192],
     RegionRegistry = [(16, 16), (24, 24)],
     CPURegions = [16 \<mapsto> \<lparr>CPURegionSegment = HSA_REGION_SEGMENT_GLOBAL, CPUAllocations = {512, 528, 544, 2048}\<rparr>,
       24 \<mapsto> \<lparr>CPURegionSegment = HSA_REGION_SEGMENT_GROUP, CPUAllocations = {}\<rparr>],
     MemoryRegions = [16, 24],
     SignalRegistry = [(512, 520), (528, 536), (544, 552)],
     Signals = [520 \<mapsto> \<lparr>CurrentValue = 512, SignalMemory = 16\<rparr>, 536 \<mapsto> \<lparr>CurrentValue = 528, SignalMemory = 16\<rparr>,
       552 \<mapsto> \<lparr>CurrentValue = 544, SignalMemory = 16\<rparr>],
     SignalValues = [512 \<mapsto> 0, 528 \<mapsto> 1, 544 \<mapsto> 1],
     QueueRegistry = [(256, 256)], Queues = [256 \<mapsto> demo_queue],
     Buffers = [2048 \<mapsto> [P, invalid_packet, invalid_packet, invalid_packet]],
     SymbolRegistry = [(600, 600)], SymbolObjects = [600 \<mapsto> Kernel_object demo_kernel],
     Memory = (\<lambda>a. 0), AgentRegistry = [(300, 300)],
     KernelAgents = [300 \<mapsto> \<lparr>AgentQueues = [256], AgentRegions = [16, 24], KernargRegion = 0, UMQRegion = 0,
       GroupMemoryRegion = 24, QueueRegion = 16, AgentISA = ''host-isa'', RunningQueue = 0,
       InterruptingTheQueue = False\<rparr>],
     RtAgents = [300], ShutDown = False, Events = []\<rparr>"

definition demo_buffer :: "AQLPacket \<Rightarrow> AQLPacket list" where
  "demo_buffer P = [P, invalid_packet, invalid_packet, invalid_packet]"

definition demo_code :: kernel_code where
  "demo_code = (\<lambda>address launch group values memory. (\<lambda>c. case values c of Some v \<Rightarrow> v | None \<Rightarrow> 0, memory))"

lemma demo_types [simp]:
  "packet_type demo_dispatch = HSA_PACKET_TYPE_KERNEL_DISPATCH"
  "packet_type demo_barrier = HSA_PACKET_TYPE_BARRIER_AND"
  by (simp_all add: packet_type_def packet_header_def demo_dispatch_def demo_barrier_def
      make_kernel_dispatch_def packet_type_defs half_at_def [of _ 3] HSA_PACKET_HEADER_TYPE_def)

lemma demo_ring: "ring_of 256 (demo_state P) demo_queue (demo_buffer P)"
  by (simp add: ring_of_def demo_state_def demo_queue_def demo_buffer_def norm_flags_def)

lemma demo_load:
  "hsa_signal_load_acquire (demo_state P) (doorbell_signal (HSAQueue demo_queue)) = Inr 0"
  by (simp add: hsa_signal_load_acquire_def GCCBuiltinSignal_load_def loadAcquire_def signal_cell_def
      deref_Some fromHSAObject_def demo_state_def demo_queue_def Runtime_memoryFence_def Runtime_get_def)

lemma demo_active [simp]: "queue_active demo_queue" "rung 0 demo_queue"
  "read_index (HSAQueue demo_queue) = 0" "write_index (HSAQueue demo_queue) = 1"
  "slot demo_queue 0 = 0" "demo_buffer P ! 0 = P" "last_index 0 demo_queue = 4"
  by (simp_all add: queue_active_def rung_def demo_queue_def i64_max_def slot_def demo_buffer_def
      last_index_def PacketsToCheck_def ring_size_def)

lemma demo_loaded:
  assumes "packet_type P \<noteq> HSA_PACKET_TYPE_INVALID"
  shows "queue_loaded 256 (demo_state P) demo_queue (demo_buffer P) 0"
    and "published_window demo_queue (demo_buffer P) = [(0, P)]"
proof -
  show win: "published_window demo_queue (demo_buffer P) = [(0, P)]"
    by (simp add: published_window_def)
  show "queue_loaded 256 (demo_state P) demo_queue (demo_buffer P) 0"
    using assms demo_ring demo_load
    by (simp add: queue_loaded_def win in_reach_def) (simp add: demo_queue_def)
qed

section \<open>A barrier at the head of the queue\<close>

lemma service_queue_blocked:
  assumes ring: "ring_of Q s q buf" and "queue_active q" and "rung v q"
    and "hsa_signal_load_acquire s (doorbell_signal (HSAQueue q)) = Inr v"
    and "read_index (HSAQueue q) < write_index (HSAQueue q)"
    and "read_index (HSAQueue q) \<le> last_index v q"
    and type: "packet_type (buf ! slot q (read_index (HSAQueue q))) = HSA_PACKET_TYPE_BARRIER_AND"
    and cond: "BarrierAnd_condition s (ba_dep_signal (BarrierAnd (buf ! slot q (read_index (HSAQueue q))))) = Inr False"
  shows "service_queue code gr Q s =
    Inr (with_rings ((Queues s)(Q \<mapsto> setLastHandledDoorBell v q)) (Buffers s) s)"
proof -
  let ?q = "setLastHandledDoorBell v q" and ?i = "read_index (HSAQueue q)"
  let ?s = "with_rings ((Queues s)(Q \<mapsto> ?q)) (Buffers s) s"
  have Q: "Q \<noteq> nullptr" "Queues s Q = Some q" using ring by (auto simp: ring_of_def)
  have ring': "ring_of Q ?s ?q buf" using ring by (rule ring_of_handled)
  have size: "ring_size q \<noteq> 0" using ring_slot_less(3) [OF ring] .
  have slot: "slot q ?i = unat (?i mod ring_size ?q)" by (simp add: slot_def)
  have "handle_packet code gr Q (buf ! slot q ?i) ?i ?s = Inr Blocked"
    using type cond by (simp add: handle_packet_def packet_type_defs)
  then have "packet_step code gr Q (ring_size ?q) ?i ?i ?s = Inr (True, ?i, ?s)"
    unfolding packet_step_eq [OF ring' slot] using type by (simp add: packet_type_defs)
  then show ?thesis
    using assms(2-6) Q size
    by (simp add: service_queue_eq packet_loop_step not_less not_le)
qed

lemma demo_condition: "BarrierAnd_condition (demo_state P) (ba_dep_signal (BarrierAnd demo_barrier)) = Inr False"
  by (simp add: BarrierAnd_def demo_barrier_def hsa_signal_load_acquire_def GCCBuiltinSignal_load_def
      loadAcquire_def signal_cell_def deref_Some fromHSAObject_def demo_state_def
      Runtime_memoryFence_def Runtime_get_def)

definition demo_blocked :: agent_state where
  "demo_blocked = with_rings ((Queues (demo_state demo_barrier))(256 \<mapsto> setLastHandledDoorBell 0 demo_queue))
     (Buffers (demo_state demo_barrier)) (demo_state demo_barrier)"

lemma demo_service_blocked: "service_queue demo_code 24 256 (demo_state demo_barrier) = Inr demo_blocked"
  unfolding demo_blocked_def
  by (rule service_queue_blocked [OF demo_ring demo_active(1,2) demo_load]) (simp_all add: demo_condition)

section \<open>The dispatch packet of the example\<close>

lemma demo_kd: "KernelDispatch demo_dispatch = \<lparr>kd_header = HSA_PACKET_TYPE_KERNEL_DISPATCH, kd_setup = 1, kd_workgroup_size_x = 4,
      kd_workgroup_size_y = 1, kd_workgroup_size_z = 1, kd_grid_size_x = 64, kd_grid_size_y = 1,
      kd_grid_size_z = 1, kd_private_segment_size = 0, kd_group_segment_size = 32,
      kd_kernel_object = 600, kd_kernarg_address = 64, kd_completion_signal = 544\<rparr>"
  unfolding demo_dispatch_def by (rule KernelDispatch_make)

lemma demo_valid: "AreDimensionsvalid (KernelDispatch demo_dispatch)" "IsPacketTypeValid (kd_header (KernelDispatch demo_dispatch))"
  by (simp add: AreDimensionsvalid_eq dimensions_ok_def demo_kd) (rule kernel_dispatch_type_valid, simp)

lemma demo_completion [simp]: "fromHSAObject (SignalRegistry (demo_state P)) 544 = 552"
  by (simp add: demo_state_def fromHSAObject_def)

lemma demo_alloc: "allocate_group_memory 24 32 (demo_state P) = Inr (8192, set_allocations 24 \<lparr>CPURegionSegment = HSA_REGION_SEGMENT_GROUP, CPUAllocations = {}\<rparr> {8192} ((demo_state P)\<lparr>HostHeap := []\<rparr>))"
  by (simp add: allocate_group_memory_def CPUMemoryRegion_allocate_def posix_memalign_def is_pow2_def host_malloc_def deref_Some demo_state_def)

lemma demo_handle: "\<exists>s'. handle_packet demo_code 24 256 demo_dispatch 0 (demo_state demo_dispatch) = Inr (Completed 552 s')"
proof -
  let ?s1 = "set_allocations 24 \<lparr>CPURegionSegment = HSA_REGION_SEGMENT_GROUP, CPUAllocations = {}\<rparr> {8192} ((demo_state demo_dispatch)\<lparr>HostHeap := []\<rparr>)"
  have f: "find_kernel ?s1 600 = Inr (Some demo_kernel, ?s1)"
    by (simp add: find_kernel_def fromHandle_def deref_Some demo_state_def set_allocations_def)
  have l: "launch_or_report demo_code 256 (KernelDispatch demo_dispatch) 0 8192 (Some demo_kernel) ?s1 =
     Inr (call_kernel demo_code 9000 \<lparr>dp = KernelDispatch demo_dispatch, packet_id = 0, kernarg_addr = 64\<rparr> 8192 ?s1)"
    using demo_valid by (simp add: launch_or_report_def launch_kernel_def demo_kd demo_kernel_def Let_def)
  have "\<exists>s'. free_group_memory 24 8192 (call_kernel demo_code 9000 \<lparr>dp = KernelDispatch demo_dispatch, packet_id = 0, kernarg_addr = 64\<rparr> 8192 ?s1) = Inr s'"
    by (simp add: free_group_memory_def CPUMemoryRegion_free_def deref_Some)
  with f l show ?thesis
    by (auto simp: handle_packet_def dispatch_kernel_def demo_kd demo_alloc packet_type_defs)
qed

lemma demo_step: "\<exists>s'. packet_step demo_code 24 256 (ring_size demo_queue) 0 0 (demo_state demo_dispatch) = Inr (False, 1, s')"
proof -
  obtain s1 where h: "handle_packet demo_code 24 256 demo_dispatch 0 (demo_state demo_dispatch) = Inr (Completed 552 s1)"
    using demo_handle by blast
  let ?s2 = "s1\<lparr>Buffers := (Buffers (demo_state demo_dispatch))(base_address (HSAQueue demo_queue) \<mapsto>
      cleared 0 (demo_buffer demo_dispatch)),
    Queues := (Queues (demo_state demo_dispatch))(256 \<mapsto> bookkeep 0 0 0 demo_queue)\<rparr>"
  have "Signals s1 = Signals (demo_state demo_dispatch)"
    "dom (SignalValues s1) = dom (SignalValues (demo_state demo_dispatch))"
    using handle_packet_frame [OF h] by (simp_all add: handling_frame_def)
  moreover from this have "\<exists>v. SignalValues s1 544 = Some v" by (auto simp: demo_state_def dom_def set_eq_iff)
  ultimately have "\<exists>s'. finish_packet 256 552 ?s2 = Inr s'"
    by (auto simp: finish_packet_def GCCBuiltinSignal_store_def storeRelaxed_def signal_cell_def deref_Some
        demo_state_def)
  then show ?thesis
    using h packet_step_eq [OF demo_ring, of 0 0 demo_code 24 0]
    by (auto simp: packet_type_defs)
qed

lemma demo_fits:
  "cpu_ok 24 (demo_state P)" "cpu_request 24 (demo_state P) 32 16"
  by (simp_all add: cpu_ok_def cpu_request_def cpu_live_def demo_state_def)

section \<open>Properties\<close>

text \<open>
  C3. When the packets between the read and the write index are all published, a queue's turn is the
  in-order execution of these packets: signals, memory and events are those of the executor that
  has no ring buffer, and the turn fails exactly when that executor fails. The read index has moved
  by the number of packets carried out and the buffer is the one with their slots cleared.
\<close>

theorem service_queue_in_order:
  assumes "queue_loaded Q s q buf v"
  shows "service_queue code gr Q s =
    map_sum id (refined Q (read_index (HSAQueue q)) (setLastHandledDoorBell v q) buf
        ((Queues s)(Q \<mapsto> setLastHandledDoorBell v q)) (Buffers s))
      (run_packets code gr Q (published_window q buf) s)"
  using assms by (rule service_queue_refines)

theorem service_queue_in_order_witness:
  "service_queue demo_code 24 256 (demo_state demo_barrier) =
     map_sum id (refined 256 0 (setLastHandledDoorBell 0 demo_queue) (demo_buffer demo_barrier)
        ((Queues (demo_state demo_barrier))(256 \<mapsto> setLastHandledDoorBell 0 demo_queue))
        (Buffers (demo_state demo_barrier)))
      (run_packets demo_code 24 256 [(0, demo_barrier)] (demo_state demo_barrier))"
  using service_queue_in_order [OF demo_loaded(1) [of demo_barrier], of demo_code 24]
    demo_loaded(2) [of demo_barrier]
  by (simp add: packet_type_defs)

text \<open>
  C4. Whatever the producers have written, a queue's turn that returns moves the read index only
  forwards, never past the write index it loaded, and only over slots that are INVALID; it changes
  a slot only by clearing a packet of the window, and it writes no other member of the queue than
  the read index, the flags and the last handled doorbell.
\<close>

theorem service_queue_read_index:
  assumes "service_queue code gr Q s = Inr s'" and "ring_of Q s q buf" and "queue_active q"
    and "hsa_signal_load_acquire s (doorbell_signal (HSAQueue q)) = Inr v"
    and "read_index (HSAQueue q) \<le> write_index (HSAQueue q)"
  shows "\<exists>q' buf'. ring_of Q s' q' buf' \<and>
    same_shape (if rung v q then setLastHandledDoorBell v q else q) q' \<and>
    read_index (HSAQueue q) \<le> read_index (HSAQueue q') \<and>
    read_index (HSAQueue q') \<le> write_index (HSAQueue q) \<and>
    (\<forall>j. read_index (HSAQueue q) \<le> j \<and> j < read_index (HSAQueue q') \<longrightarrow>
       packet_type (buf' ! slot q j) = HSA_PACKET_TYPE_INVALID) \<and>
    (\<forall>k. buf' ! k = buf ! k \<or> packet_type (buf' ! k) = HSA_PACKET_TYPE_INVALID \<and>
       (\<exists>j. read_index (HSAQueue q) \<le> j \<and> j < write_index (HSAQueue q) \<and> k = slot q j))"
proof -
  let ?q = "if rung v q then setLastHandledDoorBell v q else q"
  obtain q' buf' where ring: "ring_of Q s' q' buf'"
    and prog: "ring_progress (read_index (HSAQueue q)) (write_index (HSAQueue q)) ?q buf q' buf'"
    using service_queue_ring [OF assms] by blast
  have "HSAQueue ?q = HSAQueue q" "slot ?q = slot q" by auto
  with prog have "same_shape ?q q'" "read_index (HSAQueue q) \<le> read_index (HSAQueue q')"
    "read_index (HSAQueue q') \<le> write_index (HSAQueue q)"
    "\<forall>j. read_index (HSAQueue q) \<le> j \<and> j < read_index (HSAQueue q') \<longrightarrow>
       packet_type (buf' ! slot q j) = HSA_PACKET_TYPE_INVALID"
    "\<forall>k. buf' ! k = buf ! k \<or> packet_type (buf' ! k) = HSA_PACKET_TYPE_INVALID \<and>
       (\<exists>j. read_index (HSAQueue q) \<le> j \<and> j < write_index (HSAQueue q) \<and> k = slot q j)"
    unfolding ring_progress_def by auto
  with ring show ?thesis by blast
qed


theorem service_queue_read_index_witness:
  "\<exists>q' buf'. ring_of 256 demo_blocked q' buf' \<and> 0 \<le> read_index (HSAQueue q') \<and>
     read_index (HSAQueue q') \<le> 1"
proof -
  have "read_index (HSAQueue demo_queue) \<le> write_index (HSAQueue demo_queue)" by simp
  from service_queue_read_index [OF demo_service_blocked demo_ring demo_active(1) demo_load this]
  show ?thesis by auto
qed

text \<open>
  C13. A barrier-AND packet at the head of the queue whose dependencies are not satisfied blocks the
  queue: no packet is carried out. The doorbell value is recorded as handled all the same, so as
  long as the doorbell keeps that value the queue's later turns do nothing, even after every
  dependency has become 0: the barrier is not looked at again before someone rings the doorbell.
\<close>

theorem barrier_lost_wakeup:
  fixes s :: "'m agent_state_scheme"
  assumes "ring_of Q s q buf" and "queue_active q" and "rung v q"
    and "hsa_signal_load_acquire s (doorbell_signal (HSAQueue q)) = Inr v"
    and "read_index (HSAQueue q) < write_index (HSAQueue q)"
    and "read_index (HSAQueue q) \<le> last_index v q"
    and "packet_type (buf ! slot q (read_index (HSAQueue q))) = HSA_PACKET_TYPE_BARRIER_AND"
    and "BarrierAnd_condition s (ba_dep_signal (BarrierAnd (buf ! slot q (read_index (HSAQueue q))))) = Inr False"
  shows "\<exists>s1. service_queue code gr Q s = Inr s1 \<and> Buffers s1 = Buffers s \<and> Events s1 = Events s \<and>
    SignalValues s1 = SignalValues s \<and>
    (\<forall>s2 :: 'm agent_state_scheme. Queues s2 = Queues s1 \<and> hsa_signal_load_acquire s2 (doorbell_signal (HSAQueue q)) = Inr v \<longrightarrow>
       service_queue code gr Q s2 = Inr s2)"
proof -
  let ?s1 = "with_rings ((Queues s)(Q \<mapsto> setLastHandledDoorBell v q)) (Buffers s) s"
  have Q: "Q \<noteq> nullptr" using assms(1) by (simp add: ring_of_def)
  have "service_queue code gr Q s2 = Inr s2"
    if "Queues s2 = Queues ?s1" "hsa_signal_load_acquire s2 (doorbell_signal (HSAQueue q)) = Inr v"
    for s2 :: "'m agent_state_scheme"
    using that Q assms(2) service_queue_eq [of Q s2 "setLastHandledDoorBell v q" v code gr]
    by (simp add: queue_active_def rung_def)
  with service_queue_blocked [OF assms, of code gr] show ?thesis
    by (intro exI [of _ ?s1]) simp
qed

theorem barrier_lost_wakeup_witness:
  "\<exists>s1. service_queue demo_code 24 256 (demo_state demo_barrier) = Inr s1 \<and>
     service_queue demo_code 24 256 (set_cell 528 0 s1) = Inr (set_cell 528 0 s1)"
proof -
  have "read_index (HSAQueue demo_queue) \<le> last_index 0 demo_queue"
    "read_index (HSAQueue demo_queue) < write_index (HSAQueue demo_queue)" by simp_all
  note demo = this
  have "packet_type (demo_buffer demo_barrier ! slot demo_queue (read_index (HSAQueue demo_queue))) =
      HSA_PACKET_TYPE_BARRIER_AND"
    and "BarrierAnd_condition (demo_state demo_barrier)
      (ba_dep_signal (BarrierAnd (demo_buffer demo_barrier ! slot demo_queue (read_index (HSAQueue demo_queue))))) = Inr False"
    by (simp_all add: demo_condition)
  from barrier_lost_wakeup [OF demo_ring demo_active(1,2) demo_load demo(2,1) this, of demo_code 24]
  obtain s1 where s1: "service_queue demo_code 24 256 (demo_state demo_barrier) = Inr s1"
    and later: "\<And>s2 :: agent_state. Queues s2 = Queues s1 \<Longrightarrow>
        hsa_signal_load_acquire s2 (doorbell_signal (HSAQueue demo_queue)) = Inr 0 \<Longrightarrow>
        service_queue demo_code 24 256 s2 = Inr s2" by blast
  have "s1 = demo_blocked" using s1 demo_service_blocked by simp
  moreover have "hsa_signal_load_acquire (set_cell 528 0 demo_blocked) (doorbell_signal (HSAQueue demo_queue)) = Inr 0"
    by (simp add: hsa_signal_load_acquire_def GCCBuiltinSignal_load_def loadAcquire_def signal_cell_def
      deref_Some fromHSAObject_def demo_state_def demo_queue_def demo_blocked_def set_cell_def
      with_rings_def Runtime_memoryFence_def Runtime_get_def)
  moreover have "Queues (set_cell 528 0 demo_blocked) = Queues demo_blocked" by (simp add: set_cell_def)
  ultimately show ?thesis using s1 later by auto
qed

text \<open>
  A packet that an iteration of the loop carries out leaves its slot INVALID, and its completion
  signal, when the packet names a registered one, holds 0 afterwards.
\<close>

theorem packet_completion:
  assumes "ring_of Q s q buf" and "packet_type (buf ! slot q i) \<noteq> HSA_PACKET_TYPE_INVALID"
    and "packet_step code gr Q (ring_size q) cri i s = Inr (False, cri', s')"
  shows "Buffers s' (base_address (HSAQueue q)) = Some (cleared (slot q i) buf) \<and>
    cri' = (if cri = i then i + 1 else cri) \<and>
    (fromHSAObject (SignalRegistry s) (quad7 (buf ! slot q i)) \<noteq> nullptr \<longrightarrow>
       signal_value (fromHSAObject (SignalRegistry s) (quad7 (buf ! slot q i))) s' = 0)"
  using assms(1) slot_def [of q i] assms(3)
proof (cases rule: packet_step_cases)
  case (carried_out c s1)
  have c: "c = fromHSAObject (SignalRegistry s) (quad7 (buf ! slot q i))"
    using carried_out(4)
    by (auto simp: handle_packet_def Let_def outcome_simps BarrierAnd_def BarrierOr_def KernelDispatch_def
        split: if_splits)
  have "signal_value c s' = 0" if "c \<noteq> nullptr"
    using that carried_out(5)
    by (auto simp: finish_packet_def GCCBuiltinSignal_store_def storeRelaxed_def signal_cell_def
        outcome_simps signal_value_def set_cell_def)
  with carried_out c show ?thesis by auto
qed (use assms(2) in auto)


theorem packet_completion_witness:
  "\<exists>s'. packet_step demo_code 24 256 (ring_size demo_queue) 0 0 (demo_state demo_dispatch) = Inr (False, 1, s') \<and>
     signal_value 552 s' = 0"
proof -
  obtain s' where step: "packet_step demo_code 24 256 (ring_size demo_queue) 0 0 (demo_state demo_dispatch) = Inr (False, 1, s')"
    using demo_step by blast
  have published: "packet_type (demo_buffer demo_dispatch ! slot demo_queue 0) \<noteq> HSA_PACKET_TYPE_INVALID"
    by (simp add: packet_type_defs)
  have quad: "quad7 demo_dispatch = 544" by (simp add: demo_dispatch_def make_kernel_dispatch_def)
  from packet_completion [OF demo_ring published step] step show ?thesis
    by (auto simp: quad)
qed



text \<open>
  The dimensions of a dispatch packet are valid exactly when its two low setup bits say one, two
  or three and the grid and work-group sizes in the unused dimensions are 1.
\<close>

theorem dimension_check: "AreDimensionsvalid P \<longleftrightarrow> dimensions_ok P"
  by (simp add: AreDimensionsvalid_eq)

text \<open>
  C24. A dispatch gives back the group memory it borrows: whatever the outcome of the checks, the live
  chunks of the group region are the same before and after.
\<close>

theorem dispatch_returns_group_memory:
  assumes "dispatch_kernel code gr Q P i s = Inr s'" and "cpu_ok gr s"
    and "cpu_request gr s (ucast (kd_group_segment_size P)) 16"
  shows "cpu_live gr s' = cpu_live gr s"
  by (rule dispatch_kernel_live [OF assms(1)]) (use assms in blast)

theorem dispatch_returns_group_memory_witness:
  "\<exists>s'. dispatch_kernel demo_code 24 256 (KernelDispatch demo_dispatch) 0 (demo_state demo_dispatch) = Inr s' \<and>
     cpu_live 24 s' = {}"
proof -
  obtain s' where "handle_packet demo_code 24 256 demo_dispatch 0 (demo_state demo_dispatch) = Inr (Completed 552 s')"
    using demo_handle by blast
  then have d: "dispatch_kernel demo_code 24 256 (KernelDispatch demo_dispatch) 0 (demo_state demo_dispatch) = Inr s'"
    by (auto simp: handle_packet_def packet_type_defs outcome_simps)
  have "cpu_request 24 (demo_state demo_dispatch) (ucast (kd_group_segment_size (KernelDispatch demo_dispatch))) 16"
    using demo_fits(2) by (simp add: demo_kd)
  from dispatch_returns_group_memory [OF d demo_fits(1) this] d show ?thesis
    by (simp add: cpu_live_def demo_state_def)
qed

text \<open>
  On registered dependencies the two barrier conditions are what the packet format says: a
  barrier-AND waits until every dependency that is not null is 0, a barrier-OR until one is.
\<close>

theorem barrier_conditions:
  assumes "signals_inv s" and "Instance s \<noteq> nullptr" and "deps_known s deps"
  shows "BarrierAnd_condition s deps = Inr (\<forall>d \<in> set deps. d \<noteq> 0 \<longrightarrow> handle_value s d = 0) \<and>
    BarrierOr_condition s deps = Inr (\<exists>d \<in> set deps. d \<noteq> 0 \<and> handle_value s d = 0)"
  using assms by (simp add: BarrierAnd_condition_eq BarrierOr_condition_eq)

theorem barrier_conditions_witness:
  "BarrierAnd_condition signal_demo1 [0, 4104] = Inr False \<and> BarrierOr_condition signal_demo0 [4104, 0] = Inr True"
proof -
  have "signals_inv signal_demo0" "signals_inv signal_demo1" "Instance signal_demo0 \<noteq> nullptr"
    using signals_inv_created [OF signal_demo_ok(3,4)] signal_demo_ok(2)
    by (simp_all add: signal_demo0_def signal_demo1_def)
  moreover have "deps_known signal_demo1 [0, 4104]" "deps_known signal_demo0 [4104, 0]"
    "handle_value signal_demo1 4104 = 5" "handle_value signal_demo0 4104 = 0"
    by (simp_all add: deps_known_def handle_value_def signal_demo0_def signal_demo1_def om.find_enter signal_value_def)
  ultimately show ?thesis
    using barrier_conditions [of signal_demo1 "[0, 4104]"] barrier_conditions [of signal_demo0 "[4104, 0]"]
      signal_demo1_ok(2) by simp
qed

end
