(* ===== verification/Queue_Api.thy ===== *)
theory Queue_Api
  imports Kernel_Agent
begin

text \<open>
  The entry points that create, destroy and inactivate queues (\<open>src/hsa/hsa_queue.cc\<close>) and
  \<open>CPURuntime::createSoftQueue\<close>.
\<close>

section \<open>The agent's limits\<close>

definition getQueuesMax :: "CPUKernelAgent \<Rightarrow> u32" where
  "getQueuesMax A = 1024"

definition IsSupportedQueueType :: "CPUKernelAgent \<Rightarrow> hsa_queue_type_t \<Rightarrow> bool" where
  "IsSupportedQueueType A t = True"

section \<open>Creation\<close>

text \<open>
  \<open>size & (size - 1) != 0\<close> is \<open>size & ((size - 1) != 0)\<close>: the comparison binds tighter, its result
  is 0 or 1.
\<close>

definition size_rejected :: "u32 \<Rightarrow> bool" where
  "size_rejected size' \<longleftrightarrow> size' AND (if size' - 1 \<noteq> 0 then 1 else 0) \<noteq> 0"

definition set_queue_id :: "addr \<Rightarrow> UserModeQueue \<Rightarrow> UserModeQueue" where
  "set_queue_id i Q = Q\<lparr>HSAQueue := (HSAQueue Q)\<lparr>queue_id := i\<rparr>\<rparr>"

definition hsa_queue_create ::
  "'m agent_state_scheme \<Rightarrow> u64 \<Rightarrow> u32 \<Rightarrow> hsa_queue_type_t \<Rightarrow> addr \<Rightarrow> addr \<Rightarrow> u32 \<Rightarrow> u32 \<Rightarrow> addr \<Rightarrow>
   (hsa_status_t \<times> addr option \<times> 'm agent_state_scheme) outcome" where
  "hsa_queue_create s agent size' type callback data private_segment_size group_segment_size queue =
     (if \<not> isInitialized s then Inr (HSA_STATUS_ERROR_NOT_INITIALIZED, None, s)
      else if queue = nullptr \<or> size' = 0 \<or> size_rejected size'
      then Inr (HSA_STATUS_ERROR_INVALID_ARGUMENT, None, s)
      else
        let A = fromHSAObject (AgentRegistry s) agent
        in if A = nullptr then Inr (HSA_STATUS_ERROR_INVALID_AGENT, None, s)
           else and_then (deref (KernelAgents s) A) (\<lambda>Agent.
             if unat (getQueuesMax Agent) \<le> getQueueCount Agent
             then Inr (HSA_STATUS_ERROR_OUT_OF_RESOURCES, None, s)
             else if \<not> IsSupportedQueueType Agent type
             then Inr (HSA_STATUS_ERROR_INVALID_QUEUE_CREATION, None, s)
             else and_then (CPUKernelAgent_createQueue s A size' type callback) (\<lambda>(Q, s1).
               if Q = nullptr then Inr (HSA_STATUS_ERROR, None, s1)
               else and_then (update_queue Q (set_queue_id Q) s1) (\<lambda>s2.
                 Inr (HSA_STATUS_SUCCESS, Some Q, s2)))))"

definition CPURuntime_createSoftQueue ::
  "'m queue_state_scheme \<Rightarrow> addr \<Rightarrow> u32 \<Rightarrow> hsa_queue_type_t \<Rightarrow> addr \<Rightarrow>
   (addr \<times> 'm queue_state_scheme) outcome" where
  "CPURuntime_createSoftQueue s MemRegion Size Type Doorbell =
     UserModeQueue_new Size Type MemRegion nullptr nullptr Doorbell s"

definition hsa_soft_queue_create ::
  "'m queue_state_scheme \<Rightarrow> u64 \<Rightarrow> u32 \<Rightarrow> hsa_queue_type_t \<Rightarrow> u32 \<Rightarrow> u64 \<Rightarrow> addr \<Rightarrow>
   (hsa_status_t \<times> addr option \<times> 'm queue_state_scheme) outcome" where
  "hsa_soft_queue_create s region size' type features doorbell queue =
     (if \<not> isInitialized s then Inr (HSA_STATUS_ERROR_NOT_INITIALIZED, None, s)
      else if type \<noteq> HSA_QUEUE_TYPE_MULTI \<and> type \<noteq> HSA_QUEUE_TYPE_SINGLE
      then Inr (HSA_STATUS_ERROR_INVALID_ARGUMENT, None, s)
      else if queue = nullptr \<or> size' = 0 \<or> size_rejected size'
      then Inr (HSA_STATUS_ERROR_INVALID_ARGUMENT, None, s)
      else
        let MR = fromHSAObject (RegionRegistry s) region;
            S = fromHSAObject (SignalRegistry s) doorbell
        in if S = nullptr \<or> MR = nullptr then Inr (HSA_STATUS_ERROR_INVALID_ARGUMENT, None, s)
           else and_then (Runtime_get s) (\<lambda>_.
             and_then (CPURuntime_createSoftQueue s MR size' type S) (\<lambda>(Q, s1).
               if Q = nullptr then Inr (HSA_STATUS_ERROR, None, s1)
               else and_then (update_queue Q (set_queue_id Q) s1) (\<lambda>s2.
                 Inr (HSA_STATUS_SUCCESS, Some Q, s2)))))"

section \<open>Destruction and inactivation\<close>

definition hsa_queue_destroy ::
  "'m queue_state_scheme \<Rightarrow> addr \<Rightarrow> (hsa_status_t \<times> 'm queue_state_scheme) outcome" where
  "hsa_queue_destroy s queue =
     (if \<not> isInitialized s then Inr (HSA_STATUS_ERROR_NOT_INITIALIZED, s)
      else if queue = nullptr then Inr (HSA_STATUS_ERROR_INVALID_ARGUMENT, s)
      else and_then (FindQueue s queue) (\<lambda>Q.
        if Q = nullptr then Inr (HSA_STATUS_ERROR_INVALID_QUEUE, s)
        else and_then (deref (Queues s) Q) (\<lambda>Qobj.
          if isDestroyed Qobj then Inr (HSA_STATUS_ERROR_INVALID_QUEUE, s)
          else and_then (update_queue Q setDestroyed s) (\<lambda>s'. Inr (HSA_STATUS_SUCCESS, s')))))"

text \<open>The third component is \<open>None\<close> when the wait for the worker does not end.\<close>

definition hsa_queue_inactivate ::
  "(nat \<Rightarrow> addr) \<Rightarrow> 'm agent_state_scheme \<Rightarrow> addr \<Rightarrow> (hsa_status_t \<times> 'm agent_state_scheme) option outcome" where
  "hsa_queue_inactivate reads s queue =
     (if \<not> isInitialized s then Inr (Some (HSA_STATUS_ERROR_NOT_INITIALIZED, s))
      else if queue = nullptr then Inr (Some (HSA_STATUS_ERROR_INVALID_ARGUMENT, s))
      else and_then (FindQueue s queue) (\<lambda>Q.
        if Q = nullptr then Inr (Some (HSA_STATUS_ERROR_INVALID_QUEUE, s))
        else and_then (deref (Queues s) Q) (\<lambda>Qobj.
          if isDestroyed Qobj then Inr (Some (HSA_STATUS_ERROR_INVALID_QUEUE, s))
          else and_then (setInactivated reads Q s) (\<lambda>r.
            case r of None \<Rightarrow> Inr None | Some s' \<Rightarrow> Inr (Some (HSA_STATUS_SUCCESS, s'))))))"

section \<open>The size check\<close>

lemma size_rejected_eq: "size_rejected size' \<longleftrightarrow> odd (unat size') \<and> size' \<noteq> 1"
proof (cases "size' = 1")
  case True
  then show ?thesis by (simp add: size_rejected_def)
next
  case False
  then have "size' - 1 \<noteq> 0" by simp
  then have "size_rejected size' \<longleftrightarrow> size' AND 1 \<noteq> 0" by (simp add: size_rejected_def)
  also have "size' AND 1 = of_bool (odd size')" by (simp add: and_one_eq mod_2_eq_odd)
  also have "odd size' \<longleftrightarrow> odd (unat size')" using bit_unsigned_iff [of size' 0, where ?'a = nat] by (simp add: bit_0)
  finally show ?thesis using False by simp
qed

section \<open>Creating a queue\<close>

text \<open>What the host owes: three allocations, the queue object, its buffer and its doorbell.\<close>

definition queue_supply ::
  "'m agent_state_scheme \<Rightarrow> addr \<Rightarrow> addr \<Rightarrow> addr \<Rightarrow> addr \<Rightarrow> addr \<Rightarrow> addr list \<Rightarrow> bool" where
  "queue_supply s Rg Q buf D cell ps \<longleftrightarrow>
     HostHeap s = Q # buf # D # cell # ps \<and> Q \<noteq> nullptr \<and> buf \<noteq> nullptr \<and> D \<noteq> nullptr \<and> cell \<noteq> nullptr \<and>
     Queues s Q = None \<and> Signals s D = None \<and> cpu_ok Rg s \<and> buf \<noteq> cell \<and>
     buf \<notin> cpu_live Rg s \<and> cell \<notin> cpu_live Rg s"

lemma posix_memalign_64:
  "HostHeap s = c # ps \<Longrightarrow> c \<noteq> nullptr \<Longrightarrow> posix_memalign 64 n s = (Some c, s\<lparr>HostHeap := ps\<rparr>)"
  by (simp add: posix_memalign_def host_malloc_def is_pow2_def)

definition new_queue :: "u32 \<Rightarrow> hsa_queue_type_t \<Rightarrow> addr \<Rightarrow> addr \<Rightarrow> addr \<Rightarrow> addr \<Rightarrow> u64 \<Rightarrow> UserModeQueue" where
  "new_queue Size Type Rg CB' Owner buf cell =
     \<lparr>HSAQueue = \<lparr>queue_type = Type, queue_features = 1, base_address = buf, doorbell_signal = cell,
        queue_size = Size, queue_reserved1 = 0, queue_id = 0, read_index = 0, write_index = 0\<rparr>,
      QueueOwner = Owner, Destroyed = False, Inactivated = False, PacketIsProcessed = [],
      LastHandledDoorBell = i64_max, Region = Rg, CB = CB', IsDoorbellOwned = True\<rparr>"

lemma UserModeQueue_new_ok:
  assumes "queue_supply s Rg Q buf D cell ps" and "cpu_ok Rg s"
  shows "\<exists>s'. UserModeQueue_new Size Type Rg CB' Owner nullptr s = Inr (Q, s') \<and>
    Queues s' = (Queues s)(Q \<mapsto> new_queue Size Type Rg CB' Owner buf cell) \<and>
    Buffers s' = (Buffers s)(buf \<mapsto> replicate (unat Size) invalid_packet) \<and>
    SignalRegistry s' = registerObject (SignalRegistry s) cell D \<and>
    Signals s' = (Signals s)(D \<mapsto> \<lparr>CurrentValue = cell, SignalMemory = Rg\<rparr>) \<and>
    SignalValues s' = (SignalValues s)(cell \<mapsto> i64_max) \<and>
    KernelAgents s' = KernelAgents s \<and> Instance s' = Instance s \<and> cpu_live Rg s' = insert cell (insert buf (cpu_live Rg s)) \<and>
    QueueRegistry s' = registerObject (QueueRegistry s) Q Q"
proof -
  obtain R where R: "Rg \<noteq> nullptr" "CPURegions s Rg = Some R" using assms(2) by (auto simp: cpu_ok_def)
  have heap: "HostHeap s = Q # buf # D # cell # ps" and nn: "Q \<noteq> nullptr" "buf \<noteq> nullptr" "D \<noteq> nullptr" "cell \<noteq> nullptr"
    using assms(1) by (auto simp: queue_supply_def)
  let ?s1 = "s\<lparr>HostHeap := buf # D # cell # ps, QueueRegistry := registerObject (QueueRegistry s) Q Q\<rparr>"
  have op: "operator_new s = Inr (Q, s\<lparr>HostHeap := buf # D # cell # ps\<rparr>)"
    using heap nn by (simp add: operator_new_def host_malloc_def)
  let ?s2 = "set_allocations Rg R (insert buf (CPUAllocations R)) (?s1\<lparr>HostHeap := D # cell # ps\<rparr>)"
  have alloc: "CPUMemoryRegion_allocate Rg ?s1 (ucast Size * 64) 64 = Inr (buf, ?s2)"
    using R nn by (simp add: CPUMemoryRegion_allocate_def deref_Some posix_memalign_64)
  let ?s3 = "?s2\<lparr>Buffers := (Buffers ?s2)(buf \<mapsto> replicate (unat Size) invalid_packet)\<rparr>"
  have heap3: "HostHeap ?s3 = D # cell # ps" by (simp add: set_allocations_def)
  have op3: "operator_new ?s3 = Inr (D, ?s3\<lparr>HostHeap := cell # ps\<rparr>)"
    using heap3 nn by (simp add: operator_new_def host_malloc_def)
  have alloc3: "CPUMemoryRegion_allocate Rg (?s3\<lparr>HostHeap := cell # ps\<rparr>) 8 8 =
      Inr (cell, set_allocations Rg R (insert cell (insert buf (CPUAllocations R))) (?s3\<lparr>HostHeap := ps\<rparr>))"
    using R nn
    by (simp add: CPUMemoryRegion_allocate_def deref_Some posix_memalign_8 set_allocations_def)
  show ?thesis
    unfolding UserModeQueue_new_def op
    using alloc op3 alloc3 nn R
    by (simp add: new_doorbell_def GCCBuiltinSignal_new_def Let_def deref_Some new_queue_def
        set_allocations_def cpu_live_def)
qed

end
