(* ===== verification/Queue_Claims.thy ===== *)
theory Queue_Claims
  imports Queue_Api Agent_Claims
begin

text \<open>The properties of queue creation, destruction and of the write index.\<close>

section \<open>Reserving packets\<close>

text \<open>Producers that add to the write index, in the order in which their additions take effect.\<close>

fun reserve_packets :: "addr \<Rightarrow> 'm queue_state_scheme \<Rightarrow> u64 list \<Rightarrow> (u64 list \<times> 'm queue_state_scheme) outcome" where
  "reserve_packets q s [] = Inr ([], s)"
| "reserve_packets q s (n # ns) =
     and_then (hsa_queue_add_write_index_relaxed s q n) (\<lambda>(first, s1).
       and_then (reserve_packets q s1 ns) (\<lambda>(rest, s2). Inr (first # rest, s2)))"

lemma reserve_packets_wi: "reserve_packets q s ns = wi.reserve q s ns"
  by (induction ns arbitrary: s) (simp_all cong: and_then_cong)

lemma demo_handle_ok: "queue_handle_ok 256 (demo_state P)" "queue_write_index 256 (demo_state P) = 1"
  by (simp_all add: queue_handle_ok_def queue_write_index_def demo_state_def demo_queue_def)

section \<open>Properties\<close>

text \<open>
  C18. Producers that reserve packets by adding to the write index get disjoint ranges of packet
  numbers, in the order of their additions, as long as the index does not run past \<open>2 ^ 64\<close>.
\<close>

theorem reservations_disjoint:
  assumes "queue_handle_ok q s" and "unat (queue_write_index q s) + (\<Sum>n\<leftarrow>ns. unat n) < 2 ^ 64"
    and "i < j" and "j < length ns"
  shows "\<exists>rs s'. reserve_packets q s ns = Inr (rs, s') \<and> unat (rs ! i) + unat (ns ! i) \<le> unat (rs ! j)"
  unfolding reserve_packets_wi using assms by (rule wi.reserve_disjoint)

theorem reservations_disjoint_witness:
  "\<exists>rs s'. reserve_packets 256 (demo_state demo_barrier) [2, 3] = Inr (rs, s') \<and>
     unat (rs ! 0) + 2 \<le> unat (rs ! 1)"
  using reservations_disjoint [of 256 "demo_state demo_barrier" "[2, 3]" 0 1]
  by (simp add: demo_handle_ok)

text \<open>
  C19. The size check of \<open>hsa_queue_create\<close> is not the power-of-two check that it is meant to be: on an
  initialised runtime an invalid argument is reported exactly for a null result pointer, for 0 and
  for the odd sizes above 1, so that 6 and every other even size pass.
\<close>

theorem queue_create_size_check:
  assumes "isInitialized s"
    and "hsa_queue_create s agent n type callback data pseg gseg queue = Inr (status, out, s')"
  shows "status = HSA_STATUS_ERROR_INVALID_ARGUMENT \<longleftrightarrow>
    queue = nullptr \<or> n = 0 \<or> (odd (unat n) \<and> n \<noteq> 1)"
proof (cases "queue = nullptr \<or> n = 0 \<or> size_rejected n")
  case True
  with assms show ?thesis by (auto simp: hsa_queue_create_def size_rejected_eq)
next
  case False
  with assms have "status \<noteq> HSA_STATUS_ERROR_INVALID_ARGUMENT"
    by (auto simp: hsa_queue_create_def Let_def outcome_simps split: if_splits)
  with False show ?thesis by (simp add: size_rejected_eq)
qed

lemma demo_create_fails:
  "hsa_queue_create (demo_state P) 300 3 HSA_QUEUE_TYPE_MULTI 0 0 0 0 64 =
     Inr (HSA_STATUS_ERROR_INVALID_ARGUMENT, None, demo_state P)"
  by (simp add: hsa_queue_create_def size_rejected_eq isInitialized_def demo_state_def)

lemma demo_initialized: "isInitialized (demo_state P)"
  by (simp add: isInitialized_def demo_state_def)

theorem queue_create_size_check_witness:
  "hsa_queue_create (demo_state demo_barrier) 300 3 HSA_QUEUE_TYPE_MULTI 0 0 0 0 64 =
     Inr (HSA_STATUS_ERROR_INVALID_ARGUMENT, None, demo_state demo_barrier) \<and> odd (unat (3 :: u32))"
  using queue_create_size_check [OF demo_initialized demo_create_fails [of demo_barrier]]
    demo_create_fails [of demo_barrier]
  by simp

lemma queue_created:
  assumes "isInitialized s" and "Instance s \<noteq> nullptr" and "queue \<noteq> nullptr" and "n \<noteq> 0" and "\<not> size_rejected n"
    and "unat n < 2 ^ 31"
    and "fromHSAObject (AgentRegistry s) agent = A" and "A \<noteq> nullptr" and "KernelAgents s A = Some Ag"
    and "getQueueCount Ag < 1024" and "queue_supply s (QueueRegion Ag) Q buf D cell ps"
    and q: "q = set_queue_id Q (new_queue n type (QueueRegion Ag) callback A buf cell)"
  shows "\<exists>s'. hsa_queue_create s agent n type callback data pseg gseg queue =
      Inr (HSA_STATUS_SUCCESS, Some Q, s') \<and>
    ring_of Q s' q (replicate (unat n) invalid_packet) \<and> queue_handle_ok Q s' \<and> queue_active q \<and>
    read_index (HSAQueue q) = 0 \<and> write_index (HSAQueue q) = 0 \<and>
    hsa_signal_load_acquire s' (doorbell_signal (HSAQueue q)) = Inr i64_max \<and>
    KernelAgents s' = (KernelAgents s)(A \<mapsto> registerQueue Q Ag) \<and>
    service_queue code gr Q s' = Inr s'"
proof -
  let ?Rg = "QueueRegion Ag"
  have ok: "cpu_ok ?Rg s" and nn: "Q \<noteq> nullptr" "buf \<noteq> nullptr" "D \<noteq> nullptr" "cell \<noteq> nullptr"
    using assms(11) by (auto simp: queue_supply_def)
  obtain s1 where new: "UserModeQueue_new n type ?Rg callback A nullptr s = Inr (Q, s1)"
    and s1: "Queues s1 = (Queues s)(Q \<mapsto> new_queue n type ?Rg callback A buf cell)"
      "Buffers s1 = (Buffers s)(buf \<mapsto> replicate (unat n) invalid_packet)"
      "SignalRegistry s1 = registerObject (SignalRegistry s) cell D"
      "Signals s1 = (Signals s)(D \<mapsto> \<lparr>CurrentValue = cell, SignalMemory = ?Rg\<rparr>)"
      "SignalValues s1 = (SignalValues s)(cell \<mapsto> i64_max)" "KernelAgents s1 = KernelAgents s"
      "Instance s1 = Instance s"
    using UserModeQueue_new_ok [OF assms(11) ok] by metis
  let ?s2 = "s1\<lparr>KernelAgents := (KernelAgents s1)(A \<mapsto> registerQueue Q Ag)\<rparr>"
  let ?q = "set_queue_id Q (new_queue n type ?Rg callback A buf cell)"
  let ?s3 = "?s2\<lparr>Queues := (Queues s1)(Q \<mapsto> ?q)\<rparr>"
  have create: "hsa_queue_create s agent n type callback data pseg gseg queue =
      Inr (HSA_STATUS_SUCCESS, Some Q, ?s3)"
    using assms nn new s1
    by (simp add: hsa_queue_create_def deref_Some getQueuesMax_def IsSupportedQueueType_def
        CPUKernelAgent_createQueue_def update_agent_def update_queue_def)
  have ring: "ring_of Q ?s3 ?q (replicate (unat n) invalid_packet)"
    using nn s1 assms(4,6)
    by (simp add: ring_of_def set_queue_id_def new_queue_def norm_flags_def unat_gt_0)
  have load: "hsa_signal_load_acquire ?s3 (doorbell_signal (HSAQueue ?q)) = Inr i64_max"
    using nn s1 assms(2)
    by (simp add: hsa_signal_load_acquire_def GCCBuiltinSignal_load_def loadAcquire_def signal_cell_def
        deref_Some set_queue_id_def new_queue_def om.find_enter Runtime_memoryFence_def Runtime_get_Inr)
  have active: "queue_active ?q" "\<not> rung i64_max ?q"
    by (simp_all add: queue_active_def rung_def set_queue_id_def new_queue_def)
  have "service_queue code gr Q ?s3 = Inr ?s3"
    using service_queue_eq [of Q ?s3 ?q i64_max code gr] nn active load by simp
  moreover have "queue_handle_ok Q ?s3" using nn by (simp add: queue_handle_ok_def set_queue_id_def)
  ultimately show ?thesis
    using create ring load active s1(6)
    by (intro exI [of _ ?s3]) (simp add: q set_queue_id_def new_queue_def)
qed

text \<open>
  C17. A created queue is ready for use: its identifier leads back to it, its indices are 0, every slot
  of its buffer is INVALID, its doorbell is a new registered signal that holds \<open>INT64_MAX\<close>, the
  agent serves it last, and until the doorbell is rung a turn of the queue changes nothing.
\<close>

theorem queue_create_ready:
  assumes "isInitialized s" and "Instance s \<noteq> nullptr" and "queue \<noteq> nullptr" and "n \<noteq> 0" and "\<not> size_rejected n"
    and "unat n < 2 ^ 31"
    and "fromHSAObject (AgentRegistry s) agent = A" and "A \<noteq> nullptr" and "KernelAgents s A = Some Ag"
    and "getQueueCount Ag < 1024" and "queue_supply s (QueueRegion Ag) Q buf D cell ps"
  shows "\<exists>s' q. hsa_queue_create s agent n type callback data pseg gseg queue =
      Inr (HSA_STATUS_SUCCESS, Some Q, s') \<and>
    ring_of Q s' q (replicate (unat n) invalid_packet) \<and> queue_handle_ok Q s' \<and> queue_active q \<and>
    read_index (HSAQueue q) = 0 \<and> write_index (HSAQueue q) = 0 \<and>
    hsa_signal_load_acquire s' (doorbell_signal (HSAQueue q)) = Inr i64_max \<and>
    KernelAgents s' = (KernelAgents s)(A \<mapsto> registerQueue Q Ag) \<and>
    service_queue code gr Q s' = Inr s'"
  using queue_created [OF assms refl] by blast


definition demo_supplied :: agent_state where
  "demo_supplied = (demo_state demo_barrier)\<lparr>HostHeap := [1024, 3072, 1032, 1040]\<rparr>"

lemma demo_supplied_ok:
  "isInitialized demo_supplied" "Instance demo_supplied \<noteq> nullptr"
  "fromHSAObject (AgentRegistry demo_supplied) 300 = 300"
  "KernelAgents demo_supplied 300 = KernelAgents (demo_state demo_barrier) 300"
  "queue_supply demo_supplied 16 1024 3072 1032 1040 []"
  by (simp_all add: demo_supplied_def demo_state_def isInitialized_def fromHSAObject_def queue_supply_def
      cpu_ok_def cpu_live_def)

theorem queue_create_ready_witness:
  "\<exists>s' q. hsa_queue_create demo_supplied 300 8 HSA_QUEUE_TYPE_MULTI 0 0 0 0 64 =
      Inr (HSA_STATUS_SUCCESS, Some 1024, s') \<and> Queues s' 1024 = Some q \<and> queue_handle_ok 1024 s'"
proof -
  obtain Ag where Ag: "KernelAgents demo_supplied 300 = Some Ag" "getQueueCount Ag < 1024" "QueueRegion Ag = 16"
    by (auto simp: demo_supplied_ok(4) demo_state_def getQueueCount_def)
  have "queue_supply demo_supplied (QueueRegion Ag) 1024 3072 1032 1040 []"
    using demo_supplied_ok(5) Ag(3) by simp
  from queue_create_ready [OF demo_supplied_ok(1,2) _ _ _ _ demo_supplied_ok(3) _ Ag(1,2) this,
      where queue = 64 and n = 8 and type = HSA_QUEUE_TYPE_MULTI and callback = 0 and data = 0 and pseg = 0
        and gseg = 0 and code = demo_code and gr = 24]
  show ?thesis by (auto simp: size_rejected_eq ring_of_def)
qed

text \<open>
  C20. Destroying a queue does not make room for another: the agent keeps the destroyed queue in its
  list, so once an agent has had 1024 queues every later creation is refused for lack of resources,
  however many of them have been destroyed. The destroyed queue itself is never served again and
  cannot be destroyed twice.
\<close>

theorem destroyed_queue_still_counts:
  assumes "hsa_queue_destroy s Q = Inr (HSA_STATUS_SUCCESS, s')" and "queue_handle_ok Q s"
    and "fromHSAObject (AgentRegistry s) agent = A" and "A \<noteq> nullptr" and "KernelAgents s A = Some Ag"
    and "1024 \<le> getQueueCount Ag"
    and "queue \<noteq> nullptr" and "n \<noteq> 0" and "\<not> size_rejected n"
  shows "hsa_queue_create s' agent n type callback data pseg gseg queue =
      Inr (HSA_STATUS_ERROR_OUT_OF_RESOURCES, None, s') \<and>
    hsa_queue_destroy s' Q = Inr (HSA_STATUS_ERROR_INVALID_QUEUE, s') \<and>
    service_queue code gr Q s' = Inr s'"
proof -
  from assms(2) obtain q where q: "Q \<noteq> nullptr" "Queues s Q = Some q" "FindQueue s Q = Inr Q"
    "queue_id (HSAQueue q) = Q" by (rule queue_handle_okE)
  from assms(1) q have init: "isInitialized s" and s': "s' = s\<lparr>Queues := (Queues s)(Q \<mapsto> setDestroyed q)\<rparr>"
    by (auto simp: hsa_queue_destroy_def deref_Some update_queue_def isDestroyed_def split: if_splits)
  have init': "isInitialized s'" using init by (simp add: s' isInitialized_def)
  have find': "FindQueue s' Q = Inr Q" using q by (simp add: s' FindQueue_def deref_Some setDestroyed_def)
  have "hsa_queue_create s' agent n type callback data pseg gseg queue =
      Inr (HSA_STATUS_ERROR_OUT_OF_RESOURCES, None, s')"
    using assms(3-9) init' by (simp add: hsa_queue_create_def s' deref_Some getQueuesMax_def)
  moreover have "hsa_queue_destroy s' Q = Inr (HSA_STATUS_ERROR_INVALID_QUEUE, s')"
    using init' find' q by (simp add: hsa_queue_destroy_def s' deref_Some isDestroyed_def setDestroyed_def)
  moreover have "service_queue code gr Q s' = Inr s'"
    using q by (simp add: service_queue_def s' deref_Some isDestroyed_def setDestroyed_def)
  ultimately show ?thesis by blast
qed

definition demo_full :: agent_state where
  "demo_full = demo_supplied\<lparr>KernelAgents := [300 \<mapsto> \<lparr>AgentQueues = replicate 1024 256, AgentRegions = [16, 24],
     KernargRegion = 0, UMQRegion = 0, GroupMemoryRegion = 24, QueueRegion = 16, AgentISA = ''host-isa'',
     RunningQueue = 0, InterruptingTheQueue = False\<rparr>]\<rparr>"

theorem destroyed_queue_still_counts_witness:
  "\<exists>s'. hsa_queue_destroy demo_full 256 = Inr (HSA_STATUS_SUCCESS, s') \<and>
     hsa_queue_create s' 300 8 HSA_QUEUE_TYPE_MULTI 0 0 0 0 64 = Inr (HSA_STATUS_ERROR_OUT_OF_RESOURCES, None, s')"
proof -
  have ok: "queue_handle_ok 256 demo_full"
    by (simp add: queue_handle_ok_def demo_full_def demo_supplied_def demo_state_def demo_queue_def)
  have "\<exists>s'. hsa_queue_destroy demo_full 256 = Inr (HSA_STATUS_SUCCESS, s')"
    by (simp add: hsa_queue_destroy_def FindQueue_def deref_Some isInitialized_def isDestroyed_def
        update_queue_def demo_full_def demo_supplied_def demo_state_def demo_queue_def)
  then obtain s' where d: "hsa_queue_destroy demo_full 256 = Inr (HSA_STATUS_SUCCESS, s')" by blast
  obtain Ag where Ag: "KernelAgents demo_full 300 = Some Ag" "1024 \<le> getQueueCount Ag"
    by (simp add: demo_full_def getQueueCount_def)
  have "fromHSAObject (AgentRegistry demo_full) 300 = 300"
    using demo_supplied_ok(3) by (simp add: demo_full_def)
  from destroyed_queue_still_counts [OF d ok this _ Ag, of 64 8 HSA_QUEUE_TYPE_MULTI 0 0 0 0] d show ?thesis
    by (auto simp: size_rejected_eq)
qed

end
