(* ===== verification/Interrupt_Protocol.thy ===== *)
theory Interrupt_Protocol
  imports Kernel_Agent
begin

text \<open>
  The handshake between the worker thread (\<open>CPUKernelAgent::Execute\<close>) and a client thread that
  inactivates a queue (\<open>Queue::setInactivated\<close>, \<open>CPUKernelAgent::terminateQueue\<close>), as a step
  relation whose steps are the accesses of the two threads to \<open>RunningQueue\<close>,
  \<open>InterruptingTheQueue\<close> and the flag \<open>Inactivated\<close>, and the delivery of the signal \<open>SIGUSR1\<close>.
\<close>

section \<open>The two threads\<close>

text \<open>
  Program points of the worker: the two assignments after \<open>sigsetjmp\<close>; the head of the outer loop;
  the head of the loop over the queues still to visit; the test of \<open>InterruptingTheQueue\<close>, the
  endless loop it leads to, the test of \<open>isInactivated\<close>; and the processing of packets.
\<close>

datatype worker_point =
    W_Landing
  | W_Reset
  | W_Top
  | W_For "addr list"
  | W_Check addr "addr list"
  | W_Spin
  | W_Active addr "addr list"
  | W_Run addr "addr list"

text \<open>Program points of the client in \<open>setInactivated\<close> and \<open>terminateQueue\<close> on a queue.\<close>

datatype client_point =
    C_Idle
  | C_Announce addr
  | C_Compare addr
  | C_Kill addr
  | C_Wait addr
  | C_Clear addr

record protocol =
  worker :: worker_point
  client :: client_point
  running :: addr
  interrupting :: bool
  pending :: bool
  inactivated :: "addr set"
  terminated :: "addr set"

text \<open>
  \<open>qs\<close> is the list of the agent's queues. \<open>pending\<close> holds from \<open>pthread_kill\<close> until the handler
  jumps to the landing spot; \<open>terminated\<close> collects the queues whose inactivation has returned.
\<close>

inductive protocol_step :: "addr list \<Rightarrow> protocol \<Rightarrow> protocol \<Rightarrow> bool" for qs where
  landing: "worker c = W_Landing \<Longrightarrow> protocol_step qs c (c\<lparr>worker := W_Reset, running := nullptr\<rparr>)"
| reset: "worker c = W_Reset \<Longrightarrow> protocol_step qs c (c\<lparr>worker := W_Top, interrupting := False\<rparr>)"
| top: "worker c = W_Top \<Longrightarrow> protocol_step qs c (c\<lparr>worker := W_For qs, running := nullptr\<rparr>)"
| next_queue: "worker c = W_For (Q # Qs) \<Longrightarrow>
    protocol_step qs c (c\<lparr>worker := W_Check Q Qs, running := Q\<rparr>)"
| all_visited: "worker c = W_For [] \<Longrightarrow> protocol_step qs c (c\<lparr>worker := W_Top\<rparr>)"
| spin: "worker c = W_Check Q Qs \<Longrightarrow> interrupting c \<Longrightarrow> protocol_step qs c (c\<lparr>worker := W_Spin\<rparr>)"
| proceed: "worker c = W_Check Q Qs \<Longrightarrow> \<not> interrupting c \<Longrightarrow>
    protocol_step qs c (c\<lparr>worker := W_Active Q Qs\<rparr>)"
| skip: "worker c = W_Active Q Qs \<Longrightarrow> Q \<in> inactivated c \<Longrightarrow>
    protocol_step qs c (c\<lparr>worker := W_For Qs\<rparr>)"
| run: "worker c = W_Active Q Qs \<Longrightarrow> Q \<notin> inactivated c \<Longrightarrow>
    protocol_step qs c (c\<lparr>worker := W_Run Q Qs\<rparr>)"
| finish: "worker c = W_Run Q Qs \<Longrightarrow> protocol_step qs c (c\<lparr>worker := W_For Qs\<rparr>)"
| interrupt: "pending c \<Longrightarrow> protocol_step qs c (c\<lparr>worker := W_Landing, pending := False\<rparr>)"
| inactivate: "client c = C_Idle \<Longrightarrow> Q \<noteq> nullptr \<Longrightarrow>
    protocol_step qs c (c\<lparr>client := C_Announce Q, inactivated := insert Q (inactivated c)\<rparr>)"
| announce: "client c = C_Announce Q \<Longrightarrow>
    protocol_step qs c (c\<lparr>client := C_Compare Q, interrupting := True\<rparr>)"
| is_running: "client c = C_Compare Q \<Longrightarrow> running c = Q \<Longrightarrow>
    protocol_step qs c (c\<lparr>client := C_Kill Q\<rparr>)"
| not_running: "client c = C_Compare Q \<Longrightarrow> running c \<noteq> Q \<Longrightarrow>
    protocol_step qs c (c\<lparr>client := C_Clear Q\<rparr>)"
| kill: "client c = C_Kill Q \<Longrightarrow> protocol_step qs c (c\<lparr>client := C_Wait Q, pending := True\<rparr>)"
| left: "client c = C_Wait Q \<Longrightarrow> running c \<noteq> Q \<Longrightarrow>
    protocol_step qs c (c\<lparr>client := C_Clear Q\<rparr>)"
| clear: "client c = C_Clear Q \<Longrightarrow>
    protocol_step qs c (c\<lparr>client := C_Idle, interrupting := False, terminated := insert Q (terminated c)\<rparr>)"

definition protocol_init :: protocol where
  "protocol_init = \<lparr>worker = W_Landing, client = C_Idle, running = nullptr, interrupting = False,
     pending = False, inactivated = {}, terminated = {}\<rparr>"

inductive protocol_reachable :: "addr list \<Rightarrow> protocol \<Rightarrow> bool" for qs where
  init: "protocol_reachable qs protocol_init"
| step: "protocol_reachable qs c \<Longrightarrow> protocol_step qs c c' \<Longrightarrow> protocol_reachable qs c'"

inductive_cases protocol_stepE: "protocol_step qs c c'"

section \<open>A terminated queue does not run\<close>

text \<open>
  The worker has announced the queue it looks at, and as long as it still runs a queue that has been
  inactivated, the client is in the part of \<open>terminateQueue\<close> before it has seen the queue left.
\<close>

fun at_queue :: "worker_point \<Rightarrow> addr option" where
  "at_queue (W_Check Q Qs) = Some Q"
| "at_queue (W_Active Q Qs) = Some Q"
| "at_queue (W_Run Q Qs) = Some Q"
| "at_queue _ = None"

definition protocol_inv :: "protocol \<Rightarrow> bool" where
  "protocol_inv c \<longleftrightarrow>
     (\<forall>Q. at_queue (worker c) = Some Q \<longrightarrow> running c = Q) \<and>
     (\<forall>Q Qs. worker c = W_Run Q Qs \<and> Q \<in> inactivated c \<longrightarrow>
        client c \<in> {C_Announce Q, C_Compare Q, C_Kill Q, C_Wait Q} \<and> Q \<notin> terminated c) \<and>
     terminated c \<subseteq> inactivated c \<and>
     (\<forall>Q. client c \<in> {C_Announce Q, C_Compare Q, C_Kill Q, C_Wait Q, C_Clear Q} \<longrightarrow> Q \<in> inactivated c)"

lemma protocol_inv_init: "protocol_inv protocol_init"
  by (simp add: protocol_inv_def protocol_init_def)

lemma protocol_inv_step:
  assumes "protocol_step qs c c'" and "protocol_inv c"
  shows "protocol_inv c'"
  using assms by (cases rule: protocol_step.cases) (auto simp: protocol_inv_def)

lemma protocol_inv_reachable: "protocol_reachable qs c \<Longrightarrow> protocol_inv c"
  by (induction rule: protocol_reachable.induct) (auto intro: protocol_inv_init protocol_inv_step)


section \<open>Two traces\<close>

text \<open>The state that the steps so far have reached, with the premise of the next step evaluated.\<close>

lemma reach_running:
  "protocol_reachable (A # Qs) \<lparr>worker = W_Run A Qs, client = C_Idle, running = A, interrupting = False,
     pending = False, inactivated = {}, terminated = {}\<rparr>"
proof -
  note s = protocol_reachable.step
  note r0 = protocol_reachable.init [where qs = "A # Qs", unfolded protocol_init_def]
  note r1 = s [OF r0 landing, simplified]
  note r2 = s [OF r1 reset, simplified]
  note r3 = s [OF r2 top, simplified]
  note r4 = s [OF r3 next_queue, simplified]
  note r5 = s [OF r4 proceed, simplified]
  note r6 = s [OF r5 run, simplified]
  show ?thesis using r6 by simp
qed

text \<open>
  The client inactivates the second queue while the first one runs; it announces the interruption,
  finds that its queue is not running and does not signal. The worker goes on to the second queue,
  sees the announcement and waits for a signal that nobody sends.
\<close>

lemma reach_hang:
  assumes "A \<noteq> B" and "B \<noteq> nullptr"
  shows "protocol_reachable (A # B # Qs) \<lparr>worker = W_Spin, client = C_Idle, running = B, interrupting = False,
     pending = False, inactivated = {B}, terminated = {B}\<rparr>"
proof -
  note s = protocol_reachable.step
  note r0 = reach_running [of A "B # Qs"]
  note r1 = s [OF r0 inactivate [where Q = B], simplified assms simp_thms, simplified]
  note r2 = s [OF r1 announce [where Q = B], simplified]
  note r3 = s [OF r2 not_running [where Q = B], simplified, OF assms(1)]
  note r4 = s [OF r3 finish [where Q = A and Qs = "B # Qs"], simplified]
  note r5 = s [OF r4 next_queue [where Q = B and Qs = Qs], simplified]
  note r6 = s [OF r5 spin [where Q = B and Qs = Qs], simplified]
  note r7 = s [OF r6 clear [where Q = B], simplified]
  show ?thesis using r7 assms by simp
qed

text \<open>
  The client signals the worker because the first queue runs; before the signal is delivered the
  worker leaves that queue by itself, the client takes back the announcement and the worker starts
  the second queue: the signal hits the second queue.
\<close>

lemma reach_wrong:
  assumes "A \<noteq> B" and "A \<noteq> nullptr"
  shows "protocol_reachable (A # B # Qs) \<lparr>worker = W_Run B Qs, client = C_Idle, running = B, interrupting = False,
     pending = True, inactivated = {A}, terminated = {A}\<rparr>"
proof -
  note s = protocol_reachable.step
  have BA: "B \<noteq> A" using assms(1) by simp
  note r0 = reach_running [of A "B # Qs"]
  note r1 = s [OF r0 inactivate [where Q = A], simplified assms simp_thms, simplified]
  note r2 = s [OF r1 announce [where Q = A], simplified]
  note r3 = s [OF r2 is_running [where Q = A], simplified]
  note r4 = s [OF r3 kill [where Q = A], simplified]
  note r5 = s [OF r4 finish [where Q = A and Qs = "B # Qs"], simplified]
  note r6 = s [OF r5 next_queue [where Q = B and Qs = Qs], simplified]
  note r7 = s [OF r6 left [where Q = A], simplified]
  note r8 = s [OF r7 clear [where Q = A], simplified]
  note r9 = s [OF r8 proceed [where Q = B and Qs = Qs], simplified]
  note r10 = s [OF r9 run [where Q = B and Qs = Qs], simplified]
  show ?thesis using r10 BA assms by simp
qed

section \<open>Properties\<close>

text \<open>
  C14. When the inactivation of a queue has returned, the worker is not processing packets of that
  queue, in every interleaving of the two threads.
\<close>

theorem terminated_queue_does_not_run:
  assumes "protocol_reachable qs c" and "Q \<in> terminated c"
  shows "worker c \<noteq> W_Run Q Qs"
  using protocol_inv_reachable [OF assms(1)] assms(2) by (auto simp: protocol_inv_def)

theorem terminated_queue_does_not_run_witness:
  "worker \<lparr>worker = W_Spin, client = C_Idle, running = 2, interrupting = False, pending = False,
     inactivated = {2}, terminated = {2}\<rparr> \<noteq> W_Run 2 []"
  using terminated_queue_does_not_run [OF reach_hang [of 1 2 "[]"], of 2 "[]"] by simp

text \<open>
  C15. The inactivation of a queue that is not running can hang the agent: from the state reached when
  it returns the worker never leaves its endless loop by itself, no signal is on its way, and the
  only possible step is the start of another inactivation.
\<close>

theorem agent_can_hang:
  assumes "A \<noteq> B" and "B \<noteq> nullptr"
  shows "\<exists>c. protocol_reachable (A # B # Qs) c \<and> worker c = W_Spin \<and> terminated c = {B} \<and>
    (\<forall>c'. protocol_step (A # B # Qs) c c' \<longrightarrow>
       worker c' = W_Spin \<and> \<not> pending c' \<and> (\<exists>Q. client c' = C_Announce Q))"
proof -
  let ?c = "\<lparr>worker = W_Spin, client = C_Idle, running = B, interrupting = False,
     pending = False, inactivated = {B}, terminated = {B}\<rparr>"
  have "worker c' = W_Spin \<and> \<not> pending c' \<and> (\<exists>Q. client c' = C_Announce Q)"
    if "protocol_step (A # B # Qs) ?c c'" for c'
    using that by (cases rule: protocol_step.cases) auto
  with reach_hang [OF assms, of Qs] show ?thesis by (intro exI [of _ ?c]) auto
qed

theorem agent_can_hang_witness:
  "\<exists>c. protocol_reachable [1, 2] c \<and> worker c = W_Spin \<and> terminated c = {2}"
  using agent_can_hang [of 1 2 "[]"] by auto

text \<open>
  C16. The interruption can hit the wrong queue: a state is reachable in which the inactivation of one
  queue has returned, the signal it sent is still pending and the worker is running another queue
  that nobody inactivated; the next step may throw the worker out of that queue.
\<close>

theorem wrong_queue_interrupted:
  assumes "A \<noteq> B" and "A \<noteq> nullptr"
  shows "\<exists>c. protocol_reachable (A # B # Qs) c \<and> worker c = W_Run B Qs \<and> B \<notin> inactivated c \<and>
    client c = C_Idle \<and> terminated c = {A} \<and>
    protocol_step (A # B # Qs) c (c\<lparr>worker := W_Landing, pending := False\<rparr>)"
proof -
  let ?c = "\<lparr>worker = W_Run B Qs, client = C_Idle, running = B, interrupting = False,
     pending = True, inactivated = {A}, terminated = {A}\<rparr>"
  have "protocol_step (A # B # Qs) ?c (?c\<lparr>worker := W_Landing, pending := False\<rparr>)"
    by (rule interrupt) simp
  with reach_wrong [OF assms, of Qs] assms(1) show ?thesis
    by (intro exI [of _ ?c]) auto
qed

theorem wrong_queue_interrupted_witness:
  "\<exists>c. protocol_reachable [1, 2] c \<and> worker c = W_Run 2 [] \<and> 2 \<notin> inactivated c"
  using wrong_queue_interrupted [of 1 2 "[]"] by auto

end
