(* ===== verification/Isa_System.thy ===== *)
theory Isa_System
  imports Agent_Dispatch
begin

text \<open>
  The registry of instruction set architectures (\<open>src/ISA.cc\<close>, \<open>src/hsa/hsa_isa.cc\<close>), the registry
  of extensions (\<open>src/ExtensionRegistry.cc\<close>) and the system queries (\<open>src/hsa/hsa_system.cc\<close>).
  \<open>std::hash<std::string>\<close> is the parameter \<open>hash\<close>.
\<close>

section \<open>Calling conventions and ISAs\<close>

record CallingConvention =
  cc_name :: string
  wavefrontSize :: u32
  wavefrontsPerComputeUnit :: u32

text \<open>An extension is known by its identifier, its version and the object that implements it.\<close>

record Version =
  Major :: u16
  Minor :: u16

record Extension =
  ext_version :: Version
  ext_object :: addr

text \<open>
  \<open>Extensions\<close> is the hash map of the extension registry in its iteration order; its keys are unique.
\<close>

record platform_state = agent_state +
  ISAMap :: "string \<rightharpoonup> CallingConvention list"
  HashToISAMap :: "u64 \<rightharpoonup> string"
  Extensions :: "(u64 \<times> Extension) list"

definition ISA_toHSAObject :: "(string \<Rightarrow> u64) \<Rightarrow> string \<Rightarrow> u64" where
  "ISA_toHSAObject hash Name = hash Name"

definition registerISA ::
  "(string \<Rightarrow> u64) \<Rightarrow> string \<Rightarrow> CallingConvention list \<Rightarrow> 'm platform_state_scheme \<Rightarrow>
   u64 \<times> 'm platform_state_scheme" where
  "registerISA hash Name CCs s =
     (let HSAObject = ISA_toHSAObject hash Name
      in (HSAObject, s\<lparr>ISAMap := (ISAMap s)(Name \<mapsto> CCs),
                       HashToISAMap := (HashToISAMap s)(HSAObject \<mapsto> Name)\<rparr>))"

text \<open>\<open>operator[]\<close> inserts an empty entry for an unknown key.\<close>

definition ISA_fromHSAObject ::
  "u64 \<Rightarrow> 'm platform_state_scheme \<Rightarrow> string \<times> 'm platform_state_scheme" where
  "ISA_fromHSAObject handle s =
     (case HashToISAMap s handle of
        Some Name \<Rightarrow> (Name, s)
      | None \<Rightarrow> ([], s\<lparr>HashToISAMap := (HashToISAMap s)(handle \<mapsto> [])\<rparr>))"

definition callingConventions ::
  "string \<Rightarrow> 'm platform_state_scheme \<Rightarrow> CallingConvention list \<times> 'm platform_state_scheme" where
  "callingConventions Name s =
     (case ISAMap s Name of
        Some CCs \<Rightarrow> (CCs, s)
      | None \<Rightarrow> ([], s\<lparr>ISAMap := (ISAMap s)(Name \<mapsto> [])\<rparr>))"

definition callingConventionCount ::
  "string \<Rightarrow> 'm platform_state_scheme \<Rightarrow> u32 \<times> 'm platform_state_scheme" where
  "callingConventionCount Name s =
     (let (CCs, s') = callingConventions Name s in (of_nat (length CCs), s'))"

definition hsa_isa_get_info ::
  "'m platform_state_scheme \<Rightarrow> u64 \<Rightarrow> hsa_isa_info_t \<Rightarrow> u32 \<Rightarrow> addr \<Rightarrow>
   hsa_status_t \<times> field option \<times> 'm platform_state_scheme" where
  "hsa_isa_get_info s isa attribute index value =
     (if \<not> isInitialized s then (HSA_STATUS_ERROR_NOT_INITIALIZED, None, s)
      else if isa = 0 then (HSA_STATUS_ERROR_INVALID_ISA, None, s)
      else if value = nullptr then (HSA_STATUS_ERROR_INVALID_ARGUMENT, None, s)
      else
        let (I, s1) = ISA_fromHSAObject isa s
        in if I = [] then (HSA_STATUS_ERROR_INVALID_ISA, None, s1)
           else
             let (count, s2) = callingConventionCount I s1; (CCs, s3) = callingConventions I s2
             in if count \<le> index then (HSA_STATUS_ERROR_INVALID_INDEX, None, s2)
                else case attribute of
                  HSA_ISA_INFO_NAME_LENGTH \<Rightarrow>
                    (HSA_STATUS_SUCCESS, Some (F_u32 (of_nat (length I))), s2)
                | HSA_ISA_INFO_NAME \<Rightarrow> (HSA_STATUS_SUCCESS, Some (F_string I (length I)), s2)
                | HSA_ISA_INFO_CALL_CONVENTION_COUNT \<Rightarrow> (HSA_STATUS_SUCCESS, Some (F_u32 count), s2)
                | HSA_ISA_INFO_CALL_CONVENTION_INFO_WAVEFRONT_SIZE \<Rightarrow>
                    (HSA_STATUS_SUCCESS, Some (F_u32 (wavefrontSize (CCs ! unat index))), s3)
                | HSA_ISA_INFO_CALL_CONVENTION_INFO_WAVEFRONTS_PER_COMPUTE_UNIT \<Rightarrow>
                    (HSA_STATUS_SUCCESS, Some (F_u32 (wavefrontsPerComputeUnit (CCs ! unat index))), s3)
                | hsa_isa_info_t_unlisted v \<Rightarrow> (HSA_STATUS_ERROR_INVALID_ARGUMENT, None, s2))"

text \<open>The second component is what is written through \<open>result\<close>: nothing, on every path.\<close>

definition hsa_isa_compatible :: "u64 \<Rightarrow> u64 \<Rightarrow> addr \<Rightarrow> hsa_status_t \<times> bool option" where
  "hsa_isa_compatible code_object_isa agent_isa result =
     (if code_object_isa = 0 \<or> agent_isa = 0 then (HSA_STATUS_ERROR_INVALID_ISA, None)
      else if result = nullptr then (HSA_STATUS_ERROR_INVALID_ARGUMENT, None)
      else (HSA_STATUS_SUCCESS, None))"

section \<open>Extensions\<close>

text \<open>\<open>insert\<close> leaves an existing entry alone.\<close>

definition registerExtension :: "u64 \<Rightarrow> Extension \<Rightarrow> 'm platform_state_scheme \<Rightarrow> 'm platform_state_scheme" where
  "registerExtension Ident E s =
     (if map_of (Extensions s) Ident = None then s\<lparr>Extensions := (Ident, E) # Extensions s\<rparr> else s)"

text \<open>
  \<open>equal_range\<close>: the positions of the first element of the range and of the one behind it; the range
  has one element or none, and \<open>end()\<close> is the position behind the last element of the map.
\<close>

fun position_of :: "u64 \<Rightarrow> (u64 \<times> 'b) list \<Rightarrow> nat" where
  "position_of Ident [] = 0"
| "position_of Ident ((k, v) # xs) = (if k = Ident then 0 else Suc (position_of Ident xs))"

definition findExtensions :: "u64 \<Rightarrow> 'm platform_state_scheme \<Rightarrow> nat \<times> nat" where
  "findExtensions Ident s =
     (let p = position_of Ident (Extensions s)
      in if p < length (Extensions s) then (p, Suc p) else (p, p))"

text \<open>\<open>std::find_if\<close> on a range of positions: the first match, or the end of the range.\<close>

fun find_position :: "(Extension \<Rightarrow> bool) \<Rightarrow> (u64 \<times> Extension) list \<Rightarrow> nat \<Rightarrow> nat \<Rightarrow> nat" where
  "find_position P xs First 0 = First"
| "find_position P xs First (Suc n) =
     (if P (snd (xs ! First)) then First else find_position P xs (Suc First) n)"

definition version_matches :: "u16 \<Rightarrow> u16 \<Rightarrow> Extension \<Rightarrow> bool" where
  "version_matches major minor E \<longleftrightarrow> Major (ext_version E) = major \<and> Minor (ext_version E) = minor"

definition hsa_system_extension_supported ::
  "'m platform_state_scheme \<Rightarrow> u16 \<Rightarrow> u16 \<Rightarrow> u16 \<Rightarrow> addr \<Rightarrow> (hsa_status_t \<times> bool option) outcome" where
  "hsa_system_extension_supported s extension version_major version_minor result =
     (if \<not> isInitialized s then Inr (HSA_STATUS_ERROR_NOT_INITIALIZED, None)
      else if result = nullptr then Inr (HSA_STATUS_ERROR_INVALID_ARGUMENT, None)
      else if 127 < extension then Inr (HSA_STATUS_ERROR_INVALID_ARGUMENT, None)
      else and_then (Runtime_get s) (\<lambda>_.
        let (First, End) = findExtensions (ucast extension) s
        in Inr (HSA_STATUS_SUCCESS, Some (list_ex (\<lambda>i. version_matches version_major version_minor
             (snd (Extensions s ! i))) [First..<End]))))"

text \<open>
  The result of the search is compared with the end of the registry instead of the end of the range.
  On success the table of the found extension is filled; the third component is that extension.
\<close>

definition hsa_system_get_extension_table ::
  "'m platform_state_scheme \<Rightarrow> u16 \<Rightarrow> u16 \<Rightarrow> u16 \<Rightarrow> addr \<Rightarrow> (hsa_status_t \<times> Extension option) outcome" where
  "hsa_system_get_extension_table s extension version_major version_minor table =
     (if table = nullptr then Inr (HSA_STATUS_ERROR_INVALID_ARGUMENT, None)
      else if \<not> isInitialized s then Inr (HSA_STATUS_ERROR_NOT_INITIALIZED, None)
      else and_then (Runtime_get s) (\<lambda>_.
        let (First, End) = findExtensions (ucast extension) s;
            Item = find_position (version_matches version_major version_minor) (Extensions s) First (End - First)
        in if Item = length (Extensions s) then Inr (HSA_STATUS_ERROR_INVALID_ARGUMENT, None)
           else Inr (HSA_STATUS_SUCCESS, Some (snd (Extensions s ! Item)))))"

text \<open>
  \<open>*((uint8_t * )value) |= 1 << Ident\<close>: only the first byte is ever written, and the shift of an \<open>int\<close>
  by 32 or more, or into the sign bit, is undefined; the result is cut to eight bits.
\<close>

definition extension_bit :: "u64 \<Rightarrow> u8 outcome" where
  "extension_bit Ident = (if Ident < 31 then Inr (ucast (push_bit (unat Ident) 1 :: u32)) else Inl Undefined_Behaviour)"

fun extension_byte :: "(u64 \<times> Extension) list \<Rightarrow> u8 \<Rightarrow> u8 outcome" where
  "extension_byte [] b = Inr b"
| "extension_byte ((Ident, E) # xs) b = and_then (extension_bit Ident) (\<lambda>x. extension_byte xs (b OR x))"

section \<open>The system query\<close>

definition HSA_VERSION_MAJOR :: u16 where
  "HSA_VERSION_MAJOR = 1"

definition HSA_VERSION_MINOR :: u16 where
  "HSA_VERSION_MINOR = 0"

text \<open>\<open>now\<close> is the reading of the clock, whose period is a nanosecond.\<close>

definition hsa_system_get_info ::
  "int \<Rightarrow> 'm platform_state_scheme \<Rightarrow> hsa_system_info_t \<Rightarrow> addr \<Rightarrow> (hsa_status_t \<times> field option) outcome" where
  "hsa_system_get_info now s attribute value =
     (if value = nullptr then Inr (HSA_STATUS_ERROR_INVALID_ARGUMENT, None)
      else if \<not> isInitialized s then Inr (HSA_STATUS_ERROR_NOT_INITIALIZED, None)
      else case attribute of
        HSA_SYSTEM_INFO_VERSION_MAJOR \<Rightarrow> Inr (HSA_STATUS_SUCCESS, Some (F_u16 HSA_VERSION_MAJOR))
      | HSA_SYSTEM_INFO_VERSION_MINOR \<Rightarrow> Inr (HSA_STATUS_SUCCESS, Some (F_u16 HSA_VERSION_MINOR))
      | HSA_SYSTEM_INFO_TIMESTAMP \<Rightarrow> Inr (HSA_STATUS_SUCCESS, Some (F_u64 (word_of_int now)))
      | HSA_SYSTEM_INFO_TIMESTAMP_FREQUENCY \<Rightarrow> Inr (HSA_STATUS_SUCCESS, Some (F_u64 1000000000))
      | HSA_SYSTEM_INFO_SIGNAL_MAX_WAIT \<Rightarrow> Inr (HSA_STATUS_SUCCESS, Some (F_u64 u64_max))
      | HSA_SYSTEM_INFO_ENDIANNESS \<Rightarrow>
          Inr (HSA_STATUS_SUCCESS, Some (F_u32 (hsa_endianness_t_value HSA_ENDIANNESS_LITTLE)))
      | HSA_SYSTEM_INFO_MACHINE_MODEL \<Rightarrow>
          Inr (HSA_STATUS_SUCCESS, Some (F_u32 (hsa_machine_model_t_value HSA_MACHINE_MODEL_LARGE)))
      | HSA_SYSTEM_INFO_EXTENSIONS \<Rightarrow>
          and_then (Runtime_get s) (\<lambda>_. and_then (extension_byte (Extensions s) 0) (\<lambda>b.
            Inr (HSA_STATUS_SUCCESS, Some (F_bytes (b # replicate 127 0)))))
      | hsa_system_info_t_unlisted v \<Rightarrow> Inr (HSA_STATUS_ERROR_INVALID_ARGUMENT, None))"

section \<open>Facts\<close>

lemma position_of_le: "position_of Ident xs \<le> length xs"
  by (induction Ident xs rule: position_of.induct) auto

lemma position_of_nth: "position_of Ident xs < length xs \<Longrightarrow> fst (xs ! position_of Ident xs) = Ident"
  by (induction Ident xs rule: position_of.induct) auto

lemma position_of_map_of:
  "position_of Ident xs < length xs \<longleftrightarrow> map_of xs Ident \<noteq> None"
  "position_of Ident xs < length xs \<Longrightarrow> map_of xs Ident = Some (snd (xs ! position_of Ident xs))"
  by (induction Ident xs rule: position_of.induct) auto

lemma extension_supported_eq:
  assumes "isInitialized s" and "Instance s \<noteq> nullptr" and "result \<noteq> nullptr" and "extension \<le> 127"
  shows "hsa_system_extension_supported s extension major minor result =
    Inr (HSA_STATUS_SUCCESS, Some (case map_of (Extensions s) (ucast extension) of
      None \<Rightarrow> False | Some E \<Rightarrow> version_matches major minor E))"
proof (cases "position_of (ucast extension) (Extensions s) < length (Extensions s)")
  case True
  with assms position_of_map_of(2) [OF True] show ?thesis
    by (simp add: hsa_system_extension_supported_def not_less Runtime_get_Inr findExtensions_def Let_def)
next
  case False
  with position_of_map_of(1) have "map_of (Extensions s) (ucast extension) = None" by blast
  with False assms show ?thesis
    by (simp add: hsa_system_extension_supported_def not_less Runtime_get_Inr findExtensions_def Let_def)
qed

lemma get_extension_table_eq:
  assumes "isInitialized s" and "Instance s \<noteq> nullptr" and "table \<noteq> nullptr"
  shows "hsa_system_get_extension_table s extension major minor table =
    Inr (let p = position_of (ucast extension) (Extensions s);
             q = (if p < length (Extensions s) \<and> \<not> version_matches major minor (snd (Extensions s ! p)) then Suc p else p)
         in if q = length (Extensions s) then (HSA_STATUS_ERROR_INVALID_ARGUMENT, None)
            else (HSA_STATUS_SUCCESS, Some (snd (Extensions s ! q))))"
proof (cases "position_of (ucast extension) (Extensions s) < length (Extensions s)")
  case True
  with assms show ?thesis
    by (cases "version_matches major minor (snd (Extensions s ! position_of (ucast extension) (Extensions s)))")
      (simp_all add: hsa_system_get_extension_table_def Runtime_get_Inr findExtensions_def Let_def)
next
  case False
  with assms position_of_le [of "ucast extension" "Extensions s"] show ?thesis
    by (simp add: hsa_system_get_extension_table_def Runtime_get_Inr findExtensions_def Let_def)
qed

lemma extension_byte_bits:
  assumes "\<forall>(Ident, E) \<in> set xs. Ident < 31"
  shows "extension_byte xs b = Inr (fold (\<lambda>(Ident, E) b. b OR ucast (push_bit (unat Ident) 1 :: u32)) xs b)"
  using assms by (induction xs arbitrary: b) (auto simp: extension_bit_def)

lemma extension_mask_high:
  assumes "8 \<le> unat Ident" shows "(ucast (push_bit (unat Ident) 1 :: u32) :: u8) = 0"
  by (rule bit_word_eqI) (use assms in \<open>auto simp: bit_simps\<close>)

end
