(* ===== verification/Agent_Info.thy ===== *)
theory Agent_Info
  imports Isa_System Queue_Api
begin

text \<open>
  What an agent reports about itself: the getters of \<open>Devices/CPU/CPUKernelAgent.hh\<close>, the queries of
  \<open>src/hsa/hsa_agent.cc\<close> and the iteration over agents and over their memory regions
  (\<open>src/hsa/hsa_region.cc\<close>). Every agent of this runtime is a kernel dispatch agent. An agent and a
  region map to the handle that is their address. The host's rounding mode is a parameter.
\<close>

section \<open>The getters\<close>

datatype rounding = FE_TONEAREST | FE_TOWARDZERO | FE_UPWARD | FE_DOWNWARD

definition getName :: "CPUKernelAgent \<Rightarrow> string" where
  "getName A = ''phsa generic CPU agent''"

definition getVendor :: "CPUKernelAgent \<Rightarrow> string" where
  "getVendor A = ''UNKNOWN''"

text \<open>The statement after the switch is a failing assertion.\<close>

fun getFloatRoundingMode :: "rounding \<Rightarrow> hsa_default_float_rounding_mode_t outcome" where
  "getFloatRoundingMode FE_TONEAREST = Inr HSA_DEFAULT_FLOAT_ROUNDING_MODE_NEAR"
| "getFloatRoundingMode FE_TOWARDZERO = Inr HSA_DEFAULT_FLOAT_ROUNDING_MODE_ZERO"
| "getFloatRoundingMode FE_UPWARD = Inl Assertion_Failure"
| "getFloatRoundingMode FE_DOWNWARD = Inl Assertion_Failure"

definition getProfile :: "CPUKernelAgent \<Rightarrow> hsa_profile_t" where
  "getProfile A = HSA_PROFILE_BASE"

definition getQueueMinSize :: "CPUKernelAgent \<Rightarrow> u32" where
  "getQueueMinSize A = 1"

definition getQueueMaxSize :: "CPUKernelAgent \<Rightarrow> u32" where
  "getQueueMaxSize A = 16"

definition getQueueType :: "CPUKernelAgent \<Rightarrow> hsa_queue_type_t" where
  "getQueueType A = HSA_QUEUE_TYPE_MULTI"

definition getNUMAId :: "CPUKernelAgent \<Rightarrow> u32" where
  "getNUMAId A = 0"

definition getDeviceType :: "CPUKernelAgent \<Rightarrow> hsa_device_type_t" where
  "getDeviceType A = HSA_DEVICE_TYPE_CPU"

definition getCacheSize :: "CPUKernelAgent \<Rightarrow> u32 list" where
  "getCacheSize A = [16 * 1024, 0, 0, 0]"

definition getComputeUnitCount :: "CPUKernelAgent \<Rightarrow> u32" where
  "getComputeUnitCount A = 1"

definition getISA :: "CPUKernelAgent \<Rightarrow> string" where
  "getISA A = AgentISA A"

definition getVersion :: "CPUKernelAgent \<Rightarrow> Version" where
  "getVersion A = \<lparr>Major = 1, Minor = 0\<rparr>"

definition hasFastF16Operation :: "CPUKernelAgent \<Rightarrow> bool" where
  "hasFastF16Operation A = False"

definition getWavefrontSize :: "CPUKernelAgent \<Rightarrow> u32" where
  "getWavefrontSize A = 1"

definition u16_max :: u16 where "u16_max = 0xFFFF"

definition u32_max :: u32 where "u32_max = 0xFFFFFFFF"

definition getWorkGroupMaxDim :: "CPUKernelAgent \<Rightarrow> u16 list" where
  "getWorkGroupMaxDim A = [u16_max, u16_max, u16_max]"

definition getWorkGroupMaxSize :: "CPUKernelAgent \<Rightarrow> u32" where
  "getWorkGroupMaxSize A = u32_max div 4"

definition getGridMaxDim :: "CPUKernelAgent \<Rightarrow> u32 \<times> u32 \<times> u32" where
  "getGridMaxDim A = (u32_max, u32_max, u32_max)"

definition getGridMaxSize :: "CPUKernelAgent \<Rightarrow> u32" where
  "getGridMaxSize A = u32_max"

definition getFBarrierMaxSize :: "CPUKernelAgent \<Rightarrow> u32" where
  "getFBarrierMaxSize A = 32"

section \<open>The query\<close>

definition NAME_MAX_LENGTH :: nat where
  "NAME_MAX_LENGTH = 64"

text \<open>
  The switch: what is written for each attribute (nothing for the extensions), \<open>None\<close> for an attribute
  that it does not list. The runtime is built for the large machine model.
\<close>

definition agent_attribute ::
  "(string \<Rightarrow> u64) \<Rightarrow> rounding \<Rightarrow> CPUKernelAgent \<Rightarrow> hsa_agent_info_t \<Rightarrow> field option option outcome" where
  "agent_attribute hash mode A attribute =
     (case attribute of
        HSA_AGENT_INFO_NAME \<Rightarrow> Inr (Some (Some (F_string (getName A) NAME_MAX_LENGTH)))
      | HSA_AGENT_INFO_VENDOR_NAME \<Rightarrow> Inr (Some (Some (F_string (getVendor A) NAME_MAX_LENGTH)))
      | HSA_AGENT_INFO_FEATURE \<Rightarrow>
          Inr (Some (Some (F_u32 (hsa_agent_feature_t_value HSA_AGENT_FEATURE_KERNEL_DISPATCH))))
      | HSA_AGENT_INFO_MACHINE_MODEL \<Rightarrow>
          Inr (Some (Some (F_u32 (hsa_machine_model_t_value HSA_MACHINE_MODEL_LARGE))))
      | HSA_AGENT_INFO_PROFILE \<Rightarrow> Inr (Some (Some (F_u32 (hsa_profile_t_value (getProfile A)))))
      | HSA_AGENT_INFO_DEFAULT_FLOAT_ROUNDING_MODE \<Rightarrow>
          and_then (getFloatRoundingMode mode) (\<lambda>m.
            Inr (Some (Some (F_u32 (hsa_default_float_rounding_mode_t_value m)))))
      | HSA_AGENT_INFO_BASE_PROFILE_DEFAULT_FLOAT_ROUNDING_MODES \<Rightarrow>
          and_then (getFloatRoundingMode mode) (\<lambda>m.
            Inr (Some (Some (F_u32 (hsa_default_float_rounding_mode_t_value m)))))
      | HSA_AGENT_INFO_FAST_F16_OPERATION \<Rightarrow> Inr (Some (Some (F_bool (hasFastF16Operation A))))
      | HSA_AGENT_INFO_WAVEFRONT_SIZE \<Rightarrow> Inr (Some (Some (F_u32 (getWavefrontSize A))))
      | HSA_AGENT_INFO_WORKGROUP_MAX_DIM \<Rightarrow> Inr (Some (Some (F_array16 (getWorkGroupMaxDim A))))
      | HSA_AGENT_INFO_WORKGROUP_MAX_SIZE \<Rightarrow> Inr (Some (Some (F_u32 (getWorkGroupMaxSize A))))
      | HSA_AGENT_INFO_GRID_MAX_DIM \<Rightarrow>
          (let (x, y, z) = getGridMaxDim A in Inr (Some (Some (F_dim3 x y z))))
      | HSA_AGENT_INFO_GRID_MAX_SIZE \<Rightarrow> Inr (Some (Some (F_u32 (getGridMaxSize A))))
      | HSA_AGENT_INFO_FBARRIER_MAX_SIZE \<Rightarrow> Inr (Some (Some (F_u32 (getFBarrierMaxSize A))))
      | HSA_AGENT_INFO_QUEUES_MAX \<Rightarrow> Inr (Some (Some (F_u32 (getQueuesMax A))))
      | HSA_AGENT_INFO_QUEUE_MIN_SIZE \<Rightarrow> Inr (Some (Some (F_u32 (getQueueMinSize A))))
      | HSA_AGENT_INFO_QUEUE_MAX_SIZE \<Rightarrow> Inr (Some (Some (F_u32 (getQueueMaxSize A))))
      | HSA_AGENT_INFO_QUEUE_TYPE \<Rightarrow> Inr (Some (Some (F_u32 (hsa_queue_type_t_value (getQueueType A)))))
      | HSA_AGENT_INFO_NODE \<Rightarrow> Inr (Some (Some (F_u32 (getNUMAId A))))
      | HSA_AGENT_INFO_DEVICE \<Rightarrow> Inr (Some (Some (F_u32 (hsa_device_type_t_value (getDeviceType A)))))
      | HSA_AGENT_INFO_CACHE_SIZE \<Rightarrow> Inr (Some (Some (F_array32 (getCacheSize A))))
      | HSA_AGENT_INFO_ISA \<Rightarrow> Inr (Some (Some (F_u64 (ISA_toHSAObject hash (getISA A)))))
      | HSA_AGENT_INFO_EXTENSIONS \<Rightarrow> Inr (Some None)
      | HSA_AGENT_INFO_VERSION_MAJOR \<Rightarrow> Inr (Some (Some (F_u16 (Major (getVersion A)))))
      | HSA_AGENT_INFO_VERSION_MINOR \<Rightarrow> Inr (Some (Some (F_u16 (Minor (getVersion A)))))
      | HSA_AMD_AGENT_INFO_COMPUTE_UNIT_COUNT \<Rightarrow> Inr (Some (Some (F_u32 (getComputeUnitCount A))))
      | hsa_agent_info_t_unlisted v \<Rightarrow> Inr None)"

text \<open>The agent is looked up first, whether the runtime is initialised or not.\<close>

definition hsa_agent_get_info ::
  "(string \<Rightarrow> u64) \<Rightarrow> rounding \<Rightarrow> 'm agent_state_scheme \<Rightarrow> u64 \<Rightarrow> hsa_agent_info_t \<Rightarrow> addr \<Rightarrow>
   (hsa_status_t \<times> field option) outcome" where
  "hsa_agent_get_info hash mode s agent attribute value =
     (let A = fromHSAObject (AgentRegistry s) agent
      in if \<not> isInitialized s then Inr (HSA_STATUS_ERROR_NOT_INITIALIZED, None)
         else if A = nullptr then Inr (HSA_STATUS_ERROR_INVALID_AGENT, None)
         else if value = nullptr then Inr (HSA_STATUS_ERROR_INVALID_ARGUMENT, None)
         else and_then (deref (KernelAgents s) A) (\<lambda>Agent.
           and_then (agent_attribute hash mode Agent attribute) (\<lambda>r.
             case r of None \<Rightarrow> Inr (HSA_STATUS_ERROR_INVALID_ARGUMENT, None)
             | Some w \<Rightarrow> Inr (HSA_STATUS_SUCCESS, w))))"

section \<open>Iteration\<close>

text \<open>A null callback is \<open>None\<close>.\<close>

definition hsa_iterate_agents ::
  "'m agent_state_scheme \<Rightarrow> (u64 \<Rightarrow> 'd \<Rightarrow> hsa_status_t \<times> 'd) option \<Rightarrow> 'd \<Rightarrow> (hsa_status_t \<times> 'd) outcome" where
  "hsa_iterate_agents s callback data =
     (if \<not> isInitialized s then Inr (HSA_STATUS_ERROR_NOT_INITIALIZED, data)
      else case callback of
        None \<Rightarrow> Inr (HSA_STATUS_ERROR_INVALID_ARGUMENT, data)
      | Some f \<Rightarrow> and_then (Runtime_get s) (\<lambda>_. Inr (iterate_callback f (RtAgents s) data)))"

definition hsa_agent_iterate_regions ::
  "'m agent_state_scheme \<Rightarrow> u64 \<Rightarrow> (u64 \<Rightarrow> 'd \<Rightarrow> hsa_status_t \<times> 'd) option \<Rightarrow> 'd \<Rightarrow>
   (hsa_status_t \<times> 'd) outcome" where
  "hsa_agent_iterate_regions s agent callback data =
     (if \<not> isInitialized s then Inr (HSA_STATUS_ERROR_NOT_INITIALIZED, data)
      else case callback of
        None \<Rightarrow> Inr (HSA_STATUS_ERROR_INVALID_ARGUMENT, data)
      | Some f \<Rightarrow>
          let A = fromHSAObject (AgentRegistry s) agent
          in if A = nullptr then Inr (HSA_STATUS_ERROR_INVALID_AGENT, data)
             else and_then (deref (KernelAgents s) A) (\<lambda>Agent.
               Inr (iterate_callback f (AgentRegions Agent) data)))"

section \<open>Queries that write nothing\<close>

definition hsa_agent_get_exception_policies ::
  "'m agent_state_scheme \<Rightarrow> u64 \<Rightarrow> hsa_profile_t \<Rightarrow> addr \<Rightarrow> hsa_status_t \<times> u16 option" where
  "hsa_agent_get_exception_policies s agent profile mask' =
     (let A = fromHSAObject (AgentRegistry s) agent
      in if \<not> isInitialized s then (HSA_STATUS_ERROR_NOT_INITIALIZED, None)
         else if A = nullptr then (HSA_STATUS_ERROR_INVALID_AGENT, None)
         else if mask' = nullptr \<or> (profile \<noteq> HSA_PROFILE_BASE \<and> profile \<noteq> HSA_PROFILE_FULL)
         then (HSA_STATUS_ERROR_INVALID_ARGUMENT, None)
         else (HSA_STATUS_SUCCESS, None))"

definition hsa_agent_extension_supported ::
  "'m agent_state_scheme \<Rightarrow> u16 \<Rightarrow> u64 \<Rightarrow> u16 \<Rightarrow> u16 \<Rightarrow> addr \<Rightarrow> hsa_status_t \<times> bool option" where
  "hsa_agent_extension_supported s extension agent version_major version_minor result =
     (let A = fromHSAObject (AgentRegistry s) agent
      in if \<not> isInitialized s then (HSA_STATUS_ERROR_NOT_INITIALIZED, None)
         else if 127 < extension then (HSA_STATUS_ERROR_INVALID_ARGUMENT, None)
         else if A = nullptr then (HSA_STATUS_ERROR_INVALID_AGENT, None)
         else if result = nullptr then (HSA_STATUS_ERROR_INVALID_ARGUMENT, None)
         else (HSA_STATUS_SUCCESS, None))"

section \<open>What the client's buffer must hold\<close>

text \<open>The sizes that the documentation of \<open>hsa_agent_info_t\<close> gives for the attributes.\<close>

fun documented_size :: "hsa_agent_info_t \<Rightarrow> nat" where
  "documented_size HSA_AGENT_INFO_NAME = 64"
| "documented_size HSA_AGENT_INFO_VENDOR_NAME = 64"
| "documented_size HSA_AGENT_INFO_FAST_F16_OPERATION = 1"
| "documented_size HSA_AGENT_INFO_WORKGROUP_MAX_DIM = 6"
| "documented_size HSA_AGENT_INFO_GRID_MAX_DIM = 12"
| "documented_size HSA_AGENT_INFO_CACHE_SIZE = 16"
| "documented_size HSA_AGENT_INFO_ISA = 8"
| "documented_size HSA_AGENT_INFO_EXTENSIONS = 128"
| "documented_size HSA_AGENT_INFO_VERSION_MAJOR = 2"
| "documented_size HSA_AGENT_INFO_VERSION_MINOR = 2"
| "documented_size (hsa_agent_info_t_unlisted v) = 0"
| "documented_size a = 4"

lemmas agent_getters =
  getName_def getVendor_def getProfile_def getQueueMinSize_def getQueueMaxSize_def getQueueType_def
  getNUMAId_def getDeviceType_def getCacheSize_def getComputeUnitCount_def getISA_def getVersion_def
  hasFastF16Operation_def getWavefrontSize_def getWorkGroupMaxDim_def getWorkGroupMaxSize_def
  getGridMaxDim_def getGridMaxSize_def getFBarrierMaxSize_def getQueuesMax_def NAME_MAX_LENGTH_def

lemma agent_attribute_size:
  assumes "agent_attribute hash mode A attribute = Inr (Some (Some w))"
  shows "field_size w = documented_size attribute"
proof (cases attribute)
qed (use assms in \<open>auto simp: agent_attribute_def agent_getters outcome_simps\<close>)

lemma agent_attribute_listed:
  assumes "mode = FE_TONEAREST \<or> mode = FE_TOWARDZERO"
  shows "\<exists>r. agent_attribute hash mode A attribute = Inr r \<and>
    (r = None \<longleftrightarrow> (\<exists>v. attribute = hsa_agent_info_t_unlisted v)) \<and>
    (r = Some None \<longleftrightarrow> attribute = HSA_AGENT_INFO_EXTENSIONS)"
proof (cases attribute)
qed (use assms in \<open>auto simp: agent_attribute_def getGridMaxDim_def\<close>)

lemma get_info_eq:
  assumes "isInitialized s" and "fromHSAObject (AgentRegistry s) agent = p" and "p \<noteq> nullptr"
    and "KernelAgents s p = Some A" and "value \<noteq> nullptr"
  shows "hsa_agent_get_info hash mode s agent attribute value =
    and_then (agent_attribute hash mode A attribute) (\<lambda>r.
      case r of None \<Rightarrow> Inr (HSA_STATUS_ERROR_INVALID_ARGUMENT, None)
      | Some w \<Rightarrow> Inr (HSA_STATUS_SUCCESS, w))"
  using assms by (simp add: hsa_agent_get_info_def deref_Some)

section \<open>Properties\<close>

definition info_agent :: CPUKernelAgent where
  "info_agent = \<lparr>AgentQueues = [], AgentRegions = [0x100, 0x110], KernargRegion = 0, UMQRegion = 0,
     GroupMemoryRegion = 0x110, QueueRegion = 0x100, AgentISA = ''host-isa'', RunningQueue = 0,
     InterruptingTheQueue = False\<rparr>"

definition info_state :: agent_state where
  "info_state = \<lparr>ReferenceCounter = 1, Instance = 0x10, HostHeap = [], RegionRegistry = [], CPURegions = Map.empty,
     MemoryRegions = [0x100, 0x110], SignalRegistry = [], Signals = Map.empty, SignalValues = Map.empty,
     QueueRegistry = [], Queues = Map.empty, Buffers = Map.empty, SymbolRegistry = [], SymbolObjects = Map.empty,
     Memory = (\<lambda>a. 0), AgentRegistry = [(0x200, 0x200), (0x208, 0x208), (0x210, 0x210)], KernelAgents = [0x200 \<mapsto> info_agent],
     RtAgents = [0x200, 0x208, 0x210], ShutDown = False, Events = []\<rparr>"

text \<open>
  C25. A query of a registered agent never writes outside the buffer that the documentation of the
  attribute asks the client for: it succeeds exactly for the listed attributes, and what it writes has
  exactly the documented size, except that nothing at all is written for the extensions.
\<close>

theorem agent_query_fits_buffer:
  assumes "isInitialized s" and "fromHSAObject (AgentRegistry s) agent = p" and "p \<noteq> nullptr"
    and "KernelAgents s p = Some A" and "dest \<noteq> nullptr" and "mode = FE_TONEAREST \<or> mode = FE_TOWARDZERO"
  shows "\<exists>Status written. hsa_agent_get_info hash mode s agent attribute dest = Inr (Status, written) \<and>
    Status = (if \<exists>v. attribute = hsa_agent_info_t_unlisted v then HSA_STATUS_ERROR_INVALID_ARGUMENT
              else HSA_STATUS_SUCCESS) \<and>
    map_option field_size written =
      (if (\<exists>v. attribute = hsa_agent_info_t_unlisted v) \<or> attribute = HSA_AGENT_INFO_EXTENSIONS then None
       else Some (documented_size attribute))"
proof -
  obtain r where r: "agent_attribute hash mode A attribute = Inr r"
    "r = None \<longleftrightarrow> (\<exists>v. attribute = hsa_agent_info_t_unlisted v)"
    "r = Some None \<longleftrightarrow> attribute = HSA_AGENT_INFO_EXTENSIONS"
    using agent_attribute_listed [OF assms(6)] by blast
  note eq = get_info_eq [OF assms(1-5), of hash mode attribute]
  show ?thesis
  proof (cases r)
    case None
    with r eq show ?thesis by auto
  next
    case (Some w)
    then show ?thesis
    proof (cases w)
      case None
      with Some r eq show ?thesis by auto
    next
      case (Some f)
      with \<open>r = Some w\<close> r(1) have "field_size f = documented_size attribute"
        using agent_attribute_size by blast
      with Some \<open>r = Some w\<close> r eq show ?thesis by auto
    qed
  qed
qed

theorem agent_query_fits_buffer_witness:
  "\<exists>Status written. hsa_agent_get_info (\<lambda>n. 7) FE_TONEAREST info_state 0x200 HSA_AGENT_INFO_NAME 0x900 = Inr (Status, written) \<and>
    Status = HSA_STATUS_SUCCESS \<and> map_option field_size written = Some 64"
  using agent_query_fits_buffer [where s = info_state and agent = "0x200" and p = "0x200" and A = info_agent
      and hash = "\<lambda>n. 7" and mode = FE_TONEAREST and attribute = HSA_AGENT_INFO_NAME and dest = "0x900"]
  by (simp add: info_state_def isInitialized_def fromHSAObject_def)

text \<open>
  The iteration over the agents calls the callback on the agents in the order in which they were
  registered, threads the client's data through the calls, and returns as soon as a call does not
  report success, with the status of that call; the agents behind it are not visited.
\<close>

theorem agents_visited_until_stopped:
  assumes "isInitialized s" and "Instance s \<noteq> nullptr" and "RtAgents s = before @ A # later"
    and "\<And>x d. x \<in> set before \<Longrightarrow> fst (f x d) = HSA_STATUS_SUCCESS"
    and "fst (f A (fold (\<lambda>x d. snd (f x d)) before data)) \<noteq> HSA_STATUS_SUCCESS"
  shows "hsa_iterate_agents s (Some f) data = Inr (f A (fold (\<lambda>x d. snd (f x d)) before data))"
proof -
  have "iterate_callback f (RtAgents s) data = f A (fold (\<lambda>x d. snd (f x d)) before data)"
    unfolding assms(3) by (rule iterate_stops) (use assms(4,5) in auto)
  with assms(1,2) show ?thesis by (simp add: hsa_iterate_agents_def Runtime_get_Inr)
qed

theorem agents_visited_until_stopped_witness:
  "hsa_iterate_agents info_state
     (Some (\<lambda>x d. (if x = 0x208 then HSA_STATUS_INFO_BREAK else HSA_STATUS_SUCCESS, d @ [x]))) [] =
   Inr (HSA_STATUS_INFO_BREAK, [0x200, 0x208])"
  using agents_visited_until_stopped [where s = info_state and before = "[0x200]" and A = "0x208" and later = "[0x210]"
      and f = "\<lambda>x d. (if x = 0x208 then HSA_STATUS_INFO_BREAK else HSA_STATUS_SUCCESS, d @ [x])" and data = "[]"]
  by (simp add: info_state_def isInitialized_def)

end
