(* ===== verification/Bytes.thy ===== *)
theory Bytes
  imports Prelude
begin

text \<open>
  Objects in memory as bytes: the host is little-endian, \<open>memcpy\<close> of an integer copies its bytes from
  the lowest to the highest.
\<close>

section \<open>Little-endian numbers\<close>

fun le_nat :: "u8 list \<Rightarrow> nat" where
  "le_nat [] = 0"
| "le_nat (b # bs) = unat b + 256 * le_nat bs"

fun le_bytes :: "nat \<Rightarrow> nat \<Rightarrow> u8 list" where
  "le_bytes 0 v = []"
| "le_bytes (Suc n) v = of_nat (v mod 256) # le_bytes n (v div 256)"

lemma length_le_bytes [simp]: "length (le_bytes n v) = n"
  by (induction n v rule: le_bytes.induct) auto

lemma unat_u8_of_nat: "v < 256 \<Longrightarrow> unat (of_nat v :: u8) = v"
  by (simp add: unat_of_nat)

lemma le_nat_le_bytes: "le_nat (le_bytes n v) = v mod 256 ^ n"
proof (induction n v rule: le_bytes.induct)
  case (2 n v)
  have "v mod 256 ^ Suc n = v mod 256 + 256 * (v div 256 mod 256 ^ n)"
    by (simp add: mod_mult2_eq)
  with 2 show ?case by (simp add: unat_u8_of_nat)
qed simp

lemma le_nat_less: "le_nat bs < 256 ^ length bs"
proof (induction bs)
  case (Cons b bs)
  have "unat b < 256" using unsigned_less [of b] by simp
  moreover have "256 * Suc (le_nat bs) \<le> 256 * 256 ^ length bs"
    using Cons by (intro mult_le_mono2) simp
  ultimately show ?case by simp
qed simp

lemma le_bytes_le_nat: "le_bytes (length bs) (le_nat bs) = bs"
proof (induction bs)
  case (Cons b bs)
  have b: "unat b < 256" using unsigned_less [of b] by simp
  then have "(unat b + 256 * le_nat bs) mod 256 = unat b" "(unat b + 256 * le_nat bs) div 256 = le_nat bs"
    by simp_all
  with Cons show ?case by simp
qed simp

definition u32_bytes :: "u32 \<Rightarrow> u8 list" where
  "u32_bytes v = le_bytes 4 (unat v)"

definition u64_bytes :: "u64 \<Rightarrow> u8 list" where
  "u64_bytes v = le_bytes 8 (unat v)"

definition bytes_u16 :: "u8 list \<Rightarrow> u16" where
  "bytes_u16 bs = of_nat (le_nat bs)"

definition bytes_u32 :: "u8 list \<Rightarrow> u32" where
  "bytes_u32 bs = of_nat (le_nat bs)"

definition bytes_u64 :: "u8 list \<Rightarrow> u64" where
  "bytes_u64 bs = of_nat (le_nat bs)"

lemma length_u32_bytes [simp]: "length (u32_bytes v) = 4"
  by (simp add: u32_bytes_def)

lemma length_u64_bytes [simp]: "length (u64_bytes v) = 8"
  by (simp add: u64_bytes_def)

lemma bytes_u32_bytes [simp]: "bytes_u32 (u32_bytes v) = v"
proof -
  have "unat v < 2 ^ 32" using unsigned_less [of v] by simp
  then have "unat v mod 256 ^ 4 = unat v" by (intro mod_less) simp
  then show ?thesis by (simp add: bytes_u32_def u32_bytes_def le_nat_le_bytes)
qed

lemma bytes_u64_bytes [simp]: "bytes_u64 (u64_bytes v) = v"
proof -
  have "unat v < 2 ^ 64" by (rule unat_u64_lt)
  then have "unat v mod 256 ^ 8 = unat v" by (intro mod_less) simp
  then show ?thesis by (simp add: bytes_u64_def u64_bytes_def le_nat_le_bytes)
qed

section \<open>Memory\<close>

type_synonym memory = "addr \<Rightarrow> u8"

definition load_bytes :: "memory \<Rightarrow> addr \<Rightarrow> nat \<Rightarrow> u8 list" where
  "load_bytes M a n = map (\<lambda>i. M (a + of_nat i)) [0..<n]"

fun store_bytes :: "memory \<Rightarrow> addr \<Rightarrow> u8 list \<Rightarrow> memory" where
  "store_bytes M a [] = M"
| "store_bytes M a (b # bs) = store_bytes (M(a := b)) (a + 1) bs"

definition load_u8 :: "memory \<Rightarrow> addr \<Rightarrow> u8" where
  "load_u8 M a = M a"

definition load_u16 :: "memory \<Rightarrow> addr \<Rightarrow> u16" where
  "load_u16 M a = bytes_u16 (load_bytes M a 2)"

definition load_u32 :: "memory \<Rightarrow> addr \<Rightarrow> u32" where
  "load_u32 M a = bytes_u32 (load_bytes M a 4)"

definition load_u64 :: "memory \<Rightarrow> addr \<Rightarrow> u64" where
  "load_u64 M a = bytes_u64 (load_bytes M a 8)"

definition store_u64 :: "memory \<Rightarrow> addr \<Rightarrow> u64 \<Rightarrow> memory" where
  "store_u64 M a v = store_bytes M a (u64_bytes v)"

lemma length_load_bytes [simp]: "length (load_bytes M a n) = n"
  by (simp add: load_bytes_def)

lemma load_bytes_0 [simp]: "load_bytes M a 0 = []"
  by (simp add: load_bytes_def)

lemma load_bytes_Suc: "load_bytes M a (Suc n) = M a # load_bytes M (a + 1) n"
proof -
  have "map (\<lambda>i. M (a + of_nat i)) [0..<Suc n] = M a # map (\<lambda>i. M (a + of_nat (Suc i))) [0..<n]"
    by (simp add: map_upt_Suc del: upt_Suc)
  then show ?thesis by (simp add: load_bytes_def add.assoc)
qed

lemma load_bytes_append:
  "load_bytes M a (m + n) = load_bytes M a m @ load_bytes M (a + of_nat m) n"
  by (induction m arbitrary: a) (simp_all add: load_bytes_Suc add.assoc)

lemma store_bytes_outside:
  assumes "\<forall>i < length bs. x \<noteq> a + of_nat i"
  shows "store_bytes M a bs x = M x"
  using assms
proof (induction bs arbitrary: M a)
  case (Cons b bs)
  have "x \<noteq> a" using Cons.prems [rule_format, of 0] by simp
  moreover have "\<forall>i < length bs. x \<noteq> (a + 1) + of_nat i"
  proof (intro allI impI)
    fix i assume "i < length bs"
    with Cons.prems [rule_format, of "Suc i"] show "x \<noteq> (a + 1) + of_nat i"
      by (simp add: add.assoc)
  qed
  ultimately show ?case by (simp add: Cons.IH)
qed simp

lemma load_store_bytes:
  assumes "length bs \<le> 2 ^ 64"
  shows "load_bytes (store_bytes M a bs) a (length bs) = bs"
  using assms
proof (induction bs arbitrary: M a)
  case (Cons b bs)
  have "a \<noteq> (a + 1) + of_nat i" if i: "i < length bs" for i
  proof
    assume eq: "a = (a + 1) + of_nat i"
    then have "(of_nat (Suc i) :: u64) = 0" by (simp add: add.assoc)
    then have "unat (of_nat (Suc i) :: u64) = 0" by (simp only: unsigned_0)
    then have "(Suc i) mod 2 ^ 64 = 0" by (simp only: unat_of_nat) simp
    with i Cons.prems show False by simp
  qed
  then have "store_bytes (M(a := b)) (a + 1) bs a = b"
    by (subst store_bytes_outside) auto
  with Cons show ?case by (simp add: load_bytes_Suc)
qed simp

end
