(* ===== verification/Hsail_Program.thy ===== *)
theory Hsail_Program
  imports Agent_Info Bytes
begin

text \<open>
  Programs that wait for their finalization: \<open>HSAILProgram\<close>, the factory operations of \<open>Finalizer\<close>
  and the entry points of \<open>src/hsa/hsa_finalize.cc\<close> other than the finalization itself, with the scan
  of a BRIG module in the client's memory. The state of the code objects and executables is declared
  here as well, because the later theories extend no record any more.
\<close>

section \<open>State\<close>

record HSAILProgram =
  BRIGs :: "addr list"
  TempFiles :: "string list"
  MachineModel :: hsa_machine_model_t
  Profile :: hsa_profile_t
  DefaultRoundingMode :: hsa_default_float_rounding_mode_t

text \<open>
  A finalized program; \<open>FuncDescriptors\<close> maps a function to the bytes of its descriptor, in the
  iteration order of the hash map. \<open>Dlhandle\<close> is the handle of the loaded library.
\<close>

record FinalizedProgram =
  ProgSymbols :: "addr list"
  Parent :: addr
  IsValid :: bool
  BinaryFileName :: string
  ELFBlob :: "u8 list"
  FuncDescriptors :: "(string \<times> u8 list) list"
  CodeMachineModel :: hsa_machine_model_t
  CodeProfile :: hsa_profile_t
  CodeRoundingMode :: hsa_default_float_rounding_mode_t
  CodeISA :: u64
  CodeVersion :: u32
  Dlhandle :: addr

record Executable =
  ExecSymbols :: "addr list"
  SymbolsByName :: "string \<rightharpoonup> addr"
  DefinedSymbols :: "(string \<times> u64) list"
  IsFrozen :: bool
  ExecProfile :: hsa_profile_t

text \<open>
  \<open>Files\<close> is the file system; \<open>FreshNames\<close> is the supply of names for temporary files and directories.
  \<open>DebugMode\<close> is the static variable of \<open>common/Debug.cc\<close>: 0 not asked yet, 1 on, 2 off.
\<close>

record program_state = platform_state +
  ProgramRegistry :: registry
  HSAILPrograms :: "addr \<rightharpoonup> HSAILProgram"
  CodeRegistry :: registry
  FinalizedPrograms :: "addr \<rightharpoonup> FinalizedProgram"
  ExecutableRegistry :: registry
  Executables :: "addr \<rightharpoonup> Executable"
  Files :: "string \<rightharpoonup> u8 list"
  FreshNames :: "string list"
  DebugMode :: nat

text \<open>
  The parsed form of an ELF image: its version, its sections by name with their raw data, and its symbol
  table when it has one, the names with the \<open>st_info\<close> bytes.
\<close>

record elf_image =
  e_version :: u32
  elf_sections :: "(string \<times> u8 list) list"
  elf_symtab :: "(string \<times> u8) list option"

text \<open>
  What the code asks of the host: environment variables, whether a file can be opened for writing, the
  shell, \<open>libelf\<close> and the dynamic loader. \<open>dlopen\<close> yields null on an error, \<open>dlsym\<close> \<open>None\<close>.
\<close>

record host =
  getenv :: "string \<Rightarrow> string option"
  can_open :: "string \<Rightarrow> bool"
  run_command :: "string \<Rightarrow> (string \<rightharpoonup> u8 list) \<Rightarrow> i32 \<times> (string \<rightharpoonup> u8 list)"
  parse_elf :: "u8 list \<Rightarrow> elf_image option"
  dlopen :: "(string \<rightharpoonup> u8 list) \<Rightarrow> string \<Rightarrow> addr"
  dlsym :: "addr \<Rightarrow> string \<Rightarrow> addr option"

section \<open>Debug mode\<close>

definition IsDebugMode :: "host \<Rightarrow> 'm program_state_scheme \<Rightarrow> bool \<times> 'm program_state_scheme" where
  "IsDebugMode H s =
     (if DebugMode s = 1 then (True, s)
      else if DebugMode s = 0 then
        (if getenv H ''PHSA_DEBUG_MODE'' = Some ''1'' then (True, s\<lparr>DebugMode := 1\<rparr>)
         else (False, s\<lparr>DebugMode := 2\<rparr>))
      else (False, s))"

section \<open>Programs\<close>

definition HSAILProgram_new ::
  "hsa_machine_model_t \<Rightarrow> hsa_profile_t \<Rightarrow> hsa_default_float_rounding_mode_t \<Rightarrow>
   'm program_state_scheme \<Rightarrow> (addr \<times> 'm program_state_scheme) outcome" where
  "HSAILProgram_new MM P RM s =
     and_then (operator_new s) (\<lambda>(this, s1).
       Inr (this, s1\<lparr>
         HSAILPrograms := (HSAILPrograms s1)(this \<mapsto>
           \<lparr>BRIGs = [], TempFiles = [], MachineModel = MM, Profile = P, DefaultRoundingMode = RM\<rparr>),
         ProgramRegistry := registerObject (ProgramRegistry s1) this this\<rparr>))"

text \<open>The destructor removes the temporary files, unless the debug mode is on.\<close>

fun unlink_all :: "string list \<Rightarrow> (string \<rightharpoonup> u8 list) \<Rightarrow> (string \<rightharpoonup> u8 list)" where
  "unlink_all [] fs = fs"
| "unlink_all (FName # FNames) fs = unlink_all FNames (fs(FName := None))"

definition HSAILProgram_delete ::
  "host \<Rightarrow> addr \<Rightarrow> 'm program_state_scheme \<Rightarrow> 'm program_state_scheme outcome" where
  "HSAILProgram_delete H this s =
     (if this = nullptr then Inr s
      else and_then (deref (HSAILPrograms s) this) (\<lambda>P.
        let (debug, s1) = IsDebugMode H s;
            s2 = (if debug then s1 else s1\<lparr>Files := unlink_all (TempFiles P) (Files s1)\<rparr>)
        in Inr (s2\<lparr>HSAILPrograms := (HSAILPrograms s2)(this := None),
                   ProgramRegistry := destroyMapping (ProgramRegistry s2) this\<rparr>)))"

definition hasModules :: "HSAILProgram \<Rightarrow> bool" where
  "hasModules P \<longleftrightarrow> BRIGs P \<noteq> []"

definition hasModule :: "addr \<Rightarrow> HSAILProgram \<Rightarrow> bool" where
  "hasModule module P \<longleftrightarrow> module \<in> set (BRIGs P)"

definition HSAILProgram_addModule :: "addr \<Rightarrow> HSAILProgram \<Rightarrow> HSAILProgram" where
  "HSAILProgram_addModule module P = P\<lparr>BRIGs := BRIGs P @ [module]\<rparr>"

definition moduleCount :: "HSAILProgram \<Rightarrow> nat" where
  "moduleCount P = length (BRIGs P)"

definition addTempFile :: "string \<Rightarrow> HSAILProgram \<Rightarrow> HSAILProgram" where
  "addTempFile TempFile P = P\<lparr>TempFiles := TempFiles P @ [TempFile]\<rparr>"

definition update_program ::
  "addr \<Rightarrow> (HSAILProgram \<Rightarrow> HSAILProgram) \<Rightarrow> 'm program_state_scheme \<Rightarrow> 'm program_state_scheme outcome" where
  "update_program this f s =
     and_then (deref (HSAILPrograms s) this) (\<lambda>P. Inr (s\<lparr>HSAILPrograms := (HSAILPrograms s)(this \<mapsto> f P)\<rparr>))"

text \<open>A name of the supply; an exhausted supply stands for an exception of the file system library.\<close>

definition fresh_name :: "'m program_state_scheme \<Rightarrow> (string \<times> 'm program_state_scheme) outcome" where
  "fresh_name s =
     (case FreshNames s of [] \<Rightarrow> Inl Exception_Thrown | n # ns \<Rightarrow> Inr (n, s\<lparr>FreshNames := ns\<rparr>))"

text \<open>The member \<open>byteCount\<close> of a \<open>BrigModuleHeader\<close> is 16 bytes behind its start.\<close>

definition module_bytes :: "memory \<Rightarrow> addr \<Rightarrow> u8 list" where
  "module_bytes M Header = load_bytes M Header (unat (load_u64 M (Header + 16)))"

text \<open>
  \<open>dumpBRIGS\<close>: each module goes to a new file of the directory, whose path is noted in the program and
  in \<open>Paths\<close>; the first file that cannot be opened ends the function.
\<close>

fun dump_modules ::
  "host \<Rightarrow> string \<Rightarrow> addr \<Rightarrow> addr list \<Rightarrow> string list \<Rightarrow> 'm program_state_scheme \<Rightarrow>
   (bool \<times> string list \<times> 'm program_state_scheme) outcome" where
  "dump_modules H TempDir this [] Paths s = Inr (True, Paths, s)"
| "dump_modules H TempDir this (m # ms) Paths s =
     and_then (fresh_name s) (\<lambda>(n, s1).
       let BrigPath = TempDir @ ''/'' @ n @ ''.brig''
       in if \<not> can_open H BrigPath then Inr (False, Paths, s1)
          else
            let s2 = s1\<lparr>Files := (Files s1)(BrigPath \<mapsto> module_bytes (Memory s1) m)\<rparr>
            in and_then (update_program this (addTempFile BrigPath) s2) (\<lambda>s3.
                 dump_modules H TempDir this ms (Paths @ [BrigPath]) s3))"

definition dumpBRIGS ::
  "host \<Rightarrow> string \<Rightarrow> addr \<Rightarrow> 'm program_state_scheme \<Rightarrow>
   (bool \<times> string list \<times> 'm program_state_scheme) outcome" where
  "dumpBRIGS H TempDir this s =
     and_then (deref (HSAILPrograms s) this) (\<lambda>P.
       let (debug, s1) = IsDebugMode H s in dump_modules H TempDir this (BRIGs P) [] s1)"

section \<open>The finalizer's factory operations\<close>

definition Finalizer_createProgram ::
  "hsa_machine_model_t \<Rightarrow> hsa_profile_t \<Rightarrow> hsa_default_float_rounding_mode_t \<Rightarrow>
   'm program_state_scheme \<Rightarrow> (hsa_status_t \<times> u64 \<times> 'm program_state_scheme) outcome" where
  "Finalizer_createProgram MM P RM s =
     and_then (HSAILProgram_new MM P RM s) (\<lambda>(p, s1). Inr (HSA_STATUS_SUCCESS, p, s1))"

definition Finalizer_destroyProgram ::
  "host \<Rightarrow> u64 \<Rightarrow> 'm program_state_scheme \<Rightarrow> 'm program_state_scheme outcome" where
  "Finalizer_destroyProgram H Program s = HSAILProgram_delete H (fromHSAObject (ProgramRegistry s) Program) s"

definition Finalizer_addModule ::
  "u64 \<Rightarrow> addr \<Rightarrow> 'm program_state_scheme \<Rightarrow> 'm program_state_scheme outcome" where
  "Finalizer_addModule Program Module s =
     update_program (fromHSAObject (ProgramRegistry s) Program) (HSAILProgram_addModule Module) s"

text \<open>The finalizer that is registered as extension 0, or null.\<close>

definition getFinalizer :: "'m program_state_scheme \<Rightarrow> addr outcome" where
  "getFinalizer s =
     and_then (Runtime_get s) (\<lambda>_. Inr (case map_of (Extensions s) HSA_EXTENSION_FINALIZER of
       Some E \<Rightarrow> ext_object E | None \<Rightarrow> nullptr))"

text \<open>A member function of the finalizer, called through the pointer.\<close>

definition with_finalizer ::
  "'m program_state_scheme \<Rightarrow> 'b outcome \<Rightarrow> 'b outcome" where
  "with_finalizer s f = and_then (getFinalizer s) (\<lambda>F. if F = nullptr then Inl Null_Dereference else f)"

end
