(* ===== verification/Program_Api.thy ===== *)
theory Program_Api
  imports Hsail_Program
begin

text \<open>
  The entry points of \<open>src/hsa/hsa_finalize.cc\<close> for programs, and the scan of a BRIG module for its
  module directive. The offsets are those of the structures of \<open>include/Brig.h\<close>.
\<close>

section \<open>Creation and destruction\<close>

definition hsa_ext_program_create ::
  "'m program_state_scheme \<Rightarrow> hsa_machine_model_t \<Rightarrow> hsa_profile_t \<Rightarrow> hsa_default_float_rounding_mode_t \<Rightarrow>
   string option \<Rightarrow> addr \<Rightarrow> (hsa_status_t \<times> u64 option \<times> 'm program_state_scheme) outcome" where
  "hsa_ext_program_create s machine_model profile default_float_rounding_mode options program =
     (if \<not> isInitialized s then Inr (HSA_STATUS_ERROR_NOT_INITIALIZED, None, s)
      else if machine_model \<noteq> HSA_MACHINE_MODEL_SMALL \<and> machine_model \<noteq> HSA_MACHINE_MODEL_LARGE
      then Inr (HSA_STATUS_ERROR_INVALID_ARGUMENT, None, s)
      else if program = nullptr then Inr (HSA_STATUS_ERROR_INVALID_ARGUMENT, None, s)
      else if profile \<noteq> HSA_PROFILE_BASE \<and> profile \<noteq> HSA_PROFILE_FULL
      then Inr (HSA_STATUS_ERROR_INVALID_ARGUMENT, None, s)
      else if hsa_default_float_rounding_mode_t_value default_float_rounding_mode
                < hsa_default_float_rounding_mode_t_value HSA_DEFAULT_FLOAT_ROUNDING_MODE_DEFAULT
            \<or> hsa_default_float_rounding_mode_t_value HSA_DEFAULT_FLOAT_ROUNDING_MODE_NEAR
                < hsa_default_float_rounding_mode_t_value default_float_rounding_mode
      then Inr (HSA_STATUS_ERROR_INVALID_ARGUMENT, None, s)
      else with_finalizer s
        (and_then (Finalizer_createProgram machine_model profile default_float_rounding_mode s)
           (\<lambda>(Ret, p, s1). Inr (Ret, Some p, s1))))"

definition hsa_ext_program_destroy ::
  "host \<Rightarrow> 'm program_state_scheme \<Rightarrow> u64 \<Rightarrow> (hsa_status_t \<times> 'm program_state_scheme) outcome" where
  "hsa_ext_program_destroy H s program =
     (if \<not> isInitialized s then Inr (HSA_STATUS_ERROR_NOT_INITIALIZED, s)
      else
        let P = fromHSAObject (ProgramRegistry s) program
        in if P = nullptr then Inr (HSA_EXT_STATUS_ERROR_INVALID_PROGRAM, s)
           else and_then (HSAILProgram_delete H P s) (\<lambda>s1. Inr (HSA_STATUS_SUCCESS, s1)))"

section \<open>The scan of a module\<close>

definition BRIG_SECTION_INDEX_CODE :: nat where
  "BRIG_SECTION_INDEX_CODE = 1"

definition BRIG_KIND_DIRECTIVE_MODULE :: u16 where
  "BRIG_KIND_DIRECTIVE_MODULE = 0x100b"

text \<open>\<open>BrigModuleHeader\<close>: \<open>sectionCount\<close> at 92, \<open>sectionIndex\<close> at 96.\<close>

definition sectionCount :: "memory \<Rightarrow> addr \<Rightarrow> u32" where
  "sectionCount M ModuleHeader = load_u32 M (ModuleHeader + 92)"

definition sectionIndex :: "memory \<Rightarrow> addr \<Rightarrow> u64" where
  "sectionIndex M ModuleHeader = load_u64 M (ModuleHeader + 96)"

text \<open>\<open>BrigSectionHeader\<close>: \<open>byteCount\<close> at 0, \<open>headerByteCount\<close> at 8, \<open>nameLength\<close> at 12, \<open>name\<close> at 16.\<close>

definition section_byteCount :: "memory \<Rightarrow> addr \<Rightarrow> u64" where
  "section_byteCount M S = load_u64 M S"

definition section_headerByteCount :: "memory \<Rightarrow> addr \<Rightarrow> u32" where
  "section_headerByteCount M S = load_u32 M (S + 8)"

definition section_name :: "memory \<Rightarrow> addr \<Rightarrow> u8 list" where
  "section_name M S = load_bytes M (S + 16) (unat (load_u32 M (S + 12)))"

text \<open>\<open>hsa_code\<close>\<close>

definition code_section_name :: "u8 list" where
  "code_section_name = [0x68, 0x73, 0x61, 0x5F, 0x63, 0x6F, 0x64, 0x65]"

definition section_at :: "memory \<Rightarrow> addr \<Rightarrow> nat \<Rightarrow> addr" where
  "section_at M Blob SectionIndex = Blob + load_u64 M (Blob + sectionIndex M Blob + 8 * of_nat SectionIndex)"

text \<open>
  The first loop: the sections in the order of the index, the last argument counts those that are left.
  The result is the address of the code section and its size, null and 0 if there is none.
\<close>

fun find_code_section :: "memory \<Rightarrow> addr \<Rightarrow> nat \<Rightarrow> nat \<Rightarrow> addr \<times> u64" where
  "find_code_section M Blob SectionIndex 0 = (nullptr, 0)"
| "find_code_section M Blob SectionIndex (Suc left) =
     (let SectionHeader = section_at M Blob SectionIndex
      in if SectionIndex = BRIG_SECTION_INDEX_CODE \<and> section_name M SectionHeader = code_section_name
         then (SectionHeader, section_byteCount M SectionHeader)
         else find_code_section M Blob (Suc SectionIndex) left)"

text \<open>\<open>BrigBase\<close>: \<open>byteCount\<close> at 0, \<open>kind\<close> at 2.\<close>

definition entry_byteCount :: "memory \<Rightarrow> addr \<Rightarrow> u16" where
  "entry_byteCount M Entry = load_u16 M Entry"

definition entry_kind :: "memory \<Rightarrow> addr \<Rightarrow> u16" where
  "entry_kind M Entry = load_u16 M (Entry + 2)"

text \<open>
  The second loop: the entries of the code section from \<open>B\<close> on. \<open>Some nullptr\<close> is the end of the loop
  without a module directive, \<open>None\<close> a loop that does not end.
\<close>

partial_function (option) find_module_directive :: "memory \<Rightarrow> addr \<Rightarrow> u64 \<Rightarrow> u64 \<Rightarrow> addr option" where
  "find_module_directive M CodeSection CodeSectionSize B =
     (if B < CodeSectionSize then
        (if entry_kind M (CodeSection + B) = BRIG_KIND_DIRECTIVE_MODULE then Some (CodeSection + B)
         else find_module_directive M CodeSection CodeSectionSize (B + ucast (entry_byteCount M (CodeSection + B))))
      else Some nullptr)"

text \<open>\<open>BrigDirectiveModule\<close>: \<open>profile\<close> at 16, \<open>machineModel\<close> at 17.\<close>

definition directive_profile :: "memory \<Rightarrow> addr \<Rightarrow> u8" where
  "directive_profile M D = load_u8 M (D + 16)"

definition directive_machineModel :: "memory \<Rightarrow> addr \<Rightarrow> u8" where
  "directive_machineModel M D = load_u8 M (D + 17)"

text \<open>The call that does not return is \<open>None\<close>. A program that is not registered is dereferenced.\<close>

definition hsa_ext_program_add_module ::
  "'m program_state_scheme \<Rightarrow> u64 \<Rightarrow> addr \<Rightarrow> (hsa_status_t \<times> 'm program_state_scheme) outcome option" where
  "hsa_ext_program_add_module s program module =
     (if \<not> isInitialized s then Some (Inr (HSA_STATUS_ERROR_NOT_INITIALIZED, s))
      else if module = nullptr then Some (Inr (HSA_EXT_STATUS_ERROR_INVALID_MODULE, s))
      else
        let (CodeSection, CodeSectionSize) =
              find_code_section (Memory s) module 0 (unat (sectionCount (Memory s) module))
        in if CodeSection = nullptr \<or> CodeSectionSize = 0
           then Some (Inr (HSA_EXT_STATUS_ERROR_INVALID_MODULE, s))
           else map_option (\<lambda>ModuleDirective.
             if ModuleDirective = nullptr then Inr (HSA_EXT_STATUS_ERROR_INVALID_MODULE, s)
             else
               let p = fromHSAObject (ProgramRegistry s) program
               in and_then (deref (HSAILPrograms s) p) (\<lambda>Prog.
                    if ucast (directive_profile (Memory s) ModuleDirective) \<noteq> hsa_profile_t_value (Profile Prog)
                      \<or> ucast (directive_machineModel (Memory s) ModuleDirective) \<noteq> hsa_machine_model_t_value (MachineModel Prog)
                    then Inr (HSA_EXT_STATUS_ERROR_INCOMPATIBLE_MODULE, s)
                    else if hasModule module Prog
                    then Inr (HSA_EXT_STATUS_ERROR_MODULE_ALREADY_INCLUDED, s)
                    else with_finalizer s (and_then (Finalizer_addModule program module s)
                      (\<lambda>s1. Inr (HSA_STATUS_SUCCESS, s1)))))
             (find_module_directive (Memory s) CodeSection CodeSectionSize
               (ucast (section_headerByteCount (Memory s) CodeSection))))"

section \<open>Queries\<close>

text \<open>The program is dereferenced unchecked; a call of a null callback is a null dereference, too.\<close>

definition hsa_ext_program_iterate_modules ::
  "'m program_state_scheme \<Rightarrow> u64 \<Rightarrow> (u64 \<Rightarrow> addr \<Rightarrow> 'd \<Rightarrow> hsa_status_t \<times> 'd) option \<Rightarrow> 'd \<Rightarrow>
   (hsa_status_t \<times> 'd) outcome" where
  "hsa_ext_program_iterate_modules s program callback data =
     (if \<not> isInitialized s then Inr (HSA_STATUS_ERROR_NOT_INITIALIZED, data)
      else and_then (deref (HSAILPrograms s) (fromHSAObject (ProgramRegistry s) program)) (\<lambda>P.
        case callback of
          None \<Rightarrow> if moduleCount P = 0 then Inr (HSA_STATUS_SUCCESS, data) else Inl Null_Dereference
        | Some f \<Rightarrow> Inr (iterate_callback (f program) (BRIGs P) data)))"

definition hsa_ext_program_get_info ::
  "'m program_state_scheme \<Rightarrow> u64 \<Rightarrow> hsa_ext_program_info_t \<Rightarrow> addr \<Rightarrow> (hsa_status_t \<times> field option) outcome" where
  "hsa_ext_program_get_info s program attribute value =
     (if \<not> isInitialized s then Inr (HSA_STATUS_ERROR_NOT_INITIALIZED, None)
      else
        let p = fromHSAObject (ProgramRegistry s) program
        in if p = nullptr then Inr (HSA_EXT_STATUS_ERROR_INVALID_PROGRAM, None)
           else if value = nullptr then Inr (HSA_STATUS_ERROR_INVALID_ARGUMENT, None)
           else and_then (deref (HSAILPrograms s) p) (\<lambda>P. Inr
             (case attribute of
                HSA_EXT_PROGRAM_INFO_MACHINE_MODEL \<Rightarrow>
                  (HSA_STATUS_SUCCESS, Some (F_u32 (hsa_machine_model_t_value (MachineModel P))))
              | HSA_EXT_PROGRAM_INFO_PROFILE \<Rightarrow>
                  (HSA_STATUS_SUCCESS, Some (F_u32 (hsa_profile_t_value (Profile P))))
              | HSA_EXT_PROGRAM_INFO_DEFAULT_FLOAT_ROUNDING_MODE \<Rightarrow>
                  (HSA_STATUS_SUCCESS, Some (F_u32 (hsa_default_float_rounding_mode_t_value (DefaultRoundingMode P))))
              | hsa_ext_program_info_t_unlisted v \<Rightarrow> (HSA_STATUS_ERROR_INVALID_ARGUMENT, None))))"

end
