(* ===== verification/Code_Object.thy ===== *)
theory Code_Object
  imports Program_Api
begin

text \<open>
  Code objects: the function descriptors of \<open>include/gcc-phsa.h\<close>, \<open>FinalizedProgram\<close> and its
  implementation \<open>DLFinalizedProgram\<close>, a program in a shared library, with its serialized form.
\<close>

section \<open>Function descriptors\<close>

record phsa_descriptor =
  is_kernel :: u8
  group_segment_size :: u32
  private_segment_size :: u32
  kernarg_segment_size :: u32
  kernarg_max_align :: u16
  max_dynamic_group_size :: u32
  max_flat_grid_size :: u64
  max_flat_workgroup_size :: u32
  required_grid_size :: "u64 \<times> u64 \<times> u64"
  required_workgroup_size :: "u32 \<times> u32 \<times> u32"
  required_dim :: u8

definition bytes_at :: "nat \<Rightarrow> nat \<Rightarrow> u8 list \<Rightarrow> u8 list" where
  "bytes_at offset n bs = take n (drop offset bs)"

definition sizeof_phsa_descriptor :: nat where
  "sizeof_phsa_descriptor = 68"

text \<open>The packed structure in the raw data of its section; data that are too short are overrun.\<close>

definition load_descriptor :: "u8 list \<Rightarrow> phsa_descriptor outcome" where
  "load_descriptor bs =
     (if length bs < sizeof_phsa_descriptor then Inl Undefined_Behaviour
      else Inr \<lparr>is_kernel = bs ! 0,
        group_segment_size = bytes_u32 (bytes_at 1 4 bs),
        private_segment_size = bytes_u32 (bytes_at 5 4 bs),
        kernarg_segment_size = bytes_u32 (bytes_at 9 4 bs),
        kernarg_max_align = bytes_u16 (bytes_at 13 2 bs),
        max_dynamic_group_size = bytes_u32 (bytes_at 15 4 bs),
        max_flat_grid_size = bytes_u64 (bytes_at 19 8 bs),
        max_flat_workgroup_size = bytes_u32 (bytes_at 27 4 bs),
        required_grid_size = (bytes_u64 (bytes_at 31 8 bs), bytes_u64 (bytes_at 39 8 bs), bytes_u64 (bytes_at 47 8 bs)),
        required_workgroup_size = (bytes_u32 (bytes_at 55 4 bs), bytes_u32 (bytes_at 59 4 bs), bytes_u32 (bytes_at 63 4 bs)),
        required_dim = bs ! 67\<rparr>)"

section \<open>Control directives\<close>

text \<open>The members of \<open>hsa_ext_control_directives_t\<close> that the code reads.\<close>

record hsa_ext_control_directives_t =
  cd_max_dynamic_group_size :: u32
  cd_max_flat_grid_size :: u64
  cd_max_flat_workgroup_size :: u32
  cd_required_grid_size :: "u64 \<times> u64 \<times> u64"
  cd_required_workgroup_size :: "u32 \<times> u32 \<times> u32"
  cd_required_dim :: u8

text \<open>
  \<open>HANDLE_CTRL_DIRECTIVE\<close>: a directive is given when it is not 0. \<open>None\<close> is the return of \<open>false\<close>;
  otherwise the new value of the member of the function's descriptor.
\<close>

definition handle_ctrl_directive ::
  "('w::len word \<Rightarrow> 'w word \<Rightarrow> bool) \<Rightarrow> 'w word \<Rightarrow> 'w word \<Rightarrow> 'w word option" where
  "handle_ctrl_directive check FDFIELD CDFIELD =
     (if 0 < CDFIELD then (if 0 < FDFIELD \<and> check FDFIELD CDFIELD then None else Some CDFIELD) else Some FDFIELD)"

definition handle_ctrl_directive3 ::
  "'w::len word \<times> 'w word \<times> 'w word \<Rightarrow> 'w word \<times> 'w word \<times> 'w word \<Rightarrow> ('w word \<times> 'w word \<times> 'w word) option" where
  "handle_ctrl_directive3 FD CD =
     (case (FD, CD) of ((x, y, z), (x', y', z')) \<Rightarrow>
        Option.bind (handle_ctrl_directive (\<noteq>) x x') (\<lambda>a.
        Option.bind (handle_ctrl_directive (\<noteq>) y y') (\<lambda>b.
        Option.bind (handle_ctrl_directive (\<noteq>) z z') (\<lambda>c. Some (a, b, c)))))"

text \<open>One round of the loop: the copy \<open>FuncDesc\<close> of a descriptor with the directives applied.\<close>

definition apply_directives ::
  "phsa_descriptor \<Rightarrow> hsa_ext_control_directives_t \<Rightarrow> phsa_descriptor option" where
  "apply_directives D CD =
     Option.bind (handle_ctrl_directive (<) (max_dynamic_group_size D) (cd_max_dynamic_group_size CD)) (\<lambda>a.
     Option.bind (handle_ctrl_directive (<) (max_flat_grid_size D) (cd_max_flat_grid_size CD)) (\<lambda>b.
     Option.bind (handle_ctrl_directive (<) (max_flat_workgroup_size D) (cd_max_flat_workgroup_size CD)) (\<lambda>c.
     Option.bind (handle_ctrl_directive3 (required_grid_size D) (cd_required_grid_size CD)) (\<lambda>g.
     Option.bind (handle_ctrl_directive3 (required_workgroup_size D) (cd_required_workgroup_size CD)) (\<lambda>w.
     Option.bind (handle_ctrl_directive (\<noteq>) (required_dim D) (cd_required_dim CD)) (\<lambda>d.
       Some (D\<lparr>max_dynamic_group_size := a, max_flat_grid_size := b, max_flat_workgroup_size := c,
               required_grid_size := g, required_workgroup_size := w, required_dim := d\<rparr>)))))))"

text \<open>The copies are dropped at the end of each round: the loop only yields the verdict.\<close>

fun check_directives ::
  "(string \<times> u8 list) list \<Rightarrow> hsa_ext_control_directives_t \<Rightarrow> bool outcome" where
  "check_directives [] CD = Inr True"
| "check_directives ((FuncName, bs) # Ds) CD =
     and_then (load_descriptor bs) (\<lambda>D.
       if apply_directives D CD = None then Inr False else check_directives Ds CD)"

definition loadAndCheckControlDirectives ::
  "FinalizedProgram \<Rightarrow> hsa_ext_control_directives_t \<Rightarrow> bool outcome" where
  "loadAndCheckControlDirectives P CD = check_directives (FuncDescriptors P) CD"

section \<open>Construction\<close>

definition PHSA_DESC_SECTION_PREFIX :: string where
  "PHSA_DESC_SECTION_PREFIX = ''phsa.desc.''"

fun read_descriptors :: "(string \<times> u8 list) list \<Rightarrow> (string \<times> u8 list) list \<Rightarrow> (string \<times> u8 list) list" where
  "read_descriptors [] Ds = Ds"
| "read_descriptors ((SectionName, bs) # Ss) Ds =
     read_descriptors Ss
       (if take (length PHSA_DESC_SECTION_PREFIX) SectionName = PHSA_DESC_SECTION_PREFIX
        then AList.update (drop (length PHSA_DESC_SECTION_PREFIX) SectionName) bs Ds else Ds)"

text \<open>The constructor; an image that \<open>libelf\<close> does not accept gives a null header.\<close>

definition DLFinalizedProgram_new ::
  "host \<Rightarrow> u8 list \<Rightarrow> u64 \<Rightarrow> hsa_machine_model_t \<Rightarrow> hsa_profile_t \<Rightarrow> hsa_default_float_rounding_mode_t \<Rightarrow>
   'm program_state_scheme \<Rightarrow> (addr \<times> 'm program_state_scheme) outcome" where
  "DLFinalizedProgram_new H ElfBlob ISA MM P RM s =
     and_then (operator_new s) (\<lambda>(this, s1).
       case parse_elf H ElfBlob of
         None \<Rightarrow> Inl Null_Dereference
       | Some ELF \<Rightarrow>
           Inr (this, s1\<lparr>
             FinalizedPrograms := (FinalizedPrograms s1)(this \<mapsto>
               \<lparr>ProgSymbols = [], Parent = nullptr, IsValid = True, BinaryFileName = [], ELFBlob = ElfBlob,
                FuncDescriptors = read_descriptors (elf_sections ELF) [],
                CodeMachineModel = MM, CodeProfile = P, CodeRoundingMode = RM, CodeISA = ISA,
                CodeVersion = e_version ELF, Dlhandle = nullptr\<rparr>),
             CodeRegistry := registerObject (CodeRegistry s1) this this\<rparr>))"

definition update_code ::
  "addr \<Rightarrow> (FinalizedProgram \<Rightarrow> FinalizedProgram) \<Rightarrow> 'm program_state_scheme \<Rightarrow> 'm program_state_scheme outcome" where
  "update_code this f s =
     and_then (deref (FinalizedPrograms s) this) (\<lambda>P.
       Inr (s\<lparr>FinalizedPrograms := (FinalizedPrograms s)(this \<mapsto> f P)\<rparr>))"

definition setBinFileName :: "string \<Rightarrow> FinalizedProgram \<Rightarrow> FinalizedProgram" where
  "setBinFileName Fname P = P\<lparr>BinaryFileName := Fname\<rparr>"

definition addSymbol :: "addr \<Rightarrow> FinalizedProgram \<Rightarrow> FinalizedProgram" where
  "addSymbol S P = P\<lparr>ProgSymbols := ProgSymbols P @ [S]\<rparr>"

definition elfSize :: "FinalizedProgram \<Rightarrow> u64" where
  "elfSize P = of_nat (length (ELFBlob P))"

definition findDescriptor :: "string \<Rightarrow> FinalizedProgram \<Rightarrow> u8 list option" where
  "findDescriptor SymbolName P = map_of (FuncDescriptors P) SymbolName"

section \<open>Destruction\<close>

text \<open>\<open>remove_filename\<close> of a path: what stands before the last slash.\<close>

definition remove_filename :: "string \<Rightarrow> string" where
  "remove_filename p =
     (if CHR ''/'' \<notin> set p then []
      else let d = rev (drop 1 (dropWhile (\<lambda>c. c \<noteq> CHR ''/'') (rev p)))
           in if d = [] then ''/'' else d)"

text \<open>\<open>remove_all\<close>: the path itself and everything below it.\<close>

definition below :: "string \<Rightarrow> string \<Rightarrow> bool" where
  "below d f \<longleftrightarrow> d \<noteq> [] \<and>
     (f = d \<or> (let r = (if d = ''/'' then d else d @ ''/'') in take (length r) f = r))"

definition remove_all :: "string \<Rightarrow> (string \<rightharpoonup> u8 list) \<Rightarrow> (string \<rightharpoonup> u8 list)" where
  "remove_all d fs = (\<lambda>f. if below d f then None else fs f)"

definition Symbol_delete :: "addr \<Rightarrow> 'm agent_state_scheme \<Rightarrow> 'm agent_state_scheme outcome" where
  "Symbol_delete this s =
     (if this = nullptr then Inr s
      else and_then (deref (SymbolObjects s) this) (\<lambda>_.
        Inr (s\<lparr>SymbolObjects := (SymbolObjects s)(this := None),
               SymbolRegistry := destroyMapping (SymbolRegistry s) this\<rparr>)))"

fun delete_symbols :: "addr list \<Rightarrow> 'm agent_state_scheme \<Rightarrow> 'm agent_state_scheme outcome" where
  "delete_symbols [] s = Inr s"
| "delete_symbols (S # Ss) s = and_then (Symbol_delete S s) (delete_symbols Ss)"

text \<open>
  The destructors, the derived class first: the handle is forgotten, the directory of the binary is
  removed unless the debug mode is on, the symbols are deleted, the object leaves the registry.
\<close>

definition DLFinalizedProgram_delete ::
  "host \<Rightarrow> addr \<Rightarrow> 'm program_state_scheme \<Rightarrow> 'm program_state_scheme outcome" where
  "DLFinalizedProgram_delete H this s =
     (if this = nullptr then Inr s
      else and_then (deref (FinalizedPrograms s) this) (\<lambda>P.
        let s1 = s\<lparr>CodeRegistry := deregisterObject (CodeRegistry s) this\<rparr>;
            (debug, s2) = IsDebugMode H s1;
            s3 = (if debug then s2 else s2\<lparr>Files := remove_all (remove_filename (BinaryFileName P)) (Files s2)\<rparr>)
        in and_then (delete_symbols (ProgSymbols P) s3) (\<lambda>s4.
             Inr (s4\<lparr>FinalizedPrograms := (FinalizedPrograms s4)(this := None),
                     CodeRegistry := destroyMapping (CodeRegistry s4) this\<rparr>))))"

section \<open>The loaded library\<close>

text \<open>The handle of the library, null when it cannot be loaded; it is loaded at the first call.\<close>

definition dlhandle ::
  "host \<Rightarrow> addr \<Rightarrow> 'm program_state_scheme \<Rightarrow> (addr \<times> 'm program_state_scheme) outcome" where
  "dlhandle H this s =
     and_then (deref (FinalizedPrograms s) this) (\<lambda>P.
       if Dlhandle P \<noteq> nullptr then Inr (Dlhandle P, s)
       else if BinaryFileName P = [] then Inl Assertion_Failure
       else
         let dlh = dlopen H (Files s) (BinaryFileName P)
         in and_then (update_code this (\<lambda>P. P\<lparr>Dlhandle := dlh\<rparr>) s) (\<lambda>s1. Inr (dlh, s1)))"

definition strip_ampersand :: "string \<Rightarrow> string" where
  "strip_ampersand n = (if n \<noteq> [] \<and> hd n = CHR ''&'' then tl n else n)"

definition PHSA_HOST_DEF_PTR_PREFIX :: string where
  "PHSA_HOST_DEF_PTR_PREFIX = ''__phsa.host_def.''"

text \<open>\<open>at(0)\<close> throws on an empty name. A library without the symbol is left alone.\<close>

definition DLFinalizedProgram_defineGlobalSymbolAddress ::
  "host \<Rightarrow> addr \<Rightarrow> string \<Rightarrow> u64 \<Rightarrow> 'm program_state_scheme \<Rightarrow> 'm program_state_scheme outcome" where
  "DLFinalizedProgram_defineGlobalSymbolAddress H this SymbolName Addr s =
     and_then (dlhandle H this s) (\<lambda>(dlh, s1).
       if SymbolName = [] then Inl Exception_Thrown
       else case dlsym H dlh (PHSA_HOST_DEF_PTR_PREFIX @ strip_ampersand SymbolName) of
         None \<Rightarrow> Inr s1
       | Some p \<Rightarrow>
           if p = nullptr then Inl Null_Dereference
           else Inr (s1\<lparr>Memory := store_u64 (Memory s1) p Addr\<rparr>))"

definition DLFinalizedProgram_symbolAddress ::
  "host \<Rightarrow> addr \<Rightarrow> string \<Rightarrow> 'm program_state_scheme \<Rightarrow> (u64 \<times> 'm program_state_scheme) outcome" where
  "DLFinalizedProgram_symbolAddress H this symbolName s =
     and_then (dlhandle H this s) (\<lambda>(dlh, s1).
       if dlh = nullptr then Inr (0, s1)
       else if symbolName = [] then Inl Assertion_Failure
       else case dlsym H dlh (strip_ampersand symbolName) of
         None \<Rightarrow> Inl Aborted
       | Some p \<Rightarrow> Inr (p, s1))"

end
