(* ===== verification/Code_Api.thy ===== *)
theory Code_Api
  imports Code_Object
begin

text \<open>
  The serialized form of a code object, the search for a symbol by its HSAIL name and the entry points of
  \<open>src/hsa/hsa_code.cc\<close>.
\<close>

section \<open>Serialization\<close>

definition serializedSize :: "FinalizedProgram \<Rightarrow> u64" where
  "serializedSize P = 8 + elfSize P + 8 + 4 + 4 + 4"

definition serialized :: "FinalizedProgram \<Rightarrow> u8 list" where
  "serialized P =
     u64_bytes (elfSize P) @ ELFBlob P @ u64_bytes (CodeISA P) @
     u32_bytes (hsa_default_float_rounding_mode_t_value (CodeRoundingMode P)) @
     u32_bytes (hsa_profile_t_value (CodeProfile P)) @
     u32_bytes (hsa_machine_model_t_value (CodeMachineModel P))"

definition serializeTo :: "FinalizedProgram \<Rightarrow> addr \<Rightarrow> memory \<Rightarrow> memory" where
  "serializeTo P Buffer M = store_bytes M Buffer (serialized P)"

text \<open>An integer read back as an enumeration.\<close>

definition rounding_mode_of :: "u32 \<Rightarrow> hsa_default_float_rounding_mode_t" where
  "rounding_mode_of v =
     (if v = 0 then HSA_DEFAULT_FLOAT_ROUNDING_MODE_DEFAULT else if v = 1 then HSA_DEFAULT_FLOAT_ROUNDING_MODE_ZERO
      else if v = 2 then HSA_DEFAULT_FLOAT_ROUNDING_MODE_NEAR else hsa_default_float_rounding_mode_t_unlisted v)"

definition profile_of :: "u32 \<Rightarrow> hsa_profile_t" where
  "profile_of v =
     (if v = 0 then HSA_PROFILE_BASE else if v = 1 then HSA_PROFILE_FULL else hsa_profile_t_unlisted v)"

definition machine_model_of :: "u32 \<Rightarrow> hsa_machine_model_t" where
  "machine_model_of v =
     (if v = 0 then HSA_MACHINE_MODEL_SMALL else if v = 1 then HSA_MACHINE_MODEL_LARGE
      else hsa_machine_model_t_unlisted v)"

text \<open>
  The deserialization allocates the blob and the program and writes the image to a new directory. The
  size of the client's buffer is not known to it.
\<close>

definition deserialized_path :: "string \<Rightarrow> string" where
  "deserialized_path n = ''/tmp/phsa-finalized-program-'' @ n @ ''/temp.elf''"

definition DLFinalizedProgram_deserialize ::
  "host \<Rightarrow> addr \<Rightarrow> 'm program_state_scheme \<Rightarrow> (addr \<times> 'm program_state_scheme) outcome" where
  "DLFinalizedProgram_deserialize H Buffer s =
     (let M = Memory s;
          ES = load_u64 M Buffer
      in and_then (operator_new s) (\<lambda>(blob, s1).
           let ElfBlob = load_bytes M (Buffer + 8) (unat ES);
               Tail = Buffer + 8 + ES;
               ISA = load_u64 M Tail;
               RM = rounding_mode_of (load_u32 M (Tail + 8));
               P = profile_of (load_u32 M (Tail + 12));
               MM = machine_model_of (load_u32 M (Tail + 16))
           in case FreshNames s1 of
                [] \<Rightarrow> Inl Assertion_Failure
              | n # ns \<Rightarrow>
                  let outPath = deserialized_path n;
                      s2 = s1\<lparr>FreshNames := ns,
                              Files := (if can_open H outPath then (Files s1)(outPath \<mapsto> ElfBlob) else Files s1)\<rparr>
                  in and_then (DLFinalizedProgram_new H ElfBlob ISA MM P RM s2) (\<lambda>(Ret, s3).
                       and_then (update_code Ret (setBinFileName outPath) s3) (\<lambda>s4. Inr (Ret, s4)))))"

section \<open>Symbols by name\<close>

fun replace_colons :: "string \<Rightarrow> string" where
  "replace_colons [] = []"
| "replace_colons [c] = [c]"
| "replace_colons (c # d # cs) =
     (if c = CHR '':'' \<and> d = CHR '':'' then CHR ''.'' # replace_colons cs else c # replace_colons (d # cs))"

fun has_colons :: "string \<Rightarrow> bool" where
  "has_colons (c # d # cs) \<longleftrightarrow> c = CHR '':'' \<and> d = CHR '':'' \<or> has_colons (d # cs)"
| "has_colons _ \<longleftrightarrow> False"

text \<open>The erasure starts behind the first character, which an empty name does not have.\<close>

definition actual_symbol_name :: "string \<Rightarrow> string outcome" where
  "actual_symbol_name SymbolName =
     (case replace_colons SymbolName of
        [] \<Rightarrow> Inl Undefined_Behaviour
      | c # cs \<Rightarrow>
          let rest = filter (\<lambda>x. x \<noteq> CHR ''&'') cs
          in Inr (if has_colons SymbolName then c # ''gccbrig.'' @ rest else c # rest))"

fun find_symbol_named :: "string \<Rightarrow> addr list \<Rightarrow> 'm agent_state_scheme \<Rightarrow> addr outcome" where
  "find_symbol_named n [] s = Inr nullptr"
| "find_symbol_named n (I # Is) s =
     and_then (deref (SymbolObjects s) I) (\<lambda>S.
       if Sym_Name (symbol_base S) = n then Inr I else find_symbol_named n Is s)"

definition findSymbol :: "string \<Rightarrow> FinalizedProgram \<Rightarrow> 'm agent_state_scheme \<Rightarrow> addr outcome" where
  "findSymbol SymbolName P s =
     and_then (actual_symbol_name SymbolName) (\<lambda>n. find_symbol_named n (ProgSymbols P) s)"

section \<open>Entry points\<close>

text \<open>
  The client's allocation callback yields a status and the address it stored through its pointer
  argument. The third component is what is written to \<open>serialized_code_object_size\<close>: nothing.
\<close>

definition hsa_code_object_serialize ::
  "'m program_state_scheme \<Rightarrow> u64 \<Rightarrow> (u64 \<Rightarrow> u64 \<Rightarrow> hsa_status_t \<times> addr) option \<Rightarrow> u64 \<Rightarrow> addr \<Rightarrow> addr \<Rightarrow>
   (hsa_status_t \<times> addr option \<times> u64 option \<times> 'm program_state_scheme) outcome" where
  "hsa_code_object_serialize s code_object alloc_callback callback_data serialized_code_object
       serialized_code_object_size =
     (if \<not> isInitialized s then Inr (HSA_STATUS_ERROR_NOT_INITIALIZED, None, None, s)
      else
        let p = fromHSAObject (CodeRegistry s) code_object
        in if p = nullptr then Inr (HSA_STATUS_ERROR_INVALID_CODE_OBJECT, None, None, s)
           else if alloc_callback = None \<or> serialized_code_object = nullptr \<or> serialized_code_object_size = nullptr
           then Inr (HSA_STATUS_ERROR_INVALID_ARGUMENT, None, None, s)
           else and_then (deref (FinalizedPrograms s) p) (\<lambda>FP.
             let (Status, address) = (the alloc_callback) (serializedSize FP) callback_data
             in if Status \<noteq> HSA_STATUS_SUCCESS then Inr (Status, Some address, None, s)
                else if address = nullptr then Inl Null_Dereference
                else Inr (HSA_STATUS_SUCCESS, Some address, None,
                       s\<lparr>Memory := serializeTo FP address (Memory s)\<rparr>)))"

definition hsa_code_object_deserialize ::
  "host \<Rightarrow> 'm program_state_scheme \<Rightarrow> addr \<Rightarrow> u64 \<Rightarrow> string option \<Rightarrow> addr \<Rightarrow>
   (hsa_status_t \<times> u64 option \<times> 'm program_state_scheme) outcome" where
  "hsa_code_object_deserialize H s serialized_code_object serialized_code_object_size options code_object =
     (if \<not> isInitialized s then Inr (HSA_STATUS_ERROR_NOT_INITIALIZED, None, s)
      else if serialized_code_object = nullptr \<or> code_object = nullptr \<or> serialized_code_object_size = 0
      then Inr (HSA_STATUS_ERROR_INVALID_ARGUMENT, None, s)
      else and_then (DLFinalizedProgram_deserialize H serialized_code_object s) (\<lambda>(FP, s1).
        Inr (HSA_STATUS_SUCCESS, Some FP, s1)))"

definition hsa_code_object_destroy ::
  "host \<Rightarrow> 'm program_state_scheme \<Rightarrow> u64 \<Rightarrow> (hsa_status_t \<times> 'm program_state_scheme) outcome" where
  "hsa_code_object_destroy H s code_object =
     and_then (DLFinalizedProgram_delete H (fromHSAObject (CodeRegistry s) code_object) s)
       (\<lambda>s1. Inr (HSA_STATUS_SUCCESS, s1))"

definition HSA_CODE_OBJECT_TYPE_PROGRAM :: u32 where
  "HSA_CODE_OBJECT_TYPE_PROGRAM = 0"

text \<open>\<open>std::to_string\<close> of an unsigned number.\<close>

function decimal :: "nat \<Rightarrow> string" where
  "decimal n = (if n < 10 then [char_of (48 + n)] else decimal (n div 10) @ [char_of (48 + n mod 10)])"
  by auto
termination
  by (relation "measure id") auto

declare decimal.simps [simp del]

text \<open>The switch; the program is dereferenced only by the attributes that read it.\<close>

definition code_object_attribute ::
  "FinalizedProgram outcome \<Rightarrow> hsa_code_object_info_t \<Rightarrow> field option outcome" where
  "code_object_attribute FP attribute =
     (case attribute of
        HSA_CODE_OBJECT_INFO_VERSION \<Rightarrow>
          and_then FP (\<lambda>P. Inr (Some (F_string (decimal (unat (CodeVersion P))) 64)))
      | HSA_CODE_OBJECT_INFO_TYPE \<Rightarrow> Inr (Some (F_u32 HSA_CODE_OBJECT_TYPE_PROGRAM))
      | HSA_CODE_OBJECT_INFO_ISA \<Rightarrow>
          and_then FP (\<lambda>P. Inr (Some (F_u32 (hsa_machine_model_t_value (CodeMachineModel P)))))
      | HSA_CODE_OBJECT_INFO_MACHINE_MODEL \<Rightarrow>
          and_then FP (\<lambda>P. Inr (Some (F_u32 (hsa_machine_model_t_value (CodeMachineModel P)))))
      | HSA_CODE_OBJECT_INFO_PROFILE \<Rightarrow>
          and_then FP (\<lambda>P. Inr (Some (F_u32 (hsa_profile_t_value (CodeProfile P)))))
      | HSA_CODE_OBJECT_INFO_DEFAULT_FLOAT_ROUNDING_MODE \<Rightarrow>
          and_then FP (\<lambda>P. Inr (Some (F_u32 (hsa_profile_t_value (CodeProfile P)))))
      | hsa_code_object_info_t_unlisted v \<Rightarrow> Inr None)"

definition hsa_code_object_get_info ::
  "'m program_state_scheme \<Rightarrow> u64 \<Rightarrow> hsa_code_object_info_t \<Rightarrow> addr \<Rightarrow> (hsa_status_t \<times> field option) outcome" where
  "hsa_code_object_get_info s code_object attribute value =
     (if \<not> isInitialized s then Inr (HSA_STATUS_ERROR_NOT_INITIALIZED, None)
      else if value = nullptr then Inr (HSA_STATUS_ERROR_INVALID_ARGUMENT, None)
      else
        let FP = deref (FinalizedPrograms s) (fromHSAObject (CodeRegistry s) code_object)
        in and_then (code_object_attribute FP attribute) (\<lambda>r.
             case r of None \<Rightarrow> Inr (HSA_STATUS_ERROR_INVALID_ARGUMENT, None)
             | Some w \<Rightarrow> Inr (HSA_STATUS_SUCCESS, Some w)))"

text \<open>A string made from a null pointer is \<open>None\<close>.\<close>

definition hsa_code_object_get_symbol ::
  "'m program_state_scheme \<Rightarrow> u64 \<Rightarrow> string option \<Rightarrow> addr \<Rightarrow> (hsa_status_t \<times> u64 option) outcome" where
  "hsa_code_object_get_symbol s code_object symbol_name symbol =
     (if \<not> isInitialized s then Inr (HSA_STATUS_ERROR_NOT_INITIALIZED, None)
      else
        let p = fromHSAObject (CodeRegistry s) code_object
        in if p = nullptr then Inr (HSA_STATUS_ERROR_INVALID_CODE_OBJECT, None)
           else if symbol = nullptr then Inr (HSA_STATUS_ERROR_INVALID_ARGUMENT, None)
           else case symbol_name of
             None \<Rightarrow> Inl Undefined_Behaviour
           | Some n \<Rightarrow>
               and_then (deref (FinalizedPrograms s) p) (\<lambda>FP.
               and_then (findSymbol n FP s) (\<lambda>S.
                 if S = nullptr then Inr (HSA_STATUS_ERROR_INVALID_SYMBOL_NAME, None)
                 else Inr (HSA_STATUS_SUCCESS, Some S))))"

text \<open>
  A symbol is cast to the class that the attribute belongs to without a check; a member of a class that
  the object does not have, or a member that was never set, has no value.
\<close>

definition of_class :: "'a option \<Rightarrow> 'a outcome" where
  "of_class x = (case x of None \<Rightarrow> Inl Undefined_Behaviour | Some a \<Rightarrow> Inr a)"

definition kernel_field :: "symbol_object \<Rightarrow> (Kernel \<Rightarrow> field) \<Rightarrow> field option outcome" where
  "kernel_field S f = and_then (of_class (as_kernel S)) (\<lambda>K. Inr (Some (f K)))"

definition variable_field :: "symbol_object \<Rightarrow> (Variable \<Rightarrow> 'a option) \<Rightarrow> ('a \<Rightarrow> field) \<Rightarrow> field option outcome" where
  "variable_field S f g =
     and_then (of_class (as_variable S)) (\<lambda>V. and_then (of_class (f V)) (\<lambda>x. Inr (Some (g x))))"

definition indirect_field :: "symbol_object \<Rightarrow> (IndirectFunctionCall \<Rightarrow> field) \<Rightarrow> field option outcome" where
  "indirect_field S f = and_then (of_class (as_indirect_function S)) (\<lambda>I. Inr (Some (f I)))"

text \<open>The lengths of names are written as \<open>size_t\<close>.\<close>

definition code_symbol_attribute :: "symbol_object \<Rightarrow> hsa_code_symbol_info_t \<Rightarrow> field option outcome" where
  "code_symbol_attribute S attribute =
     (let B = symbol_base S in case attribute of
        HSA_CODE_SYMBOL_INFO_NAME_LENGTH \<Rightarrow> Inr (Some (F_u64 (of_nat (length (Sym_Name B)))))
      | HSA_CODE_SYMBOL_INFO_TYPE \<Rightarrow> Inr (Some (F_u32 (hsa_symbol_kind_t_value (Sym_Type B))))
      | HSA_CODE_SYMBOL_INFO_NAME \<Rightarrow> Inr (Some (F_string (Sym_Name B) (length (Sym_Name B))))
      | HSA_CODE_SYMBOL_INFO_MODULE_NAME_LENGTH \<Rightarrow> Inr (Some (F_u64 (of_nat (length (Sym_ModuleName B)))))
      | HSA_CODE_SYMBOL_INFO_MODULE_NAME \<Rightarrow> Inr (Some (F_string (Sym_ModuleName B) (length (Sym_ModuleName B))))
      | HSA_CODE_SYMBOL_INFO_LINKAGE \<Rightarrow> Inr (Some (F_u32 (hsa_symbol_linkage_t_value (Sym_Linkage B))))
      | HSA_CODE_SYMBOL_INFO_KERNEL_KERNARG_SEGMENT_SIZE \<Rightarrow> kernel_field S (\<lambda>K. F_u32 (KernargSegmentSize K))
      | HSA_CODE_SYMBOL_INFO_KERNEL_KERNARG_SEGMENT_ALIGNMENT \<Rightarrow> kernel_field S (\<lambda>K. F_u32 (KernargSegmentAlignment K))
      | HSA_CODE_SYMBOL_INFO_KERNEL_GROUP_SEGMENT_SIZE \<Rightarrow> kernel_field S (\<lambda>K. F_u32 (GroupSegmentSize K))
      | HSA_CODE_SYMBOL_INFO_KERNEL_PRIVATE_SEGMENT_SIZE \<Rightarrow> kernel_field S (\<lambda>K. F_u32 (PrivateSegmentSize K))
      | HSA_CODE_SYMBOL_INFO_KERNEL_DYNAMIC_CALLSTACK \<Rightarrow> kernel_field S (\<lambda>K. F_bool (DynamicCallStack K))
      | HSA_CODE_SYMBOL_INFO_VARIABLE_ALIGNMENT \<Rightarrow> variable_field S Var_Alignment F_u32
      | HSA_CODE_SYMBOL_INFO_IS_DEFINITION \<Rightarrow> Inr (Some (F_bool (Sym_IsDefinition B)))
      | HSA_CODE_SYMBOL_INFO_VARIABLE_ALLOCATION \<Rightarrow>
          variable_field S Var_Allocation (\<lambda>a. F_u32 (hsa_variable_allocation_t_value a))
      | HSA_CODE_SYMBOL_INFO_VARIABLE_SEGMENT \<Rightarrow>
          variable_field S Var_Segment (\<lambda>a. F_u32 (hsa_variable_segment_t_value a))
      | HSA_CODE_SYMBOL_INFO_VARIABLE_SIZE \<Rightarrow> variable_field S Var_Size F_u32
      | HSA_CODE_SYMBOL_INFO_VARIABLE_IS_CONST \<Rightarrow> variable_field S Var_IsConst F_bool
      | HSA_CODE_SYMBOL_INFO_INDIRECT_FUNCTION_CALL_CONVENTION \<Rightarrow>
          indirect_field S (\<lambda>I. F_u32 (FunctionCallConvention I))
      | hsa_code_symbol_info_t_unlisted v \<Rightarrow> Inr None)"

text \<open>The handle is the address of the symbol; it is not looked up.\<close>

definition hsa_code_symbol_get_info ::
  "'m program_state_scheme \<Rightarrow> u64 \<Rightarrow> hsa_code_symbol_info_t \<Rightarrow> addr \<Rightarrow> (hsa_status_t \<times> field option) outcome" where
  "hsa_code_symbol_get_info s code_symbol attribute value =
     (if \<not> isInitialized s then Inr (HSA_STATUS_ERROR_NOT_INITIALIZED, None)
      else if code_symbol = 0 then Inr (HSA_STATUS_ERROR_INVALID_ARGUMENT, None)
      else if value = nullptr then Inr (HSA_STATUS_ERROR_INVALID_ARGUMENT, None)
      else and_then (deref (SymbolObjects s) code_symbol) (\<lambda>S.
        and_then (code_symbol_attribute S attribute) (\<lambda>r.
          case r of None \<Rightarrow> Inr (HSA_STATUS_ERROR_INVALID_ARGUMENT, None)
          | Some w \<Rightarrow> Inr (HSA_STATUS_SUCCESS, Some w))))"

definition hsa_code_object_iterate_symbols ::
  "'m program_state_scheme \<Rightarrow> u64 \<Rightarrow> (u64 \<Rightarrow> u64 \<Rightarrow> 'd \<Rightarrow> hsa_status_t \<times> 'd) option \<Rightarrow> 'd \<Rightarrow>
   (hsa_status_t \<times> 'd) outcome" where
  "hsa_code_object_iterate_symbols s code_object callback data =
     (let p = fromHSAObject (CodeRegistry s) code_object
      in if p = nullptr then Inr (HSA_STATUS_ERROR_INVALID_CODE_OBJECT, data)
         else and_then (deref (FinalizedPrograms s) p) (\<lambda>FP.
           case callback of
             None \<Rightarrow> if ProgSymbols FP = [] then Inr (HSA_STATUS_SUCCESS, data) else Inl Null_Dereference
           | Some f \<Rightarrow> Inr (iterate_callback (f code_object) (ProgSymbols FP) data)))"

end
