(* ===== verification/Executables.thy ===== *)
theory Executables
  imports Code_Api
begin

text \<open>
  Executables (\<open>include/Executable.hh\<close>), the loading of a code object into one
  (\<open>src/Finalizer/GCC/ELFExecutable.cc\<close>) and the entry points of \<open>src/hsa/hsa_executable.cc\<close>.
\<close>

section \<open>Executables\<close>

definition ELFExecutable_new ::
  "hsa_profile_t \<Rightarrow> bool \<Rightarrow> 'm program_state_scheme \<Rightarrow> (addr \<times> 'm program_state_scheme) outcome" where
  "ELFExecutable_new profile frozen s =
     and_then (operator_new s) (\<lambda>(this, s1).
       Inr (this, s1\<lparr>
         Executables := (Executables s1)(this \<mapsto>
           \<lparr>ExecSymbols = [], SymbolsByName = Map.empty, DefinedSymbols = [], IsFrozen = frozen, ExecProfile = profile\<rparr>),
         ExecutableRegistry := registerObject (ExecutableRegistry s1) this this\<rparr>))"

definition ELFExecutable_delete :: "addr \<Rightarrow> 'm program_state_scheme \<Rightarrow> 'm program_state_scheme outcome" where
  "ELFExecutable_delete this s =
     and_then (deref (Executables s) this) (\<lambda>_.
       Inr (s\<lparr>Executables := (Executables s)(this := None),
              ExecutableRegistry := destroyMapping (ExecutableRegistry s) this\<rparr>))"

definition getExecutableState :: "Executable \<Rightarrow> hsa_executable_state_t" where
  "getExecutableState E = (if IsFrozen E then HSA_EXECUTABLE_STATE_FROZEN else HSA_EXECUTABLE_STATE_UNFROZEN)"

definition getSymbol :: "string \<Rightarrow> Executable \<Rightarrow> addr" where
  "getSymbol n E = (case SymbolsByName E n of Some S \<Rightarrow> S | None \<Rightarrow> nullptr)"

definition freeze :: "Executable \<Rightarrow> Executable" where
  "freeze E = E\<lparr>IsFrozen := True\<rparr>"

definition Executable_defineGlobalSymbolAddress :: "string \<Rightarrow> u64 \<Rightarrow> Executable \<Rightarrow> Executable" where
  "Executable_defineGlobalSymbolAddress SymbolName Addr E =
     E\<lparr>DefinedSymbols := AList.update SymbolName Addr (DefinedSymbols E)\<rparr>"

definition registerSymbol :: "addr \<Rightarrow> string \<Rightarrow> Executable \<Rightarrow> Executable" where
  "registerSymbol S n E = E\<lparr>ExecSymbols := ExecSymbols E @ [S], SymbolsByName := (SymbolsByName E)(n \<mapsto> S)\<rparr>"

definition update_executable ::
  "addr \<Rightarrow> (Executable \<Rightarrow> Executable) \<Rightarrow> 'm program_state_scheme \<Rightarrow> 'm program_state_scheme outcome" where
  "update_executable this f s =
     and_then (deref (Executables s) this) (\<lambda>E. Inr (s\<lparr>Executables := (Executables s)(this \<mapsto> f E)\<rparr>))"

section \<open>Loading\<close>

text \<open>The addresses that the client has given to the globals are stored in the library.\<close>

fun define_globals ::
  "host \<Rightarrow> addr \<Rightarrow> (string \<times> u64) list \<Rightarrow> 'm program_state_scheme \<Rightarrow> 'm program_state_scheme outcome" where
  "define_globals H Program [] s = Inr s"
| "define_globals H Program ((Name, Addr) # ds) s =
     and_then (DLFinalizedProgram_defineGlobalSymbolAddress H Program Name Addr s) (define_globals H Program ds)"

definition PHSA_KERNEL_PREFIX :: string where
  "PHSA_KERNEL_PREFIX = ''phsa_kernel.''"

definition IsPHSAKernel :: "string \<Rightarrow> bool" where
  "IsPHSAKernel SymbolName \<longleftrightarrow>
     length PHSA_KERNEL_PREFIX < length SymbolName \<and>
     take (length PHSA_KERNEL_PREFIX) SymbolName = PHSA_KERNEL_PREFIX"

definition hidden_symbols :: "string list" where
  "hidden_symbols = [''frame_dummy'', ''__do_global_dtors_aux_fini_array_entry'', ''__frame_dummy_init_array_entry'',
     ''__FRAME_END__'', ''__dso_handle'', ''_DYNAMIC'', ''__TMC_END__'', ''_GLOBAL_OFFSET_TABLE_'',
     ''register_tm_clones'', ''deregister_tm_clones'']"

definition hidden_symbol :: "string \<Rightarrow> bool" where
  "hidden_symbol SymbolName \<longleftrightarrow>
     SymbolName = [] \<or>
     (\<not> IsPHSAKernel SymbolName \<and> 7 < length SymbolName \<and> take 8 SymbolName \<noteq> ''gccbrig.'' \<and>
      CHR ''.'' \<in> set SymbolName) \<or>
     SymbolName \<in> set hidden_symbols"

text \<open>The type of a symbol is in the low four bits of \<open>st_info\<close>.\<close>

definition STT_OBJECT :: u8 where
  "STT_OBJECT = 1"

text \<open>
  A new symbol object is registered by its constructor under its own address; then the program and the
  executable note it. \<open>mk\<close> yields the object from its own address and the address in the library.
\<close>

definition new_symbol ::
  "host \<Rightarrow> addr \<Rightarrow> addr \<Rightarrow> string \<Rightarrow> (addr \<Rightarrow> addr \<Rightarrow> symbol_object) \<Rightarrow> 'm program_state_scheme \<Rightarrow>
   'm program_state_scheme outcome" where
  "new_symbol H this Program SymbolName mk s =
     and_then (operator_new s) (\<lambda>(p, s1).
     and_then (DLFinalizedProgram_symbolAddress H Program SymbolName
                 (s1\<lparr>SymbolRegistry := registerObject (SymbolRegistry s1) p p\<rparr>)) (\<lambda>(Address, s2).
     and_then (update_code Program (addSymbol p) (s2\<lparr>SymbolObjects := (SymbolObjects s2)(p \<mapsto> mk p Address)\<rparr>)) (\<lambda>s3.
       update_executable this (registerSymbol p (CHR ''&'' # SymbolName)) s3)))"

definition kernel_symbol ::
  "string \<Rightarrow> addr \<Rightarrow> u32 \<Rightarrow> u32 \<Rightarrow> u32 \<Rightarrow> u32 \<Rightarrow> addr \<Rightarrow> addr \<Rightarrow> symbol_object" where
  "kernel_symbol SymbolName Program kernarg_size kernarg_align group_size private_size this Address =
     Kernel_object \<lparr>Sym_Name = CHR ''&'' # SymbolName, Sym_Type = HSA_SYMBOL_KIND_KERNEL, Sym_ModuleName = [],
       Sym_Agent = nullptr, Sym_Linkage = HSA_SYMBOL_LINKAGE_PROGRAM, Sym_IsDefinition = True,
       Krn_Object = this, Krn_Address = Address, KernargSegmentSize = kernarg_size,
       KernargSegmentAlignment = kernarg_align, GroupSegmentSize = group_size, PrivateSegmentSize = private_size,
       DynamicCallStack = False, ImplementationData = Program\<rparr>"

definition variable_symbol :: "string \<Rightarrow> addr \<Rightarrow> addr \<Rightarrow> symbol_object" where
  "variable_symbol SymbolName this Address =
     Variable_object \<lparr>Sym_Name = CHR ''&'' # SymbolName, Sym_Type = HSA_SYMBOL_KIND_VARIABLE, Sym_ModuleName = [],
       Sym_Agent = nullptr, Sym_Linkage = HSA_SYMBOL_LINKAGE_PROGRAM, Sym_IsDefinition = True,
       Var_Address = Address, Var_Allocation = None, Var_Segment = None, Var_Alignment = None, Var_Size = None,
       Var_IsConst = None\<rparr>"

definition MIN_ALIGNMENT :: u16 where
  "MIN_ALIGNMENT = 16"

text \<open>One round of the loop over the symbol table.\<close>

definition load_symbol ::
  "host \<Rightarrow> addr \<Rightarrow> addr \<Rightarrow> string \<times> u8 \<Rightarrow> 'm program_state_scheme \<Rightarrow> 'm program_state_scheme outcome" where
  "load_symbol H this Program Sym s =
     (let (SymbolName, st_info) = Sym
      in if hidden_symbol SymbolName then Inr s
         else and_then (deref (FinalizedPrograms s) Program) (\<lambda>P.
           and_then (case findDescriptor SymbolName P of None \<Rightarrow> Inr None
                     | Some bs \<Rightarrow> and_then (load_descriptor bs) (\<lambda>D. Inr (Some D))) (\<lambda>Descriptor.
             case Descriptor of
               Some D \<Rightarrow>
                 if is_kernel D \<noteq> 0 then
                   new_symbol H this Program SymbolName
                     (kernel_symbol SymbolName Program (kernarg_segment_size D)
                        (ucast (max MIN_ALIGNMENT (kernarg_max_align D)))
                        (group_segment_size D) (private_segment_size D)) s
                 else if IsPHSAKernel SymbolName then
                   new_symbol H this Program SymbolName (kernel_symbol SymbolName Program 2048 1 0 0) s
                 else if st_info AND 0x0F = STT_OBJECT then
                   new_symbol H this Program SymbolName (variable_symbol SymbolName) s
                 else Inr s
             | None \<Rightarrow>
                 if IsPHSAKernel SymbolName then
                   new_symbol H this Program SymbolName (kernel_symbol SymbolName Program 2048 1 0 0) s
                 else if st_info AND 0x0F = STT_OBJECT then
                   new_symbol H this Program SymbolName (variable_symbol SymbolName) s
                 else Inr s)))"

fun load_symbols ::
  "host \<Rightarrow> addr \<Rightarrow> addr \<Rightarrow> (string \<times> u8) list \<Rightarrow> 'm program_state_scheme \<Rightarrow> 'm program_state_scheme outcome" where
  "load_symbols H this Program [] s = Inr s"
| "load_symbols H this Program (Sym # Syms) s =
     and_then (load_symbol H this Program Sym s) (load_symbols H this Program Syms)"

text \<open>
  \<open>LoadCodeObject\<close>; an image without header or without symbol table is dereferenced through null.
\<close>

definition LoadCodeObject ::
  "host \<Rightarrow> addr \<Rightarrow> u64 \<Rightarrow> 'm program_state_scheme \<Rightarrow> (hsa_status_t \<times> 'm program_state_scheme) outcome" where
  "LoadCodeObject H this CodeObject s =
     (let Program = fromHSAObject (CodeRegistry s) CodeObject
      in if Program = nullptr then Inr (HSA_STATUS_ERROR_INVALID_CODE_OBJECT, s)
         else and_then (deref (Executables s) this) (\<lambda>E.
           and_then (define_globals H Program (DefinedSymbols E) s) (\<lambda>s1.
           and_then (deref (FinalizedPrograms s1) Program) (\<lambda>P.
             case parse_elf H (ELFBlob P) of
               None \<Rightarrow> Inl Null_Dereference
             | Some ELF \<Rightarrow>
                 and_then (update_code Program (\<lambda>P. P\<lparr>CodeVersion := e_version ELF\<rparr>) s1) (\<lambda>s2.
                   case elf_symtab ELF of
                     None \<Rightarrow> Inl Null_Dereference
                   | Some Syms \<Rightarrow>
                       and_then (load_symbols H this Program Syms s2) (\<lambda>s3.
                       and_then (update_code Program (\<lambda>P. P\<lparr>Parent := this\<rparr>) s3) (\<lambda>s4.
                         Inr (HSA_STATUS_SUCCESS, s4))))))))"

end
