(* ===== verification/Gcc_Finalizer.thy ===== *)
theory Gcc_Finalizer
  imports Code_Api
begin

text \<open>
  The finalization of a program (\<open>src/Finalizer/GCC/GCCFinalizer.cc\<close> and the entry point
  \<open>hsa_ext_program_finalize\<close>): the modules are written to files, a command line for the compiler is put
  together and run by the shell, and its output becomes a code object.
\<close>

section \<open>The command line\<close>

definition GCCBinary :: string where
  "GCCBinary = ''gccbrig''"

text \<open>The compiler's path: in the build directory that the environment names, or in the search path.\<close>

definition brigFrontendBin :: "host \<Rightarrow> string" where
  "brigFrontendBin H =
     (case getenv H ''PHSA_GCCBRIG_BUILD_DIR'' of None \<Rightarrow> GCCBinary | Some d \<Rightarrow> d @ ''/gcc/'' @ GCCBinary)"

definition is_space :: "char \<Rightarrow> bool" where
  "is_space c \<longleftrightarrow> c = CHR '' '' \<or> (9 \<le> (of_char c :: nat) \<and> (of_char c :: nat) \<le> 13)"

text \<open>The words that \<open>>>\<close> reads from a string stream; the second argument is the word being read.\<close>

fun words_acc :: "string \<Rightarrow> string \<Rightarrow> string list" where
  "words_acc [] w = (if w = [] then [] else [w])"
| "words_acc (c # cs) w =
     (if is_space c then (if w = [] then words_acc cs [] else w # words_acc cs []) else words_acc cs (w @ [c]))"

definition vendor_flags :: "string option \<Rightarrow> string" where
  "vendor_flags VendorCompilerOptions =
     (case VendorCompilerOptions of None \<Rightarrow> []
      | Some opts \<Rightarrow> concat (map (\<lambda>option. if option = ''-phsa_strict-aliasing'' then ''-fstrict-aliasing '' else [])
          (words_acc opts [])))"

definition compile_command ::
  "host \<Rightarrow> bool \<Rightarrow> string list \<Rightarrow> string \<Rightarrow> string option \<Rightarrow> string" where
  "compile_command H debug BRIGPaths dynObjectPath VendorCompilerOptions =
     brigFrontendBin H @ '' -frounding-math -fno-use-linker-plugin'' @ '' -march=native'' @ '' -lm -fPIC '' @
     concat (map (\<lambda>p. p @ '' '') BRIGPaths) @ '' '' @ [] @ '' -shared -fPIC -o '' @ dynObjectPath @ '' '' @
     (if debug then '' -v '' else []) @
     (case getenv H ''LDFLAGS'' of None \<Rightarrow> [] | Some f \<Rightarrow> f @ '' '') @
     vendor_flags VendorCompilerOptions @
     (case getenv H ''PHSA_COMPILER_FLAGS'' of None \<Rightarrow> [] | Some f \<Rightarrow> f) @
     (if debug then '' -fdump-tree-all -save-temps '' else [])"

text \<open>The exit status in the status word of \<open>system\<close> is its second byte.\<close>

definition WEXITSTATUS :: "i32 \<Rightarrow> i32" where
  "WEXITSTATUS status = drop_bit 8 (status AND 0xFF00)"

definition command_failed :: "i32 \<Rightarrow> bool" where
  "command_failed status \<longleftrightarrow> status = -1 \<or> WEXITSTATUS status \<noteq> 0"

section \<open>Finalization\<close>

text \<open>The temporary directory; no fresh name is a failure of \<open>mkdtemp\<close>, \<open>None\<close>.\<close>

definition compiler_temp_dir ::
  "host \<Rightarrow> 'm program_state_scheme \<Rightarrow> string option \<times> 'm program_state_scheme" where
  "compiler_temp_dir H s =
     (case getenv H ''PHSA_COMPILER_TEMP_DIR'' of
        Some d \<Rightarrow> (Some d, s)
      | None \<Rightarrow>
          (case FreshNames s of [] \<Rightarrow> (None, s)
           | n # ns \<Rightarrow> (Some (''/tmp/phsa-finalizer-'' @ n), s\<lparr>FreshNames := ns\<rparr>)))"

text \<open>
  The part behind the compilation: the output is read into a new blob. A file that cannot be opened has
  the length \<open>SIZE_MAX\<close>, for which the allocation throws.
\<close>

definition load_binary ::
  "host \<Rightarrow> string \<Rightarrow> u64 \<Rightarrow> HSAILProgram \<Rightarrow> hsa_ext_control_directives_t \<Rightarrow> 'm program_state_scheme \<Rightarrow>
   (hsa_status_t \<times> u64 \<times> 'm program_state_scheme) outcome" where
  "load_binary H dynObjectPath ISA prog ControlDirectives s =
     (case Files s dynObjectPath of
        None \<Rightarrow> Inl Exception_Thrown
      | Some elfBlob \<Rightarrow>
          and_then (operator_new s) (\<lambda>(blob, s1).
          and_then (DLFinalizedProgram_new H elfBlob ISA (MachineModel prog) (Profile prog) (DefaultRoundingMode prog) s1)
            (\<lambda>(finalizedProg, s2).
          and_then (update_code finalizedProg (setBinFileName dynObjectPath) s2) (\<lambda>s3.
          and_then (deref (FinalizedPrograms s3) finalizedProg) (\<lambda>P.
          and_then (loadAndCheckControlDirectives P ControlDirectives) (\<lambda>ok.
            if ok then Inr (HSA_STATUS_SUCCESS, finalizedProg, s3)
            else and_then (DLFinalizedProgram_delete H finalizedProg s3) (\<lambda>s4.
              Inr (HSA_EXT_STATUS_ERROR_DIRECTIVE_MISMATCH, 0, s4))))))))"

definition GCCFinalizer_finalizeProgram ::
  "host \<Rightarrow> u64 \<Rightarrow> hsa_ext_control_directives_t \<Rightarrow> u64 \<Rightarrow> string option \<Rightarrow> 'm program_state_scheme \<Rightarrow>
   (hsa_status_t \<times> u64 \<times> 'm program_state_scheme) outcome" where
  "GCCFinalizer_finalizeProgram H Program ControlDirectives ISA VendorCompilerOptions s =
     (if getenv H ''PHSA_GCCBRIG_BUILD_DIR'' \<noteq> None \<and> Files s (brigFrontendBin H) = None
      then Inr (HSA_EXT_STATUS_ERROR_FINALIZATION_FAILED, 0, s)
      else
        let this = fromHSAObject (ProgramRegistry s) Program
        in and_then (deref (HSAILPrograms s) this) (\<lambda>prog.
             if \<not> hasModules prog then Inr (HSA_EXT_STATUS_ERROR_INVALID_PROGRAM, 0, s)
             else case compiler_temp_dir H s of
               (None, s1) \<Rightarrow> Inr (HSA_EXT_STATUS_ERROR_FINALIZATION_FAILED, 0, s1)
             | (Some tempDir, s1) \<Rightarrow>
                 let (debug, s2) = IsDebugMode H s1
                 in and_then (dumpBRIGS H tempDir this s2) (\<lambda>(ok, BRIGPaths, s3).
                      if \<not> ok then Inr (HSA_EXT_STATUS_ERROR_FINALIZATION_FAILED, 0, s3)
                      else
                        let dynObjectPath = last BRIGPaths @ ''.so'';
                            (status, fs) = run_command H
                              (compile_command H debug BRIGPaths dynObjectPath VendorCompilerOptions) (Files s3);
                            s4 = s3\<lparr>Files := fs\<rparr>
                        in if command_failed status then Inr (HSA_EXT_STATUS_ERROR_FINALIZATION_FAILED, 0, s4)
                           else load_binary H dynObjectPath ISA prog ControlDirectives s4)))"

definition hsa_ext_program_finalize ::
  "host \<Rightarrow> 'm program_state_scheme \<Rightarrow> u64 \<Rightarrow> u64 \<Rightarrow> i32 \<Rightarrow> hsa_ext_control_directives_t \<Rightarrow> string option \<Rightarrow>
   u32 \<Rightarrow> addr \<Rightarrow> (hsa_status_t \<times> u64 option \<times> 'm program_state_scheme) outcome" where
  "hsa_ext_program_finalize H s program isa call_convention control_directives options code_object_type code_object =
     (if \<not> isInitialized s then Inr (HSA_STATUS_ERROR_NOT_INITIALIZED, None, s)
      else
        let (I, s1) = ISA_fromHSAObject isa s
        in if I = [] then Inr (HSA_STATUS_ERROR_INVALID_ISA, None, s1)
           else if program = 0 then Inr (HSA_EXT_STATUS_ERROR_INVALID_PROGRAM, None, s1)
           else with_finalizer s1
             (and_then (GCCFinalizer_finalizeProgram H program control_directives isa options s1) (\<lambda>(Ret, c, s2).
               if code_object = nullptr then Inl Null_Dereference else Inr (Ret, Some c, s2))))"

end
