(* ===== verification/Executable_Api.thy ===== *)
theory Executable_Api
  imports Executables Gcc_Finalizer
begin

text \<open>The entry points of \<open>src/hsa/hsa_executable.cc\<close>.\<close>

section \<open>Life of an executable\<close>

definition hsa_executable_create ::
  "'m program_state_scheme \<Rightarrow> hsa_profile_t \<Rightarrow> hsa_executable_state_t \<Rightarrow> string option \<Rightarrow> addr \<Rightarrow>
   (hsa_status_t \<times> u64 option \<times> 'm program_state_scheme) outcome" where
  "hsa_executable_create s profile executable_state options executable =
     (if \<not> isInitialized s then Inr (HSA_STATUS_ERROR_NOT_INITIALIZED, None, s)
      else if executable = nullptr then Inr (HSA_STATUS_ERROR_INVALID_ARGUMENT, None, s)
      else and_then (ELFExecutable_new profile (executable_state = HSA_EXECUTABLE_STATE_FROZEN) s) (\<lambda>(E, s1).
        Inr (HSA_STATUS_SUCCESS, Some E, s1)))"

definition hsa_executable_destroy ::
  "'m program_state_scheme \<Rightarrow> u64 \<Rightarrow> (hsa_status_t \<times> 'm program_state_scheme) outcome" where
  "hsa_executable_destroy s executable =
     (if \<not> isInitialized s then Inr (HSA_STATUS_ERROR_NOT_INITIALIZED, s)
      else
        let E = fromHSAObject (ExecutableRegistry s) executable
        in if E = nullptr then Inr (HSA_STATUS_ERROR_INVALID_EXECUTABLE, s)
           else and_then (ELFExecutable_delete E s) (\<lambda>s1. Inr (HSA_STATUS_SUCCESS, s1)))"

definition hsa_executable_load_code_object ::
  "host \<Rightarrow> 'm program_state_scheme \<Rightarrow> u64 \<Rightarrow> u64 \<Rightarrow> u64 \<Rightarrow> string option \<Rightarrow>
   (hsa_status_t \<times> 'm program_state_scheme) outcome" where
  "hsa_executable_load_code_object H s executable agent code_object options =
     (if \<not> isInitialized s then Inr (HSA_STATUS_ERROR_NOT_INITIALIZED, s)
      else
        let E = fromHSAObject (ExecutableRegistry s) executable
        in if E = nullptr then Inr (HSA_STATUS_ERROR_INVALID_EXECUTABLE, s)
           else and_then (deref (Executables s) E) (\<lambda>Exec.
             if IsFrozen Exec then Inr (HSA_STATUS_ERROR_FROZEN_EXECUTABLE, s)
             else if fromHSAObject (AgentRegistry s) agent = nullptr then Inr (HSA_STATUS_ERROR_INVALID_AGENT, s)
             else if code_object = 0 then Inr (HSA_STATUS_ERROR_INVALID_CODE_OBJECT, s)
             else LoadCodeObject H E code_object s))"

definition hsa_executable_freeze ::
  "'m program_state_scheme \<Rightarrow> u64 \<Rightarrow> string option \<Rightarrow> (hsa_status_t \<times> 'm program_state_scheme) outcome" where
  "hsa_executable_freeze s executable options =
     (if \<not> isInitialized s then Inr (HSA_STATUS_ERROR_NOT_INITIALIZED, s)
      else
        let E = fromHSAObject (ExecutableRegistry s) executable
        in if E = nullptr then Inr (HSA_STATUS_ERROR_INVALID_EXECUTABLE, s)
           else and_then (deref (Executables s) E) (\<lambda>Exec.
             if IsFrozen Exec then Inr (HSA_STATUS_ERROR_FROZEN_EXECUTABLE, s)
             else and_then (update_executable E freeze s) (\<lambda>s1. Inr (HSA_STATUS_SUCCESS, s1))))"

definition hsa_executable_get_info ::
  "'m program_state_scheme \<Rightarrow> u64 \<Rightarrow> hsa_executable_info_t \<Rightarrow> addr \<Rightarrow> (hsa_status_t \<times> field option) outcome" where
  "hsa_executable_get_info s executable attribute value =
     (if \<not> isInitialized s then Inr (HSA_STATUS_ERROR_NOT_INITIALIZED, None)
      else if value = nullptr then Inr (HSA_STATUS_ERROR_INVALID_ARGUMENT, None)
      else
        let p = fromHSAObject (ExecutableRegistry s) executable
        in if p = nullptr then Inr (HSA_STATUS_ERROR_INVALID_EXECUTABLE, None)
           else and_then (deref (Executables s) p) (\<lambda>E. Inr
             (case attribute of
                HSA_EXECUTABLE_INFO_PROFILE \<Rightarrow>
                  (HSA_STATUS_SUCCESS, Some (F_u32 (hsa_profile_t_value (ExecProfile E))))
              | HSA_EXECUTABLE_INFO_STATE \<Rightarrow>
                  (HSA_STATUS_SUCCESS, Some (F_u32 (hsa_executable_state_t_value (getExecutableState E))))
              | hsa_executable_info_t_unlisted v \<Rightarrow> (HSA_STATUS_ERROR_INVALID_ARGUMENT, None))))"

section \<open>Definitions of global variables\<close>

definition hsa_executable_global_variable_define ::
  "'m program_state_scheme \<Rightarrow> u64 \<Rightarrow> string option \<Rightarrow> addr \<Rightarrow> (hsa_status_t \<times> 'm program_state_scheme) outcome" where
  "hsa_executable_global_variable_define s executable variable_name address =
     (if \<not> isInitialized s then Inr (HSA_STATUS_ERROR_NOT_INITIALIZED, s)
      else
        let E = fromHSAObject (ExecutableRegistry s) executable
        in if E = nullptr then Inr (HSA_STATUS_ERROR_INVALID_EXECUTABLE, s)
           else case variable_name of
             None \<Rightarrow> Inr (HSA_STATUS_ERROR_INVALID_ARGUMENT, s)
           | Some n \<Rightarrow>
               and_then (update_executable E (Executable_defineGlobalSymbolAddress n address) s)
                 (\<lambda>s1. Inr (HSA_STATUS_SUCCESS, s1)))"

definition hsa_executable_agent_global_variable_define ::
  "'m program_state_scheme \<Rightarrow> u64 \<Rightarrow> u64 \<Rightarrow> string option \<Rightarrow> addr \<Rightarrow>
   (hsa_status_t \<times> 'm program_state_scheme) outcome" where
  "hsa_executable_agent_global_variable_define s executable agent variable_name address =
     (if \<not> isInitialized s then Inr (HSA_STATUS_ERROR_NOT_INITIALIZED, s)
      else
        let E = fromHSAObject (ExecutableRegistry s) executable
        in if E = nullptr then Inr (HSA_STATUS_ERROR_INVALID_EXECUTABLE, s)
           else case variable_name of
             None \<Rightarrow> Inr (HSA_STATUS_ERROR_INVALID_ARGUMENT, s)
           | Some n \<Rightarrow>
               and_then (update_executable E (Executable_defineGlobalSymbolAddress n address) s)
                 (\<lambda>s1. Inr (HSA_STATUS_SUCCESS, s1)))"

definition hsa_executable_readonly_variable_define ::
  "'m program_state_scheme \<Rightarrow> u64 \<Rightarrow> u64 \<Rightarrow> string option \<Rightarrow> addr \<Rightarrow>
   (hsa_status_t \<times> 'm program_state_scheme) outcome" where
  "hsa_executable_readonly_variable_define s executable agent variable_name address =
     (if \<not> isInitialized s then Inr (HSA_STATUS_ERROR_NOT_INITIALIZED, s)
      else
        let E = fromHSAObject (ExecutableRegistry s) executable
        in if E = nullptr then Inr (HSA_STATUS_ERROR_INVALID_EXECUTABLE, s)
           else case variable_name of
             None \<Rightarrow> Inr (HSA_STATUS_ERROR_INVALID_ARGUMENT, s)
           | Some n \<Rightarrow>
               and_then (update_executable E (Executable_defineGlobalSymbolAddress n address) s)
                 (\<lambda>s1. Inr (HSA_STATUS_SUCCESS, s1)))"

text \<open>Validation reports success and writes no result.\<close>

definition hsa_executable_validate :: "u64 \<Rightarrow> addr \<Rightarrow> hsa_status_t \<times> u32 option" where
  "hsa_executable_validate executable result = (HSA_STATUS_SUCCESS, None)"

section \<open>Symbols\<close>

text \<open>
  The name under which a symbol is registered: a missing ampersand is added; of the module's name the
  first character is dropped and the name is put in with the compiler's prefix.
\<close>

definition executable_symbol_name :: "string option \<Rightarrow> string \<Rightarrow> string" where
  "executable_symbol_name module_name symbol_name =
     (let SymbolName = (if hd symbol_name \<noteq> CHR ''&'' then CHR ''&'' # symbol_name else symbol_name)
      in case module_name of
           None \<Rightarrow> SymbolName
         | Some m \<Rightarrow>
             if m = [] then SymbolName
             else take 1 SymbolName @ ''gccbrig.'' @ tl m @ ''.'' @ drop 1 SymbolName)"

text \<open>The executable is dereferenced unchecked, and the runtime need not be initialised.\<close>

definition hsa_executable_get_symbol ::
  "'m program_state_scheme \<Rightarrow> u64 \<Rightarrow> string option \<Rightarrow> string option \<Rightarrow> u64 \<Rightarrow> i32 \<Rightarrow> addr \<Rightarrow>
   (hsa_status_t \<times> u64 option) outcome" where
  "hsa_executable_get_symbol s executable module_name symbol_name agent call_convention symbol =
     (case symbol_name of
        None \<Rightarrow> Inr (HSA_STATUS_ERROR_INVALID_SYMBOL_NAME, None)
      | Some n \<Rightarrow>
          if n = [] then Inr (HSA_STATUS_ERROR_INVALID_SYMBOL_NAME, None)
          else and_then (deref (Executables s) (fromHSAObject (ExecutableRegistry s) executable)) (\<lambda>E.
            let S = getSymbol (executable_symbol_name module_name n) E
            in if S = nullptr then Inr (HSA_STATUS_ERROR_INVALID_SYMBOL_NAME, None)
               else if symbol = nullptr then Inl Null_Dereference
               else Inr (HSA_STATUS_SUCCESS, Some S)))"

definition executable_symbol_attribute ::
  "symbol_object \<Rightarrow> hsa_executable_symbol_info_t \<Rightarrow> field option outcome" where
  "executable_symbol_attribute S attribute =
     (let B = symbol_base S in case attribute of
        HSA_EXECUTABLE_SYMBOL_INFO_TYPE \<Rightarrow> Inr (Some (F_u32 (hsa_symbol_kind_t_value (Sym_Type B))))
      | HSA_EXECUTABLE_SYMBOL_INFO_NAME_LENGTH \<Rightarrow> Inr (Some (F_u32 (of_nat (length (Sym_Name B)))))
      | HSA_EXECUTABLE_SYMBOL_INFO_NAME \<Rightarrow> Inr (Some (F_string (Sym_Name B) (length (Sym_Name B))))
      | HSA_EXECUTABLE_SYMBOL_INFO_MODULE_NAME_LENGTH \<Rightarrow> Inr (Some (F_u32 (of_nat (length (Sym_ModuleName B)))))
      | HSA_EXECUTABLE_SYMBOL_INFO_MODULE_NAME \<Rightarrow>
          Inr (Some (F_string (Sym_ModuleName B) (length (Sym_ModuleName B))))
      | HSA_EXECUTABLE_SYMBOL_INFO_AGENT \<Rightarrow> Inr (Some (F_u64 (Sym_Agent B)))
      | HSA_EXECUTABLE_SYMBOL_INFO_VARIABLE_ADDRESS \<Rightarrow> variable_field S (\<lambda>V. Some (Var_Address V)) F_u64
      | HSA_EXECUTABLE_SYMBOL_INFO_LINKAGE \<Rightarrow> Inr (Some (F_u32 (hsa_symbol_linkage_t_value (Sym_Linkage B))))
      | HSA_EXECUTABLE_SYMBOL_INFO_IS_DEFINITION \<Rightarrow> Inr (Some (F_bool (Sym_IsDefinition B)))
      | HSA_EXECUTABLE_SYMBOL_INFO_VARIABLE_ALLOCATION \<Rightarrow>
          variable_field S Var_Allocation (\<lambda>a. F_u32 (hsa_variable_allocation_t_value a))
      | HSA_EXECUTABLE_SYMBOL_INFO_VARIABLE_SEGMENT \<Rightarrow>
          variable_field S Var_Segment (\<lambda>a. F_u32 (hsa_variable_segment_t_value a))
      | HSA_EXECUTABLE_SYMBOL_INFO_VARIABLE_ALIGNMENT \<Rightarrow> variable_field S Var_Alignment F_u32
      | HSA_EXECUTABLE_SYMBOL_INFO_VARIABLE_SIZE \<Rightarrow> variable_field S Var_Size F_u32
      | HSA_EXECUTABLE_SYMBOL_INFO_VARIABLE_IS_CONST \<Rightarrow> variable_field S Var_IsConst F_bool
      | HSA_EXECUTABLE_SYMBOL_INFO_KERNEL_OBJECT \<Rightarrow> kernel_field S (\<lambda>K. F_u64 (Krn_Object K))
      | HSA_EXECUTABLE_SYMBOL_INFO_KERNEL_KERNARG_SEGMENT_SIZE \<Rightarrow> kernel_field S (\<lambda>K. F_u32 (KernargSegmentSize K))
      | HSA_EXECUTABLE_SYMBOL_INFO_KERNEL_KERNARG_SEGMENT_ALIGNMENT \<Rightarrow>
          kernel_field S (\<lambda>K. F_u32 (KernargSegmentAlignment K))
      | HSA_EXECUTABLE_SYMBOL_INFO_KERNEL_GROUP_SEGMENT_SIZE \<Rightarrow> kernel_field S (\<lambda>K. F_u32 (GroupSegmentSize K))
      | HSA_EXECUTABLE_SYMBOL_INFO_KERNEL_PRIVATE_SEGMENT_SIZE \<Rightarrow> kernel_field S (\<lambda>K. F_u32 (PrivateSegmentSize K))
      | HSA_EXECUTABLE_SYMBOL_INFO_KERNEL_DYNAMIC_CALLSTACK \<Rightarrow> kernel_field S (\<lambda>K. F_bool (DynamicCallStack K))
      | HSA_EXECUTABLE_SYMBOL_INFO_INDIRECT_FUNCTION_OBJECT \<Rightarrow> indirect_field S (\<lambda>I. F_u64 (FunctionObject I))
      | HSA_EXECUTABLE_SYMBOL_INFO_INDIRECT_FUNCTION_CALL_CONVENTION \<Rightarrow>
          indirect_field S (\<lambda>I. F_u32 (FunctionCallConvention I))
      | hsa_executable_symbol_info_t_unlisted v \<Rightarrow> Inr None)"

definition hsa_executable_symbol_get_info ::
  "'m program_state_scheme \<Rightarrow> u64 \<Rightarrow> hsa_executable_symbol_info_t \<Rightarrow> addr \<Rightarrow>
   (hsa_status_t \<times> field option) outcome" where
  "hsa_executable_symbol_get_info s executable_symbol attribute value =
     (if \<not> isInitialized s then Inr (HSA_STATUS_ERROR_NOT_INITIALIZED, None)
      else if value = nullptr then Inr (HSA_STATUS_ERROR_INVALID_ARGUMENT, None)
      else
        let p = fromHSAObject (SymbolRegistry s) executable_symbol
        in if p = nullptr then Inr (HSA_STATUS_ERROR_INVALID_ARGUMENT, None)
           else and_then (deref (SymbolObjects s) p) (\<lambda>S.
             and_then (executable_symbol_attribute S attribute) (\<lambda>r.
               case r of None \<Rightarrow> Inr (HSA_STATUS_ERROR_INVALID_ARGUMENT, None)
               | Some w \<Rightarrow> Inr (HSA_STATUS_SUCCESS, Some w))))"

text \<open>The symbols' handles are their addresses.\<close>

definition hsa_executable_iterate_symbols ::
  "'m program_state_scheme \<Rightarrow> u64 \<Rightarrow> (u64 \<Rightarrow> u64 \<Rightarrow> 'd \<Rightarrow> hsa_status_t \<times> 'd) option \<Rightarrow> 'd \<Rightarrow>
   (hsa_status_t \<times> 'd) outcome" where
  "hsa_executable_iterate_symbols s executable callback data =
     (if \<not> isInitialized s then Inr (HSA_STATUS_ERROR_NOT_INITIALIZED, data)
      else and_then (deref (Executables s) (fromHSAObject (ExecutableRegistry s) executable)) (\<lambda>E.
        case callback of
          None \<Rightarrow> if ExecSymbols E = [] then Inr (HSA_STATUS_SUCCESS, data) else Inl Null_Dereference
        | Some f \<Rightarrow> Inr (iterate_callback (f executable) (ExecSymbols E) data)))"

end
