(* ===== verification/Allocation.thy ===== *)
theory Allocation
  imports Cpu_Region
begin

text \<open>
  What the allocating operations change, as facts about a call that returned: the addresses come from the front
  of the host's supply, and only the regions' sets of chunks change besides. They are elimination rules, so that the
  proofs about objects and calls built on them need not look inside.
\<close>

lemma operator_new_Inr:
  assumes "operator_new s = Inr (p, s')"
  obtains H where "p \<noteq> nullptr" "HostHeap s = p # H" "s' = s\<lparr>HostHeap := H\<rparr>"
  using assms by (auto simp: operator_new_def host_malloc_def split: list.splits if_splits)

text \<open>The supply after an allocation, whose result may be the null pointer.\<close>

definition took :: "addr \<Rightarrow> addr list \<Rightarrow> addr list \<Rightarrow> bool" where
  "took p H H' \<longleftrightarrow> (if p = nullptr then H' = H \<or> H = nullptr # H' else H = p # H')"

lemma host_malloc_took: "host_malloc s = (p, s') \<Longrightarrow> \<exists>H. took p (HostHeap s) H \<and> s' = s\<lparr>HostHeap := H\<rparr>"
  by (cases "HostHeap s") (auto simp: host_malloc_def took_def intro: exI [of _ "[]"])

lemma posix_memalign_took:
  assumes "posix_memalign a n s = (q, s')"
  shows "\<exists>H. took (case q of None \<Rightarrow> nullptr | Some p \<Rightarrow> p) (HostHeap s) H \<and> s' = s\<lparr>HostHeap := H\<rparr> \<and> q \<noteq> Some nullptr"
proof (cases "\<not> is_pow2 a \<or> unat a mod 8 \<noteq> 0")
  case True
  then show ?thesis using assms by (auto simp: posix_memalign_def took_def intro!: exI [of _ "HostHeap s"])
next
  case False
  obtain p s1 where m: "host_malloc s = (p, s1)" by (cases "host_malloc s")
  with False assms have "q = (if p = nullptr then None else Some p)" "s1 = s'" by (auto simp: posix_memalign_def)
  with host_malloc_took [OF m] show ?thesis by (auto split: if_splits)
qed

lemma allocate_Inr:
  assumes "CPUMemoryRegion_allocate r s n a = Inr (p, s')"
  obtains H R A where "r \<noteq> nullptr" "CPURegions s r = Some R" "took p (HostHeap s) H"
    "s' = s\<lparr>HostHeap := H, CPURegions := (CPURegions s)(r \<mapsto> R\<lparr>CPUAllocations := A\<rparr>)\<rparr>"
proof -
  from assms obtain R where R: "r \<noteq> nullptr" "CPURegions s r = Some R"
    by (auto simp: CPUMemoryRegion_allocate_def outcome_simps)
  then have same: "(CPURegions s)(r \<mapsto> R\<lparr>CPUAllocations := CPUAllocations R\<rparr>) = CPURegions s"
    by (simp add: fun_upd_idem)
  show thesis
  proof (cases "a < 8")
    case True
    obtain q s1 where m: "host_malloc s = (q, s1)" by (cases "host_malloc s")
    from host_malloc_took [OF m] obtain H where "took q (HostHeap s) H" "s1 = s\<lparr>HostHeap := H\<rparr>" by blast
    with True assms R m show thesis
      by (intro that [of R H "insert q (CPUAllocations R)"])
        (auto simp: CPUMemoryRegion_allocate_def deref_Some set_allocations_def)
  next
    case False
    obtain q s1 where m: "posix_memalign a n s = (q, s1)" by (cases "posix_memalign a n s")
    from posix_memalign_took [OF m] obtain H where
      H: "took (case q of None \<Rightarrow> nullptr | Some p \<Rightarrow> p) (HostHeap s) H" "s1 = s\<lparr>HostHeap := H\<rparr>" "q \<noteq> Some nullptr" by blast
    show thesis
    proof (cases q)
      case None
      with H False assms R m same show thesis
        by (intro that [of R H "CPUAllocations R"]) (auto simp: CPUMemoryRegion_allocate_def deref_Some)
    next
      case (Some x)
      with H False assms R m show thesis
        by (intro that [of R H "insert x (CPUAllocations R)"])
          (auto simp: CPUMemoryRegion_allocate_def deref_Some set_allocations_def)
    qed
  qed
qed

lemma free_Inr:
  assumes "CPUMemoryRegion_free r s p = Inr (found, s')"
  obtains R A where "r \<noteq> nullptr" "CPURegions s r = Some R"
    "s' = s\<lparr>CPURegions := (CPURegions s)(r \<mapsto> R\<lparr>CPUAllocations := A\<rparr>)\<rparr>"
proof -
  from assms obtain R where R: "r \<noteq> nullptr" "CPURegions s r = Some R"
    by (auto simp: CPUMemoryRegion_free_def outcome_simps)
  then have same: "(CPURegions s)(r \<mapsto> R\<lparr>CPUAllocations := CPUAllocations R\<rparr>) = CPURegions s"
    by (simp add: fun_upd_idem)
  show thesis
  proof (cases "p \<in> CPUAllocations R")
    case True
    with R assms show thesis
      by (intro that [of R "CPUAllocations R - {p}"]) (auto simp: CPUMemoryRegion_free_def deref_Some set_allocations_def)
  next
    case False
    with R assms same show thesis
      by (intro that [of R "CPUAllocations R"]) (auto simp: CPUMemoryRegion_free_def deref_Some)
  qed
qed

end
