(* ===== verification/Symbol_Loading.thy ===== *)
theory Symbol_Loading
  imports Executable_Api Allocation
begin

text \<open>
  What the loading of a code object leaves behind: each symbol of the image that is not hidden gets an
  object of its own, registered under its address, and later symbols do not disturb it.
\<close>

section \<open>The library\<close>

text \<open>The handle of the library of a program, whether it has been loaded already or not.\<close>

definition library_handle :: "host \<Rightarrow> (string \<rightharpoonup> u8 list) \<Rightarrow> FinalizedProgram \<Rightarrow> addr" where
  "library_handle H fs P = (if Dlhandle P \<noteq> nullptr then Dlhandle P else dlopen H fs (BinaryFileName P))"

text \<open>The address of a symbol in the library; 0 when there is no library.\<close>

definition library_address :: "host \<Rightarrow> addr \<Rightarrow> string \<Rightarrow> addr \<Rightarrow> bool" where
  "library_address H dlh n A \<longleftrightarrow>
     (if dlh = nullptr then A = 0 else dlsym H dlh (strip_ampersand n) = Some A)"

lemma dlhandle_Inr:
  assumes "dlhandle H Program s = Inr (dlh, s')"
  obtains P where "Program \<noteq> nullptr" "FinalizedPrograms s Program = Some P" "dlh = library_handle H (Files s) P"
    "s' = s\<lparr>FinalizedPrograms := (FinalizedPrograms s)(Program \<mapsto> P\<lparr>Dlhandle := library_handle H (Files s) P\<rparr>)\<rparr>"
proof -
  from assms obtain P where P: "Program \<noteq> nullptr" "FinalizedPrograms s Program = Some P"
    by (auto simp: dlhandle_def outcome_simps)
  have "P\<lparr>Dlhandle := Dlhandle P\<rparr> = P" by simp
  with P(2) have same: "s = s\<lparr>FinalizedPrograms := (FinalizedPrograms s)(Program \<mapsto> P\<lparr>Dlhandle := Dlhandle P\<rparr>)\<rparr>"
    by (simp add: fun_upd_idem)
  show thesis
  proof (cases "Dlhandle P = nullptr")
    case True
    with P assms show ?thesis
      by (intro that [OF P]) (auto simp: dlhandle_def deref_Some update_code_def library_handle_def Let_def split: if_splits)
  next
    case False
    then have "dlh = Dlhandle P" "s' = s" using P assms by (auto simp: dlhandle_def deref_Some)
    with False P same show ?thesis by (intro that [OF P]) (simp_all add: library_handle_def)
  qed
qed

lemma library_handle_again [simp]:
  "library_handle H fs (P\<lparr>Dlhandle := library_handle H fs P\<rparr>) = library_handle H fs P"
  by (simp add: library_handle_def)

lemma symbolAddress_Inr:
  assumes "DLFinalizedProgram_symbolAddress H Program n s = Inr (A, s')"
  obtains P where "Program \<noteq> nullptr" "FinalizedPrograms s Program = Some P" "library_address H (library_handle H (Files s) P) n A"
    "s' = s\<lparr>FinalizedPrograms := (FinalizedPrograms s)(Program \<mapsto> P\<lparr>Dlhandle := library_handle H (Files s) P\<rparr>)\<rparr>"
proof -
  obtain dlh s1 where d: "dlhandle H Program s = Inr (dlh, s1)"
    using assms by (auto simp: DLFinalizedProgram_symbolAddress_def outcome_simps)
  then obtain P where P: "Program \<noteq> nullptr" "FinalizedPrograms s Program = Some P" "dlh = library_handle H (Files s) P"
    "s1 = s\<lparr>FinalizedPrograms := (FinalizedPrograms s)(Program \<mapsto> P\<lparr>Dlhandle := library_handle H (Files s) P\<rparr>)\<rparr>"
    by (rule dlhandle_Inr)
  have "library_address H dlh n A \<and> s' = s1"
    using assms d by (auto simp: DLFinalizedProgram_symbolAddress_def library_address_def split: if_splits option.splits)
  with P show thesis by (intro that [OF P(1,2)]) auto
qed

section \<open>What stays the same\<close>

text \<open>
  The program's descriptors and its library do not change while symbols are loaded, nor does the file
  system.
\<close>

definition same_library :: "host \<Rightarrow> addr \<Rightarrow> 'm program_state_scheme \<Rightarrow> 'm program_state_scheme \<Rightarrow> bool" where
  "same_library H Program s s' \<longleftrightarrow>
     Files s' = Files s \<and>
     (\<forall>P. FinalizedPrograms s Program = Some P \<longrightarrow>
        (\<exists>P'. FinalizedPrograms s' Program = Some P' \<and> FuncDescriptors P' = FuncDescriptors P \<and>
          ELFBlob P' = ELFBlob P \<and> library_handle H (Files s) P' = library_handle H (Files s) P))"

lemma same_library_refl: "same_library H Program s s"
  by (simp add: same_library_def)

lemma same_library_trans:
  assumes "same_library H Program s s1" and "same_library H Program s1 s2"
  shows "same_library H Program s s2"
  unfolding same_library_def
proof (intro conjI allI impI)
  show "Files s2 = Files s" using assms by (simp add: same_library_def)
next
  fix P assume "FinalizedPrograms s Program = Some P"
  with assms(1) obtain P1 where P1: "FinalizedPrograms s1 Program = Some P1" "FuncDescriptors P1 = FuncDescriptors P"
    "ELFBlob P1 = ELFBlob P" "library_handle H (Files s) P1 = library_handle H (Files s) P" "Files s1 = Files s"
    by (auto simp: same_library_def)
  with assms(2) obtain P2 where "FinalizedPrograms s2 Program = Some P2" "FuncDescriptors P2 = FuncDescriptors P1"
    "ELFBlob P2 = ELFBlob P1" "library_handle H (Files s1) P2 = library_handle H (Files s1) P1"
    by (auto simp: same_library_def)
  with P1 show "\<exists>P'. FinalizedPrograms s2 Program = Some P' \<and> FuncDescriptors P' = FuncDescriptors P \<and>
      ELFBlob P' = ELFBlob P \<and> library_handle H (Files s) P' = library_handle H (Files s) P"
    by auto
qed

section \<open>One symbol\<close>

text \<open>The state behind the registration of a new symbol \<open>obj\<close> at \<open>p\<close> with the name \<open>n\<close>.\<close>

definition symbol_added ::
  "host \<Rightarrow> addr \<Rightarrow> addr \<Rightarrow> string \<Rightarrow> addr \<Rightarrow> symbol_object \<Rightarrow> 'm program_state_scheme \<Rightarrow> 'm program_state_scheme \<Rightarrow> bool" where
  "symbol_added H this Program n p obj s s' \<longleftrightarrow>
     p \<noteq> nullptr \<and> HostHeap s = p # HostHeap s' \<and>
     SymbolRegistry s' = registerObject (SymbolRegistry s) p p \<and>
     SymbolObjects s' = (SymbolObjects s)(p \<mapsto> obj) \<and>
     (\<exists>E. Executables s this = Some E \<and>
        Executables s' = (Executables s)(this \<mapsto> registerSymbol p (CHR ''&'' # n) E)) \<and>
     same_library H Program s s' \<and> AgentRegistry s' = AgentRegistry s \<and> Instance s' = Instance s \<and>
     ReferenceCounter s' = ReferenceCounter s \<and> ExecutableRegistry s' = ExecutableRegistry s"

lemma new_symbol_added:
  assumes "new_symbol H this Program n mk s = Inr s'" and "FinalizedPrograms s Program = Some P"
  shows "\<exists>p A. symbol_added H this Program n p (mk p A) s s' \<and> library_address H (library_handle H (Files s) P) n A"
proof -
  obtain p s1 A s2 s3 where steps: "operator_new s = Inr (p, s1)"
    "DLFinalizedProgram_symbolAddress H Program n (s1\<lparr>SymbolRegistry := registerObject (SymbolRegistry s1) p p\<rparr>) = Inr (A, s2)"
    "update_code Program (addSymbol p) (s2\<lparr>SymbolObjects := (SymbolObjects s2)(p \<mapsto> mk p A)\<rparr>) = Inr s3"
    "update_executable this (registerSymbol p (CHR ''&'' # n)) s3 = Inr s'"
    using assms(1) by (auto simp: new_symbol_def outcome_simps)
  from steps(1) obtain ps where p: "p \<noteq> nullptr" "HostHeap s = p # ps" "s1 = s\<lparr>HostHeap := ps\<rparr>"
    by (rule operator_new_Inr)
  let ?P = "P\<lparr>Dlhandle := library_handle H (Files s) P\<rparr>"
  let ?t = "s\<lparr>HostHeap := ps, SymbolRegistry := registerObject (SymbolRegistry s) p p\<rparr>"
  have A: "library_address H (library_handle H (Files s) P) n A"
    and s2: "s2 = ?t\<lparr>FinalizedPrograms := (FinalizedPrograms s)(Program \<mapsto> ?P)\<rparr>" and Program: "Program \<noteq> nullptr"
    using symbolAddress_Inr [OF steps(2)] assms(2) p(3) by auto
  have s3: "s3 = s2\<lparr>SymbolObjects := (SymbolObjects s)(p \<mapsto> mk p A),
      FinalizedPrograms := (FinalizedPrograms s)(Program \<mapsto> addSymbol p ?P)\<rparr>"
    using steps(3) Program by (simp add: update_code_def deref_Some s2)
  obtain E where E: "Executables s this = Some E"
    "s' = s3\<lparr>Executables := (Executables s)(this \<mapsto> registerSymbol p (CHR ''&'' # n) E)\<rparr>"
    using steps(4) by (auto simp: update_executable_def outcome_simps s3 s2)
  have lib: "library_handle H (Files s) (addSymbol p ?P) = library_handle H (Files s) P"
    by (simp add: library_handle_def addSymbol_def)
  have "same_library H Program s s'"
    using assms(2) lib by (simp add: same_library_def E(2) s3 s2 addSymbol_def)
  with p E A show ?thesis
    by (intro exI [of _ p] exI [of _ A]) (auto simp: symbol_added_def s3 s2)
qed

text \<open>What a round of the loop does: nothing, or it adds one symbol of the given name.\<close>

lemma load_symbol_cases:
  assumes "load_symbol H this Program (n, info) s = Inr s'"
  shows "s' = s \<or> (\<exists>p obj. symbol_added H this Program n p obj s s')"
proof (cases "hidden_symbol n")
  case True
  with assms show ?thesis by (simp add: load_symbol_def)
next
  case False
  then obtain P where P: "FinalizedPrograms s Program = Some P"
    using assms by (auto simp: load_symbol_def outcome_simps)
  have "s' = s \<or> (\<exists>mk. new_symbol H this Program n mk s = Inr s')"
    using assms False
    by (auto simp: load_symbol_def outcome_simps split: option.splits if_splits)
  then show ?thesis using new_symbol_added [OF _ P] by blast
qed

lemma load_symbol_kernel:
  assumes "load_symbol H this Program (n, info) s = Inr s'" and "\<not> hidden_symbol n"
    and "FinalizedPrograms s Program = Some P" and "map_of (FuncDescriptors P) n = Some bs"
    and "load_descriptor bs = Inr D" and "is_kernel D \<noteq> 0"
  shows "\<exists>p A. symbol_added H this Program n p
      (kernel_symbol n Program (kernarg_segment_size D) (ucast (max MIN_ALIGNMENT (kernarg_max_align D)))
         (group_segment_size D) (private_segment_size D) p A) s s' \<and>
    library_address H (library_handle H (Files s) P) n A"
proof -
  have "new_symbol H this Program n
      (kernel_symbol n Program (kernarg_segment_size D) (ucast (max MIN_ALIGNMENT (kernarg_max_align D)))
         (group_segment_size D) (private_segment_size D)) s = Inr s'"
    using assms by (auto simp: load_symbol_def outcome_simps findDescriptor_def)
  from new_symbol_added [OF this assms(3)] show ?thesis .
qed

section \<open>All symbols\<close>

lemma load_symbols_append:
  "load_symbols H this Program (xs @ ys) s =
     and_then (load_symbols H this Program xs s) (load_symbols H this Program ys)"
proof (induction xs arbitrary: s)
  case (Cons x xs)
  then show ?case by (cases "load_symbol H this Program x s") auto
qed simp

text \<open>
  What the loading of symbols keeps for an address that is not in the supply any more, and for a name
  that is not among them.
\<close>

definition symbol_kept ::
  "host \<Rightarrow> addr \<Rightarrow> addr \<Rightarrow> addr \<Rightarrow> string set \<Rightarrow> 'm program_state_scheme \<Rightarrow> 'm program_state_scheme \<Rightarrow> bool" where
  "symbol_kept H this Program p N s s' \<longleftrightarrow>
     set (HostHeap s') \<subseteq> set (HostHeap s) \<and> (distinct (HostHeap s) \<longrightarrow> distinct (HostHeap s')) \<and>
     (p \<notin> set (HostHeap s) \<longrightarrow> SymbolObjects s' p = SymbolObjects s p \<and>
        fromHSAObject (SymbolRegistry s') p = fromHSAObject (SymbolRegistry s) p) \<and>
     (\<forall>n. n \<notin> N \<longrightarrow> map_option (\<lambda>E. getSymbol (CHR ''&'' # n) E) (Executables s' this) =
        map_option (\<lambda>E. getSymbol (CHR ''&'' # n) E) (Executables s this)) \<and>
     same_library H Program s s' \<and> ExecutableRegistry s' = ExecutableRegistry s \<and>
     Instance s' = Instance s \<and> ReferenceCounter s' = ReferenceCounter s"

lemma symbol_kept_refl: "symbol_kept H this Program p N s s"
  by (simp add: symbol_kept_def same_library_refl)

lemma symbol_kept_trans:
  assumes "symbol_kept H this Program p N s s1" and "symbol_kept H this Program p N s1 s2"
  shows "symbol_kept H this Program p N s s2"
  using assms same_library_trans [of H Program s s1 s2]
  by (auto simp: symbol_kept_def)

lemma symbol_kept_added:
  assumes "symbol_added H this Program n q obj s s'" and "n \<in> N"
  shows "symbol_kept H this Program p N s s'"
  using assms by (auto simp: symbol_added_def symbol_kept_def om.find_enter getSymbol_def registerSymbol_def)

lemma load_symbols_kept:
  "load_symbols H this Program xs s = Inr s' \<Longrightarrow> fst ` set xs \<subseteq> N \<Longrightarrow> symbol_kept H this Program p N s s'"
proof (induction xs arbitrary: s)
  case Nil
  then show ?case by (simp add: symbol_kept_refl)
next
  case (Cons x xs)
  obtain n info where x: "x = (n, info)" by (cases x)
  obtain s1 where s1: "load_symbol H this Program (n, info) s = Inr s1" "load_symbols H this Program xs s1 = Inr s'"
    using Cons.prems(1) by (auto simp: x outcome_simps)
  have "n \<in> N" using Cons.prems(2) by (simp add: x)
  have "symbol_kept H this Program p N s s1"
    using load_symbol_cases [OF s1(1)]
  proof
    assume "s1 = s"
    then show ?thesis by (simp add: symbol_kept_refl)
  next
    assume "\<exists>q obj. symbol_added H this Program n q obj s s1"
    then show ?thesis using \<open>n \<in> N\<close> by (elim exE) (rule symbol_kept_added)
  qed
  moreover have "symbol_kept H this Program p N s1 s'"
    using Cons.IH [OF s1(2)] Cons.prems(2) by simp
  ultimately show ?case by (rule symbol_kept_trans)
qed

section \<open>The whole code object\<close>

lemma define_globals_frame:
  "define_globals H Program ds s = Inr s' \<Longrightarrow> same_library H Program s s' \<and>
    HostHeap s' = HostHeap s \<and> SymbolObjects s' = SymbolObjects s \<and> SymbolRegistry s' = SymbolRegistry s \<and>
    Executables s' = Executables s \<and> ExecutableRegistry s' = ExecutableRegistry s \<and> Instance s' = Instance s \<and>
    ReferenceCounter s' = ReferenceCounter s"
proof (induction ds arbitrary: s)
  case Nil
  then show ?case by (simp add: same_library_refl)
next
  case (Cons d ds)
  obtain n A where d: "d = (n, A)" by (cases d)
  obtain s1 where s1: "DLFinalizedProgram_defineGlobalSymbolAddress H Program n A s = Inr s1"
    "define_globals H Program ds s1 = Inr s'"
    using Cons.prems by (auto simp: d outcome_simps)
  obtain dlh s0 where s0: "dlhandle H Program s = Inr (dlh, s0)"
    using s1(1) by (auto simp: DLFinalizedProgram_defineGlobalSymbolAddress_def outcome_simps)
  then obtain P where P: "FinalizedPrograms s Program = Some P"
    "s0 = s\<lparr>FinalizedPrograms := (FinalizedPrograms s)(Program \<mapsto> P\<lparr>Dlhandle := library_handle H (Files s) P\<rparr>)\<rparr>"
    by (elim dlhandle_Inr)
  have mem: "\<exists>M. s1 = s0\<lparr>Memory := M\<rparr>"
  proof -
    have "s1 = s0 \<or> (\<exists>M. s1 = s0\<lparr>Memory := M\<rparr>)"
      using s1(1) s0
      by (auto simp: DLFinalizedProgram_defineGlobalSymbolAddress_def split: if_splits option.splits)
    moreover have "s0 = s0\<lparr>Memory := Memory s0\<rparr>" by simp
    ultimately show ?thesis by metis
  qed
  then have "same_library H Program s s1"
    using P by (auto simp: same_library_def)
  moreover have "HostHeap s1 = HostHeap s \<and> SymbolObjects s1 = SymbolObjects s \<and> SymbolRegistry s1 = SymbolRegistry s \<and>
      Executables s1 = Executables s \<and> ExecutableRegistry s1 = ExecutableRegistry s \<and> Instance s1 = Instance s \<and>
      ReferenceCounter s1 = ReferenceCounter s"
    using mem P(2) by auto
  ultimately show ?case using Cons.IH [OF s1(2)] same_library_trans by auto
qed

lemma LoadCodeObject_kernel:
  assumes load: "LoadCodeObject H this c s = Inr (HSA_STATUS_SUCCESS, s')"
    and "fromHSAObject (CodeRegistry s) c = Program" and P: "FinalizedPrograms s Program = Some P"
    and ELF: "parse_elf H (ELFBlob P) = Some ELF" "elf_symtab ELF = Some (earlier @ (n, info) # later)"
    and "n \<notin> fst ` set later" and "\<not> hidden_symbol n" and "map_of (FuncDescriptors P) n = Some bs"
    and "load_descriptor bs = Inr D" and "is_kernel D \<noteq> 0" and "distinct (HostHeap s)"
  shows "\<exists>p A E. p \<noteq> nullptr \<and> Executables s' this = Some E \<and> getSymbol (CHR ''&'' # n) E = p \<and>
    SymbolObjects s' p = Some (kernel_symbol n Program (kernarg_segment_size D)
      (ucast (max MIN_ALIGNMENT (kernarg_max_align D))) (group_segment_size D) (private_segment_size D) p A) \<and>
    fromHSAObject (SymbolRegistry s') p = p \<and> library_address H (library_handle H (Files s) P) n A \<and>
    ExecutableRegistry s' = ExecutableRegistry s \<and> Instance s' = Instance s \<and> ReferenceCounter s' = ReferenceCounter s"
proof -
  let ?obj = "kernel_symbol n Program (kernarg_segment_size D) (ucast (max MIN_ALIGNMENT (kernarg_max_align D)))
    (group_segment_size D) (private_segment_size D)"
  obtain E0 s1 P1 where s1: "define_globals H Program (DefinedSymbols E0) s = Inr s1"
    "FinalizedPrograms s1 Program = Some P1" "ELFBlob P1 = ELFBlob P" "FuncDescriptors P1 = FuncDescriptors P"
    and Pn: "Program \<noteq> nullptr" and E0: "Executables s this = Some E0"
    and P1: "library_handle H (Files s) P1 = library_handle H (Files s) P" "Files s1 = Files s"
  proof -
    from load assms(2) have Pn: "Program \<noteq> nullptr" by (auto simp: LoadCodeObject_def Let_def split: if_splits)
    with load assms(2) obtain E0 s1 where *: "Executables s this = Some E0"
      "define_globals H Program (DefinedSymbols E0) s = Inr s1"
      by (auto simp: LoadCodeObject_def Let_def outcome_simps)
    then have "same_library H Program s s1" using define_globals_frame by blast
    with P obtain P1 where "FinalizedPrograms s1 Program = Some P1" "ELFBlob P1 = ELFBlob P" "Files s1 = Files s"
      "FuncDescriptors P1 = FuncDescriptors P" "library_handle H (Files s) P1 = library_handle H (Files s) P"
      by (auto simp: same_library_def)
    with * Pn show thesis by (intro that)
  qed
  define P2 where "P2 = P1\<lparr>CodeVersion := e_version ELF\<rparr>"
  define s2 where "s2 = s1\<lparr>FinalizedPrograms := (FinalizedPrograms s1)(Program \<mapsto> P2)\<rparr>"
  obtain s5 where s5: "load_symbols H this Program (earlier @ (n, info) # later) s2 = Inr s5"
    "update_code Program (\<lambda>P. P\<lparr>Parent := this\<rparr>) s5 = Inr s'"
    using load assms(2) E0 s1 Pn ELF
    by (auto simp: LoadCodeObject_def Let_def outcome_simps deref_Some update_code_def s2_def P2_def split: if_splits)
  obtain s3 s4 where s34: "load_symbols H this Program earlier s2 = Inr s3"
    "load_symbol H this Program (n, info) s3 = Inr s4" "load_symbols H this Program later s4 = Inr s5"
    using s5(1) by (auto simp: load_symbols_append outcome_simps)
  have k23: "symbol_kept H this Program x UNIV s2 s3" for x
    using load_symbols_kept [OF s34(1), of UNIV] by simp
  have k45: "symbol_kept H this Program x (fst ` set later) s4 s5" for x
    using load_symbols_kept [OF s34(3)] by simp
  have heap2: "HostHeap s2 = HostHeap s" "ExecutableRegistry s2 = ExecutableRegistry s" "Instance s2 = Instance s"
    "ReferenceCounter s2 = ReferenceCounter s" "Files s2 = Files s"
    using define_globals_frame [OF s1(1)] P1(2) by (auto simp: s2_def)
  have "FinalizedPrograms s2 Program = Some P2" by (simp add: s2_def)
  moreover have "library_handle H (Files s) P2 = library_handle H (Files s) P1"
    by (simp add: P2_def library_handle_def)
  moreover have "FuncDescriptors P2 = FuncDescriptors P1" by (simp add: P2_def)
  moreover have "same_library H Program s2 s3" using k23 [of 0] by (simp add: symbol_kept_def)
  ultimately obtain P3 where P3: "FinalizedPrograms s3 Program = Some P3" "FuncDescriptors P3 = FuncDescriptors P"
    "library_handle H (Files s) P3 = library_handle H (Files s) P" "Files s3 = Files s"
    using P1(1) s1(4) heap2(5) by (auto simp: same_library_def)
  obtain p A where added: "symbol_added H this Program n p (?obj p A) s3 s4"
    and A: "library_address H (library_handle H (Files s) P) n A"
    using load_symbol_kernel [OF s34(2) assms(7) P3(1) _ assms(9,10)] assms(8) P3 by auto
  have dist: "distinct (HostHeap s3)" using k23 [of 0] heap2(1) assms(11) by (simp add: symbol_kept_def)
  with added have fresh: "p \<notin> set (HostHeap s4)" by (auto simp: symbol_added_def)
  from added obtain E where E: "Executables s4 this = Some (registerSymbol p (CHR ''&'' # n) E)"
    by (auto simp: symbol_added_def)
  have "map_option (\<lambda>E. getSymbol (CHR ''&'' # n) E) (Executables s5 this) = Some p"
    using k45 [of p] assms(6) E by (auto simp: symbol_kept_def getSymbol_def registerSymbol_def)
  then obtain E5 where E5: "Executables s5 this = Some E5" "getSymbol (CHR ''&'' # n) E5 = p"
    by auto
  have regs: "ExecutableRegistry s5 = ExecutableRegistry s" "Instance s5 = Instance s" "ReferenceCounter s5 = ReferenceCounter s"
    using k23 [of 0] k45 [of 0] added heap2 by (simp_all add: symbol_kept_def symbol_added_def)
  have obj: "SymbolObjects s5 p = Some (?obj p A)" "fromHSAObject (SymbolRegistry s5) p = p"
    using k45 [of p] fresh added by (simp_all add: symbol_kept_def symbol_added_def om.find_enter)
  have s': "Executables s' = Executables s5" "SymbolObjects s' = SymbolObjects s5" "SymbolRegistry s' = SymbolRegistry s5"
    "ExecutableRegistry s' = ExecutableRegistry s5" "Instance s' = Instance s5" "ReferenceCounter s' = ReferenceCounter s5"
    using s5(2) by (auto simp: update_code_def outcome_simps)
  have "p \<noteq> nullptr" using added by (simp add: symbol_added_def)
  with A E5 regs obj s' show ?thesis by auto
qed

end
