(* ===== verification/Program_Claims.thy ===== *)
theory Program_Claims
  imports Program_Api
begin

text \<open>
  What the program API promises: the scan of a module against a description of the module as a list
  of entries, the checks of the addition of a module, and the life of a program.
\<close>

section \<open>Modules as lists of entries\<close>

lemma unat_ucast_32_64: "unat (ucast (n :: u32) :: u64) = unat n"
proof -
  have "unat n < 2 ^ 32" using unsigned_less [of n] by simp
  then have "unat n < 2 ^ 64" by (rule order.strict_trans) simp
  then show ?thesis by (simp add: unsigned_ucast_eq take_bit_nat_eq_self)
qed

lemma unat_ucast_16_64: "unat (ucast (n :: u16) :: u64) = unat n"
proof -
  have "unat n < 2 ^ 16" using unsigned_less [of n] by simp
  then have "unat n < 2 ^ 64" by (rule order.strict_trans) simp
  then show ?thesis by (simp add: unsigned_ucast_eq take_bit_nat_eq_self)
qed

text \<open>
  The entries of a code section with their kinds and sizes, laid out one behind the other from \<open>a\<close> on.
\<close>

fun entries_at :: "memory \<Rightarrow> addr \<Rightarrow> (u16 \<times> u16) list \<Rightarrow> bool" where
  "entries_at M a [] \<longleftrightarrow> True"
| "entries_at M a ((kind, size') # es) \<longleftrightarrow>
     entry_kind M a = kind \<and> entry_byteCount M a = size' \<and> entries_at M (a + ucast size') es"

fun entries_length :: "(u16 \<times> u16) list \<Rightarrow> nat" where
  "entries_length [] = 0"
| "entries_length ((kind, size') # es) = unat size' + entries_length es"

text \<open>The offset of the first module directive.\<close>

fun directive_offset :: "(u16 \<times> u16) list \<Rightarrow> nat option" where
  "directive_offset [] = None"
| "directive_offset ((kind, size') # es) =
     (if kind = BRIG_KIND_DIRECTIVE_MODULE then Some 0
      else map_option ((+) (unat size')) (directive_offset es))"

text \<open>A module whose second section is the code section \<open>C\<close>, filled by the entries \<open>es\<close>.\<close>

definition brig_module :: "memory \<Rightarrow> addr \<Rightarrow> addr \<Rightarrow> (u16 \<times> u16) list \<Rightarrow> bool" where
  "brig_module M m C es \<longleftrightarrow>
     1 < sectionCount M m \<and> section_at M m 1 = C \<and> C \<noteq> nullptr \<and>
     section_name M C = code_section_name \<and>
     unat (section_byteCount M C) = unat (section_headerByteCount M C) + entries_length es \<and>
     entries_at M (C + ucast (section_headerByteCount M C)) es \<and>
     (\<forall>e \<in> set es. snd e \<noteq> 0)"

lemma find_code_section_brig:
  assumes "brig_module M m C es"
  shows "find_code_section M m 0 (unat (sectionCount M m)) = (C, section_byteCount M C)"
proof -
  from assms have "Suc 0 < unat (sectionCount M m)"
    by (simp add: brig_module_def word_less_nat_alt)
  then obtain n where "unat (sectionCount M m) = Suc (Suc n)"
    using less_imp_Suc_add [of "Suc 0" "unat (sectionCount M m)"] by auto
  with assms show ?thesis
    by (simp add: brig_module_def BRIG_SECTION_INDEX_CODE_def Let_def)
qed

lemma find_code_section_two:
  "find_code_section M m 0 2 =
     (if section_name M (section_at M m 1) = code_section_name
      then (section_at M m 1, section_byteCount M (section_at M m 1)) else (nullptr, 0))"
  by (simp add: numeral_2_eq_2 BRIG_SECTION_INDEX_CODE_def Let_def)

lemma find_module_directive_entries:
  assumes "entries_at M (C + B) es" and "unat B + entries_length es = unat Size" and "\<forall>e \<in> set es. snd e \<noteq> 0"
  shows "find_module_directive M C Size B =
    Some (case directive_offset es of None \<Rightarrow> nullptr | Some d \<Rightarrow> C + B + of_nat d)"
  using assms
proof (induction es arbitrary: B)
  case Nil
  then have "\<not> B < Size" by (simp add: word_less_nat_alt)
  then show ?case by (subst find_module_directive.simps) simp
next
  case (Cons e es)
  obtain k n where e: "e = (k, n)" by (cases e)
  have n: "0 < unat n" using Cons.prems(3) by (simp add: e unat_gt_0)
  have len: "unat B + (unat n + entries_length es) = unat Size" using Cons.prems(2) by (simp add: e)
  then have less: "B < Size" using n by (simp add: word_less_nat_alt)
  have un: "unat (ucast n :: u64) = unat n" by (rule unat_ucast_16_64)
  have "unat Size < 2 ^ 64" by (rule unat_u64_lt)
  with len have "unat B + unat (ucast n :: u64) < 2 ^ LENGTH(64)" by (simp add: un)
  then have B': "unat (B + ucast n) = unat B + unat n" by (simp add: unat_add_no_overflow un)
  have prem: "entries_at M (C + (B + ucast n)) es" "unat (B + ucast n) + entries_length es = unat Size"
    using Cons.prems(1) len by (simp_all add: e B' add.assoc)
  have kind: "entry_kind M (C + B) = k" "entry_byteCount M (C + B) = n"
    using Cons.prems(1) by (simp_all add: e)
  show ?case
  proof (cases "k = BRIG_KIND_DIRECTIVE_MODULE")
    case True
    with less kind show ?thesis by (subst find_module_directive.simps) (simp add: e)
  next
    case False
    have "find_module_directive M C Size B = find_module_directive M C Size (B + ucast n)"
      using less kind False by (subst find_module_directive.simps) simp
    also have "\<dots> = Some (case directive_offset es of None \<Rightarrow> nullptr | Some d \<Rightarrow> C + (B + ucast n) + of_nat d)"
      using Cons.IH [OF prem] Cons.prems(3) by simp
    also have "\<dots> = Some (case directive_offset (e # es) of None \<Rightarrow> nullptr | Some d \<Rightarrow> C + B + of_nat d)"
      using False by (auto simp: e of_nat_unat add.assoc split: option.splits)
    finally show ?thesis .
  qed
qed

lemma find_module_directive_stuck:
  assumes "B < Size" and "entry_kind M (C + B) \<noteq> BRIG_KIND_DIRECTIVE_MODULE" and "entry_byteCount M (C + B) = 0"
  shows "find_module_directive M C Size B = None"
proof -
  have "False" if "find_module_directive M C Size B = Some r" for r
  proof -
    from that have "\<not> (B < Size \<and> entry_kind M (C + B) \<noteq> BRIG_KIND_DIRECTIVE_MODULE \<and> entry_byteCount M (C + B) = 0)"
    proof (rule find_module_directive.raw_induct [rotated])
      fix f M C Size B r
      assume IH: "\<And>M C Size B r. f M C Size B = Some r \<Longrightarrow>
          \<not> (B < Size \<and> entry_kind M (C + B) \<noteq> BRIG_KIND_DIRECTIVE_MODULE \<and> entry_byteCount M (C + B) = 0)"
        and eq: "(if B < Size then (if entry_kind M (C + B) = BRIG_KIND_DIRECTIVE_MODULE then Some (C + B)
            else f M C Size (B + ucast (entry_byteCount M (C + B)))) else Some nullptr) = Some r"
      show "\<not> (B < Size \<and> entry_kind M (C + B) \<noteq> BRIG_KIND_DIRECTIVE_MODULE \<and> entry_byteCount M (C + B) = 0)"
      proof
        assume A: "B < Size \<and> entry_kind M (C + B) \<noteq> BRIG_KIND_DIRECTIVE_MODULE \<and> entry_byteCount M (C + B) = 0"
        with eq have "f M C Size B = Some r" by simp
        from IH [OF this] A show False by simp
      qed
    qed
    with assms show False by simp
  qed
  then show ?thesis by (cases "find_module_directive M C Size B") auto
qed

section \<open>States for the witnesses\<close>

text \<open>A module at 4096 with a code section of two entries, the second of which is the module directive.\<close>

definition demo_module :: memory where
  "demo_module = (\<lambda>a. 0)(0x105C := 2, 0x1060 := 104, 0x1068 := 120, 0x1070 := 120,
     0x1078 := 48, 0x1080 := 24, 0x1084 := 8,
     0x1088 := 0x68, 0x1089 := 0x73, 0x108A := 0x61, 0x108B := 0x5F,
     0x108C := 0x63, 0x108D := 0x6F, 0x108E := 0x64, 0x108F := 0x65,
     0x1090 := 4, 0x1092 := 1, 0x1093 := 0x10,
     0x1094 := 20, 0x1096 := 0x0B, 0x1097 := 0x10, 0x10A4 := 1, 0x10A5 := 1)"

definition demo_program :: HSAILProgram where
  "demo_program = \<lparr>BRIGs = [0x9000], TempFiles = [], MachineModel = HSA_MACHINE_MODEL_LARGE,
     Profile = HSA_PROFILE_FULL, DefaultRoundingMode = HSA_DEFAULT_FLOAT_ROUNDING_MODE_NEAR\<rparr>"

definition program_demo :: program_state where
  "program_demo = \<lparr>ReferenceCounter = 1, Instance = 0x10, HostHeap = [0x500, 0x508, 0x510], RegionRegistry = [],
     CPURegions = Map.empty, MemoryRegions = [0x100, 0x110], SignalRegistry = [], Signals = Map.empty,
     SignalValues = Map.empty, QueueRegistry = [], Queues = Map.empty, Buffers = Map.empty, SymbolRegistry = [],
     SymbolObjects = Map.empty, Memory = demo_module, AgentRegistry = [(0x200, 0x200)],
     KernelAgents = [0x200 \<mapsto> info_agent], RtAgents = [0x200], ShutDown = False, Events = [],
     ISAMap = [''host-isa'' \<mapsto> [\<lparr>cc_name = ''SystemV'', wavefrontSize = 1, wavefrontsPerComputeUnit = 1\<rparr>]],
     HashToISAMap = [7 \<mapsto> ''host-isa''],
     Extensions = [(0, \<lparr>ext_version = \<lparr>Major = 1, Minor = 0\<rparr>, ext_object = 0x300\<rparr>)],
     ProgramRegistry = [(0x400, 0x400)], HSAILPrograms = [0x400 \<mapsto> demo_program],
     CodeRegistry = [], FinalizedPrograms = Map.empty, ExecutableRegistry = [], Executables = Map.empty,
     Files = Map.empty, FreshNames = [''a'', ''b'', ''c''], DebugMode = 0\<rparr>"

lemmas load_simps =
  load_u8_def load_u16_def load_u32_def load_u64_def bytes_u16_def bytes_u32_def bytes_u64_def

lemma load_bytes_numeral:
  "load_bytes M a (numeral n) = M a # load_bytes M (a + 1) (pred_numeral n)"
  by (simp add: numeral_eq_Suc load_bytes_Suc)

lemma load_bytes_one: "load_bytes M a (Suc 0) = [M a]"
  by (simp add: load_bytes_Suc)

lemmas load_eval = load_simps load_bytes_numeral load_bytes_one pred_numeral_simps

lemma demo_loads:
  "load_u32 demo_module 0x105C = 2" "load_u64 demo_module 0x1060 = 104" "load_u64 demo_module 0x1070 = 120"
  "load_u64 demo_module 0x1078 = 48" "load_u32 demo_module 0x1080 = 24" "load_u32 demo_module 0x1084 = 8"
  "load_bytes demo_module 0x1088 8 = code_section_name"
  "load_u16 demo_module 0x1090 = 4" "load_u16 demo_module 0x1092 = 0x1001"
  "load_u16 demo_module 0x1094 = 20" "load_u16 demo_module 0x1096 = 0x100B"
  "load_u8 demo_module 0x10A4 = 1" "load_u8 demo_module 0x10A5 = 1"
  by (simp_all add: load_eval) (simp_all add: demo_module_def code_section_name_def)

lemmas section_accessors =
  sectionCount_def section_at_def sectionIndex_def section_name_def section_byteCount_def
  section_headerByteCount_def entry_kind_def entry_byteCount_def directive_profile_def directive_machineModel_def

lemma demo_brig_module: "brig_module demo_module 0x1000 0x1078 [(0x1001, 4), (0x100B, 20)]"
  by (simp add: brig_module_def section_accessors demo_loads)

lemma program_demo_facts:
  "isInitialized program_demo" "getFinalizer program_demo = Inr 0x300" "HostHeap program_demo = [0x500, 0x508, 0x510]"
  "wf_registry (ProgramRegistry program_demo)" "fromHSAObject (ProgramRegistry program_demo) 0x500 = nullptr"
  "0x500 \<notin> objects_of (ProgramRegistry program_demo)" "HSAILPrograms program_demo 0x500 = None"
  by (simp_all add: program_demo_def isInitialized_def getFinalizer_def Runtime_get_Inr HSA_EXTENSION_FINALIZER_def
      fromHSAObject_def wf_registry_def objects_of_def)

section \<open>Properties\<close>

text \<open>What the addition of a module to a registered program does once the module has been scanned.\<close>

lemma add_module_scanned:
  assumes "isInitialized s" and "getFinalizer s = Inr F" and "F \<noteq> nullptr" and "m \<noteq> nullptr"
    and "find_code_section (Memory s) m 0 (unat (sectionCount (Memory s) m)) = (C, Size)" and "C \<noteq> nullptr" and "Size \<noteq> 0"
    and "find_module_directive (Memory s) C Size (ucast (section_headerByteCount (Memory s) C)) = Some D"
    and "fromHSAObject (ProgramRegistry s) program = p" and "p \<noteq> nullptr" and "HSAILPrograms s p = Some P"
  shows "hsa_ext_program_add_module s program m = Some (Inr
    (if D = nullptr then (HSA_EXT_STATUS_ERROR_INVALID_MODULE, s)
     else if ucast (directive_profile (Memory s) D) \<noteq> hsa_profile_t_value (Profile P)
       \<or> ucast (directive_machineModel (Memory s) D) \<noteq> hsa_machine_model_t_value (MachineModel P)
     then (HSA_EXT_STATUS_ERROR_INCOMPATIBLE_MODULE, s)
     else if m \<in> set (BRIGs P) then (HSA_EXT_STATUS_ERROR_MODULE_ALREADY_INCLUDED, s)
     else (HSA_STATUS_SUCCESS, s\<lparr>HSAILPrograms := (HSAILPrograms s)(p \<mapsto> P\<lparr>BRIGs := BRIGs P @ [m]\<rparr>)\<rparr>)))"
  using assms
  by (auto simp: hsa_ext_program_add_module_def Let_def deref_Some hasModule_def with_finalizer_def
      Finalizer_addModule_def update_program_def HSAILProgram_addModule_def)

text \<open>
  C26. The addition of a module whose code section is filled by entries of nonzero size ends, and its
  outcome is decided by the first module directive among the entries: without one the module is
  invalid; with another profile or machine model than the program's it is incompatible; a module that
  the program already has is refused; otherwise the module becomes the last one of the program, and
  nothing else changes.
\<close>

theorem add_module_decides:
  assumes "isInitialized s" and "getFinalizer s = Inr F" and "F \<noteq> nullptr" and "m \<noteq> nullptr"
    and "brig_module (Memory s) m C es" and "section_byteCount (Memory s) C \<noteq> 0"
    and "C + ucast (section_headerByteCount (Memory s) C) = First"
    and "\<forall>d. directive_offset es = Some d \<longrightarrow> First + of_nat d \<noteq> nullptr"
    and "fromHSAObject (ProgramRegistry s) program = p" and "p \<noteq> nullptr" and "HSAILPrograms s p = Some P"
  shows "hsa_ext_program_add_module s program m = Some (Inr (case directive_offset es of
      None \<Rightarrow> (HSA_EXT_STATUS_ERROR_INVALID_MODULE, s)
    | Some d \<Rightarrow>
        if ucast (directive_profile (Memory s) (First + of_nat d)) \<noteq> hsa_profile_t_value (Profile P)
          \<or> ucast (directive_machineModel (Memory s) (First + of_nat d)) \<noteq> hsa_machine_model_t_value (MachineModel P)
        then (HSA_EXT_STATUS_ERROR_INCOMPATIBLE_MODULE, s)
        else if m \<in> set (BRIGs P) then (HSA_EXT_STATUS_ERROR_MODULE_ALREADY_INCLUDED, s)
        else (HSA_STATUS_SUCCESS, s\<lparr>HSAILPrograms := (HSAILPrograms s)(p \<mapsto> P\<lparr>BRIGs := BRIGs P @ [m]\<rparr>)\<rparr>)))"
proof -
  let ?M = "Memory s"
  have h: "unat (ucast (section_headerByteCount ?M C) :: u64) = unat (section_headerByteCount ?M C)"
    by (rule unat_ucast_32_64)
  have found: "find_module_directive ?M C (section_byteCount ?M C) (ucast (section_headerByteCount ?M C)) =
      Some (case directive_offset es of None \<Rightarrow> nullptr | Some d \<Rightarrow> First + of_nat d)"
    using assms(5,7) by (subst find_module_directive_entries [where es = es]) (auto simp: brig_module_def h)
  have "C \<noteq> nullptr" using assms(5) by (simp add: brig_module_def)
  note add_module_scanned [OF assms(1-4) find_code_section_brig [OF assms(5)] this assms(6) found assms(9-11)]
  with assms(8) show ?thesis by (auto split: option.splits)
qed

theorem add_module_decides_witness:
  "hsa_ext_program_add_module program_demo 0x400 0x1000 = Some (Inr (HSA_STATUS_SUCCESS,
     program_demo\<lparr>HSAILPrograms := [0x400 \<mapsto> demo_program\<lparr>BRIGs := [0x9000, 0x1000]\<rparr>]\<rparr>))"
  using add_module_decides [where s = program_demo and F = "0x300" and m = "0x1000" and C = "0x1078"
      and es = "[(0x1001, 4), (0x100B, 20)]" and First = "0x1090" and program = "0x400" and p = "0x400" and P = demo_program]
    demo_brig_module
  by (simp add: program_demo_def isInitialized_def getFinalizer_def Runtime_get_Inr HSA_EXTENSION_FINALIZER_def
      fromHSAObject_def section_accessors demo_loads BRIG_KIND_DIRECTIVE_MODULE_def demo_program_def)

text \<open>
  C27. A module whose code section begins with an entry of size 0 that is no module directive hangs the
  call, whatever the program is: the scan stays at that entry.
\<close>

theorem add_module_hangs:
  assumes "isInitialized s" and "m \<noteq> nullptr"
    and "find_code_section (Memory s) m 0 (unat (sectionCount (Memory s) m)) = (C, Size)" and "C \<noteq> nullptr"
    and "ucast (section_headerByteCount (Memory s) C) = First" and "First < Size"
    and "entry_kind (Memory s) (C + First) \<noteq> BRIG_KIND_DIRECTIVE_MODULE"
    and "entry_byteCount (Memory s) (C + First) = 0"
  shows "hsa_ext_program_add_module s program m = None"
proof -
  have "Size \<noteq> 0" using assms(6) by auto
  moreover have "find_module_directive (Memory s) C Size (ucast (section_headerByteCount (Memory s) C)) = None"
    unfolding assms(5) by (rule find_module_directive_stuck) (use assms in auto)
  ultimately show ?thesis using assms(1-4) by (simp add: hsa_ext_program_add_module_def)
qed

theorem add_module_hangs_witness:
  "hsa_ext_program_add_module (program_demo\<lparr>Memory := demo_module(0x1090 := 0)\<rparr>) 0x400 0x1000 = None"
proof -
  let ?M = "demo_module(0x1090 := 0)"
  have "load_u32 ?M 0x105C = 2" "load_u64 ?M 0x1060 = 104" "load_u64 ?M 0x1068 = 120" "load_u64 ?M 0x1070 = 120"
    "load_u64 ?M 0x1078 = 48" "load_u32 ?M 0x1080 = 24" "load_u32 ?M 0x1084 = 8"
    "load_bytes ?M 0x1088 8 = code_section_name" "load_u16 ?M 0x1090 = 0" "load_u16 ?M 0x1092 = 0x1001"
    by (simp_all add: load_eval) (simp_all add: demo_module_def code_section_name_def)
  note loads = this
  have two: "find_code_section ?M 0x1000 0 2 = (0x1078, 48)"
    by (simp add: find_code_section_two section_accessors loads del: fun_upd_apply)
  show ?thesis
    by (rule add_module_hangs [where C = "0x1078" and Size = 48 and First = 24])
      (simp_all add: program_demo_def isInitialized_def section_accessors loads two
        BRIG_KIND_DIRECTIVE_MODULE_def del: fun_upd_apply)
qed

text \<open>
  A created program is empty, answers the queries with the parameters it was created with, and its
  destruction restores the directory of programs: the handle is then unknown, and a second destruction
  reports it.
\<close>

theorem program_create_destroy:
  assumes "isInitialized s" and "getFinalizer s = Inr F" and "F \<noteq> nullptr" and "HostHeap s = p # ps" and "p \<noteq> nullptr"
    and "wf_registry (ProgramRegistry s)" and "fromHSAObject (ProgramRegistry s) p = nullptr"
    and "p \<notin> objects_of (ProgramRegistry s)" and "HSAILPrograms s p = None"
    and "MM = HSA_MACHINE_MODEL_SMALL \<or> MM = HSA_MACHINE_MODEL_LARGE" and "Pr = HSA_PROFILE_BASE \<or> Pr = HSA_PROFILE_FULL"
    and "hsa_default_float_rounding_mode_t_value RM \<le> 2" and "out \<noteq> nullptr"
  shows "\<exists>s1 s2. hsa_ext_program_create s MM Pr RM options out = Inr (HSA_STATUS_SUCCESS, Some p, s1) \<and>
    hsa_ext_program_get_info s1 p HSA_EXT_PROGRAM_INFO_MACHINE_MODEL out =
      Inr (HSA_STATUS_SUCCESS, Some (F_u32 (hsa_machine_model_t_value MM))) \<and>
    hsa_ext_program_get_info s1 p HSA_EXT_PROGRAM_INFO_PROFILE out =
      Inr (HSA_STATUS_SUCCESS, Some (F_u32 (hsa_profile_t_value Pr))) \<and>
    hsa_ext_program_get_info s1 p HSA_EXT_PROGRAM_INFO_DEFAULT_FLOAT_ROUNDING_MODE out =
      Inr (HSA_STATUS_SUCCESS, Some (F_u32 (hsa_default_float_rounding_mode_t_value RM))) \<and>
    hsa_ext_program_iterate_modules s1 p callback d = Inr (HSA_STATUS_SUCCESS, d) \<and>
    hsa_ext_program_destroy H s1 p = Inr (HSA_STATUS_SUCCESS, s2) \<and>
    fromHSAObject (ProgramRegistry s2) = fromHSAObject (ProgramRegistry s) \<and>
    HSAILPrograms s2 = HSAILPrograms s \<and> Files s2 = Files s \<and>
    hsa_ext_program_destroy H s2 p = Inr (HSA_EXT_STATUS_ERROR_INVALID_PROGRAM, s2)"
proof -
  define P where "P = \<lparr>BRIGs = [], TempFiles = [], MachineModel = MM, Profile = Pr, DefaultRoundingMode = RM\<rparr>"
  define s1 where "s1 = s\<lparr>HostHeap := ps, HSAILPrograms := (HSAILPrograms s)(p \<mapsto> P),
    ProgramRegistry := registerObject (ProgramRegistry s) p p\<rparr>"
  define s2 where "s2 = snd (IsDebugMode H s1)\<lparr>HSAILPrograms := (HSAILPrograms s1)(p := None),
    ProgramRegistry := destroyMapping (ProgramRegistry s1) p\<rparr>"
  have debug: "ProgramRegistry (snd (IsDebugMode H t)) = ProgramRegistry t"
    "HSAILPrograms (snd (IsDebugMode H t)) = HSAILPrograms t" "Files (snd (IsDebugMode H t)) = Files t"
    "ReferenceCounter (snd (IsDebugMode H t)) = ReferenceCounter t"
    for t :: "'a program_state_scheme" by (simp_all add: IsDebugMode_def)
  have nomode: "\<not> 2 < hsa_default_float_rounding_mode_t_value RM" using assms(12) by simp
  have create: "hsa_ext_program_create s MM Pr RM options out = Inr (HSA_STATUS_SUCCESS, Some p, s1)"
    using assms(1-5,10,11,13) nomode
    by (auto simp: hsa_ext_program_create_def with_finalizer_def Finalizer_createProgram_def HSAILProgram_new_def
        operator_new_def host_malloc_def s1_def P_def)
  have found: "fromHSAObject (ProgramRegistry s1) p = p" by (simp add: s1_def om.find_enter)
  have P: "deref (HSAILPrograms s1) p = Inr P" using assms(5) by (simp add: s1_def deref_Some)
  have init1: "isInitialized s1" using assms(1) by (simp add: s1_def isInitialized_def)
  have destroy: "hsa_ext_program_destroy H s1 p = Inr (HSA_STATUS_SUCCESS, s2)"
    using init1 found P assms(5)
    by (cases "IsDebugMode H s1") (auto simp: hsa_ext_program_destroy_def HSAILProgram_delete_def s2_def P_def
        debug(2) [of s1, symmetric] debug(1) [of s1, symmetric] Let_def)
  have reg: "fromHSAObject (ProgramRegistry s2) = fromHSAObject (ProgramRegistry s)"
    using om.create_destroy_roundtrip [OF assms(6,7,5,8)] by (simp add: s2_def s1_def)
  have gone: "hsa_ext_program_destroy H s2 p = Inr (HSA_EXT_STATUS_ERROR_INVALID_PROGRAM, s2)"
    using reg assms(7) init1 by (simp add: hsa_ext_program_destroy_def s2_def isInitialized_def debug)
  have rest: "HSAILPrograms s2 = HSAILPrograms s" "Files s2 = Files s"
    using assms(9) by (auto simp: s2_def debug s1_def)
  show ?thesis
    using create destroy reg gone rest found P init1 assms(5,13)
    by (intro exI [of _ s1] exI [of _ s2])
      (simp add: hsa_ext_program_get_info_def hsa_ext_program_iterate_modules_def P_def moduleCount_def
        split: option.splits)
qed

theorem program_create_destroy_witness:
  "\<forall>H. \<exists>s1 s2. hsa_ext_program_create program_demo HSA_MACHINE_MODEL_LARGE HSA_PROFILE_FULL
      HSA_DEFAULT_FLOAT_ROUNDING_MODE_ZERO None 0x900 = Inr (HSA_STATUS_SUCCESS, Some 0x500, s1) \<and>
    hsa_ext_program_destroy H s1 0x500 = Inr (HSA_STATUS_SUCCESS, s2) \<and>
    hsa_ext_program_destroy H s2 0x500 = Inr (HSA_EXT_STATUS_ERROR_INVALID_PROGRAM, s2)"
proof
  fix H
  show "\<exists>s1 s2. hsa_ext_program_create program_demo HSA_MACHINE_MODEL_LARGE HSA_PROFILE_FULL
      HSA_DEFAULT_FLOAT_ROUNDING_MODE_ZERO None 0x900 = Inr (HSA_STATUS_SUCCESS, Some 0x500, s1) \<and>
    hsa_ext_program_destroy H s1 0x500 = Inr (HSA_STATUS_SUCCESS, s2) \<and>
    hsa_ext_program_destroy H s2 0x500 = Inr (HSA_EXT_STATUS_ERROR_INVALID_PROGRAM, s2)"
    using program_create_destroy [where s = program_demo and F = "0x300" and p = "0x500" and ps = "[0x508, 0x510]"
        and MM = HSA_MACHINE_MODEL_LARGE and Pr = HSA_PROFILE_FULL and RM = HSA_DEFAULT_FLOAT_ROUNDING_MODE_ZERO
        and options = None and out = "0x900" and callback = None and d = "()" and H = H]
    by (simp add: program_demo_facts) blast
qed

end
