(* ===== verification/Code_Claims.thy ===== *)
theory Code_Claims
  imports Executable_Api Program_Claims
begin

text \<open>
  Properties of code objects: the round trip through their serialized form and its bounds; and a state with
  a program, code objects and an executable, which the witnesses of the later theories use as well.
\<close>

section \<open>Slices of stored bytes\<close>

lemma unat_of_nat_u64: "n < 2 ^ 64 \<Longrightarrow> unat (of_nat n :: u64) = n"
  by (simp add: unat_of_nat)

lemma load_bytes_slice:
  assumes "k + n \<le> m"
  shows "load_bytes M (a + of_nat k) n = take n (drop k (load_bytes M a m))"
proof -
  obtain r where r: "m = k + (n + r)" using assms by (metis add.assoc le_Suc_ex)
  show ?thesis unfolding r load_bytes_append by simp
qed

lemma load_store_slice:
  assumes "k + n \<le> length bs" and "length bs \<le> 2 ^ 64"
  shows "load_bytes (store_bytes M a bs) (a + of_nat k) n = take n (drop k bs)"
  using load_bytes_slice [OF assms(1), of "store_bytes M a bs" a] assms(2) by (simp add: load_store_bytes)

section \<open>The serialized form\<close>

text \<open>Programs whose image fits the size field, with enumerations that have a name.\<close>

definition listed_rounding_mode :: "hsa_default_float_rounding_mode_t \<Rightarrow> bool" where
  "listed_rounding_mode m \<longleftrightarrow> rounding_mode_of (hsa_default_float_rounding_mode_t_value m) = m"

definition listed_profile :: "hsa_profile_t \<Rightarrow> bool" where
  "listed_profile p \<longleftrightarrow> profile_of (hsa_profile_t_value p) = p"

definition listed_machine_model :: "hsa_machine_model_t \<Rightarrow> bool" where
  "listed_machine_model m \<longleftrightarrow> machine_model_of (hsa_machine_model_t_value m) = m"

definition serializable :: "FinalizedProgram \<Rightarrow> bool" where
  "serializable P \<longleftrightarrow> length (ELFBlob P) + 28 < 2 ^ 64 \<and> listed_rounding_mode (CodeRoundingMode P) \<and>
     listed_profile (CodeProfile P) \<and> listed_machine_model (CodeMachineModel P)"

lemma length_serialized: "length (serialized P) = length (ELFBlob P) + 28"
  by (simp add: serialized_def)

lemma unat_elfSize: "serializable P \<Longrightarrow> unat (elfSize P) = length (ELFBlob P)"
  by (simp add: serializable_def elfSize_def unat_of_nat_u64)

lemma unat_serializedSize:
  assumes "serializable P" shows "unat (serializedSize P) = length (serialized P)"
proof -
  have "serializedSize P = of_nat (length (ELFBlob P) + 28)"
    by (simp add: serializedSize_def elfSize_def)
  moreover have "length (ELFBlob P) + 28 < 2 ^ 64" using assms by (simp add: serializable_def)
  ultimately show ?thesis by (simp only: unat_of_nat_u64 length_serialized)
qed

text \<open>Each part of the serialized form where the deserialization looks for it.\<close>

lemma serialized_parts:
  fixes P :: FinalizedProgram
  defines "n \<equiv> length (ELFBlob P)"
  shows "take 8 (serialized P) = u64_bytes (elfSize P)" "take n (drop 8 (serialized P)) = ELFBlob P"
    "take 8 (drop (8 + n) (serialized P)) = u64_bytes (CodeISA P)"
    "take 4 (drop (16 + n) (serialized P)) = u32_bytes (hsa_default_float_rounding_mode_t_value (CodeRoundingMode P))"
    "take 4 (drop (20 + n) (serialized P)) = u32_bytes (hsa_profile_t_value (CodeProfile P))"
    "take 4 (drop (24 + n) (serialized P)) = u32_bytes (hsa_machine_model_t_value (CodeMachineModel P))"
  by (simp_all add: serialized_def n_def)

lemma deserialize_serialized:
  fixes P :: FinalizedProgram
  assumes "serializable P" and "M = serializeTo P a M0"
  defines "n \<equiv> elfSize P"
  shows "load_u64 M a = n" "load_bytes M (a + 8) (unat n) = ELFBlob P" "load_u64 M (a + 8 + n) = CodeISA P"
    "load_u32 M (a + 8 + n + 8) = hsa_default_float_rounding_mode_t_value (CodeRoundingMode P)"
    "load_u32 M (a + 8 + n + 12) = hsa_profile_t_value (CodeProfile P)"
    "load_u32 M (a + 8 + n + 16) = hsa_machine_model_t_value (CodeMachineModel P)"
proof -
  let ?l = "length (ELFBlob P)"
  have n: "n = of_nat ?l" by (simp add: n_def elfSize_def)
  have un: "unat n = ?l" using assms(1) by (simp add: n_def unat_elfSize)
  have fits: "length (serialized P) \<le> 2 ^ 64" using assms(1) by (simp add: serializable_def length_serialized)
  have slice: "load_bytes M (a + of_nat k) m = take m (drop k (serialized P))" if "k + m \<le> ?l + 28" for k m
    unfolding assms(2) serializeTo_def using that fits by (intro load_store_slice) (simp_all add: length_serialized)
  note parts = serialized_parts [of P]
  show "load_u64 M a = n" using slice [of 0 8] parts(1) by (simp add: load_u64_def n_def)
  show "load_bytes M (a + 8) (unat n) = ELFBlob P" using slice [of 8 ?l] parts(2) by (simp add: un)
  show "load_u64 M (a + 8 + n) = CodeISA P" using slice [of "8 + ?l" 8] parts(3) by (simp add: load_u64_def n add_ac)
  show "load_u32 M (a + 8 + n + 8) = hsa_default_float_rounding_mode_t_value (CodeRoundingMode P)"
    using slice [of "16 + ?l" 4] parts(4) by (simp add: load_u32_def n add_ac)
  show "load_u32 M (a + 8 + n + 12) = hsa_profile_t_value (CodeProfile P)"
    using slice [of "20 + ?l" 4] parts(5) by (simp add: load_u32_def n add_ac)
  show "load_u32 M (a + 8 + n + 16) = hsa_machine_model_t_value (CodeMachineModel P)"
    using slice [of "24 + ?l" 4] parts(6) by (simp add: load_u32_def n add_ac)
qed

section \<open>A state for the witnesses\<close>

definition demo_blob :: "u8 list" where
  "demo_blob = [0x7F, 0x45, 0x4C, 0x46]"

text \<open>The descriptor of a kernel with 16 bytes of arguments and a maximal flat grid size of 64.\<close>

definition demo_descriptor :: "u8 list" where
  "demo_descriptor = [1, 0,0,0,0, 0,0,0,0, 16,0,0,0, 8,0, 0,0,0,0, 64,0,0,0,0,0,0,0, 0,0,0,0] @ replicate 37 0"

definition demo_elf :: elf_image where
  "demo_elf = \<lparr>e_version = 1, elf_sections = [(''.text'', []), (''phsa.desc.k'', demo_descriptor)],
     elf_symtab = Some [(''frame_dummy'', 2), (''k'', 2), (''g'', 1)]\<rparr>"

definition demo_binary :: string where
  "demo_binary = ''/tmp/phsa-finalizer-a/b.brig.so''"

definition demo_host :: host where
  "demo_host = \<lparr>getenv = (\<lambda>n. None), can_open = (\<lambda>f. True),
     run_command = (\<lambda>c fs. (0, fs(demo_binary \<mapsto> demo_blob))),
     parse_elf = (\<lambda>bs. if bs = demo_blob then Some demo_elf else None),
     dlopen = (\<lambda>fs f. 0x7000), dlsym = (\<lambda>h n. map_of [(''k'', 0x7100), (''g'', 0x7200)] n)\<rparr>"

definition demo_code_object :: FinalizedProgram where
  "demo_code_object = \<lparr>ProgSymbols = [], Parent = nullptr, IsValid = True, BinaryFileName = ''/tmp/x/p.so'',
     ELFBlob = demo_blob, FuncDescriptors = [(''k'', demo_descriptor)], CodeMachineModel = HSA_MACHINE_MODEL_LARGE,
     CodeProfile = HSA_PROFILE_BASE, CodeRoundingMode = HSA_DEFAULT_FLOAT_ROUNDING_MODE_NEAR, CodeISA = 7,
     CodeVersion = 1, Dlhandle = nullptr\<rparr>"

definition code_demo :: program_state where
  "code_demo = program_demo\<lparr>CodeRegistry := [(0x600, 0x600), (0x608, 0x608)],
     FinalizedPrograms := [0x600 \<mapsto> demo_code_object, 0x608 \<mapsto> demo_code_object\<lparr>BinaryFileName := ''/tmp/x/q.so''\<rparr>],
     ExecutableRegistry := [(0x700, 0x700)],
     Executables := [0x700 \<mapsto> \<lparr>ExecSymbols = [], SymbolsByName = Map.empty, DefinedSymbols = [], IsFrozen = False,
       ExecProfile = HSA_PROFILE_BASE\<rparr>],
     Files := [''/tmp/x/p.so'' \<mapsto> demo_blob, ''/tmp/x/q.so'' \<mapsto> demo_blob]\<rparr>"

lemma code_demo_facts:
  "isInitialized code_demo" "fromHSAObject (CodeRegistry code_demo) 0x600 = 0x600"
  "FinalizedPrograms code_demo 0x600 = Some demo_code_object" "HostHeap code_demo = [0x500, 0x508, 0x510]"
  "FreshNames code_demo = [''a'', ''b'', ''c'']" "fromHSAObject (ExecutableRegistry code_demo) 0x700 = 0x700"
  "fromHSAObject (AgentRegistry code_demo) 0x200 = 0x200" "SymbolRegistry code_demo = []" "SymbolObjects code_demo = Map.empty"
  by (simp_all add: code_demo_def program_demo_def isInitialized_def fromHSAObject_def)

lemma demo_code_object_facts:
  "serializable demo_code_object" "ELFBlob demo_code_object = demo_blob" "parse_elf demo_host demo_blob = Some demo_elf"
  by (simp_all add: demo_code_object_def serializable_def demo_blob_def listed_rounding_mode_def listed_profile_def
      listed_machine_model_def rounding_mode_of_def profile_of_def machine_model_of_def demo_host_def)

section \<open>Properties\<close>

text \<open>
  C28. Serializing a code object into the client's buffer and deserializing it from there yields a new code
  object with the same image, instruction set, machine model, profile and rounding mode, which is found
  under its handle and whose image has been written to its file.
\<close>

theorem code_object_roundtrip:
  assumes "isInitialized s" and "fromHSAObject (CodeRegistry s) c = p" and "p \<noteq> nullptr"
    and "FinalizedPrograms s p = Some P" and "serializable P" and "alloc (serializedSize P) d = (HSA_STATUS_SUCCESS, a)"
    and "a \<noteq> nullptr" and "out1 \<noteq> nullptr" and "out2 \<noteq> nullptr" and "out3 \<noteq> nullptr"
    and "HostHeap s = b # q # ps" and "b \<noteq> nullptr" and "q \<noteq> nullptr" and "FreshNames s = n # ns"
    and "parse_elf H (ELFBlob P) = Some ELF"
  shows "\<exists>s1 s2 Q. hsa_code_object_serialize s c (Some alloc) d out1 out2 = Inr (HSA_STATUS_SUCCESS, Some a, None, s1) \<and>
    hsa_code_object_deserialize H s1 a (serializedSize P) options out3 = Inr (HSA_STATUS_SUCCESS, Some q, s2) \<and>
    fromHSAObject (CodeRegistry s2) q = q \<and> FinalizedPrograms s2 q = Some Q \<and>
    ELFBlob Q = ELFBlob P \<and> CodeISA Q = CodeISA P \<and> CodeMachineModel Q = CodeMachineModel P \<and>
    CodeProfile Q = CodeProfile P \<and> CodeRoundingMode Q = CodeRoundingMode P \<and>
    (can_open H (BinaryFileName Q) \<longrightarrow> Files s2 (BinaryFileName Q) = Some (ELFBlob P))"
proof -
  define s1 where "s1 = s\<lparr>Memory := serializeTo P a (Memory s)\<rparr>"
  have ser: "hsa_code_object_serialize s c (Some alloc) d out1 out2 = Inr (HSA_STATUS_SUCCESS, Some a, None, s1)"
    using assms by (simp add: hsa_code_object_serialize_def deref_Some s1_def)
  have "unat (serializedSize P) \<noteq> 0" using assms(5) by (simp add: unat_serializedSize length_serialized)
  then have size0: "serializedSize P \<noteq> 0" by auto
  have M: "Memory s1 = serializeTo P a (Memory s)" by (simp add: s1_def)
  note parts = deserialize_serialized [OF assms(5) M]
  have enums: "rounding_mode_of (hsa_default_float_rounding_mode_t_value (CodeRoundingMode P)) = CodeRoundingMode P"
    "profile_of (hsa_profile_t_value (CodeProfile P)) = CodeProfile P"
    "machine_model_of (hsa_machine_model_t_value (CodeMachineModel P)) = CodeMachineModel P"
    using assms(5) by (simp_all add: serializable_def listed_rounding_mode_def listed_profile_def listed_machine_model_def)
  define f where "f = deserialized_path n"
  have fields: "HostHeap s1 = b # q # ps" "FreshNames s1 = n # ns" "Files s1 = Files s"
    using assms(11,14) by (simp_all add: s1_def)
  obtain s2 where des: "DLFinalizedProgram_deserialize H a s1 = Inr (q, s2)"
    and s2: "fromHSAObject (CodeRegistry s2) q = q" "Files s2 = (if can_open H f then (Files s)(f \<mapsto> ELFBlob P) else Files s)"
      "FinalizedPrograms s2 q = Some \<lparr>ProgSymbols = [], Parent = nullptr, IsValid = True, BinaryFileName = f,
         ELFBlob = ELFBlob P, FuncDescriptors = read_descriptors (elf_sections ELF) [],
         CodeMachineModel = CodeMachineModel P, CodeProfile = CodeProfile P, CodeRoundingMode = CodeRoundingMode P,
         CodeISA = CodeISA P, CodeVersion = e_version ELF, Dlhandle = nullptr\<rparr>"
    using assms(12,13,15) fields
    by (simp add: DLFinalizedProgram_deserialize_def Let_def parts [simplified] enums DLFinalizedProgram_new_def operator_new_def
        host_malloc_def update_code_def deref_Some setBinFileName_def om.find_enter f_def cong: if_cong)
  have "isInitialized s1" using assms(1) by (simp add: s1_def isInitialized_def)
  with des size0 assms(7,10)
  have "hsa_code_object_deserialize H s1 a (serializedSize P) options out3 = Inr (HSA_STATUS_SUCCESS, Some q, s2)"
    by (simp add: hsa_code_object_deserialize_def)
  with ser s2 show ?thesis by (intro exI [of _ s1] exI [of _ s2]) simp
qed

theorem code_object_roundtrip_witness:
  "\<exists>s1 s2 Q. hsa_code_object_serialize code_demo 0x600 (Some (\<lambda>n d. (HSA_STATUS_SUCCESS, 0x9000))) 0 8 16 =
      Inr (HSA_STATUS_SUCCESS, Some 0x9000, None, s1) \<and>
    hsa_code_object_deserialize demo_host s1 0x9000 (serializedSize demo_code_object) None 24 =
      Inr (HSA_STATUS_SUCCESS, Some 0x508, s2) \<and>
    FinalizedPrograms s2 0x508 = Some Q \<and> ELFBlob Q = demo_blob"
  using code_object_roundtrip [where s = code_demo and c = "0x600" and p = "0x600" and P = demo_code_object
      and alloc = "\<lambda>n d. (HSA_STATUS_SUCCESS, 0x9000)" and d = 0 and a = "0x9000" and ?out1.0 = 8 and ?out2.0 = 16
      and ?out3.0 = 24 and b = "0x500" and q = "0x508" and ps = "[0x510]" and n = "''a''" and ns = "[''b'', ''c'']"
      and H = demo_host and ELF = demo_elf and options = None]
  by (simp add: code_demo_facts demo_code_object_facts) blast



end
