(* ===== verification/Symbol_Claims.thy ===== *)
theory Symbol_Claims
  imports Symbol_Loading Code_Claims
begin

text \<open>
  Properties of symbols: a loaded kernel is found by its name, its queries describe it and its object
  handle leads the packet processor to its code; the two ways to name a symbol of a module agree; and the
  queries of code object symbols write more than their documentation says.
\<close>

section \<open>Names\<close>

definition plain_name :: "string \<Rightarrow> bool" where
  "plain_name n \<longleftrightarrow> CHR '':'' \<notin> set n \<and> CHR ''&'' \<notin> set n"

lemma replace_colons_none: "CHR '':'' \<notin> set n \<Longrightarrow> replace_colons n = n"
  by (induction n rule: replace_colons.induct) auto

lemma replace_colons_module:
  "CHR '':'' \<notin> set m \<Longrightarrow> replace_colons (m @ CHR '':'' # CHR '':'' # n) = m @ CHR ''.'' # replace_colons n"
  by (induction m rule: replace_colons.induct) auto

lemma has_colons_module: "has_colons (m @ CHR '':'' # CHR '':'' # n)"
proof (induction m)
  case (Cons c m)
  then show ?case by (cases m) auto
qed simp

lemma filter_plain: "CHR ''&'' \<notin> set n \<Longrightarrow> filter (\<lambda>x. x \<noteq> CHR ''&'') n = n"
  by (induction n) auto

lemma actual_name_module:
  assumes "plain_name m" and "plain_name n"
  shows "actual_symbol_name (CHR ''&'' # m @ CHR '':'' # CHR '':'' # CHR ''&'' # n) =
    Inr (CHR ''&'' # ''gccbrig.'' @ m @ CHR ''.'' # n)"
proof -
  let ?m = "CHR ''&'' # m"
  have "replace_colons (?m @ CHR '':'' # CHR '':'' # CHR ''&'' # n) = ?m @ CHR ''.'' # CHR ''&'' # n"
    using assms by (subst replace_colons_module) (auto simp: plain_name_def intro!: replace_colons_none)
  moreover have "has_colons (?m @ CHR '':'' # CHR '':'' # CHR ''&'' # n)" by (rule has_colons_module)
  ultimately show ?thesis
    using assms by (simp add: actual_symbol_name_def filter_plain plain_name_def)
qed

section \<open>Loading the example\<close>

lemma demo_load_descriptor:
  "\<exists>D. load_descriptor demo_descriptor = Inr D \<and> is_kernel D = 1 \<and> kernarg_segment_size D = 16 \<and>
     kernarg_max_align D = 8 \<and> group_segment_size D = 0"
  by (simp add: load_descriptor_def demo_descriptor_def sizeof_phsa_descriptor_def bytes_at_def bytes_u32_def
      bytes_u16_def)

lemma demo_names: "\<not> hidden_symbol ''k''" "\<not> hidden_symbol ''g''" "hidden_symbol ''frame_dummy''" "\<not> IsPHSAKernel ''g''"
  by (simp_all add: hidden_symbol_def hidden_symbols_def IsPHSAKernel_def PHSA_KERNEL_PREFIX_def)

lemma demo_executable:
  "Executables code_demo 0x700 = Some \<lparr>ExecSymbols = [], SymbolsByName = Map.empty, DefinedSymbols = [],
     IsFrozen = False, ExecProfile = HSA_PROFILE_BASE\<rparr>"
  by (simp add: code_demo_def)

lemma demo_loading: "\<exists>s'. LoadCodeObject demo_host 0x700 0x600 code_demo = Inr (HSA_STATUS_SUCCESS, s')"
proof -
  obtain D where D: "load_descriptor demo_descriptor = Inr D" "is_kernel D = 1" using demo_load_descriptor by blast
  show ?thesis
    using D
    by (simp add: LoadCodeObject_def Let_def code_demo_facts demo_executable deref_Some demo_code_object_def
        demo_host_def demo_elf_def update_code_def demo_names load_symbol_def new_symbol_def operator_new_def
        host_malloc_def findDescriptor_def DLFinalizedProgram_symbolAddress_def dlhandle_def strip_ampersand_def
        addSymbol_def update_executable_def registerSymbol_def STT_OBJECT_def cong: if_cong)
qed

section \<open>Properties\<close>

text \<open>
  A symbol of a module is looked up under the same name whether the client names it in one string to
  the code object, \<open>&module::&symbol\<close>, or in two strings to the executable, and in the second case with
  or without the ampersand of the symbol.
\<close>

theorem module_symbol_names_agree:
  assumes "plain_name m" and "plain_name n" and "n \<noteq> []" and "arg = n \<or> arg = CHR ''&'' # n"
  shows "actual_symbol_name (''&'' @ m @ ''::'' @ ''&'' @ n) = Inr (executable_symbol_name (Some (''&'' @ m)) arg)"
  using assms actual_name_module [OF assms(1,2)]
  by (cases n) (auto simp: executable_symbol_name_def plain_name_def)

theorem module_symbol_names_agree_witness:
  "actual_symbol_name ''&mod::&kern'' = Inr (executable_symbol_name (Some ''&mod'') ''kern'')"
  using module_symbol_names_agree [of "''mod''" "''kern''" "''kern''"] by (simp add: plain_name_def)

text \<open>
  The query of a code object symbol for the length of its name writes an eight byte integer, although the
  attribute is documented as a \<open>uint32_t\<close>, so it overruns the client's variable by four bytes; the same
  query through the executable writes four. Both write the same number, and the name itself is written
  with a terminating byte behind that many characters.
\<close>

theorem code_symbol_name_length_overruns:
  assumes "isInitialized s" and "SymbolObjects s p = Some S" and "p \<noteq> nullptr" and "v \<noteq> nullptr"
    and "fromHSAObject (SymbolRegistry s) p = p" and "length (Sym_Name (symbol_base S)) < 2 ^ 32"
  shows "\<exists>n m str. hsa_code_symbol_get_info s p HSA_CODE_SYMBOL_INFO_NAME_LENGTH v =
      Inr (HSA_STATUS_SUCCESS, Some (F_u64 n)) \<and> field_size (F_u64 n) = 8 \<and>
    hsa_executable_symbol_get_info s p HSA_EXECUTABLE_SYMBOL_INFO_NAME_LENGTH v =
      Inr (HSA_STATUS_SUCCESS, Some (F_u32 m)) \<and> field_size (F_u32 m) = 4 \<and> unat n = unat m \<and>
    hsa_code_symbol_get_info s p HSA_CODE_SYMBOL_INFO_NAME v = Inr (HSA_STATUS_SUCCESS, Some str) \<and>
    field_size str = unat m + 1"
proof -
  let ?l = "length (Sym_Name (symbol_base S))"
  have "?l < 2 ^ 64" by (rule order.strict_trans [OF assms(6)]) simp
  then have "unat (of_nat ?l :: u64) = ?l" by (rule unat_of_nat_u64)
  moreover have "unat (of_nat ?l :: u32) = ?l" using assms(6) by (simp add: unat_of_nat)
  ultimately show ?thesis
    using assms
    by (simp add: hsa_code_symbol_get_info_def hsa_executable_symbol_get_info_def deref_Some
        code_symbol_attribute_def executable_symbol_attribute_def Let_def)
qed

definition demo_symbol :: symbol_object where
  "demo_symbol = variable_symbol ''g'' 0x500 0x7200"

definition symbol_demo :: program_state where
  "symbol_demo = code_demo\<lparr>SymbolRegistry := [(0x500, 0x500)], SymbolObjects := [0x500 \<mapsto> demo_symbol]\<rparr>"

lemma symbol_demo_facts:
  "isInitialized symbol_demo" "SymbolObjects symbol_demo 0x500 = Some demo_symbol"
  "fromHSAObject (SymbolRegistry symbol_demo) 0x500 = 0x500" "Sym_Name (symbol_base demo_symbol) = ''&g''"
  using code_demo_facts(1)
  by (simp_all add: symbol_demo_def isInitialized_def fromHSAObject_def demo_symbol_def variable_symbol_def
      Symbol.truncate_def)

theorem code_symbol_name_length_overruns_witness:
  "\<exists>n m. hsa_code_symbol_get_info symbol_demo 0x500 HSA_CODE_SYMBOL_INFO_NAME_LENGTH 8 =
      Inr (HSA_STATUS_SUCCESS, Some (F_u64 n)) \<and>
    hsa_executable_symbol_get_info symbol_demo 0x500 HSA_EXECUTABLE_SYMBOL_INFO_NAME_LENGTH 8 =
      Inr (HSA_STATUS_SUCCESS, Some (F_u32 m)) \<and> unat n = unat m"
  using code_symbol_name_length_overruns [where s = symbol_demo and p = "0x500" and S = demo_symbol and v = 8]
  by (simp add: symbol_demo_facts) blast

text \<open>
  C30. Every kernel of a code object that has been loaded into an executable is found by its name, with or
  without the ampersand; its queries give the handle of the kernel object and the sizes of its descriptor
  with an argument alignment of at least 16; and that handle leads the packet processor to a kernel whose
  code is the address of the symbol in the library. The symbols behind it in the table do not disturb it,
  as long as none has the same name.
\<close>

theorem loaded_kernel_found:
  assumes "hsa_executable_load_code_object H s e agent c options = Inr (HSA_STATUS_SUCCESS, s')"
    and "fromHSAObject (CodeRegistry s) c = Program" and "FinalizedPrograms s Program = Some P"
    and "parse_elf H (ELFBlob P) = Some ELF" and "elf_symtab ELF = Some (earlier @ (n, info) # later)"
    and "n \<notin> fst ` set later" and "\<not> hidden_symbol n" and "map_of (FuncDescriptors P) n = Some bs"
    and "load_descriptor bs = Inr D" and "is_kernel D \<noteq> 0" and "distinct (HostHeap s)"
    and "arg = CHR ''&'' # n \<or> arg = n \<and> hd n \<noteq> CHR ''&''" and "out \<noteq> nullptr"
  shows "\<exists>p K. hsa_executable_get_symbol s' e None (Some arg) agent' cc out = Inr (HSA_STATUS_SUCCESS, Some p) \<and>
    hsa_executable_symbol_get_info s' p HSA_EXECUTABLE_SYMBOL_INFO_KERNEL_OBJECT out =
      Inr (HSA_STATUS_SUCCESS, Some (F_u64 p)) \<and>
    hsa_executable_symbol_get_info s' p HSA_EXECUTABLE_SYMBOL_INFO_KERNEL_KERNARG_SEGMENT_SIZE out =
      Inr (HSA_STATUS_SUCCESS, Some (F_u32 (kernarg_segment_size D))) \<and>
    hsa_executable_symbol_get_info s' p HSA_EXECUTABLE_SYMBOL_INFO_KERNEL_GROUP_SEGMENT_SIZE out =
      Inr (HSA_STATUS_SUCCESS, Some (F_u32 (group_segment_size D))) \<and>
    named_kernel s' p = Some K \<and> library_address H (library_handle H (Files s) P) n (Krn_Address K) \<and>
    KernargSegmentAlignment K = ucast (max 16 (kernarg_max_align D)) \<and> KernargSegmentSize K = kernarg_segment_size D"
proof -
  define E where "E = fromHSAObject (ExecutableRegistry s) e"
  have init: "isInitialized s" and E0: "E \<noteq> nullptr" and load: "LoadCodeObject H E c s = Inr (HSA_STATUS_SUCCESS, s')"
    using assms(1) by (auto simp: hsa_executable_load_code_object_def E_def outcome_simps Let_def split: if_splits)
  from LoadCodeObject_kernel [OF load assms(2-11)] obtain p A X where p: "p \<noteq> nullptr" "Executables s' E = Some X"
    "getSymbol (CHR ''&'' # n) X = p"
    "SymbolObjects s' p = Some (kernel_symbol n Program (kernarg_segment_size D)
      (ucast (max MIN_ALIGNMENT (kernarg_max_align D))) (group_segment_size D) (private_segment_size D) p A)"
    "fromHSAObject (SymbolRegistry s') p = p" "library_address H (library_handle H (Files s) P) n A"
    "ExecutableRegistry s' = ExecutableRegistry s" "ReferenceCounter s' = ReferenceCounter s"
    by blast
  have init': "isInitialized s'" using init p(8) by (simp add: isInitialized_def)
  have "n \<noteq> []" using assms(7) by (auto simp: hidden_symbol_def)
  then have "executable_symbol_name None arg = CHR ''&'' # n" "arg \<noteq> []"
    using assms(12) by (auto simp: executable_symbol_name_def)
  then have found: "hsa_executable_get_symbol s' e None (Some arg) agent' cc out = Inr (HSA_STATUS_SUCCESS, Some p)"
    using p E0 assms(13) by (simp add: hsa_executable_get_symbol_def deref_Some flip: E_def)
  define K where "K = the (as_kernel (kernel_symbol n Program (kernarg_segment_size D)
      (ucast (max MIN_ALIGNMENT (kernarg_max_align D))) (group_segment_size D) (private_segment_size D) p A))"
  have K: "SymbolObjects s' p = Some (Kernel_object K)" "Krn_Object K = p" "Krn_Address K = A"
    "KernargSegmentSize K = kernarg_segment_size D" "GroupSegmentSize K = group_segment_size D"
    "KernargSegmentAlignment K = ucast (max 16 (kernarg_max_align D))"
    using p(4) by (simp_all add: K_def kernel_symbol_def MIN_ALIGNMENT_def)
  have "named_kernel s' p = Some K" using p(1,5) K(1) by (simp add: named_kernel_def)
  moreover have "hsa_executable_symbol_get_info s' p a out = Inr (HSA_STATUS_SUCCESS, Some f)"
    if "executable_symbol_attribute (Kernel_object K) a = Inr (Some f)" for a f
    using that init' assms(13) p(1,5) K(1) by (simp add: hsa_executable_symbol_get_info_def deref_Some)
  ultimately show ?thesis
    using found p(6) K
    by (intro exI [of _ p] exI [of _ K]) (simp add: executable_symbol_attribute_def kernel_field_def of_class_def Let_def)
qed

theorem loaded_kernel_found_witness:
  "\<exists>s' p K. hsa_executable_load_code_object demo_host code_demo 0x700 0x200 0x600 None = Inr (HSA_STATUS_SUCCESS, s') \<and>
    hsa_executable_get_symbol s' 0x700 None (Some ''&k'') 0 0 8 = Inr (HSA_STATUS_SUCCESS, Some p) \<and>
    named_kernel s' p = Some K \<and> Krn_Address K = 0x7100 \<and> KernargSegmentSize K = 16 \<and> KernargSegmentAlignment K = 16"
proof -
  obtain D where D: "load_descriptor demo_descriptor = Inr D" "is_kernel D = 1" "kernarg_segment_size D = 16"
    "kernarg_max_align D = 8" using demo_load_descriptor by blast
  obtain s' where "LoadCodeObject demo_host 0x700 0x600 code_demo = Inr (HSA_STATUS_SUCCESS, s')"
    using demo_loading by blast
  then have load: "hsa_executable_load_code_object demo_host code_demo 0x700 0x200 0x600 None = Inr (HSA_STATUS_SUCCESS, s')"
    by (simp add: hsa_executable_load_code_object_def code_demo_facts demo_executable deref_Some)
  have elf: "parse_elf demo_host (ELFBlob demo_code_object) = Some demo_elf" using demo_code_object_facts by simp
  have symtab: "elf_symtab demo_elf = Some ([(''frame_dummy'', 2)] @ (''k'', 2) # [(''g'', 1)])"
    by (simp add: demo_elf_def)
  have descriptor: "map_of (FuncDescriptors demo_code_object) ''k'' = Some demo_descriptor" by (simp add: demo_code_object_def)
  have library: "library_handle demo_host (Files code_demo) demo_code_object = 0x7000"
    by (simp add: library_handle_def demo_code_object_def demo_host_def)
  have address: "library_address demo_host 0x7000 ''k'' A \<longleftrightarrow> A = 0x7100" for A
    by (auto simp: library_address_def strip_ampersand_def demo_host_def)
  show ?thesis
    using loaded_kernel_found [OF load code_demo_facts(2,3) elf symtab _ demo_names(1) descriptor D(1), where arg = "''&k''"
        and out = 8 and agent' = 0 and cc = 0] load D code_demo_facts(4)
    by (simp add: library address) blast
qed

end
