(* ===== verification/Runtime_Life.thy ===== *)
theory Runtime_Life
  imports Executable_Api
begin

text \<open>
  The life of the runtime: the reference counted instance (\<open>src/Runtime.cc\<close>), the construction of the
  CPU-only platform (\<open>src/Platform/CPUOnly/CPURuntime.cc\<close>) and the entry points \<open>hsa_init\<close> and
  \<open>hsa_shut_down\<close> (\<open>src/hsa/hsa_runtime.cc\<close>). The members of the one runtime object are members of the
  process state. A computation that may not return is an \<open>option\<close>: \<open>None\<close> when it does not.
\<close>

section \<open>Computations that may not return\<close>

definition proceed :: "'a outcome option \<Rightarrow> ('a \<Rightarrow> 'b outcome option) \<Rightarrow> 'b outcome option" where
  "proceed m f = (case m of None \<Rightarrow> None | Some (Inl e) \<Rightarrow> Some (Inl e) | Some (Inr a) \<Rightarrow> f a)"

lemma proceed_simps [simp]:
  "proceed None f = None" "proceed (Some (Inl e)) f = Some (Inl e)" "proceed (Some (Inr a)) f = f a"
  by (simp_all add: proceed_def)

section \<open>Construction\<close>

definition CPUKernelAgent_new ::
  "(string \<Rightarrow> u64) \<Rightarrow> addr \<Rightarrow> 'm platform_state_scheme \<Rightarrow> (addr \<times> 'm platform_state_scheme) outcome" where
  "CPUKernelAgent_new hash QueueMemRegion s =
     and_then (operator_new s) (\<lambda>(this, s1).
       let s2 = s1\<lparr>AgentRegistry := registerObject (AgentRegistry s1) this this,
             KernelAgents := (KernelAgents s1)(this \<mapsto>
               \<lparr>AgentQueues = [], AgentRegions = [], KernargRegion = nullptr, UMQRegion = nullptr,
                GroupMemoryRegion = nullptr, QueueRegion = QueueMemRegion, AgentISA = ''host-isa'',
                RunningQueue = nullptr, InterruptingTheQueue = False\<rparr>)\<rparr>;
           (HSAObject, s3) = registerISA hash ''host-isa''
             [\<lparr>cc_name = ''SystemV'', wavefrontSize = 1, wavefrontsPerComputeUnit = 1\<rparr>] s2
       in Inr (this, s3))"

definition Runtime_registerMemoryRegion :: "addr \<Rightarrow> 'm region_state_scheme \<Rightarrow> 'm region_state_scheme" where
  "Runtime_registerMemoryRegion M s = s\<lparr>MemoryRegions := MemoryRegions s @ [M]\<rparr>"

definition Runtime_registerAgent :: "addr \<Rightarrow> 'm agent_state_scheme \<Rightarrow> 'm agent_state_scheme" where
  "Runtime_registerAgent A s = s\<lparr>RtAgents := RtAgents s @ [A]\<rparr>"

definition GCCFinalizer_new ::
  "'m platform_state_scheme \<Rightarrow> (Extension \<times> 'm platform_state_scheme) outcome" where
  "GCCFinalizer_new s =
     and_then (operator_new s) (\<lambda>(this, s1).
       Inr (\<lparr>ext_version = \<lparr>Major = 1, Minor = 0\<rparr>, ext_object = this\<rparr>, s1))"

definition CPURuntime_new ::
  "(string \<Rightarrow> u64) \<Rightarrow> 'm platform_state_scheme \<Rightarrow> (addr \<times> 'm platform_state_scheme) outcome" where
  "CPURuntime_new hash s =
     and_then (operator_new s) (\<lambda>(this, s0).
     and_then (CPUMemoryRegion_new HSA_REGION_SEGMENT_GLOBAL
                 (s0\<lparr>RtAgents := [], Extensions := [], MemoryRegions := []\<rparr>)) (\<lambda>(GlobalMemRegion, s1).
     and_then (CPUKernelAgent_new hash GlobalMemRegion s1) (\<lambda>(CPUAgent, s2).
     and_then (update_agent CPUAgent (Agent_registerMemoryRegion GlobalMemRegion) s2) (\<lambda>s3.
     and_then (CPUMemoryRegion_new HSA_REGION_SEGMENT_GROUP s3) (\<lambda>(GroupMemRegion, s4).
     and_then (update_agent CPUAgent (Agent_registerMemoryRegion GroupMemRegion) s4) (\<lambda>s5.
     and_then (update_agent CPUAgent (setGroupMemoryRegion GroupMemRegion) s5) (\<lambda>s6.
       let s7 = Runtime_registerMemoryRegion GroupMemRegion (Runtime_registerMemoryRegion GlobalMemRegion s6);
           s8 = Runtime_registerAgent CPUAgent s7
       in and_then (GCCFinalizer_new s8) (\<lambda>(F, s9).
            Inr (this, registerExtension HSA_EXTENSION_FINALIZER F s9)))))))))"

definition Runtime_initialize ::
  "(string \<Rightarrow> u64) \<Rightarrow> 'm platform_state_scheme \<Rightarrow> (bool \<times> 'm platform_state_scheme) outcome" where
  "Runtime_initialize hash s =
     (if ReferenceCounter s = 0x7FFFFFFF then Inr (False, s)
      else and_then (if ReferenceCounter s = 0
                     then and_then (CPURuntime_new hash s) (\<lambda>(R, s1). Inr (s1\<lparr>Instance := R\<rparr>)) else Inr s)
             (\<lambda>s2. Inr (True, s2\<lparr>ReferenceCounter := ReferenceCounter s2 + 1\<rparr>)))"

section \<open>Destruction\<close>

definition CPUKernelAgent_delete :: "addr \<Rightarrow> 'm agent_state_scheme \<Rightarrow> 'm agent_state_scheme outcome" where
  "CPUKernelAgent_delete this s =
     and_then (deref (KernelAgents s) this) (\<lambda>_.
       Inr (s\<lparr>KernelAgents := (KernelAgents s)(this := None),
              AgentRegistry := destroyMapping (AgentRegistry s) this\<rparr>))"

fun delete_agents ::
  "kernel_code \<Rightarrow> addr list \<Rightarrow> 'm agent_state_scheme \<Rightarrow> 'm agent_state_scheme outcome option" where
  "delete_agents code [] s = Some (Inr s)"
| "delete_agents code (Agent # As) s =
     proceed (CPUKernelAgent_shutDown code Agent s) (\<lambda>s1.
     proceed (Some (CPUKernelAgent_delete Agent s1)) (\<lambda>s2. delete_agents code As s2))"

definition CPUMemoryRegion_delete :: "addr \<Rightarrow> 'm region_state_scheme \<Rightarrow> 'm region_state_scheme outcome" where
  "CPUMemoryRegion_delete this s =
     and_then (deref (CPURegions s) this) (\<lambda>_.
       Inr (s\<lparr>CPURegions := (CPURegions s)(this := None),
              RegionRegistry := destroyMapping (RegionRegistry s) this\<rparr>))"

fun delete_regions :: "addr list \<Rightarrow> 'm region_state_scheme \<Rightarrow> 'm region_state_scheme outcome" where
  "delete_regions [] s = Inr s"
| "delete_regions (R # Rs) s = and_then (CPUMemoryRegion_delete R s) (delete_regions Rs)"

text \<open>
  \<open>HSAObjectMapping::garbageCollect\<close> over the state: the object of the first item of the registry \<open>reg s\<close>
  is deleted by \<open>del\<close> until the registry is empty. The loop does not end when a deletion leaves the item.
\<close>

partial_function (option) collect ::
  "('s \<Rightarrow> registry) \<Rightarrow> (addr \<Rightarrow> 's \<Rightarrow> 's outcome) \<Rightarrow> 's \<Rightarrow> 's outcome option" where
  "collect reg del s =
     (if reg s = [] then Some (Inr s)
      else case del (snd (hd (reg s))) s of Inl e \<Rightarrow> Some (Inl e) | Inr s' \<Rightarrow> collect reg del s')"

definition Runtime_delete ::
  "host \<Rightarrow> kernel_code \<Rightarrow> 'm program_state_scheme \<Rightarrow> 'm program_state_scheme outcome option" where
  "Runtime_delete H code s =
     proceed (delete_agents code (RtAgents s) s) (\<lambda>s1.
     proceed (Some (Queue_garbageCollect (s1\<lparr>RtAgents := []\<rparr>))) (\<lambda>s2.
     proceed (collect CodeRegistry (DLFinalizedProgram_delete H) s2) (\<lambda>s3.
     proceed (collect ProgramRegistry (HSAILProgram_delete H) s3) (\<lambda>s4.
     proceed (Some (delete_regions (MemoryRegions s4) s4)) (\<lambda>s5. Some (Inr (s5\<lparr>MemoryRegions := []\<rparr>)))))))"

definition Runtime_release ::
  "host \<Rightarrow> kernel_code \<Rightarrow> 'm program_state_scheme \<Rightarrow> (bool \<times> 'm program_state_scheme) outcome option" where
  "Runtime_release H code s =
     (if ReferenceCounter s = 0 then Some (Inr (False, s))
      else proceed (if ReferenceCounter s = 1
                    then proceed (Runtime_delete H code s) (\<lambda>s1. Some (Inr (s1\<lparr>Instance := nullptr, Extensions := []\<rparr>)))
                    else Some (Inr s))
             (\<lambda>s2. Some (Inr (True, s2\<lparr>ReferenceCounter := ReferenceCounter s2 - 1\<rparr>))))"

section \<open>Entry points\<close>

definition hsa_init ::
  "(string \<Rightarrow> u64) \<Rightarrow> 'm platform_state_scheme \<Rightarrow> (hsa_status_t \<times> 'm platform_state_scheme) outcome" where
  "hsa_init hash s =
     and_then (Runtime_initialize hash s) (\<lambda>(ok, s1).
       Inr (if ok then HSA_STATUS_SUCCESS else HSA_STATUS_ERROR_REFCOUNT_OVERFLOW, s1))"

definition hsa_shut_down ::
  "host \<Rightarrow> kernel_code \<Rightarrow> 'm program_state_scheme \<Rightarrow>
   (hsa_status_t \<times> 'm program_state_scheme) outcome option" where
  "hsa_shut_down H code s =
     proceed (Runtime_release H code s) (\<lambda>(ok, s1).
       Some (Inr (if ok then HSA_STATUS_SUCCESS else HSA_STATUS_ERROR_NOT_INITIALIZED, s1)))"

end
