(* ===== verification/Directories.thy ===== *)
theory Directories
  imports Object_Registry
begin

text \<open>
  When a registry is sound for the objects that exist: what is found is alive, no object has two handles, and no
  object or handle is an address that the allocator has still to give. The operations of the registry keep this.
\<close>

section \<open>Sound directories\<close>

text \<open>
  A registry \<open>R\<close> of the objects in \<open>objects\<close>, with \<open>H\<close> the addresses to come. Lookups of unknown handles by
  \<open>fromHandle\<close> leave entries with the null pointer, which name nothing.
\<close>

definition directory :: "registry \<Rightarrow> (addr \<rightharpoonup> 'o) \<Rightarrow> addr list \<Rightarrow> bool" where
  "directory R objects H \<longleftrightarrow>
     distinct (map fst R) \<and> distinct (filter (\<lambda>p. p \<noteq> nullptr) (map snd R)) \<and>
     (\<forall>(h, p) \<in> set R. p \<noteq> nullptr \<longrightarrow> p \<in> dom objects \<and> h \<notin> set H) \<and>
     nullptr \<notin> dom objects \<and> dom objects \<inter> set H = {}"

lemma directoryI:
  assumes "distinct (map fst R)" and "distinct (filter (\<lambda>p. p \<noteq> nullptr) (map snd R))"
    and "\<And>h p. (h, p) \<in> set R \<Longrightarrow> p \<noteq> nullptr \<Longrightarrow> p \<in> dom objects \<and> h \<notin> set H"
    and "nullptr \<notin> dom objects" and "dom objects \<inter> set H = {}"
  shows "directory R objects H"
  unfolding directory_def using assms by blast

lemma directoryD:
  assumes "directory R objects H"
  shows "distinct (map fst R)" and "distinct (filter (\<lambda>p. p \<noteq> nullptr) (map snd R))"
    and "(h, p) \<in> set R \<Longrightarrow> p \<noteq> nullptr \<Longrightarrow> p \<in> dom objects" and "(h, p) \<in> set R \<Longrightarrow> p \<noteq> nullptr \<Longrightarrow> h \<notin> set H"
    and "nullptr \<notin> dom objects" and "p \<in> dom objects \<Longrightarrow> p \<notin> set H"
    and "dom objects \<inter> set H = {}"
  using assms unfolding directory_def by blast+

lemma directory_sub:
  assumes "directory R objects H" and "set H' \<subseteq> set H"
  shows "directory R objects H'"
  by (rule directoryI) (use directoryD [OF assms(1)] assms(2) in \<open>blast+\<close>)

text \<open>The supply may be any addresses that name no object and that no object has as its handle.\<close>

definition unused :: "registry \<Rightarrow> (addr \<rightharpoonup> 'o) \<Rightarrow> addr list \<Rightarrow> bool" where
  "unused R objects H \<longleftrightarrow>
     (\<forall>a \<in> set H. objects a = None) \<and> (\<forall>(h, p) \<in> set R. p \<noteq> nullptr \<longrightarrow> h \<notin> set H)"

lemma directory_supply:
  assumes "directory R objects H" and "unused R objects H'"
  shows "directory R objects H'"
proof (rule directoryI)
  show "p \<in> dom objects \<and> h \<notin> set H'" if "(h, p) \<in> set R" "p \<noteq> nullptr" for h p
    using directoryD(3) [OF assms(1) that] assms(2) that by (auto simp: unused_def)
  show "dom objects \<inter> set H' = {}" using assms(2) by (auto simp: unused_def)
qed (use directoryD [OF assms(1)] in blast)+

lemma directory_upd:
  assumes "directory R objects H" and "p \<in> dom objects"
  shows "directory R (objects(p \<mapsto> x)) H"
proof -
  have same: "dom (objects(p \<mapsto> x)) = dom objects" using assms(2) by auto
  show ?thesis using assms(1) unfolding directory_def same .
qed

lemma directory_nil: "directory R objects H \<Longrightarrow> directory [] objects H"
  by (simp add: directory_def)

lemma set_update_subset: "set (AList.update h p R) \<subseteq> insert (h, p) (set R)"
  by (induction R) auto

lemma distinct_objects_update:
  assumes "distinct (filter (\<lambda>p. p \<noteq> nullptr) (map snd R))" and "\<And>q. (h, q) \<in> set R \<Longrightarrow> q = nullptr"
    and "p \<notin> snd ` set R"
  shows "distinct (filter (\<lambda>p. p \<noteq> nullptr) (map snd (AList.update h p R)))"
  using assms
proof (induction R)
  case (Cons e R)
  obtain k q where e: "e = (k, q)" by (cases e)
  show ?case
  proof (cases "k = h")
    case True
    with Cons.prems(2) [of q] e have "q = nullptr" by simp
    with Cons.prems e True show ?thesis by (auto simp: image_iff)
  next
    case False
    have "distinct (filter (\<lambda>p. p \<noteq> nullptr) (map snd (AList.update h p R)))"
      using Cons.prems e by (intro Cons.IH) (auto split: if_splits)
    moreover have "q \<notin> snd ` set (AList.update h p R)" if "q \<noteq> nullptr"
      using Cons.prems that e set_update_subset [of h p R] by (fastforce simp: image_iff)
    ultimately show ?thesis using False e by (auto simp: image_iff)
  qed
qed simp

lemma directory_enter:
  assumes "directory R objects H" and "p \<in> set H" and "h \<in> set H" and "p \<noteq> nullptr"
    and "set H' \<subseteq> set H - {p, h}"
  shows "directory (registerObject R h p) (objects(p \<mapsto> x)) H'"
proof -
  note R = directoryD [OF assms(1)]
  have p: "p \<notin> dom objects" using R(6) assms(2) by blast
  then have "p \<notin> snd ` set R" using R(3) [of _ p] assms(4) by (metis imageE prod.collapse)
  then have objs: "distinct (filter (\<lambda>p. p \<noteq> nullptr) (map snd (AList.update h p R)))"
    using R(2,4) assms(3) by (intro distinct_objects_update) blast+
  have entries: "q \<in> dom (objects(p \<mapsto> x)) \<and> k \<notin> set H'" if "(k, q) \<in> set (AList.update h p R)" "q \<noteq> nullptr" for k q
    using that(1) [THEN subsetD [OF set_update_subset]] R(3,4) that(2) assms(5) by auto
  have "nullptr \<notin> dom (objects(p \<mapsto> x))" "dom (objects(p \<mapsto> x)) \<inter> set H' = {}"
    using R(5,6) assms(4,5) by auto
  with objs entries R(1) show ?thesis unfolding registerObject_def by (intro directoryI) (simp_all add: distinct_update)
qed

lemma filter_destroyMapping:
  assumes "distinct (filter (\<lambda>p. p \<noteq> nullptr) (map snd R))" and "p \<noteq> nullptr"
  shows "p \<notin> snd ` set (destroyMapping R p)"
  using assms by (induction R p rule: destroyMapping.induct) (auto simp: image_iff split: if_splits)

lemma distinct_destroyMapping:
  "distinct (filter P (map f R)) \<Longrightarrow> distinct (filter P (map f (destroyMapping R p)))"
proof (induction R p rule: destroyMapping.induct)
  case (2 h q R p)
  then show ?case using set_destroyMapping [of R p] by (auto split: if_splits)
qed simp

lemma directory_leave:
  assumes "directory R objects H"
  shows "directory (destroyMapping R p) (objects(p := None)) H"
proof (rule directoryI)
  note R = directoryD [OF assms]
  show "distinct (map fst (destroyMapping R p))"
    using distinct_destroyMapping [of "\<lambda>h. True" fst R p] R(1) by simp
  show "distinct (filter (\<lambda>p. p \<noteq> nullptr) (map snd (destroyMapping R p)))"
    using R(2) by (rule distinct_destroyMapping)
  show "q \<in> dom (objects(p := None)) \<and> h \<notin> set H" if "(h, q) \<in> set (destroyMapping R p)" "q \<noteq> nullptr" for h q
  proof -
    have "(h, q) \<in> set R" using that(1) set_destroyMapping by blast
    moreover have "q \<noteq> p" using that filter_destroyMapping [OF R(2), of p] by force
    ultimately show ?thesis using R(3,4) that(2) by auto
  qed
  show "nullptr \<notin> dom (objects(p := None))" "dom (objects(p := None)) \<inter> set H = {}" using R(5,6) by auto
qed

lemma directory_leave_all:
  "directory R objects H \<Longrightarrow> directory (foldl destroyMapping R ps) (objects |` (- set ps)) H"
proof (induction ps arbitrary: R objects)
  case Nil
  moreover have "objects |` UNIV = objects" by (rule ext) simp
  ultimately show ?case by simp
next
  case (Cons p ps)
  have same: "objects(p := None) |` (- set ps) = objects |` (- set (p # ps))" by (auto simp: restrict_map_def)
  show ?case using Cons.IH [OF directory_leave [OF Cons.prems], of p] unfolding same by simp
qed

lemma directory_deregister:
  assumes "directory R objects H"
  shows "directory (deregisterObject R h) objects H"
proof (rule directoryI)
  note R = directoryD [OF assms]
  have sub: "set (AList.delete h R) \<subseteq> set R" by (auto simp: AList.delete_eq)
  show "distinct (map fst (deregisterObject R h))" using R(1) by (simp add: deregisterObject_def distinct_delete)
  have "distinct (filter (\<lambda>p. p \<noteq> nullptr) (map snd (filter P R)))" for P
    using R(2) by (induction R) (fastforce simp: image_iff split: if_splits)+
  then show "distinct (filter (\<lambda>p. p \<noteq> nullptr) (map snd (deregisterObject R h)))"
    by (simp only: deregisterObject_def AList.delete_eq)
  show "p \<in> dom objects \<and> k \<notin> set H" if "(k, p) \<in> set (deregisterObject R h)" "p \<noteq> nullptr" for k p
    using R(3,4) that sub unfolding deregisterObject_def by blast
qed (use directoryD [OF assms] in blast)+

lemma directory_fromHandle:
  assumes "directory R objects H" and "fromHandle R h = (p, R')"
  shows "directory R' objects H"
proof (cases "map_of R h")
  case None
  then have "R' = (h, nullptr) # R" "h \<notin> fst ` set R"
    using assms(2) by (simp_all add: fromHandle_def, simp add: map_of_eq_None_iff)
  with directoryD(1-5,7) [OF assms(1)] show ?thesis by (intro directoryI) (auto split: if_splits)
next
  case (Some q)
  with assms show ?thesis by (simp add: fromHandle_def)
qed

lemma directory_find:
  assumes "directory R objects H" and "fromHSAObject R h \<noteq> nullptr"
  shows "fromHSAObject R h \<in> dom objects"
proof -
  obtain p where "map_of R h = Some p" "fromHSAObject R h = p"
    using assms(2) by (auto simp: fromHSAObject_def split: option.splits)
  then show ?thesis using directoryD(3) [OF assms(1)] assms(2) map_of_SomeD by metis
qed

lemma directory_inj:
  assumes "directory R objects H" and "fromHSAObject R h \<noteq> nullptr" and "fromHSAObject R h' = fromHSAObject R h"
  shows "h' = h"
proof -
  define p where "p = fromHSAObject R h"
  have "(h, p) \<in> set R" "(h', p) \<in> set R" and p: "p \<noteq> nullptr"
    using assms(2,3) by (auto simp: p_def fromHSAObject_def split: option.splits dest: map_of_SomeD)
  then show ?thesis using directoryD(2) [OF assms(1)]
  proof (induction R)
    case (Cons e R)
    have "p \<notin> snd ` set R" if "snd e = p" using Cons.prems(4) p that by (auto split: if_splits)
    with Cons show ?case by (auto simp: image_iff split: if_splits)
  qed simp
qed

end
