(* ===== verification/Runtime_Shutdown.thy ===== *)
theory Runtime_Shutdown
  imports Runtime_Life Directories
begin

text \<open>
  What the last \<open>hsa_shut_down\<close> does: the collections of the registries end and empty them, the agents,
  queues and regions are deleted. The collection is proved once, for any registry with a destructor that
  removes its object, and used for programs and for code objects.
\<close>

section \<open>The interface of a collected class\<close>

locale collectable =
  fixes reg :: "'s \<Rightarrow> registry" and del :: "addr \<Rightarrow> 's \<Rightarrow> 's outcome" and ok :: "'s \<Rightarrow> bool"
    and same :: "'s \<Rightarrow> 's \<Rightarrow> bool"
  assumes ok_wf: "ok s \<Longrightarrow> wf_registry (reg s)"
    and del_removes: "ok s \<Longrightarrow> p \<in> objects_of (reg s) \<Longrightarrow>
      \<exists>s'. del p s = Inr s' \<and> reg s' = destroyMapping (reg s) p \<and> ok s' \<and> same s s'"
    and same_refl: "same s s"
    and same_trans: "same s s1 \<Longrightarrow> same s1 s2 \<Longrightarrow> same s s2"
begin

lemma collect_ends:
  assumes "ok s"
  shows "\<exists>s'. collect reg del s = Some (Inr s') \<and> reg s' = [] \<and> ok s' \<and> same s s'"
  using assms
proof (induction "length (reg s)" arbitrary: s rule: less_induct)
  case less
  show ?case
  proof (cases "reg s")
    case Nil
    then show ?thesis using less.prems same_refl by (subst collect.simps) auto
  next
    case (Cons e R)
    then have "snd (hd (reg s)) \<in> objects_of (reg s)" by (simp add: objects_of_def)
    with del_removes less.prems obtain s1 where s1: "del (snd (hd (reg s))) s = Inr s1"
      "reg s1 = destroyMapping (reg s) (snd (hd (reg s)))" "ok s1" "same s s1" by blast
    have "length (reg s1) < length (reg s)"
      unfolding s1(2) by (rule length_destroyMapping) (simp add: Cons)
    from less.hyps [OF this s1(3)] obtain s' where s': "collect reg del s1 = Some (Inr s')" "reg s' = []" "ok s'" "same s1 s'"
      by blast
    have "collect reg del s = collect reg del s1" using Cons s1(1) by (subst collect.simps) simp
    with s' same_trans [OF s1(4)] show ?thesis by auto
  qed
qed

text \<open>The collection deletes what \<open>garbageCollect\<close> of a bare registry does, and leaves it empty as well.\<close>

lemma collect_refines:
  assumes "ok s"
  shows "map_option fst (garbageCollect (reg s) []) = Some [] \<and>
    map_option (map_sum id reg) (collect reg del s) = Some (Inr [])"
  using collect_ends [OF assms] garbageCollect_wf [OF ok_wf [OF assms], of "[]"] by auto

end

section \<open>Programs\<close>

definition programs_ok :: "'m program_state_scheme \<Rightarrow> bool" where
  "programs_ok s \<longleftrightarrow> wf_registry (ProgramRegistry s) \<and> objects_of (ProgramRegistry s) \<subseteq> dom (HSAILPrograms s)"

text \<open>
  What the deletion of programs leaves alone: two states agree when they do so with the parts that it
  changes blanked out.
\<close>

definition without_programs :: "'m program_state_scheme \<Rightarrow> 'm program_state_scheme" where
  "without_programs s =
     s\<lparr>ProgramRegistry := [], HSAILPrograms := Map.empty, Files := Map.empty, DebugMode := 0\<rparr>"

definition only_programs :: "'m program_state_scheme \<Rightarrow> 'm program_state_scheme \<Rightarrow> bool" where
  "only_programs s s' \<longleftrightarrow> without_programs s' = without_programs s"

lemma objects_not_null: "wf_registry R \<Longrightarrow> p \<in> objects_of R \<Longrightarrow> p \<noteq> nullptr"
  by (auto simp: wf_registry_def objects_of_def)

lemma IsDebugMode_cases:
  obtains b d where "IsDebugMode H s = (b, s\<lparr>DebugMode := d\<rparr>)"
proof -
  have "s = s\<lparr>DebugMode := DebugMode s\<rparr>" by simp
  then have "\<exists>b d. IsDebugMode H s = (b, s\<lparr>DebugMode := d\<rparr>)" unfolding IsDebugMode_def by (metis (full_types))
  with that show thesis by blast
qed

lemma HSAILProgram_delete_removes:
  assumes "programs_ok s" and "p \<in> objects_of (ProgramRegistry s)"
  shows "\<exists>s'. HSAILProgram_delete H p s = Inr s' \<and>
    ProgramRegistry s' = destroyMapping (ProgramRegistry s) p \<and> programs_ok s' \<and> only_programs s s'"
proof -
  have wf: "wf_registry (ProgramRegistry s)" and p: "p \<noteq> nullptr"
    using assms objects_not_null by (auto simp: programs_ok_def)
  obtain P where P: "HSAILPrograms s p = Some P" using assms by (auto simp: programs_ok_def)
  obtain b d where d: "IsDebugMode H s = (b, s\<lparr>DebugMode := d\<rparr>)" by (rule IsDebugMode_cases)
  then obtain s' where s': "HSAILProgram_delete H p s = Inr s'" "only_programs s s'"
    "ProgramRegistry s' = destroyMapping (ProgramRegistry s) p" "HSAILPrograms s' = (HSAILPrograms s)(p := None)"
    using p P by (simp add: HSAILProgram_delete_def deref_Some Let_def only_programs_def without_programs_def cong: if_cong)
  moreover have "programs_ok s'"
    using assms wf s' by (auto simp: programs_ok_def wf_destroyMapping objects_of_destroyMapping)
  ultimately show ?thesis by blast
qed

interpretation programs: collectable ProgramRegistry "HSAILProgram_delete H" programs_ok only_programs
  using HSAILProgram_delete_removes
  by unfold_locales (auto simp: programs_ok_def only_programs_def)

section \<open>Code objects\<close>

definition symbols_alive :: "'m agent_state_scheme \<Rightarrow> addr list \<Rightarrow> bool" where
  "symbols_alive s Ss \<longleftrightarrow> distinct Ss \<and> nullptr \<notin> set Ss \<and> set Ss \<subseteq> dom (SymbolObjects s)"

lemma delete_symbols_eq:
  "symbols_alive s Ss \<Longrightarrow> delete_symbols Ss s = Inr (s\<lparr>SymbolObjects := SymbolObjects s |` (- set Ss),
     SymbolRegistry := foldl destroyMapping (SymbolRegistry s) Ss\<rparr>)"
proof (induction Ss arbitrary: s)
  case Nil
  then show ?case by simp
next
  case (Cons S Ss)
  define s1 where "s1 = s\<lparr>SymbolObjects := (SymbolObjects s)(S := None), SymbolRegistry := destroyMapping (SymbolRegistry s) S\<rparr>"
  from Cons.prems have S: "S \<noteq> nullptr" "S \<notin> set Ss" "S \<in> dom (SymbolObjects s)" and "symbols_alive s1 Ss"
    by (auto simp: symbols_alive_def s1_def)
  from S have "Symbol_delete S s = Inr s1"
    by (auto simp: Symbol_delete_def deref_Some s1_def)
  moreover have "SymbolObjects s1 |` (- set Ss) = SymbolObjects s |` (- set (S # Ss))"
    by (auto simp: restrict_map_def s1_def)
  moreover have "SymbolRegistry s1 = destroyMapping (SymbolRegistry s) S"
    "s1\<lparr>SymbolObjects := f, SymbolRegistry := R\<rparr> = s\<lparr>SymbolObjects := f, SymbolRegistry := R\<rparr>" for f R
    by (simp_all add: s1_def)
  ultimately show ?case using Cons.IH [OF \<open>symbols_alive s1 Ss\<close>] by simp
qed

text \<open>
  Every code object is registered under its address and owns its symbols.
\<close>

definition code_ok :: "'m program_state_scheme \<Rightarrow> bool" where
  "code_ok s \<longleftrightarrow> wf_registry (CodeRegistry s) \<and> (\<forall>e \<in> set (CodeRegistry s). fst e = snd e) \<and>
     (\<forall>p \<in> objects_of (CodeRegistry s). \<exists>P. FinalizedPrograms s p = Some P \<and> symbols_alive s (ProgSymbols P)) \<and>
     (\<forall>p \<in> objects_of (CodeRegistry s). \<forall>q \<in> objects_of (CodeRegistry s). \<forall>P Q. p \<noteq> q \<longrightarrow>
        FinalizedPrograms s p = Some P \<longrightarrow> FinalizedPrograms s q = Some Q \<longrightarrow>
        set (ProgSymbols P) \<inter> set (ProgSymbols Q) = {})"

definition without_code :: "'m program_state_scheme \<Rightarrow> 'm program_state_scheme" where
  "without_code s =
     s\<lparr>CodeRegistry := [], FinalizedPrograms := Map.empty, SymbolObjects := Map.empty, SymbolRegistry := [],
       Files := Map.empty, DebugMode := 0\<rparr>"

definition only_code :: "'m program_state_scheme \<Rightarrow> 'm program_state_scheme \<Rightarrow> bool" where
  "only_code s s' \<longleftrightarrow> without_code s' = without_code s"

lemma deregister_destroy:
  assumes "wf_registry R" and "\<forall>e \<in> set R. fst e = snd e"
  shows "destroyMapping (deregisterObject R p) p = destroyMapping R p"
proof -
  have "deregisterObject R p = filter (\<lambda>e. snd e \<noteq> p) R"
    unfolding deregisterObject_def AList.delete_eq by (rule filter_cong) (use assms(2) in auto)
  then show ?thesis using assms(1) by (simp add: wf_registry_def destroyMapping_filter distinct_map_filter)
qed

lemma DLFinalizedProgram_delete_removes:
  assumes ok: "code_ok s" and p: "p \<in> objects_of (CodeRegistry s)"
  shows "\<exists>s'. DLFinalizedProgram_delete H p s = Inr s' \<and>
    CodeRegistry s' = destroyMapping (CodeRegistry s) p \<and> code_ok s' \<and> only_code s s'"
proof -
  have wf: "wf_registry (CodeRegistry s)" "\<forall>e \<in> set (CodeRegistry s). fst e = snd e" and p0: "p \<noteq> nullptr"
    using assms objects_not_null by (auto simp: code_ok_def)
  obtain P where P: "FinalizedPrograms s p = Some P" "symbols_alive s (ProgSymbols P)"
    using assms by (auto simp: code_ok_def)
  define s1 where "s1 = s\<lparr>CodeRegistry := deregisterObject (CodeRegistry s) p\<rparr>"
  obtain b d where d: "IsDebugMode H s1 = (b, s1\<lparr>DebugMode := d\<rparr>)" by (rule IsDebugMode_cases)
  obtain fs where s3: "(if b then s1\<lparr>DebugMode := d\<rparr>
      else s1\<lparr>DebugMode := d, Files := remove_all (remove_filename (BinaryFileName P)) (Files s1)\<rparr>) =
      s1\<lparr>DebugMode := d, Files := fs\<rparr>"
    by (cases b) (auto intro: that [of "Files s1"])
  have alive: "symbols_alive (s1\<lparr>DebugMode := d, Files := fs\<rparr>) (ProgSymbols P)"
    using P(2) by (simp add: symbols_alive_def s1_def)
  obtain s' where s': "DLFinalizedProgram_delete H p s = Inr s'" "only_code s s'"
    "CodeRegistry s' = destroyMapping (CodeRegistry s) p" "FinalizedPrograms s' = (FinalizedPrograms s)(p := None)"
    "SymbolObjects s' = SymbolObjects s |` (- set (ProgSymbols P))"
    using p0 P(1) d s3 delete_symbols_eq [OF alive] deregister_destroy [OF wf]
    by (simp add: DLFinalizedProgram_delete_def deref_Some Let_def s1_def only_code_def without_code_def cong: if_cong)
  have objs: "objects_of (CodeRegistry s') = objects_of (CodeRegistry s) - {p}" "wf_registry (CodeRegistry s')"
    using wf(1) s'(3) by (simp_all add: objects_of_destroyMapping wf_destroyMapping)
  have "symbols_alive s' (ProgSymbols Q)" if "q \<in> objects_of (CodeRegistry s')" "FinalizedPrograms s' q = Some Q" for q Q
  proof -
    have q: "q \<noteq> p" "q \<in> objects_of (CodeRegistry s)" "FinalizedPrograms s q = Some Q" using that objs s'(4) by auto
    then have "symbols_alive s (ProgSymbols Q)" "set (ProgSymbols Q) \<inter> set (ProgSymbols P) = {}"
      using ok p P(1) by (fastforce simp: code_ok_def)+
    then show ?thesis using s'(5) by (auto simp: symbols_alive_def)
  qed
  moreover have "\<exists>Q. FinalizedPrograms s' q = Some Q" if "q \<in> objects_of (CodeRegistry s')" for q
    using ok that objs s'(4) by (auto simp: code_ok_def)
  moreover have "\<forall>e \<in> set (CodeRegistry s'). fst e = snd e" using wf(2) s'(3) set_destroyMapping by fastforce
  moreover have "set (ProgSymbols Q) \<inter> set (ProgSymbols Q') = {}"
    if "q \<in> objects_of (CodeRegistry s')" "q' \<in> objects_of (CodeRegistry s')" "q \<noteq> q'"
      "FinalizedPrograms s' q = Some Q" "FinalizedPrograms s' q' = Some Q'" for q q' Q Q'
    using ok that objs(1) unfolding code_ok_def s'(4) by (fastforce split: if_splits)
  ultimately have "code_ok s'" unfolding code_ok_def using objs(2) by blast
  with s' show ?thesis by blast
qed

interpretation code_objects: collectable CodeRegistry "DLFinalizedProgram_delete H" code_ok only_code
  using DLFinalizedProgram_delete_removes
  by unfold_locales (auto simp: code_ok_def only_code_def)

section \<open>Agents and regions\<close>

lemma foldl_destroyMapping:
  "wf_registry R \<Longrightarrow> wf_registry (foldl destroyMapping R ps) \<and> objects_of (foldl destroyMapping R ps) = objects_of R - set ps"
  by (induction ps arbitrary: R) (auto simp: wf_destroyMapping objects_of_destroyMapping)

lemma foldl_destroyMapping_all: "wf_registry R \<Longrightarrow> objects_of R = set ps \<Longrightarrow> foldl destroyMapping R ps = []"
  using foldl_destroyMapping [of R ps] by (auto simp: objects_of_def)

text \<open>The objects of a list are distinct, not null and alive.\<close>

definition all_alive :: "(addr \<rightharpoonup> 'o) \<Rightarrow> addr list \<Rightarrow> bool" where
  "all_alive objects ps \<longleftrightarrow> distinct ps \<and> nullptr \<notin> set ps \<and> set ps \<subseteq> dom objects"

lemma all_alive_Cons:
  "all_alive objects (p # ps) \<Longrightarrow> p \<noteq> nullptr \<and> (\<exists>x. objects p = Some x) \<and> all_alive (objects(p := None)) ps"
  by (auto simp: all_alive_def)

lemma shutDown_eq: "CPUKernelAgent_shutDown code this s = Some (Inr (s\<lparr>ShutDown := False\<rparr>))"
  unfolding CPUKernelAgent_shutDown_def by (subst Execute_loop.simps) simp

lemma delete_agents_eq:
  "all_alive (KernelAgents s) As \<Longrightarrow> delete_agents code As s = Some (Inr (s\<lparr>KernelAgents := KernelAgents s |` (- set As),
     AgentRegistry := foldl destroyMapping (AgentRegistry s) As, ShutDown := As = [] \<and> ShutDown s\<rparr>))"
proof (induction As arbitrary: s)
  case Nil
  then show ?case by simp
next
  case (Cons A As)
  define s1 where "s1 = s\<lparr>ShutDown := False, KernelAgents := (KernelAgents s)(A := None),
    AgentRegistry := destroyMapping (AgentRegistry s) A\<rparr>"
  from all_alive_Cons [OF Cons.prems] obtain K where K: "A \<noteq> nullptr" "KernelAgents s A = Some K"
    and "all_alive (KernelAgents s1) As" by (auto simp: s1_def)
  note alive = this(3)
  have "KernelAgents s1 |` (- set As) = KernelAgents s |` (- set (A # As))"
    by (auto simp: s1_def restrict_map_def)
  moreover have "AgentRegistry s1 = destroyMapping (AgentRegistry s) A" "\<not> ShutDown s1"
    "s1\<lparr>KernelAgents := f, AgentRegistry := R, ShutDown := b\<rparr> = s\<lparr>KernelAgents := f, AgentRegistry := R, ShutDown := b\<rparr>" for f R b
    by (simp_all add: s1_def)
  moreover have "CPUKernelAgent_delete A (s\<lparr>ShutDown := False\<rparr>) = Inr s1"
    using K by (simp add: CPUKernelAgent_delete_def deref_Some s1_def)
  ultimately show ?case using Cons.IH [OF alive] by (simp add: shutDown_eq)
qed

lemma delete_regions_eq:
  "all_alive (CPURegions s) Rs \<Longrightarrow> delete_regions Rs s = Inr (s\<lparr>CPURegions := CPURegions s |` (- set Rs),
     RegionRegistry := foldl destroyMapping (RegionRegistry s) Rs\<rparr>)"
proof (induction Rs arbitrary: s)
  case Nil
  then show ?case by simp
next
  case (Cons R Rs)
  define s1 where "s1 = s\<lparr>CPURegions := (CPURegions s)(R := None), RegionRegistry := destroyMapping (RegionRegistry s) R\<rparr>"
  from all_alive_Cons [OF Cons.prems] obtain K where K: "R \<noteq> nullptr" "CPURegions s R = Some K"
    and "all_alive (CPURegions s1) Rs" by (auto simp: s1_def)
  note alive = this(3)
  have "CPURegions s1 |` (- set Rs) = CPURegions s |` (- set (R # Rs))"
    by (auto simp: s1_def restrict_map_def)
  moreover have "RegionRegistry s1 = destroyMapping (RegionRegistry s) R"
    "s1\<lparr>CPURegions := f, RegionRegistry := G\<rparr> = s\<lparr>CPURegions := f, RegionRegistry := G\<rparr>" for f G
    by (simp_all add: s1_def)
  moreover have "CPUMemoryRegion_delete R s = Inr s1"
    using K by (simp add: CPUMemoryRegion_delete_def deref_Some s1_def)
  ultimately show ?case using Cons.IH [OF alive] by simp
qed

section \<open>Queues\<close>

text \<open>
  A queue whose region exists, and so does the region of its doorbell, if the queue owns the doorbell and the
  client has not destroyed it.
\<close>

definition housed ::
  "registry \<Rightarrow> (addr \<rightharpoonup> GCCBuiltinSignal) \<Rightarrow> (addr \<rightharpoonup> 'r) \<Rightarrow> UserModeQueue \<Rightarrow> bool" where
  "housed R signals regions Q \<longleftrightarrow> Region Q \<noteq> nullptr \<and> Region Q \<in> dom regions \<and>
     (IsDoorbellOwned Q \<longrightarrow> (\<forall>S. (doorbell_signal (HSAQueue Q), S) \<in> set R \<longrightarrow> S \<noteq> nullptr \<longrightarrow>
        (\<exists>Obj. signals S = Some Obj \<and> SignalMemory Obj \<noteq> nullptr \<and> SignalMemory Obj \<in> dom regions)))"

lemma housed_regions: "dom regions \<subseteq> dom regions' \<Longrightarrow> housed R signals regions Q \<Longrightarrow> housed R signals regions' Q"
  unfolding housed_def by blast

lemma housed_leave:
  assumes "distinct (filter (\<lambda>p. p \<noteq> nullptr) (map snd R))" and "housed R signals regions Q"
  shows "housed (destroyMapping R p) (signals(p := None)) regions Q"
proof -
  have "(h, S) \<in> set R \<and> S \<noteq> p" if "(h, S) \<in> set (destroyMapping R p)" "S \<noteq> nullptr" for h S
    using that filter_destroyMapping [OF assms(1), of p] set_destroyMapping [of R p] by (cases "p = nullptr") force+
  with assms(2) show ?thesis unfolding housed_def by fastforce
qed

definition queue_alive :: "'m queue_state_scheme \<Rightarrow> addr \<Rightarrow> bool" where
  "queue_alive s q \<longleftrightarrow> q \<noteq> nullptr \<and>
     (\<exists>Q. Queues s q = Some Q \<and> housed (SignalRegistry s) (Signals s) (CPURegions s) Q)"

definition signals_apart :: "'m signal_state_scheme \<Rightarrow> bool" where
  "signals_apart s \<longleftrightarrow> distinct (filter (\<lambda>p. p \<noteq> nullptr) (map snd (SignalRegistry s)))"

definition without_queues :: "'m queue_state_scheme \<Rightarrow> 'm queue_state_scheme" where
  "without_queues s = s\<lparr>CPURegions := Map.empty, SignalRegistry := [], Signals := Map.empty, Queues := Map.empty\<rparr>"

definition only_queues :: "'m queue_state_scheme \<Rightarrow> 'm queue_state_scheme \<Rightarrow> bool" where
  "only_queues s s' \<longleftrightarrow> without_queues s' = without_queues s \<and> dom (CPURegions s') = dom (CPURegions s)"

lemma free_keeps_regions:
  assumes "r \<noteq> nullptr" and "r \<in> dom (CPURegions s)"
  obtains found C where "CPUMemoryRegion_free r s p = Inr (found, s\<lparr>CPURegions := C\<rparr>)" "dom C = dom (CPURegions s)"
proof -
  obtain R where R: "CPURegions s r = Some R" using assms by auto
  show thesis
  proof (cases "p \<in> CPUAllocations R")
    case True
    then show ?thesis using assms R
      by (intro that [of True "(CPURegions s)(r \<mapsto> R\<lparr>CPUAllocations := CPUAllocations R - {p}\<rparr>)"])
        (auto simp: CPUMemoryRegion_free_def deref_Some set_allocations_def)
  next
    case False
    then show ?thesis using assms R
      by (intro that [of False "CPURegions s"]) (auto simp: CPUMemoryRegion_free_def deref_Some)
  qed
qed

text \<open>Deleting a queue frees its buffer and at most one signal, whose handle is gone as well.\<close>

lemma doorbell_deletion:
  assumes "housed (SignalRegistry s) (Signals s) (CPURegions s) Q" and "IsDoorbellOwned Q"
    and "S = fromHSAObject (SignalRegistry s) (doorbell_signal (HSAQueue Q))" and "S \<noteq> nullptr"
  obtains C where "dom C = dom (CPURegions s)" "GCCBuiltinSignal_delete s S =
    Inr (s\<lparr>CPURegions := C, SignalRegistry := destroyMapping (SignalRegistry s) S, Signals := (Signals s)(S := None)\<rparr>)"
proof -
  have "(doorbell_signal (HSAQueue Q), S) \<in> set (SignalRegistry s)"
    using assms(3,4) by (auto simp: fromHSAObject_def split: option.splits dest: map_of_SomeD)
  with assms obtain Obj where Obj: "Signals s S = Some Obj" "SignalMemory Obj \<noteq> nullptr"
    "SignalMemory Obj \<in> dom (CPURegions s)" unfolding housed_def by blast
  obtain found C where "CPUMemoryRegion_free (SignalMemory Obj) s (CurrentValue Obj) = Inr (found, s\<lparr>CPURegions := C\<rparr>)"
    "dom C = dom (CPURegions s)" using free_keeps_regions [OF Obj(2,3)] by blast
  with assms(4) Obj(1) show thesis by (intro that [of C]) (auto simp: GCCBuiltinSignal_delete_def deref_Some)
qed

lemma queue_deletion:
  assumes "queue_alive s q"
  obtains C R signals where "dom C = dom (CPURegions s)"
    "R = SignalRegistry s \<and> signals = Signals s \<or>
      (\<exists>S. R = destroyMapping (SignalRegistry s) S \<and> signals = (Signals s)(S := None))"
    "UserModeQueue_delete s q =
      Inr (s\<lparr>CPURegions := C, SignalRegistry := R, Signals := signals, Queues := (Queues s)(q := None)\<rparr>)"
proof -
  from assms obtain Q where Q: "q \<noteq> nullptr" "Queues s q = Some Q" "housed (SignalRegistry s) (Signals s) (CPURegions s) Q"
    by (auto simp: queue_alive_def)
  then have "Region Q \<noteq> nullptr" "Region Q \<in> dom (CPURegions s)" by (simp_all add: housed_def)
  then obtain found C where C: "CPUMemoryRegion_free (Region Q) s (base_address (HSAQueue Q)) = Inr (found, s\<lparr>CPURegions := C\<rparr>)"
    "dom C = dom (CPURegions s)" by (rule free_keeps_regions)
  define S where "S = fromHSAObject (SignalRegistry s) (doorbell_signal (HSAQueue Q))"
  note delete = UserModeQueue_delete_def [of s q] deref_Some [OF Q(1), where objects = "Queues s"]
  show thesis
  proof (cases "IsDoorbellOwned Q \<and> S \<noteq> nullptr")
    case True
    have "housed (SignalRegistry s) (Signals s) C Q" using Q(3) C(2) housed_regions [of "CPURegions s" C] by blast
    then obtain C' where "dom C' = dom C" "GCCBuiltinSignal_delete (s\<lparr>CPURegions := C\<rparr>) S =
      Inr (s\<lparr>CPURegions := C', SignalRegistry := destroyMapping (SignalRegistry s) S, Signals := (Signals s)(S := None)\<rparr>)"
      using True doorbell_deletion [of "s\<lparr>CPURegions := C\<rparr>" Q S] by (auto simp: S_def)
    with True C Q show thesis
      by (intro that [of C' "destroyMapping (SignalRegistry s) S" "(Signals s)(S := None)"])
        (auto simp: UserModeQueue_delete_def deref_Some Let_def S_def)
  next
    case False
    then have "\<not> (IsDoorbellOwned Q \<and> fromHSAObject (SignalRegistry s) (doorbell_signal (HSAQueue Q)) \<noteq> nullptr)"
      by (simp add: S_def)
    with C Q show thesis
      by (intro that [of C "SignalRegistry s" "Signals s"]) (auto simp: UserModeQueue_delete_def deref_Some Let_def)
  qed
qed

lemma queue_deletion_keeps:
  assumes "signals_apart s" and "queue_alive s q"
  obtains s' where "UserModeQueue_delete s q = Inr s'" "signals_apart s'" "only_queues s s'"
    "\<And>q'. queue_alive s q' \<Longrightarrow> q' \<noteq> q \<Longrightarrow> queue_alive s' q'"
proof -
  from assms(2) obtain C R signals where del: "dom C = dom (CPURegions s)"
    "R = SignalRegistry s \<and> signals = Signals s \<or>
      (\<exists>S. R = destroyMapping (SignalRegistry s) S \<and> signals = (Signals s)(S := None))"
    "UserModeQueue_delete s q =
      Inr (s\<lparr>CPURegions := C, SignalRegistry := R, Signals := signals, Queues := (Queues s)(q := None)\<rparr>)"
    by (rule queue_deletion)
  let ?s' = "s\<lparr>CPURegions := C, SignalRegistry := R, Signals := signals, Queues := (Queues s)(q := None)\<rparr>"
  have "distinct (filter (\<lambda>p. p \<noteq> nullptr) (map snd (SignalRegistry s)))" using assms(1) by (simp add: signals_apart_def)
  note leave = housed_leave [OF this] distinct_destroyMapping [OF this]
  have housed: "housed R signals C Q" if "housed (SignalRegistry s) (Signals s) (CPURegions s) Q" for Q
    using del(2) leave(1) [OF that] that housed_regions [of "CPURegions s" C] del(1) by auto
  show thesis
  proof (rule that [OF del(3)])
    show "signals_apart ?s'" using del(2) leave(2) assms(1) by (auto simp: signals_apart_def)
    show "only_queues s ?s'" using del(1) by (simp add: only_queues_def without_queues_def)
    show "queue_alive ?s' q'" if "queue_alive s q'" "q' \<noteq> q" for q'
      using that housed by (auto simp: queue_alive_def)
  qed
qed

lemma only_queues_trans: "only_queues s s1 \<Longrightarrow> only_queues s1 s2 \<Longrightarrow> only_queues s s2"
  by (simp add: only_queues_def)

lemma delete_queues_ends:
  assumes "signals_apart s" and "distinct qs" and "\<forall>q \<in> set qs. queue_alive s q"
  shows "\<exists>s'. delete_queues qs s = Inr s' \<and> only_queues s s'"
  using assms
proof (induction qs arbitrary: s)
  case Nil
  then show ?case by (simp add: only_queues_def)
next
  case (Cons q qs)
  obtain s1 where s1: "UserModeQueue_delete s q = Inr s1" "signals_apart s1" "only_queues s s1"
    "\<And>q'. queue_alive s q' \<Longrightarrow> q' \<noteq> q \<Longrightarrow> queue_alive s1 q'" by (rule queue_deletion_keeps [of s q]) (use Cons.prems in auto)
  have "\<forall>q' \<in> set qs. queue_alive s1 q'" using Cons.prems(2,3) s1(4) by auto
  with Cons.IH [OF s1(2)] Cons.prems(2) obtain s' where "delete_queues qs s1 = Inr s'" "only_queues s1 s'" by auto
  with s1 show ?case using only_queues_trans by auto
qed

section \<open>The whole destruction\<close>

definition shutdown_ready :: "'m program_state_scheme \<Rightarrow> bool" where
  "shutdown_ready s \<longleftrightarrow>
     all_alive (KernelAgents s) (RtAgents s) \<and> wf_registry (AgentRegistry s) \<and>
     objects_of (AgentRegistry s) = set (RtAgents s) \<and>
     signals_apart s \<and> wf_registry (QueueRegistry s) \<and> (\<forall>q \<in> objects_of (QueueRegistry s). queue_alive s q) \<and>
     code_ok s \<and> programs_ok s \<and>
     all_alive (CPURegions s) (MemoryRegions s) \<and> wf_registry (RegionRegistry s) \<and>
     objects_of (RegionRegistry s) = set (MemoryRegions s)"

text \<open>What is left of the process: no object of a collected class has a handle.\<close>

definition no_handles :: "'m program_state_scheme \<Rightarrow> bool" where
  "no_handles s \<longleftrightarrow> AgentRegistry s = [] \<and> QueueRegistry s = [] \<and> CodeRegistry s = [] \<and> ProgramRegistry s = [] \<and>
     RegionRegistry s = [] \<and> RtAgents s = [] \<and> MemoryRegions s = []"

lemma only_programs_fields:
  assumes "only_programs s s'"
  shows "AgentRegistry s' = AgentRegistry s" "QueueRegistry s' = QueueRegistry s" "CodeRegistry s' = CodeRegistry s"
    "RegionRegistry s' = RegionRegistry s" "RtAgents s' = RtAgents s" "MemoryRegions s' = MemoryRegions s"
    "CPURegions s' = CPURegions s" "ReferenceCounter s' = ReferenceCounter s" "ExecutableRegistry s' = ExecutableRegistry s"
    "Executables s' = Executables s"
  using assms [unfolded only_programs_def, THEN arg_cong, of AgentRegistry]
    assms [unfolded only_programs_def, THEN arg_cong, of QueueRegistry]
    assms [unfolded only_programs_def, THEN arg_cong, of CodeRegistry]
    assms [unfolded only_programs_def, THEN arg_cong, of RegionRegistry]
    assms [unfolded only_programs_def, THEN arg_cong, of RtAgents]
    assms [unfolded only_programs_def, THEN arg_cong, of MemoryRegions]
    assms [unfolded only_programs_def, THEN arg_cong, of CPURegions]
    assms [unfolded only_programs_def, THEN arg_cong, of ReferenceCounter]
    assms [unfolded only_programs_def, THEN arg_cong, of ExecutableRegistry]
    assms [unfolded only_programs_def, THEN arg_cong, of Executables]
  by (simp_all add: without_programs_def)

lemma only_code_fields:
  assumes "only_code s s'"
  shows "AgentRegistry s' = AgentRegistry s" "QueueRegistry s' = QueueRegistry s" "ProgramRegistry s' = ProgramRegistry s"
    "HSAILPrograms s' = HSAILPrograms s" "RegionRegistry s' = RegionRegistry s" "RtAgents s' = RtAgents s"
    "MemoryRegions s' = MemoryRegions s" "CPURegions s' = CPURegions s" "ReferenceCounter s' = ReferenceCounter s"
    "ExecutableRegistry s' = ExecutableRegistry s" "Executables s' = Executables s"
  using assms [unfolded only_code_def, THEN arg_cong, of AgentRegistry]
    assms [unfolded only_code_def, THEN arg_cong, of QueueRegistry]
    assms [unfolded only_code_def, THEN arg_cong, of ProgramRegistry]
    assms [unfolded only_code_def, THEN arg_cong, of HSAILPrograms]
    assms [unfolded only_code_def, THEN arg_cong, of RegionRegistry]
    assms [unfolded only_code_def, THEN arg_cong, of RtAgents]
    assms [unfolded only_code_def, THEN arg_cong, of MemoryRegions]
    assms [unfolded only_code_def, THEN arg_cong, of CPURegions]
    assms [unfolded only_code_def, THEN arg_cong, of ReferenceCounter]
    assms [unfolded only_code_def, THEN arg_cong, of ExecutableRegistry]
    assms [unfolded only_code_def, THEN arg_cong, of Executables]
  by (simp_all add: without_code_def)

lemma only_queues_fields:
  fixes s s' :: "'m program_state_scheme"
  assumes "only_queues s s'"
  shows "AgentRegistry s' = AgentRegistry s" "ProgramRegistry s' = ProgramRegistry s" "CodeRegistry s' = CodeRegistry s"
    "HSAILPrograms s' = HSAILPrograms s" "FinalizedPrograms s' = FinalizedPrograms s" "SymbolObjects s' = SymbolObjects s"
    "RegionRegistry s' = RegionRegistry s" "RtAgents s' = RtAgents s" "MemoryRegions s' = MemoryRegions s"
    "ReferenceCounter s' = ReferenceCounter s" "ExecutableRegistry s' = ExecutableRegistry s" "Executables s' = Executables s"
proof -
  have eq: "f (without_queues s') = f (without_queues s)" for f :: "'m program_state_scheme \<Rightarrow> 'x"
    using assms by (simp add: only_queues_def)
  show "AgentRegistry s' = AgentRegistry s" using eq [of AgentRegistry] by (simp add: without_queues_def)
  show "ProgramRegistry s' = ProgramRegistry s" using eq [of ProgramRegistry] by (simp add: without_queues_def)
  show "CodeRegistry s' = CodeRegistry s" using eq [of CodeRegistry] by (simp add: without_queues_def)
  show "HSAILPrograms s' = HSAILPrograms s" using eq [of HSAILPrograms] by (simp add: without_queues_def)
  show "FinalizedPrograms s' = FinalizedPrograms s" using eq [of FinalizedPrograms] by (simp add: without_queues_def)
  show "SymbolObjects s' = SymbolObjects s" using eq [of SymbolObjects] by (simp add: without_queues_def)
  show "RegionRegistry s' = RegionRegistry s" using eq [of RegionRegistry] by (simp add: without_queues_def)
  show "RtAgents s' = RtAgents s" using eq [of RtAgents] by (simp add: without_queues_def)
  show "MemoryRegions s' = MemoryRegions s" using eq [of MemoryRegions] by (simp add: without_queues_def)
  show "ReferenceCounter s' = ReferenceCounter s" using eq [of ReferenceCounter] by (simp add: without_queues_def)
  show "ExecutableRegistry s' = ExecutableRegistry s" using eq [of ExecutableRegistry] by (simp add: without_queues_def)
  show "Executables s' = Executables s" using eq [of Executables] by (simp add: without_queues_def)
qed

lemma Runtime_delete_ends:
  assumes "shutdown_ready s"
  shows "\<exists>s'. Runtime_delete H code s = Some (Inr s') \<and> no_handles s' \<and> ReferenceCounter s' = ReferenceCounter s \<and>
    ExecutableRegistry s' = ExecutableRegistry s \<and> Executables s' = Executables s"
proof -
  note ready = assms [unfolded shutdown_ready_def]
  define s1 where "s1 = s\<lparr>KernelAgents := KernelAgents s |` (- set (RtAgents s)), AgentRegistry := [],
    ShutDown := RtAgents s = [] \<and> ShutDown s, RtAgents := []\<rparr>"
  obtain s0 where agents: "delete_agents code (RtAgents s) s = Some (Inr s0)" "s0\<lparr>RtAgents := []\<rparr> = s1"
    using ready by (simp add: delete_agents_eq foldl_destroyMapping_all s1_def)
  have keeps: "signals_apart s1" "distinct (map snd (QueueRegistry s1))" "\<forall>q \<in> set (map snd (QueueRegistry s1)). queue_alive s1 q"
    "code_ok s1" "programs_ok s1" "CPURegions s1 = CPURegions s" "MemoryRegions s1 = MemoryRegions s"
    "RegionRegistry s1 = RegionRegistry s" "AgentRegistry s1 = []" "RtAgents s1 = []"
    "ReferenceCounter s1 = ReferenceCounter s" "ExecutableRegistry s1 = ExecutableRegistry s" "Executables s1 = Executables s"
    using ready by (auto simp: s1_def signals_apart_def queue_alive_def code_ok_def symbols_alive_def programs_ok_def
        wf_registry_def objects_of_def)
  obtain t where t: "delete_queues (map snd (QueueRegistry s1)) s1 = Inr t" "only_queues s1 t"
    using delete_queues_ends [OF keeps(1-3)] by blast
  define s2 where "s2 = t\<lparr>QueueRegistry := []\<rparr>"
  have gc: "Queue_garbageCollect s1 = Inr s2" using t(1) by (simp add: Queue_garbageCollect_def s2_def)
  note f2 = only_queues_fields [OF t(2)]
  have "code_ok s2" using keeps(4) f2 by (simp add: code_ok_def symbols_alive_def s2_def)
  then obtain s3 where s3: "collect CodeRegistry (DLFinalizedProgram_delete H) s2 = Some (Inr s3)" "CodeRegistry s3 = []"
    "only_code s2 s3" using code_objects.collect_ends by blast
  note f3 = only_code_fields [OF s3(3)]
  have "programs_ok s3" using keeps(5) f2 f3 by (simp add: programs_ok_def s2_def)
  then obtain s4 where s4: "collect ProgramRegistry (HSAILProgram_delete H) s3 = Some (Inr s4)" "ProgramRegistry s4 = []"
    "only_programs s3 s4" using programs.collect_ends by blast
  note f4 = only_programs_fields [OF s4(3)]
  have "dom (CPURegions s4) = dom (CPURegions s)" using t(2) f4 f3 keeps by (simp add: only_queues_def s2_def)
  then have regions: "all_alive (CPURegions s4) (MemoryRegions s4)" "foldl destroyMapping (RegionRegistry s4) (MemoryRegions s4) = []"
    using ready f4 f3 f2 keeps by (simp_all add: all_alive_def s2_def foldl_destroyMapping_all)
  define s5 where "s5 = s4\<lparr>CPURegions := CPURegions s4 |` (- set (MemoryRegions s4)), RegionRegistry := []\<rparr>"
  have "delete_regions (MemoryRegions s4) s4 = Inr s5" using delete_regions_eq [OF regions(1)] regions(2) by (simp add: s5_def)
  then have "Runtime_delete H code s = Some (Inr (s5\<lparr>MemoryRegions := []\<rparr>))"
    by (simp add: Runtime_delete_def agents gc s3(1) s4(1))
  moreover have "no_handles (s5\<lparr>MemoryRegions := []\<rparr>)"
    using f2 f3 f4 keeps s3(2) s4(2) by (simp add: no_handles_def s5_def s2_def)
  ultimately show ?thesis using f2 f3 f4 keeps by (simp add: s5_def s2_def)
qed

end
