(* ===== verification/Runtime_Claims.thy ===== *)
theory Runtime_Claims
  imports Runtime_Shutdown Code_Claims
begin

text \<open>
  Properties of the life of the runtime: the instance exists exactly while the counter is positive, the
  counting of initialisations, what the first \<open>hsa_init\<close> builds and what the last \<open>hsa_shut_down\<close> leaves.
\<close>

section \<open>The counter\<close>

lemma sint_positive:
  fixes c :: i32
  assumes "unat c < 2 ^ 31"
  shows "0 < sint c \<longleftrightarrow> c \<noteq> 0"
proof -
  have "int (unat c) < int (2 ^ 31)" using assms by (simp only: of_nat_less_iff)
  then have "uint c < 2 ^ 31" by simp
  moreover have "- (2 ^ 31) \<le> uint c" by (rule order.trans [OF _ uint_nonnegative]) simp
  ultimately have "signed_take_bit 31 (uint c) = uint c" by (intro signed_take_bit_int_eq_self)
  then have "sint c = uint c" by (simp only: sint_uint) simp
  moreover have "0 < uint c \<longleftrightarrow> 0 < c" by (simp add: word_less_def)
  ultimately show ?thesis by (simp add: word_gt_0)
qed

lemma counter_up:
  fixes c :: i32
  assumes "unat c < 2 ^ 31" and "c \<noteq> 0x7FFFFFFF"
  shows "unat (c + 1) < 2 ^ 31" "c + 1 \<noteq> 0"
proof -
  have "unat c \<noteq> unat (0x7FFFFFFF :: i32)" using assms(2) word_unat_eq_iff by blast
  then have "unat c + 1 < 2 ^ 31" using assms(1) by simp
  moreover from this have "unat (c + 1) = unat c + 1" by (simp add: unat_add_no_overflow)
  ultimately show "unat (c + 1) < 2 ^ 31" "c + 1 \<noteq> 0" by (auto simp: unat_eq_0 [symmetric])
qed

lemma counter_down:
  fixes c :: i32
  assumes "unat c < 2 ^ 31" and "c \<noteq> 0"
  shows "unat (c - 1) < 2 ^ 31" "c - 1 = 0 \<longleftrightarrow> c = 1"
proof -
  have "unat (c - 1) = unat c - 1" using assms(2) by (simp add: unat_minus_one)
  then show "unat (c - 1) < 2 ^ 31" using assms(1) by simp
qed simp

section \<open>What the constructors and destructors leave alone\<close>

lemma operator_new_counter: "operator_new s = Inr (p, s') \<Longrightarrow> p \<noteq> nullptr \<and> ReferenceCounter s' = ReferenceCounter s"
  by (auto simp: operator_new_def host_malloc_def split: list.splits if_splits)

lemma CPURuntime_new_counter:
  "CPURuntime_new hash s = Inr (R, s') \<Longrightarrow> R \<noteq> nullptr \<and> ReferenceCounter s' = ReferenceCounter s"
  by (auto simp: CPURuntime_new_def CPUMemoryRegion_new_def CPUKernelAgent_new_def GCCFinalizer_new_def update_agent_def
      Runtime_registerAgent_def Runtime_registerMemoryRegion_def registerISA_def registerExtension_def Let_def
      outcome_simps dest!: operator_new_counter)

lemma delete_agents_counter:
  "delete_agents code As s = Some (Inr s') \<Longrightarrow> ReferenceCounter s' = ReferenceCounter s"
proof (induction As arbitrary: s)
  case (Cons A As)
  then obtain s1 where "CPUKernelAgent_delete A (s\<lparr>ShutDown := False\<rparr>) = Inr s1" "delete_agents code As s1 = Some (Inr s')"
    by (cases "CPUKernelAgent_delete A (s\<lparr>ShutDown := False\<rparr>)") (auto simp: shutDown_eq)
  with Cons.IH show ?case by (auto simp: CPUKernelAgent_delete_def outcome_simps)
qed simp

lemma free_counter: "CPUMemoryRegion_free r s p = Inr (f, s') \<Longrightarrow> ReferenceCounter s' = ReferenceCounter s"
  by (auto simp: CPUMemoryRegion_free_def set_allocations_def outcome_simps split: if_splits)

lemma signal_delete_counter: "GCCBuiltinSignal_delete s S = Inr s' \<Longrightarrow> ReferenceCounter s' = ReferenceCounter s"
  by (auto simp: GCCBuiltinSignal_delete_def outcome_simps dest!: free_counter)

lemma queue_delete_counter: "UserModeQueue_delete s q = Inr s' \<Longrightarrow> ReferenceCounter s' = ReferenceCounter s"
  by (auto simp: UserModeQueue_delete_def outcome_simps Let_def split: if_splits
      dest!: free_counter signal_delete_counter)

lemma delete_queues_counter: "delete_queues qs s = Inr s' \<Longrightarrow> ReferenceCounter s' = ReferenceCounter s"
  by (induction qs arbitrary: s) (auto simp: outcome_simps dest!: queue_delete_counter)

lemma delete_symbols_counter: "delete_symbols Ss s = Inr s' \<Longrightarrow> ReferenceCounter s' = ReferenceCounter s"
proof (induction Ss arbitrary: s)
  case (Cons S Ss)
  then obtain s1 where "Symbol_delete S s = Inr s1" "delete_symbols Ss s1 = Inr s'" by (auto simp: outcome_simps)
  with Cons.IH show ?case by (auto simp: Symbol_delete_def outcome_simps split: if_splits)
qed simp

lemma code_delete_counter:
  assumes "DLFinalizedProgram_delete H p s = Inr s'"
  shows "ReferenceCounter s' = ReferenceCounter s"
proof -
  obtain b d where "IsDebugMode H (s\<lparr>CodeRegistry := deregisterObject (CodeRegistry s) p\<rparr>) =
    (b, s\<lparr>CodeRegistry := deregisterObject (CodeRegistry s) p\<rparr>\<lparr>DebugMode := d\<rparr>)" by (rule IsDebugMode_cases)
  with assms show ?thesis
    by (cases b) (auto simp: DLFinalizedProgram_delete_def outcome_simps Let_def split: if_splits dest!: delete_symbols_counter)
qed

lemma program_delete_counter:
  assumes "HSAILProgram_delete H p s = Inr s'"
  shows "ReferenceCounter s' = ReferenceCounter s"
proof -
  obtain b d where "IsDebugMode H s = (b, s\<lparr>DebugMode := d\<rparr>)" by (rule IsDebugMode_cases)
  with assms show ?thesis
    by (cases b) (auto simp: HSAILProgram_delete_def outcome_simps Let_def split: if_splits)
qed

lemma delete_regions_counter: "delete_regions Rs s = Inr s' \<Longrightarrow> ReferenceCounter s' = ReferenceCounter s"
  by (induction Rs arbitrary: s) (auto simp: outcome_simps CPUMemoryRegion_delete_def)

lemma collect_counter:
  assumes "collect reg del s = Some (Inr s')"
    and "\<And>p s s'. del p s = Inr s' \<Longrightarrow> f s' = f s"
  shows "f s' = f s"
proof -
  have "r = Inr s' \<longrightarrow> f s' = f s" if "collect reg del s = Some r" for r
  proof (rule collect.raw_induct [where P = "\<lambda>reg' del' s r. reg' = reg \<and> del' = del \<longrightarrow> r = Inr s' \<longrightarrow> f s' = f s", OF _ that,
        THEN mp, OF _ conjI [OF refl refl]])
    fix g :: "('a \<Rightarrow> registry) \<Rightarrow> (addr \<Rightarrow> 'a \<Rightarrow> 'a outcome) \<Rightarrow> 'a \<Rightarrow> 'a outcome option"
      and reg' del' s r
    assume IH: "\<And>reg' del' s r. g reg' del' s = Some r \<Longrightarrow> reg' = reg \<and> del' = del \<longrightarrow> r = Inr s' \<longrightarrow> f s' = f s"
      and eq: "(if reg' s = [] then Some (Inr s)
         else case del' (snd (hd (reg' s))) s of Inl e \<Rightarrow> Some (Inl e) | Inr x \<Rightarrow> g reg' del' x) = Some r"
    show "reg' = reg \<and> del' = del \<longrightarrow> r = Inr s' \<longrightarrow> f s' = f s"
      using eq IH assms(2) by (auto split: if_splits sum.splits)
  qed
  with assms(1) show ?thesis by blast
qed

lemma Runtime_delete_counter:
  assumes "Runtime_delete H code s = Some (Inr s')"
  shows "ReferenceCounter s' = ReferenceCounter s"
proof -
  from assms obtain s1 s2 s3 s4 s5 where steps: "delete_agents code (RtAgents s) s = Some (Inr s1)"
    "Queue_garbageCollect (s1\<lparr>RtAgents := []\<rparr>) = Inr s2"
    "collect CodeRegistry (DLFinalizedProgram_delete H) s2 = Some (Inr s3)"
    "collect ProgramRegistry (HSAILProgram_delete H) s3 = Some (Inr s4)"
    "delete_regions (MemoryRegions s4) s4 = Inr s5" "s' = s5\<lparr>MemoryRegions := []\<rparr>"
    by (auto simp: Runtime_delete_def proceed_def split: option.splits sum.splits)
  have "ReferenceCounter s2 = ReferenceCounter s1"
    using steps(2) by (auto simp: Queue_garbageCollect_def outcome_simps dest!: delete_queues_counter)
  moreover have "ReferenceCounter s3 = ReferenceCounter s2"
    using collect_counter [OF steps(3), of ReferenceCounter] code_delete_counter by blast
  moreover have "ReferenceCounter s4 = ReferenceCounter s3"
    using collect_counter [OF steps(4), of ReferenceCounter] program_delete_counter by blast
  ultimately show ?thesis using steps(1,5,6) by (simp add: delete_agents_counter delete_regions_counter)
qed

section \<open>Histories\<close>

text \<open>
  A history of the process: initialisations and shut-downs, in any order and with any outcome that returns,
  and between them calls that leave the counter and the instance alone, as every other entry point does
  (shown in \<open>Api_Calls\<close>).
\<close>

inductive lifecycle ::
  "host \<Rightarrow> kernel_code \<Rightarrow> (string \<Rightarrow> u64) \<Rightarrow> 'm program_state_scheme \<Rightarrow> 'm program_state_scheme \<Rightarrow> bool"
  for H code hash where
    start: "lifecycle H code hash s s"
  | initialise: "lifecycle H code hash s s1 \<Longrightarrow> hsa_init hash s1 = Inr (st, s2) \<Longrightarrow> lifecycle H code hash s s2"
  | shut: "lifecycle H code hash s s1 \<Longrightarrow> hsa_shut_down H code s1 = Some (Inr (st, s2)) \<Longrightarrow> lifecycle H code hash s s2"
  | others: "lifecycle H code hash s s1 \<Longrightarrow> ReferenceCounter s2 = ReferenceCounter s1 \<Longrightarrow> Instance s2 = Instance s1 \<Longrightarrow>
      lifecycle H code hash s s2"

definition counter_inv :: "'m base_state_scheme \<Rightarrow> bool" where
  "counter_inv s \<longleftrightarrow> unat (ReferenceCounter s) < 2 ^ 31 \<and> (Instance s \<noteq> nullptr \<longleftrightarrow> ReferenceCounter s \<noteq> 0)"

lemma hsa_init_keeps:
  assumes "counter_inv s" and "hsa_init hash s = Inr (st, s')"
  shows "counter_inv s'"
  using assms counter_up [of "ReferenceCounter s"]
  by (auto simp: hsa_init_def Runtime_initialize_def counter_inv_def outcome_simps split: if_splits
      dest!: CPURuntime_new_counter)

lemma hsa_shut_down_keeps:
  assumes "counter_inv s" and "hsa_shut_down H code s = Some (Inr (st, s'))"
  shows "counter_inv s'"
proof -
  let ?c = "ReferenceCounter s"
  consider "?c = 0" | "?c = 1" | "?c \<noteq> 0" "?c \<noteq> 1" by blast
  then show ?thesis
  proof cases
    case 1
    then show ?thesis using assms by (auto simp: hsa_shut_down_def Runtime_release_def)
  next
    case 2
    with assms(2) obtain s1 where s1: "Runtime_delete H code s = Some (Inr s1)"
      "s' = s1\<lparr>Instance := nullptr, Extensions := [], ReferenceCounter := ReferenceCounter s1 - 1\<rparr>"
      by (auto simp: hsa_shut_down_def Runtime_release_def proceed_def split: option.splits sum.splits if_splits)
    then show ?thesis using Runtime_delete_counter [OF s1(1)] 2 by (simp add: counter_inv_def)
  next
    case 3
    then show ?thesis using assms counter_down [of ?c]
      by (auto simp: hsa_shut_down_def Runtime_release_def counter_inv_def)
  qed
qed

lemma lifecycle_inv: "lifecycle H code hash s s' \<Longrightarrow> counter_inv s \<Longrightarrow> counter_inv s'"
proof (induction rule: lifecycle.induct)
  case (others s s1 s2)
  then show ?case by (simp add: counter_inv_def)
qed (auto intro: hsa_init_keeps hsa_shut_down_keeps)

section \<open>Properties\<close>

text \<open>
  However often the process initialises and shuts down the runtime, and whatever the calls return,
  the runtime counts as initialised exactly when the instance exists, so the assertion of
  \<open>Runtime::get\<close> never fails behind the check that the entry points make first; the counter never
  becomes negative.
\<close>

theorem runtime_exists_while_initialized:
  assumes "lifecycle H code hash s s'" and "ReferenceCounter s = 0" and "Instance s = nullptr"
  shows "(isInitialized s' \<longleftrightarrow> Instance s' \<noteq> nullptr) \<and> unat (ReferenceCounter s') < 2 ^ 31 \<and>
    (isInitialized s' \<longrightarrow> Runtime_get s' = Inr (Instance s'))"
proof -
  have "counter_inv s" using assms by (simp add: counter_inv_def)
  with assms(1) have "counter_inv s'" by (rule lifecycle_inv)
  then show ?thesis by (simp add: counter_inv_def isInitialized_def sint_positive Runtime_get_def)
qed

text \<open>A process that has not called the runtime yet, with addresses for the objects to come.\<close>

definition fresh_process :: program_state where
  "fresh_process = code_demo\<lparr>ReferenceCounter := 0, Instance := nullptr, HostHeap := [0x10, 0x20, 0x30, 0x40, 0x50],
     AgentRegistry := [], KernelAgents := Map.empty, RtAgents := [], MemoryRegions := [], Extensions := []\<rparr>"

lemma fresh_process_init:
  "\<exists>s'. hsa_init hash fresh_process = Inr (HSA_STATUS_SUCCESS, s')"
  by (simp add: hsa_init_def Runtime_initialize_def fresh_process_def code_demo_def program_demo_def CPURuntime_new_def
      operator_new_def host_malloc_def CPUMemoryRegion_new_def CPUKernelAgent_new_def GCCFinalizer_new_def update_agent_def
      deref_Some Runtime_registerAgent_def Runtime_registerMemoryRegion_def registerISA_def registerExtension_def Let_def)

theorem runtime_exists_while_initialized_witness:
  "\<forall>H code hash. \<exists>s'. hsa_init hash fresh_process = Inr (HSA_STATUS_SUCCESS, s') \<and>
    (isInitialized s' \<longleftrightarrow> Instance s' \<noteq> nullptr)"
proof (intro allI)
  fix H :: host and code :: kernel_code and hash :: "string \<Rightarrow> u64"
  obtain s' where s': "hsa_init hash fresh_process = Inr (HSA_STATUS_SUCCESS, s')" using fresh_process_init by blast
  then have "lifecycle H code hash fresh_process s'" using lifecycle.initialise lifecycle.start by blast
  from runtime_exists_while_initialized [OF this] s'
  show "\<exists>s'. hsa_init hash fresh_process = Inr (HSA_STATUS_SUCCESS, s') \<and> (isInitialized s' \<longleftrightarrow> Instance s' \<noteq> nullptr)"
    by (simp add: fresh_process_def)
qed

text \<open>
  While the runtime is initialised a further \<open>hsa_init\<close> only counts, and the matching
  \<open>hsa_shut_down\<close> restores the process exactly; at \<open>INT32_MAX\<close> the initialisation is refused. A shut-down
  without initialisation is refused. Neither refusal changes anything.
\<close>

theorem init_shut_down_counts:
  assumes "isInitialized s"
  shows "hsa_init hash s = Inr (if ReferenceCounter s = 0x7FFFFFFF then (HSA_STATUS_ERROR_REFCOUNT_OVERFLOW, s)
      else (HSA_STATUS_SUCCESS, s\<lparr>ReferenceCounter := ReferenceCounter s + 1\<rparr>)) \<and>
    (ReferenceCounter s \<noteq> 0x7FFFFFFF \<longrightarrow>
      hsa_shut_down H code (s\<lparr>ReferenceCounter := ReferenceCounter s + 1\<rparr>) = Some (Inr (HSA_STATUS_SUCCESS, s))) \<and>
    hsa_shut_down H code (s\<lparr>ReferenceCounter := 0\<rparr>) =
      Some (Inr (HSA_STATUS_ERROR_NOT_INITIALIZED, s\<lparr>ReferenceCounter := 0\<rparr>))"
proof -
  let ?c = "ReferenceCounter s"
  have c: "0 < sint ?c" using assms by (simp add: isInitialized_def)
  then have "?c \<noteq> 0" "?c \<noteq> -1" by auto
  then have "?c + 1 \<noteq> 0" "?c + 1 \<noteq> 1" by (simp_all add: add_eq_0_iff2)
  with \<open>?c \<noteq> 0\<close> show ?thesis
    by (simp add: hsa_init_def Runtime_initialize_def hsa_shut_down_def Runtime_release_def)
qed

theorem init_shut_down_counts_witness:
  "\<forall>H code hash. hsa_init hash code_demo = Inr (HSA_STATUS_SUCCESS, code_demo\<lparr>ReferenceCounter := 2\<rparr>) \<and>
    hsa_shut_down H code (code_demo\<lparr>ReferenceCounter := 2\<rparr>) = Some (Inr (HSA_STATUS_SUCCESS, code_demo))"
proof (intro allI)
  fix H :: host and code :: kernel_code and hash :: "string \<Rightarrow> u64"
  have "ReferenceCounter code_demo = 1" by (simp add: code_demo_def program_demo_def)
  with init_shut_down_counts [OF code_demo_facts(1), of hash H code]
  show "hsa_init hash code_demo = Inr (HSA_STATUS_SUCCESS, code_demo\<lparr>ReferenceCounter := 2\<rparr>) \<and>
    hsa_shut_down H code (code_demo\<lparr>ReferenceCounter := 2\<rparr>) = Some (Inr (HSA_STATUS_SUCCESS, code_demo))"
    by simp
qed

text \<open>
  C35. The first \<open>hsa_init\<close> builds the platform of one CPU agent with a global and a group region: the
  iterations yield the agent and then its two regions, the regions report their segments, the agent's
  instruction set is found under the hash of its name, and the finalizer extension is there. Kernels get
  their group memory from the group region, new queues their buffers from the global one.
\<close>

theorem init_builds_platform:
  assumes "ReferenceCounter s = 0" and "HostHeap s = [r, g, a, m, f] @ ps" and "nullptr \<notin> {r, g, a, m, f}"
    and "g \<noteq> m" and "out \<noteq> nullptr"
  shows "\<exists>s' A. hsa_init hash s = Inr (HSA_STATUS_SUCCESS, s') \<and> isInitialized s' \<and> Runtime_get s' = Inr r \<and>
    hsa_iterate_agents s' (Some callback) d = Inr (iterate_callback callback [a] d) \<and>
    hsa_agent_iterate_regions s' a (Some callback) d = Inr (iterate_callback callback [g, m] d) \<and>
    hsa_region_get_info s' g HSA_REGION_INFO_SEGMENT out =
      Inr (HSA_STATUS_SUCCESS, Some (F_u32 (hsa_region_segment_t_value HSA_REGION_SEGMENT_GLOBAL))) \<and>
    hsa_region_get_info s' m HSA_REGION_INFO_SEGMENT out =
      Inr (HSA_STATUS_SUCCESS, Some (F_u32 (hsa_region_segment_t_value HSA_REGION_SEGMENT_GROUP))) \<and>
    hsa_agent_get_info hash mode s' a HSA_AGENT_INFO_ISA out = Inr (HSA_STATUS_SUCCESS, Some (F_u64 (hash ''host-isa''))) \<and>
    ISA_fromHSAObject (hash ''host-isa'') s' = (''host-isa'', s') \<and> getFinalizer s' = Inr f \<and>
    KernelAgents s' a = Some A \<and> QueueRegion A = g \<and> GroupMemoryRegion A = m \<and> getQueues A = []"
proof -
  obtain s' where s': "hsa_init hash s = Inr (HSA_STATUS_SUCCESS, s')" "ReferenceCounter s' = 1" "Instance s' = r"
    "RtAgents s' = [a]" "KernelAgents s' a = Some \<lparr>AgentQueues = [], AgentRegions = [g, m], KernargRegion = nullptr,
        UMQRegion = nullptr, GroupMemoryRegion = m, QueueRegion = g, AgentISA = ''host-isa'', RunningQueue = nullptr,
        InterruptingTheQueue = False\<rparr>"
    "fromHSAObject (AgentRegistry s') a = a" "HashToISAMap s' (hash ''host-isa'') = Some ''host-isa''"
    "fromHSAObject (RegionRegistry s') g = g" "fromHSAObject (RegionRegistry s') m = m"
    "CPURegions s' g = Some \<lparr>CPURegionSegment = HSA_REGION_SEGMENT_GLOBAL, CPUAllocations = {}\<rparr>"
    "CPURegions s' m = Some \<lparr>CPURegionSegment = HSA_REGION_SEGMENT_GROUP, CPUAllocations = {}\<rparr>"
    "Extensions s' = [(HSA_EXTENSION_FINALIZER, \<lparr>ext_version = \<lparr>Major = 1, Minor = 0\<rparr>, ext_object = f\<rparr>)]"
    using assms
    by (simp add: hsa_init_def Runtime_initialize_def CPURuntime_new_def operator_new_def host_malloc_def
        CPUMemoryRegion_new_def CPUKernelAgent_new_def GCCFinalizer_new_def update_agent_def deref_Some
        Runtime_registerAgent_def Runtime_registerMemoryRegion_def registerISA_def ISA_toHSAObject_def
        registerExtension_def Let_def setGroupMemoryRegion_def Agent_registerMemoryRegion_def om.find_enter)
  then have "isInitialized s'" by (simp add: isInitialized_def)
  with s' assms(3,5) show ?thesis
    by (simp add: hsa_iterate_agents_def hsa_agent_iterate_regions_def Runtime_get_def deref_Some hsa_region_get_info_def
        region_attribute_def CPUMemoryRegion_getRegion_def hsa_agent_get_info_def agent_attribute_def getISA_def
        ISA_toHSAObject_def ISA_fromHSAObject_def getFinalizer_def getQueues_def)
qed

theorem init_builds_platform_witness:
  "\<forall>hash. \<exists>s'. hsa_init hash fresh_process = Inr (HSA_STATUS_SUCCESS, s') \<and>
    hsa_iterate_agents s' (Some (\<lambda>h hs. (HSA_STATUS_SUCCESS, h # hs))) [] = Inr (HSA_STATUS_SUCCESS, [0x30]) \<and>
    hsa_agent_iterate_regions s' 0x30 (Some (\<lambda>h hs. (HSA_STATUS_SUCCESS, h # hs))) [] =
      Inr (HSA_STATUS_SUCCESS, [0x40, 0x20])"
proof
  fix hash :: "string \<Rightarrow> u64"
  have "HostHeap fresh_process = [0x10, 0x20, 0x30, 0x40, 0x50] @ []" "ReferenceCounter fresh_process = 0"
    by (simp_all add: fresh_process_def)
  from init_builds_platform [OF this(2,1), of 8 hash "\<lambda>h hs. (HSA_STATUS_SUCCESS, h # hs)" "[]"]
  show "\<exists>s'. hsa_init hash fresh_process = Inr (HSA_STATUS_SUCCESS, s') \<and>
    hsa_iterate_agents s' (Some (\<lambda>h hs. (HSA_STATUS_SUCCESS, h # hs))) [] = Inr (HSA_STATUS_SUCCESS, [0x30]) \<and>
    hsa_agent_iterate_regions s' 0x30 (Some (\<lambda>h hs. (HSA_STATUS_SUCCESS, h # hs))) [] =
      Inr (HSA_STATUS_SUCCESS, [0x40, 0x20])"
    by (simp add: Let_def) blast
qed

text \<open>
  From a state that is ready for the destruction the last \<open>hsa_shut_down\<close> returns: the worker is stopped, the
  collections of queues, code objects and programs end, and afterwards no handle to an agent, queue, code object,
  program or region is left. The executables are not collected: they stay registered, with what they held.
\<close>

lemma last_shut_down_releases:
  assumes "shutdown_ready s" and "ReferenceCounter s = 1"
  shows "\<exists>s'. hsa_shut_down H code s = Some (Inr (HSA_STATUS_SUCCESS, s')) \<and> ReferenceCounter s' = 0 \<and>
    Instance s' = nullptr \<and> no_handles s' \<and> getFinalizer s' = Inl Assertion_Failure \<and>
    ExecutableRegistry s' = ExecutableRegistry s \<and> Executables s' = Executables s"
proof -
  obtain s1 where s1: "Runtime_delete H code s = Some (Inr s1)" "no_handles s1" "ReferenceCounter s1 = ReferenceCounter s"
    "ExecutableRegistry s1 = ExecutableRegistry s" "Executables s1 = Executables s"
    using Runtime_delete_ends [OF assms(1)] by blast
  then show ?thesis using assms(2)
    by (simp add: hsa_shut_down_def Runtime_release_def isInitialized_def no_handles_def getFinalizer_def Runtime_get_def)
qed

text \<open>The example process with its agent, its regions, a program, two code objects and an executable.\<close>

definition running_process :: program_state where
  "running_process = code_demo\<lparr>RegionRegistry := [(0x100, 0x100), (0x110, 0x110)],
     CPURegions := [0x100 \<mapsto> \<lparr>CPURegionSegment = HSA_REGION_SEGMENT_GLOBAL, CPUAllocations = {}\<rparr>,
       0x110 \<mapsto> \<lparr>CPURegionSegment = HSA_REGION_SEGMENT_GROUP, CPUAllocations = {}\<rparr>]\<rparr>"

lemma running_process_ready: "shutdown_ready running_process"
  by (simp add: shutdown_ready_def running_process_def code_demo_def program_demo_def all_alive_def wf_registry_def
      objects_of_def signals_apart_def code_ok_def programs_ok_def demo_code_object_def symbols_alive_def)

end
