(* ===== verification/Finalize_Claims.thy ===== *)
theory Finalize_Claims
  imports Runtime_Shutdown Code_Claims
begin

text \<open>
  Properties of the finalization: from the modules of a program through the compiler to a code object, the
  verdict on the control directives, and what the destruction of a code object removes.
\<close>

section \<open>The files of the modules\<close>

definition brig_paths :: "string \<Rightarrow> string list \<Rightarrow> string list" where
  "brig_paths d ns = map (\<lambda>n. d @ ''/'' @ n @ ''.brig'') ns"

lemma brig_paths_simps [simp]:
  "brig_paths d [] = []" "brig_paths d (n # ns) = (d @ ''/'' @ n @ ''.brig'') # brig_paths d ns"
  "length (brig_paths d ns) = length ns" "brig_paths d ns = [] \<longleftrightarrow> ns = []"
  by (simp_all add: brig_paths_def)

lemma dump_modules_eq:
  assumes "FreshNames s = ns @ rest" and "length ns = length ms" and "list_all (can_open H) (brig_paths d ns)"
    and "this \<noteq> nullptr" and "HSAILPrograms s this = Some P"
  shows "dump_modules H d this ms Paths s = Inr (True, Paths @ brig_paths d ns,
    s\<lparr>FreshNames := rest, Files := (Files s)(brig_paths d ns [\<mapsto>] map (module_bytes (Memory s)) ms),
      HSAILPrograms := (HSAILPrograms s)(this \<mapsto> P\<lparr>TempFiles := TempFiles P @ brig_paths d ns\<rparr>)\<rparr>)"
  using assms
proof (induction ms arbitrary: ns Paths s P)
  case Nil
  then show ?case by (simp add: fun_upd_idem)
next
  case (Cons m ms)
  then obtain n ns' where ns: "ns = n # ns'" by (cases ns) auto
  let ?path = "d @ ''/'' @ n @ ''.brig''" and ?P = "addTempFile (d @ ''/'' @ n @ ''.brig'') P"
  let ?s = "s\<lparr>FreshNames := ns' @ rest, Files := (Files s)(?path \<mapsto> module_bytes (Memory s) m),
    HSAILPrograms := (HSAILPrograms s)(this \<mapsto> ?P)\<rparr>"
  have "dump_modules H d this (m # ms) Paths s = dump_modules H d this ms (Paths @ [?path]) ?s"
    using Cons.prems by (simp add: ns fresh_name_def update_program_def deref_Some Let_def)
  also have "\<dots> = Inr (True, (Paths @ [?path]) @ brig_paths d ns', ?s\<lparr>FreshNames := rest,
      Files := (Files ?s)(brig_paths d ns' [\<mapsto>] map (module_bytes (Memory ?s)) ms),
      HSAILPrograms := (HSAILPrograms ?s)(this \<mapsto> ?P\<lparr>TempFiles := TempFiles ?P @ brig_paths d ns'\<rparr>)\<rparr>)"
    by (rule Cons.IH) (use Cons.prems ns in simp_all)
  finally show ?case by (simp add: ns addTempFile_def) (simp add: fun_upd_def)
qed

section \<open>The compiler's run\<close>

text \<open>
  What the environment grants a finalization of the program \<open>P\<close>: the compiler is taken from the search
  path, the directory \<open>d\<close> is named by the environment, there are names \<open>ns\<close> for the modules' files and
  these can be opened.
\<close>

definition workplace :: "host \<Rightarrow> string \<Rightarrow> string list \<Rightarrow> bool" where
  "workplace H d ns \<longleftrightarrow> getenv H ''PHSA_GCCBRIG_BUILD_DIR'' = None \<and> getenv H ''PHSA_COMPILER_TEMP_DIR'' = Some d \<and>
     list_all (can_open H) (brig_paths d ns)"

text \<open>What the command gets: the modules' bytes in their files, in their order.\<close>

definition compiler_input :: "string \<Rightarrow> string list \<Rightarrow> HSAILProgram \<Rightarrow> 'm program_state_scheme \<Rightarrow> (string \<rightharpoonup> u8 list)" where
  "compiler_input d ns P s = (Files s)(brig_paths d ns [\<mapsto>] map (module_bytes (Memory s)) (BRIGs P))"

definition compiler_output :: "string \<Rightarrow> string list \<Rightarrow> string" where
  "compiler_output d ns = last (brig_paths d ns) @ ''.so''"

definition compiler_run ::
  "host \<Rightarrow> bool \<Rightarrow> string \<Rightarrow> string list \<Rightarrow> string option \<Rightarrow> HSAILProgram \<Rightarrow> 'm program_state_scheme \<Rightarrow>
   i32 \<times> (string \<rightharpoonup> u8 list)" where
  "compiler_run H debug d ns options P s =
     run_command H (compile_command H debug (brig_paths d ns) (compiler_output d ns) options) (compiler_input d ns P s)"

lemma IsDebugMode_again:
  assumes "IsDebugMode H s = (b, s')" shows "IsDebugMode H s' = (b, s')"
proof (cases "DebugMode s = 0")
  case True
  then have eq: "IsDebugMode H s = (if getenv H ''PHSA_DEBUG_MODE'' = Some ''1'' then (True, s\<lparr>DebugMode := 1\<rparr>)
      else (False, s\<lparr>DebugMode := 2\<rparr>))" unfolding IsDebugMode_def by (simp only: zero_neq_one refl if_False if_True)
  show ?thesis
  proof (cases "getenv H ''PHSA_DEBUG_MODE'' = Some ''1''")
    case True
    then have "b = True" "s' = s\<lparr>DebugMode := 1\<rparr>" using assms unfolding eq by simp_all
    then show ?thesis by (simp only:) (simp add: IsDebugMode_def)
  next
    case False
    then have "b = False" "s' = s\<lparr>DebugMode := 2\<rparr>" using assms unfolding eq by simp_all
    then show ?thesis by (simp only:) (simp add: IsDebugMode_def)
  qed
next
  case False
  then have "s' = s" using assms by (simp add: IsDebugMode_def split: if_split_asm)
  with assms show ?thesis by simp
qed

lemma finalizeProgram_compiles:
  assumes "workplace H d ns" and "fromHSAObject (ProgramRegistry s) program = p" and "p \<noteq> nullptr"
    and "HSAILPrograms s p = Some P" and "BRIGs P \<noteq> []" and "length ns = length (BRIGs P)" and "FreshNames s = ns @ rest"
    and "compiler_run H (fst (IsDebugMode H s)) d ns options P s = (status, fs)"
  obtains s4 where "GCCFinalizer_finalizeProgram H program CD ISA options s =
      (if command_failed status then Inr (HSA_EXT_STATUS_ERROR_FINALIZATION_FAILED, 0, s4)
       else load_binary H (compiler_output d ns) ISA P CD s4)"
    "Files s4 = fs" "HostHeap s4 = HostHeap s" "CodeRegistry s4 = CodeRegistry s"
    "HSAILPrograms s4 p = Some (P\<lparr>TempFiles := TempFiles P @ brig_paths d ns\<rparr>)" "Memory s4 = Memory s"
proof -
  obtain b m where b': "IsDebugMode H s = (b, s\<lparr>DebugMode := m\<rparr>)" by (rule IsDebugMode_cases)
  define s2 where s2: "s2 = s\<lparr>DebugMode := m\<rparr>"
  have b: "IsDebugMode H s = (b, s2)" by (simp add: b' s2)
  have again: "IsDebugMode H s2 = (b, s2)" using b by (rule IsDebugMode_again)
  have open_all: "list_all (can_open H) (brig_paths d ns)" using assms(1) by (simp add: workplace_def)
  have dump: "dumpBRIGS H d p s2 = Inr (True, brig_paths d ns, s2\<lparr>FreshNames := rest, Files := compiler_input d ns P s,
      HSAILPrograms := (HSAILPrograms s)(p \<mapsto> P\<lparr>TempFiles := TempFiles P @ brig_paths d ns\<rparr>)\<rparr>)"
    using dump_modules_eq [of s2 ns rest "BRIGs P" H d p P "[]"] assms(3-7) open_all
    by (simp add: dumpBRIGS_def again deref_Some) (simp add: s2 deref_Some compiler_input_def)
  show ?thesis
    by (rule that [of "s2\<lparr>FreshNames := rest,
          HSAILPrograms := (HSAILPrograms s)(p \<mapsto> P\<lparr>TempFiles := TempFiles P @ brig_paths d ns\<rparr>), Files := fs\<rparr>"])
      (use assms dump b in \<open>simp_all add: GCCFinalizer_finalizeProgram_def workplace_def deref_Some hasModules_def
          compiler_temp_dir_def compiler_run_def compiler_output_def Let_def s2\<close>)
qed

lemma load_binary_eq:
  assumes "Files s path = Some bs" and "HostHeap s = [b, c] @ hs" and "b \<noteq> nullptr" "c \<noteq> nullptr"
    and "parse_elf H bs = Some ELF" and "check_directives (read_descriptors (elf_sections ELF) []) CD = Inr True"
  shows "\<exists>s'. load_binary H path ISA P CD s = Inr (HSA_STATUS_SUCCESS, c, s') \<and>
    fromHSAObject (CodeRegistry s') c = c \<and> Files s' = Files s \<and> HSAILPrograms s' = HSAILPrograms s \<and>
    FinalizedPrograms s' c = Some \<lparr>ProgSymbols = [], Parent = nullptr, IsValid = True, BinaryFileName = path,
      ELFBlob = bs, FuncDescriptors = read_descriptors (elf_sections ELF) [], CodeMachineModel = MachineModel P,
      CodeProfile = Profile P, CodeRoundingMode = DefaultRoundingMode P, CodeISA = ISA, CodeVersion = e_version ELF,
      Dlhandle = nullptr\<rparr>"
  using assms
  by (simp add: load_binary_def operator_new_def host_malloc_def DLFinalizedProgram_new_def update_code_def deref_Some
      setBinFileName_def loadAndCheckControlDirectives_def om.find_enter)

section \<open>The verdict on the control directives\<close>

text \<open>
  The reference: a maximum that the kernel states must not be below the one demanded, a requirement that
  it states must be the one demanded; 0 states or demands nothing.
\<close>

definition maximum_met :: "'w::len word \<Rightarrow> 'w word \<Rightarrow> bool" where
  "maximum_met stated demanded \<longleftrightarrow> stated = 0 \<or> demanded = 0 \<or> demanded \<le> stated"

definition requirement_met :: "'w::len word \<Rightarrow> 'w word \<Rightarrow> bool" where
  "requirement_met stated demanded \<longleftrightarrow> stated = 0 \<or> demanded = 0 \<or> stated = demanded"

definition requirements_met :: "'w::len word \<times> 'w word \<times> 'w word \<Rightarrow> 'w word \<times> 'w word \<times> 'w word \<Rightarrow> bool" where
  "requirements_met stated demanded \<longleftrightarrow>
     (case (stated, demanded) of ((x, y, z), (x', y', z')) \<Rightarrow>
        requirement_met x x' \<and> requirement_met y y' \<and> requirement_met z z')"

definition directives_met :: "hsa_ext_control_directives_t \<Rightarrow> phsa_descriptor \<Rightarrow> bool" where
  "directives_met CD D \<longleftrightarrow>
     maximum_met (max_dynamic_group_size D) (cd_max_dynamic_group_size CD) \<and>
     maximum_met (max_flat_grid_size D) (cd_max_flat_grid_size CD) \<and>
     maximum_met (max_flat_workgroup_size D) (cd_max_flat_workgroup_size CD) \<and>
     requirements_met (required_grid_size D) (cd_required_grid_size CD) \<and>
     requirements_met (required_workgroup_size D) (cd_required_workgroup_size CD) \<and>
     requirement_met (required_dim D) (cd_required_dim CD)"

lemma handle_maximum: "handle_ctrl_directive (<) f c = None \<longleftrightarrow> \<not> maximum_met f c"
  by (auto simp: handle_ctrl_directive_def maximum_met_def word_gt_0 not_le)

lemma handle_requirement: "handle_ctrl_directive (\<noteq>) f c = None \<longleftrightarrow> \<not> requirement_met f c"
  by (auto simp: handle_ctrl_directive_def requirement_met_def word_gt_0)

lemma handle_requirements: "handle_ctrl_directive3 f c = None \<longleftrightarrow> \<not> requirements_met f c"
  by (cases f; cases c) (auto simp: handle_ctrl_directive3_def requirements_met_def bind_eq_None_conv handle_requirement
      simp flip: handle_requirement)

lemma apply_directives_None: "apply_directives D CD = None \<longleftrightarrow> \<not> directives_met CD D"
  by (auto simp: apply_directives_def directives_met_def bind_eq_None_conv
      simp flip: handle_maximum handle_requirement handle_requirements)

definition whole_descriptor :: "u8 list \<Rightarrow> bool" where
  "whole_descriptor bs \<longleftrightarrow> sizeof_phsa_descriptor \<le> length bs"

lemma whole_descriptor_loads: "whole_descriptor bs \<Longrightarrow> \<exists>D. load_descriptor bs = Inr D"
  by (simp add: whole_descriptor_def load_descriptor_def)

lemma check_directives_eq:
  assumes "list_all (\<lambda>(n, bs). whole_descriptor bs) Ds"
  shows "check_directives Ds CD = Inr (list_all (\<lambda>(n, bs). \<exists>D. load_descriptor bs = Inr D \<and> directives_met CD D) Ds)"
  using assms
proof (induction Ds)
  case (Cons d Ds)
  obtain n bs where d: "d = (n, bs)" by (cases d)
  then obtain D where "load_descriptor bs = Inr D" using Cons.prems whole_descriptor_loads by auto
  with Cons d show ?case by (simp add: apply_directives_None)
qed simp

section \<open>The directory of a binary\<close>

lemma below_remove_filename:
  assumes "CHR ''/'' \<in> set f" shows "below (remove_filename f) f"
proof -
  let ?P = "\<lambda>c. c \<noteq> CHR ''/''"
  have "dropWhile ?P (rev f) \<noteq> []" using assms by (auto simp: dropWhile_eq_Nil_conv)
  then obtain r where r: "dropWhile ?P (rev f) = CHR ''/'' # r"
    by (cases "dropWhile ?P (rev f)") (auto dest: dropWhile_eq_Cons_conv [THEN iffD1])
  have "rev f = takeWhile ?P (rev f) @ CHR ''/'' # r" by (metis r takeWhile_dropWhile_id)
  then have f: "f = rev r @ CHR ''/'' # rev (takeWhile ?P (rev f))" by (metis rev_append rev_rev_ident rev.simps(2) append_assoc append_Cons append_Nil)
  then obtain x where x: "f = rev r @ CHR ''/'' # x" by blast
  have "remove_filename f = (if r = [] then ''/'' else rev r)"
    using assms r by (simp add: remove_filename_def Let_def)
  moreover have "below (if r = [] then ''/'' else rev r) (rev r @ CHR ''/'' # x)" by (simp add: below_def Let_def)
  ultimately show ?thesis by (simp only: x [symmetric])
qed

lemma delete_symbols_keep:
  "delete_symbols Ss s = Inr s' \<Longrightarrow> Files s' = Files s \<and> FinalizedPrograms s' = FinalizedPrograms (s :: 'm program_state_scheme)"
proof (induction Ss arbitrary: s)
  case (Cons S Ss)
  then obtain s1 where "Symbol_delete S s = Inr s1" "delete_symbols Ss s1 = Inr s'" by (auto simp: outcome_simps)
  with Cons.IH show ?case by (auto simp: Symbol_delete_def outcome_simps split: if_splits)
qed simp

lemma code_object_destroy_effect:
  assumes "hsa_code_object_destroy H s c = Inr (st, s')" and "fromHSAObject (CodeRegistry s) c = p" and "p \<noteq> nullptr"
    and "FinalizedPrograms s p = Some P" and "\<not> fst (IsDebugMode H s)"
  shows "Files s' = remove_all (remove_filename (BinaryFileName P)) (Files s)"
    "FinalizedPrograms s' = (FinalizedPrograms s)(p := None)" "st = HSA_STATUS_SUCCESS"
proof -
  let ?s1 = "s\<lparr>CodeRegistry := deregisterObject (CodeRegistry s) p\<rparr>"
  obtain b m where b: "IsDebugMode H ?s1 = (b, ?s1\<lparr>DebugMode := m\<rparr>)" by (rule IsDebugMode_cases)
  have "fst (IsDebugMode H ?s1) = fst (IsDebugMode H s)" by (simp add: IsDebugMode_def)
  then have "\<not> b" using assms(5) by (simp add: b)
  then obtain s4 where s4: "delete_symbols (ProgSymbols P)
      (?s1\<lparr>DebugMode := m, Files := remove_all (remove_filename (BinaryFileName P)) (Files s)\<rparr>) = Inr s4"
    "s' = s4\<lparr>FinalizedPrograms := (FinalizedPrograms s4)(p := None), CodeRegistry := destroyMapping (CodeRegistry s4) p\<rparr>"
    "st = HSA_STATUS_SUCCESS"
    using assms(1-4) b
    by (auto simp: hsa_code_object_destroy_def DLFinalizedProgram_delete_def deref_Some Let_def outcome_simps)
  from delete_symbols_keep [OF s4(1)] s4(2,3)
  show "Files s' = remove_all (remove_filename (BinaryFileName P)) (Files s)"
    "FinalizedPrograms s' = (FinalizedPrograms s)(p := None)" "st = HSA_STATUS_SUCCESS" by simp_all
qed

section \<open>Properties\<close>

text \<open>
  C37. When the compiler's command ends with the exit status 0, a finalization yields a new code object whose
  image is the file that the command has left behind the name of the last module's file, with the profile,
  the machine model and the rounding mode of the program. The command finds the bytes of every module in
  its file, and the program remembers these files. The exit status is all that counts: in the witness
  the compiler is killed by a signal and what it has written so far becomes the code object.
\<close>

theorem finalize_yields_binary:
  assumes "isInitialized s" and "HashToISAMap s isa = Some I" and "I \<noteq> []"
    and "getFinalizer s = Inr F" and "F \<noteq> nullptr" and "program \<noteq> 0" and "code_object \<noteq> nullptr"
    and "workplace H d ns" and "fromHSAObject (ProgramRegistry s) program = p" and "p \<noteq> nullptr"
    and "HSAILPrograms s p = Some P" and "BRIGs P \<noteq> []" and "length ns = length (BRIGs P)" and "FreshNames s = ns @ rest"
    and "compiler_run H (fst (IsDebugMode H s)) d ns options P s = (status, fs)"
    and "status \<noteq> -1" and "WEXITSTATUS status = 0" and "fs (compiler_output d ns) = Some bs"
    and "HostHeap s = [b, c] @ hs" and "b \<noteq> nullptr" "c \<noteq> nullptr" and "parse_elf H bs = Some ELF"
    and "list_all (\<lambda>(n, bs). whole_descriptor bs) (read_descriptors (elf_sections ELF) [])"
    and "list_all (\<lambda>(n, bs). \<exists>D. load_descriptor bs = Inr D \<and> directives_met CD D) (read_descriptors (elf_sections ELF) [])"
  shows "\<exists>s'. hsa_ext_program_finalize H s program isa cc CD options ty code_object =
      Inr (HSA_STATUS_SUCCESS, Some c, s') \<and>
    fromHSAObject (CodeRegistry s') c = c \<and> Files s' = fs \<and>
    FinalizedPrograms s' c = Some \<lparr>ProgSymbols = [], Parent = nullptr, IsValid = True,
      BinaryFileName = compiler_output d ns, ELFBlob = bs, FuncDescriptors = read_descriptors (elf_sections ELF) [],
      CodeMachineModel = MachineModel P, CodeProfile = Profile P, CodeRoundingMode = DefaultRoundingMode P,
      CodeISA = isa, CodeVersion = e_version ELF, Dlhandle = nullptr\<rparr> \<and>
    HSAILPrograms s' p = Some (P\<lparr>TempFiles := TempFiles P @ brig_paths d ns\<rparr>)"
proof -
  have ok: "\<not> command_failed status" using assms(16,17) by (simp add: command_failed_def)
  obtain s4 where s4: "GCCFinalizer_finalizeProgram H program CD isa options s = load_binary H (compiler_output d ns) isa P CD s4"
    "Files s4 = fs" "HostHeap s4 = HostHeap s" "HSAILPrograms s4 p = Some (P\<lparr>TempFiles := TempFiles P @ brig_paths d ns\<rparr>)"
    using finalizeProgram_compiles [OF assms(8-15), of CD isa] ok by (metis (full_types))
  have "check_directives (read_descriptors (elf_sections ELF) []) CD = Inr True"
    using check_directives_eq [OF assms(23), of CD] assms(24) by simp
  from load_binary_eq [OF _ _ assms(20-22) this, of s4 "compiler_output d ns" hs isa P] s4 assms(18,19)
  obtain s' where s': "load_binary H (compiler_output d ns) isa P CD s4 = Inr (HSA_STATUS_SUCCESS, c, s')"
    "fromHSAObject (CodeRegistry s') c = c" "Files s' = fs" "HSAILPrograms s' = HSAILPrograms s4"
    "FinalizedPrograms s' c = Some \<lparr>ProgSymbols = [], Parent = nullptr, IsValid = True,
      BinaryFileName = compiler_output d ns, ELFBlob = bs, FuncDescriptors = read_descriptors (elf_sections ELF) [],
      CodeMachineModel = MachineModel P, CodeProfile = Profile P, CodeRoundingMode = DefaultRoundingMode P,
      CodeISA = isa, CodeVersion = e_version ELF, Dlhandle = nullptr\<rparr>" by auto
  have "ISA_fromHSAObject isa s = (I, s)" using assms(2) by (simp add: ISA_fromHSAObject_def)
  then have "hsa_ext_program_finalize H s program isa cc CD options ty code_object = Inr (HSA_STATUS_SUCCESS, Some c, s')"
    using assms(1,3-7) s'(1) s4(1) by (simp add: hsa_ext_program_finalize_def with_finalizer_def)
  with s' s4(4) show ?thesis by (intro exI [of _ s']) simp
qed

text \<open>The compiler is killed by signal 11 after it has written the output.\<close>

definition killed_host :: host where
  "killed_host = demo_host\<lparr>getenv := (\<lambda>n. if n = ''PHSA_COMPILER_TEMP_DIR'' then Some ''/w'' else None),
     run_command := (\<lambda>c fs. (11, fs(''/w/a.brig.so'' \<mapsto> demo_blob)))\<rparr>"

definition no_directives :: hsa_ext_control_directives_t where
  "no_directives = \<lparr>cd_max_dynamic_group_size = 0, cd_max_flat_grid_size = 0, cd_max_flat_workgroup_size = 0,
     cd_required_grid_size = (0, 0, 0), cd_required_workgroup_size = (0, 0, 0), cd_required_dim = 0\<rparr>"

lemma no_directives_met: "directives_met no_directives D"
  by (cases "required_grid_size D"; cases "required_workgroup_size D")
    (simp add: directives_met_def no_directives_def maximum_met_def requirement_met_def requirements_met_def)

lemma demo_descriptors: "read_descriptors (elf_sections demo_elf) [] = [(''k'', demo_descriptor)]" "whole_descriptor demo_descriptor"
  by (simp_all add: demo_elf_def PHSA_DESC_SECTION_PREFIX_def whole_descriptor_def demo_descriptor_def sizeof_phsa_descriptor_def)

theorem finalize_yields_binary_witness:
  "\<exists>s' Prog. hsa_ext_program_finalize killed_host code_demo 0x400 7 0 no_directives None 0 8 =
      Inr (HSA_STATUS_SUCCESS, Some 0x508, s') \<and>
    FinalizedPrograms s' 0x508 = Some Prog \<and> ELFBlob Prog = demo_blob \<and> BinaryFileName Prog = ''/w/a.brig.so''"
proof -
  have facts: "isInitialized code_demo" "HashToISAMap code_demo 7 = Some ''host-isa''" "getFinalizer code_demo = Inr 0x300"
    "fromHSAObject (ProgramRegistry code_demo) 0x400 = 0x400" "HSAILPrograms code_demo 0x400 = Some demo_program"
    "FreshNames code_demo = [''a''] @ [''b'', ''c'']" "HostHeap code_demo = [0x500, 0x508] @ [0x510]"
    by (simp_all add: code_demo_def program_demo_def isInitialized_def getFinalizer_def Runtime_get_def fromHSAObject_def
        HSA_EXTENSION_FINALIZER_def)
  have place: "workplace killed_host ''/w'' [''a'']" by (simp add: workplace_def killed_host_def demo_host_def)
  have run: "compiler_run killed_host (fst (IsDebugMode killed_host code_demo)) ''/w'' [''a''] None demo_program code_demo =
      (11, (compiler_input ''/w'' [''a''] demo_program code_demo)(''/w/a.brig.so'' \<mapsto> demo_blob))"
    by (simp add: compiler_run_def killed_host_def)
  have elf: "parse_elf killed_host demo_blob = Some demo_elf" by (simp add: killed_host_def demo_host_def)
  obtain D where "load_descriptor demo_descriptor = Inr D" using whole_descriptor_loads demo_descriptors(2) by blast
  then have met: "list_all (\<lambda>(n, bs). whole_descriptor bs) (read_descriptors (elf_sections demo_elf) [])"
    "list_all (\<lambda>(n, bs). \<exists>D. load_descriptor bs = Inr D \<and> directives_met no_directives D)
      (read_descriptors (elf_sections demo_elf) [])"
    by (simp_all add: demo_descriptors no_directives_met)
  have out: "compiler_output ''/w'' [''a''] = ''/w/a.brig.so''" "BRIGs demo_program \<noteq> []"
    "length [''a''] = length (BRIGs demo_program)" "WEXITSTATUS 11 = 0"
    by (simp_all add: compiler_output_def demo_program_def WEXITSTATUS_def)
  note result = finalize_yields_binary [OF facts(1,2) _ facts(3) _ _ _ place facts(4) _ facts(5) out(2,3) facts(6) run _ out(4)
        _ facts(7) _ _ elf met, where code_object = 8 and cc = 0 and ty = 0, unfolded out(1), simplified]
  then obtain s' where s': "hsa_ext_program_finalize killed_host code_demo 0x400 7 0 no_directives None 0 8 =
      Inr (HSA_STATUS_SUCCESS, Some 0x508, s')"
    "FinalizedPrograms s' 0x508 = Some \<lparr>ProgSymbols = [], Parent = nullptr, IsValid = True,
      BinaryFileName = ''/w/a.brig.so'', ELFBlob = demo_blob, FuncDescriptors = read_descriptors (elf_sections demo_elf) [],
      CodeMachineModel = MachineModel demo_program, CodeProfile = Profile demo_program,
      CodeRoundingMode = DefaultRoundingMode demo_program, CodeISA = 7, CodeVersion = e_version demo_elf, Dlhandle = nullptr\<rparr>"
    by (elim exE conjE) (rule that)
  then show ?thesis by (intro exI [of _ s']) simp
qed

text \<open>
  C38. The control directives are accepted exactly when every function of the code object agrees with each
  of them: its maxima are 0 or not below the demanded ones, its requirements 0 or equal to them.
\<close>

theorem control_directives_verdict:
  assumes "list_all (\<lambda>(n, bs). whole_descriptor bs) (FuncDescriptors P)"
  shows "loadAndCheckControlDirectives P CD =
    Inr (\<forall>(n, bs) \<in> set (FuncDescriptors P). \<exists>D. load_descriptor bs = Inr D \<and> directives_met CD D)"
  using check_directives_eq [OF assms, of CD]
  by (simp add: loadAndCheckControlDirectives_def list_all_iff)

theorem control_directives_verdict_witness:
  "loadAndCheckControlDirectives demo_code_object (no_directives\<lparr>cd_max_flat_grid_size := 64\<rparr>) = Inr True \<and>
   loadAndCheckControlDirectives demo_code_object (no_directives\<lparr>cd_max_flat_grid_size := 65\<rparr>) = Inr False"
proof -
  have descs: "FuncDescriptors demo_code_object = [(''k'', demo_descriptor)]" by (simp add: demo_code_object_def)
  then have whole: "list_all (\<lambda>(n, bs). whole_descriptor bs) (FuncDescriptors demo_code_object)"
    by (simp add: demo_descriptors)
  obtain D where D: "load_descriptor demo_descriptor = Inr D" "max_flat_grid_size D = 64"
    by (simp add: load_descriptor_def demo_descriptor_def sizeof_phsa_descriptor_def bytes_at_def bytes_u64_def)
  have "directives_met (no_directives\<lparr>cd_max_flat_grid_size := n\<rparr>) D \<longleftrightarrow> maximum_met 64 n" for n
    using no_directives_met [of D] D(2) by (auto simp: directives_met_def no_directives_def maximum_met_def)
  then show ?thesis
    using control_directives_verdict [OF whole, of "no_directives\<lparr>cd_max_flat_grid_size := 64\<rparr>"]
      control_directives_verdict [OF whole, of "no_directives\<lparr>cd_max_flat_grid_size := 65\<rparr>"]
    by (simp add: descs D(1) maximum_met_def)
qed

text \<open>
  C39. Destroying a code object removes every file of the directory that its binary is in, and nothing
  outside it, unless the debug mode is on. With it goes the binary of any other code object in the same
  directory, whose object stays as it was: when its library has not been loaded yet it cannot be any more.
\<close>

theorem code_object_directory_removed:
  assumes "hsa_code_object_destroy H s c = Inr (st, s')" and "fromHSAObject (CodeRegistry s) c = p" and "p \<noteq> nullptr"
    and "FinalizedPrograms s p = Some P" and "\<not> fst (IsDebugMode H s)"
    and "FinalizedPrograms s q = Some Q" and "q \<noteq> p"
    and "remove_filename (BinaryFileName Q) = remove_filename (BinaryFileName P)" and "CHR ''/'' \<in> set (BinaryFileName Q)"
  shows "st = HSA_STATUS_SUCCESS \<and> FinalizedPrograms s' p = None \<and> FinalizedPrograms s' q = Some Q \<and>
    Files s' (BinaryFileName Q) = None \<and>
    (\<forall>f. \<not> below (remove_filename (BinaryFileName P)) f \<longrightarrow> Files s' f = Files s f)"
  using code_object_destroy_effect [OF assms(1-5)] assms(6,7) below_remove_filename [OF assms(9)] assms(8)
  by (simp add: remove_all_def)

theorem code_object_directory_removed_witness:
  "\<exists>s'. hsa_code_object_destroy demo_host code_demo 0x600 = Inr (HSA_STATUS_SUCCESS, s') \<and>
    FinalizedPrograms s' 0x608 \<noteq> None \<and> Files code_demo ''/tmp/x/q.so'' \<noteq> None \<and> Files s' ''/tmp/x/q.so'' = None"
proof -
  obtain s' where s': "hsa_code_object_destroy demo_host code_demo 0x600 = Inr (HSA_STATUS_SUCCESS, s')"
    using code_demo_facts
    by (simp add: hsa_code_object_destroy_def DLFinalizedProgram_delete_def deref_Some Let_def demo_code_object_def case_prod_beta)
  have other: "FinalizedPrograms code_demo 0x608 = Some (demo_code_object\<lparr>BinaryFileName := ''/tmp/x/q.so''\<rparr>)"
    and debug: "\<not> fst (IsDebugMode demo_host code_demo)" and present: "Files code_demo ''/tmp/x/q.so'' \<noteq> None"
    by (simp_all add: code_demo_def program_demo_def IsDebugMode_def demo_host_def)
  have "remove_filename ''/tmp/x/q.so'' = remove_filename ''/tmp/x/p.so''" by (simp add: remove_filename_def)
  then show ?thesis
    using code_object_directory_removed [OF s' code_demo_facts(2) _ code_demo_facts(3) debug other] s' present
    by (simp add: demo_code_object_def)
qed

end
