(* ===== verification/Amd_Ext.thy ===== *)
theory Amd_Ext
  imports Runtime_Life Program_Claims
begin

text \<open>
  The AMD extension entry points that HCC uses (\<open>src/amd/hsa_ext_amd.cc\<close>), written on top of the HSA
  entry points: memory pools are the regions of an agent under another name, kept in a map from agents to
  pools that is filled at the first use of an agent and never cleared; the "asynchronous" copy waits for
  its dependencies and copies. An entry point that the runtime does not implement aborts the process, and
  so does \<open>HSA_CHECK_STATUS\<close> on a status other than success.
\<close>

section \<open>Constants of \<open>hsa_ext_amd.h\<close>\<close>

datatype (plugins only: code size) hsa_amd_segment_t =
    HSA_AMD_SEGMENT_GLOBAL
  | HSA_AMD_SEGMENT_READONLY
  | HSA_AMD_SEGMENT_PRIVATE
  | HSA_AMD_SEGMENT_GROUP

primrec hsa_amd_segment_t_value :: "hsa_amd_segment_t \<Rightarrow> u32" where
  "hsa_amd_segment_t_value HSA_AMD_SEGMENT_GLOBAL = 0"
| "hsa_amd_segment_t_value HSA_AMD_SEGMENT_READONLY = 1"
| "hsa_amd_segment_t_value HSA_AMD_SEGMENT_PRIVATE = 2"
| "hsa_amd_segment_t_value HSA_AMD_SEGMENT_GROUP = 3"

datatype (plugins only: code size) hsa_amd_memory_pool_global_flag_t =
    HSA_AMD_MEMORY_POOL_GLOBAL_FLAG_KERNARG_INIT
  | HSA_AMD_MEMORY_POOL_GLOBAL_FLAG_FINE_GRAINED
  | HSA_AMD_MEMORY_POOL_GLOBAL_FLAG_COARSE_GRAINED

primrec hsa_amd_memory_pool_global_flag_t_value :: "hsa_amd_memory_pool_global_flag_t \<Rightarrow> u32" where
  "hsa_amd_memory_pool_global_flag_t_value HSA_AMD_MEMORY_POOL_GLOBAL_FLAG_KERNARG_INIT = 1"
| "hsa_amd_memory_pool_global_flag_t_value HSA_AMD_MEMORY_POOL_GLOBAL_FLAG_FINE_GRAINED = 2"
| "hsa_amd_memory_pool_global_flag_t_value HSA_AMD_MEMORY_POOL_GLOBAL_FLAG_COARSE_GRAINED = 4"

datatype (plugins only: code size) hsa_amd_memory_pool_info_t =
    HSA_AMD_MEMORY_POOL_INFO_SEGMENT
  | HSA_AMD_MEMORY_POOL_INFO_GLOBAL_FLAGS
  | HSA_AMD_MEMORY_POOL_INFO_SIZE
  | HSA_AMD_MEMORY_POOL_INFO_RUNTIME_ALLOC_ALLOWED
  | HSA_AMD_MEMORY_POOL_INFO_RUNTIME_ALLOC_GRANULE
  | HSA_AMD_MEMORY_POOL_INFO_RUNTIME_ALLOC_ALIGNMENT
  | HSA_AMD_MEMORY_POOL_INFO_ACCESSIBLE_BY_ALL
  | hsa_amd_memory_pool_info_t_unlisted u32

datatype (plugins only: code size) hsa_amd_memory_pool_access_t =
    HSA_AMD_MEMORY_POOL_ACCESS_NEVER_ALLOWED
  | HSA_AMD_MEMORY_POOL_ACCESS_ALLOWED_BY_DEFAULT
  | HSA_AMD_MEMORY_POOL_ACCESS_DISALLOWED_BY_DEFAULT

primrec hsa_amd_memory_pool_access_t_value :: "hsa_amd_memory_pool_access_t \<Rightarrow> u32" where
  "hsa_amd_memory_pool_access_t_value HSA_AMD_MEMORY_POOL_ACCESS_NEVER_ALLOWED = 0"
| "hsa_amd_memory_pool_access_t_value HSA_AMD_MEMORY_POOL_ACCESS_ALLOWED_BY_DEFAULT = 1"
| "hsa_amd_memory_pool_access_t_value HSA_AMD_MEMORY_POOL_ACCESS_DISALLOWED_BY_DEFAULT = 2"

datatype (plugins only: code size) hsa_amd_agent_memory_pool_info_t =
    HSA_AMD_AGENT_MEMORY_POOL_INFO_ACCESS
  | HSA_AMD_AGENT_MEMORY_POOL_INFO_NUM_LINK_HOPS
  | HSA_AMD_AGENT_MEMORY_POOL_INFO_LINK_INFO
  | hsa_amd_agent_memory_pool_info_t_unlisted u32

section \<open>The pools of an agent\<close>

text \<open>
  The static map \<open>agents\<close>: for an agent's handle the handles of its pools. The pool objects are only
  read through their handle, so a pool is its handle.
\<close>

record amd_state = program_state +
  AmdAgents :: "u64 \<rightharpoonup> u64 list"

text \<open>
  The callback's data is the pools so far and the state; once an allocation has thrown, the exception is
  on its way out.
\<close>

definition initialize_memory_pools ::
  "u64 \<Rightarrow> (u64 list \<times> 'm base_state_scheme) outcome \<Rightarrow> hsa_status_t \<times> (u64 list \<times> 'm base_state_scheme) outcome" where
  "initialize_memory_pools region data =
     (HSA_STATUS_SUCCESS,
      and_then data (\<lambda>(mem_pools, s). and_then (operator_new s) (\<lambda>(mem_pool, s'). Inr (mem_pools @ [region], s'))))"

definition AgentData_new :: "u64 \<Rightarrow> 'm agent_state_scheme \<Rightarrow> (u64 list \<times> 'm agent_state_scheme) outcome" where
  "AgentData_new agent s =
     and_then (operator_new s) (\<lambda>(this, s1).
     and_then (hsa_agent_iterate_regions s1 agent (Some initialize_memory_pools) (Inr ([], s1))) (\<lambda>(Status, data).
       and_then data (\<lambda>r. if Status \<noteq> HSA_STATUS_SUCCESS then Inl Aborted else Inr r)))"

definition get_agent_data :: "u64 \<Rightarrow> 'm amd_state_scheme \<Rightarrow> (u64 list \<times> 'm amd_state_scheme) outcome" where
  "get_agent_data agent s =
     (case AmdAgents s agent of
        Some mem_pools \<Rightarrow> Inr (mem_pools, s)
      | None \<Rightarrow> and_then (AgentData_new agent s) (\<lambda>(mem_pools, s').
          Inr (mem_pools, s'\<lparr>AmdAgents := (AmdAgents s')(agent \<mapsto> mem_pools)\<rparr>)))"

text \<open>The status of the callback is dropped.\<close>

fun call_for_pools :: "(u64 \<Rightarrow> 'd \<Rightarrow> hsa_status_t \<times> 'd) option \<Rightarrow> u64 list \<Rightarrow> 'd \<Rightarrow> 'd outcome" where
  "call_for_pools callback [] data = Inr data"
| "call_for_pools None (mp # mps) data = Inl Null_Dereference"
| "call_for_pools (Some f) (mp # mps) data = call_for_pools (Some f) mps (snd (f mp data))"

definition hsa_amd_agent_iterate_memory_pools ::
  "'m amd_state_scheme \<Rightarrow> u64 \<Rightarrow> (u64 \<Rightarrow> 'd \<Rightarrow> hsa_status_t \<times> 'd) option \<Rightarrow> 'd \<Rightarrow>
   (hsa_status_t \<times> 'd \<times> 'm amd_state_scheme) outcome" where
  "hsa_amd_agent_iterate_memory_pools s agent callback data =
     and_then (get_agent_data agent s) (\<lambda>(mem_pools, s').
     and_then (call_for_pools callback mem_pools data) (\<lambda>data'. Inr (HSA_STATUS_SUCCESS, data', s')))"

section \<open>Queries\<close>

text \<open>The address of a variable on the stack, which is never null.\<close>

definition local_variable :: addr where
  "local_variable = 8"

definition write_through :: "addr \<Rightarrow> field \<Rightarrow> (hsa_status_t \<times> field option) outcome" where
  "write_through value f =
     (if value = nullptr then Inl Null_Dereference else Inr (HSA_STATUS_SUCCESS, Some f))"

definition hsa_amd_memory_pool_get_info ::
  "'m region_state_scheme \<Rightarrow> u64 \<Rightarrow> hsa_amd_memory_pool_info_t \<Rightarrow> addr \<Rightarrow>
   (hsa_status_t \<times> field option) outcome" where
  "hsa_amd_memory_pool_get_info s memory_pool attribute value =
     (case attribute of
        HSA_AMD_MEMORY_POOL_INFO_SEGMENT \<Rightarrow>
          and_then (hsa_region_get_info s memory_pool HSA_REGION_INFO_SEGMENT local_variable)
            (\<lambda>(Status, region_segment).
              if Status \<noteq> HSA_STATUS_SUCCESS then Inl Aborted
              else if region_segment = Some (F_u32 (hsa_region_segment_t_value HSA_REGION_SEGMENT_GLOBAL))
              then write_through value (F_u32 (hsa_amd_segment_t_value HSA_AMD_SEGMENT_GLOBAL))
              else if region_segment = Some (F_u32 (hsa_region_segment_t_value HSA_REGION_SEGMENT_GROUP))
              then write_through value (F_u32 (hsa_amd_segment_t_value HSA_AMD_SEGMENT_GROUP))
              else Inl Aborted)
      | HSA_AMD_MEMORY_POOL_INFO_GLOBAL_FLAGS \<Rightarrow>
          write_through value
            (F_u32 (hsa_amd_memory_pool_global_flag_t_value HSA_AMD_MEMORY_POOL_GLOBAL_FLAG_FINE_GRAINED
                    OR hsa_amd_memory_pool_global_flag_t_value HSA_AMD_MEMORY_POOL_GLOBAL_FLAG_KERNARG_INIT))
      | HSA_AMD_MEMORY_POOL_INFO_SIZE \<Rightarrow>
          and_then (hsa_region_get_info s memory_pool HSA_REGION_INFO_SIZE value) (\<lambda>(Status, size').
            if Status \<noteq> HSA_STATUS_SUCCESS then Inl Aborted else Inr (HSA_STATUS_SUCCESS, size'))
      | _ \<Rightarrow> Inl Aborted)"

definition hsa_amd_agent_memory_pool_get_info ::
  "u64 \<Rightarrow> u64 \<Rightarrow> hsa_amd_agent_memory_pool_info_t \<Rightarrow> addr \<Rightarrow> (hsa_status_t \<times> field option) outcome" where
  "hsa_amd_agent_memory_pool_get_info agent memory_pool attribute value =
     (case attribute of
        HSA_AMD_AGENT_MEMORY_POOL_INFO_ACCESS \<Rightarrow>
          write_through value
            (F_u32 (hsa_amd_memory_pool_access_t_value HSA_AMD_MEMORY_POOL_ACCESS_ALLOWED_BY_DEFAULT))
      | _ \<Rightarrow> Inl Aborted)"

definition hsa_amd_memory_pool_can_migrate :: "u64 \<Rightarrow> u64 \<Rightarrow> addr \<Rightarrow> (hsa_status_t \<times> field option) outcome" where
  "hsa_amd_memory_pool_can_migrate src_memory_pool dst_memory_pool result = write_through result (F_bool True)"

text \<open>The two fields of the structure, \<open>start\<close> and \<open>end\<close>.\<close>

definition hsa_amd_profiling_get_dispatch_time ::
  "u64 \<Rightarrow> u64 \<Rightarrow> addr \<Rightarrow> (hsa_status_t \<times> u64 \<times> u64) outcome" where
  "hsa_amd_profiling_get_dispatch_time agent signal time =
     (if time = nullptr then Inl Null_Dereference else Inr (HSA_STATUS_SUCCESS, 1, 2))"

section \<open>Memory\<close>

definition hsa_amd_memory_pool_allocate ::
  "'m region_state_scheme \<Rightarrow> u64 \<Rightarrow> u64 \<Rightarrow> u32 \<Rightarrow> addr \<Rightarrow>
   (hsa_status_t \<times> addr option \<times> 'm region_state_scheme) outcome" where
  "hsa_amd_memory_pool_allocate s memory_pool size' flags ptr = hsa_memory_allocate s memory_pool size' ptr"

definition hsa_amd_memory_pool_free ::
  "'m region_state_scheme \<Rightarrow> addr \<Rightarrow> (hsa_status_t \<times> 'm region_state_scheme) outcome" where
  "hsa_amd_memory_pool_free s ptr = hsa_memory_free s ptr"

text \<open>
  The loop over the first \<open>n\<close> dependencies from the \<open>i\<close>-th on. While the call waits for the \<open>i\<close>-th, its
  loads and clock readings are \<open>seen i\<close> and other threads change the process by \<open>others i\<close>. \<open>None\<close> when
  a wait never returns. Reading behind the client's array is undefined.
\<close>

fun wait_dependencies ::
  "(nat \<Rightarrow> int \<times> (nat \<Rightarrow> i64) \<times> (nat \<Rightarrow> int)) \<Rightarrow> (nat \<Rightarrow> 'm signal_state_scheme \<Rightarrow> 'm signal_state_scheme) \<Rightarrow>
   u64 list \<Rightarrow> nat \<Rightarrow> nat \<Rightarrow> 'm signal_state_scheme \<Rightarrow> 'm signal_state_scheme outcome option" where
  "wait_dependencies seen others dep_signals i 0 s = Some (Inr s)"
| "wait_dependencies seen others dep_signals i (Suc n) s =
     (if length dep_signals \<le> i then Some (Inl Undefined_Behaviour)
      else case seen i of (StartTime, loads, nows) \<Rightarrow>
        (case hsa_signal_wait_acquire s (dep_signals ! i) HSA_SIGNAL_CONDITION_EQ 0 u64_max HSA_WAIT_STATE_ACTIVE
                StartTime loads nows of
           Inl e \<Rightarrow> Some (Inl e)
         | Inr None \<Rightarrow> None
         | Inr (Some v) \<Rightarrow> wait_dependencies seen others dep_signals (Suc i) n (others i s)))"

text \<open>The status of the copy is dropped.\<close>

definition hsa_amd_memory_async_copy ::
  "(nat \<Rightarrow> int \<times> (nat \<Rightarrow> i64) \<times> (nat \<Rightarrow> int)) \<Rightarrow> (nat \<Rightarrow> 'm agent_state_scheme \<Rightarrow> 'm agent_state_scheme) \<Rightarrow>
   'm agent_state_scheme \<Rightarrow> addr \<Rightarrow> u64 \<Rightarrow> addr \<Rightarrow> u64 \<Rightarrow> u64 \<Rightarrow> u32 \<Rightarrow> u64 list \<Rightarrow> u64 \<Rightarrow>
   (hsa_status_t \<times> 'm agent_state_scheme) outcome option" where
  "hsa_amd_memory_async_copy seen others s dst dst_agent src src_agent size' num_dep_signals dep_signals
     completion_signal =
     proceed (wait_dependencies seen others dep_signals 0 (unat num_dep_signals) s) (\<lambda>s1.
       let s2 = s1\<lparr>Memory := snd (hsa_memory_copy s1 dst src size' (Memory s1))\<rparr>
       in proceed (Some (hsa_signal_store_relaxed s2 completion_signal 0)) (\<lambda>s3.
            Some (Inr (HSA_STATUS_SUCCESS, s3))))"

definition hsa_amd_agents_allow_access :: "u32 \<Rightarrow> u64 list \<Rightarrow> addr \<Rightarrow> addr \<Rightarrow> hsa_status_t" where
  "hsa_amd_agents_allow_access num_agents agents flags ptr = HSA_STATUS_SUCCESS"

definition hsa_amd_memory_lock :: "addr \<Rightarrow> u64 \<Rightarrow> addr \<Rightarrow> i32 \<Rightarrow> addr \<Rightarrow> (hsa_status_t \<times> addr) outcome" where
  "hsa_amd_memory_lock host_ptr size' agents num_agent agent_ptr =
     (if agent_ptr = nullptr then Inl Null_Dereference else Inr (HSA_STATUS_SUCCESS, host_ptr))"

definition hsa_amd_memory_unlock :: "addr \<Rightarrow> hsa_status_t" where
  "hsa_amd_memory_unlock host_ptr = HSA_STATUS_SUCCESS"

definition hsa_amd_profiling_set_profiler_enabled :: "addr \<Rightarrow> i32 \<Rightarrow> hsa_status_t" where
  "hsa_amd_profiling_set_profiler_enabled queue enable = HSA_STATUS_SUCCESS"

section \<open>Entry points that are not implemented\<close>

definition hsa_amd_coherency_get_type :: "u64 \<Rightarrow> addr \<Rightarrow> hsa_status_t outcome" where
  "hsa_amd_coherency_get_type agent type = Inl Aborted"

definition hsa_amd_coherency_set_type :: "u64 \<Rightarrow> u32 \<Rightarrow> hsa_status_t outcome" where
  "hsa_amd_coherency_set_type agent type = Inl Aborted"

definition hsa_amd_profiling_async_copy_enable :: "bool \<Rightarrow> hsa_status_t outcome" where
  "hsa_amd_profiling_async_copy_enable enable = Inl Aborted"

definition hsa_amd_profiling_get_async_copy_time :: "u64 \<Rightarrow> addr \<Rightarrow> hsa_status_t outcome" where
  "hsa_amd_profiling_get_async_copy_time signal time = Inl Aborted"

definition hsa_amd_profiling_convert_tick_to_system_domain :: "u64 \<Rightarrow> u64 \<Rightarrow> addr \<Rightarrow> hsa_status_t outcome" where
  "hsa_amd_profiling_convert_tick_to_system_domain agent agent_tick system_tick = Inl Aborted"

definition hsa_amd_signal_async_handler ::
  "u64 \<Rightarrow> hsa_signal_condition_t \<Rightarrow> i64 \<Rightarrow> addr \<Rightarrow> addr \<Rightarrow> hsa_status_t outcome" where
  "hsa_amd_signal_async_handler signal cond value handler arg = Inl Aborted"

definition hsa_amd_async_function :: "addr \<Rightarrow> addr \<Rightarrow> hsa_status_t outcome" where
  "hsa_amd_async_function callback arg = Inl Aborted"

definition hsa_amd_signal_wait_any ::
  "u32 \<Rightarrow> addr \<Rightarrow> addr \<Rightarrow> addr \<Rightarrow> u64 \<Rightarrow> hsa_wait_state_t \<Rightarrow> addr \<Rightarrow> u32 outcome" where
  "hsa_amd_signal_wait_any signal_count signals conds values timeout_hint wait_hint satisfying_value = Inl Aborted"

definition hsa_amd_image_get_info_max_dim :: "u64 \<Rightarrow> hsa_agent_info_t \<Rightarrow> addr \<Rightarrow> hsa_status_t outcome" where
  "hsa_amd_image_get_info_max_dim agent attribute value = Inl Aborted"

definition hsa_amd_queue_cu_set_mask :: "addr \<Rightarrow> u32 \<Rightarrow> addr \<Rightarrow> hsa_status_t outcome" where
  "hsa_amd_queue_cu_set_mask queue num_cu_mask_count cu_mask = Inl Aborted"

definition hsa_amd_memory_migrate :: "addr \<Rightarrow> u64 \<Rightarrow> u32 \<Rightarrow> hsa_status_t outcome" where
  "hsa_amd_memory_migrate ptr memory_pool flags = Inl Aborted"

definition hsa_amd_memory_fill :: "addr \<Rightarrow> u32 \<Rightarrow> u64 \<Rightarrow> hsa_status_t outcome" where
  "hsa_amd_memory_fill ptr value count = Inl Aborted"

definition hsa_amd_interop_map_buffer ::
  "u32 \<Rightarrow> addr \<Rightarrow> i32 \<Rightarrow> u32 \<Rightarrow> addr \<Rightarrow> addr \<Rightarrow> addr \<Rightarrow> addr \<Rightarrow> hsa_status_t outcome" where
  "hsa_amd_interop_map_buffer num_agents agents interop_handle flags size' ptr metadata_size metadata = Inl Aborted"

definition hsa_amd_interop_unmap_buffer :: "addr \<Rightarrow> hsa_status_t outcome" where
  "hsa_amd_interop_unmap_buffer ptr = Inl Aborted"

definition hsa_amd_image_create :: "u64 \<Rightarrow> addr \<Rightarrow> addr \<Rightarrow> addr \<Rightarrow> u32 \<Rightarrow> addr \<Rightarrow> hsa_status_t outcome" where
  "hsa_amd_image_create agent image_descriptor image_layout image_data access_permission image' = Inl Aborted"

section \<open>The iteration over the pools\<close>

lemma call_for_pools_eq: "call_for_pools (Some f) mps d = Inr (fold (\<lambda>mp d. snd (f mp d)) mps d)"
  by (induction mps arbitrary: d) simp_all

lemma initialize_pools:
  "HostHeap s = ps @ qs \<Longrightarrow> length ps = length Rs \<Longrightarrow> nullptr \<notin> set ps \<Longrightarrow>
   iterate_callback initialize_memory_pools Rs (Inr (mps, s)) =
     (HSA_STATUS_SUCCESS, Inr (mps @ Rs, s\<lparr>HostHeap := qs\<rparr>))"
proof (induction Rs arbitrary: ps mps s)
  case (Cons R Rs)
  then obtain p ps' where "ps = p # ps'" by (cases ps) auto
  with Cons.prems Cons.IH [of "s\<lparr>HostHeap := ps' @ qs\<rparr>" ps' "mps @ [R]"] show ?case
    by (simp add: initialize_memory_pools_def operator_new_def host_malloc_def Let_def)
qed simp

lemma get_agent_data_first:
  assumes "AmdAgents s agent = None" and "isInitialized s" and "fromHSAObject (AgentRegistry s) agent = p"
    and "p \<noteq> nullptr" and "KernelAgents s p = Some A" and "HostHeap s = h # ps @ qs"
    and "length ps = length (AgentRegions A)" and "nullptr \<notin> set (h # ps)"
  shows "get_agent_data agent s =
    Inr (AgentRegions A, s\<lparr>HostHeap := qs, AmdAgents := (AmdAgents s)(agent \<mapsto> AgentRegions A)\<rparr>)"
proof -
  have new: "operator_new s = Inr (h, s\<lparr>HostHeap := ps @ qs\<rparr>)"
    using assms(6,8) by (simp add: operator_new_def host_malloc_def)
  have "isInitialized (s\<lparr>HostHeap := ps @ qs\<rparr>)" using assms(2) by (simp add: isInitialized_def)
  then have "AgentData_new agent s = Inr (AgentRegions A, s\<lparr>HostHeap := qs\<rparr>)"
    using assms(3-5,7,8) initialize_pools [of "s\<lparr>HostHeap := ps @ qs\<rparr>" ps qs "AgentRegions A" "[]"]
    by (simp add: AgentData_new_def new hsa_agent_iterate_regions_def deref_Some)
  with assms(1) show ?thesis by (simp add: get_agent_data_def)
qed

section \<open>The copy\<close>

text \<open>
  What the caller and the other threads owe while the copy waits: the signals stay registered and alive,
  the clock does not run for the 292 years that the longest duration lasts.
\<close>

definition signal_alive :: "u64 \<Rightarrow> 'm signal_state_scheme \<Rightarrow> bool" where
  "signal_alive h s \<longleftrightarrow> signal_usable (fromHSAObject (SignalRegistry s) h) s"

definition copy_ready :: "u64 list \<Rightarrow> u64 \<Rightarrow> 'm signal_state_scheme \<Rightarrow> bool" where
  "copy_ready deps completion s \<longleftrightarrow> isInitialized s \<and> list_all (\<lambda>h. signal_alive h s) (completion # deps)"

definition observed_zero :: "int \<times> (nat \<Rightarrow> i64) \<times> (nat \<Rightarrow> int) \<Rightarrow> bool" where
  "observed_zero obs \<longleftrightarrow> (case obs of (StartTime, loads, nows) \<Rightarrow> \<exists>k. loads k = 0)"

definition in_time :: "int \<times> (nat \<Rightarrow> i64) \<times> (nat \<Rightarrow> int) \<Rightarrow> bool" where
  "in_time obs \<longleftrightarrow> (case obs of (StartTime, loads, nows) \<Rightarrow> \<forall>k. nows k - StartTime \<le> 2 ^ 63 - 1)"

lemma wait_for_zero:
  assumes "signal_alive h s" and "in_time (t0, loads, nows)"
  shows "\<exists>v. hsa_signal_wait_acquire s h HSA_SIGNAL_CONDITION_EQ 0 u64_max hint t0 loads nows =
    Inr (if observed_zero (t0, loads, nows) then Some v else None)"
proof -
  obtain w where "GCCBuiltinSignal_load s (fromHSAObject (SignalRegistry s) h) Acquire = Inr w"
    using gcc.load [of "fromHSAObject (SignalRegistry s) h" s Acquire] assms(1) by (auto simp: signal_alive_def)
  moreover have "wait_stops (\<lambda>v. v = 0) (sint i64_max) t0 loads nows k \<longleftrightarrow> loads k = 0" for k
    using assms(2) by (simp add: wait_stops_def in_time_def not_less [symmetric])
  ultimately show ?thesis
    by (auto simp: hsa_signal_wait_acquire_def GCCBuiltinSignal_wait_def ToStdPeriod_def wait_loop_eq observed_zero_def)
qed

text \<open>What the other threads have made of the state when the dependencies \<open>i, \<dots>, i + n - 1\<close> are done.\<close>

fun elapse :: "(nat \<Rightarrow> 's \<Rightarrow> 's) \<Rightarrow> nat \<Rightarrow> nat \<Rightarrow> 's \<Rightarrow> 's" where
  "elapse others i 0 s = s"
| "elapse others i (Suc n) s = elapse others (Suc i) n (others i s)"

lemma wait_dependencies_eq:
  assumes "i + n \<le> length deps" and "copy_ready deps c s"
    and "\<And>j t. copy_ready deps c t \<Longrightarrow> copy_ready deps c (others j t)" and "\<And>j. in_time (seen j)"
  shows "copy_ready deps c (elapse others i n s) \<and> wait_dependencies seen others deps i n s =
    (if list_all (\<lambda>j. observed_zero (seen j)) [i..<i + n] then Some (Inr (elapse others i n s)) else None)"
  using assms(1,2)
proof (induction n arbitrary: i s)
  case (Suc n)
  obtain t0 loads nows where seen: "seen i = (t0, loads, nows)" by (cases "seen i")
  have alive: "signal_alive (deps ! i) s" using Suc.prems by (simp add: copy_ready_def list_all_iff)
  have next_ready: "copy_ready deps c (others i s)" using Suc.prems(2) by (rule assms(3))
  have "in_time (t0, loads, nows)" using assms(4) [of i] by (simp only: seen)
  from wait_for_zero [OF alive this]
  obtain v where v: "hsa_signal_wait_acquire s (deps ! i) HSA_SIGNAL_CONDITION_EQ 0 u64_max HSA_WAIT_STATE_ACTIVE
      t0 loads nows = Inr (if observed_zero (seen i) then Some v else None)" unfolding seen by blast
  have split: "[i..<i + Suc n] = i # [Suc i..<Suc i + n]" by (simp add: upt_conv_Cons)
  have "\<not> length deps \<le> i" using Suc.prems(1) by simp
  with Suc.IH [of "Suc i" "others i s"] Suc.prems(1) next_ready v show ?case
    unfolding split by (simp add: seen)
qed simp

lemma store_completion:
  assumes "signal_alive h (s :: 'm agent_state_scheme)"
  obtains c where "hsa_signal_store_relaxed s h 0 = Inr (set_cell c 0 s)"
    "hsa_signal_load_acquire (set_cell c 0 s) h = Inr 0"
proof -
  let ?S = "fromHSAObject (SignalRegistry s) h"
  have use: "signal_usable ?S s" using assms by (simp add: signal_alive_def)
  then obtain Obj where Obj: "?S \<noteq> nullptr" "Signals s ?S = Some Obj"
    "signal_cell s ?S = Inr (CurrentValue Obj, signal_value ?S s)"
    by (rule signal_usable_cell)
  let ?s' = "set_cell (CurrentValue Obj) 0 s"
  have "hsa_signal_store_relaxed s h 0 = Inr ?s'"
    using Obj by (simp add: hsa_signal_store_relaxed_def GCCBuiltinSignal_store_def storeRelaxed_def deref_Some)
  moreover have "signal_usable ?S ?s'" "signal_value ?S ?s' = 0"
    using signal_usable_set_cell [OF use Obj(2)] by blast+
  then have "GCCBuiltinSignal_load ?s' ?S Acquire = Inr 0" using gcc.load by metis
  then have "hsa_signal_load_acquire ?s' h = Inr 0" by (simp add: hsa_signal_load_acquire_def set_cell_def)
  ultimately show ?thesis by (rule that)
qed

lemma signal_alive_memory: "signal_alive h (s\<lparr>Memory := m\<rparr>) = signal_alive h (s :: 'm agent_state_scheme)"
  by (simp add: signal_alive_def signal_usable_def cong: option.case_cong)

section \<open>Properties\<close>

text \<open>A process with one agent and two signals, 0x700 for a dependency and 0x708 for the completion.\<close>

definition amd_demo :: amd_state where
  "amd_demo = \<lparr>ReferenceCounter = 1, Instance = 0x10, HostHeap = [0x500, 0x508, 0x510], RegionRegistry = [],
     CPURegions = Map.empty, MemoryRegions = [0x100, 0x110],
     SignalRegistry = [(0x700, 0x70), (0x708, 0x78)],
     Signals = [0x70 \<mapsto> \<lparr>CurrentValue = 0x700, SignalMemory = 0x100\<rparr>, 0x78 \<mapsto> \<lparr>CurrentValue = 0x708, SignalMemory = 0x100\<rparr>],
     SignalValues = [0x700 \<mapsto> 2, 0x708 \<mapsto> 1], QueueRegistry = [], Queues = Map.empty, Buffers = Map.empty,
     SymbolRegistry = [], SymbolObjects = Map.empty, Memory = (\<lambda>a. 0), AgentRegistry = [(0x200, 0x200)],
     KernelAgents = [0x200 \<mapsto> info_agent], RtAgents = [0x200], ShutDown = False, Events = [], ISAMap = Map.empty,
     HashToISAMap = Map.empty, Extensions = [], ProgramRegistry = [], HSAILPrograms = Map.empty, CodeRegistry = [],
     FinalizedPrograms = Map.empty, ExecutableRegistry = [], Executables = Map.empty, Files = Map.empty,
     FreshNames = [], DebugMode = 0, AmdAgents = Map.empty\<rparr>"

text \<open>
  The first iteration over the memory pools of an agent hands every region of the agent to the
  callback, in order and whatever status the callback returns, and reports success. From then on the
  pools of that handle are fixed: an iteration in any later state, whether the runtime is initialised or
  the agent still exists, visits the same pools.
\<close>

theorem memory_pools_visited:
  assumes "AmdAgents s agent = None" and "isInitialized s" and "fromHSAObject (AgentRegistry s) agent = p"
    and "p \<noteq> nullptr" and "KernelAgents s p = Some A" and "HostHeap s = h # ps @ qs"
    and "length ps = length (AgentRegions A)" and "nullptr \<notin> set (h # ps)"
  shows "\<exists>s'. hsa_amd_agent_iterate_memory_pools s agent (Some f) d =
      Inr (HSA_STATUS_SUCCESS, fold (\<lambda>mp d. snd (f mp d)) (AgentRegions A) d, s') \<and>
    (\<forall>t g e. AmdAgents t agent = AmdAgents s' agent \<longrightarrow>
      hsa_amd_agent_iterate_memory_pools t agent (Some g) (e :: 'e) =
        Inr (HSA_STATUS_SUCCESS, fold (\<lambda>mp e. snd (g mp e)) (AgentRegions A) e, t))"
  by (simp add: hsa_amd_agent_iterate_memory_pools_def get_agent_data_first [OF assms] call_for_pools_eq)
    (simp add: get_agent_data_def)

theorem memory_pools_visited_witness:
  "\<exists>s'. hsa_amd_agent_iterate_memory_pools amd_demo 0x200 (Some (\<lambda>mp d. (HSA_STATUS_INFO_BREAK, d @ [mp]))) [] =
    Inr (HSA_STATUS_SUCCESS, [0x100, 0x110], s')"
proof -
  have "nullptr \<notin> set (0x500 # [0x508, 0x510])" by simp
  from memory_pools_visited [of amd_demo "0x200", OF _ _ _ _ _ _ _ this, of "0x200" info_agent "[]"
      "\<lambda>mp d. (HSA_STATUS_INFO_BREAK, d @ [mp])" "[]"]
  show ?thesis by (simp add: amd_demo_def isInitialized_def fromHSAObject_def info_agent_def) blast
qed

text \<open>
  C40. A copy on registered signals returns if and only if every dependency is seen to be 0 while the call
  waits for it. When it returns, the bytes that were in the source after the last wait are in the
  destination, the completion signal is 0, and the other state is as the other threads left it.
\<close>

theorem async_copy_after_dependencies:
  assumes "copy_ready deps completion s"
    and "\<And>j t. copy_ready deps completion t \<Longrightarrow> copy_ready deps completion (others j t)"
    and "\<And>j. in_time (seen j)" and "unat n \<le> length deps" and "dst \<noteq> nullptr" and "src \<noteq> nullptr" and "len \<noteq> 0"
  shows "if \<forall>j < unat n. observed_zero (seen j)
    then \<exists>s' c. hsa_amd_memory_async_copy seen others s dst da src sa len n deps completion =
        Some (Inr (HSA_STATUS_SUCCESS, s')) \<and>
      s' = set_cell c 0 (elapse others 0 (unat n) s\<lparr>Memory := Memory s'\<rparr>) \<and>
      Memory s' = memmove dst src len (Memory (elapse others 0 (unat n) s)) \<and>
      hsa_signal_load_acquire s' completion = Inr 0
    else hsa_amd_memory_async_copy seen others s dst da src sa len n deps completion = None"
proof -
  let ?s1 = "elapse others 0 (unat n) s"
  have all: "(\<forall>j < unat n. observed_zero (seen j)) \<longleftrightarrow> list_all (\<lambda>j. observed_zero (seen j)) [0..<0 + unat n]"
    by (auto simp: list_all_iff)
  note waits = wait_dependencies_eq [of 0 "unat n" deps completion s others seen, OF _ assms(1-3), folded all]
  let ?s2 = "?s1\<lparr>Memory := memmove dst src len (Memory ?s1)\<rparr>"
  have ready: "copy_ready deps completion ?s1" using waits assms(4) by simp
  then have "signal_alive completion ?s2" by (simp add: copy_ready_def signal_alive_memory)
  then obtain c where c: "hsa_signal_store_relaxed ?s2 completion 0 = Inr (set_cell c 0 ?s2)"
    "hsa_signal_load_acquire (set_cell c 0 ?s2) completion = Inr 0" by (rule store_completion)
  have copy: "snd (hsa_memory_copy ?s1 dst src len (Memory ?s1)) = memmove dst src len (Memory ?s1)"
    using ready assms(5-7) by (simp add: hsa_memory_copy_def copy_ready_def)
  have mem: "Memory (set_cell c 0 ?s2) = memmove dst src len (Memory ?s1)" by (simp add: set_cell_def)
  show ?thesis
  proof (cases "\<forall>j < unat n. observed_zero (seen j)")
    case True
    then have "hsa_amd_memory_async_copy seen others s dst da src sa len n deps completion =
        Some (Inr (HSA_STATUS_SUCCESS, set_cell c 0 ?s2))"
      using waits assms(4) c(1) by (simp add: hsa_amd_memory_async_copy_def copy)
    with True c(2) mem show ?thesis by auto
  next
    case False
    then show ?thesis using waits assms(4) by (auto simp: hsa_amd_memory_async_copy_def)
  qed
qed

text \<open>In the witness the producer stores a byte while the call waits and then signals it.\<close>

theorem async_copy_after_dependencies_witness:
  "\<exists>s'. hsa_amd_memory_async_copy (\<lambda>j. (0, \<lambda>k. if k < 3 then 2 else 0, \<lambda>k. int (min k 10)))
      (\<lambda>j s. s\<lparr>Memory := (Memory s)(0x900 := 7)\<rparr>) amd_demo 0xA00 0x200 0x900 0x200 4 1 [0x700] 0x708 =
        Some (Inr (HSA_STATUS_SUCCESS, s')) \<and>
    Memory s' 0xA00 = 7 \<and> hsa_signal_load_acquire s' 0x708 = Inr 0"
proof -
  let ?others = "\<lambda>(j :: nat) s :: amd_state. s\<lparr>Memory := (Memory s)(0x900 := 7)\<rparr>"
  let ?seen = "\<lambda>j :: nat. (0 :: int, \<lambda>k. if k < 3 then 2 else 0 :: i64, \<lambda>k. int (min k 10))"
  have ready: "copy_ready [0x700] 0x708 amd_demo"
    by (simp add: copy_ready_def signal_alive_def signal_usable_def amd_demo_def isInitialized_def fromHSAObject_def)
  have keep: "copy_ready [0x700] 0x708 t \<Longrightarrow> copy_ready [0x700] 0x708 (?others j t)" for j t
    by (simp add: copy_ready_def signal_alive_memory isInitialized_def)
  have time: "in_time (?seen j)" for j by (simp add: in_time_def min_le_iff_disj)
  have zero: "observed_zero (?seen j)" for j by (auto simp: observed_zero_def intro!: exI [of _ 3])
  show ?thesis
    using async_copy_after_dependencies [where s = amd_demo and deps = "[0x700]" and completion = "0x708"
        and others = ?others and seen = ?seen and n = 1 and dst = "0xA00" and src = "0x900" and len = 4
        and da = "0x200" and sa = "0x200", OF ready keep time] zero
    by (auto simp: memmove_def)
qed

end
