(* ===== verification/Image_Ext.thy ===== *)
theory Image_Ext
  imports Kernel_Agent
begin

text \<open>
  The entry points of the images extension (\<open>src/hsa/hsa_image.cc\<close>). Every one of them returns success
  without looking at its arguments; \<open>None\<close> says that nothing is written through a result pointer.
\<close>

definition hsa_ext_image_get_capability :: "u64 \<Rightarrow> u32 \<Rightarrow> addr \<Rightarrow> addr \<Rightarrow> hsa_status_t \<times> u32 option" where
  "hsa_ext_image_get_capability agent geometry image_format capability_mask = (HSA_STATUS_SUCCESS, None)"

definition hsa_ext_image_data_get_info :: "u64 \<Rightarrow> addr \<Rightarrow> u32 \<Rightarrow> addr \<Rightarrow> hsa_status_t \<times> (u64 \<times> u64) option" where
  "hsa_ext_image_data_get_info agent image_descriptor access_permission image_data_info = (HSA_STATUS_SUCCESS, None)"

definition hsa_ext_image_create :: "u64 \<Rightarrow> addr \<Rightarrow> addr \<Rightarrow> u32 \<Rightarrow> addr \<Rightarrow> hsa_status_t \<times> u64 option" where
  "hsa_ext_image_create agent image_descriptor image_data access_permission image' = (HSA_STATUS_SUCCESS, None)"

definition hsa_ext_image_destroy :: "u64 \<Rightarrow> u64 \<Rightarrow> hsa_status_t" where
  "hsa_ext_image_destroy agent image' = HSA_STATUS_SUCCESS"

definition hsa_ext_image_copy :: "u64 \<Rightarrow> u64 \<Rightarrow> addr \<Rightarrow> u64 \<Rightarrow> addr \<Rightarrow> addr \<Rightarrow> 'm agent_state_scheme \<Rightarrow>
    hsa_status_t \<times> 'm agent_state_scheme" where
  "hsa_ext_image_copy agent src_image src_offset dst_image dst_offset range' s = (HSA_STATUS_SUCCESS, s)"

definition hsa_ext_image_import :: "u64 \<Rightarrow> addr \<Rightarrow> u64 \<Rightarrow> u64 \<Rightarrow> u64 \<Rightarrow> addr \<Rightarrow> 'm agent_state_scheme \<Rightarrow>
    hsa_status_t \<times> 'm agent_state_scheme" where
  "hsa_ext_image_import agent src_memory src_row_pitch src_slice_pitch dst_image image_region s = (HSA_STATUS_SUCCESS, s)"

definition hsa_ext_image_export :: "u64 \<Rightarrow> u64 \<Rightarrow> addr \<Rightarrow> u64 \<Rightarrow> u64 \<Rightarrow> addr \<Rightarrow> 'm agent_state_scheme \<Rightarrow>
    hsa_status_t \<times> 'm agent_state_scheme" where
  "hsa_ext_image_export agent src_image dst_memory dst_row_pitch dst_slice_pitch image_region s = (HSA_STATUS_SUCCESS, s)"

definition hsa_ext_image_clear :: "u64 \<Rightarrow> u64 \<Rightarrow> addr \<Rightarrow> addr \<Rightarrow> 'm agent_state_scheme \<Rightarrow>
    hsa_status_t \<times> 'm agent_state_scheme" where
  "hsa_ext_image_clear agent image' data image_region s = (HSA_STATUS_SUCCESS, s)"

definition hsa_ext_sampler_create :: "u64 \<Rightarrow> addr \<Rightarrow> addr \<Rightarrow> hsa_status_t \<times> u64 option" where
  "hsa_ext_sampler_create agent sampler_descriptor sampler = (HSA_STATUS_SUCCESS, None)"

definition hsa_ext_sampler_destroy :: "u64 \<Rightarrow> u64 \<Rightarrow> hsa_status_t" where
  "hsa_ext_sampler_destroy agent sampler = HSA_STATUS_SUCCESS"

end
