(* ===== verification/Refinement.thy ===== *)
theory Refinement
  imports Prelude
begin

text \<open>
  Refinement of an abstract data type by a component of the process: the runs of both, and the lifting of a
  one-step simulation to sequences of calls. A sequence of calls stands for one interleaving of the calls of the
  client's threads; each call is one step.
\<close>

fun run :: "('c \<Rightarrow> 's \<Rightarrow> ('r \<times> 's) outcome) \<Rightarrow> 'c list \<Rightarrow> 's \<Rightarrow> ('r list \<times> 's) outcome" where
  "run step [] s = Inr ([], s)"
| "run step (c # cs) s =
     and_then (step c s) (\<lambda>(r, s1). and_then (run step cs s1) (\<lambda>(rs, s2). Inr (r # rs, s2)))"

fun spec_run :: "('c \<Rightarrow> 'a \<Rightarrow> 'r \<Rightarrow> 'a \<Rightarrow> bool) \<Rightarrow> 'c list \<Rightarrow> 'a \<Rightarrow> 'r list \<Rightarrow> 'a \<Rightarrow> bool" where
  "spec_run spec [] a rs a' \<longleftrightarrow> rs = [] \<and> a' = a"
| "spec_run spec (c # cs) a rs a' \<longleftrightarrow>
     (\<exists>r rs' a1. rs = r # rs' \<and> spec c a r a1 \<and> spec_run spec cs a1 rs' a')"

locale refines =
  fixes step :: "'c \<Rightarrow> 's \<Rightarrow> ('r \<times> 's) outcome"
    and spec :: "'c \<Rightarrow> 'a \<Rightarrow> 'r \<Rightarrow> 'a \<Rightarrow> bool"
    and view :: "'s \<Rightarrow> 'a"
    and ok :: "'s \<Rightarrow> bool"
    and ready :: "'c \<Rightarrow> 's \<Rightarrow> bool"
  assumes step_spec: "ok s \<Longrightarrow> step c s = Inr (r, s') \<Longrightarrow> spec c (view s) r (view s')"
    and step_ok: "ok s \<Longrightarrow> step c s = Inr (r, s') \<Longrightarrow> ok s'"
    and step_returns: "ok s \<Longrightarrow> ready c s \<Longrightarrow> \<exists>r s'. step c s = Inr (r, s')"
begin

lemma run_spec: "ok s \<Longrightarrow> run step cs s = Inr (rs, s') \<Longrightarrow> spec_run spec cs (view s) rs (view s') \<and> ok s'"
proof (induction cs arbitrary: s rs)
  case Nil
  then show ?case by simp
next
  case (Cons c cs)
  from Cons.prems(2) obtain r s1 rs' where "step c s = Inr (r, s1)" "run step cs s1 = Inr (rs', s')" "rs = r # rs'"
    by (auto simp: outcome_simps)
  with Cons.IH [OF step_ok] step_spec Cons.prems(1) show ?case by (simp) blast
qed

text \<open>What has run so far does not keep the next call from returning.\<close>

lemma run_snoc:
  assumes "ok s" and "run step cs s = Inr (rs, s')" and "ready c s'"
  shows "\<exists>r s''. run step (cs @ [c]) s = Inr (rs @ [r], s'') \<and> spec_run spec (cs @ [c]) (view s) (rs @ [r]) (view s'')"
proof -
  from run_spec [OF assms(1,2)] step_returns assms(3) obtain r s'' where "step c s' = Inr (r, s'')" by blast
  with assms(2) have "run step (cs @ [c]) s = Inr (rs @ [r], s'')"
  proof (induction cs arbitrary: s rs)
    case (Cons d cs)
    then show ?case by (auto simp: outcome_simps split: prod.splits)
  qed simp
  with run_spec [OF assms(1) this] show ?thesis by blast
qed

end

end
