(* ===== verification/Signal_Calls.thy ===== *)
theory Signal_Calls
  imports Signals Refinement Allocation
begin

text \<open>
  The signal API as an abstract data type: a finite map from handles to values. The entry points of
  \<open>src/src/hsa/hsa_signal.cc\<close> are named by an operation and a memory order; sequences of calls, which stand for
  any interleaving of the calls of several threads, refine the sequences of the abstract type.
\<close>

section \<open>The calls\<close>

datatype signal_op =
    Load
  | Store i64
  | Exchange i64
  | Compare_Exchange i64 i64
  | Add i64
  | Subtract i64
  | Bit_And i64
  | Bit_Or i64
  | Bit_Xor i64

text \<open>What a call gives back: a value, or nothing.\<close>

definition reads_value :: "'s \<Rightarrow> i64 outcome \<Rightarrow> (i64 option \<times> 's) outcome" where
  "reads_value s m = and_then m (\<lambda>v. Inr (Some v, s))"

definition old_value :: "(i64 \<times> 's) outcome \<Rightarrow> (i64 option \<times> 's) outcome" where
  "old_value m = and_then m (\<lambda>(v, s). Inr (Some v, s))"

definition no_value :: "'s outcome \<Rightarrow> (i64 option \<times> 's) outcome" where
  "no_value m = and_then m (\<lambda>s. Inr (None, s))"

text \<open>The four variants of a read-modify-write operation.\<close>

definition by_order :: "MemoryOrder \<Rightarrow> 'a \<Rightarrow> 'a \<Rightarrow> 'a \<Rightarrow> 'a \<Rightarrow> 'a option" where
  "by_order MO acq_rel acquire relaxed release =
     (case MO of AcquireRelease \<Rightarrow> Some acq_rel | Acquire \<Rightarrow> Some acquire | Relaxed \<Rightarrow> Some relaxed
      | Release \<Rightarrow> Some release | _ \<Rightarrow> None)"

text \<open>The entry point of an operation with a memory order; \<open>None\<close> where the API has none.\<close>

fun signal_entry ::
  "signal_op \<Rightarrow> MemoryOrder \<Rightarrow> u64 \<Rightarrow> 'm signal_state_scheme \<Rightarrow> (i64 option \<times> 'm signal_state_scheme) outcome option" where
  "signal_entry Load MO h s =
     (case MO of Acquire \<Rightarrow> Some (reads_value s (hsa_signal_load_acquire s h))
      | Relaxed \<Rightarrow> Some (reads_value s (hsa_signal_load_relaxed s h)) | _ \<Rightarrow> None)"
| "signal_entry (Store v) MO h s =
     (case MO of Relaxed \<Rightarrow> Some (no_value (hsa_signal_store_relaxed s h v))
      | Release \<Rightarrow> Some (no_value (hsa_signal_store_release s h v)) | _ \<Rightarrow> None)"
| "signal_entry (Exchange v) MO h s =
     map_option old_value (by_order MO (hsa_signal_exchange_acq_rel s h v) (hsa_signal_exchange_acquire s h v)
       (hsa_signal_exchange_relaxed s h v) (hsa_signal_exchange_release s h v))"
| "signal_entry (Compare_Exchange e v) MO h s =
     map_option old_value (by_order MO (hsa_signal_cas_acq_rel s h e v) (hsa_signal_cas_acquire s h e v)
       (hsa_signal_cas_relaxed s h e v) (hsa_signal_cas_release s h e v))"
| "signal_entry (Add v) MO h s =
     map_option no_value (by_order MO (hsa_signal_add_acq_rel s h v) (hsa_signal_add_acquire s h v)
       (hsa_signal_add_relaxed s h v) (hsa_signal_add_release s h v))"
| "signal_entry (Subtract v) MO h s =
     map_option no_value (by_order MO (hsa_signal_subtract_acq_rel s h v) (hsa_signal_subtract_acquire s h v)
       (hsa_signal_subtract_relaxed s h v) (hsa_signal_subtract_release s h v))"
| "signal_entry (Bit_And v) MO h s =
     map_option no_value (by_order MO (hsa_signal_and_acq_rel s h v) (hsa_signal_and_acquire s h v)
       (hsa_signal_and_relaxed s h v) (hsa_signal_and_release s h v))"
| "signal_entry (Bit_Or v) MO h s =
     map_option no_value (by_order MO (hsa_signal_or_acq_rel s h v) (hsa_signal_or_acquire s h v)
       (hsa_signal_or_relaxed s h v) (hsa_signal_or_release s h v))"
| "signal_entry (Bit_Xor v) MO h s =
     map_option no_value (by_order MO (hsa_signal_xor_acq_rel s h v) (hsa_signal_xor_acquire s h v)
       (hsa_signal_xor_relaxed s h v) (hsa_signal_xor_release s h v))"

datatype signal_call =
    Create i64
  | Destroy u64
  | Operate signal_op MemoryOrder u64

datatype signal_reply =
    Created u64
  | Answered hsa_status_t
  | Returned "i64 option"

text \<open>
  One call. The creation is the one of a client that may be any consumer and passes a place for the handle;
  the fault of an operation without entry point stands for a program that does not link.
\<close>

fun signal_step :: "signal_call \<Rightarrow> 'm signal_state_scheme \<Rightarrow> (signal_reply \<times> 'm signal_state_scheme) outcome" where
  "signal_step (Create v) s =
     and_then (hsa_signal_create s v 0 nullptr 8) (\<lambda>(st, h, s').
       Inr (case h of Some c \<Rightarrow> Created c | None \<Rightarrow> Answered st, s'))"
| "signal_step (Destroy h) s = and_then (hsa_signal_destroy s h) (\<lambda>(st, s'). Inr (Answered st, s'))"
| "signal_step (Operate f MO h) s =
     (case signal_entry f MO h s of None \<Rightarrow> Inl Undefined_Behaviour
      | Some m \<Rightarrow> and_then m (\<lambda>(r, s'). Inr (Returned r, s')))"

section \<open>The abstract data type\<close>

text \<open>The effect of an operation on the value of a signal: what it returns, and the new value.\<close>

fun value_effect :: "signal_op \<Rightarrow> i64 \<Rightarrow> i64 option \<times> i64" where
  "value_effect Load x = (Some x, x)"
| "value_effect (Store v) x = (None, v)"
| "value_effect (Exchange v) x = (Some x, v)"
| "value_effect (Compare_Exchange e v) x = (Some x, if x = e then v else x)"
| "value_effect (Add v) x = (None, x + v)"
| "value_effect (Subtract v) x = (None, x - v)"
| "value_effect (Bit_And v) x = (None, x AND v)"
| "value_effect (Bit_Or v) x = (None, x OR v)"
| "value_effect (Bit_Xor v) x = (None, x XOR v)"

text \<open>
  The transitions of the abstract type. A creation picks any unused handle other than 0; an operation on a
  handle that is not in the map has no transition.
\<close>

fun signal_spec :: "signal_call \<Rightarrow> (u64 \<rightharpoonup> i64) \<Rightarrow> signal_reply \<Rightarrow> (u64 \<rightharpoonup> i64) \<Rightarrow> bool" where
  "signal_spec (Create v) M r M' \<longleftrightarrow> (\<exists>c. r = Created c \<and> c \<noteq> 0 \<and> c \<notin> dom M \<and> M' = M(c \<mapsto> v))"
| "signal_spec (Destroy h) M r M' \<longleftrightarrow>
     (if h \<in> dom M then r = Answered HSA_STATUS_SUCCESS \<and> M' = M(h := None)
      else r = Answered (if h = 0 then HSA_STATUS_ERROR_INVALID_ARGUMENT else HSA_STATUS_ERROR_INVALID_SIGNAL) \<and> M' = M)"
| "signal_spec (Operate f MO h) M r M' \<longleftrightarrow>
     (\<exists>x. M h = Some x \<and> r = Returned (fst (value_effect f x)) \<and> M' = M(h \<mapsto> snd (value_effect f x)))"

text \<open>The map that a process state represents, and the calls that a client may make of it.\<close>

definition signal_map :: "'m signal_state_scheme \<Rightarrow> u64 \<rightharpoonup> i64" where
  "signal_map s = (\<lambda>h. if fromHSAObject (SignalRegistry s) h = nullptr then None else SignalValues s h)"

definition has_entry :: "signal_op \<Rightarrow> MemoryOrder \<Rightarrow> bool" where
  "has_entry f MO \<longleftrightarrow>
     MO \<in> (case f of Load \<Rightarrow> {Acquire, Relaxed} | Store _ \<Rightarrow> {Relaxed, Release}
           | _ \<Rightarrow> {AcquireRelease, Acquire, Relaxed, Release})"

definition signal_allowed :: "signal_call \<Rightarrow> (u64 \<rightharpoonup> i64) \<Rightarrow> bool" where
  "signal_allowed c M \<longleftrightarrow> (case c of Operate f MO h \<Rightarrow> has_entry f MO \<and> h \<in> dom M | _ \<Rightarrow> True)"

section \<open>The invariant\<close>

text \<open>The addresses that the host still has to give are no objects and no live chunks of the signals' region.\<close>

definition signals_ready :: "'m signal_state_scheme \<Rightarrow> bool" where
  "signals_ready s \<longleftrightarrow> isInitialized s \<and> Instance s \<noteq> nullptr \<and> signals_inv s \<and>
     distinct (filter (\<lambda>p. p \<noteq> nullptr) (HostHeap s)) \<and>
     set (HostHeap s) \<inter> (dom (Signals s) \<union> cpu_live (signal_region s) s) = {}"

lemma signal_map_cell:
  assumes "signals_inv s" and "signal_map s h = Some v"
  obtains p where "fromHSAObject (SignalRegistry s) h = p" "p \<noteq> nullptr" "signal_cell s p = Inr (h, v)"
    "Signals s p = Some \<lparr>CurrentValue = h, SignalMemory = signal_region s\<rparr>"
proof -
  from assms(2) have "fromHSAObject (SignalRegistry s) h \<noteq> nullptr" "SignalValues s h = Some v"
    by (auto simp: signal_map_def split: if_splits)
  with assms(1) show thesis
    by (intro that [of "fromHSAObject (SignalRegistry s) h"])
      (auto simp: signals_inv_def signal_entry_ok_def signal_cell_def deref_Some)
qed

lemma signal_map_dom:
  "signals_inv s \<Longrightarrow> h \<in> dom (signal_map s) \<longleftrightarrow> fromHSAObject (SignalRegistry s) h \<noteq> nullptr"
  by (auto simp: signal_map_def signals_inv_def signal_entry_ok_def split: if_splits)

lemma signal_map_set_cell:
  assumes "signals_inv s" and "h \<in> dom (signal_map s)"
  shows "signal_map (set_cell h v s) = (signal_map s)(h \<mapsto> v)"
  using assms by (auto simp: signal_map_dom) (auto simp: signal_map_def set_cell_def)

lemma signals_ready_set_cell: "signals_ready s \<Longrightarrow> signals_ready (set_cell c v s)"
  by (simp add: signals_ready_def signals_inv_set_cell isInitialized_def)
    (simp add: set_cell_def signal_region_def cpu_live_def)

section \<open>One step\<close>

lemmas signal_entry_defs = hsa_signal_load_acquire_def hsa_signal_load_relaxed_def
  hsa_signal_store_relaxed_def hsa_signal_store_release_def hsa_signal_exchange_acq_rel_def
  hsa_signal_exchange_acquire_def hsa_signal_exchange_relaxed_def hsa_signal_exchange_release_def
  hsa_signal_cas_acq_rel_def hsa_signal_cas_acquire_def hsa_signal_cas_relaxed_def hsa_signal_cas_release_def
  hsa_signal_add_acq_rel_def hsa_signal_add_acquire_def hsa_signal_add_relaxed_def hsa_signal_add_release_def
  hsa_signal_subtract_acq_rel_def hsa_signal_subtract_acquire_def hsa_signal_subtract_relaxed_def
  hsa_signal_subtract_release_def hsa_signal_and_acq_rel_def hsa_signal_and_acquire_def
  hsa_signal_and_relaxed_def hsa_signal_and_release_def hsa_signal_or_acq_rel_def hsa_signal_or_acquire_def
  hsa_signal_or_relaxed_def hsa_signal_or_release_def hsa_signal_xor_acq_rel_def hsa_signal_xor_acquire_def
  hsa_signal_xor_relaxed_def hsa_signal_xor_release_def

lemma signal_entry_live:
  assumes "signals_ready s" and "signal_map s h = Some v" and "has_entry f MO"
  shows "signal_entry f MO h s = Some (Inr (fst (value_effect f v), set_cell h (snd (value_effect f v)) s))"
proof -
  have inv: "signals_inv s" "Instance s \<noteq> nullptr" using assms(1) by (simp_all add: signals_ready_def)
  from signal_map_cell [OF inv(1) assms(2)] obtain p where p: "fromHSAObject (SignalRegistry s) h = p" "p \<noteq> nullptr"
    "signal_cell s p = Inr (h, v)" "deref (Signals s) p = Inr \<lparr>CurrentValue = h, SignalMemory = signal_region s\<rparr>"
    by (metis deref_Some)
  have "SignalValues s h = Some v" using assms(2) by (auto simp: signal_map_def split: if_splits)
  then have "(SignalValues s)(h \<mapsto> v) = SignalValues s" by (simp add: fun_upd_idem)
  then have same: "set_cell h v s = s" by (simp add: set_cell_def)
  show ?thesis
    using assms(3) p inv(2)
    by (cases f; cases MO) (simp_all add: has_entry_def signal_entry_defs by_order_def reads_value_def old_value_def
        no_value_def same gcc_rmw_defs GCCBuiltinSignal_load_def GCCBuiltinSignal_store_def loadAcquire_def
        loadRelaxed_def storeRelaxed_def storeRelease_def Runtime_memoryFence_def Runtime_flush_def Runtime_get_Inr
        CompareExchange_observed atomic_defs GCCBuiltinSignal_compareExchange_def)
qed

lemma signal_step_live:
  assumes "signals_ready s" and "signal_map s h = Some v" and "has_entry f MO"
  shows "signal_step (Operate f MO h) s = Inr (Returned (fst (value_effect f v)), set_cell h (snd (value_effect f v)) s)"
  using signal_entry_live [OF assms] by (simp del: signal_entry.simps value_effect.simps)

text \<open>What a creation needs of the host: that its two allocations succeed.\<close>

definition supplied :: "'m base_state_scheme \<Rightarrow> bool" where
  "supplied s \<longleftrightarrow> (case HostHeap s of p # c # ps \<Rightarrow> p \<noteq> nullptr \<and> c \<noteq> nullptr | _ \<Rightarrow> False)"

lemma ready_supply:
  assumes "signals_ready s" and "HostHeap s = p # c # ps" and "p \<noteq> nullptr" and "c \<noteq> nullptr"
  shows "signal_supply s p c ps" and "signals_ready (signal_created s p c ps v)" and "c \<notin> dom (signal_map s)"
    and "signal_map (signal_created s p c ps v) = (signal_map s)(c \<mapsto> v)"
proof -
  have inv: "signals_inv s" using assms(1) by (simp add: signals_ready_def)
  show sup: "signal_supply s p c ps"
    using assms by (auto simp: signals_ready_def signal_supply_def)
  show "c \<notin> dom (signal_map s)" using signals_inv_supply(1) [OF inv sup] by (simp add: signal_map_dom [OF inv])
  show "signals_ready (signal_created s p c ps v)"
    using assms signals_inv_created [OF inv sup] by (auto simp: signals_ready_def isInitialized_def split: if_splits)
  show "signal_map (signal_created s p c ps v) = (signal_map s)(c \<mapsto> v)"
    using assms(3) by (auto simp: signal_map_def om.find_enter)
qed

lemma create_supplied:
  assumes "hsa_signal_create s v 0 nullptr 8 = Inr (st, h, s')" and "isInitialized s"
  shows "supplied s"
proof -
  from assms obtain r rs p s1 where "MemoryRegions s = r # rs" "GCCBuiltinSignal_new v r s = Inr (p, s1)"
    by (auto simp: hsa_signal_create_def CPURuntime_createSignal_def outcome_simps split: list.splits)
  then obtain s0 c s2 where new: "operator_new s = Inr (p, s0)" "CPUMemoryRegion_allocate r s0 8 8 = Inr (c, s2)" "c \<noteq> nullptr"
    by (auto simp: GCCBuiltinSignal_new_def outcome_simps split: if_splits)
  from new(1) obtain H where "p \<noteq> nullptr" "HostHeap s = p # H" "HostHeap s0 = H" by (rule operator_new_Inr) simp
  moreover from new(2) have "took c (HostHeap s0) (HostHeap s2)" by (rule allocate_Inr) simp
  ultimately show ?thesis using new(3) by (simp add: supplied_def took_def)
qed

lemma create_step:
  assumes "signals_ready s" and "supplied s"
  shows "\<exists>c s'. signal_step (Create v) s = Inr (Created c, s') \<and> c \<noteq> 0 \<and> c \<notin> dom (signal_map s) \<and>
    signal_map s' = (signal_map s)(c \<mapsto> v) \<and> signals_ready s'"
proof -
  from assms(2) obtain p c ps where H: "HostHeap s = p # c # ps" "p \<noteq> nullptr" "c \<noteq> nullptr"
    by (auto simp: supplied_def split: list.splits)
  note sup = ready_supply [OF assms(1) H]
  have "hsa_signal_create s v 0 nullptr 8 = Inr (HSA_STATUS_SUCCESS, Some c, signal_created s p c ps v)"
    by (rule hsa_signal_create_eq) (use assms(1) sup(1) in \<open>simp_all add: signals_ready_def\<close>)
  then show ?thesis using sup H by simp
qed

lemma destroy_step:
  assumes "signals_ready s"
  shows "\<exists>r s'. signal_step (Destroy h) s = Inr (r, s') \<and> signal_spec (Destroy h) (signal_map s) r (signal_map s') \<and>
    signals_ready s'"
proof -
  have inv: "signals_inv s" and init: "isInitialized s" using assms by (simp_all add: signals_ready_def)
  show ?thesis
  proof (cases "fromHSAObject (SignalRegistry s) h = nullptr")
    case True
    with init have "signal_step (Destroy h) s =
        Inr (Answered (if h = 0 then HSA_STATUS_ERROR_INVALID_ARGUMENT else HSA_STATUS_ERROR_INVALID_SIGNAL), s)"
      by (simp add: hsa_signal_destroy_def)
    with True assms show ?thesis using signal_map_dom [OF inv, of h] by auto
  next
    case False
    define p where "p = fromHSAObject (SignalRegistry s) h"
    have wf: "wf_registry (SignalRegistry s)" using inv by (simp add: signals_inv_def)
    have "hsa_signal_destroy s h = Inr (HSA_STATUS_SUCCESS, signal_destroyed s p h)"
      using hsa_signal_destroy_eq [OF init inv] False p_def by simp
    moreover have "signal_map (signal_destroyed s p h) = (signal_map s)(h := None)"
    proof
      fix h'
      have "fromHSAObject (SignalRegistry s) h' = p \<longleftrightarrow> h' = h"
      proof
        assume "fromHSAObject (SignalRegistry s) h' = p"
        with inv False p_def have "signal_entry_ok s h' p" "signal_entry_ok s h p" unfolding signals_inv_def by metis+
        then show "h' = h" by (auto simp: signal_entry_ok_def)
      qed (simp add: p_def)
      then show "signal_map (signal_destroyed s p h) h' = ((signal_map s)(h := None)) h'"
        using False by (simp add: signal_map_def om.find_remove [OF wf] p_def)
    qed
    moreover have "signals_ready (signal_destroyed s p h)"
      using assms signals_inv_destroyed [OF inv] False
      by (auto simp: signals_ready_def p_def isInitialized_def)
    ultimately show ?thesis using signal_map_dom [OF inv, of h] False by auto
  qed
qed

lemma operate_step:
  assumes "signals_ready s" and "signal_step (Operate f MO h) s = Inr (r, s')"
  obtains x where "signal_map s h = Some x" "has_entry f MO"
proof -
  obtain m where m: "signal_entry f MO h s = Some m" "m \<noteq> Inl e" for e
    using assms(2) by (auto split: option.splits simp: outcome_simps)
  then have "has_entry f MO"
    by (cases f; cases MO) (auto simp: has_entry_def by_order_def)
  moreover have "h \<in> dom (signal_map s)"
  proof (rule ccontr)
    assume "h \<notin> dom (signal_map s)"
    then have "fromHSAObject (SignalRegistry s) h = nullptr"
      using assms(1) signal_map_dom by (auto simp: signals_ready_def)
    with m show False
      by (cases f; cases MO) (auto simp: by_order_def signal_entry_defs reads_value_def old_value_def no_value_def
        GCCBuiltinSignal_load_def GCCBuiltinSignal_store_def gcc_rmw_defs GCCBuiltinSignal_compareExchange_def signal_cell_def)
  qed
  ultimately show thesis using that by auto
qed

section \<open>The refinement\<close>

definition signal_call_ready :: "signal_call \<Rightarrow> 'm signal_state_scheme \<Rightarrow> bool" where
  "signal_call_ready c s \<longleftrightarrow>
     (case c of Create v \<Rightarrow> supplied s | Destroy h \<Rightarrow> True | Operate f MO h \<Rightarrow> has_entry f MO \<and> h \<in> dom (signal_map s))"

lemma signal_step_ready:
  assumes "signals_ready s" and "signal_call_ready c s"
  shows "\<exists>r s'. signal_step c s = Inr (r, s') \<and> signal_spec c (signal_map s) r (signal_map s') \<and> signals_ready s'"
proof (cases c)
  case (Create v)
  with assms create_step [of s v] show ?thesis by (auto simp: signal_call_ready_def)
next
  case (Destroy h)
  with destroy_step [OF assms(1), of h] show ?thesis by simp
next
  case (Operate f MO h)
  with assms obtain x where x: "signal_map s h = Some x" "has_entry f MO" by (auto simp: signal_call_ready_def)
  moreover have "signal_map (set_cell h v s) = (signal_map s)(h \<mapsto> v)" for v
    using assms(1) x(1) by (intro signal_map_set_cell) (auto simp: signals_ready_def)
  ultimately show ?thesis
    using Operate signal_step_live [OF assms(1) x] signals_ready_set_cell [OF assms(1)] by simp
qed

lemma signal_step_was_ready:
  assumes "signals_ready s" and "signal_step c s = Inr (r, s')"
  shows "signal_call_ready c s"
proof (cases c)
  case (Create v)
  with assms create_supplied [of s v] show ?thesis by (auto simp: signal_call_ready_def signals_ready_def outcome_simps)
next
  case (Operate f MO h)
  with assms operate_step [OF assms(1), of f MO h r s'] show ?thesis by (auto simp: signal_call_ready_def)
qed (simp add: signal_call_ready_def)

interpretation signals: refines signal_step signal_spec signal_map signals_ready signal_call_ready
proof
  fix c and s s' :: "'m signal_state_scheme" and r
  assume ok: "signals_ready s" and step: "signal_step c s = Inr (r, s')"
  from signal_step_ready [OF ok signal_step_was_ready [OF ok step]] step
  show "signal_spec c (signal_map s) r (signal_map s')" and "signals_ready s'" by auto
next
  fix c and s :: "'m signal_state_scheme"
  assume "signals_ready s" and "signal_call_ready c s"
  then show "\<exists>r s'. signal_step c s = Inr (r, s')" using signal_step_ready by blast
qed

text \<open>
  C10. The signals are a map from handles to values, for any sequence of creations, destructions and operations with
  any memory order, and so for any interleaving of the threads that use them: what the calls return and the values that
  remain are those of the abstract type, in which a new signal has an unused handle and its initial value, an
  operation changes one value by the effect of its name and returns the old one where it returns something, and a
  destroyed handle is gone. After any such sequence the next call returns if it is a destruction, or an operation
  on a live handle, or a creation for which the host has two addresses.
\<close>

theorem signals_refine_map:
  assumes "signals_ready s" and "run signal_step cs s = Inr (rs, s')"
  shows "spec_run signal_spec cs (signal_map s) rs (signal_map s') \<and>
    (signal_call_ready c s' \<longrightarrow> (\<exists>r s''. run signal_step (cs @ [c]) s = Inr (rs @ [r], s'')))"
  using signals.run_spec [OF assms] signals.run_snoc [OF assms] by blast

definition signal_demo_calls :: "signal_call list" where
  "signal_demo_calls = [Create 5, Operate (Compare_Exchange 5 9) AcquireRelease 4104, Operate (Add 2) Relaxed 4104,
     Operate Load Acquire 4104, Destroy 4104]"

lemma signal_demo_ready: "signals_ready signal_demo"
  using signal_demo_ok by (simp add: signals_ready_def) (simp add: signal_demo_def cpu_live_def signal_region_def)

lemma signal_demo_run:
  "\<exists>s'. run signal_step signal_demo_calls signal_demo = Inr ([Created 4104, Returned (Some 5), Returned None,
     Returned (Some 11), Answered HSA_STATUS_SUCCESS], s') \<and> signal_call_ready (Create 7) s'"
proof -
  have sup: "HostHeap signal_demo = 4096 # 4104 # [4112, 4120]" by (simp add: signal_demo_def)
  note new = ready_supply [OF signal_demo_ready sup, simplified]
  let ?s1 = "signal_created signal_demo 4096 4104 [4112, 4120] 5"
  have s1: "signals_ready ?s1" "signal_map ?s1 4104 = Some 5" using new by auto
  have "hsa_signal_create signal_demo 5 0 nullptr 8 = Inr (HSA_STATUS_SUCCESS, Some 4104, ?s1)"
    by (rule hsa_signal_create_eq) (use signal_demo_ok in simp_all)
  then have 1: "signal_step (Create 5) signal_demo = Inr (Created 4104, ?s1)" by simp
  let ?s2 = "set_cell 4104 9 ?s1" and ?s3 = "set_cell 4104 11 (set_cell 4104 9 ?s1)"
  have ready: "signals_ready ?s2" "signals_ready ?s3" using s1(1) signals_ready_set_cell by blast+
  have map: "signal_map ?s2 4104 = Some 9" "signal_map ?s3 4104 = Some 11"
    using s1(2) by (auto simp: signal_map_def set_cell_def split: if_splits)
  have same: "set_cell 4104 11 ?s3 = ?s3" by (simp add: set_cell_def)
  have has: "has_entry (Compare_Exchange 5 9) AcquireRelease" "has_entry (Add 2) Relaxed" "has_entry Load Acquire"
    by (simp_all add: has_entry_def)
  have 2: "signal_step (Operate (Compare_Exchange 5 9) AcquireRelease 4104) ?s1 = Inr (Returned (Some 5), ?s2)"
    using signal_step_live [OF s1 has(1)] by simp
  have 3: "signal_step (Operate (Add 2) Relaxed 4104) ?s2 = Inr (Returned None, ?s3)"
    using signal_step_live [OF ready(1) map(1) has(2)] by simp
  have 4: "signal_step (Operate Load Acquire 4104) ?s3 = Inr (Returned (Some 11), ?s3)"
    using signal_step_live [OF ready(2) map(2) has(3)] same by simp
  obtain p where p: "fromHSAObject (SignalRegistry ?s3) 4104 = p" "p \<noteq> nullptr"
    using map(2) by (auto simp: signal_map_def split: if_splits)
  then have "hsa_signal_destroy ?s3 4104 = Inr (HSA_STATUS_SUCCESS, signal_destroyed ?s3 p 4104)"
    using hsa_signal_destroy_eq [of ?s3 4104] ready(2) by (auto simp: signals_ready_def)
  then have 5: "signal_step (Destroy 4104) ?s3 = Inr (Answered HSA_STATUS_SUCCESS, signal_destroyed ?s3 p 4104)" by simp
  have "supplied (signal_destroyed ?s3 p 4104)" by (simp add: supplied_def) (simp add: set_cell_def)
  with 1 2 3 4 5 show ?thesis by (simp add: signal_demo_calls_def signal_call_ready_def del: signal_step.simps)
qed

theorem signals_refine_map_witness:
  "\<exists>rs s'. run signal_step signal_demo_calls signal_demo = Inr (rs, s') \<and>
    rs = [Created 4104, Returned (Some 5), Returned None, Returned (Some 11), Answered HSA_STATUS_SUCCESS] \<and>
    spec_run signal_spec signal_demo_calls (signal_map signal_demo) rs (signal_map s') \<and>
    (\<exists>r s''. run signal_step (signal_demo_calls @ [Create 7]) signal_demo = Inr (rs @ [r], s''))"
proof -
  obtain s' where s': "run signal_step signal_demo_calls signal_demo = Inr ([Created 4104, Returned (Some 5), Returned None,
     Returned (Some 11), Answered HSA_STATUS_SUCCESS], s')" "signal_call_ready (Create 7) s'"
    using signal_demo_run by blast
  from signals_refine_map [OF signal_demo_ready s'(1), of "Create 7"] s' show ?thesis by blast
qed

end
