(* ===== verification/Queue_Calls.thy ===== *)
theory Queue_Calls
  imports Queues Refinement
begin

text \<open>
  The read and write index entry points of \<open>src/src/hsa/hsa_queue.cc\<close> as an abstract data type: two counters for
  each queue. The entry points are named by an operation and a memory order; any sequence of their calls refines
  the sequence on the counters.
\<close>

section \<open>The calls\<close>

datatype index_op =
    Load_Read
  | Load_Write
  | Store_Read u64
  | Store_Write u64
  | Cas_Write u64 u64
  | Add_Write u64

definition index_read :: "'s \<Rightarrow> u64 outcome \<Rightarrow> (u64 option \<times> 's) outcome" where
  "index_read s m = and_then m (\<lambda>v. Inr (Some v, s))"

definition index_old :: "(u64 \<times> 's) outcome \<Rightarrow> (u64 option \<times> 's) outcome" where
  "index_old m = and_then m (\<lambda>(v, s). Inr (Some v, s))"

definition index_set :: "'s outcome \<Rightarrow> (u64 option \<times> 's) outcome" where
  "index_set m = and_then m (\<lambda>s. Inr (None, s))"

text \<open>The entry point of an operation with a memory order; \<open>None\<close> where the API has none.\<close>

fun index_entry ::
  "index_op \<Rightarrow> MemoryOrder \<Rightarrow> addr \<Rightarrow> 'm queue_state_scheme \<Rightarrow> (u64 option \<times> 'm queue_state_scheme) outcome option" where
  "index_entry Load_Read MO q s =
     (case MO of Acquire \<Rightarrow> Some (index_read s (hsa_queue_load_read_index_acquire s q))
      | Relaxed \<Rightarrow> Some (index_read s (hsa_queue_load_read_index_relaxed s q)) | _ \<Rightarrow> None)"
| "index_entry Load_Write MO q s =
     (case MO of Acquire \<Rightarrow> Some (index_read s (hsa_queue_load_write_index_acquire s q))
      | Relaxed \<Rightarrow> Some (index_read s (hsa_queue_load_write_index_relaxed s q)) | _ \<Rightarrow> None)"
| "index_entry (Store_Read v) MO q s =
     (case MO of Relaxed \<Rightarrow> Some (index_set (hsa_queue_store_read_index_relaxed s q v))
      | Release \<Rightarrow> Some (index_set (hsa_queue_store_read_index_release s q v)) | _ \<Rightarrow> None)"
| "index_entry (Store_Write v) MO q s =
     (case MO of Relaxed \<Rightarrow> Some (index_set (hsa_queue_store_write_index_relaxed s q v))
      | Release \<Rightarrow> Some (index_set (hsa_queue_store_write_index_release s q v)) | _ \<Rightarrow> None)"
| "index_entry (Cas_Write e v) MO q s =
     (case MO of AcquireRelease \<Rightarrow> Some (index_old (hsa_queue_cas_write_index_acq_rel s q e v))
      | Acquire \<Rightarrow> Some (index_old (hsa_queue_cas_write_index_acquire s q e v))
      | Relaxed \<Rightarrow> Some (index_old (hsa_queue_cas_write_index_relaxed s q e v))
      | Release \<Rightarrow> Some (index_old (hsa_queue_cas_write_index_release s q e v)) | _ \<Rightarrow> None)"
| "index_entry (Add_Write n) MO q s =
     (case MO of AcquireRelease \<Rightarrow> Some (index_old (hsa_queue_add_write_index_acq_rel s q n))
      | Acquire \<Rightarrow> Some (index_old (hsa_queue_add_write_index_acquire s q n))
      | Relaxed \<Rightarrow> Some (index_old (hsa_queue_add_write_index_relaxed s q n))
      | Release \<Rightarrow> Some (index_old (hsa_queue_add_write_index_release s q n)) | _ \<Rightarrow> None)"

lemmas index_entry_defs = hsa_queue_load_read_index_acquire_def hsa_queue_load_read_index_relaxed_def
  hsa_queue_load_write_index_acquire_def hsa_queue_load_write_index_relaxed_def hsa_queue_store_write_index_relaxed_def
  hsa_queue_store_write_index_release_def hsa_queue_store_read_index_relaxed_def hsa_queue_store_read_index_release_def
  hsa_queue_cas_write_index_acq_rel_def hsa_queue_cas_write_index_acquire_def hsa_queue_cas_write_index_relaxed_def
  hsa_queue_cas_write_index_release_def hsa_queue_add_write_index_acq_rel_def hsa_queue_add_write_index_acquire_def
  hsa_queue_add_write_index_relaxed_def hsa_queue_add_write_index_release_def

lemmas index_operation_defs = UserModeQueue_loadReadIndex_def UserModeQueue_loadWriteIndex_def
  UserModeQueue_storeReadIndex_def UserModeQueue_storeWriteIndex_def UserModeQueue_addWriteIndex_def
  UserModeQueue_compareExchangeWriteIndex_def update_queue_def

datatype index_call = Index_Call index_op MemoryOrder addr

fun index_step :: "index_call \<Rightarrow> 'm queue_state_scheme \<Rightarrow> (u64 option \<times> 'm queue_state_scheme) outcome" where
  "index_step (Index_Call f MO q) s = (case index_entry f MO q s of None \<Rightarrow> Inl Undefined_Behaviour | Some m \<Rightarrow> m)"

section \<open>The abstract data type\<close>

text \<open>The effect on a pair of counters (read, write).\<close>

fun index_effect :: "index_op \<Rightarrow> u64 \<times> u64 \<Rightarrow> u64 option \<times> u64 \<times> u64" where
  "index_effect Load_Read (r, w) = (Some r, r, w)"
| "index_effect Load_Write (r, w) = (Some w, r, w)"
| "index_effect (Store_Read v) (r, w) = (None, v, w)"
| "index_effect (Store_Write v) (r, w) = (None, r, v)"
| "index_effect (Cas_Write e v) (r, w) = (Some w, r, if w = e then v else w)"
| "index_effect (Add_Write n) (r, w) = (Some w, r, w + n)"

fun index_spec :: "index_call \<Rightarrow> (addr \<rightharpoonup> u64 \<times> u64) \<Rightarrow> u64 option \<Rightarrow> (addr \<rightharpoonup> u64 \<times> u64) \<Rightarrow> bool" where
  "index_spec (Index_Call f MO q) M a M' \<longleftrightarrow>
     (\<exists>x. M q = Some x \<and> a = fst (index_effect f x) \<and> M' = M(q \<mapsto> snd (index_effect f x)))"

definition indices :: "UserModeQueue \<Rightarrow> u64 \<times> u64" where
  "indices Q = (read_index (HSAQueue Q), write_index (HSAQueue Q))"

definition index_map :: "'m queue_state_scheme \<Rightarrow> addr \<rightharpoonup> u64 \<times> u64" where
  "index_map s = (\<lambda>q. if q = nullptr then None else map_option indices (Queues s q))"

definition has_index_entry :: "index_op \<Rightarrow> MemoryOrder \<Rightarrow> bool" where
  "has_index_entry f MO \<longleftrightarrow>
     MO \<in> (case f of Load_Read \<Rightarrow> {Acquire, Relaxed} | Load_Write \<Rightarrow> {Acquire, Relaxed}
           | Store_Read _ \<Rightarrow> {Relaxed, Release} | Store_Write _ \<Rightarrow> {Relaxed, Release}
           | _ \<Rightarrow> {AcquireRelease, Acquire, Relaxed, Release})"

text \<open>Every queue is its own identifier, which is what \<open>hsa_queue_create\<close> sets.\<close>

definition queues_named :: "'m queue_state_scheme \<Rightarrow> bool" where
  "queues_named s \<longleftrightarrow> (\<forall>q Q. Queues s q = Some Q \<longrightarrow> queue_id (HSAQueue Q) = q)"

definition index_call_ready :: "index_call \<Rightarrow> 'm queue_state_scheme \<Rightarrow> bool" where
  "index_call_ready c s \<longleftrightarrow> (case c of Index_Call f MO q \<Rightarrow> has_index_entry f MO \<and> q \<in> dom (index_map s))"

section \<open>The refinement\<close>

definition with_indices :: "u64 \<times> u64 \<Rightarrow> UserModeQueue \<Rightarrow> UserModeQueue" where
  "with_indices x Q = Q\<lparr>HSAQueue := (HSAQueue Q)\<lparr>read_index := fst x, write_index := snd x\<rparr>\<rparr>"

lemma with_indices_simps [simp]:
  "indices (with_indices x Q) = x" "queue_id (HSAQueue (with_indices x Q)) = queue_id (HSAQueue Q)"
  "with_indices (indices Q) Q = Q"
  by (simp_all add: with_indices_def indices_def)

lemma with_indices_write: "Q\<lparr>HSAQueue := (HSAQueue Q)\<lparr>write_index := v\<rparr>\<rparr> = with_indices (read_index (HSAQueue Q), v) Q"
  and with_indices_read: "Q\<lparr>HSAQueue := (HSAQueue Q)\<lparr>read_index := v\<rparr>\<rparr> = with_indices (v, write_index (HSAQueue Q)) Q"
  by (simp_all add: with_indices_def)

lemma index_step_live:
  assumes "queues_named s" and "q \<noteq> nullptr" and "Queues s q = Some Q" and "has_index_entry f MO"
  shows "index_step (Index_Call f MO q) s =
    Inr (fst (index_effect f (indices Q)), s\<lparr>Queues := (Queues s)(q \<mapsto> with_indices (snd (index_effect f (indices Q))) Q)\<rparr>)"
proof -
  have id: "queue_id (HSAQueue Q) = q" using assms by (auto simp: queues_named_def)
  have same: "s\<lparr>Queues := (Queues s)(q \<mapsto> Q)\<rparr> = s" using assms(3) by (simp add: fun_upd_idem)
  have find: "FindQueue s q = Inr q" and Q: "deref (Queues s) q = Inr Q"
    using assms id by (simp_all add: FindQueue_def deref_Some)
  obtain r w where rw: "indices Q = (r, w)" by (cases "indices Q")
  then have at: "read_index (HSAQueue Q) = r" "write_index (HSAQueue Q) = w" "with_indices (r, w) Q = Q"
    by (auto simp: indices_def with_indices_def)
  note queue = find Q rw at with_indices_write [of _ Q, unfolded at] with_indices_read [of _ Q, unfolded at]
    index_read_def index_old_def index_set_def
  show ?thesis
  proof (cases f)
    case Load_Read
    with assms(4) show ?thesis
      by (cases MO) (simp_all add: has_index_entry_def index_entry_defs index_operation_defs queue same atomic_defs)
  next
    case Load_Write
    with assms(4) show ?thesis
      by (cases MO) (simp_all add: has_index_entry_def index_entry_defs index_operation_defs queue same atomic_defs)
  next
    case (Store_Read v)
    with assms(4) show ?thesis
      by (cases MO) (simp_all add: has_index_entry_def index_entry_defs index_operation_defs queue atomic_defs)
  next
    case (Store_Write v)
    with assms(4) show ?thesis
      by (cases MO) (simp_all add: has_index_entry_def index_entry_defs index_operation_defs queue atomic_defs)
  next
    case (Cas_Write e v)
    with assms(4) show ?thesis
      by (cases MO) (simp_all add: has_index_entry_def index_entry_defs index_operation_defs queue CompareExchange_observed)
  next
    case (Add_Write n)
    with assms(4) show ?thesis
      by (cases MO) (simp_all add: has_index_entry_def index_entry_defs index_operation_defs queue atomic_defs)
  qed
qed

lemma index_step_ready:
  assumes "queues_named s" and "index_call_ready c s"
  shows "\<exists>r s'. index_step c s = Inr (r, s') \<and> index_spec c (index_map s) r (index_map s') \<and> queues_named s'"
proof -
  obtain f MO q where c: "c = Index_Call f MO q" by (cases c)
  with assms(2) obtain Q where Q: "q \<noteq> nullptr" "Queues s q = Some Q" "has_index_entry f MO"
    by (auto simp: index_call_ready_def index_map_def split: if_splits)
  define Q' where "Q' = with_indices (snd (index_effect f (indices Q))) Q"
  have "queues_named (s\<lparr>Queues := (Queues s)(q \<mapsto> Q')\<rparr>)"
    using assms(1) Q by (auto simp: queues_named_def Q'_def)
  moreover have "index_map (s\<lparr>Queues := (Queues s)(q \<mapsto> Q')\<rparr>) = (index_map s)(q \<mapsto> snd (index_effect f (indices Q)))"
    using Q by (auto simp: index_map_def Q'_def)
  ultimately show ?thesis using c Q index_step_live [OF assms(1) Q] by (auto simp: index_map_def Q'_def)
qed

lemma index_step_was_ready:
  assumes "index_step c s = Inr (r, s')"
  shows "index_call_ready c s"
proof -
  obtain f MO q where c: "c = Index_Call f MO q" by (cases c)
  with assms have "has_index_entry f MO" by (cases f; cases MO) (simp_all add: has_index_entry_def)
  moreover have "q \<in> dom (index_map s)"
  proof (rule ccontr)
    assume "q \<notin> dom (index_map s)"
    then have "FindQueue s q = Inl (if q = nullptr then Null_Dereference else Undefined_Behaviour)"
      by (cases "Queues s q") (auto simp: index_map_def FindQueue_def deref_def split: if_splits)
    with assms c show False
      by (cases f; cases MO) (simp_all add: index_entry_defs index_read_def index_old_def index_set_def)
  qed
  ultimately show ?thesis using c by (simp add: index_call_ready_def)
qed

interpretation queue_indices: refines index_step index_spec index_map queues_named index_call_ready
proof
  fix c and s s' :: "'m queue_state_scheme" and r
  assume ok: "queues_named s" and step: "index_step c s = Inr (r, s')"
  from index_step_ready [OF ok index_step_was_ready [OF step]] step
  show "index_spec c (index_map s) r (index_map s')" and "queues_named s'" by auto
next
  fix c and s :: "'m queue_state_scheme"
  assume "queues_named s" and "index_call_ready c s"
  then show "\<exists>r s'. index_step c s = Inr (r, s')" using index_step_ready by blast
qed

text \<open>
  C11. The indices of the queues are pairs of counters: for any sequence of loads, stores, additions and
  compare-and-swaps on any queues, with any memory order, what the calls return and the indices that remain are those
  of the counters, and a further call on a live queue returns.
\<close>

theorem queue_indices_refine_counters:
  assumes "queues_named s" and "run index_step cs s = Inr (rs, s')"
  shows "spec_run index_spec cs (index_map s) rs (index_map s') \<and>
    (index_call_ready c s' \<longrightarrow> (\<exists>r s''. run index_step (cs @ [c]) s = Inr (rs @ [r], s'')))"
  using queue_indices.run_spec [OF assms] queue_indices.run_snoc [OF assms] by blast

text \<open>Two queues, the second of which is about to wrap around.\<close>

definition index_queue :: "addr \<Rightarrow> u64 \<Rightarrow> u64 \<Rightarrow> UserModeQueue" where
  "index_queue q r w =
     \<lparr>HSAQueue = \<lparr>queue_type = HSA_QUEUE_TYPE_MULTI, queue_features = 1, base_address = q + 0x1000, doorbell_signal = q + 0x2000,
        queue_size = 8, queue_reserved1 = 0, queue_id = q, read_index = r, write_index = w\<rparr>,
      QueueOwner = nullptr, Destroyed = False, Inactivated = False, PacketIsProcessed = [],
      LastHandledDoorBell = i64_max, Region = 16, CB = nullptr, IsDoorbellOwned = True\<rparr>"

definition index_demo :: queue_state where
  "index_demo = \<lparr>ReferenceCounter = 1, Instance = 8, HostHeap = [], RegionRegistry = [], CPURegions = Map.empty,
     MemoryRegions = [16], SignalRegistry = [], Signals = Map.empty, SignalValues = Map.empty,
     QueueRegistry = [(0x100, 0x100), (0x200, 0x200)],
     Queues = [0x100 \<mapsto> index_queue 0x100 3 5, 0x200 \<mapsto> index_queue 0x200 0 (-1)], Buffers = Map.empty\<rparr>"

lemma index_demo_named: "queues_named index_demo"
  by (simp add: queues_named_def index_demo_def index_queue_def)

definition index_demo_calls :: "index_call list" where
  "index_demo_calls = [Index_Call (Add_Write 4) Relaxed 0x100, Index_Call (Add_Write 1) AcquireRelease 0x200,
     Index_Call (Cas_Write 5 20) Release 0x100, Index_Call Load_Write Acquire 0x200, Index_Call Load_Read Relaxed 0x100]"

lemma index_step_map:
  assumes "queues_named s" and "index_map s q = Some x" and "has_index_entry f MO" and "index_effect f x = (r, y)"
  obtains s' where "index_step (Index_Call f MO q) s = Inr (r, s')" "queues_named s'" "index_map s' = (index_map s)(q \<mapsto> y)"
proof -
  have "index_call_ready (Index_Call f MO q) s" using assms by (simp add: index_call_ready_def dom_def)
  from index_step_ready [OF assms(1) this] assms(2,4) show thesis by (auto intro: that)
qed

lemma index_demo_run:
  "\<exists>s'. run index_step index_demo_calls index_demo = Inr ([Some 5, Some (-1), Some 9, Some 0, Some 3], s') \<and>
    index_call_ready (Index_Call Load_Write Relaxed 0x100) s'"
proof -
  have map: "index_map index_demo = [0x100 \<mapsto> (3, 5), 0x200 \<mapsto> (0, - 1)]"
    by (auto simp: index_map_def index_demo_def index_queue_def indices_def)
  have has: "has_index_entry (Add_Write 4) Relaxed" "has_index_entry (Add_Write 1) AcquireRelease"
    "has_index_entry (Cas_Write 5 20) Release" "has_index_entry Load_Write Acquire" "has_index_entry Load_Read Relaxed"
    by (simp_all add: has_index_entry_def)
  obtain s1 where 1: "index_step (Index_Call (Add_Write 4) Relaxed 0x100) index_demo = Inr (Some 5, s1)" "queues_named s1"
    "index_map s1 = [0x100 \<mapsto> (3, 9), 0x200 \<mapsto> (0, - 1)]"
    by (rule index_step_map [where q = "0x100" and x = "(3, 5)", OF index_demo_named _ has(1)]) (auto simp del: index_step.simps simp: map fun_upd_twist)
  obtain s2 where 2: "index_step (Index_Call (Add_Write 1) AcquireRelease 0x200) s1 = Inr (Some (-1), s2)"
    "queues_named s2" "index_map s2 = [0x100 \<mapsto> (3, 9), 0x200 \<mapsto> (0, 0)]"
    by (rule index_step_map [where q = "0x200" and x = "(0, - 1)", OF 1(2) _ has(2)]) (auto simp del: index_step.simps simp: 1(3))
  obtain s3 where 3: "index_step (Index_Call (Cas_Write 5 20) Release 0x100) s2 = Inr (Some 9, s3)" "queues_named s3"
    "index_map s3 = [0x100 \<mapsto> (3, 9), 0x200 \<mapsto> (0, 0)]"
    by (rule index_step_map [where q = "0x100" and x = "(3, 9)", OF 2(2) _ has(3)]) (auto simp del: index_step.simps simp: 2(3) fun_upd_twist)
  obtain s4 where 4: "index_step (Index_Call Load_Write Acquire 0x200) s3 = Inr (Some 0, s4)" "queues_named s4"
    "index_map s4 = [0x100 \<mapsto> (3, 9), 0x200 \<mapsto> (0, 0)]"
    by (rule index_step_map [where q = "0x200" and x = "(0, 0)", OF 3(2) _ has(4)]) (auto simp del: index_step.simps simp: 3(3))
  obtain s5 where 5: "index_step (Index_Call Load_Read Relaxed 0x100) s4 = Inr (Some 3, s5)" "queues_named s5"
    "index_map s5 = [0x100 \<mapsto> (3, 9), 0x200 \<mapsto> (0, 0)]"
    by (rule index_step_map [where q = "0x100" and x = "(3, 9)", OF 4(2) _ has(5)]) (auto simp del: index_step.simps simp: 4(3) fun_upd_twist)
  have "index_call_ready (Index_Call Load_Write Relaxed 0x100) s5" using 5(3) by (simp add: index_call_ready_def has_index_entry_def)
  with 1 2 3 4 5 show ?thesis by (simp add: index_demo_calls_def del: index_step.simps)
qed

theorem queue_indices_refine_counters_witness:
  "\<exists>rs s'. run index_step index_demo_calls index_demo = Inr (rs, s') \<and>
    rs = [Some 5, Some (-1), Some 9, Some 0, Some 3] \<and>
    spec_run index_spec index_demo_calls (index_map index_demo) rs (index_map s') \<and>
    (\<exists>r s''. run index_step (index_demo_calls @ [Index_Call Load_Write Relaxed 0x100]) index_demo = Inr (rs @ [r], s''))"
proof -
  obtain s' where s': "run index_step index_demo_calls index_demo = Inr ([Some 5, Some (-1), Some 9, Some 0, Some 3], s')"
    "index_call_ready (Index_Call Load_Write Relaxed 0x100) s'"
    using index_demo_run by blast
  from queue_indices_refine_counters [OF index_demo_named s'(1), of "Index_Call Load_Write Relaxed 0x100"] s'
  show ?thesis by blast
qed

end
