(* ===== verification/Process_Types.thy ===== *)
theory Process_Types
  imports Runtime_Claims Amd_Ext Image_Ext Allocation Directories Signal_Calls Queue_Calls
begin

text \<open>
  The typing of the process: every directory of handles is sound for its map of objects, the addresses that the
  host has still to give are none of the objects, code objects own live symbols and live signals have values. Each operation that the entry points are made of keeps the
  typing; those that no construction or destruction of the runtime is part of leave the platform alone: the reference
  counter, the instance, the agents and the regions.
\<close>

section \<open>The typing of a process\<close>

text \<open>
  A code object owns the symbols that were loaded from it: they are alive, and no other code object has them. The
  value of a live signal is in the memory of the signals.
\<close>

definition symbols_owned :: "(addr \<rightharpoonup> FinalizedProgram) \<Rightarrow> (addr \<rightharpoonup> symbol_object) \<Rightarrow> bool" where
  "symbols_owned codes symbols \<longleftrightarrow>
     (\<forall>p P. codes p = Some P \<longrightarrow> distinct (ProgSymbols P) \<and> set (ProgSymbols P) \<subseteq> dom symbols) \<and>
     (\<forall>p q P Q. codes p = Some P \<longrightarrow> codes q = Some Q \<longrightarrow> p \<noteq> q \<longrightarrow> set (ProgSymbols P) \<inter> set (ProgSymbols Q) = {})"

definition signals_valued :: "(addr \<rightharpoonup> GCCBuiltinSignal) \<Rightarrow> (addr \<rightharpoonup> i64) \<Rightarrow> bool" where
  "signals_valued signals values \<longleftrightarrow>
     (\<forall>p S. signals p = Some S \<longrightarrow> CurrentValue S \<noteq> nullptr \<and> CurrentValue S \<in> dom values)"

lemma symbols_ownedD:
  assumes "symbols_owned codes symbols" and "codes p = Some P"
  shows "distinct (ProgSymbols P)" and "set (ProgSymbols P) \<subseteq> dom symbols"
    and "codes q = Some Q \<Longrightarrow> p \<noteq> q \<Longrightarrow> set (ProgSymbols P) \<inter> set (ProgSymbols Q) = {}"
  using assms unfolding symbols_owned_def by blast+

lemma symbols_owned_mono: "symbols_owned codes symbols \<Longrightarrow> dom symbols \<subseteq> dom symbols' \<Longrightarrow> symbols_owned codes symbols'"
  unfolding symbols_owned_def by blast

lemma symbols_owned_put:
  assumes "symbols_owned codes symbols" and "distinct (ProgSymbols P)" and "set (ProgSymbols P) \<subseteq> dom symbols"
    and "\<And>q Q. codes q = Some Q \<Longrightarrow> q \<noteq> p \<Longrightarrow> set (ProgSymbols P) \<inter> set (ProgSymbols Q) = {}"
  shows "symbols_owned (codes(p \<mapsto> P)) symbols"
  using assms unfolding symbols_owned_def by (auto split: if_splits)

lemma symbols_owned_in_place:
  assumes "symbols_owned codes symbols" and "codes p = Some P" and "ProgSymbols P' = ProgSymbols P"
  shows "symbols_owned (codes(p \<mapsto> P')) symbols"
  using symbols_ownedD [OF assms(1,2)] assms(3) by (intro symbols_owned_put [OF assms(1)]) auto

lemma symbols_owned_delete:
  assumes "symbols_owned codes symbols" and "codes p = Some P"
  shows "symbols_owned (codes(p := None)) (symbols |` (- set (ProgSymbols P)))"
  using symbols_ownedD [OF assms] assms(1) unfolding symbols_owned_def by (auto split: if_splits)

lemma symbols_owned_add:
  assumes "symbols_owned codes symbols" and "codes c = Some P" and "symbols p = None"
    and "ProgSymbols P' = ProgSymbols P @ [p]"
  shows "symbols_owned (codes(c \<mapsto> P')) (symbols(p \<mapsto> x))"
proof (rule symbols_owned_put)
  show "symbols_owned codes (symbols(p \<mapsto> x))" using assms(1) by (rule symbols_owned_mono) auto
  show "distinct (ProgSymbols P')" "set (ProgSymbols P') \<subseteq> dom (symbols(p \<mapsto> x))"
    using symbols_ownedD [OF assms(1,2)] assms(3,4) by auto
  show "set (ProgSymbols P') \<inter> set (ProgSymbols Q) = {}" if "codes q = Some Q" "q \<noteq> c" for q Q
    using symbols_ownedD(3) [OF assms(1,2) that(1)] symbols_ownedD(2) [OF assms(1) that(1)] that(2) assms(3,4) by auto
qed

lemma signals_valued_mono:
  "signals_valued signals values \<Longrightarrow> dom values \<subseteq> dom values' \<Longrightarrow> signals_valued signals values'"
  unfolding signals_valued_def by blast

lemma signals_valued_put:
  "signals_valued signals values \<Longrightarrow> c \<noteq> nullptr \<Longrightarrow>
    signals_valued (signals(p \<mapsto> \<lparr>CurrentValue = c, SignalMemory = r\<rparr>)) (values(c \<mapsto> v))"
  unfolding signals_valued_def by (auto split: if_splits)

lemma signals_valued_delete: "signals_valued signals values \<Longrightarrow> signals_valued (signals(p := None)) values"
  unfolding signals_valued_def by (auto split: if_splits)

lemmas linked_intros = symbols_owned_in_place symbols_owned_delete signals_valued_put signals_valued_delete

text \<open>
  A class registers its objects under their addresses. The registered queues are housed: their regions exist, and so
  do the regions of the doorbells that they own. No agent is being interrupted: \<open>terminateQueue\<close> takes the flag back
  before it returns.
\<close>

definition plain :: "registry \<Rightarrow> bool" where
  "plain R \<longleftrightarrow> (\<forall>(h, p) \<in> set R. h = p \<and> p \<noteq> nullptr)"

definition queues_housed ::
  "registry \<Rightarrow> (addr \<rightharpoonup> UserModeQueue) \<Rightarrow> registry \<Rightarrow> (addr \<rightharpoonup> GCCBuiltinSignal) \<Rightarrow> (addr \<rightharpoonup> 'r) \<Rightarrow> bool" where
  "queues_housed QR queues SR signals regions \<longleftrightarrow>
     (\<forall>(h, q) \<in> set QR. \<forall>Q. queues q = Some Q \<longrightarrow> housed SR signals regions Q)"

definition uninterrupted :: "(addr \<rightharpoonup> CPUKernelAgent) \<Rightarrow> bool" where
  "uninterrupted agents \<longleftrightarrow> (\<forall>a A. agents a = Some A \<longrightarrow> \<not> InterruptingTheQueue A)"

lemma uninterrupted_put: "uninterrupted agents \<Longrightarrow> \<not> InterruptingTheQueue A \<Longrightarrow> uninterrupted (agents(a \<mapsto> A))"
  by (simp add: uninterrupted_def)

lemma uninterrupted_delete: "uninterrupted agents \<Longrightarrow> uninterrupted (agents(a := None))"
  by (simp add: uninterrupted_def)

lemma plain_nil [simp]: "plain []"
  by (simp add: plain_def)

lemma plain_enter: "plain R \<Longrightarrow> p \<noteq> nullptr \<Longrightarrow> plain (registerObject R p p)"
  using set_update_subset [of p p R] by (fastforce simp: plain_def registerObject_def)

lemma plain_leave: "plain R \<Longrightarrow> plain (destroyMapping R p)"
  using set_destroyMapping [of R p] by (fastforce simp: plain_def)

lemma plain_deregister: "plain R \<Longrightarrow> plain (deregisterObject R h)"
  by (auto simp: plain_def deregisterObject_def AList.delete_eq)

lemma queues_housed_nil [simp]: "queues_housed [] queues SR signals regions"
  by (simp add: queues_housed_def)

lemma queues_housedI:
  "(\<And>h q Q. (h, q) \<in> set QR \<Longrightarrow> queues q = Some Q \<Longrightarrow> housed SR signals regions Q) \<Longrightarrow>
    queues_housed QR queues SR signals regions"
  unfolding queues_housed_def by blast

lemma queues_housedD:
  "queues_housed QR queues SR signals regions \<Longrightarrow> (h, q) \<in> set QR \<Longrightarrow> queues q = Some Q \<Longrightarrow> housed SR signals regions Q"
  unfolding queues_housed_def by blast

lemma queues_housed_regions:
  "queues_housed QR queues SR signals regions \<Longrightarrow> dom regions \<subseteq> dom regions' \<Longrightarrow>
    queues_housed QR queues SR signals regions'"
  by (rule queues_housedI) (rule housed_regions [OF _ queues_housedD])

lemma queues_housed_in_place:
  assumes "queues_housed QR queues SR signals regions" and "queues q = Some Q" and "Region Q' = Region Q"
    and "doorbell_signal (HSAQueue Q') = doorbell_signal (HSAQueue Q)" and "IsDoorbellOwned Q' = IsDoorbellOwned Q"
  shows "queues_housed QR (queues(q \<mapsto> Q')) SR signals regions"
proof (rule queues_housedI)
  have same: "housed SR signals regions Q' = housed SR signals regions Q" using assms(3-5) by (simp add: housed_def)
  show "housed SR signals regions P" if "(h, p) \<in> set QR" "(queues(q \<mapsto> Q')) p = Some P" for h p P
    using that queues_housedD [OF assms(1) that(1)] assms(2) same by (cases "p = q") simp_all
qed

lemma queues_housed_enter:
  assumes "queues_housed QR queues SR signals regions" and "housed SR signals regions Q"
  shows "queues_housed (registerObject QR q q) (queues(q \<mapsto> Q)) SR signals regions"
proof (rule queues_housedI)
  show "housed SR signals regions P" if "(h, p) \<in> set (registerObject QR q q)" "(queues(q \<mapsto> Q)) p = Some P" for h p P
  proof (cases "p = q")
    case False
    with that have "(h, p) \<in> set QR" "queues p = Some P" using set_update_subset [of q q QR] by (auto simp: registerObject_def)
    with assms(1) show ?thesis by (rule queues_housedD)
  qed (use that assms(2) in simp)
qed

lemma queues_housed_signal:
  assumes "queues_housed QR queues SR signals regions" and "r \<noteq> nullptr" and "r \<in> dom regions"
  shows "queues_housed QR queues (registerObject SR c p) (signals(p \<mapsto> \<lparr>CurrentValue = c, SignalMemory = r\<rparr>)) regions"
proof (rule queues_housedI)
  show "housed (registerObject SR c p) (signals(p \<mapsto> \<lparr>CurrentValue = c, SignalMemory = r\<rparr>)) regions Q"
    if "(h, q) \<in> set QR" "queues q = Some Q" for h q Q
  proof -
    have "(d, S) \<in> set SR" if "(d, S) \<in> set (registerObject SR c p)" "S \<noteq> p" for d S
      using that set_update_subset [of c p SR] by (auto simp: registerObject_def)
    with queues_housedD [OF assms(1) that] assms(2,3) show ?thesis unfolding housed_def by auto
  qed
qed

lemma queues_housed_leave:
  "queues_housed QR queues SR signals regions \<Longrightarrow> directory SR signals H \<Longrightarrow>
    queues_housed QR queues (destroyMapping SR p) (signals(p := None)) regions"
  by (rule queues_housedI) (rule housed_leave [OF directoryD(2) queues_housedD])

lemmas linked_defs = symbols_owned_def signals_valued_def plain_def uninterrupted_def

lemmas plain_intros = plain_enter plain_leave plain_deregister

lemmas housed_intros = queues_housed_enter queues_housed_signal queues_housed_leave

definition typed :: "'m program_state_scheme \<Rightarrow> bool" where
  "typed s \<longleftrightarrow>
     distinct (filter (\<lambda>p. p \<noteq> nullptr) (HostHeap s)) \<and>
     directory (RegionRegistry s) (CPURegions s) (HostHeap s) \<and>
     directory (SignalRegistry s) (Signals s) (HostHeap s) \<and>
     directory (QueueRegistry s) (Queues s) (HostHeap s) \<and>
     directory (SymbolRegistry s) (SymbolObjects s) (HostHeap s) \<and>
     directory (AgentRegistry s) (KernelAgents s) (HostHeap s) \<and>
     directory (ProgramRegistry s) (HSAILPrograms s) (HostHeap s) \<and>
     directory (CodeRegistry s) (FinalizedPrograms s) (HostHeap s) \<and>
     directory (ExecutableRegistry s) (Executables s) (HostHeap s) \<and>
     queues_named s \<and> symbols_owned (FinalizedPrograms s) (SymbolObjects s) \<and>
     signals_valued (Signals s) (SignalValues s) \<and>
     plain (RegionRegistry s) \<and> plain (AgentRegistry s) \<and> plain (QueueRegistry s) \<and> plain (ProgramRegistry s) \<and>
     plain (CodeRegistry s) \<and> uninterrupted (KernelAgents s) \<and>
     queues_housed (QueueRegistry s) (Queues s) (SignalRegistry s) (Signals s) (CPURegions s)"

lemma typed_frame [simp]:
  "typed (s\<lparr>ReferenceCounter := c\<rparr>) = typed s" "typed (s\<lparr>Instance := i\<rparr>) = typed s"
  "typed (s\<lparr>MemoryRegions := rs\<rparr>) = typed s"
  "typed (s\<lparr>Buffers := bs\<rparr>) = typed s" "typed (s\<lparr>Memory := M\<rparr>) = typed s" "typed (s\<lparr>RtAgents := as\<rparr>) = typed s"
  "typed (s\<lparr>ShutDown := b\<rparr>) = typed s" "typed (s\<lparr>Events := es\<rparr>) = typed s" "typed (s\<lparr>ISAMap := im\<rparr>) = typed s"
  "typed (s\<lparr>HashToISAMap := hm\<rparr>) = typed s" "typed (s\<lparr>Extensions := xs\<rparr>) = typed s" "typed (s\<lparr>Files := fs\<rparr>) = typed s"
  "typed (s\<lparr>FreshNames := ns\<rparr>) = typed s" "typed (s\<lparr>DebugMode := d\<rparr>) = typed s"
  by (simp_all add: typed_def queues_named_def)

lemma typed_frame_amd [simp]: "typed (s\<lparr>AmdAgents := f\<rparr>) = typed s" for s :: "'m amd_state_scheme"
  by (simp add: typed_def queues_named_def)

lemma typed_values:
  "typed s \<Longrightarrow> dom (SignalValues s) \<subseteq> dom vs \<Longrightarrow> typed (s\<lparr>SignalValues := vs\<rparr>)"
  by (auto simp: typed_def queues_named_def intro: signals_valued_mono)

text \<open>Addresses are taken from the supply, and objects are overwritten in place.\<close>

lemma typed_supply:
  assumes "typed s" and "HostHeap s = ps @ H"
  shows "typed (s\<lparr>HostHeap := H\<rparr>)"
proof -
  have "set H \<subseteq> set (HostHeap s)" using assms(2) by simp
  then show ?thesis using assms by (auto simp: typed_def queues_named_def elim: directory_sub)
qed

text \<open>
  The allocator may give an address again once no object is at it and no object has it as its handle. It never gives
  one address twice in a row of calls.
\<close>

definition usable_supply :: "'m program_state_scheme \<Rightarrow> addr list \<Rightarrow> bool" where
  "usable_supply s H \<longleftrightarrow>
     distinct (filter (\<lambda>p. p \<noteq> nullptr) H) \<and>
     unused (RegionRegistry s) (CPURegions s) H \<and> unused (SignalRegistry s) (Signals s) H \<and>
     unused (QueueRegistry s) (Queues s) H \<and> unused (SymbolRegistry s) (SymbolObjects s) H \<and>
     unused (AgentRegistry s) (KernelAgents s) H \<and> unused (ProgramRegistry s) (HSAILPrograms s) H \<and>
     unused (CodeRegistry s) (FinalizedPrograms s) H \<and> unused (ExecutableRegistry s) (Executables s) H"

lemma typed_resupply: "typed s \<Longrightarrow> usable_supply s H \<Longrightarrow> typed (s\<lparr>HostHeap := H\<rparr>)"
  by (simp add: typed_def queues_named_def usable_supply_def directory_supply [of _ _ "HostHeap s"])

lemma took_append: "took p H H' \<Longrightarrow> \<exists>ps. H = ps @ H'"
  by (auto simp: took_def intro: exI [of _ "[]"] exI [of _ "[nullptr]"] exI [of _ "[p]"] split: if_splits)

lemma typed_in_place:
  assumes "typed s"
  shows "CPURegions s p = Some x1 \<Longrightarrow> typed (s\<lparr>CPURegions := (CPURegions s)(p \<mapsto> y1)\<rparr>)"
    and "KernelAgents s p = Some x2 \<Longrightarrow> \<not> InterruptingTheQueue y2 \<Longrightarrow> typed (s\<lparr>KernelAgents := (KernelAgents s)(p \<mapsto> y2)\<rparr>)"
    and "HSAILPrograms s p = Some x3 \<Longrightarrow> typed (s\<lparr>HSAILPrograms := (HSAILPrograms s)(p \<mapsto> y3)\<rparr>)"
    and "FinalizedPrograms s p = Some x4 \<Longrightarrow> ProgSymbols y4 = ProgSymbols x4 \<Longrightarrow>
      typed (s\<lparr>FinalizedPrograms := (FinalizedPrograms s)(p \<mapsto> y4)\<rparr>)"
    and "Executables s p = Some x5 \<Longrightarrow> typed (s\<lparr>Executables := (Executables s)(p \<mapsto> y5)\<rparr>)"
    and "Queues s p = Some x6 \<Longrightarrow> queue_id (HSAQueue y6) = queue_id (HSAQueue x6) \<Longrightarrow>
      Region y6 = Region x6 \<Longrightarrow> doorbell_signal (HSAQueue y6) = doorbell_signal (HSAQueue x6) \<Longrightarrow>
      IsDoorbellOwned y6 = IsDoorbellOwned x6 \<Longrightarrow> typed (s\<lparr>Queues := (Queues s)(p \<mapsto> y6)\<rparr>)"
proof -
  have regions: "queues_housed (QueueRegistry s) (Queues s) (SignalRegistry s) (Signals s) ((CPURegions s)(p \<mapsto> y1))"
    by (rule queues_housed_regions [where regions = "CPURegions s"]) (use assms in \<open>auto simp: typed_def\<close>)
  have queues: "queues_housed (QueueRegistry s) ((Queues s)(p \<mapsto> y6)) (SignalRegistry s) (Signals s) (CPURegions s)"
    if "Queues s p = Some x6" "Region y6 = Region x6" "doorbell_signal (HSAQueue y6) = doorbell_signal (HSAQueue x6)"
      "IsDoorbellOwned y6 = IsDoorbellOwned x6"
  proof (rule queues_housed_in_place)
    show "queues_housed (QueueRegistry s) (Queues s) (SignalRegistry s) (Signals s) (CPURegions s)"
      using assms by (simp add: typed_def)
  qed (use that in auto)
  show "CPURegions s p = Some x1 \<Longrightarrow> typed (s\<lparr>CPURegions := (CPURegions s)(p \<mapsto> y1)\<rparr>)"
    "KernelAgents s p = Some x2 \<Longrightarrow> \<not> InterruptingTheQueue y2 \<Longrightarrow> typed (s\<lparr>KernelAgents := (KernelAgents s)(p \<mapsto> y2)\<rparr>)"
    "HSAILPrograms s p = Some x3 \<Longrightarrow> typed (s\<lparr>HSAILPrograms := (HSAILPrograms s)(p \<mapsto> y3)\<rparr>)"
    "FinalizedPrograms s p = Some x4 \<Longrightarrow> ProgSymbols y4 = ProgSymbols x4 \<Longrightarrow>
      typed (s\<lparr>FinalizedPrograms := (FinalizedPrograms s)(p \<mapsto> y4)\<rparr>)"
    "Executables s p = Some x5 \<Longrightarrow> typed (s\<lparr>Executables := (Executables s)(p \<mapsto> y5)\<rparr>)"
    "Queues s p = Some x6 \<Longrightarrow> queue_id (HSAQueue y6) = queue_id (HSAQueue x6) \<Longrightarrow>
      Region y6 = Region x6 \<Longrightarrow> doorbell_signal (HSAQueue y6) = doorbell_signal (HSAQueue x6) \<Longrightarrow>
      IsDoorbellOwned y6 = IsDoorbellOwned x6 \<Longrightarrow> typed (s\<lparr>Queues := (Queues s)(p \<mapsto> y6)\<rparr>)"
    using assms by (auto simp: typed_def queues_named_def regions queues uninterrupted_put
        intro!: directory_upd intro: symbols_owned_in_place)
qed

section \<open>Operations that keep the typing\<close>

text \<open>
  The operation also leaves alone whether the runtime is initialised, and the agents and regions that the first
  \<open>hsa_init\<close> registered.
\<close>

definition keeps :: "'m program_state_scheme \<Rightarrow> 'm program_state_scheme \<Rightarrow> bool" where
  "keeps s s' \<longleftrightarrow> ReferenceCounter s' = ReferenceCounter s \<and> Instance s' = Instance s \<and>
     RtAgents s' = RtAgents s \<and> MemoryRegions s' = MemoryRegions s \<and>
     AgentRegistry s' = AgentRegistry s \<and> RegionRegistry s' = RegionRegistry s \<and> (typed s \<longrightarrow> typed s')"

lemma keeps_refl: "keeps s s"
  by (simp add: keeps_def)

lemma keeps_trans [trans]: "keeps s s1 \<Longrightarrow> keeps s1 s2 \<Longrightarrow> keeps s s2"
  by (simp add: keeps_def)

lemma keeps_frame [simp]:
  "keeps s (s1\<lparr>Buffers := bs\<rparr>) = keeps s s1" "keeps s (s1\<lparr>Memory := M\<rparr>) = keeps s s1"
  "keeps s (s1\<lparr>ShutDown := b\<rparr>) = keeps s s1" "keeps s (s1\<lparr>Events := es\<rparr>) = keeps s s1" "keeps s (s1\<lparr>ISAMap := im\<rparr>) = keeps s s1"
  "keeps s (s1\<lparr>HashToISAMap := hm\<rparr>) = keeps s s1" "keeps s (s1\<lparr>Extensions := xs\<rparr>) = keeps s s1" "keeps s (s1\<lparr>Files := fs\<rparr>) = keeps s s1"
  "keeps s (s1\<lparr>FreshNames := ns\<rparr>) = keeps s s1" "keeps s (s1\<lparr>DebugMode := d\<rparr>) = keeps s s1"
  by (simp_all add: keeps_def)

lemma keeps_frame_amd [simp]: "keeps s (s1\<lparr>AmdAgents := f\<rparr>) = keeps s s1" for s :: "'m amd_state_scheme"
  by (simp add: keeps_def)

subsection \<open>Memory\<close>

lemma operator_new_keeps: "operator_new s = Inr (p, s') \<Longrightarrow> keeps s s'" for s :: "'m program_state_scheme"
  by (erule operator_new_Inr) (use typed_supply [of s "[p]"] in \<open>auto simp: keeps_def\<close>)

lemma allocate_keeps:
  fixes s :: "'m program_state_scheme"
  assumes "CPUMemoryRegion_allocate r s n a = Inr (p, s')"
  shows "keeps s s'"
  using assms
proof (rule allocate_Inr)
  fix H R A
  assume R: "CPURegions s r = Some R" "took p (HostHeap s) H"
    "s' = s\<lparr>HostHeap := H, CPURegions := (CPURegions s)(r \<mapsto> R\<lparr>CPUAllocations := A\<rparr>)\<rparr>"
  then obtain ps where "HostHeap s = ps @ H" using took_append by blast
  then have "typed s \<Longrightarrow> typed (s\<lparr>HostHeap := H\<rparr>)" by (rule typed_supply [rotated])
  then show ?thesis using R typed_in_place(1) [of "s\<lparr>HostHeap := H\<rparr>" r R] by (auto simp: keeps_def)
qed

lemma free_keeps: "CPUMemoryRegion_free r s p = Inr (found, s') \<Longrightarrow> keeps s s'" for s :: "'m program_state_scheme"
  by (erule free_Inr) (auto simp: keeps_def intro: typed_in_place)

lemma free_in_regions_keeps: "free_in_regions Rs s p = Inr s' \<Longrightarrow> keeps s s'" for s :: "'m program_state_scheme"
  by (induction Rs arbitrary: s)
    (auto simp: outcome_simps keeps_refl split: if_splits dest!: free_keeps intro: keeps_trans)

subsection \<open>Creation and deletion\<close>

lemma typed_create:
  assumes "typed s" and "HostHeap s = p # H" and "p \<noteq> nullptr"
  shows "typed (s\<lparr>HostHeap := H, RegionRegistry := registerObject (RegionRegistry s) p p, CPURegions := (CPURegions s)(p \<mapsto> x1)\<rparr>)"
    and "\<not> InterruptingTheQueue x2 \<Longrightarrow>
      typed (s\<lparr>HostHeap := H, AgentRegistry := registerObject (AgentRegistry s) p p, KernelAgents := (KernelAgents s)(p \<mapsto> x2)\<rparr>)"
    and "typed (s\<lparr>HostHeap := H, HSAILPrograms := (HSAILPrograms s)(p \<mapsto> x3), ProgramRegistry := registerObject (ProgramRegistry s) p p\<rparr>)"
    and "ProgSymbols x4 = [] \<Longrightarrow>
      typed (s\<lparr>HostHeap := H, FinalizedPrograms := (FinalizedPrograms s)(p \<mapsto> x4), CodeRegistry := registerObject (CodeRegistry s) p p\<rparr>)"
    and "typed (s\<lparr>HostHeap := H, Executables := (Executables s)(p \<mapsto> x5), ExecutableRegistry := registerObject (ExecutableRegistry s) p p\<rparr>)"
    and "FinalizedPrograms s c = Some P \<Longrightarrow> ProgSymbols P' = ProgSymbols P @ [p] \<Longrightarrow>
      typed (s\<lparr>HostHeap := H, SymbolRegistry := registerObject (SymbolRegistry s) p p, SymbolObjects := (SymbolObjects s)(p \<mapsto> x6),
        FinalizedPrograms := (FinalizedPrograms s)(c \<mapsto> P')\<rparr>)"
    and "queue_id (HSAQueue x7) = p \<Longrightarrow> housed (SignalRegistry s) (Signals s) (CPURegions s) x7 \<Longrightarrow>
      typed (s\<lparr>HostHeap := H, QueueRegistry := registerObject (QueueRegistry s) p p, Queues := (Queues s)(p \<mapsto> x7)\<rparr>)"
proof -
  have H: "set H \<subseteq> set (HostHeap s)" "p \<in> set (HostHeap s)" "set H \<subseteq> set (HostHeap s) - {p, p}"
    using assms by (auto simp: typed_def)
  note new = directory_enter [OF _ H(2) H(2) assms(3) H(3)] directory_sub [OF _ H(1)]
  have fresh: "SymbolObjects s p = None" "FinalizedPrograms s p = None"
    using assms(1) H(2) directoryD(6) unfolding typed_def by blast+
  have codes: "directory (CodeRegistry s) ((FinalizedPrograms s)(c \<mapsto> P')) H" if "FinalizedPrograms s c = Some P"
    by (rule directory_upd) (use assms(1) that new(2) in \<open>auto simp: typed_def\<close>)
  have regions: "queues_housed (QueueRegistry s) (Queues s) (SignalRegistry s) (Signals s) ((CPURegions s)(p \<mapsto> x1))"
    by (rule queues_housed_regions [where regions = "CPURegions s"]) (use assms in \<open>auto simp: typed_def\<close>)
  note linked = symbols_owned_add [where symbols = "SymbolObjects s" and p = p] symbols_owned_put
  show "typed (s\<lparr>HostHeap := H, RegionRegistry := registerObject (RegionRegistry s) p p, CPURegions := (CPURegions s)(p \<mapsto> x1)\<rparr>)"
    "\<not> InterruptingTheQueue x2 \<Longrightarrow>
      typed (s\<lparr>HostHeap := H, AgentRegistry := registerObject (AgentRegistry s) p p, KernelAgents := (KernelAgents s)(p \<mapsto> x2)\<rparr>)"
    "typed (s\<lparr>HostHeap := H, HSAILPrograms := (HSAILPrograms s)(p \<mapsto> x3), ProgramRegistry := registerObject (ProgramRegistry s) p p\<rparr>)"
    "ProgSymbols x4 = [] \<Longrightarrow>
      typed (s\<lparr>HostHeap := H, FinalizedPrograms := (FinalizedPrograms s)(p \<mapsto> x4), CodeRegistry := registerObject (CodeRegistry s) p p\<rparr>)"
    "typed (s\<lparr>HostHeap := H, Executables := (Executables s)(p \<mapsto> x5), ExecutableRegistry := registerObject (ExecutableRegistry s) p p\<rparr>)"
    "FinalizedPrograms s c = Some P \<Longrightarrow> ProgSymbols P' = ProgSymbols P @ [p] \<Longrightarrow>
      typed (s\<lparr>HostHeap := H, SymbolRegistry := registerObject (SymbolRegistry s) p p, SymbolObjects := (SymbolObjects s)(p \<mapsto> x6),
        FinalizedPrograms := (FinalizedPrograms s)(c \<mapsto> P')\<rparr>)"
    "queue_id (HSAQueue x7) = p \<Longrightarrow> housed (SignalRegistry s) (Signals s) (CPURegions s) x7 \<Longrightarrow>
      typed (s\<lparr>HostHeap := H, QueueRegistry := registerObject (QueueRegistry s) p p, Queues := (Queues s)(p \<mapsto> x7)\<rparr>)"
    using assms by (auto simp: typed_def queues_named_def fresh new codes linked regions plain_enter queues_housed_enter uninterrupted_put)
qed

lemma typed_delete:
  assumes "typed s"
  shows "QueueRegistry s = [] \<Longrightarrow>
      typed (s\<lparr>CPURegions := (CPURegions s)(p := None), RegionRegistry := destroyMapping (RegionRegistry s) p\<rparr>)"
    and "typed (s\<lparr>SignalRegistry := destroyMapping (SignalRegistry s) p, Signals := (Signals s)(p := None)\<rparr>)"
    and "typed (s\<lparr>KernelAgents := (KernelAgents s)(p := None), AgentRegistry := destroyMapping (AgentRegistry s) p\<rparr>)"
    and "typed (s\<lparr>HSAILPrograms := (HSAILPrograms s)(p := None), ProgramRegistry := destroyMapping (ProgramRegistry s) p\<rparr>)"
    and "FinalizedPrograms s p = Some P \<Longrightarrow>
      typed (s\<lparr>CodeRegistry := destroyMapping (deregisterObject (CodeRegistry s) h) p, FinalizedPrograms := (FinalizedPrograms s)(p := None),
        SymbolObjects := SymbolObjects s |` (- set (ProgSymbols P)),
        SymbolRegistry := foldl destroyMapping (SymbolRegistry s) (ProgSymbols P)\<rparr>)"
    and "typed (s\<lparr>Executables := (Executables s)(p := None), ExecutableRegistry := destroyMapping (ExecutableRegistry s) p\<rparr>)"
  using assms by (auto simp: typed_def queues_named_def intro: directory_leave directory_leave_all directory_deregister linked_intros
      plain_intros queues_housed_leave uninterrupted_delete)

lemma CPUMemoryRegion_new_typed:
  "CPUMemoryRegion_new seg s = Inr (p, s') \<Longrightarrow> typed s \<Longrightarrow> typed s'" for s :: "'m program_state_scheme"
  by (auto simp: CPUMemoryRegion_new_def outcome_simps elim!: operator_new_Inr intro!: typed_create(1))

lemma HSAILProgram_new_keeps: "HSAILProgram_new MM P RM s = Inr (p, s') \<Longrightarrow> keeps s s'"
  by (auto simp: HSAILProgram_new_def outcome_simps keeps_def elim!: operator_new_Inr intro!: typed_create(3))

lemma DLFinalizedProgram_new_keeps: "DLFinalizedProgram_new H blob ISA MM P RM s = Inr (p, s') \<Longrightarrow> keeps s s'"
  by (auto simp: DLFinalizedProgram_new_def outcome_simps keeps_def split: option.splits
      elim!: operator_new_Inr intro!: typed_create(4))

lemma ELFExecutable_new_keeps: "ELFExecutable_new P b s = Inr (p, s') \<Longrightarrow> keeps s s'"
  by (auto simp: ELFExecutable_new_def outcome_simps keeps_def elim!: operator_new_Inr intro!: typed_create(5))

lemma IsDebugMode_keeps: "IsDebugMode H s = (b, s') \<Longrightarrow> keeps s s'"
  by (auto simp: IsDebugMode_def keeps_refl split: if_splits)

lemma HSAILProgram_delete_keeps:
  assumes "HSAILProgram_delete H p s = Inr s'"
  shows "keeps s s'"
proof (cases "p = nullptr")
  case True
  with assms show ?thesis by (simp add: HSAILProgram_delete_def keeps_refl)
next
  case False
  with assms obtain P where P: "HSAILPrograms s p = Some P" by (auto simp: HSAILProgram_delete_def outcome_simps)
  obtain b d where d: "IsDebugMode H s = (b, s\<lparr>DebugMode := d\<rparr>)" by (rule IsDebugMode_cases)
  define s2 where "s2 = (if b then s\<lparr>DebugMode := d\<rparr> else s\<lparr>DebugMode := d, Files := unlink_all (TempFiles P) (Files s)\<rparr>)"
  have "keeps s s2" by (simp add: s2_def keeps_refl)
  also have "s' = s2\<lparr>HSAILPrograms := (HSAILPrograms s2)(p := None), ProgramRegistry := destroyMapping (ProgramRegistry s2) p\<rparr>"
    using assms False P d by (simp add: HSAILProgram_delete_def deref_Some Let_def s2_def split del: if_split cong: if_cong)
  then have "keeps s2 s'" by (simp add: keeps_def typed_delete(4))
  finally show ?thesis .
qed

text \<open>Deleting a code object deletes its symbols, which are all alive.\<close>

lemma DLFinalizedProgram_delete_eq:
  assumes "typed s" and "FinalizedPrograms s p = Some P" and "p \<noteq> nullptr"
  obtains fs d where "DLFinalizedProgram_delete H p s = Inr (s\<lparr>DebugMode := d, Files := fs,
    CodeRegistry := destroyMapping (deregisterObject (CodeRegistry s) p) p, FinalizedPrograms := (FinalizedPrograms s)(p := None),
    SymbolObjects := SymbolObjects s |` (- set (ProgSymbols P)),
    SymbolRegistry := foldl destroyMapping (SymbolRegistry s) (ProgSymbols P)\<rparr>)"
proof -
  define s1 where "s1 = s\<lparr>CodeRegistry := deregisterObject (CodeRegistry s) p\<rparr>"
  obtain b d where d: "IsDebugMode H s1 = (b, s1\<lparr>DebugMode := d\<rparr>)" by (rule IsDebugMode_cases)
  obtain fs where s3: "(if b then s1\<lparr>DebugMode := d\<rparr>
      else s1\<lparr>DebugMode := d, Files := remove_all (remove_filename (BinaryFileName P)) (Files s1)\<rparr>) =
      s1\<lparr>DebugMode := d, Files := fs\<rparr>"
    by (cases b) (auto intro: that [of "Files s1"])
  have "symbols_owned (FinalizedPrograms s) (SymbolObjects s)" "nullptr \<notin> dom (SymbolObjects s)"
    using assms(1) directoryD(5) by (auto simp: typed_def)
  then have "symbols_alive (s1\<lparr>DebugMode := d, Files := fs\<rparr>) (ProgSymbols P)"
    using symbols_ownedD [of "FinalizedPrograms s" "SymbolObjects s" p P] assms(2) by (auto simp: symbols_alive_def s1_def)
  note symbols = delete_symbols_eq [OF this]
  show thesis
    by (rule that [where fs = fs and d = d]) (use assms(2,3) d s3 symbols in \<open>simp add: DLFinalizedProgram_delete_def deref_Some Let_def s1_def cong: if_cong\<close>)
qed

lemma delete_symbols_only:
  "delete_symbols Ss s = Inr s' \<Longrightarrow> without_code s' = without_code s" for s :: "'m program_state_scheme"
proof (induction Ss arbitrary: s)
  case (Cons S Ss)
  then obtain s1 where "Symbol_delete S s = Inr s1" "delete_symbols Ss s1 = Inr s'" by (auto simp: outcome_simps)
  with Cons.IH show ?case by (auto simp: Symbol_delete_def outcome_simps without_code_def split: if_splits)
qed simp

lemma code_delete_only:
  assumes "DLFinalizedProgram_delete H p s = Inr s'"
  shows "only_code s s'"
proof -
  obtain b d where "IsDebugMode H (s\<lparr>CodeRegistry := deregisterObject (CodeRegistry s) p\<rparr>) =
    (b, s\<lparr>CodeRegistry := deregisterObject (CodeRegistry s) p\<rparr>\<lparr>DebugMode := d\<rparr>)" by (rule IsDebugMode_cases)
  with assms show ?thesis
    by (cases b) (auto simp: DLFinalizedProgram_delete_def outcome_simps Let_def only_code_def without_code_def
        split: if_splits dest!: delete_symbols_only)
qed

lemma DLFinalizedProgram_delete_keeps:
  assumes "DLFinalizedProgram_delete H p s = Inr s'"
  shows "keeps s s'"
proof -
  have "typed s'" if t: "typed s"
  proof (cases "p = nullptr")
    case True
    with assms t show ?thesis by (simp add: DLFinalizedProgram_delete_def)
  next
    case False
    with assms obtain P where P: "FinalizedPrograms s p = Some P" by (auto simp: DLFinalizedProgram_delete_def outcome_simps)
    obtain fs d where "DLFinalizedProgram_delete H p s = Inr (s\<lparr>DebugMode := d, Files := fs,
        CodeRegistry := destroyMapping (deregisterObject (CodeRegistry s) p) p, FinalizedPrograms := (FinalizedPrograms s)(p := None),
        SymbolObjects := SymbolObjects s |` (- set (ProgSymbols P)),
        SymbolRegistry := foldl destroyMapping (SymbolRegistry s) (ProgSymbols P)\<rparr>)"
      using t P False by (rule DLFinalizedProgram_delete_eq)
    with assms typed_delete(5) [of "s\<lparr>DebugMode := d, Files := fs\<rparr>" p P p] t P show ?thesis by simp
  qed
  moreover have "Instance s' = Instance s"
    using code_delete_only [OF assms, unfolded only_code_def, THEN arg_cong, of Instance] by (simp add: without_code_def)
  moreover note only_code_fields [OF code_delete_only [OF assms]]
  ultimately show ?thesis by (simp add: keeps_def)
qed

lemma ELFExecutable_delete_keeps: "ELFExecutable_delete p s = Inr s' \<Longrightarrow> keeps s s'"
  by (auto simp: ELFExecutable_delete_def outcome_simps keeps_def typed_delete(6))

subsection \<open>Signals\<close>

lemma signal_new_Inr:
  assumes "GCCBuiltinSignal_new v r s = Inr (p, s')"
  obtains H c R A where "p \<noteq> nullptr" "c \<noteq> nullptr" "HostHeap s = p # c # H" "CPURegions s r = Some R"
    "s' = s\<lparr>CPURegions := (CPURegions s)(r \<mapsto> R\<lparr>CPUAllocations := A\<rparr>), HostHeap := H,
       Signals := (Signals s)(p \<mapsto> \<lparr>CurrentValue = c, SignalMemory = r\<rparr>), SignalValues := (SignalValues s)(c \<mapsto> v),
       SignalRegistry := registerObject (SignalRegistry s) c p\<rparr>"
proof -
  from assms obtain s1 c s2 where new: "operator_new s = Inr (p, s1)" "CPUMemoryRegion_allocate r s1 8 8 = Inr (c, s2)" "c \<noteq> nullptr"
    "s' = s2\<lparr>Signals := (Signals s2)(p \<mapsto> \<lparr>CurrentValue = c, SignalMemory = r\<rparr>),
       SignalValues := (SignalValues s2)(c \<mapsto> v), SignalRegistry := registerObject (SignalRegistry s2) c p\<rparr>"
    by (auto simp: GCCBuiltinSignal_new_def outcome_simps split: if_splits)
  from new(1) obtain H where H: "p \<noteq> nullptr" "HostHeap s = p # H" "s1 = s\<lparr>HostHeap := H\<rparr>" by (rule operator_new_Inr)
  from new(2) obtain H' R A where "CPURegions s1 r = Some R" "took c (HostHeap s1) H'"
    "s2 = s1\<lparr>HostHeap := H', CPURegions := (CPURegions s1)(r \<mapsto> R\<lparr>CPUAllocations := A\<rparr>)\<rparr>" by (rule allocate_Inr)
  with H new show thesis by (intro that [of c H' R A]) (auto simp: took_def)
qed

lemma typed_create_signal:
  assumes "typed s" and "HostHeap s = p # c # H" and "p \<noteq> nullptr" and "c \<noteq> nullptr" and "r \<in> dom (CPURegions s)"
  shows "typed (s\<lparr>HostHeap := H, Signals := (Signals s)(p \<mapsto> \<lparr>CurrentValue = c, SignalMemory = r\<rparr>),
    SignalValues := (SignalValues s)(c \<mapsto> v), SignalRegistry := registerObject (SignalRegistry s) c p\<rparr>)"
proof -
  have H: "set H \<subseteq> set (HostHeap s)" "p \<in> set (HostHeap s)" "c \<in> set (HostHeap s)" "set H \<subseteq> set (HostHeap s) - {p, c}"
    using assms by (auto simp: typed_def split: if_splits)
  note new = directory_enter [OF _ H(2) H(3) assms(3) H(4)] directory_sub [OF _ H(1)]
  have "r \<noteq> nullptr" using assms(1,5) directoryD(5) unfolding typed_def by blast
  then show ?thesis using assms
    by (auto simp: typed_def queues_named_def signals_valued_put queues_housed_signal domIff new split: if_splits)
qed

lemma signal_new_keeps:
  fixes s :: "'m program_state_scheme"
  assumes "GCCBuiltinSignal_new v r s = Inr (p, s')"
  shows "keeps s s'"
  using assms
proof (rule signal_new_Inr)
  fix H c R A
  assume new: "p \<noteq> nullptr" "c \<noteq> nullptr" "HostHeap s = p # c # H" "CPURegions s r = Some R"
    "s' = s\<lparr>CPURegions := (CPURegions s)(r \<mapsto> R\<lparr>CPUAllocations := A\<rparr>), HostHeap := H,
       Signals := (Signals s)(p \<mapsto> \<lparr>CurrentValue = c, SignalMemory = r\<rparr>), SignalValues := (SignalValues s)(c \<mapsto> v),
       SignalRegistry := registerObject (SignalRegistry s) c p\<rparr>"
  let ?s1 = "s\<lparr>CPURegions := (CPURegions s)(r \<mapsto> R\<lparr>CPUAllocations := A\<rparr>)\<rparr>"
  have "typed s \<Longrightarrow> typed ?s1" using new(4) by (rule typed_in_place(1) [rotated])
  then show ?thesis using new typed_create_signal [of ?s1 p c H r] by (simp add: keeps_def)
qed

lemma signal_delete_keeps:
  fixes s :: "'m program_state_scheme"
  assumes "GCCBuiltinSignal_delete s p = Inr s'"
  shows "keeps s s'"
proof -
  from assms obtain Obj found s1 where s1: "deref (Signals s) p = Inr Obj"
    "CPUMemoryRegion_free (SignalMemory Obj) s (CurrentValue Obj) = Inr (found, s1)"
    by (auto simp: GCCBuiltinSignal_delete_def outcome_simps)
  from s1(2) have "keeps s s1" by (rule free_keeps)
  also have "keeps s1 s'" using assms s1 by (auto simp: GCCBuiltinSignal_delete_def keeps_def typed_delete(2))
  finally show ?thesis .
qed

lemma set_cell_keeps [simp]: "keeps s (set_cell c v s)" for s :: "'m program_state_scheme"
  by (auto simp: set_cell_def keeps_def intro!: typed_values)

lemma store_keeps: "GCCBuiltinSignal_store s p v MO = Inr s' \<Longrightarrow> keeps s s'" for s :: "'m program_state_scheme"
  by (auto simp: GCCBuiltinSignal_store_def storeRelaxed_def storeRelease_def outcome_simps keeps_refl split: MemoryOrder.splits)

lemma signal_entry_keeps:
  fixes s :: "'m program_state_scheme"
  assumes "signal_entry f MO h s = Some (Inr (r, s'))"
  shows "keeps s s'"
proof (cases f)
  case Load
  with assms show ?thesis
    by (cases MO) (auto simp: signal_entry_defs reads_value_def outcome_simps keeps_refl)
next
  case (Store v)
  with assms show ?thesis
    by (cases MO) (auto simp: signal_entry_defs no_value_def outcome_simps dest!: store_keeps)
next
  case (Exchange v)
  with assms show ?thesis
    by (cases MO) (auto simp: by_order_def signal_entry_defs old_value_def gcc_rmw_defs outcome_simps keeps_refl)
next
  case (Compare_Exchange e v)
  with assms show ?thesis
    by (cases MO) (auto simp: by_order_def signal_entry_defs old_value_def GCCBuiltinSignal_compareExchange_def outcome_simps keeps_refl)
qed (use assms in \<open>cases MO; auto simp: by_order_def signal_entry_defs no_value_def gcc_rmw_defs outcome_simps keeps_refl\<close>)+

lemma hsa_signal_create_keeps: "hsa_signal_create s v n cs h = Inr (st, r, s') \<Longrightarrow> keeps s s'" for s :: "'m program_state_scheme"
  by (auto simp: hsa_signal_create_def CPURuntime_createSignal_def outcome_simps keeps_refl split: if_splits list.splits
      dest!: signal_new_keeps)

lemma hsa_signal_destroy_keeps: "hsa_signal_destroy s h = Inr (st, s') \<Longrightarrow> keeps s s'" for s :: "'m program_state_scheme"
  by (auto simp: hsa_signal_destroy_def outcome_simps keeps_refl Let_def split: if_splits dest!: signal_delete_keeps)

subsection \<open>Queues\<close>

text \<open>
  The constructor of a queue registers it before the object is complete. The typing is followed along the states
  in which the complete queue \<open>y\<close> is already in place.
\<close>

definition with_queue :: "addr \<Rightarrow> UserModeQueue \<Rightarrow> 'm queue_state_scheme \<Rightarrow> 'm queue_state_scheme" where
  "with_queue p y s = s\<lparr>Queues := (Queues s)(p \<mapsto> y)\<rparr>"

lemma with_queue_allocate:
  fixes s :: "'m program_state_scheme"
  assumes "CPUMemoryRegion_allocate r s n a = Inr (b, s')"
  shows "keeps (with_queue p y s) (with_queue p y s')"
  using assms
proof (rule allocate_Inr)
  fix H R A
  assume R: "CPURegions s r = Some R" "took b (HostHeap s) H"
    "s' = s\<lparr>HostHeap := H, CPURegions := (CPURegions s)(r \<mapsto> R\<lparr>CPUAllocations := A\<rparr>)\<rparr>"
  let ?t = "with_queue p y s" and ?t1 = "(with_queue p y s)\<lparr>HostHeap := H\<rparr>"
  obtain ps where "HostHeap ?t = ps @ H" using took_append [OF R(2)] by (auto simp: with_queue_def)
  then have "typed ?t \<Longrightarrow> typed ?t1" by (rule typed_supply [rotated])
  moreover have "typed ?t1 \<Longrightarrow> typed (?t1\<lparr>CPURegions := (CPURegions ?t1)(r \<mapsto> R\<lparr>CPUAllocations := A\<rparr>)\<rparr>)"
    by (rule typed_in_place(1)) (simp_all add: R(1) with_queue_def)
  moreover have "with_queue p y s' = ?t1\<lparr>CPURegions := (CPURegions ?t1)(r \<mapsto> R\<lparr>CPUAllocations := A\<rparr>)\<rparr>"
    by (simp add: R(3) with_queue_def)
  moreover have "ReferenceCounter s' = ReferenceCounter s" "Instance s' = Instance s" "RtAgents s' = RtAgents s"
    "MemoryRegions s' = MemoryRegions s" "AgentRegistry s' = AgentRegistry s" "RegionRegistry s' = RegionRegistry s"
    by (simp_all add: R(3))
  ultimately show ?thesis by (simp add: keeps_def with_queue_def)
qed

lemma with_queue_doorbell:
  fixes s :: "'m program_state_scheme"
  assumes "new_doorbell D r s = Inr (S, s')"
  shows "keeps (with_queue p y s) (with_queue p y s')"
proof (cases "D = nullptr")
  case True
  then have "GCCBuiltinSignal_new i64_max r s = Inr (S, s')" using assms by (simp add: new_doorbell_def)
  then show ?thesis
  proof (rule signal_new_Inr)
    fix H c R A
    assume new: "S \<noteq> nullptr" "c \<noteq> nullptr" "HostHeap s = S # c # H" "CPURegions s r = Some R"
      "s' = s\<lparr>CPURegions := (CPURegions s)(r \<mapsto> R\<lparr>CPUAllocations := A\<rparr>), HostHeap := H,
         Signals := (Signals s)(S \<mapsto> \<lparr>CurrentValue = c, SignalMemory = r\<rparr>), SignalValues := (SignalValues s)(c \<mapsto> i64_max),
         SignalRegistry := registerObject (SignalRegistry s) c S\<rparr>"
    let ?t = "with_queue p y s" and ?t1 = "(with_queue p y s)\<lparr>CPURegions := (CPURegions s)(r \<mapsto> R\<lparr>CPUAllocations := A\<rparr>)\<rparr>"
    have "typed ?t \<Longrightarrow> typed ?t1"
      using typed_in_place(1) [of ?t r R] new(4) by (simp add: with_queue_def)
    moreover have "typed ?t1 \<Longrightarrow> typed (?t1\<lparr>HostHeap := H, Signals := (Signals s)(S \<mapsto> \<lparr>CurrentValue = c, SignalMemory = r\<rparr>),
        SignalValues := (SignalValues s)(c \<mapsto> i64_max), SignalRegistry := registerObject (SignalRegistry s) c S\<rparr>)"
      using typed_create_signal [of ?t1 S c H r] new(1,2,3) by (simp add: with_queue_def)
    moreover have "with_queue p y s' = ?t1\<lparr>HostHeap := H, Signals := (Signals s)(S \<mapsto> \<lparr>CurrentValue = c, SignalMemory = r\<rparr>),
        SignalValues := (SignalValues s)(c \<mapsto> i64_max), SignalRegistry := registerObject (SignalRegistry s) c S\<rparr>"
      by (simp add: new(5) with_queue_def)
    moreover have "ReferenceCounter s' = ReferenceCounter s" "Instance s' = Instance s" "RtAgents s' = RtAgents s"
      "MemoryRegions s' = MemoryRegions s" "AgentRegistry s' = AgentRegistry s" "RegionRegistry s' = RegionRegistry s"
      by (simp_all add: new(5))
    ultimately show ?thesis by (simp add: keeps_def with_queue_def)
  qed
next
  case False
  then show ?thesis using assms by (simp add: new_doorbell_def keeps_refl)
qed

text \<open>
  The region of a new queue exists, and no other object has the handle of its doorbell: the allocator has just given it.
\<close>

lemma new_doorbell_fresh:
  assumes "new_doorbell nullptr r s = Inr (S, s')" and "deref (Signals s') S = Inr Sig"
  shows "CurrentValue Sig \<in> set (HostHeap s)"
  using assms by (auto simp: new_doorbell_def outcome_simps elim!: signal_new_Inr)

lemma new_queue_housed:
  fixes s :: "'m program_state_scheme"
  assumes "typed s" and "HostHeap s2 = H" and "set H \<subseteq> set (HostHeap s)" and "CPURegions s2 = CPURegions s"
    and "CPUMemoryRegion_allocate r s2 n a = Inr (b, s3)" and "s4 = s3\<lparr>Buffers := B\<rparr>"
    and "new_doorbell D r s4 = Inr (S, s5)" and "deref (Signals s5) S = Inr Sig"
    and "Region Q = r" and "IsDoorbellOwned Q = (D = nullptr)" and "doorbell_signal (HSAQueue Q) = CurrentValue Sig"
  shows "housed (SignalRegistry s) (Signals s) (CPURegions s) Q"
proof -
  from assms(5) obtain H' R A where R: "r \<noteq> nullptr" "CPURegions s2 r = Some R" "took b (HostHeap s2) H'"
    "s3 = s2\<lparr>HostHeap := H', CPURegions := (CPURegions s2)(r \<mapsto> R\<lparr>CPUAllocations := A\<rparr>)\<rparr>" by (rule allocate_Inr)
  have "T = nullptr" if "D = nullptr" "(CurrentValue Sig, T) \<in> set (SignalRegistry s)" for T
  proof -
    have "CurrentValue Sig \<in> set H'"
      using new_doorbell_fresh [OF assms(7) [unfolded that(1)] assms(8)] by (simp add: assms(6) R(4))
    then have "CurrentValue Sig \<in> set (HostHeap s)" using took_append [OF R(3)] assms(2,3) by auto
    then show ?thesis using assms(1) that(2) directoryD(4) unfolding typed_def by blast
  qed
  with R(1,2) assms(4,9-11) show ?thesis by (auto simp: housed_def)
qed

lemma queue_new_keeps:
  fixes s :: "'m program_state_scheme"
  assumes "UserModeQueue_new Size Type r CB' Owner D s = Inr (p, s1)" and "update_queue p (set_queue_id p) s1 = Inr s2"
  shows "keeps s s2"
proof -
  from assms(1) obtain s0 where s0: "operator_new s = Inr (p, s0)"
    by (auto simp: UserModeQueue_new_def outcome_simps Let_def split: if_splits)
  then obtain H where H: "p \<noteq> nullptr" "HostHeap s = p # H" "s0 = s\<lparr>HostHeap := H\<rparr>" by (rule operator_new_Inr)
  let ?s2 = "s\<lparr>HostHeap := H, QueueRegistry := registerObject (QueueRegistry s) p p\<rparr>"
  from assms(1) s0 H(3) obtain buf s3 S s5 Sig where s3: "CPUMemoryRegion_allocate r ?s2 (ucast Size * 64) 64 = Inr (buf, s3)"
    and s5: "new_doorbell D r (s3\<lparr>Buffers := (Buffers s3)(buf \<mapsto> replicate (unat Size) invalid_packet)\<rparr>) = Inr (S, s5)"
    and Sig: "deref (Signals s5) S = Inr Sig"
    and s1: "s1 = with_queue p \<lparr>HSAQueue = \<lparr>queue_type = Type,
        queue_features = hsa_agent_feature_t_value HSA_AGENT_FEATURE_KERNEL_DISPATCH,
        base_address = buf, doorbell_signal = CurrentValue Sig, queue_size = Size,
        queue_reserved1 = 0, queue_id = 0, read_index = 0, write_index = 0\<rparr>,
      QueueOwner = Owner, Destroyed = False, Inactivated = False, PacketIsProcessed = [],
      LastHandledDoorBell = i64_max, Region = r, CB = CB', IsDoorbellOwned = (D = nullptr)\<rparr> s5" (is "_ = with_queue p ?x s5")
    by (auto simp: UserModeQueue_new_def outcome_simps Let_def with_queue_def split: if_splits)
  define x where "x = ?x"
  have x: "Region x = r" "IsDoorbellOwned x = (D = nullptr)" "doorbell_signal (HSAQueue x) = CurrentValue Sig"
    by (simp_all add: x_def)
  define y where "y = set_queue_id p x"
  have y: "queue_id (HSAQueue y) = p" by (simp add: y_def set_queue_id_def)
  have place: "housed (SignalRegistry s) (Signals s) (CPURegions s) y" if "typed s"
    by (rule new_queue_housed [OF that _ _ _ s3 refl s5 Sig]) (use x H(2) in \<open>auto simp: y_def set_queue_id_def\<close>)
  have "keeps s (with_queue p y ?s2)"
    using typed_create(7) [OF _ H(2,1) y place] by (simp add: keeps_def with_queue_def)
  also have "keeps \<dots> (with_queue p y s3)" using s3 by (rule with_queue_allocate)
  also have "keeps \<dots> (with_queue p y (s3\<lparr>Buffers := (Buffers s3)(buf \<mapsto> replicate (unat Size) invalid_packet)\<rparr>))"
    by (simp add: keeps_def with_queue_def typed_def queues_named_def)
  also have "keeps \<dots> (with_queue p y s5)" using s5 by (rule with_queue_doorbell)
  also have "with_queue p y s5 = s2"
    using assms(2) H(1) by (auto simp: s1 x_def y_def with_queue_def update_queue_def deref_Some)
  finally show ?thesis .
qed

lemma update_queue_keeps:
  "update_queue p f s = Inr s' \<Longrightarrow> (\<And>Q. queue_id (HSAQueue (f Q)) = queue_id (HSAQueue Q) \<and> Region (f Q) = Region Q \<and>
    doorbell_signal (HSAQueue (f Q)) = doorbell_signal (HSAQueue Q) \<and> IsDoorbellOwned (f Q) = IsDoorbellOwned Q) \<Longrightarrow> keeps s s'"
  for s :: "'m program_state_scheme"
  by (auto simp: update_queue_def outcome_simps keeps_def intro!: typed_in_place(6))

lemma typed_uninterrupted: "typed s \<Longrightarrow> KernelAgents s a = Some A \<Longrightarrow> \<not> InterruptingTheQueue A"
  by (simp add: typed_def uninterrupted_def)

lemma update_agent_keeps:
  "update_agent p f s = Inr s' \<Longrightarrow> (\<And>A. \<not> InterruptingTheQueue A \<Longrightarrow> \<not> InterruptingTheQueue (f A)) \<Longrightarrow> keeps s s'"
  for s :: "'m program_state_scheme"
  by (auto simp: update_agent_def outcome_simps keeps_def intro!: typed_in_place(2) dest: typed_uninterrupted)

end
