(* ===== verification/Api_Typing.thy ===== *)
theory Api_Typing
  imports Process_Types
begin

text \<open>The entry points and the steps of the worker thread keep the typing of the process.\<close>

section \<open>Memory and queues\<close>

lemma hsa_memory_allocate_keeps: "hsa_memory_allocate s r n out = Inr (st, p, s') \<Longrightarrow> keeps s s'" for s :: "'m program_state_scheme"
  by (auto simp: hsa_memory_allocate_def outcome_simps keeps_refl Let_def split: if_splits dest!: allocate_keeps)

lemma hsa_memory_free_keeps: "hsa_memory_free s p = Inr (st, s') \<Longrightarrow> keeps s s'" for s :: "'m program_state_scheme"
  by (auto simp: hsa_memory_free_def Runtime_freePointer_def outcome_simps keeps_refl split: if_splits dest!: free_in_regions_keeps)

lemma createQueue_keeps:
  fixes s :: "'m program_state_scheme"
  assumes "CPUKernelAgent_createQueue s A n t cb = Inr (Q, s1)" and "update_queue Q (set_queue_id Q) s1 = Inr s2"
  shows "keeps s s2"
proof -
  from assms(1) obtain r s0 where new: "UserModeQueue_new n t r cb A nullptr s = Inr (Q, s0)"
    and agent: "update_agent A (registerQueue Q) s0 = Inr s1"
    by (auto simp: CPUKernelAgent_createQueue_def outcome_simps)
  obtain K where K: "A \<noteq> nullptr" "KernelAgents s0 A = Some K" "s1 = s0\<lparr>KernelAgents := (KernelAgents s0)(A \<mapsto> registerQueue Q K)\<rparr>"
    using agent by (auto simp: update_agent_def outcome_simps)
  obtain q where q: "Q \<noteq> nullptr" "Queues s0 Q = Some q" "s2 = s1\<lparr>Queues := (Queues s0)(Q \<mapsto> set_queue_id Q q)\<rparr>"
    using assms(2) K(3) by (auto simp: update_queue_def outcome_simps)
  define t where "t = s0\<lparr>Queues := (Queues s0)(Q \<mapsto> set_queue_id Q q)\<rparr>"
  have "update_queue Q (set_queue_id Q) s0 = Inr t" using q by (simp add: update_queue_def deref_Some t_def)
  with new have "keeps s t" by (rule queue_new_keeps)
  also have "update_agent A (registerQueue Q) t = Inr s2"
    using K q by (simp add: update_agent_def deref_Some t_def)
  then have "keeps t s2" by (rule update_agent_keeps) (simp add: registerQueue_def)
  finally show ?thesis .
qed

lemma queue_new_not_null: "UserModeQueue_new n t r cb A D s = Inr (Q, s1) \<Longrightarrow> Q \<noteq> nullptr"
  by (auto simp: UserModeQueue_new_def outcome_simps Let_def split: if_splits elim!: operator_new_Inr)

lemma createQueue_not_null: "CPUKernelAgent_createQueue s A n t cb = Inr (Q, s1) \<Longrightarrow> Q \<noteq> nullptr"
  by (auto simp: CPUKernelAgent_createQueue_def outcome_simps dest: queue_new_not_null)

lemma hsa_queue_create_keeps: "hsa_queue_create s a n t cb d ps gs out = Inr (st, q, s') \<Longrightarrow> keeps s s'"
  for s :: "'m program_state_scheme"
  by (auto simp: hsa_queue_create_def outcome_simps keeps_refl Let_def split: if_splits
      dest: createQueue_not_null createQueue_keeps)

lemma hsa_soft_queue_create_keeps: "hsa_soft_queue_create s r n t f d out = Inr (st, q, s') \<Longrightarrow> keeps s s'"
  for s :: "'m program_state_scheme"
  by (auto simp: hsa_soft_queue_create_def CPURuntime_createSoftQueue_def outcome_simps keeps_refl Let_def split: if_splits
      dest: queue_new_not_null queue_new_keeps)

lemma hsa_queue_destroy_keeps: "hsa_queue_destroy s q = Inr (st, s') \<Longrightarrow> keeps s s'" for s :: "'m program_state_scheme"
  by (auto simp: hsa_queue_destroy_def setDestroyed_def outcome_simps keeps_refl split: if_splits dest!: update_queue_keeps)

text \<open>While the caller waits for the worker the agent is being interrupted, and no more when it returns.\<close>

lemma terminateQueue_keeps:
  fixes s :: "'m program_state_scheme"
  assumes "CPUKernelAgent_terminateQueue a q reads s = Inr (Some s')"
  shows "keeps s s'"
proof -
  from assms obtain A where A: "KernelAgents s a = Some A"
    "s' = s\<lparr>KernelAgents := (KernelAgents s)(a \<mapsto> A\<lparr>InterruptingTheQueue := False\<rparr>)\<rparr>"
    by (auto simp: CPUKernelAgent_terminateQueue_def update_agent_def outcome_simps split: if_splits)
  from A(1) have "typed s \<Longrightarrow> typed s'" unfolding A(2) by (rule typed_in_place(2) [rotated]) simp
  then show ?thesis by (simp add: keeps_def A(2))
qed

lemma setInactivated_keeps: "setInactivated reads q s = Inr (Some s') \<Longrightarrow> keeps s s'" for s :: "'m program_state_scheme"
  by (auto simp: setInactivated_def outcome_simps split: if_splits
      dest!: update_queue_keeps dest: terminateQueue_keeps intro: keeps_trans)

lemma hsa_queue_inactivate_keeps: "hsa_queue_inactivate reads s q = Inr (Some (st, s')) \<Longrightarrow> keeps s s'"
  for s :: "'m program_state_scheme"
  by (auto simp: hsa_queue_inactivate_def outcome_simps keeps_refl split: if_splits option.splits dest!: setInactivated_keeps)

lemma index_step_keeps:
  fixes s :: "'m program_state_scheme"
  assumes "index_step c s = Inr (r, s')"
  shows "keeps s s'"
proof -
  have "typed s'" if "typed s"
  proof -
    obtain f MO q where c: "c = Index_Call f MO q" by (cases c)
    have named: "queues_named s" using that by (simp add: typed_def)
    from index_step_was_ready [OF assms] c obtain Q where Q: "q \<noteq> nullptr" "Queues s q = Some Q" "has_index_entry f MO"
      by (auto simp: index_call_ready_def index_map_def split: if_splits)
    with assms c index_step_live [OF named Q] that show ?thesis
      by (auto simp: with_indices_def split: prod.splits intro!: typed_in_place(6))
  qed
  moreover have "ReferenceCounter s' = ReferenceCounter s \<and> Instance s' = Instance s \<and> RtAgents s' = RtAgents s \<and>
    MemoryRegions s' = MemoryRegions s \<and> AgentRegistry s' = AgentRegistry s \<and> RegionRegistry s' = RegionRegistry s"
    using assms
    by (cases c rule: index_call.exhaust; rename_tac f MO q; case_tac f; case_tac MO)
      (auto simp: index_entry_defs index_operation_defs index_read_def index_old_def index_set_def outcome_simps atomic_defs)
  ultimately show ?thesis by (simp add: keeps_def)
qed

section \<open>Programs and code objects\<close>

lemma ISA_fromHSAObject_keeps: "ISA_fromHSAObject h s = (n, s') \<Longrightarrow> keeps s s'" for s :: "'m program_state_scheme"
  by (auto simp: ISA_fromHSAObject_def keeps_refl split: option.splits)

lemma hsa_isa_get_info_keeps: "hsa_isa_get_info s isa a i out = (st, f, s') \<Longrightarrow> keeps s s'" for s :: "'m program_state_scheme"
  by (auto simp: hsa_isa_get_info_def callingConventionCount_def callingConventions_def ISA_fromHSAObject_def keeps_refl Let_def
      split: if_splits option.splits prod.splits hsa_isa_info_t.splits)

lemma hsa_ext_program_create_keeps: "hsa_ext_program_create s m p r o' out = Inr (st, h, s') \<Longrightarrow> keeps s s'"
  by (auto simp: hsa_ext_program_create_def with_finalizer_def Finalizer_createProgram_def outcome_simps keeps_refl
      split: if_splits dest!: HSAILProgram_new_keeps)

lemma hsa_ext_program_destroy_keeps: "hsa_ext_program_destroy H s p = Inr (st, s') \<Longrightarrow> keeps s s'"
  by (auto simp: hsa_ext_program_destroy_def outcome_simps keeps_refl Let_def split: if_splits dest!: HSAILProgram_delete_keeps)

lemma update_program_keeps: "update_program p f s = Inr s' \<Longrightarrow> keeps s s'"
  by (auto simp: update_program_def outcome_simps keeps_def intro!: typed_in_place(3))

lemma update_code_keeps:
  "update_code p f s = Inr s' \<Longrightarrow> (\<And>P. ProgSymbols (f P) = ProgSymbols P) \<Longrightarrow> keeps s s'"
  by (auto simp: update_code_def outcome_simps keeps_def intro: typed_in_place(4))

lemma update_executable_keeps: "update_executable p f s = Inr s' \<Longrightarrow> keeps s s'"
  by (auto simp: update_executable_def outcome_simps keeps_def intro!: typed_in_place(5))

lemma hsa_ext_program_add_module_keeps: "hsa_ext_program_add_module s p m = Some (Inr (st, s')) \<Longrightarrow> keeps s s'"
  by (auto simp: hsa_ext_program_add_module_def with_finalizer_def Finalizer_addModule_def outcome_simps keeps_refl Let_def
      split: if_splits prod.splits dest!: update_program_keeps)

lemma fresh_name_keeps: "fresh_name s = Inr (n, s') \<Longrightarrow> keeps s s'"
  by (auto simp: fresh_name_def keeps_refl split: list.splits)

lemma dump_modules_keeps: "dump_modules H d p ms Ps s = Inr (ok, Ps', s') \<Longrightarrow> keeps s s'"
proof (induction ms arbitrary: Ps s)
  case (Cons m ms)
  then obtain n s1 where n: "fresh_name s = Inr (n, s1)" by (auto simp: outcome_simps)
  let ?path = "d @ ''/'' @ n @ ''.brig''"
  note 1 = fresh_name_keeps [OF n]
  show ?case
  proof (cases "can_open H ?path")
    case False
    with Cons.prems n 1 show ?thesis by (simp add: Let_def)
  next
    case True
    let ?s2 = "s1\<lparr>Files := (Files s1)(?path \<mapsto> module_bytes (Memory s1) m)\<rparr>"
    from True Cons.prems n obtain s3 where s3: "update_program p (addTempFile ?path) ?s2 = Inr s3"
      "dump_modules H d p ms (Ps @ [?path]) s3 = Inr (ok, Ps', s')" by (auto simp: Let_def outcome_simps)
    have "keeps s ?s2" using 1 by simp
    also have "keeps ?s2 s3" using s3(1) by (rule update_program_keeps)
    also have "keeps s3 s'" using s3(2) by (rule Cons.IH)
    finally show ?thesis .
  qed
qed (simp add: keeps_refl)

lemma dumpBRIGS_keeps:
  assumes "dumpBRIGS H d p s = Inr (ok, Ps, s')"
  shows "keeps s s'"
proof -
  obtain b s1 where d: "IsDebugMode H s = (b, s1)" by (cases "IsDebugMode H s")
  with assms obtain ms where ms: "dump_modules H d p ms [] s1 = Inr (ok, Ps, s')" by (auto simp: dumpBRIGS_def outcome_simps)
  have "keeps s s1" using d by (rule IsDebugMode_keeps)
  also have "keeps s1 s'" using ms by (rule dump_modules_keeps)
  finally show ?thesis .
qed

lemma compiler_temp_dir_keeps: "compiler_temp_dir H s = (d, s') \<Longrightarrow> keeps s s'"
  by (auto simp: compiler_temp_dir_def keeps_refl split: option.splits list.splits)

lemma load_binary_keeps:
  assumes "load_binary H path ISA P cd s = Inr (st, c, s')"
  shows "keeps s s'"
proof -
  from assms obtain blob n s1 p s2 s3 Q ok where steps: "operator_new s = Inr (n, s1)"
    "DLFinalizedProgram_new H blob ISA (MachineModel P) (Profile P) (DefaultRoundingMode P) s1 = Inr (p, s2)"
    "update_code p (setBinFileName path) s2 = Inr s3"
    "s' = s3 \<or> DLFinalizedProgram_delete H p s3 = Inr s'"
    by (auto simp: load_binary_def outcome_simps split: option.splits if_splits)
  have "keeps s s1" using steps(1) by (rule operator_new_keeps)
  also have "keeps s1 s2" using steps(2) by (rule DLFinalizedProgram_new_keeps)
  also have "keeps s2 s3" using steps(3) by (rule update_code_keeps) (simp add: setBinFileName_def)
  also have "keeps s3 s'" using steps(4) keeps_refl DLFinalizedProgram_delete_keeps by blast
  finally show ?thesis .
qed

lemma compile_keeps:
  assumes "and_then (dumpBRIGS H d q s) (\<lambda>(ok, BRIGPaths, s3).
      if \<not> ok then Inr (E, 0, s3)
      else let dynObjectPath = last BRIGPaths @ ''.so'';
               (status, fs) = run_command H (compile_command H debug BRIGPaths dynObjectPath o') (Files s3);
               s4 = s3\<lparr>Files := fs\<rparr>
           in if command_failed status then Inr (E, 0, s4) else load_binary H dynObjectPath ISA prog cd s4) = Inr (st, c, s')"
  shows "keeps s s'"
proof -
  obtain ok Ps s3 where dump: "dumpBRIGS H d q s = Inr (ok, Ps, s3)" using assms by (auto simp: outcome_simps)
  obtain status fs where run: "run_command H (compile_command H debug Ps (last Ps @ ''.so'') o') (Files s3) = (status, fs)"
    by (cases "run_command H (compile_command H debug Ps (last Ps @ ''.so'') o') (Files s3)")
  have "s' = s3 \<or> s' = s3\<lparr>Files := fs\<rparr> \<or> load_binary H (last Ps @ ''.so'') ISA prog cd (s3\<lparr>Files := fs\<rparr>) = Inr (st, c, s')"
    using assms by (simp add: dump run Let_def split: if_splits)
  moreover have "keeps s s3" using dump by (rule dumpBRIGS_keeps)
  moreover from this have "keeps s (s3\<lparr>Files := fs\<rparr>)" by simp
  ultimately show ?thesis by (blast intro: keeps_trans load_binary_keeps)
qed

lemma finalizeProgram_keeps:
  assumes "GCCFinalizer_finalizeProgram H p cd ISA o' s = Inr (st, c, s')"
  shows "keeps s s'"
proof (cases "getenv H ''PHSA_GCCBRIG_BUILD_DIR'' \<noteq> None \<and> Files s (brigFrontendBin H) = None")
  case True
  with assms show ?thesis by (simp add: GCCFinalizer_finalizeProgram_def keeps_refl)
next
  case False
  let ?q = "fromHSAObject (ProgramRegistry s) p"
  obtain D s1 where D: "compiler_temp_dir H s = (D, s1)" by (cases "compiler_temp_dir H s")
  obtain b s2 where b: "IsDebugMode H s1 = (b, s2)" by (cases "IsDebugMode H s1")
  have s2: "keeps s s2" using compiler_temp_dir_keeps [OF D] IsDebugMode_keeps [OF b] by (rule keeps_trans)
  from assms False obtain prog where prog: "deref (HSAILPrograms s) ?q = Inr prog"
    unfolding GCCFinalizer_finalizeProgram_def by (auto simp: outcome_simps Let_def)
  show ?thesis
  proof (cases "hasModules prog \<and> D \<noteq> None")
    case True
    then obtain d where d: "D = Some d" and modules: "\<not> \<not> hasModules prog" by blast
    have "keeps s2 s'"
      using assms unfolding GCCFinalizer_finalizeProgram_def if_not_P [OF False] Let_def prog and_then.simps D d
        if_not_P [OF modules] prod.case option.case b
      by (rule compile_keeps [unfolded Let_def])
    with s2 show ?thesis by (rule keeps_trans)
  next
    case no: False
    then have "s' = s \<or> s' = s1"
      using assms False prog D unfolding GCCFinalizer_finalizeProgram_def by (auto split: if_splits)
    then show ?thesis using compiler_temp_dir_keeps [OF D] keeps_refl by blast
  qed
qed

lemma with_finalizer_Inr: "with_finalizer s m = Inr x \<Longrightarrow> m = Inr x"
  by (auto simp: with_finalizer_def outcome_simps split: if_splits)

lemma hsa_ext_program_finalize_keeps:
  assumes "hsa_ext_program_finalize H s p isa cc cd o' t out = Inr (st, c, s')"
  shows "keeps s s'"
proof -
  obtain n s1 where n: "ISA_fromHSAObject isa s = (n, s1)" by (cases "ISA_fromHSAObject isa s")
  have s1: "keeps s s1" using n by (rule ISA_fromHSAObject_keeps)
  note unfolded = assms [unfolded hsa_ext_program_finalize_def n Let_def prod.case]
  consider "s' = s \<or> s' = s1" | "with_finalizer s1 (and_then (GCCFinalizer_finalizeProgram H p cd isa o' s1) (\<lambda>(Ret, c, s2).
        if out = nullptr then Inl Null_Dereference else Inr (Ret, Some c, s2))) = Inr (st, c, s')"
    using unfolded by (cases "isInitialized s"; cases "n = []"; cases "p = 0") simp_all
  then show ?thesis
  proof cases
    case 1
    with s1 keeps_refl show ?thesis by blast
  next
    case 2
    from with_finalizer_Inr [OF this] obtain c' where "GCCFinalizer_finalizeProgram H p cd isa o' s1 = Inr (st, c', s')"
      by (auto simp: outcome_simps split: if_splits)
    then have "keeps s1 s'" by (rule finalizeProgram_keeps)
    with s1 show ?thesis by (rule keeps_trans)
  qed
qed

lemma hsa_code_object_serialize_keeps:
  assumes "hsa_code_object_serialize s c f d o1 o2 = Inr (st, a, n, s')"
  shows "keeps s s'"
proof (cases "\<not> isInitialized s \<or> fromHSAObject (CodeRegistry s) c = nullptr \<or> f = None \<or> o1 = nullptr \<or> o2 = nullptr")
  case True
  then have "s' = s" using assms unfolding hsa_code_object_serialize_def Let_def by (auto split: if_splits)
  then show ?thesis by (simp add: keeps_refl)
next
  case False
  with assms obtain FP where FP: "deref (FinalizedPrograms s) (fromHSAObject (CodeRegistry s) c) = Inr FP"
    by (auto simp: hsa_code_object_serialize_def outcome_simps)
  obtain st' p where "(the f) (serializedSize FP) d = (st', p)" by (cases "(the f) (serializedSize FP) d")
  with FP assms False have "s' = s \<or> s' = s\<lparr>Memory := serializeTo FP p (Memory s)\<rparr>"
    by (auto simp: hsa_code_object_serialize_def split: if_splits)
  then show ?thesis by (auto simp: keeps_refl)
qed

lemma deserialize_keeps:
  assumes "DLFinalizedProgram_deserialize H b s = Inr (p, s')"
  shows "keeps s s'"
proof -
  from assms obtain n s1 where s1: "operator_new s = Inr (n, s1)"
    by (auto simp: DLFinalizedProgram_deserialize_def outcome_simps Let_def)
  with assms obtain name ns where "FreshNames s1 = name # ns"
    by (cases "FreshNames s1") (auto simp: DLFinalizedProgram_deserialize_def Let_def)
  with assms s1 obtain fs s2 blob ISA MM P RM path where
    s2: "DLFinalizedProgram_new H blob ISA MM P RM (s1\<lparr>FreshNames := ns, Files := fs\<rparr>) = Inr (p, s2)"
    and s': "update_code p (setBinFileName path) s2 = Inr s'"
    by (auto simp: DLFinalizedProgram_deserialize_def outcome_simps Let_def)
  have "keeps s (s1\<lparr>FreshNames := ns, Files := fs\<rparr>)" using operator_new_keeps [OF s1] by simp
  also have "keeps \<dots> s2" using s2 by (rule DLFinalizedProgram_new_keeps)
  also have "keeps s2 s'" using s' by (rule update_code_keeps) (simp add: setBinFileName_def)
  finally show ?thesis .
qed

lemma hsa_code_object_deserialize_keeps: "hsa_code_object_deserialize H s b n o' out = Inr (st, c, s') \<Longrightarrow> keeps s s'"
  by (auto simp: hsa_code_object_deserialize_def outcome_simps keeps_refl split: if_splits dest!: deserialize_keeps)

lemma hsa_code_object_destroy_keeps: "hsa_code_object_destroy H s c = Inr (st, s') \<Longrightarrow> keeps s s'"
  by (auto simp: hsa_code_object_destroy_def outcome_simps dest!: DLFinalizedProgram_delete_keeps)

section \<open>Executables\<close>

lemma hsa_executable_create_keeps: "hsa_executable_create s p e o' out = Inr (st, h, s') \<Longrightarrow> keeps s s'"
  by (auto simp: hsa_executable_create_def outcome_simps keeps_refl split: if_splits dest!: ELFExecutable_new_keeps)

lemma hsa_executable_destroy_keeps: "hsa_executable_destroy s e = Inr (st, s') \<Longrightarrow> keeps s s'"
  by (auto simp: hsa_executable_destroy_def outcome_simps keeps_refl Let_def split: if_splits dest!: ELFExecutable_delete_keeps)

lemma hsa_executable_freeze_keeps: "hsa_executable_freeze s e o' = Inr (st, s') \<Longrightarrow> keeps s s'"
  by (auto simp: hsa_executable_freeze_def outcome_simps keeps_refl Let_def split: if_splits dest!: update_executable_keeps)

lemma hsa_executable_define_keeps:
  "hsa_executable_global_variable_define s e n a = Inr (st, s') \<Longrightarrow> keeps s s'"
  "hsa_executable_agent_global_variable_define s e ag n a = Inr (st, s') \<Longrightarrow> keeps s s'"
  "hsa_executable_readonly_variable_define s e ag n a = Inr (st, s') \<Longrightarrow> keeps s s'"
  by (auto simp: hsa_executable_global_variable_define_def hsa_executable_agent_global_variable_define_def
      hsa_executable_readonly_variable_define_def outcome_simps keeps_refl Let_def
      split: if_splits option.splits dest!: update_executable_keeps)

lemma dlhandle_keeps: "dlhandle H p s = Inr (d, s') \<Longrightarrow> keeps s s'"
  by (auto simp: dlhandle_def outcome_simps keeps_refl Let_def split: if_splits elim: update_code_keeps)

lemma defineGlobal_keeps: "DLFinalizedProgram_defineGlobalSymbolAddress H p n a s = Inr s' \<Longrightarrow> keeps s s'"
  by (auto simp: DLFinalizedProgram_defineGlobalSymbolAddress_def outcome_simps split: if_splits option.splits dest!: dlhandle_keeps)

lemma define_globals_keeps: "define_globals H p ds s = Inr s' \<Longrightarrow> keeps s s'"
proof (induction ds arbitrary: s)
  case (Cons d ds)
  then obtain s1 where "keeps s s1" "define_globals H p ds s1 = Inr s'"
    by (cases d) (auto simp: outcome_simps dest: defineGlobal_keeps)
  with Cons.IH show ?case by (blast intro: keeps_trans)
qed (simp add: keeps_refl)

text \<open>
  A symbol is registered before its object exists, and owned by the code object after that. In between the library
  is opened at most, which changes the code object alone.
\<close>

lemma symbolAddress_frame:
  assumes "DLFinalizedProgram_symbolAddress H p n s = Inr (a, s')"
  obtains P P' where "p \<noteq> nullptr" "FinalizedPrograms s p = Some P" "ProgSymbols P' = ProgSymbols P"
    "s' = s\<lparr>FinalizedPrograms := (FinalizedPrograms s)(p \<mapsto> P')\<rparr>"
proof -
  from assms obtain dlh where d: "dlhandle H p s = Inr (dlh, s')"
    by (auto simp: DLFinalizedProgram_symbolAddress_def outcome_simps split: if_splits option.splits)
  then obtain P where P: "p \<noteq> nullptr" "FinalizedPrograms s p = Some P" by (auto simp: dlhandle_def outcome_simps)
  show thesis
  proof (cases "Dlhandle P = nullptr")
    case True
    with d P show thesis
      by (intro that [of P "P\<lparr>Dlhandle := dlh\<rparr>"])
        (auto simp: dlhandle_def deref_Some update_code_def outcome_simps Let_def split: if_splits)
  next
    case False
    with d P have "s' = s" by (auto simp: dlhandle_def deref_Some)
    moreover have "(FinalizedPrograms s)(p \<mapsto> P) = FinalizedPrograms s" using P(2) by (simp add: fun_upd_idem)
    ultimately show thesis using P by (intro that [of P P]) simp_all
  qed
qed

lemma new_symbol_keeps:
  assumes "new_symbol H e c n mk s = Inr s'"
  shows "keeps s s'"
proof -
  from assms obtain p s1 a s2 s3 where steps: "operator_new s = Inr (p, s1)"
    "DLFinalizedProgram_symbolAddress H c n (s1\<lparr>SymbolRegistry := registerObject (SymbolRegistry s1) p p\<rparr>) = Inr (a, s2)"
    "update_code c (addSymbol p) (s2\<lparr>SymbolObjects := (SymbolObjects s2)(p \<mapsto> mk p a)\<rparr>) = Inr s3"
    "update_executable e (registerSymbol p (CHR ''&'' # n)) s3 = Inr s'"
    by (auto simp: new_symbol_def outcome_simps)
  from steps(1) obtain Hp where p: "p \<noteq> nullptr" "HostHeap s = p # Hp" "s1 = s\<lparr>HostHeap := Hp\<rparr>" by (rule operator_new_Inr)
  let ?t = "s1\<lparr>SymbolRegistry := registerObject (SymbolRegistry s1) p p\<rparr>"
  from steps(2) obtain P P' where P: "c \<noteq> nullptr" "FinalizedPrograms ?t c = Some P" "ProgSymbols P' = ProgSymbols P"
    "s2 = ?t\<lparr>FinalizedPrograms := (FinalizedPrograms ?t)(c \<mapsto> P')\<rparr>" by (rule symbolAddress_frame)
  have c: "FinalizedPrograms s c = Some P" using P(2) by (simp add: p(3))
  have "s3 = s\<lparr>HostHeap := Hp, SymbolRegistry := registerObject (SymbolRegistry s) p p, SymbolObjects := (SymbolObjects s)(p \<mapsto> mk p a),
      FinalizedPrograms := (FinalizedPrograms s)(c \<mapsto> addSymbol p P')\<rparr>"
    using steps(3) P(1) by (simp add: P(4) p(3) update_code_def deref_Some)
  then have "keeps s s3"
    using typed_create(6) [OF _ p(2,1) c, of "addSymbol p P'"] P(3) by (simp add: keeps_def addSymbol_def)
  also have "keeps s3 s'" using steps(4) by (rule update_executable_keeps)
  finally show ?thesis .
qed

lemma load_symbol_keeps:
  assumes "load_symbol H e c Sym s = Inr s'"
  shows "keeps s s'"
proof -
  obtain n info where Sym: "Sym = (n, info)" by (cases Sym)
  have "s' = s \<or> (\<exists>mk. new_symbol H e c n mk s = Inr s')"
  proof (cases "hidden_symbol n")
    case True
    with assms Sym show ?thesis by (simp add: load_symbol_def)
  next
    case False
    with assms Sym obtain P where P: "c \<noteq> nullptr" "FinalizedPrograms s c = Some P"
      by (auto simp: load_symbol_def outcome_simps)
    show ?thesis
      using assms Sym False P
      by (cases "findDescriptor n P") (auto simp: load_symbol_def deref_Some outcome_simps split: if_splits)
  qed
  then show ?thesis using keeps_refl new_symbol_keeps by blast
qed

lemma load_symbols_keeps: "load_symbols H e c Syms s = Inr s' \<Longrightarrow> keeps s s'"
proof (induction Syms arbitrary: s)
  case (Cons Sym Syms)
  then obtain s1 where "keeps s s1" "load_symbols H e c Syms s1 = Inr s'"
    by (auto simp: outcome_simps dest: load_symbol_keeps)
  with Cons.IH show ?case by (blast intro: keeps_trans)
qed (simp add: keeps_refl)

lemma LoadCodeObject_keeps:
  assumes "LoadCodeObject H e c s = Inr (st, s')"
  shows "keeps s s'"
proof (cases "fromHSAObject (CodeRegistry s) c = nullptr")
  case True
  with assms show ?thesis by (simp add: LoadCodeObject_def keeps_refl)
next
  case False
  let ?p = "fromHSAObject (CodeRegistry s) c"
  from assms False obtain E s1 P ELF Syms s2 s3 where "Executables s e = Some E" "define_globals H ?p (DefinedSymbols E) s = Inr s1"
    "FinalizedPrograms s1 ?p = Some P" "parse_elf H (ELFBlob P) = Some ELF" "elf_symtab ELF = Some Syms"
    "update_code ?p (\<lambda>P. P\<lparr>CodeVersion := e_version ELF\<rparr>) s1 = Inr s2" "load_symbols H e ?p Syms s2 = Inr s3"
    "update_code ?p (\<lambda>P. P\<lparr>Parent := e\<rparr>) s3 = Inr s'"
    by (auto simp: LoadCodeObject_def Let_def outcome_simps split: option.splits)
  moreover from this have "keeps s1 s2" "keeps s3 s'" by (auto elim: update_code_keeps)
  ultimately show ?thesis by (blast intro: keeps_trans define_globals_keeps load_symbols_keeps)
qed

lemma hsa_executable_load_code_object_keeps:
  "hsa_executable_load_code_object H s e a c o' = Inr (st, s') \<Longrightarrow> keeps s s'"
  by (auto simp: hsa_executable_load_code_object_def outcome_simps keeps_refl Let_def split: if_splits dest!: LoadCodeObject_keeps)

section \<open>The AMD extension\<close>

lemma with_agents_keeps: "keeps s s1 \<Longrightarrow> keeps s (s1\<lparr>AmdAgents := f\<rparr>)" for s :: "'m amd_state_scheme"
  by simp

lemma iterate_callback_pools:
  fixes s :: "'m program_state_scheme"
  assumes "iterate_callback initialize_memory_pools Rs data = (st, Inr (ps, s'))"
    and "\<And>ps s1. data = Inr (ps, s1) \<Longrightarrow> keeps s s1"
  shows "keeps s s'"
  using assms
proof (induction Rs arbitrary: data)
  case (Cons R Rs)
  let ?data = "snd (initialize_memory_pools R data)"
  have "iterate_callback initialize_memory_pools Rs ?data = (st, Inr (ps, s'))"
    using Cons.prems(1) by (simp add: initialize_memory_pools_def [of R])
  moreover have "keeps s s1" if "?data = Inr (qs, s1)" for qs s1
    using that Cons.prems(2)
    by (auto simp: initialize_memory_pools_def outcome_simps dest!: operator_new_keeps intro: keeps_trans)
  ultimately show ?case by (rule Cons.IH)
qed simp

lemma AgentData_new_keeps:
  fixes s :: "'m program_state_scheme"
  assumes "AgentData_new a s = Inr (ps, s')"
  shows "keeps s s'"
proof -
  from assms obtain n s1 st where s1: "operator_new s = Inr (n, s1)"
    "hsa_agent_iterate_regions s1 a (Some initialize_memory_pools) (Inr ([], s1)) = Inr (st, Inr (ps, s'))"
    by (auto simp: AgentData_new_def outcome_simps split: if_splits)
  have "keeps s s1" using s1(1) by (rule operator_new_keeps)
  also have "keeps s1 s'"
    using s1(2) by (auto simp: hsa_agent_iterate_regions_def outcome_simps keeps_refl Let_def split: if_splits
      dest!: iterate_callback_pools [where s = s1])
  finally show ?thesis .
qed

lemma hsa_amd_agent_iterate_memory_pools_keeps:
  fixes s :: "'m amd_state_scheme"
  assumes "hsa_amd_agent_iterate_memory_pools s a f d = Inr (st, d', s')"
  shows "keeps s s'"
  using assms by (auto simp: hsa_amd_agent_iterate_memory_pools_def get_agent_data_def outcome_simps keeps_refl
      split: option.splits dest!: AgentData_new_keeps)

lemma wait_dependencies_id:
  "wait_dependencies seen (\<lambda>_ s. s) ds i n s = Some (Inr s') \<Longrightarrow> s' = s"
  by (induction n arbitrary: i) (auto split: if_splits prod.splits sum.splits option.splits)

lemma hsa_amd_memory_async_copy_keeps:
  fixes s :: "'m program_state_scheme"
  assumes "hsa_amd_memory_async_copy seen (\<lambda>_ s. s) s dst da src sa n k ds c = Some (Inr (st, s'))"
  shows "keeps s s'"
proof -
  from assms obtain s1 where s1: "wait_dependencies seen (\<lambda>_ s. s) ds 0 (unat k) s = Some (Inr s1)"
    by (auto simp: hsa_amd_memory_async_copy_def proceed_def split: option.splits sum.splits)
  from wait_dependencies_id [OF s1] s1 assms
  have "hsa_signal_store_relaxed (s\<lparr>Memory := snd (hsa_memory_copy s dst src n (Memory s))\<rparr>) c 0 = Inr s'"
    by (auto simp: hsa_amd_memory_async_copy_def Let_def proceed_def split: sum.splits)
  then have "keeps (s\<lparr>Memory := snd (hsa_memory_copy s dst src n (Memory s))\<rparr>) s'"
    unfolding hsa_signal_store_relaxed_def by (rule store_keeps)
  moreover have "keeps s (s\<lparr>Memory := snd (hsa_memory_copy s dst src n (Memory s))\<rparr>)" by (simp add: keeps_refl)
  ultimately show ?thesis by (rule keeps_trans [rotated])
qed

section \<open>The worker thread\<close>

lemma typed_symbol_lookup:
  assumes "typed s" and "fromHandle (SymbolRegistry s) h = (p, R)"
  shows "typed (s\<lparr>SymbolRegistry := R\<rparr>)"
  using assms by (auto simp: typed_def queues_named_def dest: directory_fromHandle)

lemma find_kernel_keeps: "find_kernel s h = Inr (K, s') \<Longrightarrow> keeps s s'" for s :: "'m program_state_scheme"
  by (cases "fromHandle (SymbolRegistry s) h")
    (auto simp: find_kernel_def Let_def keeps_def outcome_simps typed_symbol_lookup split: if_splits)

lemma ExecuteCallback_keeps: "ExecuteCallback s q st = Inr s' \<Longrightarrow> keeps s s'" for s :: "'m program_state_scheme"
  by (auto simp: ExecuteCallback_def outcome_simps keeps_refl)

lemma call_kernel_keeps: "keeps s s1 \<Longrightarrow> keeps s (call_kernel code a l g s1)" for s :: "'m program_state_scheme"
  by (auto simp: call_kernel_def case_prod_beta keeps_def intro!: typed_values split: option.splits)

lemma launch_kernel_keeps:
  fixes s :: "'m program_state_scheme"
  assumes "launch_kernel code K P i g s = Inr s'"
  shows "keeps s s'"
proof -
  let ?A = "ucast (KernargSegmentAlignment K) :: u64" and ?n = "ucast (KernargSegmentSize K) :: u64"
  obtain q s1 where m: "posix_memalign ?A ?n s = (q, s1)" by (cases "posix_memalign ?A ?n s")
  from posix_memalign_took [OF m] obtain H where "took (case q of None \<Rightarrow> nullptr | Some p \<Rightarrow> p) (HostHeap s) H"
    and s1: "s1 = s\<lparr>HostHeap := H\<rparr>" by blast
  then obtain ps where "HostHeap s = ps @ H" using took_append by blast
  then have "keeps s s1" using typed_supply [of s ps H] by (simp add: s1 keeps_def)
  then show ?thesis
    using assms m by (auto simp: launch_kernel_def Let_def keeps_refl split: if_splits option.splits intro!: call_kernel_keeps)
qed

lemma launch_or_report_keeps: "launch_or_report code q P i g K s = Inr s' \<Longrightarrow> keeps s s'" for s :: "'m program_state_scheme"
  by (auto simp: launch_or_report_def Let_def split: if_splits dest: launch_kernel_keeps ExecuteCallback_keeps)

lemma dispatch_kernel_keeps:
  fixes s :: "'m program_state_scheme"
  assumes "dispatch_kernel code r q P i s = Inr s'"
  shows "keeps s s'"
proof -
  from assms obtain g s1 K s2 s3 where steps: "allocate_group_memory r (kd_group_segment_size P) s = Inr (g, s1)"
    "find_kernel s1 (kd_kernel_object P) = Inr (K, s2)" "launch_or_report code q P i g K s2 = Inr s3"
    "free_group_memory r g s3 = Inr s'" by (auto simp: dispatch_kernel_def outcome_simps)
  have "keeps s s1" using steps(1) by (auto simp: allocate_group_memory_def keeps_refl split: if_splits dest: allocate_keeps)
  also have "keeps s1 s2" using steps(2) by (rule find_kernel_keeps)
  also have "keeps s2 s3" using steps(3) by (rule launch_or_report_keeps)
  also have "keeps s3 s'" using steps(4)
    by (auto simp: free_group_memory_def keeps_refl outcome_simps split: if_splits dest: free_keeps)
  finally show ?thesis .
qed

lemma handle_packet_keeps: "handle_packet code r q P i s = Inr (Completed c s') \<Longrightarrow> keeps s s'" for s :: "'m program_state_scheme"
  by (auto simp: handle_packet_def Let_def outcome_simps keeps_refl split: if_splits dest: dispatch_kernel_keeps)

lemma set_processed_keeps:
  "update_queue_outcome q (SetPacketProcessed i b) s = Inr s' \<Longrightarrow> keeps s s'" for s :: "'m program_state_scheme"
  by (auto simp: update_queue_outcome_def SetPacketProcessed_def Let_def outcome_simps keeps_def split: if_splits
      intro!: typed_in_place(6))

lemma advance_read_index_keeps: "advance_read_index q i ci s = Inr (cri, s') \<Longrightarrow> keeps s s'" for s :: "'m program_state_scheme"
  by (auto simp: advance_read_index_def UserModeQueue_storeReadIndex_def outcome_simps
      dest!: update_queue_keeps set_processed_keeps intro: keeps_trans)

lemma clear_slot_keeps: "clear_slot b i s = Inr s' \<Longrightarrow> keeps s s'" for s :: "'m program_state_scheme"
  by (auto simp: clear_slot_def outcome_simps keeps_refl split: if_splits)

lemma completion_keeps:
  fixes s :: "'m program_state_scheme"
  assumes "and_then (clear_slot b i s) (\<lambda>s2.
     and_then (if cri = ci then advance_read_index q i ci s2
               else and_then (update_queue_outcome q (SetPacketProcessed i True) s2) (\<lambda>s3. Inr (cri, s3))) (\<lambda>(cri', s3).
     and_then (if c \<noteq> nullptr then GCCBuiltinSignal_store s3 c 0 Relaxed else Inr s3) (\<lambda>s4. Inr (False, cri', s4)))) =
     Inr (stop, cri'', s')"
  shows "keeps s s'"
proof -
  from assms obtain s2 cri' s3 where steps: "clear_slot b i s = Inr s2"
    "(if cri = ci then advance_read_index q i ci s2
      else and_then (update_queue_outcome q (SetPacketProcessed i True) s2) (\<lambda>s3. Inr (cri, s3))) = Inr (cri', s3)"
    "(if c \<noteq> nullptr then GCCBuiltinSignal_store s3 c 0 Relaxed else Inr s3) = Inr s'"
    by (auto simp: outcome_simps)
  have "keeps s s2" using steps(1) by (rule clear_slot_keeps)
  also have "keeps s2 s3" using steps(2)
    by (auto simp: outcome_simps split: if_splits dest: advance_read_index_keeps set_processed_keeps)
  also have "keeps s3 s'" using steps(3) by (auto simp: keeps_refl split: if_splits dest: store_keeps)
  finally show ?thesis .
qed

lemma packet_step_keeps:
  fixes s :: "'m program_state_scheme"
  assumes "packet_step code r q n cri ci s = Inr (stop, cri', s')"
  shows "keeps s s'"
proof -
  let ?i = "unat (ci mod n)"
  from assms obtain Q where Q: "deref (Queues s) q = Inr Q" "\<not> 2 ^ 31 \<le> ?i"
    unfolding packet_step_def Let_def by (auto simp: outcome_simps split: if_splits)
  let ?b = "base_address (HSAQueue Q)"
  from assms obtain P where P: "load_slot ?b ?i s = Inr P"
    unfolding packet_step_def Let_def if_not_P [OF Q(2)] Q(1) by (auto simp: outcome_simps)
  show ?thesis
  proof (cases "packet_type P = HSA_PACKET_TYPE_INVALID")
    case True
    with assms show ?thesis
      unfolding packet_step_def Let_def if_not_P [OF Q(2)] Q(1) P and_then.simps if_P [OF True]
      by (auto simp: outcome_simps keeps_refl split: if_splits dest: advance_read_index_keeps)
  next
    case False
    with assms obtain R where R: "handle_packet code r q P ci s = Inr R"
      unfolding packet_step_def Let_def if_not_P [OF Q(2)] Q(1) P and_then.simps if_not_P [OF False]
      by (auto simp: outcome_simps)
    note body = assms [unfolded packet_step_def Let_def if_not_P [OF Q(2)] Q(1) P and_then.simps if_not_P [OF False] R]
    show ?thesis
    proof (cases R)
      case Blocked
      with body show ?thesis by (simp add: keeps_refl)
    next
      case (Completed c s1)
      have "keeps s s1" using R unfolding Completed by (rule handle_packet_keeps)
      also have "keeps s1 s'" using body unfolding Completed packet_result.case by (rule completion_keeps)
      finally show ?thesis .
    qed
  qed
qed

lemma packet_loop_keeps:
  "packet_loop code r q n l cwi cri ci s = Inr s' \<Longrightarrow> keeps s s'" for s :: "'m program_state_scheme"
proof (induction "unat cwi - unat ci" arbitrary: cri ci s rule: less_induct)
  case less
  show ?case
  proof (cases "l < ci \<or> n = 0 \<or> cwi \<le> ci")
    case True
    with less.prems show ?thesis by (auto simp: packet_loop.simps keeps_refl split: if_splits)
  next
    case False
    then obtain stop cri' s1 where step: "packet_step code r q n cri ci s = Inr (stop, cri', s1)"
      "(if stop then Inr s1 else packet_loop code r q n l cwi cri' (ci + 1) s1) = Inr s'"
      using less.prems by (subst (asm) packet_loop.simps) (auto simp: outcome_simps)
    have "unat cwi - unat (ci + 1) < unat cwi - unat ci"
      using False by (auto simp: not_le unat_Suc_less word_less_nat_alt)
    then have "keeps s1 s'" using step(2) less.hyps by (auto simp: keeps_refl split: if_splits)
    with packet_step_keeps [OF step(1)] show ?thesis by (rule keeps_trans)
  qed
qed

lemma service_queue_keeps:
  fixes s :: "'m program_state_scheme"
  assumes "service_queue code r q s = Inr s'"
  shows "keeps s s'"
proof -
  from assms consider "s' = s" | db s1 n l cwi cri where "update_queue q (setLastHandledDoorBell db) s = Inr s1"
      "packet_loop code r q n l cwi cri cri s1 = Inr s'"
    by (auto simp: service_queue_def Let_def outcome_simps split: if_splits)
  then show ?thesis
  proof cases
    case 2
    have "keeps s s1" using 2(1) by (rule update_queue_keeps) (simp add: setLastHandledDoorBell_def)
    also have "keeps s1 s'" using 2(2) by (rule packet_loop_keeps)
    finally show ?thesis .
  qed (simp add: keeps_refl)
qed

text \<open>The state that a turn leaves, whether or not the worker gets out of its endless loop.\<close>

fun turn_state :: "'s turn \<Rightarrow> 's" where
  "turn_state (Spins s) = s"
| "turn_state (Proceeds s) = s"

lemma queue_turn_keeps:
  fixes s :: "'m program_state_scheme"
  assumes "queue_turn code a q s = Inr t"
  shows "keeps s (turn_state t)"
proof -
  from assms obtain s1 A where s1: "update_agent a (\<lambda>A. A\<lparr>RunningQueue := q\<rparr>) s = Inr s1" "KernelAgents s1 a = Some A"
    "t = Spins s1 \<or> (\<exists>s2. service_queue code (GroupMemoryRegion A) q s1 = Inr s2 \<and> t = Proceeds s2)"
    by (auto simp: queue_turn_def outcome_simps split: if_splits)
  have "keeps s s1" using s1(1) by (rule update_agent_keeps) simp
  moreover have "keeps s1 (turn_state t)" using s1(3) by (auto simp: keeps_refl dest: service_queue_keeps)
  ultimately show ?thesis by (rule keeps_trans)
qed

section \<open>Construction and destruction of the runtime\<close>

lemma keeps_typed: "keeps s s' \<Longrightarrow> typed s \<Longrightarrow> typed s'"
  by (simp add: keeps_def)

lemma CPUKernelAgent_new_typed:
  "CPUKernelAgent_new hash r s = Inr (A, s') \<Longrightarrow> typed s \<Longrightarrow> typed s'" for s :: "'m program_state_scheme"
  by (auto simp: CPUKernelAgent_new_def registerISA_def Let_def outcome_simps elim!: operator_new_Inr
      intro!: typed_create(2))

lemma CPURuntime_new_Inr:
  assumes "CPURuntime_new hash s = Inr (R, s')"
  obtains s0 G s1 A s2 s3 L s4 s5 s6 n s9 F where "operator_new s = Inr (R, s0)"
    "CPUMemoryRegion_new HSA_REGION_SEGMENT_GLOBAL (s0\<lparr>RtAgents := [], Extensions := [], MemoryRegions := []\<rparr>) = Inr (G, s1)"
    "CPUKernelAgent_new hash G s1 = Inr (A, s2)" "update_agent A (Agent_registerMemoryRegion G) s2 = Inr s3"
    "CPUMemoryRegion_new HSA_REGION_SEGMENT_GROUP s3 = Inr (L, s4)"
    "update_agent A (Agent_registerMemoryRegion L) s4 = Inr s5" "update_agent A (setGroupMemoryRegion L) s5 = Inr s6"
    "operator_new (Runtime_registerAgent A (Runtime_registerMemoryRegion L (Runtime_registerMemoryRegion G s6))) = Inr (n, s9)"
    "s' = registerExtension HSA_EXTENSION_FINALIZER F s9"
  using assms by (auto simp: CPURuntime_new_def GCCFinalizer_new_def Let_def outcome_simps)

lemma CPURuntime_new_typed:
  fixes s :: "'m program_state_scheme"
  assumes "CPURuntime_new hash s = Inr (R, s')" and "typed s"
  shows "typed s'"
  using assms(1)
proof (rule CPURuntime_new_Inr)
  fix s0 G s1 A s2 s3 L s4 s5 s6 n s9 F
  assume steps: "operator_new s = Inr (R, s0)"
    "CPUMemoryRegion_new HSA_REGION_SEGMENT_GLOBAL (s0\<lparr>RtAgents := [], Extensions := [], MemoryRegions := []\<rparr>) = Inr (G, s1)"
    "CPUKernelAgent_new hash G s1 = Inr (A, s2)" "update_agent A (Agent_registerMemoryRegion G) s2 = Inr s3"
    "CPUMemoryRegion_new HSA_REGION_SEGMENT_GROUP s3 = Inr (L, s4)"
    "update_agent A (Agent_registerMemoryRegion L) s4 = Inr s5" "update_agent A (setGroupMemoryRegion L) s5 = Inr s6"
    "operator_new (Runtime_registerAgent A (Runtime_registerMemoryRegion L (Runtime_registerMemoryRegion G s6))) = Inr (n, s9)"
    "s' = registerExtension HSA_EXTENSION_FINALIZER F s9"
  have "typed (s0\<lparr>RtAgents := [], Extensions := [], MemoryRegions := []\<rparr>)"
    using keeps_typed [OF operator_new_keeps [OF steps(1)] assms(2)] by simp
  with steps(2) have "typed s1" by (rule CPUMemoryRegion_new_typed)
  with steps(3) have "typed s2" by (rule CPUKernelAgent_new_typed)
  note regions = update_agent_keeps [where f = "Agent_registerMemoryRegion r" for r]
    update_agent_keeps [where f = "setGroupMemoryRegion r" for r]
  have agents: "keeps s2 s3" "keeps s4 s5" "keeps s5 s6"
    using regions(1) [OF steps(4)] regions(1) [OF steps(6)] regions(2) [OF steps(7)]
    by (simp_all add: Agent_registerMemoryRegion_def setGroupMemoryRegion_def)
  from agents(1) \<open>typed s2\<close> have "typed s3" by (rule keeps_typed)
  with steps(5) have "typed s4" by (rule CPUMemoryRegion_new_typed)
  with agents(2) have "typed s5" by (rule keeps_typed)
  with agents(3) have "typed s6" by (rule keeps_typed)
  then have "typed (Runtime_registerAgent A (Runtime_registerMemoryRegion L (Runtime_registerMemoryRegion G s6)))"
    by (simp add: Runtime_registerAgent_def Runtime_registerMemoryRegion_def)
  with operator_new_keeps [OF steps(8)] have "typed s9" by (rule keeps_typed)
  then show ?thesis by (simp add: steps(9) registerExtension_def)
qed

lemma hsa_init_typed: "hsa_init hash s = Inr (st, s') \<Longrightarrow> typed s \<Longrightarrow> typed s'" for s :: "'m program_state_scheme"
  by (auto simp: hsa_init_def Runtime_initialize_def outcome_simps split: if_splits dest!: CPURuntime_new_typed)

lemma delete_agents_typed:
  "delete_agents code As s = Some (Inr s') \<Longrightarrow> typed s \<Longrightarrow> typed s'" for s :: "'m program_state_scheme"
proof (induction As arbitrary: s)
  case (Cons A As)
  then obtain s1 where s1: "CPUKernelAgent_delete A (s\<lparr>ShutDown := False\<rparr>) = Inr s1" "delete_agents code As s1 = Some (Inr s')"
    by (cases "CPUKernelAgent_delete A (s\<lparr>ShutDown := False\<rparr>)") (auto simp: shutDown_eq)
  have "typed s1" using s1(1) Cons.prems(2) typed_delete(3) [of "s\<lparr>ShutDown := False\<rparr>" A]
    by (auto simp: CPUKernelAgent_delete_def outcome_simps)
  with s1(2) show ?case by (rule Cons.IH)
qed simp

lemma delete_regions_typed:
  "delete_regions Rs s = Inr s' \<Longrightarrow> typed s \<Longrightarrow> QueueRegistry s = [] \<Longrightarrow> typed s'" for s :: "'m program_state_scheme"
proof (induction Rs arbitrary: s)
  case (Cons R Rs)
  then obtain s1 where s1: "CPUMemoryRegion_delete R s = Inr s1" "delete_regions Rs s1 = Inr s'" by (auto simp: outcome_simps)
  have "typed s1" "QueueRegistry s1 = []"
    using s1(1) Cons.prems(2,3) by (auto simp: CPUMemoryRegion_delete_def outcome_simps intro: typed_delete(1))
  with s1(2) show ?case by (rule Cons.IH)
qed simp

text \<open>The queues are deleted before their registry is emptied; in between it names objects that are gone.\<close>

definition unregistered :: "'m program_state_scheme \<Rightarrow> 'm program_state_scheme" where
  "unregistered s = s\<lparr>QueueRegistry := []\<rparr>"

lemma unregistered_free:
  fixes s :: "'m program_state_scheme"
  assumes "CPUMemoryRegion_free r s p = Inr (found, s')"
  shows "keeps (unregistered s) (unregistered s')"
  using assms
proof (rule free_Inr)
  fix R A
  assume R: "CPURegions s r = Some R" "s' = s\<lparr>CPURegions := (CPURegions s)(r \<mapsto> R\<lparr>CPUAllocations := A\<rparr>)\<rparr>"
  have "unregistered s' = (unregistered s)\<lparr>CPURegions := (CPURegions (unregistered s))(r \<mapsto> R\<lparr>CPUAllocations := A\<rparr>)\<rparr>"
    by (simp add: R(2) unregistered_def)
  then show ?thesis using typed_in_place(1) [of "unregistered s" r R] R(1) by (simp add: keeps_def) (simp add: unregistered_def)
qed

lemma unregistered_signal_delete:
  fixes s :: "'m program_state_scheme"
  assumes "GCCBuiltinSignal_delete s p = Inr s'"
  shows "keeps (unregistered s) (unregistered s')"
proof -
  from assms obtain Obj found s1 where s1: "deref (Signals s) p = Inr Obj"
    "CPUMemoryRegion_free (SignalMemory Obj) s (CurrentValue Obj) = Inr (found, s1)"
    by (auto simp: GCCBuiltinSignal_delete_def outcome_simps)
  from s1(2) have "keeps (unregistered s) (unregistered s1)" by (rule unregistered_free)
  also have "s' = s1\<lparr>SignalRegistry := destroyMapping (SignalRegistry s1) p, Signals := (Signals s1)(p := None)\<rparr>"
    using assms s1 by (auto simp: GCCBuiltinSignal_delete_def)
  then have s': "unregistered s' = (unregistered s1)\<lparr>SignalRegistry := destroyMapping (SignalRegistry (unregistered s1)) p,
      Signals := (Signals (unregistered s1))(p := None)\<rparr>" by (simp add: unregistered_def)
  have "keeps (unregistered s1) (unregistered s')" unfolding s' by (simp add: keeps_def typed_delete(2))
  finally show ?thesis .
qed

lemma UserModeQueue_delete_keeps:
  fixes s :: "'m program_state_scheme"
  assumes "UserModeQueue_delete s q = Inr s'"
  shows "keeps (unregistered s) (unregistered s')"
proof -
  from assms obtain Q found s1 where s1: "deref (Queues s) q = Inr Q"
    "CPUMemoryRegion_free (Region Q) s (base_address (HSAQueue Q)) = Inr (found, s1)"
    by (auto simp: UserModeQueue_delete_def outcome_simps)
  with assms obtain S s2 where s2: "s2 = s1 \<or> GCCBuiltinSignal_delete s1 S = Inr s2" "s' = s2\<lparr>Queues := (Queues s2)(q := None)\<rparr>"
    by (auto simp: UserModeQueue_delete_def Let_def outcome_simps split: if_splits)
  from s1(2) have "keeps (unregistered s) (unregistered s1)" by (rule unregistered_free)
  also have "keeps (unregistered s1) (unregistered s2)" using s2(1) by (auto simp: keeps_refl dest: unregistered_signal_delete)
  also have "directory [] ((Queues t)(q := None)) (HostHeap t)" if "directory [] (Queues t) (HostHeap t)" for t :: "'m program_state_scheme"
    using directory_leave [OF that] by simp
  then have "keeps (unregistered s2) (unregistered s')"
    by (auto simp: s2(2) keeps_def unregistered_def typed_def queues_named_def)
  finally show ?thesis .
qed

lemma Queue_garbageCollect_keeps:
  fixes s :: "'m program_state_scheme"
  assumes "Queue_garbageCollect s = Inr s'"
  shows "keeps s s'"
proof -
  have deletions: "keeps (unregistered s) (unregistered s1)" if "delete_queues qs s = Inr s1" for qs s1
    using that
  proof (induction qs arbitrary: s)
    case (Cons q qs)
    then obtain s2 where "UserModeQueue_delete s q = Inr s2" "delete_queues qs s2 = Inr s1" by (auto simp: outcome_simps)
    with Cons.IH show ?case by (blast intro: keeps_trans UserModeQueue_delete_keeps)
  qed (simp add: keeps_refl)
  have "keeps s (unregistered s)"
    by (auto simp: keeps_def unregistered_def typed_def queues_named_def intro: directory_nil)
  moreover from assms obtain s1 where "delete_queues (map snd (QueueRegistry s)) s = Inr s1" "s' = unregistered s1"
    by (auto simp: Queue_garbageCollect_def outcome_simps unregistered_def)
  ultimately show ?thesis using deletions by (blast intro: keeps_trans)
qed

text \<open>A collection keeps what its deletions keep.\<close>

lemma collect_keeps:
  fixes s :: "'m program_state_scheme"
  assumes "collect reg del s = Some (Inr s')" and "\<And>p s s'. del p s = Inr s' \<Longrightarrow> keeps s s'"
  shows "keeps s s'"
proof -
  have "r = Inr s' \<longrightarrow> keeps s s'" if "collect reg del s = Some r" for r
  proof (rule collect.raw_induct [where P = "\<lambda>reg' del' s r. reg' = reg \<and> del' = del \<longrightarrow> r = Inr s' \<longrightarrow> keeps s s'", OF _ that,
        THEN mp, OF _ conjI [OF refl refl]])
    fix g :: "('m program_state_scheme \<Rightarrow> registry) \<Rightarrow> (addr \<Rightarrow> 'm program_state_scheme \<Rightarrow> 'm program_state_scheme outcome) \<Rightarrow>
        'm program_state_scheme \<Rightarrow> 'm program_state_scheme outcome option"
      and reg' del' s r
    assume IH: "\<And>reg' del' s r. g reg' del' s = Some r \<Longrightarrow> reg' = reg \<and> del' = del \<longrightarrow> r = Inr s' \<longrightarrow> keeps s s'"
      and eq: "(if reg' s = [] then Some (Inr s)
         else case del' (snd (hd (reg' s))) s of Inl e \<Rightarrow> Some (Inl e) | Inr x \<Rightarrow> g reg' del' x) = Some r"
    show "reg' = reg \<and> del' = del \<longrightarrow> r = Inr s' \<longrightarrow> keeps s s'"
      using eq IH assms(2) by (auto simp: keeps_refl split: if_splits sum.splits) (metis keeps_trans)
  qed
  with assms(1) show ?thesis by blast
qed

lemma program_delete_queues:
  assumes "HSAILProgram_delete H p s = Inr s'"
  shows "QueueRegistry s' = QueueRegistry s"
proof -
  obtain b d where "IsDebugMode H s = (b, s\<lparr>DebugMode := d\<rparr>)" by (rule IsDebugMode_cases)
  with assms show ?thesis
    by (cases b) (auto simp: HSAILProgram_delete_def outcome_simps Let_def split: if_splits)
qed

lemma Runtime_delete_typed:
  assumes "Runtime_delete H code s = Some (Inr s')" and "typed s"
  shows "typed s'"
proof -
  from assms(1) obtain s1 s2 s3 s4 s5 where steps: "delete_agents code (RtAgents s) s = Some (Inr s1)"
    "Queue_garbageCollect (s1\<lparr>RtAgents := []\<rparr>) = Inr s2" "collect CodeRegistry (DLFinalizedProgram_delete H) s2 = Some (Inr s3)"
    "collect ProgramRegistry (HSAILProgram_delete H) s3 = Some (Inr s4)"
    "delete_regions (MemoryRegions s4) s4 = Inr s5" "s' = s5\<lparr>MemoryRegions := []\<rparr>"
    by (auto simp: Runtime_delete_def proceed_def split: option.splits sum.splits)
  have "typed (s1\<lparr>RtAgents := []\<rparr>)" using delete_agents_typed [OF steps(1) assms(2)] by simp
  with Queue_garbageCollect_keeps [OF steps(2)] have "typed s2" by (rule keeps_typed)
  with collect_keeps [OF steps(3) DLFinalizedProgram_delete_keeps] have "typed s3" by (rule keeps_typed)
  with collect_keeps [OF steps(4) HSAILProgram_delete_keeps] have "typed s4" by (rule keeps_typed)
  moreover have "QueueRegistry s2 = []" using steps(2) by (auto simp: Queue_garbageCollect_def outcome_simps)
  moreover have "QueueRegistry s3 = QueueRegistry s2"
    using steps(3) only_code_fields(2) [OF code_delete_only] by (rule collect_counter)
  moreover have "QueueRegistry s4 = QueueRegistry s3" using steps(4) program_delete_queues by (rule collect_counter)
  ultimately show ?thesis using delete_regions_typed [OF steps(5)] by (simp add: steps(6))
qed

lemma hsa_shut_down_typed: "hsa_shut_down H code s = Some (Inr (st, s')) \<Longrightarrow> typed s \<Longrightarrow> typed s'"
  by (auto simp: hsa_shut_down_def Runtime_release_def proceed_def split: option.splits sum.splits if_splits
      dest!: Runtime_delete_typed)

end
