(* ===== verification/Api_Calls.thy ===== *)
theory Api_Calls
  imports Api_Typing Status
begin

text \<open>
  The calls of the API as one transition relation over the process: one rule for each entry point of
  \<open>src/src/hsa\<close> and \<open>src/src/amd\<close>, with the status that it returns, if it returns one. A call that faults or does
  not return has no transition, and so \<open>hsa_amd_signal_wait_any\<close>, which always aborts, has no rule. \<open>hsa_init\<close> and
  \<open>hsa_shut_down\<close> are steps of their own in \<open>Process_Claims\<close>. A call is one step: no other thread acts during an
  asynchronous copy here, which \<open>Amd_Ext\<close> treats with the actions of the others between its waits.
\<close>

section \<open>The entry points\<close>

type_synonym client_data = "u8 list"

subsection \<open>Status strings, instruction sets, system and agent queries\<close>

datatype (plugins only: code size) system_entry =
    E_hsa_status_string
  | E_hsa_isa_get_info
  | E_hsa_isa_compatible
  | E_hsa_system_extension_supported
  | E_hsa_system_get_extension_table
  | E_hsa_system_get_info
  | E_hsa_agent_get_info
  | E_hsa_iterate_agents
  | E_hsa_agent_iterate_regions
  | E_hsa_agent_get_exception_policies
  | E_hsa_agent_extension_supported

inductive system_call ::
  "(string \<Rightarrow> u64) \<Rightarrow> system_entry \<Rightarrow> 'm
   amd_state_scheme \<Rightarrow> hsa_status_t option \<Rightarrow> 'm amd_state_scheme \<Rightarrow> bool"
  for hash where
    status_string: "hsa_status_string s status status_string = (st, r0) \<Longrightarrow>
      system_call hash E_hsa_status_string s (Some st) s"
  | isa_get_info: "hsa_isa_get_info s isa attribute index val = (st, r0, s') \<Longrightarrow>
      system_call hash E_hsa_isa_get_info s (Some st) s'"
  | isa_compatible: "hsa_isa_compatible code_object_isa agent_isa result = (st, r0) \<Longrightarrow>
      system_call hash E_hsa_isa_compatible s (Some st) s"
  | system_extension_supported: "hsa_system_extension_supported s extension version_major version_minor result = Inr
        (st, r0) \<Longrightarrow>
      system_call hash E_hsa_system_extension_supported s (Some st) s"
  | system_get_extension_table: "hsa_system_get_extension_table s extension version_major version_minor table = Inr
        (st, r0) \<Longrightarrow>
      system_call hash E_hsa_system_get_extension_table s (Some st) s"
  | system_get_info: "hsa_system_get_info now s attribute val = Inr (st, r0) \<Longrightarrow>
      system_call hash E_hsa_system_get_info s (Some st) s"
  | agent_get_info: "hsa_agent_get_info hash mode s agent attribute val = Inr (st, r0) \<Longrightarrow>
      system_call hash E_hsa_agent_get_info s (Some st) s"
  | iterate_agents: "hsa_iterate_agents s callback (d :: client_data) = Inr (st, r0) \<Longrightarrow>
      system_call hash E_hsa_iterate_agents s (Some st) s"
  | agent_iterate_regions: "hsa_agent_iterate_regions s agent callback (d :: client_data) = Inr (st, r0)
        \<Longrightarrow>
      system_call hash E_hsa_agent_iterate_regions s (Some st) s"
  | agent_get_exception_policies: "hsa_agent_get_exception_policies s agent profile msk = (st, r0) \<Longrightarrow>
      system_call hash E_hsa_agent_get_exception_policies s (Some st) s"
  | agent_extension_supported: "hsa_agent_extension_supported s extension agent version_major version_minor result =
        (st, r0) \<Longrightarrow>
      system_call hash E_hsa_agent_extension_supported s (Some st) s"

subsection \<open>Memory and regions\<close>

datatype (plugins only: code size) memory_entry =
    E_hsa_memory_allocate
  | E_hsa_memory_free
  | E_hsa_memory_copy
  | E_hsa_memory_assign_agent
  | E_hsa_memory_register
  | E_hsa_memory_deregister
  | E_hsa_region_get_info

inductive memory_call ::
  "memory_entry \<Rightarrow> 'm amd_state_scheme \<Rightarrow> hsa_status_t option
   \<Rightarrow> 'm amd_state_scheme \<Rightarrow> bool" where
    memory_allocate: "hsa_memory_allocate s region n ptr = Inr (st, r0, s') \<Longrightarrow>
      memory_call E_hsa_memory_allocate s (Some st) s'"
  | memory_free: "hsa_memory_free s Ptr = Inr (st, s') \<Longrightarrow>
      memory_call E_hsa_memory_free s (Some st) s'"
  | memory_copy: "hsa_memory_copy s dst src n (Memory s) = (st, M) \<Longrightarrow>
      memory_call E_hsa_memory_copy s (Some st) (s\<lparr>Memory := M\<rparr>)"
  | memory_assign_agent: "hsa_memory_assign_agent s ptr agent access = st \<Longrightarrow>
      memory_call E_hsa_memory_assign_agent s (Some st) s"
  | memory_register: "hsa_memory_register s ptr n = st \<Longrightarrow>
      memory_call E_hsa_memory_register s (Some st) s"
  | memory_deregister: "hsa_memory_deregister s ptr n = st \<Longrightarrow>
      memory_call E_hsa_memory_deregister s (Some st) s"
  | region_get_info: "hsa_region_get_info s region attribute val = Inr (st, r0) \<Longrightarrow>
      memory_call E_hsa_region_get_info s (Some st) s"

subsection \<open>Signals\<close>

datatype (plugins only: code size) signal_entry =
    E_hsa_signal_create
  | E_hsa_signal_destroy
  | E_hsa_signal_wait_acquire
  | E_hsa_signal_wait_relaxed
  | E_signal signal_op MemoryOrder

inductive signal_api_call ::
  "signal_entry \<Rightarrow> 'm amd_state_scheme \<Rightarrow> hsa_status_t option
   \<Rightarrow> 'm amd_state_scheme \<Rightarrow> bool" where
    signal_create: "hsa_signal_create s initial_value num_consumers consumers sig = Inr (st, r0, s')
        \<Longrightarrow>
      signal_api_call E_hsa_signal_create s (Some st) s'"
  | signal_destroy: "hsa_signal_destroy s sig = Inr (st, s') \<Longrightarrow>
      signal_api_call E_hsa_signal_destroy s (Some st) s'"
  | signal_wait_acquire: "hsa_signal_wait_acquire s sig condition compare_value timeout_hint wait_state_hint
        StartTime loads nows = Inr (Some v) \<Longrightarrow>
      signal_api_call E_hsa_signal_wait_acquire s None s"
  | signal_wait_relaxed: "hsa_signal_wait_relaxed s sig condition compare_value timeout_hint wait_state_hint
        StartTime loads nows = Inr (Some v) \<Longrightarrow>
      signal_api_call E_hsa_signal_wait_relaxed s None s"
  | signal_operation: "signal_entry f MO h s = Some (Inr (r, s')) \<Longrightarrow> signal_api_call (E_signal f MO) s None s'"

subsection \<open>Queues\<close>

datatype (plugins only: code size) queue_entry =
    E_hsa_queue_create
  | E_hsa_soft_queue_create
  | E_hsa_queue_destroy
  | E_hsa_queue_inactivate
  | E_queue_index index_call

inductive queue_call ::
  "queue_entry \<Rightarrow> 'm amd_state_scheme \<Rightarrow> hsa_status_t option
   \<Rightarrow> 'm amd_state_scheme \<Rightarrow> bool" where
    queue_create: "hsa_queue_create s agent n ty callback d ps gs queue = Inr (st, r0, s') \<Longrightarrow>
      queue_call E_hsa_queue_create s (Some st) s'"
  | soft_queue_create: "hsa_soft_queue_create s region n ty features doorbell queue = Inr (st, r0, s')
        \<Longrightarrow>
      queue_call E_hsa_soft_queue_create s (Some st) s'"
  | queue_destroy: "hsa_queue_destroy s queue = Inr (st, s') \<Longrightarrow>
      queue_call E_hsa_queue_destroy s (Some st) s'"
  | queue_inactivate: "hsa_queue_inactivate reads s queue = Inr (Some (st, s')) \<Longrightarrow>
      queue_call E_hsa_queue_inactivate s (Some st) s'"
  | queue_index: "index_step c s = Inr (r, s') \<Longrightarrow> queue_call (E_queue_index c) s None s'"

subsection \<open>Programs and their finalization\<close>

datatype (plugins only: code size) program_entry =
    E_hsa_ext_program_create
  | E_hsa_ext_program_destroy
  | E_hsa_ext_program_add_module
  | E_hsa_ext_program_iterate_modules
  | E_hsa_ext_program_get_info
  | E_hsa_ext_program_finalize

inductive program_call ::
  "host \<Rightarrow> program_entry \<Rightarrow> 'm amd_state_scheme \<Rightarrow>
   hsa_status_t option \<Rightarrow> 'm amd_state_scheme \<Rightarrow> bool"
  for H where
    ext_program_create: "hsa_ext_program_create s machine_model profile default_float_rounding_mode opts program =
        Inr (st, r0, s') \<Longrightarrow>
      program_call H E_hsa_ext_program_create s (Some st) s'"
  | ext_program_destroy: "hsa_ext_program_destroy H s program = Inr (st, s') \<Longrightarrow>
      program_call H E_hsa_ext_program_destroy s (Some st) s'"
  | ext_program_add_module: "hsa_ext_program_add_module s program module = Some (Inr (st, s')) \<Longrightarrow>
      program_call H E_hsa_ext_program_add_module s (Some st) s'"
  | ext_program_iterate_modules: "hsa_ext_program_iterate_modules s program callback (d :: client_data) = Inr (st,
        r0) \<Longrightarrow>
      program_call H E_hsa_ext_program_iterate_modules s (Some st) s"
  | ext_program_get_info: "hsa_ext_program_get_info s program attribute val = Inr (st, r0) \<Longrightarrow>
      program_call H E_hsa_ext_program_get_info s (Some st) s"
  | ext_program_finalize: "hsa_ext_program_finalize H s program isa call_convention control_directives opts
        code_object_type code_object = Inr (st, r0, s') \<Longrightarrow>
      program_call H E_hsa_ext_program_finalize s (Some st) s'"

subsection \<open>Code objects\<close>

datatype (plugins only: code size) code_entry =
    E_hsa_code_object_serialize
  | E_hsa_code_object_deserialize
  | E_hsa_code_object_destroy
  | E_hsa_code_object_get_info
  | E_hsa_code_object_get_symbol
  | E_hsa_code_symbol_get_info
  | E_hsa_code_object_iterate_symbols

inductive code_call ::
  "host \<Rightarrow> code_entry \<Rightarrow> 'm amd_state_scheme \<Rightarrow>
   hsa_status_t option \<Rightarrow> 'm amd_state_scheme \<Rightarrow> bool"
  for H where
    code_object_serialize: "hsa_code_object_serialize s code_object alloc_callback callback_data
        serialized_code_object serialized_code_object_size = Inr (st, r0, r1, s') \<Longrightarrow>
      code_call H E_hsa_code_object_serialize s (Some st) s'"
  | code_object_deserialize: "hsa_code_object_deserialize H s serialized_code_object serialized_code_object_size
        opts code_object = Inr (st, r0, s') \<Longrightarrow>
      code_call H E_hsa_code_object_deserialize s (Some st) s'"
  | code_object_destroy: "hsa_code_object_destroy H s code_object = Inr (st, s') \<Longrightarrow>
      code_call H E_hsa_code_object_destroy s (Some st) s'"
  | code_object_get_info: "hsa_code_object_get_info s code_object attribute val = Inr (st, r0) \<Longrightarrow>
      code_call H E_hsa_code_object_get_info s (Some st) s"
  | code_object_get_symbol: "hsa_code_object_get_symbol s code_object symbol_name symbol = Inr (st, r0)
        \<Longrightarrow>
      code_call H E_hsa_code_object_get_symbol s (Some st) s"
  | code_symbol_get_info: "hsa_code_symbol_get_info s code_symbol attribute val = Inr (st, r0) \<Longrightarrow>
      code_call H E_hsa_code_symbol_get_info s (Some st) s"
  | code_object_iterate_symbols: "hsa_code_object_iterate_symbols s code_object callback (d :: client_data) = Inr
        (st, r0) \<Longrightarrow>
      code_call H E_hsa_code_object_iterate_symbols s (Some st) s"

subsection \<open>Executables\<close>

datatype (plugins only: code size) executable_entry =
    E_hsa_executable_create
  | E_hsa_executable_destroy
  | E_hsa_executable_load_code_object
  | E_hsa_executable_freeze
  | E_hsa_executable_get_info
  | E_hsa_executable_global_variable_define
  | E_hsa_executable_agent_global_variable_define
  | E_hsa_executable_readonly_variable_define
  | E_hsa_executable_validate
  | E_hsa_executable_get_symbol
  | E_hsa_executable_symbol_get_info
  | E_hsa_executable_iterate_symbols

inductive executable_call ::
  "host \<Rightarrow> executable_entry \<Rightarrow> 'm amd_state_scheme
   \<Rightarrow> hsa_status_t option \<Rightarrow> 'm amd_state_scheme \<Rightarrow> bool"
  for H where
    executable_create: "hsa_executable_create s profile executable_state opts executable = Inr (st, r0, s')
        \<Longrightarrow>
      executable_call H E_hsa_executable_create s (Some st) s'"
  | executable_destroy: "hsa_executable_destroy s executable = Inr (st, s') \<Longrightarrow>
      executable_call H E_hsa_executable_destroy s (Some st) s'"
  | executable_load_code_object: "hsa_executable_load_code_object H s executable agent code_object opts = Inr (st,
        s') \<Longrightarrow>
      executable_call H E_hsa_executable_load_code_object s (Some st) s'"
  | executable_freeze: "hsa_executable_freeze s executable opts = Inr (st, s') \<Longrightarrow>
      executable_call H E_hsa_executable_freeze s (Some st) s'"
  | executable_get_info: "hsa_executable_get_info s executable attribute val = Inr (st, r0) \<Longrightarrow>
      executable_call H E_hsa_executable_get_info s (Some st) s"
  | executable_global_variable_define: "hsa_executable_global_variable_define s executable variable_name address =
        Inr (st, s') \<Longrightarrow>
      executable_call H E_hsa_executable_global_variable_define s (Some st) s'"
  | executable_agent_global_variable_define: "hsa_executable_agent_global_variable_define s executable agent
        variable_name address = Inr (st, s') \<Longrightarrow>
      executable_call H E_hsa_executable_agent_global_variable_define s (Some st) s'"
  | executable_readonly_variable_define: "hsa_executable_readonly_variable_define s executable agent variable_name
        address = Inr (st, s') \<Longrightarrow>
      executable_call H E_hsa_executable_readonly_variable_define s (Some st) s'"
  | executable_validate: "hsa_executable_validate executable result = (st, r0) \<Longrightarrow>
      executable_call H E_hsa_executable_validate s (Some st) s"
  | executable_get_symbol: "hsa_executable_get_symbol s executable module_name symbol_name agent call_convention
        symbol = Inr (st, r0) \<Longrightarrow>
      executable_call H E_hsa_executable_get_symbol s (Some st) s"
  | executable_symbol_get_info: "hsa_executable_symbol_get_info s executable_symbol attribute val = Inr (st, r0)
        \<Longrightarrow>
      executable_call H E_hsa_executable_symbol_get_info s (Some st) s"
  | executable_iterate_symbols: "hsa_executable_iterate_symbols s executable callback (d :: client_data) = Inr (st,
        r0) \<Longrightarrow>
      executable_call H E_hsa_executable_iterate_symbols s (Some st) s"

subsection \<open>Images\<close>

datatype (plugins only: code size) image_entry =
    E_hsa_ext_image_get_capability
  | E_hsa_ext_image_data_get_info
  | E_hsa_ext_image_create
  | E_hsa_ext_image_destroy
  | E_hsa_ext_image_copy
  | E_hsa_ext_image_import
  | E_hsa_ext_image_export
  | E_hsa_ext_image_clear
  | E_hsa_ext_sampler_create
  | E_hsa_ext_sampler_destroy

inductive image_call ::
  "image_entry \<Rightarrow> 'm amd_state_scheme \<Rightarrow> hsa_status_t option
   \<Rightarrow> 'm amd_state_scheme \<Rightarrow> bool" where
    ext_image_get_capability: "hsa_ext_image_get_capability agent geometry image_format capability_mask = (st, r0)
        \<Longrightarrow>
      image_call E_hsa_ext_image_get_capability s (Some st) s"
  | ext_image_data_get_info: "hsa_ext_image_data_get_info agent image_descriptor access_permission image_data_info =
        (st, r0) \<Longrightarrow>
      image_call E_hsa_ext_image_data_get_info s (Some st) s"
  | ext_image_create: "hsa_ext_image_create agent image_descriptor image_data access_permission img = (st, r0)
        \<Longrightarrow>
      image_call E_hsa_ext_image_create s (Some st) s"
  | ext_image_destroy: "hsa_ext_image_destroy agent img = st \<Longrightarrow>
      image_call E_hsa_ext_image_destroy s (Some st) s"
  | ext_image_copy: "hsa_ext_image_copy agent src_image src_offset dst_image dst_offset rng s = (st, s')
        \<Longrightarrow>
      image_call E_hsa_ext_image_copy s (Some st) s'"
  | ext_image_import: "hsa_ext_image_import agent src_memory src_row_pitch src_slice_pitch dst_image image_region s
        = (st, s') \<Longrightarrow>
      image_call E_hsa_ext_image_import s (Some st) s'"
  | ext_image_export: "hsa_ext_image_export agent src_image dst_memory dst_row_pitch dst_slice_pitch image_region s
        = (st, s') \<Longrightarrow>
      image_call E_hsa_ext_image_export s (Some st) s'"
  | ext_image_clear: "hsa_ext_image_clear agent img d image_region s = (st, s') \<Longrightarrow>
      image_call E_hsa_ext_image_clear s (Some st) s'"
  | ext_sampler_create: "hsa_ext_sampler_create agent sampler_descriptor sampler = (st, r0) \<Longrightarrow>
      image_call E_hsa_ext_sampler_create s (Some st) s"
  | ext_sampler_destroy: "hsa_ext_sampler_destroy agent sampler = st \<Longrightarrow>
      image_call E_hsa_ext_sampler_destroy s (Some st) s"

subsection \<open>The AMD extension\<close>

datatype (plugins only: code size) amd_entry =
    E_hsa_amd_agent_iterate_memory_pools
  | E_hsa_amd_memory_pool_get_info
  | E_hsa_amd_agent_memory_pool_get_info
  | E_hsa_amd_memory_pool_can_migrate
  | E_hsa_amd_profiling_get_dispatch_time
  | E_hsa_amd_memory_pool_allocate
  | E_hsa_amd_memory_pool_free
  | E_hsa_amd_memory_async_copy
  | E_hsa_amd_agents_allow_access
  | E_hsa_amd_memory_lock
  | E_hsa_amd_memory_unlock
  | E_hsa_amd_profiling_set_profiler_enabled
  | E_hsa_amd_coherency_get_type
  | E_hsa_amd_coherency_set_type
  | E_hsa_amd_profiling_async_copy_enable
  | E_hsa_amd_profiling_get_async_copy_time
  | E_hsa_amd_profiling_convert_tick_to_system_domain
  | E_hsa_amd_signal_async_handler
  | E_hsa_amd_async_function
  | E_hsa_amd_image_get_info_max_dim
  | E_hsa_amd_queue_cu_set_mask
  | E_hsa_amd_memory_migrate
  | E_hsa_amd_memory_fill
  | E_hsa_amd_interop_map_buffer
  | E_hsa_amd_interop_unmap_buffer
  | E_hsa_amd_image_create

inductive amd_call ::
  "amd_entry \<Rightarrow> 'm amd_state_scheme \<Rightarrow> hsa_status_t option
   \<Rightarrow> 'm amd_state_scheme \<Rightarrow> bool" where
    amd_agent_iterate_memory_pools: "hsa_amd_agent_iterate_memory_pools s agent callback (d :: client_data) = Inr
        (st, r0, s') \<Longrightarrow>
      amd_call E_hsa_amd_agent_iterate_memory_pools s (Some st) s'"
  | amd_memory_pool_get_info: "hsa_amd_memory_pool_get_info s memory_pool attribute val = Inr (st, r0)
        \<Longrightarrow>
      amd_call E_hsa_amd_memory_pool_get_info s (Some st) s"
  | amd_agent_memory_pool_get_info: "hsa_amd_agent_memory_pool_get_info agent memory_pool attribute val = Inr (st,
        r0) \<Longrightarrow>
      amd_call E_hsa_amd_agent_memory_pool_get_info s (Some st) s"
  | amd_memory_pool_can_migrate: "hsa_amd_memory_pool_can_migrate src_memory_pool dst_memory_pool result = Inr (st,
        r0) \<Longrightarrow>
      amd_call E_hsa_amd_memory_pool_can_migrate s (Some st) s"
  | amd_profiling_get_dispatch_time: "hsa_amd_profiling_get_dispatch_time agent sig tm = Inr (st, r0, r1)
        \<Longrightarrow>
      amd_call E_hsa_amd_profiling_get_dispatch_time s (Some st) s"
  | amd_memory_pool_allocate: "hsa_amd_memory_pool_allocate s memory_pool n flags ptr = Inr (st, r0, s')
        \<Longrightarrow>
      amd_call E_hsa_amd_memory_pool_allocate s (Some st) s'"
  | amd_memory_pool_free: "hsa_amd_memory_pool_free s ptr = Inr (st, s') \<Longrightarrow>
      amd_call E_hsa_amd_memory_pool_free s (Some st) s'"
  | amd_memory_async_copy: "hsa_amd_memory_async_copy seen (\<lambda>_ t. t) s dst dst_agent src src_agent n
        num_dep_signals dep_signals completion_signal = Some (Inr (st, s')) \<Longrightarrow>
      amd_call E_hsa_amd_memory_async_copy s (Some st) s'"
  | amd_agents_allow_access: "hsa_amd_agents_allow_access num_agents agents flags ptr = st \<Longrightarrow>
      amd_call E_hsa_amd_agents_allow_access s (Some st) s"
  | amd_memory_lock: "hsa_amd_memory_lock host_ptr n agents num_agent agent_ptr = Inr (st, r0) \<Longrightarrow>
      amd_call E_hsa_amd_memory_lock s (Some st) s"
  | amd_memory_unlock: "hsa_amd_memory_unlock host_ptr = st \<Longrightarrow>
      amd_call E_hsa_amd_memory_unlock s (Some st) s"
  | amd_profiling_set_profiler_enabled: "hsa_amd_profiling_set_profiler_enabled queue enable = st \<Longrightarrow>
      amd_call E_hsa_amd_profiling_set_profiler_enabled s (Some st) s"
  | amd_coherency_get_type: "hsa_amd_coherency_get_type agent ty = Inr st \<Longrightarrow>
      amd_call E_hsa_amd_coherency_get_type s (Some st) s"
  | amd_coherency_set_type: "hsa_amd_coherency_set_type agent ty = Inr st \<Longrightarrow>
      amd_call E_hsa_amd_coherency_set_type s (Some st) s"
  | amd_profiling_async_copy_enable: "hsa_amd_profiling_async_copy_enable enable = Inr st \<Longrightarrow>
      amd_call E_hsa_amd_profiling_async_copy_enable s (Some st) s"
  | amd_profiling_get_async_copy_time: "hsa_amd_profiling_get_async_copy_time sig tm = Inr st \<Longrightarrow>
      amd_call E_hsa_amd_profiling_get_async_copy_time s (Some st) s"
  | amd_profiling_convert_tick_to_system_domain: "hsa_amd_profiling_convert_tick_to_system_domain agent agent_tick
        system_tick = Inr st \<Longrightarrow>
      amd_call E_hsa_amd_profiling_convert_tick_to_system_domain s (Some st) s"
  | amd_signal_async_handler: "hsa_amd_signal_async_handler sig cond val handler arg = Inr st \<Longrightarrow>
      amd_call E_hsa_amd_signal_async_handler s (Some st) s"
  | amd_async_function: "hsa_amd_async_function callback arg = Inr st \<Longrightarrow>
      amd_call E_hsa_amd_async_function s (Some st) s"
  | amd_image_get_info_max_dim: "hsa_amd_image_get_info_max_dim agent attribute val = Inr st \<Longrightarrow>
      amd_call E_hsa_amd_image_get_info_max_dim s (Some st) s"
  | amd_queue_cu_set_mask: "hsa_amd_queue_cu_set_mask queue num_cu_mask_count cu_mask = Inr st \<Longrightarrow>
      amd_call E_hsa_amd_queue_cu_set_mask s (Some st) s"
  | amd_memory_migrate: "hsa_amd_memory_migrate ptr memory_pool flags = Inr st \<Longrightarrow>
      amd_call E_hsa_amd_memory_migrate s (Some st) s"
  | amd_memory_fill: "hsa_amd_memory_fill ptr val count = Inr st \<Longrightarrow>
      amd_call E_hsa_amd_memory_fill s (Some st) s"
  | amd_interop_map_buffer: "hsa_amd_interop_map_buffer num_agents agents interop_handle flags n ptr metadata_size
        metadata = Inr st \<Longrightarrow>
      amd_call E_hsa_amd_interop_map_buffer s (Some st) s"
  | amd_interop_unmap_buffer: "hsa_amd_interop_unmap_buffer ptr = Inr st \<Longrightarrow>
      amd_call E_hsa_amd_interop_unmap_buffer s (Some st) s"
  | amd_image_create: "hsa_amd_image_create agent image_descriptor image_layout image_data access_permission img =
        Inr st \<Longrightarrow>
      amd_call E_hsa_amd_image_create s (Some st) s"

section \<open>The calls of the API\<close>

datatype api_entry =
    System_Entry system_entry
  | Memory_Entry memory_entry
  | Signal_Entry signal_entry
  | Queue_Entry queue_entry
  | Program_Entry program_entry
  | Code_Entry code_entry
  | Executable_Entry executable_entry
  | Image_Entry image_entry
  | Amd_Entry amd_entry

fun api_call ::
  "host \<Rightarrow> (string \<Rightarrow> u64) \<Rightarrow> api_entry \<Rightarrow> 'm amd_state_scheme \<Rightarrow> hsa_status_t option \<Rightarrow>
   'm amd_state_scheme \<Rightarrow> bool" where
  "api_call H hash (System_Entry e) s st s' = system_call hash e s st s'"
| "api_call H hash (Memory_Entry e) s st s' = memory_call e s st s'"
| "api_call H hash (Signal_Entry e) s st s' = signal_api_call e s st s'"
| "api_call H hash (Queue_Entry e) s st s' = queue_call e s st s'"
| "api_call H hash (Program_Entry e) s st s' = program_call H e s st s'"
| "api_call H hash (Code_Entry e) s st s' = code_call H e s st s'"
| "api_call H hash (Executable_Entry e) s st s' = executable_call H e s st s'"
| "api_call H hash (Image_Entry e) s st s' = image_call e s st s'"
| "api_call H hash (Amd_Entry e) s st s' = amd_call e s st s'"

section \<open>Every call keeps the typing\<close>

lemma system_call_keeps: "system_call hash e s st s' \<Longrightarrow> keeps s s'" for s :: "'m amd_state_scheme"
  by (erule system_call.cases) (auto simp: keeps_refl dest: hsa_isa_get_info_keeps)

lemma memory_call_keeps: "memory_call e s st s' \<Longrightarrow> keeps s s'" for s :: "'m amd_state_scheme"
  by (erule memory_call.cases) (auto simp: keeps_refl dest: hsa_memory_allocate_keeps hsa_memory_free_keeps)

lemma signal_api_call_keeps: "signal_api_call e s st s' \<Longrightarrow> keeps s s'" for s :: "'m amd_state_scheme"
  by (erule signal_api_call.cases)
    (auto simp: keeps_refl dest: hsa_signal_create_keeps hsa_signal_destroy_keeps signal_entry_keeps)

lemma queue_call_keeps: "queue_call e s st s' \<Longrightarrow> keeps s s'" for s :: "'m amd_state_scheme"
  by (erule queue_call.cases)
    (auto dest: hsa_queue_create_keeps hsa_soft_queue_create_keeps hsa_queue_destroy_keeps hsa_queue_inactivate_keeps
      index_step_keeps)

lemma program_call_keeps: "program_call H e s st s' \<Longrightarrow> keeps s s'" for s :: "'m amd_state_scheme"
  by (erule program_call.cases)
    (auto simp: keeps_refl dest: hsa_ext_program_create_keeps hsa_ext_program_destroy_keeps
      hsa_ext_program_add_module_keeps hsa_ext_program_finalize_keeps)

lemma code_call_keeps: "code_call H e s st s' \<Longrightarrow> keeps s s'" for s :: "'m amd_state_scheme"
  by (erule code_call.cases)
    (auto simp: keeps_refl dest: hsa_code_object_serialize_keeps hsa_code_object_deserialize_keeps
      hsa_code_object_destroy_keeps)

lemma executable_call_keeps: "executable_call H e s st s' \<Longrightarrow> keeps s s'" for s :: "'m amd_state_scheme"
  by (erule executable_call.cases)
    (auto simp: keeps_refl dest: hsa_executable_create_keeps hsa_executable_destroy_keeps hsa_executable_freeze_keeps
      hsa_executable_define_keeps hsa_executable_load_code_object_keeps)

lemma image_call_keeps: "image_call e s st s' \<Longrightarrow> keeps s s'" for s :: "'m amd_state_scheme"
  by (erule image_call.cases)
    (auto simp: keeps_refl hsa_ext_image_copy_def hsa_ext_image_import_def hsa_ext_image_export_def hsa_ext_image_clear_def)

lemma amd_call_keeps: "amd_call e s st s' \<Longrightarrow> keeps s s'" for s :: "'m amd_state_scheme"
  by (erule amd_call.cases)
    (auto simp: keeps_refl hsa_amd_memory_pool_allocate_def hsa_amd_memory_pool_free_def
      dest: hsa_amd_agent_iterate_memory_pools_keeps hsa_memory_allocate_keeps hsa_memory_free_keeps
        hsa_amd_memory_async_copy_keeps)

lemma api_call_keeps: "api_call H hash e s st s' \<Longrightarrow> keeps s s'" for s :: "'m amd_state_scheme"
  by (cases e) (auto dest: system_call_keeps memory_call_keeps signal_api_call_keeps queue_call_keeps
      program_call_keeps code_call_keeps executable_call_keeps image_call_keeps amd_call_keeps)

end
