(* ===== verification/Contracts.thy ===== *)
theory Contracts
  imports Api_Calls
begin

text \<open>
  The statuses that the headers of \<open>src/include\<close> document for each entry point: the \<open>@retval\<close> lines of its comment.
  The code is compared with them: which statuses it returns that are not documented.
\<close>

section \<open>The documented statuses\<close>

text \<open>The statuses of the images and memory pools are numbers outside the enumeration of \<open>hsa_status_t\<close>.\<close>

definition HSA_EXT_STATUS_ERROR_IMAGE_FORMAT_UNSUPPORTED :: hsa_status_t where
  "HSA_EXT_STATUS_ERROR_IMAGE_FORMAT_UNSUPPORTED = hsa_status_t_unlisted 0x3000"

definition HSA_EXT_STATUS_ERROR_IMAGE_SIZE_UNSUPPORTED :: hsa_status_t where
  "HSA_EXT_STATUS_ERROR_IMAGE_SIZE_UNSUPPORTED = hsa_status_t_unlisted 0x3001"

definition HSA_STATUS_ERROR_INVALID_MEMORY_POOL :: hsa_status_t where
  "HSA_STATUS_ERROR_INVALID_MEMORY_POOL = hsa_status_t_unlisted 40"

definition retvals_hsa_init :: "hsa_status_t set" where
  "retvals_hsa_init =
     {HSA_STATUS_SUCCESS, HSA_STATUS_ERROR_OUT_OF_RESOURCES, HSA_STATUS_ERROR_REFCOUNT_OVERFLOW}"

definition retvals_hsa_shut_down :: "hsa_status_t set" where
  "retvals_hsa_shut_down =
     {HSA_STATUS_SUCCESS, HSA_STATUS_ERROR_NOT_INITIALIZED}"

subsection \<open>Status strings, instruction sets, system and agent queries\<close>

definition retvals_hsa_status_string :: "hsa_status_t set" where
  "retvals_hsa_status_string =
     {HSA_STATUS_SUCCESS, HSA_STATUS_ERROR_NOT_INITIALIZED, HSA_STATUS_ERROR_INVALID_ARGUMENT}"

definition retvals_hsa_isa_get_info :: "hsa_status_t set" where
  "retvals_hsa_isa_get_info =
     {HSA_STATUS_SUCCESS, HSA_STATUS_ERROR_NOT_INITIALIZED, HSA_STATUS_ERROR_INVALID_ISA,
      HSA_STATUS_ERROR_INVALID_INDEX, HSA_STATUS_ERROR_INVALID_ARGUMENT}"

definition retvals_hsa_isa_compatible :: "hsa_status_t set" where
  "retvals_hsa_isa_compatible =
     {HSA_STATUS_SUCCESS, HSA_STATUS_ERROR_INVALID_ISA, HSA_STATUS_ERROR_INVALID_ARGUMENT}"

definition retvals_hsa_system_extension_supported :: "hsa_status_t set" where
  "retvals_hsa_system_extension_supported =
     {HSA_STATUS_SUCCESS, HSA_STATUS_ERROR_NOT_INITIALIZED, HSA_STATUS_ERROR_INVALID_ARGUMENT}"

definition retvals_hsa_system_get_extension_table :: "hsa_status_t set" where
  "retvals_hsa_system_get_extension_table =
     {HSA_STATUS_SUCCESS, HSA_STATUS_ERROR_NOT_INITIALIZED, HSA_STATUS_ERROR_INVALID_ARGUMENT}"

definition retvals_hsa_system_get_info :: "hsa_status_t set" where
  "retvals_hsa_system_get_info =
     {HSA_STATUS_SUCCESS, HSA_STATUS_ERROR_NOT_INITIALIZED, HSA_STATUS_ERROR_INVALID_ARGUMENT}"

definition retvals_hsa_agent_get_info :: "hsa_status_t set" where
  "retvals_hsa_agent_get_info =
     {HSA_STATUS_SUCCESS, HSA_STATUS_ERROR_NOT_INITIALIZED, HSA_STATUS_ERROR_INVALID_AGENT,
      HSA_STATUS_ERROR_INVALID_ARGUMENT}"

definition retvals_hsa_iterate_agents :: "hsa_status_t set" where
  "retvals_hsa_iterate_agents =
     {HSA_STATUS_SUCCESS, HSA_STATUS_ERROR_NOT_INITIALIZED, HSA_STATUS_ERROR_INVALID_ARGUMENT}"

definition retvals_hsa_agent_iterate_regions :: "hsa_status_t set" where
  "retvals_hsa_agent_iterate_regions =
     {HSA_STATUS_SUCCESS, HSA_STATUS_ERROR_NOT_INITIALIZED, HSA_STATUS_ERROR_INVALID_AGENT,
      HSA_STATUS_ERROR_INVALID_ARGUMENT}"

definition retvals_hsa_agent_get_exception_policies :: "hsa_status_t set" where
  "retvals_hsa_agent_get_exception_policies =
     {HSA_STATUS_SUCCESS, HSA_STATUS_ERROR_NOT_INITIALIZED, HSA_STATUS_ERROR_INVALID_AGENT,
      HSA_STATUS_ERROR_INVALID_ARGUMENT}"

definition retvals_hsa_agent_extension_supported :: "hsa_status_t set" where
  "retvals_hsa_agent_extension_supported =
     {HSA_STATUS_SUCCESS, HSA_STATUS_ERROR_NOT_INITIALIZED, HSA_STATUS_ERROR_INVALID_AGENT,
      HSA_STATUS_ERROR_INVALID_ARGUMENT}"

fun documented_system :: "system_entry \<Rightarrow> hsa_status_t set" where
  "documented_system E_hsa_status_string = retvals_hsa_status_string"
| "documented_system E_hsa_isa_get_info = retvals_hsa_isa_get_info"
| "documented_system E_hsa_isa_compatible = retvals_hsa_isa_compatible"
| "documented_system E_hsa_system_extension_supported = retvals_hsa_system_extension_supported"
| "documented_system E_hsa_system_get_extension_table = retvals_hsa_system_get_extension_table"
| "documented_system E_hsa_system_get_info = retvals_hsa_system_get_info"
| "documented_system E_hsa_agent_get_info = retvals_hsa_agent_get_info"
| "documented_system E_hsa_iterate_agents = retvals_hsa_iterate_agents"
| "documented_system E_hsa_agent_iterate_regions = retvals_hsa_agent_iterate_regions"
| "documented_system E_hsa_agent_get_exception_policies = retvals_hsa_agent_get_exception_policies"
| "documented_system E_hsa_agent_extension_supported = retvals_hsa_agent_extension_supported"

subsection \<open>Memory and regions\<close>

definition retvals_hsa_memory_allocate :: "hsa_status_t set" where
  "retvals_hsa_memory_allocate =
     {HSA_STATUS_SUCCESS, HSA_STATUS_ERROR_NOT_INITIALIZED, HSA_STATUS_ERROR_OUT_OF_RESOURCES,
      HSA_STATUS_ERROR_INVALID_REGION, HSA_STATUS_ERROR_INVALID_ALLOCATION,
      HSA_STATUS_ERROR_INVALID_ARGUMENT}"

definition retvals_hsa_memory_free :: "hsa_status_t set" where
  "retvals_hsa_memory_free =
     {HSA_STATUS_SUCCESS, HSA_STATUS_ERROR_NOT_INITIALIZED}"

definition retvals_hsa_memory_copy :: "hsa_status_t set" where
  "retvals_hsa_memory_copy =
     {HSA_STATUS_SUCCESS, HSA_STATUS_ERROR_NOT_INITIALIZED, HSA_STATUS_ERROR_INVALID_ARGUMENT}"

definition retvals_hsa_memory_assign_agent :: "hsa_status_t set" where
  "retvals_hsa_memory_assign_agent =
     {HSA_STATUS_SUCCESS, HSA_STATUS_ERROR_NOT_INITIALIZED, HSA_STATUS_ERROR_INVALID_AGENT,
      HSA_STATUS_ERROR_OUT_OF_RESOURCES, HSA_STATUS_ERROR_INVALID_ARGUMENT}"

definition retvals_hsa_memory_register :: "hsa_status_t set" where
  "retvals_hsa_memory_register =
     {HSA_STATUS_SUCCESS, HSA_STATUS_ERROR_NOT_INITIALIZED, HSA_STATUS_ERROR_OUT_OF_RESOURCES,
      HSA_STATUS_ERROR_INVALID_ARGUMENT}"

definition retvals_hsa_memory_deregister :: "hsa_status_t set" where
  "retvals_hsa_memory_deregister =
     {HSA_STATUS_SUCCESS, HSA_STATUS_ERROR_NOT_INITIALIZED}"

definition retvals_hsa_region_get_info :: "hsa_status_t set" where
  "retvals_hsa_region_get_info =
     {HSA_STATUS_SUCCESS, HSA_STATUS_ERROR_NOT_INITIALIZED, HSA_STATUS_ERROR_INVALID_REGION,
      HSA_STATUS_ERROR_INVALID_ARGUMENT}"

fun documented_memory :: "memory_entry \<Rightarrow> hsa_status_t set" where
  "documented_memory E_hsa_memory_allocate = retvals_hsa_memory_allocate"
| "documented_memory E_hsa_memory_free = retvals_hsa_memory_free"
| "documented_memory E_hsa_memory_copy = retvals_hsa_memory_copy"
| "documented_memory E_hsa_memory_assign_agent = retvals_hsa_memory_assign_agent"
| "documented_memory E_hsa_memory_register = retvals_hsa_memory_register"
| "documented_memory E_hsa_memory_deregister = retvals_hsa_memory_deregister"
| "documented_memory E_hsa_region_get_info = retvals_hsa_region_get_info"

subsection \<open>Signals\<close>

definition retvals_hsa_signal_create :: "hsa_status_t set" where
  "retvals_hsa_signal_create =
     {HSA_STATUS_SUCCESS, HSA_STATUS_ERROR_NOT_INITIALIZED, HSA_STATUS_ERROR_OUT_OF_RESOURCES,
      HSA_STATUS_ERROR_INVALID_ARGUMENT}"

definition retvals_hsa_signal_destroy :: "hsa_status_t set" where
  "retvals_hsa_signal_destroy =
     {HSA_STATUS_SUCCESS, HSA_STATUS_ERROR_NOT_INITIALIZED, HSA_STATUS_ERROR_INVALID_SIGNAL,
      HSA_STATUS_ERROR_INVALID_ARGUMENT}"

fun documented_signal :: "signal_entry \<Rightarrow> hsa_status_t set" where
  "documented_signal E_hsa_signal_create = retvals_hsa_signal_create"
| "documented_signal E_hsa_signal_destroy = retvals_hsa_signal_destroy"
| "documented_signal E_hsa_signal_wait_acquire = {}"
| "documented_signal E_hsa_signal_wait_relaxed = {}"
| "documented_signal (E_signal f MO) = {}"

subsection \<open>Queues\<close>

definition retvals_hsa_queue_create :: "hsa_status_t set" where
  "retvals_hsa_queue_create =
     {HSA_STATUS_SUCCESS, HSA_STATUS_ERROR_NOT_INITIALIZED, HSA_STATUS_ERROR_OUT_OF_RESOURCES,
      HSA_STATUS_ERROR_INVALID_AGENT, HSA_STATUS_ERROR_INVALID_QUEUE_CREATION,
      HSA_STATUS_ERROR_INVALID_ARGUMENT}"

definition retvals_hsa_soft_queue_create :: "hsa_status_t set" where
  "retvals_hsa_soft_queue_create =
     {HSA_STATUS_SUCCESS, HSA_STATUS_ERROR_NOT_INITIALIZED, HSA_STATUS_ERROR_OUT_OF_RESOURCES,
      HSA_STATUS_ERROR_INVALID_ARGUMENT}"

definition retvals_hsa_queue_destroy :: "hsa_status_t set" where
  "retvals_hsa_queue_destroy =
     {HSA_STATUS_SUCCESS, HSA_STATUS_ERROR_NOT_INITIALIZED, HSA_STATUS_ERROR_INVALID_QUEUE,
      HSA_STATUS_ERROR_INVALID_ARGUMENT}"

definition retvals_hsa_queue_inactivate :: "hsa_status_t set" where
  "retvals_hsa_queue_inactivate =
     {HSA_STATUS_SUCCESS, HSA_STATUS_ERROR_NOT_INITIALIZED, HSA_STATUS_ERROR_INVALID_QUEUE,
      HSA_STATUS_ERROR_INVALID_ARGUMENT}"

fun documented_queue :: "queue_entry \<Rightarrow> hsa_status_t set" where
  "documented_queue E_hsa_queue_create = retvals_hsa_queue_create"
| "documented_queue E_hsa_soft_queue_create = retvals_hsa_soft_queue_create"
| "documented_queue E_hsa_queue_destroy = retvals_hsa_queue_destroy"
| "documented_queue E_hsa_queue_inactivate = retvals_hsa_queue_inactivate"
| "documented_queue (E_queue_index c) = {}"

subsection \<open>Programs and their finalization\<close>

definition retvals_hsa_ext_program_create :: "hsa_status_t set" where
  "retvals_hsa_ext_program_create =
     {HSA_STATUS_SUCCESS, HSA_STATUS_ERROR_NOT_INITIALIZED, HSA_STATUS_ERROR_OUT_OF_RESOURCES,
      HSA_STATUS_ERROR_INVALID_ARGUMENT}"

definition retvals_hsa_ext_program_destroy :: "hsa_status_t set" where
  "retvals_hsa_ext_program_destroy =
     {HSA_STATUS_SUCCESS, HSA_STATUS_ERROR_NOT_INITIALIZED, HSA_EXT_STATUS_ERROR_INVALID_PROGRAM}"

definition retvals_hsa_ext_program_add_module :: "hsa_status_t set" where
  "retvals_hsa_ext_program_add_module =
     {HSA_STATUS_SUCCESS, HSA_STATUS_ERROR_NOT_INITIALIZED, HSA_STATUS_ERROR_OUT_OF_RESOURCES,
      HSA_EXT_STATUS_ERROR_INVALID_PROGRAM, HSA_EXT_STATUS_ERROR_INVALID_MODULE,
      HSA_EXT_STATUS_ERROR_INCOMPATIBLE_MODULE, HSA_EXT_STATUS_ERROR_MODULE_ALREADY_INCLUDED,
      HSA_EXT_STATUS_ERROR_SYMBOL_MISMATCH}"

definition retvals_hsa_ext_program_iterate_modules :: "hsa_status_t set" where
  "retvals_hsa_ext_program_iterate_modules =
     {HSA_STATUS_SUCCESS, HSA_STATUS_ERROR_NOT_INITIALIZED, HSA_EXT_STATUS_ERROR_INVALID_PROGRAM,
      HSA_STATUS_ERROR_INVALID_ARGUMENT}"

definition retvals_hsa_ext_program_get_info :: "hsa_status_t set" where
  "retvals_hsa_ext_program_get_info =
     {HSA_STATUS_SUCCESS, HSA_STATUS_ERROR_NOT_INITIALIZED, HSA_EXT_STATUS_ERROR_INVALID_PROGRAM,
      HSA_STATUS_ERROR_INVALID_ARGUMENT}"

definition retvals_hsa_ext_program_finalize :: "hsa_status_t set" where
  "retvals_hsa_ext_program_finalize =
     {HSA_STATUS_SUCCESS, HSA_STATUS_ERROR_NOT_INITIALIZED, HSA_STATUS_ERROR_OUT_OF_RESOURCES,
      HSA_EXT_STATUS_ERROR_INVALID_PROGRAM, HSA_STATUS_ERROR_INVALID_ISA,
      HSA_EXT_STATUS_ERROR_DIRECTIVE_MISMATCH, HSA_EXT_STATUS_ERROR_FINALIZATION_FAILED}"

fun documented_program :: "program_entry \<Rightarrow> hsa_status_t set" where
  "documented_program E_hsa_ext_program_create = retvals_hsa_ext_program_create"
| "documented_program E_hsa_ext_program_destroy = retvals_hsa_ext_program_destroy"
| "documented_program E_hsa_ext_program_add_module = retvals_hsa_ext_program_add_module"
| "documented_program E_hsa_ext_program_iterate_modules = retvals_hsa_ext_program_iterate_modules"
| "documented_program E_hsa_ext_program_get_info = retvals_hsa_ext_program_get_info"
| "documented_program E_hsa_ext_program_finalize = retvals_hsa_ext_program_finalize"

subsection \<open>Code objects\<close>

definition retvals_hsa_code_object_serialize :: "hsa_status_t set" where
  "retvals_hsa_code_object_serialize =
     {HSA_STATUS_SUCCESS, HSA_STATUS_ERROR_NOT_INITIALIZED, HSA_STATUS_ERROR_OUT_OF_RESOURCES,
      HSA_STATUS_ERROR_INVALID_CODE_OBJECT, HSA_STATUS_ERROR_INVALID_ARGUMENT}"

definition retvals_hsa_code_object_deserialize :: "hsa_status_t set" where
  "retvals_hsa_code_object_deserialize =
     {HSA_STATUS_SUCCESS, HSA_STATUS_ERROR_NOT_INITIALIZED, HSA_STATUS_ERROR_OUT_OF_RESOURCES,
      HSA_STATUS_ERROR_INVALID_ARGUMENT}"

definition retvals_hsa_code_object_destroy :: "hsa_status_t set" where
  "retvals_hsa_code_object_destroy =
     {HSA_STATUS_SUCCESS, HSA_STATUS_ERROR_NOT_INITIALIZED, HSA_STATUS_ERROR_INVALID_CODE_OBJECT}"

definition retvals_hsa_code_object_get_info :: "hsa_status_t set" where
  "retvals_hsa_code_object_get_info =
     {HSA_STATUS_SUCCESS, HSA_STATUS_ERROR_NOT_INITIALIZED, HSA_STATUS_ERROR_INVALID_ARGUMENT,
      HSA_STATUS_ERROR_INVALID_CODE_OBJECT}"

definition retvals_hsa_code_object_get_symbol :: "hsa_status_t set" where
  "retvals_hsa_code_object_get_symbol =
     {HSA_STATUS_SUCCESS, HSA_STATUS_ERROR_NOT_INITIALIZED, HSA_STATUS_ERROR_INVALID_CODE_OBJECT,
      HSA_STATUS_ERROR_INVALID_SYMBOL_NAME, HSA_STATUS_ERROR_INVALID_ARGUMENT}"

definition retvals_hsa_code_symbol_get_info :: "hsa_status_t set" where
  "retvals_hsa_code_symbol_get_info =
     {HSA_STATUS_SUCCESS, HSA_STATUS_ERROR_NOT_INITIALIZED, HSA_STATUS_ERROR_INVALID_ARGUMENT}"

definition retvals_hsa_code_object_iterate_symbols :: "hsa_status_t set" where
  "retvals_hsa_code_object_iterate_symbols =
     {HSA_STATUS_SUCCESS, HSA_STATUS_ERROR_NOT_INITIALIZED, HSA_STATUS_ERROR_INVALID_CODE_OBJECT,
      HSA_STATUS_ERROR_INVALID_ARGUMENT}"

fun documented_code :: "code_entry \<Rightarrow> hsa_status_t set" where
  "documented_code E_hsa_code_object_serialize = retvals_hsa_code_object_serialize"
| "documented_code E_hsa_code_object_deserialize = retvals_hsa_code_object_deserialize"
| "documented_code E_hsa_code_object_destroy = retvals_hsa_code_object_destroy"
| "documented_code E_hsa_code_object_get_info = retvals_hsa_code_object_get_info"
| "documented_code E_hsa_code_object_get_symbol = retvals_hsa_code_object_get_symbol"
| "documented_code E_hsa_code_symbol_get_info = retvals_hsa_code_symbol_get_info"
| "documented_code E_hsa_code_object_iterate_symbols = retvals_hsa_code_object_iterate_symbols"

subsection \<open>Executables\<close>

definition retvals_hsa_executable_create :: "hsa_status_t set" where
  "retvals_hsa_executable_create =
     {HSA_STATUS_SUCCESS, HSA_STATUS_ERROR_NOT_INITIALIZED, HSA_STATUS_ERROR_OUT_OF_RESOURCES,
      HSA_STATUS_ERROR_INVALID_ARGUMENT}"

definition retvals_hsa_executable_destroy :: "hsa_status_t set" where
  "retvals_hsa_executable_destroy =
     {HSA_STATUS_SUCCESS, HSA_STATUS_ERROR_NOT_INITIALIZED, HSA_STATUS_ERROR_INVALID_EXECUTABLE}"

definition retvals_hsa_executable_load_code_object :: "hsa_status_t set" where
  "retvals_hsa_executable_load_code_object =
     {HSA_STATUS_SUCCESS, HSA_STATUS_ERROR_NOT_INITIALIZED, HSA_STATUS_ERROR_OUT_OF_RESOURCES,
      HSA_STATUS_ERROR_INVALID_EXECUTABLE, HSA_STATUS_ERROR_INVALID_AGENT,
      HSA_STATUS_ERROR_INVALID_CODE_OBJECT, HSA_STATUS_ERROR_INCOMPATIBLE_ARGUMENTS,
      HSA_STATUS_ERROR_FROZEN_EXECUTABLE}"

definition retvals_hsa_executable_freeze :: "hsa_status_t set" where
  "retvals_hsa_executable_freeze =
     {HSA_STATUS_SUCCESS, HSA_STATUS_ERROR_NOT_INITIALIZED, HSA_STATUS_ERROR_INVALID_EXECUTABLE,
      HSA_STATUS_ERROR_VARIABLE_UNDEFINED, HSA_STATUS_ERROR_FROZEN_EXECUTABLE}"

definition retvals_hsa_executable_get_info :: "hsa_status_t set" where
  "retvals_hsa_executable_get_info =
     {HSA_STATUS_SUCCESS, HSA_STATUS_ERROR_NOT_INITIALIZED, HSA_STATUS_ERROR_INVALID_EXECUTABLE,
      HSA_STATUS_ERROR_INVALID_ARGUMENT}"

definition retvals_hsa_executable_global_variable_define :: "hsa_status_t set" where
  "retvals_hsa_executable_global_variable_define =
     {HSA_STATUS_SUCCESS, HSA_STATUS_ERROR_NOT_INITIALIZED, HSA_STATUS_ERROR_OUT_OF_RESOURCES,
      HSA_STATUS_ERROR_INVALID_ARGUMENT, HSA_STATUS_ERROR_INVALID_EXECUTABLE,
      HSA_STATUS_ERROR_VARIABLE_ALREADY_DEFINED, HSA_STATUS_ERROR_INVALID_SYMBOL_NAME,
      HSA_STATUS_ERROR_FROZEN_EXECUTABLE}"

definition retvals_hsa_executable_agent_global_variable_define :: "hsa_status_t set" where
  "retvals_hsa_executable_agent_global_variable_define =
     {HSA_STATUS_SUCCESS, HSA_STATUS_ERROR_NOT_INITIALIZED, HSA_STATUS_ERROR_OUT_OF_RESOURCES,
      HSA_STATUS_ERROR_INVALID_ARGUMENT, HSA_STATUS_ERROR_INVALID_EXECUTABLE,
      HSA_STATUS_ERROR_INVALID_AGENT, HSA_STATUS_ERROR_VARIABLE_ALREADY_DEFINED,
      HSA_STATUS_ERROR_INVALID_SYMBOL_NAME, HSA_STATUS_ERROR_FROZEN_EXECUTABLE}"

definition retvals_hsa_executable_readonly_variable_define :: "hsa_status_t set" where
  "retvals_hsa_executable_readonly_variable_define =
     {HSA_STATUS_SUCCESS, HSA_STATUS_ERROR_NOT_INITIALIZED, HSA_STATUS_ERROR_OUT_OF_RESOURCES,
      HSA_STATUS_ERROR_INVALID_ARGUMENT, HSA_STATUS_ERROR_INVALID_EXECUTABLE,
      HSA_STATUS_ERROR_INVALID_AGENT, HSA_STATUS_ERROR_VARIABLE_ALREADY_DEFINED,
      HSA_STATUS_ERROR_INVALID_SYMBOL_NAME, HSA_STATUS_ERROR_FROZEN_EXECUTABLE}"

definition retvals_hsa_executable_validate :: "hsa_status_t set" where
  "retvals_hsa_executable_validate =
     {HSA_STATUS_SUCCESS, HSA_STATUS_ERROR_NOT_INITIALIZED, HSA_STATUS_ERROR_INVALID_EXECUTABLE,
      HSA_STATUS_ERROR_INVALID_ARGUMENT}"

definition retvals_hsa_executable_get_symbol :: "hsa_status_t set" where
  "retvals_hsa_executable_get_symbol =
     {HSA_STATUS_SUCCESS, HSA_STATUS_ERROR_NOT_INITIALIZED, HSA_STATUS_ERROR_INVALID_EXECUTABLE,
      HSA_STATUS_ERROR_INVALID_SYMBOL_NAME, HSA_STATUS_ERROR_INVALID_ARGUMENT}"

definition retvals_hsa_executable_symbol_get_info :: "hsa_status_t set" where
  "retvals_hsa_executable_symbol_get_info =
     {HSA_STATUS_SUCCESS, HSA_STATUS_ERROR_NOT_INITIALIZED, HSA_STATUS_ERROR_INVALID_ARGUMENT}"

definition retvals_hsa_executable_iterate_symbols :: "hsa_status_t set" where
  "retvals_hsa_executable_iterate_symbols =
     {HSA_STATUS_SUCCESS, HSA_STATUS_ERROR_NOT_INITIALIZED, HSA_STATUS_ERROR_INVALID_EXECUTABLE,
      HSA_STATUS_ERROR_INVALID_ARGUMENT}"

fun documented_executable :: "executable_entry \<Rightarrow> hsa_status_t set" where
  "documented_executable E_hsa_executable_create = retvals_hsa_executable_create"
| "documented_executable E_hsa_executable_destroy = retvals_hsa_executable_destroy"
| "documented_executable E_hsa_executable_load_code_object = retvals_hsa_executable_load_code_object"
| "documented_executable E_hsa_executable_freeze = retvals_hsa_executable_freeze"
| "documented_executable E_hsa_executable_get_info = retvals_hsa_executable_get_info"
| "documented_executable E_hsa_executable_global_variable_define = retvals_hsa_executable_global_variable_define"
| "documented_executable E_hsa_executable_agent_global_variable_define = retvals_hsa_executable_agent_global_variable_define"
| "documented_executable E_hsa_executable_readonly_variable_define = retvals_hsa_executable_readonly_variable_define"
| "documented_executable E_hsa_executable_validate = retvals_hsa_executable_validate"
| "documented_executable E_hsa_executable_get_symbol = retvals_hsa_executable_get_symbol"
| "documented_executable E_hsa_executable_symbol_get_info = retvals_hsa_executable_symbol_get_info"
| "documented_executable E_hsa_executable_iterate_symbols = retvals_hsa_executable_iterate_symbols"

subsection \<open>Images\<close>

definition retvals_hsa_ext_image_get_capability :: "hsa_status_t set" where
  "retvals_hsa_ext_image_get_capability =
     {HSA_STATUS_SUCCESS, HSA_STATUS_ERROR_NOT_INITIALIZED, HSA_STATUS_ERROR_INVALID_AGENT,
      HSA_STATUS_ERROR_INVALID_ARGUMENT}"

definition retvals_hsa_ext_image_data_get_info :: "hsa_status_t set" where
  "retvals_hsa_ext_image_data_get_info =
     {HSA_STATUS_SUCCESS, HSA_STATUS_ERROR_NOT_INITIALIZED, HSA_STATUS_ERROR_INVALID_AGENT,
      HSA_EXT_STATUS_ERROR_IMAGE_FORMAT_UNSUPPORTED, HSA_EXT_STATUS_ERROR_IMAGE_SIZE_UNSUPPORTED,
      HSA_STATUS_ERROR_INVALID_ARGUMENT}"

definition retvals_hsa_ext_image_create :: "hsa_status_t set" where
  "retvals_hsa_ext_image_create =
     {HSA_STATUS_SUCCESS, HSA_STATUS_ERROR_NOT_INITIALIZED, HSA_STATUS_ERROR_INVALID_AGENT,
      HSA_EXT_STATUS_ERROR_IMAGE_FORMAT_UNSUPPORTED, HSA_STATUS_ERROR_OUT_OF_RESOURCES,
      HSA_STATUS_ERROR_INVALID_ARGUMENT}"

definition retvals_hsa_ext_image_destroy :: "hsa_status_t set" where
  "retvals_hsa_ext_image_destroy =
     {HSA_STATUS_SUCCESS, HSA_STATUS_ERROR_NOT_INITIALIZED, HSA_STATUS_ERROR_INVALID_AGENT}"

definition retvals_hsa_ext_image_copy :: "hsa_status_t set" where
  "retvals_hsa_ext_image_copy =
     {HSA_STATUS_SUCCESS, HSA_STATUS_ERROR_NOT_INITIALIZED, HSA_STATUS_ERROR_INVALID_AGENT,
      HSA_STATUS_ERROR_INVALID_ARGUMENT}"

definition retvals_hsa_ext_image_import :: "hsa_status_t set" where
  "retvals_hsa_ext_image_import =
     {HSA_STATUS_SUCCESS, HSA_STATUS_ERROR_NOT_INITIALIZED, HSA_STATUS_ERROR_INVALID_AGENT,
      HSA_STATUS_ERROR_INVALID_ARGUMENT}"

definition retvals_hsa_ext_image_export :: "hsa_status_t set" where
  "retvals_hsa_ext_image_export =
     {HSA_STATUS_SUCCESS, HSA_STATUS_ERROR_NOT_INITIALIZED, HSA_STATUS_ERROR_INVALID_AGENT,
      HSA_STATUS_ERROR_INVALID_ARGUMENT}"

definition retvals_hsa_ext_image_clear :: "hsa_status_t set" where
  "retvals_hsa_ext_image_clear =
     {HSA_STATUS_SUCCESS, HSA_STATUS_ERROR_NOT_INITIALIZED, HSA_STATUS_ERROR_INVALID_AGENT,
      HSA_STATUS_ERROR_INVALID_ARGUMENT}"

definition retvals_hsa_ext_sampler_create :: "hsa_status_t set" where
  "retvals_hsa_ext_sampler_create =
     {HSA_STATUS_SUCCESS, HSA_STATUS_ERROR_NOT_INITIALIZED, HSA_STATUS_ERROR_INVALID_AGENT,
      HSA_STATUS_ERROR_OUT_OF_RESOURCES, HSA_STATUS_ERROR_INVALID_ARGUMENT}"

definition retvals_hsa_ext_sampler_destroy :: "hsa_status_t set" where
  "retvals_hsa_ext_sampler_destroy =
     {HSA_STATUS_SUCCESS, HSA_STATUS_ERROR_NOT_INITIALIZED, HSA_STATUS_ERROR_INVALID_AGENT}"

fun documented_image :: "image_entry \<Rightarrow> hsa_status_t set" where
  "documented_image E_hsa_ext_image_get_capability = retvals_hsa_ext_image_get_capability"
| "documented_image E_hsa_ext_image_data_get_info = retvals_hsa_ext_image_data_get_info"
| "documented_image E_hsa_ext_image_create = retvals_hsa_ext_image_create"
| "documented_image E_hsa_ext_image_destroy = retvals_hsa_ext_image_destroy"
| "documented_image E_hsa_ext_image_copy = retvals_hsa_ext_image_copy"
| "documented_image E_hsa_ext_image_import = retvals_hsa_ext_image_import"
| "documented_image E_hsa_ext_image_export = retvals_hsa_ext_image_export"
| "documented_image E_hsa_ext_image_clear = retvals_hsa_ext_image_clear"
| "documented_image E_hsa_ext_sampler_create = retvals_hsa_ext_sampler_create"
| "documented_image E_hsa_ext_sampler_destroy = retvals_hsa_ext_sampler_destroy"

subsection \<open>The AMD extension\<close>

definition retvals_hsa_amd_agent_iterate_memory_pools :: "hsa_status_t set" where
  "retvals_hsa_amd_agent_iterate_memory_pools =
     {HSA_STATUS_SUCCESS, HSA_STATUS_ERROR_NOT_INITIALIZED, HSA_STATUS_ERROR_INVALID_AGENT,
      HSA_STATUS_ERROR_INVALID_ARGUMENT}"

definition retvals_hsa_amd_memory_pool_get_info :: "hsa_status_t set" where
  "retvals_hsa_amd_memory_pool_get_info =
     {HSA_STATUS_SUCCESS}"

definition retvals_hsa_amd_agent_memory_pool_get_info :: "hsa_status_t set" where
  "retvals_hsa_amd_agent_memory_pool_get_info =
     {HSA_STATUS_SUCCESS}"

definition retvals_hsa_amd_memory_pool_can_migrate :: "hsa_status_t set" where
  "retvals_hsa_amd_memory_pool_can_migrate =
     {HSA_STATUS_SUCCESS, HSA_STATUS_ERROR_NOT_INITIALIZED, HSA_STATUS_ERROR_INVALID_MEMORY_POOL,
      HSA_STATUS_ERROR_INVALID_ARGUMENT}"

definition retvals_hsa_amd_profiling_get_dispatch_time :: "hsa_status_t set" where
  "retvals_hsa_amd_profiling_get_dispatch_time =
     {HSA_STATUS_SUCCESS, HSA_STATUS_ERROR_NOT_INITIALIZED, HSA_STATUS_ERROR_INVALID_AGENT,
      HSA_STATUS_ERROR_INVALID_SIGNAL, HSA_STATUS_ERROR_INVALID_ARGUMENT}"

definition retvals_hsa_amd_memory_pool_allocate :: "hsa_status_t set" where
  "retvals_hsa_amd_memory_pool_allocate =
     {HSA_STATUS_SUCCESS, HSA_STATUS_ERROR_NOT_INITIALIZED, HSA_STATUS_ERROR_OUT_OF_RESOURCES,
      HSA_STATUS_ERROR_INVALID_MEMORY_POOL, HSA_STATUS_ERROR_INVALID_ALLOCATION,
      HSA_STATUS_ERROR_INVALID_ARGUMENT}"

definition retvals_hsa_amd_memory_pool_free :: "hsa_status_t set" where
  "retvals_hsa_amd_memory_pool_free =
     {HSA_STATUS_SUCCESS, HSA_STATUS_ERROR_NOT_INITIALIZED}"

definition retvals_hsa_amd_memory_async_copy :: "hsa_status_t set" where
  "retvals_hsa_amd_memory_async_copy =
     {HSA_STATUS_SUCCESS, HSA_STATUS_ERROR_NOT_INITIALIZED, HSA_STATUS_ERROR_INVALID_AGENT,
      HSA_STATUS_ERROR_INVALID_SIGNAL, HSA_STATUS_ERROR_INVALID_ARGUMENT}"

definition retvals_hsa_amd_agents_allow_access :: "hsa_status_t set" where
  "retvals_hsa_amd_agents_allow_access =
     {HSA_STATUS_SUCCESS, HSA_STATUS_ERROR_NOT_INITIALIZED, HSA_STATUS_ERROR_INVALID_ARGUMENT}"

definition retvals_hsa_amd_memory_lock :: "hsa_status_t set" where
  "retvals_hsa_amd_memory_lock =
     {HSA_STATUS_SUCCESS, HSA_STATUS_ERROR_NOT_INITIALIZED, HSA_STATUS_ERROR_OUT_OF_RESOURCES,
      HSA_STATUS_ERROR_INVALID_AGENT, HSA_STATUS_ERROR_INVALID_ARGUMENT}"

definition retvals_hsa_amd_memory_unlock :: "hsa_status_t set" where
  "retvals_hsa_amd_memory_unlock =
     {HSA_STATUS_SUCCESS, HSA_STATUS_ERROR_NOT_INITIALIZED}"

definition retvals_hsa_amd_profiling_set_profiler_enabled :: "hsa_status_t set" where
  "retvals_hsa_amd_profiling_set_profiler_enabled =
     {HSA_STATUS_SUCCESS, HSA_STATUS_ERROR_NOT_INITIALIZED, HSA_STATUS_ERROR_INVALID_QUEUE,
      HSA_STATUS_ERROR_INVALID_ARGUMENT}"

definition retvals_hsa_amd_coherency_get_type :: "hsa_status_t set" where
  "retvals_hsa_amd_coherency_get_type =
     {HSA_STATUS_SUCCESS, HSA_STATUS_ERROR_NOT_INITIALIZED, HSA_STATUS_ERROR_INVALID_AGENT,
      HSA_STATUS_ERROR_INVALID_ARGUMENT}"

definition retvals_hsa_amd_coherency_set_type :: "hsa_status_t set" where
  "retvals_hsa_amd_coherency_set_type =
     {HSA_STATUS_SUCCESS, HSA_STATUS_ERROR_NOT_INITIALIZED, HSA_STATUS_ERROR_INVALID_AGENT,
      HSA_STATUS_ERROR_INVALID_ARGUMENT}"

definition retvals_hsa_amd_profiling_async_copy_enable :: "hsa_status_t set" where
  "retvals_hsa_amd_profiling_async_copy_enable =
     {HSA_STATUS_SUCCESS, HSA_STATUS_ERROR_NOT_INITIALIZED, HSA_STATUS_ERROR_OUT_OF_RESOURCES}"

definition retvals_hsa_amd_profiling_get_async_copy_time :: "hsa_status_t set" where
  "retvals_hsa_amd_profiling_get_async_copy_time =
     {HSA_STATUS_SUCCESS, HSA_STATUS_ERROR_NOT_INITIALIZED, HSA_STATUS_ERROR_INVALID_SIGNAL,
      HSA_STATUS_ERROR_INVALID_ARGUMENT}"

definition retvals_hsa_amd_profiling_convert_tick_to_system_domain :: "hsa_status_t set" where
  "retvals_hsa_amd_profiling_convert_tick_to_system_domain =
     {HSA_STATUS_SUCCESS, HSA_STATUS_ERROR_NOT_INITIALIZED, HSA_STATUS_ERROR_INVALID_AGENT,
      HSA_STATUS_ERROR_INVALID_ARGUMENT}"

definition retvals_hsa_amd_signal_async_handler :: "hsa_status_t set" where
  "retvals_hsa_amd_signal_async_handler =
     {HSA_STATUS_SUCCESS, HSA_STATUS_ERROR_NOT_INITIALIZED, HSA_STATUS_ERROR_INVALID_SIGNAL,
      HSA_STATUS_ERROR_INVALID_ARGUMENT, HSA_STATUS_ERROR_OUT_OF_RESOURCES}"

definition retvals_hsa_amd_async_function :: "hsa_status_t set" where
  "retvals_hsa_amd_async_function =
     {HSA_STATUS_SUCCESS, HSA_STATUS_ERROR_NOT_INITIALIZED, HSA_STATUS_ERROR_INVALID_ARGUMENT,
      HSA_STATUS_ERROR_OUT_OF_RESOURCES}"

definition retvals_hsa_amd_image_get_info_max_dim :: "hsa_status_t set" where
  "retvals_hsa_amd_image_get_info_max_dim =
     {HSA_STATUS_SUCCESS, HSA_STATUS_ERROR_NOT_INITIALIZED, HSA_STATUS_ERROR_INVALID_QUEUE}"

definition retvals_hsa_amd_queue_cu_set_mask :: "hsa_status_t set" where
  "retvals_hsa_amd_queue_cu_set_mask =
     {HSA_STATUS_SUCCESS, HSA_STATUS_ERROR_NOT_INITIALIZED, HSA_STATUS_ERROR_INVALID_QUEUE,
      HSA_STATUS_ERROR_INVALID_ARGUMENT, HSA_STATUS_ERROR}"

definition retvals_hsa_amd_memory_migrate :: "hsa_status_t set" where
  "retvals_hsa_amd_memory_migrate =
     {HSA_STATUS_SUCCESS, HSA_STATUS_ERROR_NOT_INITIALIZED, HSA_STATUS_ERROR_INVALID_MEMORY_POOL,
      HSA_STATUS_ERROR_OUT_OF_RESOURCES, HSA_STATUS_ERROR_INVALID_ARGUMENT}"

definition retvals_hsa_amd_memory_fill :: "hsa_status_t set" where
  "retvals_hsa_amd_memory_fill =
     {HSA_STATUS_SUCCESS, HSA_STATUS_ERROR_NOT_INITIALIZED, HSA_STATUS_ERROR_INVALID_ARGUMENT}"

definition retvals_hsa_amd_interop_map_buffer :: "hsa_status_t set" where
  "retvals_hsa_amd_interop_map_buffer =
     {HSA_STATUS_SUCCESS, HSA_STATUS_ERROR_NOT_INITIALIZED, HSA_STATUS_ERROR_OUT_OF_RESOURCES,
      HSA_STATUS_ERROR_INVALID_ARGUMENT}"

definition retvals_hsa_amd_image_create :: "hsa_status_t set" where
  "retvals_hsa_amd_image_create =
     {HSA_STATUS_SUCCESS, HSA_STATUS_ERROR_NOT_INITIALIZED, HSA_STATUS_ERROR_OUT_OF_RESOURCES,
      HSA_STATUS_ERROR_INVALID_ARGUMENT}"

fun documented_amd :: "amd_entry \<Rightarrow> hsa_status_t set" where
  "documented_amd E_hsa_amd_agent_iterate_memory_pools = retvals_hsa_amd_agent_iterate_memory_pools"
| "documented_amd E_hsa_amd_memory_pool_get_info = retvals_hsa_amd_memory_pool_get_info"
| "documented_amd E_hsa_amd_agent_memory_pool_get_info = retvals_hsa_amd_agent_memory_pool_get_info"
| "documented_amd E_hsa_amd_memory_pool_can_migrate = retvals_hsa_amd_memory_pool_can_migrate"
| "documented_amd E_hsa_amd_profiling_get_dispatch_time = retvals_hsa_amd_profiling_get_dispatch_time"
| "documented_amd E_hsa_amd_memory_pool_allocate = retvals_hsa_amd_memory_pool_allocate"
| "documented_amd E_hsa_amd_memory_pool_free = retvals_hsa_amd_memory_pool_free"
| "documented_amd E_hsa_amd_memory_async_copy = retvals_hsa_amd_memory_async_copy"
| "documented_amd E_hsa_amd_agents_allow_access = retvals_hsa_amd_agents_allow_access"
| "documented_amd E_hsa_amd_memory_lock = retvals_hsa_amd_memory_lock"
| "documented_amd E_hsa_amd_memory_unlock = retvals_hsa_amd_memory_unlock"
| "documented_amd E_hsa_amd_profiling_set_profiler_enabled = retvals_hsa_amd_profiling_set_profiler_enabled"
| "documented_amd E_hsa_amd_coherency_get_type = retvals_hsa_amd_coherency_get_type"
| "documented_amd E_hsa_amd_coherency_set_type = retvals_hsa_amd_coherency_set_type"
| "documented_amd E_hsa_amd_profiling_async_copy_enable = retvals_hsa_amd_profiling_async_copy_enable"
| "documented_amd E_hsa_amd_profiling_get_async_copy_time = retvals_hsa_amd_profiling_get_async_copy_time"
| "documented_amd E_hsa_amd_profiling_convert_tick_to_system_domain = retvals_hsa_amd_profiling_convert_tick_to_system_domain"
| "documented_amd E_hsa_amd_signal_async_handler = retvals_hsa_amd_signal_async_handler"
| "documented_amd E_hsa_amd_async_function = retvals_hsa_amd_async_function"
| "documented_amd E_hsa_amd_image_get_info_max_dim = retvals_hsa_amd_image_get_info_max_dim"
| "documented_amd E_hsa_amd_queue_cu_set_mask = retvals_hsa_amd_queue_cu_set_mask"
| "documented_amd E_hsa_amd_memory_migrate = retvals_hsa_amd_memory_migrate"
| "documented_amd E_hsa_amd_memory_fill = retvals_hsa_amd_memory_fill"
| "documented_amd E_hsa_amd_interop_map_buffer = retvals_hsa_amd_interop_map_buffer"
| "documented_amd E_hsa_amd_interop_unmap_buffer = {}"
| "documented_amd E_hsa_amd_image_create = retvals_hsa_amd_image_create"

text \<open>An entry of the API. Entry points without a \<open>@retval\<close> line document no status.\<close>

fun documented :: "api_entry \<Rightarrow> hsa_status_t set" where
  "documented (System_Entry e) = documented_system e"
| "documented (Memory_Entry e) = documented_memory e"
| "documented (Signal_Entry e) = documented_signal e"
| "documented (Queue_Entry e) = documented_queue e"
| "documented (Program_Entry e) = documented_program e"
| "documented (Code_Entry e) = documented_code e"
| "documented (Executable_Entry e) = documented_executable e"
| "documented (Image_Entry e) = documented_image e"
| "documented (Amd_Entry e) = documented_amd e"

section \<open>The statuses of an outcome\<close>

text \<open>When an outcome returns a status, it is in \<open>S\<close>. The laws follow a body from its checks to its returns.\<close>

definition reports :: "hsa_status_t set \<Rightarrow> (hsa_status_t \<times> 'b) outcome \<Rightarrow> bool" where
  "reports S m \<longleftrightarrow> (\<forall>st x. m = Inr (st, x) \<longrightarrow> st \<in> S)"

lemma reports_simps [simp]:
  "reports S (Inl e)" "reports S (Inr y) \<longleftrightarrow> fst y \<in> S"
  by (cases y, simp_all add: reports_def)+

lemma reports_and_then [simp]: "reports S (and_then m f) \<longleftrightarrow> (\<forall>y. m = Inr y \<longrightarrow> reports S (f y))"
  by (cases m) simp_all

lemma reports_map_option: "(\<And>x. reports S (f x)) \<Longrightarrow> pred_option (reports S) (map_option f m)"
  by (cases m) simp_all

lemma reports_proceed:
  "pred_option (reports S) (proceed m f) \<longleftrightarrow> (\<forall>y. m = Some (Inr y) \<longrightarrow> pred_option (reports S) (f y))"
  by (cases m) (auto simp: proceed_def split: sum.splits)

section \<open>The statuses of the entry points\<close>

lemma createSoftQueue_not_null: "CPURuntime_createSoftQueue s r n t d = Inr (Q, s1) \<Longrightarrow> Q \<noteq> nullptr"
  by (auto simp: CPURuntime_createSoftQueue_def outcome_simps dest: queue_new_not_null)

lemma load_binary_reports:
  "reports {HSA_STATUS_SUCCESS, HSA_EXT_STATUS_ERROR_DIRECTIVE_MISMATCH, HSA_EXT_STATUS_ERROR_FINALIZATION_FAILED}
     (load_binary H p isa prog d s)"
  by (simp add: load_binary_def Let_def split: prod.split option.split)

lemma finalizeProgram_reports:
  "reports {HSA_STATUS_SUCCESS, HSA_EXT_STATUS_ERROR_INVALID_PROGRAM, HSA_EXT_STATUS_ERROR_DIRECTIVE_MISMATCH,
       HSA_EXT_STATUS_ERROR_FINALIZATION_FAILED} (GCCFinalizer_finalizeProgram H p d isa opts s)"
proof -
  have "reports S m \<Longrightarrow> S \<subseteq> T \<Longrightarrow> reports T m" for S T and m :: "(hsa_status_t \<times> u64 \<times> 'a program_state_scheme) outcome"
    by (auto simp: reports_def)
  note bin = this [OF load_binary_reports]
  show ?thesis
    by (auto simp: GCCFinalizer_finalizeProgram_def Let_def intro!: bin split: prod.split option.split)
qed

lemma hsa_status_string_reports: "fst (hsa_status_string s status status_string) \<in> retvals_hsa_status_string"
  by (simp add: hsa_status_string_def retvals_hsa_status_string_def Let_def  split: prod.split option.split bool.splits hsa_status_t.split)

lemma hsa_isa_get_info_reports: "fst (hsa_isa_get_info s isa attribute index val) \<in> retvals_hsa_isa_get_info"
  by (simp add: hsa_isa_get_info_def retvals_hsa_isa_get_info_def Let_def  split: prod.split option.split bool.splits hsa_isa_info_t.split)

lemma hsa_isa_compatible_reports: "fst (hsa_isa_compatible code_object_isa agent_isa result) \<in> retvals_hsa_isa_compatible"
  by (simp add: hsa_isa_compatible_def retvals_hsa_isa_compatible_def Let_def  split: prod.split option.split bool.splits )

lemma hsa_system_extension_supported_reports: "reports retvals_hsa_system_extension_supported (hsa_system_extension_supported s extension version_major version_minor result)"
  by (simp add: hsa_system_extension_supported_def retvals_hsa_system_extension_supported_def Let_def  split: prod.split option.split bool.splits )

lemma hsa_system_get_extension_table_reports: "reports retvals_hsa_system_get_extension_table (hsa_system_get_extension_table s extension version_major version_minor table)"
  by (simp add: hsa_system_get_extension_table_def retvals_hsa_system_get_extension_table_def Let_def  split: prod.split option.split bool.splits )

lemma hsa_system_get_info_reports: "reports retvals_hsa_system_get_info (hsa_system_get_info now s attribute val)"
  by (simp add: hsa_system_get_info_def retvals_hsa_system_get_info_def Let_def  split: prod.split option.split bool.splits hsa_system_info_t.split)

lemma hsa_agent_get_info_reports: "reports retvals_hsa_agent_get_info (hsa_agent_get_info hash mode s agent attribute val)"
  by (simp add: hsa_agent_get_info_def retvals_hsa_agent_get_info_def Let_def  split: prod.split option.split bool.splits )

lemma hsa_agent_get_exception_policies_reports: "fst (hsa_agent_get_exception_policies s agent profile msk) \<in> retvals_hsa_agent_get_exception_policies"
  by (simp add: hsa_agent_get_exception_policies_def retvals_hsa_agent_get_exception_policies_def Let_def  split: prod.split option.split bool.splits )

lemma hsa_agent_extension_supported_reports: "fst (hsa_agent_extension_supported s extension agent version_major version_minor result) \<in> retvals_hsa_agent_extension_supported"
  by (simp add: hsa_agent_extension_supported_def retvals_hsa_agent_extension_supported_def Let_def  split: prod.split option.split bool.splits )

lemma hsa_memory_allocate_reports: "reports retvals_hsa_memory_allocate (hsa_memory_allocate s region n ptr)"
  by (simp add: hsa_memory_allocate_def retvals_hsa_memory_allocate_def Let_def  split: prod.split option.split bool.splits )

lemma hsa_memory_free_reports: "reports (retvals_hsa_memory_free \<union> {HSA_STATUS_ERROR_INVALID_ARGUMENT}) (hsa_memory_free s Ptr)"
  by (simp add: hsa_memory_free_def retvals_hsa_memory_free_def Let_def  split: prod.split option.split bool.splits )

lemma hsa_memory_copy_reports: "fst (hsa_memory_copy s dst src n (Memory s)) \<in> retvals_hsa_memory_copy"
  by (simp add: hsa_memory_copy_def retvals_hsa_memory_copy_def Let_def  split: prod.split option.split bool.splits )

lemma hsa_memory_assign_agent_reports: "hsa_memory_assign_agent s ptr agent access \<in> retvals_hsa_memory_assign_agent"
  by (simp add: hsa_memory_assign_agent_def retvals_hsa_memory_assign_agent_def Let_def  split: prod.split option.split bool.splits )

lemma hsa_memory_register_reports: "hsa_memory_register s ptr n \<in> retvals_hsa_memory_register"
  by (simp add: hsa_memory_register_def retvals_hsa_memory_register_def Let_def  split: prod.split option.split bool.splits )

lemma hsa_memory_deregister_reports: "hsa_memory_deregister s ptr n \<in> (retvals_hsa_memory_deregister \<union> {HSA_STATUS_ERROR_INVALID_ARGUMENT})"
  by (simp add: hsa_memory_deregister_def retvals_hsa_memory_deregister_def Let_def  split: prod.split option.split bool.splits )

lemma hsa_region_get_info_reports: "reports retvals_hsa_region_get_info (hsa_region_get_info s region attribute val)"
  by (simp add: hsa_region_get_info_def retvals_hsa_region_get_info_def Let_def  split: prod.split option.split bool.splits )

lemma hsa_signal_create_reports: "reports retvals_hsa_signal_create (hsa_signal_create s initial_value num_consumers consumers sig)"
  by (auto simp: hsa_signal_create_def CPURuntime_createSignal_def retvals_hsa_signal_create_def Let_def outcome_simps
      split: list.split)

lemma hsa_signal_destroy_reports: "reports retvals_hsa_signal_destroy (hsa_signal_destroy s sig)"
  by (simp add: hsa_signal_destroy_def retvals_hsa_signal_destroy_def Let_def  split: prod.split option.split bool.splits )

lemma hsa_queue_create_reports: "reports retvals_hsa_queue_create (hsa_queue_create s agent n ty callback d ps gs queue)"
  by (auto simp: hsa_queue_create_def retvals_hsa_queue_create_def Let_def dest: createQueue_not_null split: prod.split)

lemma hsa_soft_queue_create_reports: "reports retvals_hsa_soft_queue_create (hsa_soft_queue_create s region n ty features doorbell queue)"
  by (auto simp: hsa_soft_queue_create_def retvals_hsa_soft_queue_create_def Let_def dest: createSoftQueue_not_null split: prod.split)

lemma hsa_queue_destroy_reports: "reports retvals_hsa_queue_destroy (hsa_queue_destroy s queue)"
  by (simp add: hsa_queue_destroy_def retvals_hsa_queue_destroy_def Let_def  split: prod.split option.split bool.splits )

lemma hsa_queue_inactivate_reports: "hsa_queue_inactivate reads s queue = Inr (Some (st, s')) \<Longrightarrow> st \<in> retvals_hsa_queue_inactivate"
  by (auto simp: hsa_queue_inactivate_def retvals_hsa_queue_inactivate_def outcome_simps split: if_splits option.splits)

lemma hsa_ext_program_create_reports: "reports retvals_hsa_ext_program_create (hsa_ext_program_create s machine_model profile default_float_rounding_mode opts program)"
  by (auto simp: hsa_ext_program_create_def Finalizer_createProgram_def with_finalizer_def
      retvals_hsa_ext_program_create_def Let_def outcome_simps)

lemma hsa_ext_program_destroy_reports: "reports retvals_hsa_ext_program_destroy (hsa_ext_program_destroy H s program)"
  by (simp add: hsa_ext_program_destroy_def retvals_hsa_ext_program_destroy_def Let_def  split: prod.split option.split bool.splits )

lemma hsa_ext_program_add_module_reports: "pred_option (reports retvals_hsa_ext_program_add_module) (hsa_ext_program_add_module s program module)"
  by (auto simp: hsa_ext_program_add_module_def with_finalizer_def retvals_hsa_ext_program_add_module_def Let_def
      split: prod.split intro!: reports_map_option)

lemma hsa_ext_program_get_info_reports: "reports retvals_hsa_ext_program_get_info (hsa_ext_program_get_info s program attribute val)"
  by (simp add: hsa_ext_program_get_info_def retvals_hsa_ext_program_get_info_def Let_def  split: prod.split option.split bool.splits hsa_ext_program_info_t.split)

lemma hsa_ext_program_finalize_reports: "reports retvals_hsa_ext_program_finalize (hsa_ext_program_finalize H s program isa call_convention control_directives opts code_object_type code_object)"
  using finalizeProgram_reports
  by (fastforce simp: hsa_ext_program_finalize_def with_finalizer_def retvals_hsa_ext_program_finalize_def Let_def reports_def
      outcome_simps split: prod.splits if_splits)

lemma hsa_code_object_deserialize_reports: "reports retvals_hsa_code_object_deserialize (hsa_code_object_deserialize H s serialized_code_object serialized_code_object_size opts code_object)"
  by (simp add: hsa_code_object_deserialize_def retvals_hsa_code_object_deserialize_def Let_def  split: prod.split option.split bool.splits )

lemma hsa_code_object_destroy_reports: "reports retvals_hsa_code_object_destroy (hsa_code_object_destroy H s code_object)"
  by (simp add: hsa_code_object_destroy_def retvals_hsa_code_object_destroy_def Let_def  split: prod.split option.split bool.splits )

lemma hsa_code_object_get_info_reports: "reports retvals_hsa_code_object_get_info (hsa_code_object_get_info s code_object attribute val)"
  by (simp add: hsa_code_object_get_info_def retvals_hsa_code_object_get_info_def Let_def  split: prod.split option.split bool.splits )

lemma hsa_code_object_get_symbol_reports: "reports retvals_hsa_code_object_get_symbol (hsa_code_object_get_symbol s code_object symbol_name symbol)"
  by (simp add: hsa_code_object_get_symbol_def retvals_hsa_code_object_get_symbol_def Let_def  split: prod.split option.split bool.splits )

lemma hsa_code_symbol_get_info_reports: "reports retvals_hsa_code_symbol_get_info (hsa_code_symbol_get_info s code_symbol attribute val)"
  by (simp add: hsa_code_symbol_get_info_def retvals_hsa_code_symbol_get_info_def Let_def  split: prod.split option.split bool.splits )

lemma hsa_executable_create_reports: "reports retvals_hsa_executable_create (hsa_executable_create s profile executable_state opts executable)"
  by (simp add: hsa_executable_create_def retvals_hsa_executable_create_def Let_def  split: prod.split option.split bool.splits )

lemma hsa_executable_destroy_reports: "reports retvals_hsa_executable_destroy (hsa_executable_destroy s executable)"
  by (simp add: hsa_executable_destroy_def retvals_hsa_executable_destroy_def Let_def  split: prod.split option.split bool.splits )

lemma hsa_executable_load_code_object_reports: "reports retvals_hsa_executable_load_code_object (hsa_executable_load_code_object H s executable agent code_object opts)"
  by (simp add: hsa_executable_load_code_object_def retvals_hsa_executable_load_code_object_def Let_def LoadCodeObject_def split: prod.split option.split bool.splits )

lemma hsa_executable_freeze_reports: "reports retvals_hsa_executable_freeze (hsa_executable_freeze s executable opts)"
  by (simp add: hsa_executable_freeze_def retvals_hsa_executable_freeze_def Let_def  split: prod.split option.split bool.splits )

lemma hsa_executable_get_info_reports: "reports retvals_hsa_executable_get_info (hsa_executable_get_info s executable attribute val)"
  by (simp add: hsa_executable_get_info_def retvals_hsa_executable_get_info_def Let_def  split: prod.split option.split bool.splits hsa_executable_info_t.split)

lemma hsa_executable_global_variable_define_reports: "reports retvals_hsa_executable_global_variable_define (hsa_executable_global_variable_define s executable variable_name address)"
  by (simp add: hsa_executable_global_variable_define_def retvals_hsa_executable_global_variable_define_def Let_def  split: prod.split option.split bool.splits )

lemma hsa_executable_agent_global_variable_define_reports: "reports retvals_hsa_executable_agent_global_variable_define (hsa_executable_agent_global_variable_define s executable agent variable_name address)"
  by (simp add: hsa_executable_agent_global_variable_define_def retvals_hsa_executable_agent_global_variable_define_def Let_def  split: prod.split option.split bool.splits )

lemma hsa_executable_readonly_variable_define_reports: "reports retvals_hsa_executable_readonly_variable_define (hsa_executable_readonly_variable_define s executable agent variable_name address)"
  by (simp add: hsa_executable_readonly_variable_define_def retvals_hsa_executable_readonly_variable_define_def Let_def  split: prod.split option.split bool.splits )

lemma hsa_executable_validate_reports: "fst (hsa_executable_validate executable result) \<in> retvals_hsa_executable_validate"
  by (simp add: hsa_executable_validate_def retvals_hsa_executable_validate_def Let_def  split: prod.split option.split bool.splits )

lemma hsa_executable_get_symbol_reports: "reports retvals_hsa_executable_get_symbol (hsa_executable_get_symbol s executable module_name symbol_name agent call_convention symbol)"
  by (simp add: hsa_executable_get_symbol_def retvals_hsa_executable_get_symbol_def Let_def  split: prod.split option.split bool.splits )

lemma hsa_executable_symbol_get_info_reports: "reports retvals_hsa_executable_symbol_get_info (hsa_executable_symbol_get_info s executable_symbol attribute val)"
  by (simp add: hsa_executable_symbol_get_info_def retvals_hsa_executable_symbol_get_info_def Let_def  split: prod.split option.split bool.splits )

lemma hsa_ext_image_get_capability_reports: "fst (hsa_ext_image_get_capability agent geometry image_format capability_mask) \<in> retvals_hsa_ext_image_get_capability"
  by (simp add: hsa_ext_image_get_capability_def retvals_hsa_ext_image_get_capability_def Let_def  split: prod.split option.split bool.splits )

lemma hsa_ext_image_data_get_info_reports: "fst (hsa_ext_image_data_get_info agent image_descriptor access_permission image_data_info) \<in> retvals_hsa_ext_image_data_get_info"
  by (simp add: hsa_ext_image_data_get_info_def retvals_hsa_ext_image_data_get_info_def Let_def  split: prod.split option.split bool.splits )

lemma hsa_ext_image_create_reports: "fst (hsa_ext_image_create agent image_descriptor image_data access_permission img) \<in> retvals_hsa_ext_image_create"
  by (simp add: hsa_ext_image_create_def retvals_hsa_ext_image_create_def Let_def  split: prod.split option.split bool.splits )

lemma hsa_ext_image_destroy_reports: "hsa_ext_image_destroy agent img \<in> retvals_hsa_ext_image_destroy"
  by (simp add: hsa_ext_image_destroy_def retvals_hsa_ext_image_destroy_def Let_def  split: prod.split option.split bool.splits )

lemma hsa_ext_image_copy_reports: "fst (hsa_ext_image_copy agent src_image src_offset dst_image dst_offset rng s) \<in> retvals_hsa_ext_image_copy"
  by (simp add: hsa_ext_image_copy_def retvals_hsa_ext_image_copy_def Let_def  split: prod.split option.split bool.splits )

lemma hsa_ext_image_import_reports: "fst (hsa_ext_image_import agent src_memory src_row_pitch src_slice_pitch dst_image image_region s) \<in> retvals_hsa_ext_image_import"
  by (simp add: hsa_ext_image_import_def retvals_hsa_ext_image_import_def Let_def  split: prod.split option.split bool.splits )

lemma hsa_ext_image_export_reports: "fst (hsa_ext_image_export agent src_image dst_memory dst_row_pitch dst_slice_pitch image_region s) \<in> retvals_hsa_ext_image_export"
  by (simp add: hsa_ext_image_export_def retvals_hsa_ext_image_export_def Let_def  split: prod.split option.split bool.splits )

lemma hsa_ext_image_clear_reports: "fst (hsa_ext_image_clear agent img d image_region s) \<in> retvals_hsa_ext_image_clear"
  by (simp add: hsa_ext_image_clear_def retvals_hsa_ext_image_clear_def Let_def  split: prod.split option.split bool.splits )

lemma hsa_ext_sampler_create_reports: "fst (hsa_ext_sampler_create agent sampler_descriptor sampler) \<in> retvals_hsa_ext_sampler_create"
  by (simp add: hsa_ext_sampler_create_def retvals_hsa_ext_sampler_create_def Let_def  split: prod.split option.split bool.splits )

lemma hsa_ext_sampler_destroy_reports: "hsa_ext_sampler_destroy agent sampler \<in> retvals_hsa_ext_sampler_destroy"
  by (simp add: hsa_ext_sampler_destroy_def retvals_hsa_ext_sampler_destroy_def Let_def  split: prod.split option.split bool.splits )

lemma hsa_amd_agent_iterate_memory_pools_reports: "reports retvals_hsa_amd_agent_iterate_memory_pools (hsa_amd_agent_iterate_memory_pools s agent callback d)"
  by (simp add: hsa_amd_agent_iterate_memory_pools_def retvals_hsa_amd_agent_iterate_memory_pools_def Let_def  split: prod.split option.split bool.splits )

lemma hsa_amd_memory_pool_get_info_reports: "reports retvals_hsa_amd_memory_pool_get_info (hsa_amd_memory_pool_get_info s memory_pool attribute val)"
  by (simp add: hsa_amd_memory_pool_get_info_def retvals_hsa_amd_memory_pool_get_info_def Let_def write_through_def split: prod.split option.split bool.splits hsa_amd_memory_pool_info_t.split)

lemma hsa_amd_agent_memory_pool_get_info_reports: "reports retvals_hsa_amd_agent_memory_pool_get_info (hsa_amd_agent_memory_pool_get_info agent memory_pool attribute val)"
  by (simp add: hsa_amd_agent_memory_pool_get_info_def retvals_hsa_amd_agent_memory_pool_get_info_def Let_def write_through_def split: prod.split option.split bool.splits hsa_amd_agent_memory_pool_info_t.split)

lemma hsa_amd_memory_pool_can_migrate_reports: "reports retvals_hsa_amd_memory_pool_can_migrate (hsa_amd_memory_pool_can_migrate src_memory_pool dst_memory_pool result)"
  by (simp add: hsa_amd_memory_pool_can_migrate_def retvals_hsa_amd_memory_pool_can_migrate_def Let_def write_through_def split: prod.split option.split bool.splits )

lemma hsa_amd_profiling_get_dispatch_time_reports: "reports retvals_hsa_amd_profiling_get_dispatch_time (hsa_amd_profiling_get_dispatch_time agent sig tm)"
  by (simp add: hsa_amd_profiling_get_dispatch_time_def retvals_hsa_amd_profiling_get_dispatch_time_def Let_def  split: prod.split option.split bool.splits )

lemma hsa_amd_memory_pool_allocate_reports: "reports (retvals_hsa_amd_memory_pool_allocate \<union> {HSA_STATUS_ERROR_INVALID_REGION}) (hsa_amd_memory_pool_allocate s memory_pool n flags ptr)"
  by (simp add: hsa_amd_memory_pool_allocate_def retvals_hsa_amd_memory_pool_allocate_def Let_def hsa_memory_allocate_def split: prod.split option.split bool.splits )

lemma hsa_amd_memory_pool_free_reports: "reports (retvals_hsa_amd_memory_pool_free \<union> {HSA_STATUS_ERROR_INVALID_ARGUMENT}) (hsa_amd_memory_pool_free s ptr)"
  by (simp add: hsa_amd_memory_pool_free_def retvals_hsa_amd_memory_pool_free_def Let_def hsa_memory_free_def split: prod.split option.split bool.splits )

lemma hsa_amd_memory_async_copy_reports: "pred_option (reports retvals_hsa_amd_memory_async_copy) (hsa_amd_memory_async_copy seen (\<lambda>_ t. t) s dst dst_agent src src_agent n num_dep_signals dep_signals completion_signal)"
  by (simp add: hsa_amd_memory_async_copy_def retvals_hsa_amd_memory_async_copy_def Let_def reports_proceed split: prod.split option.split bool.splits )

lemma hsa_amd_agents_allow_access_reports: "hsa_amd_agents_allow_access num_agents agents flags ptr \<in> retvals_hsa_amd_agents_allow_access"
  by (simp add: hsa_amd_agents_allow_access_def retvals_hsa_amd_agents_allow_access_def Let_def  split: prod.split option.split bool.splits )

lemma hsa_amd_memory_lock_reports: "reports retvals_hsa_amd_memory_lock (hsa_amd_memory_lock host_ptr n agents num_agent agent_ptr)"
  by (simp add: hsa_amd_memory_lock_def retvals_hsa_amd_memory_lock_def Let_def  split: prod.split option.split bool.splits )

lemma hsa_amd_memory_unlock_reports: "hsa_amd_memory_unlock host_ptr \<in> retvals_hsa_amd_memory_unlock"
  by (simp add: hsa_amd_memory_unlock_def retvals_hsa_amd_memory_unlock_def Let_def  split: prod.split option.split bool.splits )

lemma hsa_amd_profiling_set_profiler_enabled_reports: "hsa_amd_profiling_set_profiler_enabled queue enable \<in> retvals_hsa_amd_profiling_set_profiler_enabled"
  by (simp add: hsa_amd_profiling_set_profiler_enabled_def retvals_hsa_amd_profiling_set_profiler_enabled_def Let_def  split: prod.split option.split bool.splits )

lemma hsa_amd_coherency_get_type_reports: "hsa_amd_coherency_get_type agent ty = Inr st \<Longrightarrow> st \<in> retvals_hsa_amd_coherency_get_type"
  by (simp add: hsa_amd_coherency_get_type_def retvals_hsa_amd_coherency_get_type_def Let_def  split: prod.split option.split bool.splits )

lemma hsa_amd_coherency_set_type_reports: "hsa_amd_coherency_set_type agent ty = Inr st \<Longrightarrow> st \<in> retvals_hsa_amd_coherency_set_type"
  by (simp add: hsa_amd_coherency_set_type_def retvals_hsa_amd_coherency_set_type_def Let_def  split: prod.split option.split bool.splits )

lemma hsa_amd_profiling_async_copy_enable_reports: "hsa_amd_profiling_async_copy_enable enable = Inr st \<Longrightarrow> st \<in> retvals_hsa_amd_profiling_async_copy_enable"
  by (simp add: hsa_amd_profiling_async_copy_enable_def retvals_hsa_amd_profiling_async_copy_enable_def Let_def  split: prod.split option.split bool.splits )

lemma hsa_amd_profiling_get_async_copy_time_reports: "hsa_amd_profiling_get_async_copy_time sig tm = Inr st \<Longrightarrow> st \<in> retvals_hsa_amd_profiling_get_async_copy_time"
  by (simp add: hsa_amd_profiling_get_async_copy_time_def retvals_hsa_amd_profiling_get_async_copy_time_def Let_def  split: prod.split option.split bool.splits )

lemma hsa_amd_profiling_convert_tick_to_system_domain_reports: "hsa_amd_profiling_convert_tick_to_system_domain agent agent_tick system_tick = Inr st \<Longrightarrow> st \<in> retvals_hsa_amd_profiling_convert_tick_to_system_domain"
  by (simp add: hsa_amd_profiling_convert_tick_to_system_domain_def retvals_hsa_amd_profiling_convert_tick_to_system_domain_def Let_def  split: prod.split option.split bool.splits )

lemma hsa_amd_signal_async_handler_reports: "hsa_amd_signal_async_handler sig cond val handler arg = Inr st \<Longrightarrow> st \<in> retvals_hsa_amd_signal_async_handler"
  by (simp add: hsa_amd_signal_async_handler_def retvals_hsa_amd_signal_async_handler_def Let_def  split: prod.split option.split bool.splits )

lemma hsa_amd_async_function_reports: "hsa_amd_async_function callback arg = Inr st \<Longrightarrow> st \<in> retvals_hsa_amd_async_function"
  by (simp add: hsa_amd_async_function_def retvals_hsa_amd_async_function_def Let_def  split: prod.split option.split bool.splits )

lemma hsa_amd_image_get_info_max_dim_reports: "hsa_amd_image_get_info_max_dim agent attribute val = Inr st \<Longrightarrow> st \<in> retvals_hsa_amd_image_get_info_max_dim"
  by (simp add: hsa_amd_image_get_info_max_dim_def retvals_hsa_amd_image_get_info_max_dim_def Let_def  split: prod.split option.split bool.splits )

lemma hsa_amd_queue_cu_set_mask_reports: "hsa_amd_queue_cu_set_mask queue num_cu_mask_count cu_mask = Inr st \<Longrightarrow> st \<in> retvals_hsa_amd_queue_cu_set_mask"
  by (simp add: hsa_amd_queue_cu_set_mask_def retvals_hsa_amd_queue_cu_set_mask_def Let_def  split: prod.split option.split bool.splits )

lemma hsa_amd_memory_migrate_reports: "hsa_amd_memory_migrate ptr memory_pool flags = Inr st \<Longrightarrow> st \<in> retvals_hsa_amd_memory_migrate"
  by (simp add: hsa_amd_memory_migrate_def retvals_hsa_amd_memory_migrate_def Let_def  split: prod.split option.split bool.splits )

lemma hsa_amd_memory_fill_reports: "hsa_amd_memory_fill ptr val count = Inr st \<Longrightarrow> st \<in> retvals_hsa_amd_memory_fill"
  by (simp add: hsa_amd_memory_fill_def retvals_hsa_amd_memory_fill_def Let_def  split: prod.split option.split bool.splits )

lemma hsa_amd_interop_map_buffer_reports: "hsa_amd_interop_map_buffer num_agents agents interop_handle flags n ptr metadata_size metadata = Inr st \<Longrightarrow> st \<in> retvals_hsa_amd_interop_map_buffer"
  by (simp add: hsa_amd_interop_map_buffer_def retvals_hsa_amd_interop_map_buffer_def Let_def  split: prod.split option.split bool.splits )

lemma hsa_amd_image_create_reports: "hsa_amd_image_create agent image_descriptor image_layout image_data access_permission img = Inr st \<Longrightarrow> st \<in> retvals_hsa_amd_image_create"
  by (simp add: hsa_amd_image_create_def retvals_hsa_amd_image_create_def Let_def  split: prod.split option.split bool.splits )

text \<open>The laws as rules for the result of a call.\<close>

lemma reports_status: "reports S m \<Longrightarrow> m = Inr (st, x) \<Longrightarrow> st \<in> S"
  by (auto simp: reports_def)

lemma pred_option_status: "pred_option (reports S) m \<Longrightarrow> m = Some (Inr (st, x)) \<Longrightarrow> st \<in> S"
  by (simp add: reports_def)

lemma fst_status: "fst p \<in> S \<Longrightarrow> p = (st, x) \<Longrightarrow> st \<in> S"
  by simp

lemmas entry_statuses =
  hsa_status_string_reports [THEN fst_status] hsa_isa_get_info_reports [THEN fst_status]
  hsa_isa_compatible_reports [THEN fst_status] hsa_system_extension_supported_reports [THEN reports_status]
  hsa_system_get_extension_table_reports [THEN reports_status] hsa_system_get_info_reports [THEN reports_status]
  hsa_agent_get_info_reports [THEN reports_status] hsa_agent_get_exception_policies_reports [THEN fst_status]
  hsa_agent_extension_supported_reports [THEN fst_status] hsa_memory_allocate_reports [THEN reports_status]
  hsa_memory_free_reports [THEN reports_status] hsa_memory_copy_reports [THEN fst_status]
  hsa_region_get_info_reports [THEN reports_status] hsa_signal_create_reports [THEN reports_status]
  hsa_signal_destroy_reports [THEN reports_status] hsa_queue_create_reports [THEN reports_status]
  hsa_soft_queue_create_reports [THEN reports_status] hsa_queue_destroy_reports [THEN reports_status]
  hsa_queue_inactivate_reports hsa_ext_program_create_reports [THEN reports_status]
  hsa_ext_program_destroy_reports [THEN reports_status]
  hsa_ext_program_add_module_reports [THEN pred_option_status]
  hsa_ext_program_get_info_reports [THEN reports_status] hsa_ext_program_finalize_reports [THEN reports_status]
  hsa_code_object_deserialize_reports [THEN reports_status]
  hsa_code_object_destroy_reports [THEN reports_status] hsa_code_object_get_info_reports [THEN reports_status]
  hsa_code_object_get_symbol_reports [THEN reports_status]
  hsa_code_symbol_get_info_reports [THEN reports_status] hsa_executable_create_reports [THEN reports_status]
  hsa_executable_destroy_reports [THEN reports_status]
  hsa_executable_load_code_object_reports [THEN reports_status]
  hsa_executable_freeze_reports [THEN reports_status] hsa_executable_get_info_reports [THEN reports_status]
  hsa_executable_global_variable_define_reports [THEN reports_status]
  hsa_executable_agent_global_variable_define_reports [THEN reports_status]
  hsa_executable_readonly_variable_define_reports [THEN reports_status]
  hsa_executable_validate_reports [THEN fst_status] hsa_executable_get_symbol_reports [THEN reports_status]
  hsa_executable_symbol_get_info_reports [THEN reports_status]
  hsa_ext_image_get_capability_reports [THEN fst_status] hsa_ext_image_data_get_info_reports [THEN fst_status]
  hsa_ext_image_create_reports [THEN fst_status] hsa_ext_image_copy_reports [THEN fst_status]
  hsa_ext_image_import_reports [THEN fst_status] hsa_ext_image_export_reports [THEN fst_status]
  hsa_ext_image_clear_reports [THEN fst_status] hsa_ext_sampler_create_reports [THEN fst_status]
  hsa_amd_agent_iterate_memory_pools_reports [THEN reports_status]
  hsa_amd_memory_pool_get_info_reports [THEN reports_status]
  hsa_amd_agent_memory_pool_get_info_reports [THEN reports_status]
  hsa_amd_memory_pool_can_migrate_reports [THEN reports_status]
  hsa_amd_profiling_get_dispatch_time_reports [THEN reports_status]
  hsa_amd_memory_pool_allocate_reports [THEN reports_status]
  hsa_amd_memory_pool_free_reports [THEN reports_status]
  hsa_amd_memory_async_copy_reports [THEN pred_option_status] hsa_amd_memory_lock_reports [THEN reports_status]
  hsa_amd_coherency_get_type_reports hsa_amd_coherency_set_type_reports
  hsa_amd_profiling_async_copy_enable_reports hsa_amd_profiling_get_async_copy_time_reports
  hsa_amd_profiling_convert_tick_to_system_domain_reports hsa_amd_signal_async_handler_reports
  hsa_amd_async_function_reports hsa_amd_image_get_info_max_dim_reports hsa_amd_queue_cu_set_mask_reports
  hsa_amd_memory_migrate_reports hsa_amd_memory_fill_reports hsa_amd_interop_map_buffer_reports
  hsa_amd_image_create_reports

lemmas entry_status_intros =
  hsa_memory_assign_agent_reports hsa_memory_register_reports hsa_memory_deregister_reports
  hsa_ext_image_destroy_reports hsa_ext_sampler_destroy_reports hsa_amd_agents_allow_access_reports
  hsa_amd_memory_unlock_reports hsa_amd_profiling_set_profiler_enabled_reports

section \<open>The divergences\<close>

text \<open>
  Traversals and the serialization return the status of the client's callback, as documented. The other entry points
  return a status that is not documented only in four places.
\<close>

definition traverses :: "api_entry \<Rightarrow> bool" where
  "traverses e \<longleftrightarrow> e \<in>
     {System_Entry E_hsa_iterate_agents, System_Entry E_hsa_agent_iterate_regions,
      Program_Entry E_hsa_ext_program_iterate_modules, Code_Entry E_hsa_code_object_iterate_symbols,
      Executable_Entry E_hsa_executable_iterate_symbols, Code_Entry E_hsa_code_object_serialize}"

definition undocumented :: "api_entry \<Rightarrow> hsa_status_t set" where
  "undocumented e =
     (if e \<in> {Memory_Entry E_hsa_memory_free, Memory_Entry E_hsa_memory_deregister, Amd_Entry E_hsa_amd_memory_pool_free}
      then {HSA_STATUS_ERROR_INVALID_ARGUMENT}
      else if e = Amd_Entry E_hsa_amd_memory_pool_allocate then {HSA_STATUS_ERROR_INVALID_REGION}
      else {})"

text \<open>The entry points that do not look whether the runtime is initialised before they do their work.\<close>

definition unguarded :: "api_entry \<Rightarrow> bool" where
  "unguarded e \<longleftrightarrow>
     (case e of
        Image_Entry i \<Rightarrow> True
      | Amd_Entry a \<Rightarrow> a \<noteq> E_hsa_amd_memory_pool_allocate \<and> a \<noteq> E_hsa_amd_memory_pool_free
      | _ \<Rightarrow> e \<in> {System_Entry E_hsa_isa_compatible, Memory_Entry E_hsa_memory_assign_agent,
          Code_Entry E_hsa_code_object_destroy, Code_Entry E_hsa_code_object_iterate_symbols,
          Executable_Entry E_hsa_executable_validate, Executable_Entry E_hsa_executable_get_symbol})"

end
