(* ===== verification/Process_Claims.thy ===== *)
theory Process_Claims
  imports Api_Calls
begin

text \<open>
  Histories of a whole process: initialisations, shut-downs, every call of the API, the turns and packets of the
  worker and the writes of the client, in any order. The handles stay sound and the instance exists exactly while
  the runtime is initialised, whatever the history.
\<close>

section \<open>Histories\<close>

text \<open>
  One step of the process. Calls and packets are atomic steps. The client writes its memory, the packets of the ring
  buffers and the files as it likes. Between the calls the allocator may get memory back, that of destroyed objects
  among it, and decide anew which addresses it will give.
\<close>

inductive process_step ::
  "host \<Rightarrow> kernel_code \<Rightarrow> (string \<Rightarrow> u64) \<Rightarrow> 'm amd_state_scheme \<Rightarrow> 'm amd_state_scheme \<Rightarrow> bool"
  for H code hash where
    initialise: "hsa_init hash s = Inr (st, s') \<Longrightarrow> process_step H code hash s s'"
  | shut_down: "hsa_shut_down H code s = Some (Inr (st, s')) \<Longrightarrow> process_step H code hash s s'"
  | call: "api_call H hash e s st s' \<Longrightarrow> process_step H code hash s s'"
  | turn_step: "queue_turn code a q s = Inr t \<Longrightarrow> process_step H code hash s (turn_state t)"
  | worker_step: "packet_step code r q n cri ci s = Inr (stop, cri', s') \<Longrightarrow> process_step H code hash s s'"
  | client_step: "process_step H code hash s (s\<lparr>Memory := M, Buffers := B, Files := F\<rparr>)"
  | allocator_step: "usable_supply s addresses \<Longrightarrow> process_step H code hash s (s\<lparr>HostHeap := addresses\<rparr>)"

inductive history ::
  "host \<Rightarrow> kernel_code \<Rightarrow> (string \<Rightarrow> u64) \<Rightarrow> 'm amd_state_scheme \<Rightarrow> 'm amd_state_scheme \<Rightarrow> bool"
  for H code hash where
    start: "history H code hash s s"
  | step: "history H code hash s s1 \<Longrightarrow> process_step H code hash s1 s2 \<Longrightarrow> history H code hash s s2"

lemma process_step_outcome:
  "process_step H code hash s s' \<Longrightarrow>
    (\<exists>st. hsa_init hash s = Inr (st, s')) \<or> (\<exists>st. hsa_shut_down H code s = Some (Inr (st, s'))) \<or> keeps s s'"
  by (erule process_step.cases; hypsubst) (drule api_call_keeps queue_turn_keeps packet_step_keeps, simp | simp add: keeps_refl | simp add: keeps_def typed_resupply | blast)+

lemma process_step_typed:
  assumes "process_step H code hash s s'" and "typed s"
  shows "typed s'"
  using process_step_outcome [OF assms(1)]
  by (elim disjE exE) (use assms(2) in \<open>simp_all add: hsa_init_typed hsa_shut_down_typed keeps_def\<close>)

lemma process_step_counter:
  assumes "process_step H code hash s s'" and "counter_inv s"
  shows "counter_inv s'"
  using process_step_outcome [OF assms(1)]
proof (elim disjE exE)
  show "counter_inv s'" if "keeps s s'" using that assms(2) by (simp add: keeps_def counter_inv_def)
qed (rule hsa_init_keeps [OF assms(2)] hsa_shut_down_keeps [OF assms(2)], assumption)+

lemma history_typed: "history H code hash s s' \<Longrightarrow> typed s \<Longrightarrow> typed s'"
  by (induction rule: history.induct) (auto intro: process_step_typed)

lemma history_counter: "history H code hash s s' \<Longrightarrow> counter_inv s \<Longrightarrow> counter_inv s'"
  by (induction rule: history.induct) (auto intro: process_step_counter)

section \<open>Sound handles\<close>

text \<open>
  A handle is sound when the object found for it, if any, can be dereferenced, and no other handle names it.
\<close>

definition resolves :: "registry \<Rightarrow> (addr \<rightharpoonup> 'o) \<Rightarrow> bool" where
  "resolves R objects \<longleftrightarrow>
     (\<forall>h. fromHSAObject R h \<noteq> nullptr \<longrightarrow>
       (\<exists>x. deref objects (fromHSAObject R h) = Inr x) \<and>
       (\<forall>h'. fromHSAObject R h' = fromHSAObject R h \<longrightarrow> h' = h))"

lemma directory_resolves:
  assumes "directory R objects H"
  shows "resolves R objects"
  unfolding resolves_def
proof (intro allI impI conjI)
  fix h
  assume h: "fromHSAObject R h \<noteq> nullptr"
  then obtain x where "objects (fromHSAObject R h) = Some x" using directory_find [OF assms] by blast
  then show "\<exists>x. deref objects (fromHSAObject R h) = Inr x" using h by (auto simp: deref_Some)
  show "h' = h" if "fromHSAObject R h' = fromHSAObject R h" for h'
    using directory_inj [OF assms h that] .
qed

text \<open>A process that has not called the runtime yet, with addresses for the objects to come.\<close>

definition new_process :: amd_state where
  "new_process = amd_demo\<lparr>ReferenceCounter := 0, Instance := nullptr, HostHeap := [0x10, 0x20, 0x30, 0x40, 0x50, 0x60],
     SignalRegistry := [], Signals := Map.empty, SignalValues := Map.empty, AgentRegistry := [],
     KernelAgents := Map.empty, RtAgents := [], MemoryRegions := []\<rparr>"

lemma new_process_typed: "typed new_process"
  by (simp add: typed_def new_process_def amd_demo_def directory_def queues_named_def linked_defs)

lemma new_process_init: "\<exists>s'. hsa_init hash new_process = Inr (HSA_STATUS_SUCCESS, s') \<and> isInitialized s' \<and> HostHeap s' = [0x60]"
  by (simp add: hsa_init_def Runtime_initialize_def new_process_def amd_demo_def CPURuntime_new_def isInitialized_def
      operator_new_def host_malloc_def CPUMemoryRegion_new_def CPUKernelAgent_new_def GCCFinalizer_new_def update_agent_def
      deref_Some Runtime_registerAgent_def Runtime_registerMemoryRegion_def registerISA_def registerExtension_def Let_def)

lemma found_entry: "fromHSAObject R h \<noteq> nullptr \<Longrightarrow> (h, fromHSAObject R h) \<in> set R"
  by (auto simp: fromHSAObject_def split: option.splits dest: map_of_SomeD)

lemma not_found_after_leave:
  assumes "directory R objects H" and "fromHSAObject R h \<noteq> nullptr"
  shows "fromHSAObject (destroyMapping R (fromHSAObject R h)) h = nullptr"
proof (rule ccontr)
  let ?p = "fromHSAObject R h"
  let ?q = "fromHSAObject (destroyMapping R ?p) h"
  assume "?q \<noteq> nullptr"
  then have q: "(h, ?q) \<in> set (destroyMapping R ?p)" by (rule found_entry)
  then have "(h, ?q) \<in> set R" using set_destroyMapping by blast
  moreover have "(h, ?p) \<in> set R" using assms(2) by (rule found_entry)
  ultimately have "?q = ?p" using directoryD(1) [OF assms(1)] by (metis map_of_is_SomeI option.inject)
  moreover have "?p \<notin> snd ` set (destroyMapping R ?p)"
    using directoryD(2) [OF assms(1)] assms(2) by (rule filter_destroyMapping)
  ultimately show False using q by force
qed

lemma not_found_stays:
  assumes "directory R objects H" and "fromHSAObject R h = nullptr"
  shows "fromHSAObject (destroyMapping R p) h = nullptr"
proof (rule ccontr)
  let ?q = "fromHSAObject (destroyMapping R p) h"
  assume q: "?q \<noteq> nullptr"
  then have "(h, ?q) \<in> set R" using found_entry set_destroyMapping by blast
  then have "fromHSAObject R h = ?q" using directoryD(1) [OF assms(1)] by (simp add: fromHSAObject_def)
  with q assms(2) show False by simp
qed

lemma find_deregister: "fromHSAObject (deregisterObject R k) h = (if h = k then nullptr else fromHSAObject R h)"
  by (simp add: fromHSAObject_def deregisterObject_def delete_conv)

text \<open>A destroyed code object is found no more, also when it was registered under another handle than its address.\<close>

lemma code_object_gone:
  assumes "typed s" and "fromHSAObject (CodeRegistry s) h = p" and "p \<noteq> nullptr"
  obtains s' where "DLFinalizedProgram_delete H p s = Inr s'" "fromHSAObject (CodeRegistry s') h = nullptr"
proof -
  have dir: "directory (CodeRegistry s) (FinalizedPrograms s) (HostHeap s)" using assms(1) by (simp add: typed_def)
  obtain P where P: "FinalizedPrograms s p = Some P" using directory_find [OF dir] assms(2,3) by blast
  have gone: "fromHSAObject (destroyMapping (deregisterObject (CodeRegistry s) p) p) h = nullptr"
    using not_found_after_leave [OF directory_deregister [OF dir, of p], of h] not_found_stays [OF directory_deregister [OF dir, of p], of h p]
      assms(2,3) by (cases "h = p") (simp_all add: find_deregister)
  show thesis by (rule DLFinalizedProgram_delete_eq [OF assms(1) P assms(3), of H], rule that) (assumption, simp add: gone)
qed

text \<open>What the collections leave of the signals.\<close>

definition same_signals :: "'m signal_state_scheme \<Rightarrow> 'm signal_state_scheme \<Rightarrow> bool" where
  "same_signals s s' \<longleftrightarrow> SignalRegistry s' = SignalRegistry s \<and> Signals s' = Signals s \<and> HostHeap s' = HostHeap s"

lemma delete_agents_signals:
  "delete_agents code As s = Some (Inr s') \<Longrightarrow> same_signals s s' \<and> QueueRegistry s' = QueueRegistry s \<and> MemoryRegions s' = MemoryRegions s"
proof (induction As arbitrary: s)
  case (Cons A As)
  then obtain s1 where s1: "CPUKernelAgent_delete A (s\<lparr>ShutDown := False\<rparr>) = Inr s1" "delete_agents code As s1 = Some (Inr s')"
    by (cases "CPUKernelAgent_delete A (s\<lparr>ShutDown := False\<rparr>)") (auto simp: shutDown_eq)
  with Cons.IH [OF s1(2)] show ?case by (auto simp: CPUKernelAgent_delete_def outcome_simps same_signals_def)
qed (simp add: same_signals_def)

lemma code_delete_signals:
  assumes "DLFinalizedProgram_delete H p s = Inr s'"
  shows "(SignalRegistry s', Signals s', HostHeap s', MemoryRegions s') =
    (SignalRegistry s, Signals s, HostHeap s, MemoryRegions s)"
  using code_delete_only [OF assms, unfolded only_code_def,
      THEN arg_cong, of "\<lambda>s. (SignalRegistry s, Signals s, HostHeap s, MemoryRegions s)"]
  by (simp add: without_code_def)

lemma program_delete_signals:
  assumes "HSAILProgram_delete H p s = Inr s'"
  shows "(SignalRegistry s', Signals s', HostHeap s', MemoryRegions s') =
    (SignalRegistry s, Signals s, HostHeap s, MemoryRegions s)"
proof -
  obtain b d where "IsDebugMode H s = (b, s\<lparr>DebugMode := d\<rparr>)" by (rule IsDebugMode_cases)
  with assms show ?thesis
    by (cases b) (auto simp: HSAILProgram_delete_def outcome_simps Let_def split: if_splits)
qed

lemma delete_regions_signals:
  "delete_regions Rs s = Inr s' \<Longrightarrow> same_signals s s' \<and> (\<forall>r. CPURegions s' r = (if r \<in> set Rs then None else CPURegions s r))"
proof (induction Rs arbitrary: s)
  case (Cons R Rs)
  then obtain s1 where "CPUMemoryRegion_delete R s = Inr s1" "delete_regions Rs s1 = Inr s'" by (auto simp: outcome_simps)
  with Cons.IH show ?case by (auto simp: CPUMemoryRegion_delete_def outcome_simps same_signals_def)
qed (simp add: same_signals_def)

lemma Runtime_delete_signals:
  assumes "Runtime_delete H code s = Some (Inr s')" and "QueueRegistry s = []"
  shows "same_signals s s' \<and> (\<forall>r \<in> set (MemoryRegions s). CPURegions s' r = None)"
proof -
  from assms obtain s1 s2 s3 s4 s5 where steps: "delete_agents code (RtAgents s) s = Some (Inr s1)"
    "Queue_garbageCollect (s1\<lparr>RtAgents := []\<rparr>) = Inr s2" "collect CodeRegistry (DLFinalizedProgram_delete H) s2 = Some (Inr s3)"
    "collect ProgramRegistry (HSAILProgram_delete H) s3 = Some (Inr s4)"
    "delete_regions (MemoryRegions s4) s4 = Inr s5" "s' = s5\<lparr>MemoryRegions := []\<rparr>"
    by (auto simp: Runtime_delete_def proceed_def split: option.splits sum.splits)
  let ?f = "\<lambda>s. (SignalRegistry s, Signals s, HostHeap s, MemoryRegions s)"
  have s1: "same_signals s s1" "QueueRegistry s1 = []" "MemoryRegions s1 = MemoryRegions s"
    using delete_agents_signals [OF steps(1)] assms(2) by auto
  then have "?f s2 = ?f s" using steps(2) by (auto simp: Queue_garbageCollect_def same_signals_def outcome_simps)
  moreover have "?f s3 = ?f s2" using steps(3) code_delete_signals by (rule collect_counter)
  moreover have "?f s4 = ?f s3" using steps(4) program_delete_signals by (rule collect_counter)
  ultimately show ?thesis using delete_regions_signals [OF steps(5)] steps(6) by (simp add: same_signals_def)
qed

text \<open>What building the platform leaves alone: the signals, and the regions that are no new address.\<close>

definition builds :: "'m signal_state_scheme \<Rightarrow> 'm signal_state_scheme \<Rightarrow> bool" where
  "builds s s' \<longleftrightarrow> ReferenceCounter s' = ReferenceCounter s \<and> SignalRegistry s' = SignalRegistry s \<and> Signals s' = Signals s \<and>
     set (HostHeap s') \<subseteq> set (HostHeap s) \<and> (\<forall>r. r \<notin> set (HostHeap s) \<longrightarrow> CPURegions s' r = CPURegions s r)"

lemma builds_trans [trans]: "builds s s1 \<Longrightarrow> builds s1 s2 \<Longrightarrow> builds s s2"
  by (auto simp: builds_def)

lemma operator_new_builds: "operator_new s = Inr (p, s') \<Longrightarrow> builds s s'"
  by (erule operator_new_Inr) (auto simp: builds_def)

lemma region_new_builds: "CPUMemoryRegion_new seg s = Inr (p, s') \<Longrightarrow> builds s s'"
  by (auto simp: CPUMemoryRegion_new_def builds_def outcome_simps elim!: operator_new_Inr)

lemma agent_new_builds: "CPUKernelAgent_new hash r s = Inr (A, s') \<Longrightarrow> builds s s'"
  by (auto simp: CPUKernelAgent_new_def registerISA_def Let_def builds_def outcome_simps elim!: operator_new_Inr)

lemma update_agent_builds: "update_agent A f s = Inr s' \<Longrightarrow> builds s s'"
  by (auto simp: update_agent_def builds_def outcome_simps)

lemma CPURuntime_new_builds:
  fixes s :: "'m program_state_scheme"
  assumes "CPURuntime_new hash s = Inr (R, s')"
  shows "builds s s'"
  using assms
proof (rule CPURuntime_new_Inr)
  fix s0 s1 s2 s3 s4 s5 s6 s9 :: "'m program_state_scheme" and G A L n F
  let ?t = "s0\<lparr>RtAgents := [], Extensions := [], MemoryRegions := []\<rparr>"
    and ?u = "Runtime_registerAgent A (Runtime_registerMemoryRegion L (Runtime_registerMemoryRegion G s6))"
  assume steps: "operator_new s = Inr (R, s0)" "CPUMemoryRegion_new HSA_REGION_SEGMENT_GLOBAL ?t = Inr (G, s1)"
    "CPUKernelAgent_new hash G s1 = Inr (A, s2)" "update_agent A (Agent_registerMemoryRegion G) s2 = Inr s3"
    "CPUMemoryRegion_new HSA_REGION_SEGMENT_GROUP s3 = Inr (L, s4)"
    "update_agent A (Agent_registerMemoryRegion L) s4 = Inr s5" "update_agent A (setGroupMemoryRegion L) s5 = Inr s6"
    "operator_new ?u = Inr (n, s9)" "s' = registerExtension HSA_EXTENSION_FINALIZER F s9"
  have "builds s ?t" using operator_new_builds [OF steps(1)] by (simp add: builds_def)
  also have "builds ?t s1" using steps(2) by (rule region_new_builds)
  also have "builds s1 s2" using steps(3) by (rule agent_new_builds)
  also have "builds s2 s3" using steps(4) by (rule update_agent_builds)
  also have "builds s3 s4" using steps(5) by (rule region_new_builds)
  also have "builds s4 s5" using steps(6) by (rule update_agent_builds)
  also have "builds s5 s6" using steps(7) by (rule update_agent_builds)
  also have "builds s6 ?u" by (simp add: Runtime_registerAgent_def Runtime_registerMemoryRegion_def builds_def)
  also have "builds ?u s9" using steps(8) by (rule operator_new_builds)
  also have "builds s9 s'" by (simp add: steps(9) registerExtension_def builds_def)
  finally show ?thesis .
qed

lemma hsa_init_returns:
  assumes "ReferenceCounter s = 0" and "HostHeap s = [r, g, a, m, f] @ ps" and "nullptr \<notin> {r, g, a, m, f}"
  shows "\<exists>s'. hsa_init hash s = Inr (HSA_STATUS_SUCCESS, s')"
  using assms
  by (simp add: hsa_init_def Runtime_initialize_def CPURuntime_new_def operator_new_def host_malloc_def
      CPUMemoryRegion_new_def CPUKernelAgent_new_def GCCFinalizer_new_def update_agent_def deref_Some
      Runtime_registerAgent_def Runtime_registerMemoryRegion_def registerISA_def registerExtension_def Let_def)

section \<open>Properties\<close>

text \<open>
  C5. Whatever history of initialisations, shut-downs, calls with any arguments, worker turns and client writes a
  process goes through, its handles stay sound: the object that a registry yields for a handle is alive, of the class
  of the registry, and has no second handle. This holds of regions, signals, queues, symbols, agents, programs, code
  objects and executables, provided that it holds at the beginning, also when the host gives the memory of destroyed
  objects to new ones. The process stays typed: the symbols of every code object are alive and its own, every live
  signal has a value, and the registered queues have their region and that of the doorbell they own.
\<close>

theorem handles_stay_sound:
  assumes "history H code hash s s'" and "typed s"
  shows "resolves (RegionRegistry s') (CPURegions s') \<and> resolves (SignalRegistry s') (Signals s') \<and>
    resolves (QueueRegistry s') (Queues s') \<and> resolves (SymbolRegistry s') (SymbolObjects s') \<and>
    resolves (AgentRegistry s') (KernelAgents s') \<and> resolves (ProgramRegistry s') (HSAILPrograms s') \<and>
    resolves (CodeRegistry s') (FinalizedPrograms s') \<and> resolves (ExecutableRegistry s') (Executables s') \<and> typed s'"
proof -
  have "typed s'" using assms by (rule history_typed)
  then show ?thesis by (auto simp: typed_def intro: directory_resolves)
qed

theorem handles_stay_sound_witness:
  "\<forall>H code hash. \<exists>s1 s2. hsa_init hash new_process = Inr (HSA_STATUS_SUCCESS, s1) \<and>
    hsa_executable_create s1 HSA_PROFILE_BASE HSA_EXECUTABLE_STATE_UNFROZEN None 8 =
      Inr (HSA_STATUS_SUCCESS, Some 0x60, s2) \<and> resolves (ExecutableRegistry s2) (Executables s2) \<and> typed s2"
proof (intro allI)
  fix H :: host and code :: kernel_code and hash :: "string \<Rightarrow> u64"
  obtain s1 where s1: "hsa_init hash new_process = Inr (HSA_STATUS_SUCCESS, s1)" "isInitialized s1" "HostHeap s1 = [0x60]"
    using new_process_init by blast
  then obtain s2 where s2: "hsa_executable_create s1 HSA_PROFILE_BASE HSA_EXECUTABLE_STATE_UNFROZEN None 8 =
      Inr (HSA_STATUS_SUCCESS, Some 0x60, s2)"
    by (simp add: hsa_executable_create_def ELFExecutable_new_def operator_new_def host_malloc_def)
  have "process_step H code hash new_process s1" using s1(1) by (rule process_step.initialise)
  moreover have "process_step H code hash s1 s2"
    using s2
    by (intro process_step.call [of H hash "Executable_Entry E_hsa_executable_create"])
      (simp, rule executable_call.executable_create)
  ultimately have "history H code hash new_process s2" using history.start history.step by blast
  from handles_stay_sound [OF this new_process_typed] s1(1) s2
  show "\<exists>s1 s2. hsa_init hash new_process = Inr (HSA_STATUS_SUCCESS, s1) \<and>
      hsa_executable_create s1 HSA_PROFILE_BASE HSA_EXECUTABLE_STATE_UNFROZEN None 8 =
        Inr (HSA_STATUS_SUCCESS, Some 0x60, s2) \<and> resolves (ExecutableRegistry s2) (Executables s2) \<and> typed s2"
    by blast
qed

text \<open>
  C6. In every such history that starts before the first initialisation the runtime counts as initialised exactly when
  the instance exists, so the assertion of \<open>Runtime::get\<close> never fails behind the check that the entry points make
  first; the counter never becomes negative.
\<close>

theorem instance_exists_while_initialized:
  assumes "history H code hash s s'" and "ReferenceCounter s = 0" and "Instance s = nullptr"
  shows "(isInitialized s' \<longleftrightarrow> Instance s' \<noteq> nullptr) \<and> unat (ReferenceCounter s') < 2 ^ 31 \<and>
    (isInitialized s' \<longrightarrow> Runtime_get s' = Inr (Instance s'))"
proof -
  have "counter_inv s" using assms by (simp add: counter_inv_def)
  with assms(1) have "counter_inv s'" by (rule history_counter)
  then show ?thesis by (simp add: counter_inv_def isInitialized_def sint_positive Runtime_get_def)
qed

theorem instance_exists_while_initialized_witness:
  "\<forall>H code hash. \<exists>s'. hsa_init hash new_process = Inr (HSA_STATUS_SUCCESS, s') \<and> Instance s' \<noteq> nullptr \<and>
    Runtime_get s' = Inr (Instance s')"
proof (intro allI)
  fix H :: host and code :: kernel_code and hash :: "string \<Rightarrow> u64"
  obtain s' where s': "hsa_init hash new_process = Inr (HSA_STATUS_SUCCESS, s')" "isInitialized s'"
    using new_process_init by blast
  then have "history H code hash new_process s'" using process_step.initialise history.start history.step by blast
  from instance_exists_while_initialized [OF this] s'
  show "\<exists>s'. hsa_init hash new_process = Inr (HSA_STATUS_SUCCESS, s') \<and> Instance s' \<noteq> nullptr \<and>
      Runtime_get s' = Inr (Instance s')"
    by (auto simp: new_process_def)
qed

text \<open>
  C33. In a process whose handles are sound, destroying a program, an executable or a code object returns for whatever
  handle is passed. Afterwards the handle is invalid: a second destruction changes nothing. It is refused for programs
  and executables; for code objects it is reported as a success, though the handle is invalid.
\<close>

theorem destroyed_handle_rejected:
  assumes "typed s" and "isInitialized s"
  shows "(\<exists>st s'. hsa_ext_program_destroy H s h = Inr (st, s') \<and>
      hsa_ext_program_destroy H s' h = Inr (HSA_EXT_STATUS_ERROR_INVALID_PROGRAM, s') \<and>
      (st = HSA_STATUS_SUCCESS \<longleftrightarrow> fromHSAObject (ProgramRegistry s) h \<noteq> nullptr)) \<and>
    (\<exists>st s'. hsa_executable_destroy s h = Inr (st, s') \<and>
      hsa_executable_destroy s' h = Inr (HSA_STATUS_ERROR_INVALID_EXECUTABLE, s') \<and>
      (st = HSA_STATUS_SUCCESS \<longleftrightarrow> fromHSAObject (ExecutableRegistry s) h \<noteq> nullptr)) \<and>
    (\<exists>s'. hsa_code_object_destroy H s h = Inr (HSA_STATUS_SUCCESS, s') \<and> fromHSAObject (CodeRegistry s') h = nullptr \<and>
      hsa_code_object_destroy H s' h = Inr (HSA_STATUS_SUCCESS, s'))"
proof (intro conjI)
  have dirs: "directory (ProgramRegistry s) (HSAILPrograms s) (HostHeap s)"
    "directory (ExecutableRegistry s) (Executables s) (HostHeap s)" using assms(1) by (simp_all add: typed_def)
  show "\<exists>st s'. hsa_ext_program_destroy H s h = Inr (st, s') \<and>
      hsa_ext_program_destroy H s' h = Inr (HSA_EXT_STATUS_ERROR_INVALID_PROGRAM, s') \<and>
      (st = HSA_STATUS_SUCCESS \<longleftrightarrow> fromHSAObject (ProgramRegistry s) h \<noteq> nullptr)"
  proof (cases "fromHSAObject (ProgramRegistry s) h = nullptr")
    case True
    with assms(2) show ?thesis by (simp add: hsa_ext_program_destroy_def)
  next
    case False
    let ?p = "fromHSAObject (ProgramRegistry s) h"
    obtain P where P: "HSAILPrograms s ?p = Some P" using directory_find [OF dirs(1) False] by blast
    obtain b d where d: "IsDebugMode H s = (b, s\<lparr>DebugMode := d\<rparr>)" by (rule IsDebugMode_cases)
    obtain s' where s': "HSAILProgram_delete H ?p s = Inr s'" "ProgramRegistry s' = destroyMapping (ProgramRegistry s) ?p"
      "ReferenceCounter s' = ReferenceCounter s"
      using False P d by (cases b) (simp_all add: HSAILProgram_delete_def deref_Some Let_def)
    with assms(2) not_found_after_leave [OF dirs(1) False] False show ?thesis
      by (simp add: hsa_ext_program_destroy_def isInitialized_def)
  qed
  show "\<exists>st s'. hsa_executable_destroy s h = Inr (st, s') \<and>
      hsa_executable_destroy s' h = Inr (HSA_STATUS_ERROR_INVALID_EXECUTABLE, s') \<and>
      (st = HSA_STATUS_SUCCESS \<longleftrightarrow> fromHSAObject (ExecutableRegistry s) h \<noteq> nullptr)"
  proof (cases "fromHSAObject (ExecutableRegistry s) h = nullptr")
    case True
    with assms(2) show ?thesis by (simp add: hsa_executable_destroy_def)
  next
    case False
    then obtain E where "Executables s (fromHSAObject (ExecutableRegistry s) h) = Some E"
      using directory_find [OF dirs(2)] by blast
    with assms(2) False not_found_after_leave [OF dirs(2) False] show ?thesis
      by (simp add: hsa_executable_destroy_def ELFExecutable_delete_def deref_Some isInitialized_def Let_def)
  qed
  show "\<exists>s'. hsa_code_object_destroy H s h = Inr (HSA_STATUS_SUCCESS, s') \<and> fromHSAObject (CodeRegistry s') h = nullptr \<and>
      hsa_code_object_destroy H s' h = Inr (HSA_STATUS_SUCCESS, s')"
  proof (cases "fromHSAObject (CodeRegistry s) h = nullptr")
    case True
    then show ?thesis by (simp add: hsa_code_object_destroy_def DLFinalizedProgram_delete_def)
  next
    case False
    obtain s' where "DLFinalizedProgram_delete H (fromHSAObject (CodeRegistry s) h) s = Inr s'"
      "fromHSAObject (CodeRegistry s') h = nullptr" by (rule code_object_gone [OF assms(1) refl False])
    then show ?thesis by (simp add: hsa_code_object_destroy_def DLFinalizedProgram_delete_def)
  qed
qed

theorem destroyed_handle_rejected_witness:
  "\<forall>H. \<exists>s'. hsa_ext_program_destroy H program_demo 0x400 = Inr (HSA_STATUS_SUCCESS, s') \<and>
    hsa_ext_program_destroy H s' 0x400 = Inr (HSA_EXT_STATUS_ERROR_INVALID_PROGRAM, s')"
proof
  fix H :: host
  have demo: "typed program_demo" "isInitialized program_demo" "fromHSAObject (ProgramRegistry program_demo) 0x400 = 0x400"
    by (simp_all add: typed_def program_demo_def directory_def queues_named_def linked_defs info_agent_def
      isInitialized_def fromHSAObject_def)
  from destroyed_handle_rejected [OF demo(1,2), where H = H and h = "0x400"] demo(3)
  show "\<exists>s'. hsa_ext_program_destroy H program_demo 0x400 = Inr (HSA_STATUS_SUCCESS, s') \<and>
      hsa_ext_program_destroy H s' 0x400 = Inr (HSA_EXT_STATUS_ERROR_INVALID_PROGRAM, s')" by auto
qed

text \<open>
  C34. The last \<open>hsa_shut_down\<close> deletes the memory regions but no signal: a signal that the client has not destroyed
  stays registered with the deleted region, and when the runtime is initialised again, its destruction gives the
  memory back to the deleted region, unless a new object happens to get its address.
\<close>

theorem signal_outlives_region:
  assumes "hsa_shut_down H code s = Some (Inr (st, s1))" and "ReferenceCounter s = 1" and "QueueRegistry s = []"
    and "hsa_init hash s1 = Inr (HSA_STATUS_SUCCESS, s2)"
    and "fromHSAObject (SignalRegistry s) h = p" and "h \<noteq> 0" and "p \<noteq> nullptr" and "Signals s p = Some Obj"
    and "SignalMemory Obj \<in> set (MemoryRegions s)" and "SignalMemory Obj \<notin> set (HostHeap s)"
  shows "isInitialized s2 \<and> fromHSAObject (SignalRegistry s2) h = p \<and> Signals s2 p = Some Obj \<and>
    CPURegions s2 (SignalMemory Obj) = None \<and> (\<exists>e. hsa_signal_destroy s2 h = Inl e)"
proof -
  from assms(1,2) obtain t where t: "Runtime_delete H code s = Some (Inr t)"
    "s1 = t\<lparr>Instance := nullptr, Extensions := [], ReferenceCounter := ReferenceCounter t - 1\<rparr>"
    by (auto simp: hsa_shut_down_def Runtime_release_def proceed_def split: option.splits sum.splits if_splits)
  have s1: "same_signals s s1" "CPURegions s1 (SignalMemory Obj) = None" "ReferenceCounter s1 = 0"
    using Runtime_delete_signals [OF t(1) assms(3)] Runtime_delete_counter [OF t(1)] t(2) assms(2,9)
    by (auto simp: same_signals_def)
  with assms(4) obtain u R where u: "CPURuntime_new hash s1 = Inr (R, u)"
    "s2 = u\<lparr>Instance := R, ReferenceCounter := ReferenceCounter u + 1\<rparr>"
    by (auto simp: hsa_init_def Runtime_initialize_def outcome_simps split: if_splits)
  from CPURuntime_new_builds [OF u(1)] u(2) s1 assms(10)
  have s2: "isInitialized s2" "SignalRegistry s2 = SignalRegistry s" "Signals s2 = Signals s"
    "CPURegions s2 (SignalMemory Obj) = None"
    by (simp_all add: same_signals_def builds_def isInitialized_def)
  then have "\<exists>e. hsa_signal_destroy s2 h = Inl e" using assms(5-8)
    by (simp add: hsa_signal_destroy_def GCCBuiltinSignal_delete_def CPUMemoryRegion_free_def deref_def)
  with s2 assms(5,8) show ?thesis by simp
qed

text \<open>The running example process with a signal.\<close>

definition signalling_process :: program_state where
  "signalling_process = running_process\<lparr>HostHeap := [0x10, 0x20, 0x30, 0x40, 0x50],
     SignalRegistry := [(0x808, 0x800)], Signals := [0x800 \<mapsto> \<lparr>CurrentValue = 0x808, SignalMemory = 0x100\<rparr>],
     SignalValues := [0x808 \<mapsto> 1]\<rparr>"

lemma signalling_process_ready: "shutdown_ready signalling_process"
  by (simp add: shutdown_ready_def signalling_process_def running_process_def code_demo_def program_demo_def all_alive_def
      wf_registry_def objects_of_def signals_apart_def code_ok_def programs_ok_def demo_code_object_def symbols_alive_def)

theorem signal_outlives_region_witness:
  "\<forall>H code hash. \<exists>s1 s2 e. hsa_shut_down H code signalling_process = Some (Inr (HSA_STATUS_SUCCESS, s1)) \<and>
    hsa_init hash s1 = Inr (HSA_STATUS_SUCCESS, s2) \<and> hsa_signal_destroy s2 0x808 = Inl e"
proof (intro allI)
  fix H :: host and code :: kernel_code and hash :: "string \<Rightarrow> u64"
  let ?s = signalling_process
  have s: "ReferenceCounter ?s = 1" "QueueRegistry ?s = []" "fromHSAObject (SignalRegistry ?s) 0x808 = 0x800"
    "Signals ?s 0x800 = Some \<lparr>CurrentValue = 0x808, SignalMemory = 0x100\<rparr>" "MemoryRegions ?s = [0x100, 0x110]"
    "HostHeap ?s = [0x10, 0x20, 0x30, 0x40, 0x50] @ []"
    by (simp_all add: signalling_process_def running_process_def code_demo_def program_demo_def fromHSAObject_def)
  obtain t where t: "Runtime_delete H code ?s = Some (Inr t)" "ReferenceCounter t = ReferenceCounter ?s"
    using Runtime_delete_ends [OF signalling_process_ready] by blast
  define s1 where "s1 = t\<lparr>Instance := nullptr, Extensions := [], ReferenceCounter := 0\<rparr>"
  have s1: "hsa_shut_down H code ?s = Some (Inr (HSA_STATUS_SUCCESS, s1))"
    using t s(1) by (simp add: s1_def hsa_shut_down_def Runtime_release_def)
  have "HostHeap s1 = [0x10, 0x20, 0x30, 0x40, 0x50] @ []"
    using Runtime_delete_signals [OF t(1) s(2)] s(6) by (simp add: s1_def same_signals_def)
  then obtain s2 where s2: "hsa_init hash s1 = Inr (HSA_STATUS_SUCCESS, s2)"
    using hsa_init_returns [of s1] by (auto simp: s1_def)
  from signal_outlives_region [OF s1 s(1,2) s2 s(3)] s(4-6)
  obtain e where "hsa_signal_destroy s2 0x808 = Inl e" by auto
  with s1 s2 show "\<exists>s1 s2 e. hsa_shut_down H code ?s = Some (Inr (HSA_STATUS_SUCCESS, s1)) \<and>
      hsa_init hash s1 = Inr (HSA_STATUS_SUCCESS, s2) \<and> hsa_signal_destroy s2 0x808 = Inl e" by blast
qed

end
