(* ===== verification/Contract_Claims.thy ===== *)
theory Contract_Claims
  imports Contracts Process_Claims
begin

text \<open>
  The code against its headers: the returned statuses are the documented ones with four exceptions, and calls without
  an initialised runtime are refused by every entry point that looks at the initialisation.
\<close>

section \<open>The statuses, group by group\<close>

lemma system_call_documented:
  "system_call hash e s (Some st) s' \<Longrightarrow> \<not> traverses (System_Entry e) \<Longrightarrow> st \<in> documented_system e"
  by (erule system_call.cases) (auto simp: traverses_def dest: entry_statuses)

lemma memory_call_documented:
  "memory_call e s (Some st) s' \<Longrightarrow> st \<in> documented_memory e \<union> undocumented (Memory_Entry e)"
  by (erule memory_call.cases) (auto simp: undocumented_def hsa_memory_deregister_def retvals_hsa_memory_deregister_def dest: entry_statuses
      intro: entry_status_intros split: if_splits)

lemma signal_call_documented: "signal_api_call e s (Some st) s' \<Longrightarrow> st \<in> documented_signal e"
  by (erule signal_api_call.cases) (auto dest: entry_statuses)

lemma queue_call_documented: "queue_call e s (Some st) s' \<Longrightarrow> st \<in> documented_queue e"
  by (erule queue_call.cases) (auto dest: entry_statuses)

lemma program_call_documented:
  "program_call H e s (Some st) s' \<Longrightarrow> \<not> traverses (Program_Entry e) \<Longrightarrow> st \<in> documented_program e"
  by (erule program_call.cases) (auto simp: traverses_def dest: entry_statuses)

lemma code_call_documented:
  "code_call H e s (Some st) s' \<Longrightarrow> \<not> traverses (Code_Entry e) \<Longrightarrow> st \<in> documented_code e"
  by (erule code_call.cases) (auto simp: traverses_def dest: entry_statuses)

lemma executable_call_documented:
  "executable_call H e s (Some st) s' \<Longrightarrow> \<not> traverses (Executable_Entry e) \<Longrightarrow> st \<in> documented_executable e"
  by (erule executable_call.cases) (auto simp: traverses_def dest: entry_statuses)

lemma image_call_documented: "image_call e s (Some st) s' \<Longrightarrow> st \<in> documented_image e"
  by (erule image_call.cases) (auto dest: entry_statuses intro: entry_status_intros)

lemma amd_call_documented:
  "amd_call e s (Some st) s' \<Longrightarrow> st \<in> documented_amd e \<union> undocumented (Amd_Entry e)"
  by (erule amd_call.cases)
    (auto simp: undocumented_def hsa_amd_interop_unmap_buffer_def dest: entry_statuses intro: entry_status_intros)

lemma hsa_init_documented: "hsa_init hash s = Inr (st, s') \<Longrightarrow> st \<in> retvals_hsa_init"
  by (auto simp: hsa_init_def Runtime_initialize_def retvals_hsa_init_def outcome_simps split: if_splits)

lemma hsa_shut_down_documented: "hsa_shut_down H code s = Some (Inr (st, s')) \<Longrightarrow> st \<in> retvals_hsa_shut_down"
  by (auto simp: hsa_shut_down_def proceed_def retvals_hsa_shut_down_def split: option.splits sum.splits if_splits)

section \<open>Calls before the initialisation\<close>

text \<open>The two queries that look at their arguments first.\<close>

definition checks_arguments_first :: "api_entry \<Rightarrow> bool" where
  "checks_arguments_first e \<longleftrightarrow>
     e = System_Entry E_hsa_system_get_info \<or> e = System_Entry E_hsa_system_get_extension_table"

definition refused :: "api_entry \<Rightarrow> 's \<Rightarrow> hsa_status_t \<Rightarrow> 's \<Rightarrow> bool" where
  "refused e s st s' \<longleftrightarrow> s' = s \<and>
     (st = HSA_STATUS_ERROR_NOT_INITIALIZED \<or> checks_arguments_first e \<and> st = HSA_STATUS_ERROR_INVALID_ARGUMENT)"

lemmas refused_simps = refused_def checks_arguments_first_def unguarded_def outcome_simps Let_def

lemma system_call_refused:
  "system_call hash e s (Some st) s' \<Longrightarrow> \<not> isInitialized s \<Longrightarrow> \<not> unguarded (System_Entry e) \<Longrightarrow>
    refused (System_Entry e) s st s'"
  by (erule system_call.cases)
    (auto simp: refused_simps hsa_status_string_def hsa_isa_get_info_def hsa_system_extension_supported_def
      hsa_system_get_extension_table_def hsa_system_get_info_def hsa_agent_get_info_def
      hsa_iterate_agents_def hsa_agent_iterate_regions_def hsa_agent_get_exception_policies_def
      hsa_agent_extension_supported_def split: if_splits)

lemma memory_call_refused:
  "memory_call e s (Some st) s' \<Longrightarrow> \<not> isInitialized s \<Longrightarrow> \<not> unguarded (Memory_Entry e) \<Longrightarrow>
    refused (Memory_Entry e) s st s'"
  by (erule memory_call.cases)
    (auto simp: refused_simps hsa_memory_allocate_def hsa_memory_free_def hsa_memory_copy_def hsa_memory_register_def
      hsa_memory_deregister_def hsa_region_get_info_def split: if_splits)

lemma signal_call_refused:
  "signal_api_call e s (Some st) s' \<Longrightarrow> \<not> isInitialized s \<Longrightarrow> \<not> unguarded (Signal_Entry e) \<Longrightarrow>
    refused (Signal_Entry e) s st s'"
  by (erule signal_api_call.cases)
    (auto simp: refused_simps hsa_signal_create_def hsa_signal_destroy_def split: if_splits)

lemma queue_call_refused:
  "queue_call e s (Some st) s' \<Longrightarrow> \<not> isInitialized s \<Longrightarrow> \<not> unguarded (Queue_Entry e) \<Longrightarrow>
    refused (Queue_Entry e) s st s'"
  by (erule queue_call.cases)
    (auto simp: refused_simps hsa_queue_create_def hsa_soft_queue_create_def hsa_queue_destroy_def hsa_queue_inactivate_def split: if_splits)

lemma program_call_refused:
  "program_call H e s (Some st) s' \<Longrightarrow> \<not> isInitialized s \<Longrightarrow> \<not> unguarded (Program_Entry e) \<Longrightarrow>
    refused (Program_Entry e) s st s'"
  by (erule program_call.cases)
    (auto simp: refused_simps hsa_ext_program_create_def hsa_ext_program_destroy_def hsa_ext_program_add_module_def
      hsa_ext_program_iterate_modules_def hsa_ext_program_get_info_def hsa_ext_program_finalize_def split: if_splits)

lemma code_call_refused:
  "code_call H e s (Some st) s' \<Longrightarrow> \<not> isInitialized s \<Longrightarrow> \<not> unguarded (Code_Entry e) \<Longrightarrow>
    refused (Code_Entry e) s st s'"
  by (erule code_call.cases)
    (auto simp: refused_simps hsa_code_object_serialize_def hsa_code_object_deserialize_def hsa_code_object_get_info_def
      hsa_code_object_get_symbol_def hsa_code_symbol_get_info_def split: if_splits)

lemma executable_call_refused:
  "executable_call H e s (Some st) s' \<Longrightarrow> \<not> isInitialized s \<Longrightarrow> \<not> unguarded (Executable_Entry e) \<Longrightarrow>
    refused (Executable_Entry e) s st s'"
  by (erule executable_call.cases)
    (auto simp: refused_simps hsa_executable_create_def hsa_executable_destroy_def hsa_executable_load_code_object_def
      hsa_executable_freeze_def hsa_executable_get_info_def
      hsa_executable_global_variable_define_def hsa_executable_agent_global_variable_define_def
      hsa_executable_readonly_variable_define_def hsa_executable_symbol_get_info_def
      hsa_executable_iterate_symbols_def split: if_splits)

lemma amd_call_refused:
  "amd_call e s (Some st) s' \<Longrightarrow> \<not> isInitialized s \<Longrightarrow> \<not> unguarded (Amd_Entry e) \<Longrightarrow>
    refused (Amd_Entry e) s st s'"
  by (erule amd_call.cases)
    (auto simp: refused_simps hsa_amd_memory_pool_allocate_def hsa_amd_memory_pool_free_def hsa_memory_allocate_def
      hsa_memory_free_def split: if_splits)

lemmas calls_documented =
  system_call_documented memory_call_documented signal_call_documented queue_call_documented program_call_documented
  code_call_documented executable_call_documented image_call_documented amd_call_documented

lemmas calls_refused =
  system_call_refused memory_call_refused signal_call_refused queue_call_refused program_call_refused
  code_call_refused executable_call_refused amd_call_refused

section \<open>Properties\<close>

text \<open>
  C31. An entry point returns no status that its comment in the header does not list, whatever the state and the
  arguments, except for the four divergences in \<open>undocumented\<close>; traversals and the serialization may also pass on the
  status of the client's callback. This includes \<open>hsa_init\<close> and \<open>hsa_shut_down\<close>.
\<close>

theorem statuses_documented:
  shows "(api_call H hash e s (Some st) s' \<and> \<not> traverses e \<longrightarrow> st \<in> documented e \<union> undocumented e) \<and>
    (hsa_init hash s = Inr (st, s') \<longrightarrow> st \<in> retvals_hsa_init) \<and>
    (hsa_shut_down H code s = Some (Inr (st, s')) \<longrightarrow> st \<in> retvals_hsa_shut_down)"
proof (intro conjI impI)
  assume "api_call H hash e s (Some st) s' \<and> \<not> traverses e"
  then show "st \<in> documented e \<union> undocumented e" by (cases e) (auto dest: calls_documented)
qed (auto dest: hsa_init_documented hsa_shut_down_documented)

theorem statuses_documented_witness:
  "\<forall>H hash. api_call H hash (Executable_Entry E_hsa_executable_destroy) amd_demo (Some HSA_STATUS_ERROR_INVALID_EXECUTABLE) amd_demo \<and>
    HSA_STATUS_ERROR_INVALID_EXECUTABLE \<in> documented (Executable_Entry E_hsa_executable_destroy)"
proof (intro allI)
  fix H :: host and hash :: "string \<Rightarrow> u64"
  have "hsa_executable_destroy amd_demo 5 = Inr (HSA_STATUS_ERROR_INVALID_EXECUTABLE, amd_demo)"
    by (simp add: hsa_executable_destroy_def amd_demo_def isInitialized_def fromHSAObject_def)
  then have call: "api_call H hash (Executable_Entry E_hsa_executable_destroy) amd_demo
      (Some HSA_STATUS_ERROR_INVALID_EXECUTABLE) amd_demo" by (simp add: executable_call.executable_destroy)
  have "\<not> traverses (Executable_Entry E_hsa_executable_destroy)" "undocumented (Executable_Entry E_hsa_executable_destroy) = {}"
    by (simp_all add: traverses_def undocumented_def)
  with call statuses_documented [THEN conjunct1, rule_format, of H hash "Executable_Entry E_hsa_executable_destroy" amd_demo
      HSA_STATUS_ERROR_INVALID_EXECUTABLE amd_demo]
  show "api_call H hash (Executable_Entry E_hsa_executable_destroy) amd_demo (Some HSA_STATUS_ERROR_INVALID_EXECUTABLE) amd_demo \<and>
      HSA_STATUS_ERROR_INVALID_EXECUTABLE \<in> documented (Executable_Entry E_hsa_executable_destroy)" by simp
qed

text \<open>
  The four divergences are real: while the runtime is initialised, freeing or deregistering the null pointer is an
  invalid argument, although the header promises success or nothing happening, and a memory pool that does not exist
  is reported as an invalid region.
\<close>

theorem undocumented_statuses_returned:
  assumes "isInitialized s" and "fromHSAObject (RegionRegistry s) pool = nullptr" and "out \<noteq> nullptr" and "n \<noteq> 0"
  shows "hsa_memory_free s nullptr = Inr (HSA_STATUS_ERROR_INVALID_ARGUMENT, s) \<and>
    HSA_STATUS_ERROR_INVALID_ARGUMENT \<notin> documented (Memory_Entry E_hsa_memory_free) \<and>
    hsa_memory_deregister s nullptr n = HSA_STATUS_ERROR_INVALID_ARGUMENT \<and>
    HSA_STATUS_ERROR_INVALID_ARGUMENT \<notin> documented (Memory_Entry E_hsa_memory_deregister) \<and>
    hsa_amd_memory_pool_free s nullptr = Inr (HSA_STATUS_ERROR_INVALID_ARGUMENT, s) \<and>
    HSA_STATUS_ERROR_INVALID_ARGUMENT \<notin> documented (Amd_Entry E_hsa_amd_memory_pool_free) \<and>
    hsa_amd_memory_pool_allocate s pool n flags out = Inr (HSA_STATUS_ERROR_INVALID_REGION, None, s) \<and>
    HSA_STATUS_ERROR_INVALID_REGION \<notin> documented (Amd_Entry E_hsa_amd_memory_pool_allocate)"
  using assms
  by (simp add: hsa_memory_free_def hsa_memory_deregister_def hsa_amd_memory_pool_free_def hsa_amd_memory_pool_allocate_def
      hsa_memory_allocate_def retvals_hsa_memory_free_def retvals_hsa_memory_deregister_def
      retvals_hsa_amd_memory_pool_free_def retvals_hsa_amd_memory_pool_allocate_def HSA_STATUS_ERROR_INVALID_MEMORY_POOL_def)

theorem undocumented_statuses_returned_witness:
  "hsa_amd_memory_pool_allocate amd_demo 5 64 0 8 = Inr (HSA_STATUS_ERROR_INVALID_REGION, None, amd_demo) \<and>
    HSA_STATUS_ERROR_INVALID_REGION \<notin> documented (Amd_Entry E_hsa_amd_memory_pool_allocate)"
  using undocumented_statuses_returned [of amd_demo 5 8 64 0]
  by (simp add: amd_demo_def isInitialized_def fromHSAObject_def)

text \<open>
  C32. Before the first initialisation and after the last shut-down every guarded entry point changes nothing and
  returns \<open>HSA_STATUS_ERROR_NOT_INITIALIZED\<close>, or an invalid argument where two queries look at their arguments first.
  The entry points of \<open>unguarded\<close> do not look: the images and most of the AMD extension, and five of the core API that
  document the status.
\<close>

theorem uninitialized_calls_refused:
  assumes "api_call H hash e s (Some st) s'" and "\<not> isInitialized s" and "\<not> unguarded e"
  shows "s' = s \<and> (st = HSA_STATUS_ERROR_NOT_INITIALIZED \<or>
    checks_arguments_first e \<and> st = HSA_STATUS_ERROR_INVALID_ARGUMENT)"
proof -
  have "refused e s st s'"
  proof (cases e)
    case (Image_Entry i)
    with assms(3) show ?thesis by (simp add: unguarded_def)
  qed (use assms in \<open>auto dest: calls_refused\<close>)
  then show ?thesis by (simp add: refused_def)
qed

theorem uninitialized_calls_refused_witness:
  "\<forall>H hash. \<exists>st. api_call H hash (Queue_Entry E_hsa_queue_destroy) new_process (Some st) new_process \<and>
    st = HSA_STATUS_ERROR_NOT_INITIALIZED"
proof (intro allI)
  fix H :: host and hash :: "string \<Rightarrow> u64"
  have un: "\<not> isInitialized new_process" by (simp add: new_process_def isInitialized_def)
  then obtain st where "hsa_queue_destroy new_process 64 = Inr (st, new_process)"
    by (simp add: hsa_queue_destroy_def)
  then have call: "api_call H hash (Queue_Entry E_hsa_queue_destroy) new_process (Some st) new_process"
    by (simp add: queue_call.queue_destroy)
  from uninitialized_calls_refused [OF call un]
  have "st = HSA_STATUS_ERROR_NOT_INITIALIZED" by (simp add: unguarded_def checks_arguments_first_def)
  with call show "\<exists>st. api_call H hash (Queue_Entry E_hsa_queue_destroy) new_process (Some st) new_process \<and>
      st = HSA_STATUS_ERROR_NOT_INITIALIZED" by blast
qed

end
