(* ===== verification/Call_Safety.thy ===== *)
theory Call_Safety
  imports Process_Claims
begin

text \<open>
  Which calls return. After any history the calls that look a handle up and check the result return for every handle,
  and the calls that dereference without a check return exactly for the handles of live objects.
\<close>

section \<open>Returning\<close>

fun returns :: "'a outcome \<Rightarrow> bool" where
  "returns (Inl e) = False"
| "returns (Inr a) = True"

lemma returns_and_then [simp]: "returns (and_then m f) \<longleftrightarrow> (case m of Inl e \<Rightarrow> False | Inr a \<Rightarrow> returns (f a))"
  by (cases m) simp_all

lemma returns_iff: "returns m \<longleftrightarrow> (\<exists>a. m = Inr a)"
  by (cases m) simp_all

text \<open>What a sound directory finds can be dereferenced.\<close>

lemma deref_found:
  assumes "directory R objects H" and "fromHSAObject R h \<noteq> nullptr"
  obtains x where "objects (fromHSAObject R h) = Some x" "deref objects (fromHSAObject R h) = Inr x"
  using directory_find [OF assms] assms(2) that by (auto simp: deref_Some)

lemma typed_directories:
  assumes "typed s"
  shows "directory (RegionRegistry s) (CPURegions s) (HostHeap s)" "directory (SignalRegistry s) (Signals s) (HostHeap s)"
    "directory (AgentRegistry s) (KernelAgents s) (HostHeap s)" "directory (ProgramRegistry s) (HSAILPrograms s) (HostHeap s)"
    "directory (CodeRegistry s) (FinalizedPrograms s) (HostHeap s)" "directory (ExecutableRegistry s) (Executables s) (HostHeap s)"
    "directory (SymbolRegistry s) (SymbolObjects s) (HostHeap s)"
  using assms by (simp_all add: typed_def)

section \<open>Queries and updates through checked handles\<close>

lemma region_info_returns: "typed s \<Longrightarrow> returns (hsa_region_get_info s h a out)" for s :: "'m program_state_scheme"
  by (cases "fromHSAObject (RegionRegistry s) h = nullptr")
    (auto simp: hsa_region_get_info_def elim: deref_found [OF typed_directories(1)])

lemma allocate_returns:
  assumes "CPURegions s r = Some R" and "r \<noteq> nullptr"
  shows "returns (CPUMemoryRegion_allocate r s n a)"
  using assms by (auto simp: CPUMemoryRegion_allocate_def deref_Some split: prod.splits option.splits)

lemma memory_allocate_returns: "typed s \<Longrightarrow> returns (hsa_memory_allocate s h n out)" for s :: "'m program_state_scheme"
  by (cases "fromHSAObject (RegionRegistry s) h = nullptr")
    (auto simp: hsa_memory_allocate_def Let_def elim!: deref_found [OF typed_directories(1)]
      dest!: allocate_returns [where n = n and a = 128] split: sum.splits)

lemma iterate_regions_returns: "typed s \<Longrightarrow> returns (hsa_agent_iterate_regions s h f d)" for s :: "'m program_state_scheme"
  by (cases "fromHSAObject (AgentRegistry s) h = nullptr"; cases f)
    (auto simp: hsa_agent_iterate_regions_def elim: deref_found [OF typed_directories(3)])

lemma agent_info_returns:
  fixes s :: "'m program_state_scheme"
  assumes "typed s"
  shows "returns (hsa_agent_get_info hash FE_TONEAREST s h a out)"
proof (cases "fromHSAObject (AgentRegistry s) h = nullptr")
  case True
  then show ?thesis by (simp add: hsa_agent_get_info_def)
next
  case False
  obtain A where A: "deref (KernelAgents s) (fromHSAObject (AgentRegistry s) h) = Inr A"
    by (rule deref_found [OF typed_directories(3) [OF assms] False])
  have "\<exists>w. agent_attribute hash FE_TONEAREST A a = Inr w"
    by (cases a) (simp_all add: agent_attribute_def getGridMaxDim_def)
  with A show ?thesis by (auto simp: hsa_agent_get_info_def Let_def split: option.split)
qed

lemma program_info_returns: "typed s \<Longrightarrow> returns (hsa_ext_program_get_info s h a out)"
  by (cases "fromHSAObject (ProgramRegistry s) h = nullptr")
    (auto simp: hsa_ext_program_get_info_def elim: deref_found [OF typed_directories(4)])

lemma executable_calls_return:
  assumes "typed s"
  shows "returns (hsa_executable_get_info s h a out) \<and> returns (hsa_executable_freeze s h o') \<and>
    returns (hsa_executable_global_variable_define s h n x) \<and> returns (hsa_executable_agent_global_variable_define s h g n x) \<and>
    returns (hsa_executable_readonly_variable_define s h g n x) \<and> returns (hsa_executable_destroy s h)"
proof -
  let ?E = "fromHSAObject (ExecutableRegistry s) h"
  consider "?E = nullptr" | E where "?E \<noteq> nullptr" "deref (Executables s) ?E = Inr E"
    using deref_found [OF typed_directories(6) [OF assms]] by metis
  then show ?thesis
    by cases (simp_all add: hsa_executable_get_info_def hsa_executable_freeze_def hsa_executable_global_variable_define_def
        hsa_executable_agent_global_variable_define_def hsa_executable_readonly_variable_define_def
        hsa_executable_destroy_def update_executable_def ELFExecutable_delete_def Let_def split: option.split)
qed

lemma program_destroy_returns:
  assumes "typed s"
  shows "returns (hsa_ext_program_destroy H s h)"
proof (cases "fromHSAObject (ProgramRegistry s) h = nullptr")
  case False
  obtain P where "HSAILPrograms s (fromHSAObject (ProgramRegistry s) h) = Some P"
    by (rule deref_found [OF typed_directories(4) [OF assms] False])
  moreover obtain b d where "IsDebugMode H s = (b, s\<lparr>DebugMode := d\<rparr>)" by (rule IsDebugMode_cases)
  ultimately show ?thesis using False
    by (cases b) (simp_all add: hsa_ext_program_destroy_def HSAILProgram_delete_def deref_Some Let_def)
qed (simp add: hsa_ext_program_destroy_def)

lemma code_destroy_returns:
  assumes "typed s"
  shows "returns (hsa_code_object_destroy H s h)"
proof (cases "fromHSAObject (CodeRegistry s) h = nullptr")
  case False
  obtain P where "FinalizedPrograms s (fromHSAObject (CodeRegistry s) h) = Some P"
    by (rule deref_found [OF typed_directories(5) [OF assms] False])
  with assms show ?thesis using False
    by (rule_tac DLFinalizedProgram_delete_eq [of s "fromHSAObject (CodeRegistry s) h" P H])
      (simp_all add: hsa_code_object_destroy_def)
qed (simp add: hsa_code_object_destroy_def DLFinalizedProgram_delete_def)

text \<open>The symbols that a code object owns can be searched.\<close>

lemma find_symbol_returns:
  "set Is \<subseteq> dom (SymbolObjects s) \<Longrightarrow> nullptr \<notin> dom (SymbolObjects s) \<Longrightarrow> returns (find_symbol_named n Is s)"
proof (induction Is)
  case (Cons I Is)
  then have "I \<noteq> nullptr" "I \<in> dom (SymbolObjects s)" by auto
  then obtain S where "deref (SymbolObjects s) I = Inr S" by (auto simp: deref_Some)
  with Cons show ?case by simp
qed simp

lemma replace_colons_Cons: "replace_colons (c # cs) \<noteq> []"
  by (cases cs) auto

lemma code_symbol_lookups_return:
  assumes "typed s"
  shows "returns (hsa_code_object_get_symbol s h (Some (c # cs)) out)"
    and "returns (hsa_code_object_iterate_symbols s h (Some f) d)"
proof -
  have "returns (hsa_code_object_get_symbol s h (Some (c # cs)) out) \<and> returns (hsa_code_object_iterate_symbols s h (Some f) d)"
  proof (cases "fromHSAObject (CodeRegistry s) h = nullptr")
    case True
    then show ?thesis by (simp add: hsa_code_object_get_symbol_def hsa_code_object_iterate_symbols_def)
  next
    case False
    obtain P where P: "FinalizedPrograms s (fromHSAObject (CodeRegistry s) h) = Some P"
      "deref (FinalizedPrograms s) (fromHSAObject (CodeRegistry s) h) = Inr P"
      by (rule deref_found [OF typed_directories(5) [OF assms] False])
    have "set (ProgSymbols P) \<subseteq> dom (SymbolObjects s)" "nullptr \<notin> dom (SymbolObjects s)"
      using symbols_ownedD(2) [of "FinalizedPrograms s" "SymbolObjects s" _ P] P(1) assms
        directoryD(5) [OF typed_directories(7) [OF assms]] unfolding typed_def by blast+
    then have "returns (find_symbol_named n (ProgSymbols P) s)" for n by (rule find_symbol_returns)
    then have "returns (findSymbol (c # cs) P s)"
      using replace_colons_Cons [of c cs] by (auto simp: findSymbol_def actual_symbol_name_def Let_def split: list.split)
    then obtain S where "findSymbol (c # cs) P s = Inr S" by (auto simp: returns_iff)
    with P(2) show ?thesis
      by (simp add: hsa_code_object_get_symbol_def hsa_code_object_iterate_symbols_def Let_def)
  qed
  then show "returns (hsa_code_object_get_symbol s h (Some (c # cs)) out)"
    "returns (hsa_code_object_iterate_symbols s h (Some f) d)" by simp_all
qed

section \<open>Calls through unchecked handles\<close>

lemma signal_entry_returns:
  fixes s :: "'m program_state_scheme"
  assumes "typed s" and "Instance s \<noteq> nullptr" and "has_entry f MO"
  shows "returns (the (signal_entry f MO h s)) \<longleftrightarrow> fromHSAObject (SignalRegistry s) h \<noteq> nullptr"
proof (cases "fromHSAObject (SignalRegistry s) h = nullptr")
  case True
  then show ?thesis using assms(3)
    by (cases f; cases MO) (simp_all add: has_entry_def signal_entry_defs by_order_def reads_value_def old_value_def
        no_value_def gcc_rmw_defs GCCBuiltinSignal_load_def GCCBuiltinSignal_store_def signal_cell_def
        GCCBuiltinSignal_compareExchange_def)
next
  case False
  let ?p = "fromHSAObject (SignalRegistry s) h"
  obtain S where S: "Signals s ?p = Some S" "deref (Signals s) ?p = Inr S"
    by (rule deref_found [OF typed_directories(2) [OF assms(1)] False])
  then obtain v where v: "CurrentValue S \<noteq> nullptr" "SignalValues s (CurrentValue S) = Some v"
    using assms(1) by (auto simp: typed_def signals_valued_def)
  then have cell: "signal_cell s ?p = Inr (CurrentValue S, v)" using S(2) by (simp add: signal_cell_def deref_Some)
  show ?thesis
    using assms(2,3) False S(2) cell
    by (cases f; cases MO) (simp_all add: has_entry_def signal_entry_defs by_order_def reads_value_def old_value_def
        no_value_def gcc_rmw_defs GCCBuiltinSignal_load_def GCCBuiltinSignal_store_def loadAcquire_def
        loadRelaxed_def storeRelaxed_def storeRelease_def Runtime_memoryFence_def Runtime_flush_def Runtime_get_Inr
        CompareExchange_observed atomic_defs GCCBuiltinSignal_compareExchange_def)
qed

lemma index_step_returns:
  fixes s :: "'m program_state_scheme"
  assumes "typed s" and "has_index_entry f MO"
  shows "returns (index_step (Index_Call f MO q) s) \<longleftrightarrow> q \<noteq> nullptr \<and> q \<in> dom (Queues s)"
proof
  assume "returns (index_step (Index_Call f MO q) s)"
  then obtain r s' where "index_step (Index_Call f MO q) s = Inr (r, s')" by (auto simp: returns_iff)
  from index_step_was_ready [OF this] show "q \<noteq> nullptr \<and> q \<in> dom (Queues s)"
    by (auto simp: index_call_ready_def index_map_def split: if_splits)
next
  assume "q \<noteq> nullptr \<and> q \<in> dom (Queues s)"
  then obtain Q where Q: "q \<noteq> nullptr" "Queues s q = Some Q" by auto
  have "queues_named s" using assms(1) by (simp add: typed_def)
  from index_step_live [OF this Q assms(2)] show "returns (index_step (Index_Call f MO q) s)"
    by (simp only: returns.simps)
qed

lemma queue_destroy_returns:
  fixes s :: "'m program_state_scheme"
  assumes "typed s" and "isInitialized s"
  shows "returns (hsa_queue_destroy s q) \<longleftrightarrow> q = nullptr \<or> q \<in> dom (Queues s)"
proof (cases "q = nullptr \<or> Queues s q = None")
  case True
  then show ?thesis using assms(2) by (auto simp: hsa_queue_destroy_def FindQueue_def deref_def)
next
  case False
  then obtain Q where Q: "Queues s q = Some Q" "queue_id (HSAQueue Q) = q"
    using assms(1) by (auto simp: typed_def queues_named_def)
  with False show ?thesis by (auto simp: hsa_queue_destroy_def FindQueue_def deref_Some update_queue_def)
qed

lemma returns_deref: "returns (deref objects p) \<longleftrightarrow> p \<noteq> nullptr \<and> p \<in> dom objects"
  by (auto simp: deref_def split: option.split)

lemma executable_lookups_fault:
  assumes "typed s" and "isInitialized s" and "out \<noteq> nullptr"
  shows "returns (hsa_executable_iterate_symbols s h (Some f) d) \<longleftrightarrow> fromHSAObject (ExecutableRegistry s) h \<noteq> nullptr"
    and "returns (hsa_executable_get_symbol s h m (Some (c # cs)) g cc out) \<longleftrightarrow> fromHSAObject (ExecutableRegistry s) h \<noteq> nullptr"
  using assms
  by (cases "fromHSAObject (ExecutableRegistry s) h = nullptr";
      auto simp: hsa_executable_iterate_symbols_def hsa_executable_get_symbol_def Let_def
      elim!: deref_found [OF typed_directories(6)])+

lemma module_iteration_faults:
  assumes "typed s" and "isInitialized s"
  shows "returns (hsa_ext_program_iterate_modules s h (Some f) d) \<longleftrightarrow> fromHSAObject (ProgramRegistry s) h \<noteq> nullptr"
  using assms
  by (cases "fromHSAObject (ProgramRegistry s) h = nullptr")
    (auto simp: hsa_ext_program_iterate_modules_def elim!: deref_found [OF typed_directories(4)])

lemma code_info_faults:
  assumes "typed s" and "isInitialized s" and "out \<noteq> nullptr"
  shows "returns (hsa_code_object_get_info s h HSA_CODE_OBJECT_INFO_PROFILE out) \<longleftrightarrow>
    fromHSAObject (CodeRegistry s) h \<noteq> nullptr"
  using assms
  by (cases "fromHSAObject (CodeRegistry s) h = nullptr")
    (auto simp: hsa_code_object_get_info_def code_object_attribute_def elim!: deref_found [OF typed_directories(5)])

lemma symbol_name_faults:
  assumes "isInitialized s" and "out \<noteq> nullptr"
  shows "returns (hsa_code_symbol_get_info s h HSA_CODE_SYMBOL_INFO_NAME out) \<longleftrightarrow> h = 0 \<or> h \<in> dom (SymbolObjects s)"
  using assms by (auto simp: hsa_code_symbol_get_info_def deref_def code_symbol_attribute_def Let_def split: option.splits)

section \<open>Properties\<close>


text \<open>A process that has been initialised, and has created an executable in the last address of its host.\<close>

lemma example_history:
  fixes H :: host and code :: kernel_code and hash :: "string \<Rightarrow> u64"
  obtains s1 s2 where "hsa_init hash new_process = Inr (HSA_STATUS_SUCCESS, s1)"
    "hsa_executable_create s1 HSA_PROFILE_BASE HSA_EXECUTABLE_STATE_UNFROZEN None 8 = Inr (HSA_STATUS_SUCCESS, Some 0x60, s2)"
    "isInitialized s2" "ExecutableRegistry s2 = [(0x60, 0x60)]" "history H code hash new_process s2"
proof -
  obtain s1 where s1: "hsa_init hash new_process = Inr (HSA_STATUS_SUCCESS, s1)" "isInitialized s1" "HostHeap s1 = [0x60]"
    using new_process_init by blast
  have "ExecutableRegistry s1 = []"
    using s1(1) by (auto simp: hsa_init_def Runtime_initialize_def CPURuntime_new_def new_process_def amd_demo_def
        operator_new_def host_malloc_def CPUMemoryRegion_new_def CPUKernelAgent_new_def GCCFinalizer_new_def update_agent_def
        deref_Some Runtime_registerAgent_def Runtime_registerMemoryRegion_def registerISA_def registerExtension_def Let_def)
  with s1(2,3) obtain s2 where s2: "hsa_executable_create s1 HSA_PROFILE_BASE HSA_EXECUTABLE_STATE_UNFROZEN None 8 =
      Inr (HSA_STATUS_SUCCESS, Some 0x60, s2)" "isInitialized s2" "ExecutableRegistry s2 = [(0x60, 0x60)]"
    by (simp add: hsa_executable_create_def ELFExecutable_new_def operator_new_def host_malloc_def isInitialized_def
        registerObject_def)
  have "process_step H code hash new_process s1" using s1(1) by (rule process_step.initialise)
  moreover have "process_step H code hash s1 s2"
    using s2(1)
    by (intro process_step.call [of H hash "Executable_Entry E_hsa_executable_create"])
      (simp, rule executable_call.executable_create)
  ultimately have "history H code hash new_process s2" using history.start history.step by blast
  with s1(1) s2 that show thesis by blast
qed




end
