(* ===== verification/Shutdown_Claims.thy ===== *)
theory Shutdown_Claims
  imports Process_Claims
begin

text \<open>
  The last shut-down of any history: the registered agents and regions are those that the runtime has built and
  deletes, so together with the typing of the process every state that can be reached is ready for the destruction.
\<close>

section \<open>The platform and its registries\<close>

definition platform_registered :: "'m program_state_scheme \<Rightarrow> bool" where
  "platform_registered s \<longleftrightarrow>
     distinct (RtAgents s) \<and> set (RtAgents s) = objects_of (AgentRegistry s) \<and>
     distinct (MemoryRegions s) \<and> set (MemoryRegions s) = objects_of (RegionRegistry s) \<and>
     (ReferenceCounter s = 0 \<longrightarrow> AgentRegistry s = [] \<and> RegionRegistry s = [])"

lemma plain_directory:
  assumes "plain R" and "directory R objects H"
  shows "wf_registry R" and "objects_of R \<subseteq> dom objects" and "nullptr \<notin> objects_of R"
proof -
  have objs: "nullptr \<notin> set (map snd R)" using assms(1) by (auto simp: plain_def)
  then have "filter (\<lambda>p. p \<noteq> nullptr) (map snd R) = map snd R" by (intro filter_True) metis
  then have "distinct (map snd R)" using directoryD(2) [OF assms(2)] by simp
  then show "wf_registry R" using directoryD(1) [OF assms(2)] objs by (simp add: wf_registry_def)
  show "nullptr \<notin> objects_of R" using objs by (simp add: objects_of_def)
  show "objects_of R \<subseteq> dom objects"
    using directoryD(3) [OF assms(2)] assms(1) by (fastforce simp: objects_of_def plain_def)
qed

lemma registered_alive:
  assumes "plain R" and "directory R objects H" and "distinct ps" and "set ps = objects_of R"
  shows "all_alive objects ps"
  using plain_directory(2,3) [OF assms(1,2)] assms(3,4) by (simp add: all_alive_def)

lemma typed_queue_alive:
  assumes "typed s" and "q \<in> objects_of (QueueRegistry s)"
  shows "queue_alive s q"
proof -
  have t: "plain (QueueRegistry s)" "directory (QueueRegistry s) (Queues s) (HostHeap s)"
    "queues_housed (QueueRegistry s) (Queues s) (SignalRegistry s) (Signals s) (CPURegions s)"
    using assms(1) by (simp_all add: typed_def)
  have q: "q \<noteq> nullptr" "q \<in> dom (Queues s)" using plain_directory(2,3) [OF t(1,2)] assms(2) by auto
  then obtain Q where "Queues s q = Some Q" by blast
  moreover obtain h where "(h, q) \<in> set (QueueRegistry s)" using assms(2) by (auto simp: objects_of_def)
  ultimately show ?thesis using q(1) queues_housedD [OF t(3)] by (auto simp: queue_alive_def)
qed

lemma typed_code_ok:
  assumes "typed s"
  shows "code_ok s"
proof -
  have t: "plain (CodeRegistry s)" "directory (CodeRegistry s) (FinalizedPrograms s) (HostHeap s)"
    "symbols_owned (FinalizedPrograms s) (SymbolObjects s)" "nullptr \<notin> dom (SymbolObjects s)"
    using assms directoryD(5) by (auto simp: typed_def)
  note code = plain_directory [OF t(1,2)]
  have "\<exists>P. FinalizedPrograms s p = Some P \<and> symbols_alive s (ProgSymbols P)" if p: "p \<in> objects_of (CodeRegistry s)" for p
  proof -
    obtain P where "FinalizedPrograms s p = Some P" using code(2) p by blast
    with symbols_ownedD(1,2) [OF t(3) this] t(4) show ?thesis by (auto simp: symbols_alive_def)
  qed
  moreover have "\<forall>e \<in> set (CodeRegistry s). fst e = snd e" using t(1) by (auto simp: plain_def)
  ultimately show ?thesis using code(1) symbols_ownedD(3) [OF t(3)] unfolding code_ok_def by blast
qed

lemma typed_shutdown_ready:
  assumes "typed s" and "platform_registered s"
  shows "shutdown_ready s"
proof -
  note t = assms(1) [unfolded typed_def] and p = assms(2) [unfolded platform_registered_def]
  have "all_alive (KernelAgents s) (RtAgents s)" "all_alive (CPURegions s) (MemoryRegions s)"
    using t p registered_alive by blast+
  moreover have "wf_registry (AgentRegistry s)" "wf_registry (QueueRegistry s)" "wf_registry (RegionRegistry s)"
    "wf_registry (ProgramRegistry s)" "objects_of (ProgramRegistry s) \<subseteq> dom (HSAILPrograms s)"
    using t plain_directory(1,2) by blast+
  moreover have "signals_apart s" using t directoryD(2) unfolding signals_apart_def by blast
  ultimately show ?thesis
    using p typed_queue_alive [OF assms(1)] typed_code_ok [OF assms(1)] by (simp add: shutdown_ready_def programs_ok_def)
qed

section \<open>Histories keep the platform registered\<close>

lemma region_new_Inr:
  assumes "CPUMemoryRegion_new seg s = Inr (p, s')"
  obtains H where "HostHeap s = p # H" "p \<noteq> nullptr" "HostHeap s' = H"
    "RegionRegistry s' = registerObject (RegionRegistry s) p p" "AgentRegistry s' = AgentRegistry s"
    "RtAgents s' = RtAgents s" "MemoryRegions s' = MemoryRegions s"
  using assms by (auto simp: CPUMemoryRegion_new_def outcome_simps elim!: operator_new_Inr)

lemma agent_new_Inr:
  assumes "CPUKernelAgent_new hash r s = Inr (p, s')"
  obtains H where "HostHeap s = p # H" "HostHeap s' = H"
    "AgentRegistry s' = registerObject (AgentRegistry s) p p" "RegionRegistry s' = RegionRegistry s"
    "RtAgents s' = RtAgents s" "MemoryRegions s' = MemoryRegions s"
  using assms by (auto simp: CPUKernelAgent_new_def registerISA_def Let_def outcome_simps elim!: operator_new_Inr)

lemma update_agent_platform:
  "update_agent p f s = Inr s' \<Longrightarrow> HostHeap s' = HostHeap s \<and> AgentRegistry s' = AgentRegistry s \<and>
    RegionRegistry s' = RegionRegistry s \<and> RtAgents s' = RtAgents s \<and> MemoryRegions s' = MemoryRegions s"
  by (auto simp: update_agent_def outcome_simps)

text \<open>The constructor registers one agent and two regions, and the runtime records them in the same order.\<close>

lemma CPURuntime_new_platform:
  fixes s :: "'m program_state_scheme"
  assumes "CPURuntime_new hash s = Inr (R, s')" and "distinct (filter (\<lambda>p. p \<noteq> nullptr) (HostHeap s))"
    and "AgentRegistry s = []" and "RegionRegistry s = []"
  obtains A G L where "G \<noteq> L" "AgentRegistry s' = [(A, A)]" "RtAgents s' = [A]"
    "RegionRegistry s' = [(G, G), (L, L)]" "MemoryRegions s' = [G, L]"
  using assms(1)
proof (rule CPURuntime_new_Inr)
  fix s0 s1 s2 s3 s4 s5 s6 s9 :: "'m program_state_scheme" and G A L n F
  let ?t = "s0\<lparr>RtAgents := [], Extensions := [], MemoryRegions := []\<rparr>"
    and ?u = "Runtime_registerAgent A (Runtime_registerMemoryRegion L (Runtime_registerMemoryRegion G s6))"
  assume steps: "operator_new s = Inr (R, s0)" "CPUMemoryRegion_new HSA_REGION_SEGMENT_GLOBAL ?t = Inr (G, s1)"
    "CPUKernelAgent_new hash G s1 = Inr (A, s2)" "update_agent A (Agent_registerMemoryRegion G) s2 = Inr s3"
    "CPUMemoryRegion_new HSA_REGION_SEGMENT_GROUP s3 = Inr (L, s4)"
    "update_agent A (Agent_registerMemoryRegion L) s4 = Inr s5" "update_agent A (setGroupMemoryRegion L) s5 = Inr s6"
    "operator_new ?u = Inr (n, s9)" "s' = registerExtension HSA_EXTENSION_FINALIZER F s9"
  from steps(1) obtain H0 where s0: "HostHeap s = R # H0" "s0 = s\<lparr>HostHeap := H0\<rparr>" by (rule operator_new_Inr)
  from steps(8) obtain H9 where s9: "s9 = ?u\<lparr>HostHeap := H9\<rparr>" by (rule operator_new_Inr)
  from steps(2) obtain H1 where s1: "HostHeap ?t = G # H1" "G \<noteq> nullptr" "HostHeap s1 = H1"
    "RegionRegistry s1 = registerObject (RegionRegistry ?t) G G" "AgentRegistry s1 = AgentRegistry ?t"
    "RtAgents s1 = RtAgents ?t" "MemoryRegions s1 = MemoryRegions ?t" by (rule region_new_Inr)
  from steps(3) obtain H2 where s2: "HostHeap s1 = A # H2" "HostHeap s2 = H2"
    "AgentRegistry s2 = registerObject (AgentRegistry s1) A A" "RegionRegistry s2 = RegionRegistry s1"
    "RtAgents s2 = RtAgents s1" "MemoryRegions s2 = MemoryRegions s1" by (rule agent_new_Inr)
  note s3 = update_agent_platform [OF steps(4)]
  from steps(5) obtain H4 where s4: "HostHeap s3 = L # H4" "L \<noteq> nullptr" "HostHeap s4 = H4"
    "RegionRegistry s4 = registerObject (RegionRegistry s3) L L" "AgentRegistry s4 = AgentRegistry s3"
    "RtAgents s4 = RtAgents s3" "MemoryRegions s4 = MemoryRegions s3" by (rule region_new_Inr)
  note s6 = update_agent_platform [OF steps(6)] update_agent_platform [OF steps(7)]
  have "HostHeap s = [R, G, A, L] @ H4" using s0 s1(1,3) s2(1,2) s3 s4(1) by simp
  then have "G \<noteq> L" using assms(2) s4(2) by (auto split: if_splits)
  then show thesis
    using assms(3,4) s0 s1 s2 s3 s4 s6
    by (intro that [of G L A])
      (simp_all add: steps(9) s9 registerExtension_def Runtime_registerAgent_def Runtime_registerMemoryRegion_def registerObject_def)
qed

lemma hsa_init_platform:
  fixes s :: "'m program_state_scheme"
  assumes "hsa_init hash s = Inr (st, s')" and "typed s" and "counter_inv s" and "platform_registered s"
  shows "platform_registered s'"
proof (cases "ReferenceCounter s = 0")
  case True
  with assms(1) obtain R u where u: "CPURuntime_new hash s = Inr (R, u)"
    "s' = u\<lparr>Instance := R, ReferenceCounter := ReferenceCounter u + 1\<rparr>"
    by (auto simp: hsa_init_def Runtime_initialize_def outcome_simps)
  have empty: "distinct (filter (\<lambda>p. p \<noteq> nullptr) (HostHeap s))" "AgentRegistry s = []" "RegionRegistry s = []"
    using True assms(2,4) by (simp_all add: typed_def platform_registered_def)
  have "ReferenceCounter s' = 1" using CPURuntime_new_counter [OF u(1)] True u(2) by simp
  moreover obtain A G L where "G \<noteq> L" "AgentRegistry u = [(A, A)]" "RtAgents u = [A]"
    "RegionRegistry u = [(G, G), (L, L)]" "MemoryRegions u = [G, L]"
    using u(1) empty by (rule CPURuntime_new_platform)
  ultimately show ?thesis using u(2) by (simp add: platform_registered_def objects_of_def)
next
  case False
  with assms(1) have "s' = s \<or> s' = s\<lparr>ReferenceCounter := ReferenceCounter s + 1\<rparr> \<and> ReferenceCounter s \<noteq> 0x7FFFFFFF"
    by (auto simp: hsa_init_def Runtime_initialize_def split: if_splits)
  then show ?thesis using assms(3,4) counter_up(2) by (auto simp: platform_registered_def counter_inv_def)
qed

text \<open>
  A shut-down always returns. The last one leaves nothing of the collected classes behind; the executables are not
  collected.
\<close>

lemma hsa_shut_down_returns:
  assumes "typed s" and "platform_registered s"
  obtains "ReferenceCounter s = 0" "hsa_shut_down H code s = Some (Inr (HSA_STATUS_ERROR_NOT_INITIALIZED, s))"
    | s' where "ReferenceCounter s = 1" "hsa_shut_down H code s = Some (Inr (HSA_STATUS_SUCCESS, s'))"
      "ReferenceCounter s' = 0" "Instance s' = nullptr" "no_handles s'"
      "ExecutableRegistry s' = ExecutableRegistry s" "Executables s' = Executables s"
    | "ReferenceCounter s \<notin> {0, 1}"
      "hsa_shut_down H code s = Some (Inr (HSA_STATUS_SUCCESS, s\<lparr>ReferenceCounter := ReferenceCounter s - 1\<rparr>))"
proof -
  consider "ReferenceCounter s = 0" | "ReferenceCounter s = 1" | "ReferenceCounter s \<notin> {0, 1}" by blast
  then show thesis
  proof cases
    case 1
    then show thesis using that(1) by (simp add: hsa_shut_down_def Runtime_release_def)
  next
    case 2
    from last_shut_down_releases [OF typed_shutdown_ready [OF assms] 2, of H code] obtain s' where
      "hsa_shut_down H code s = Some (Inr (HSA_STATUS_SUCCESS, s'))" "ReferenceCounter s' = 0" "Instance s' = nullptr"
      "no_handles s'" "ExecutableRegistry s' = ExecutableRegistry s" "Executables s' = Executables s" by blast
    with 2 show thesis by (rule that(2))
  next
    case 3
    then show thesis using that(3) by (simp add: hsa_shut_down_def Runtime_release_def)
  qed
qed

lemma hsa_shut_down_platform:
  assumes "hsa_shut_down H code s = Some (Inr (st, s'))" and "typed s" and "platform_registered s"
  shows "platform_registered s'"
  using hsa_shut_down_returns [OF assms(2,3), of H code] assms(1,3)
  by cases (auto simp: platform_registered_def no_handles_def)

lemma process_step_platform:
  assumes "process_step H code hash s s'" and "typed s" and "counter_inv s" and "platform_registered s"
  shows "platform_registered s'"
  using process_step_outcome [OF assms(1)]
proof (elim disjE exE)
  show "platform_registered s'" if "keeps s s'" using that assms(4) by (simp add: keeps_def platform_registered_def)
qed (use assms(2-4) in \<open>blast intro: hsa_init_platform hsa_shut_down_platform\<close>)+

lemma history_platform:
  "history H code hash s s' \<Longrightarrow> typed s \<Longrightarrow> counter_inv s \<Longrightarrow> platform_registered s \<Longrightarrow> platform_registered s'"
  by (induction rule: history.induct) (blast intro: process_step_platform history_typed history_counter)+

text \<open>A turn never waits for the interruption signal: between the calls no agent is being interrupted.\<close>

lemma typed_turn_proceeds:
  assumes "typed s"
  shows "queue_turn code a q s \<noteq> Inr (Spins s')"
proof
  assume "queue_turn code a q s = Inr (Spins s')"
  then obtain A where "KernelAgents s a = Some A" "InterruptingTheQueue A"
    by (auto simp: queue_turn_def update_agent_def outcome_simps split: if_splits)
  with assms typed_uninterrupted show False by blast
qed

section \<open>Property\<close>

text \<open>A process before its first initialisation: no agent and no region is registered.\<close>

definition before_runtime :: "'m program_state_scheme \<Rightarrow> bool" where
  "before_runtime s \<longleftrightarrow> ReferenceCounter s = 0 \<and> Instance s = nullptr \<and> RtAgents s = [] \<and> MemoryRegions s = [] \<and>
     AgentRegistry s = [] \<and> RegionRegistry s = []"

lemma before_runtime_invariants: "before_runtime s \<Longrightarrow> counter_inv s \<and> platform_registered s"
  by (simp add: before_runtime_def counter_inv_def platform_registered_def)

lemma new_process_before: "before_runtime new_process"
  by (simp add: before_runtime_def new_process_def amd_demo_def)


text \<open>A process that initialises the runtime, creates a program, leaves it behind and shuts the runtime down.\<close>

lemma new_process_program:
  "\<exists>s1 s2. hsa_init hash new_process = Inr (HSA_STATUS_SUCCESS, s1) \<and>
    hsa_ext_program_create s1 HSA_MACHINE_MODEL_LARGE HSA_PROFILE_FULL HSA_DEFAULT_FLOAT_ROUNDING_MODE_NEAR None 8 =
      Inr (HSA_STATUS_SUCCESS, Some 0x60, s2) \<and> HSAILPrograms s2 0x60 \<noteq> None \<and> ReferenceCounter s2 = 1"
  by (simp add: hsa_init_def Runtime_initialize_def new_process_def amd_demo_def CPURuntime_new_def isInitialized_def
      operator_new_def host_malloc_def CPUMemoryRegion_new_def CPUKernelAgent_new_def GCCFinalizer_new_def update_agent_def
      deref_Some Runtime_registerAgent_def Runtime_registerMemoryRegion_def registerISA_def registerExtension_def Let_def
      hsa_ext_program_create_def with_finalizer_def getFinalizer_def Runtime_get_def Finalizer_createProgram_def
      HSAILProgram_new_def)


end
