(* ===== verification/Enqueue_Claims.thy ===== *)
theory Enqueue_Claims
  imports Queue_Claims Agent_Claims
begin

text \<open>
  A client and the worker together: the client reserves a packet, writes it into the ring buffer and rings the
  doorbell, the worker takes its turn. On an idle queue this starts the kernel of the packet and leaves the queue
  idle again, so it can be repeated for any number of packets.
\<close>

section \<open>The client\<close>

definition set_write :: "u64 \<Rightarrow> UserModeQueue \<Rightarrow> UserModeQueue" where
  "set_write v q = q\<lparr>HSAQueue := (HSAQueue q)\<lparr>write_index := v\<rparr>\<rparr>"

text \<open>
  How a client submits a packet: it adds 1 to the write index, writes the packet into the slot of the old index, and
  stores that index to the doorbell signal.
\<close>

definition enqueue :: "addr \<Rightarrow> AQLPacket \<Rightarrow> 'm agent_state_scheme \<Rightarrow> 'm agent_state_scheme outcome" where
  "enqueue Q P s =
     and_then (hsa_queue_add_write_index_acq_rel s Q 1) (\<lambda>(i, s1).
     and_then (deref (Queues s1) Q) (\<lambda>q.
     and_then (deref (Buffers s1) (base_address (HSAQueue q))) (\<lambda>buf.
       hsa_signal_store_release
         (s1\<lparr>Buffers := (Buffers s1)(base_address (HSAQueue q) \<mapsto> buf[slot q i := P])\<rparr>)
         (doorbell_signal (HSAQueue q)) i)))"

section \<open>Idle queues\<close>

text \<open>
  All packets have been carried out, the doorbell is there and its last value is not the next index. The indices stay
  below \<open>2^63\<close> for \<open>n\<close> further packets.
\<close>

definition queue_idle ::
  "nat \<Rightarrow> addr \<Rightarrow> 'm agent_state_scheme \<Rightarrow> UserModeQueue \<Rightarrow> AQLPacket list \<Rightarrow> bool" where
  "queue_idle n Q s q buf \<longleftrightarrow>
     ring_of Q s q buf \<and> queue_id (HSAQueue q) = Q \<and> queue_active q \<and>
     read_index (HSAQueue q) = write_index (HSAQueue q) \<and> LastHandledDoorBell q \<noteq> write_index (HSAQueue q) \<and>
     unat (write_index (HSAQueue q)) + unat (queue_size (HSAQueue q)) + n < 2 ^ 63 \<and>
     signal_usable (fromHSAObject (SignalRegistry s) (doorbell_signal (HSAQueue q))) s"

lemma set_write_simps [simp]:
  "read_index (HSAQueue (set_write v q)) = read_index (HSAQueue q)" "write_index (HSAQueue (set_write v q)) = v"
  "base_address (HSAQueue (set_write v q)) = base_address (HSAQueue q)"
  "queue_size (HSAQueue (set_write v q)) = queue_size (HSAQueue q)"
  "doorbell_signal (HSAQueue (set_write v q)) = doorbell_signal (HSAQueue q)"
  "queue_type (HSAQueue (set_write v q)) = queue_type (HSAQueue q)"
  "queue_id (HSAQueue (set_write v q)) = queue_id (HSAQueue q)"
  "norm_flags (set_write v q) = norm_flags q" "ring_size (set_write v q) = ring_size q"
  "slot (set_write v q) i = slot q i" "queue_active (set_write v q) = queue_active q"
  "LastHandledDoorBell (set_write v q) = LastHandledDoorBell q" "rung w (set_write v q) = rung w q"
  by (simp_all add: set_write_def norm_flags_def ring_size_def slot_def queue_active_def rung_def)

text \<open>A queue is idle from its creation on.\<close>

lemma created_queue_idle:
  assumes "isInitialized s" and "Instance s \<noteq> nullptr" and "queue \<noteq> nullptr" and "m \<noteq> 0" and "\<not> size_rejected m"
    and "unat m < 2 ^ 31" and "n < 2 ^ 62"
    and "fromHSAObject (AgentRegistry s) agent = A" and "A \<noteq> nullptr" and "KernelAgents s A = Some Ag"
    and "getQueueCount Ag < 1024" and "queue_supply s (QueueRegion Ag) Q buf D cell ps"
  obtains s' q where "hsa_queue_create s agent m type callback data pseg gseg queue = Inr (HSA_STATUS_SUCCESS, Some Q, s')"
    "queue_idle n Q s' q (replicate (unat m) invalid_packet)"
proof -
  let ?q = "set_queue_id Q (new_queue m type (QueueRegion Ag) callback A buf cell)"
  obtain s' where s': "hsa_queue_create s agent m type callback data pseg gseg queue = Inr (HSA_STATUS_SUCCESS, Some Q, s')"
    "ring_of Q s' ?q (replicate (unat m) invalid_packet)" "queue_active ?q"
    "hsa_signal_load_acquire s' (doorbell_signal (HSAQueue ?q)) = Inr i64_max"
    using queue_created [OF assms(1-6,8-12) refl, of type callback data pseg gseg] by blast
  have "signal_usable (fromHSAObject (SignalRegistry s') (doorbell_signal (HSAQueue ?q))) s'"
    using s'(4) by (auto simp: hsa_signal_load_acquire_def GCCBuiltinSignal_load_def loadAcquire_def signal_cell_def
        Runtime_memoryFence_def Runtime_get_def outcome_simps signal_usable_def split: if_splits)
  moreover have "unat (queue_size (HSAQueue ?q)) = unat m" "queue_id (HSAQueue ?q) = Q" "read_index (HSAQueue ?q) = 0"
    "write_index (HSAQueue ?q) = 0" "LastHandledDoorBell ?q = i64_max"
    by (simp_all add: set_queue_id_def new_queue_def)
  ultimately have "queue_idle n Q s' ?q (replicate (unat m) invalid_packet)"
    using s'(2,3) assms(6,7) by (simp add: queue_idle_def i64_max_def)
  with s'(1) show thesis by (rule that)
qed

text \<open>The client's calls return, and leave one packet in the window of the worker.\<close>

lemma enqueue_loads:
  assumes idle: "queue_idle (Suc n) Q s q buf" and P: "packet_type P \<noteq> HSA_PACKET_TYPE_INVALID"
    and i: "i = write_index (HSAQueue q)"
  obtains c where "c \<in> dom (SignalValues s)"
    "enqueue Q P s = Inr (s\<lparr>Queues := (Queues s)(Q \<mapsto> set_write (i + 1) q),
       Buffers := (Buffers s)(base_address (HSAQueue q) \<mapsto> buf[slot q i := P]), SignalValues := (SignalValues s)(c \<mapsto> i)\<rparr>)"
    "queue_loaded Q (s\<lparr>Queues := (Queues s)(Q \<mapsto> set_write (i + 1) q),
       Buffers := (Buffers s)(base_address (HSAQueue q) \<mapsto> buf[slot q i := P]), SignalValues := (SignalValues s)(c \<mapsto> i)\<rparr>)
       (set_write (i + 1) q) (buf[slot q i := P]) i"
    "published_window (set_write (i + 1) q) (buf[slot q i := P]) = [(i, P)]"
proof -
  have ring: "ring_of Q s q buf" and id: "queue_id (HSAQueue q) = Q" and active: "queue_active q"
    and ri: "read_index (HSAQueue q) = i" and last: "LastHandledDoorBell q \<noteq> i"
    and bound: "unat i + unat (queue_size (HSAQueue q)) + Suc n < 2 ^ 63"
    and bell: "signal_usable (fromHSAObject (SignalRegistry s) (doorbell_signal (HSAQueue q))) s"
    using idle i by (simp_all add: queue_idle_def)
  let ?S = "fromHSAObject (SignalRegistry s) (doorbell_signal (HSAQueue q))" and ?b = "base_address (HSAQueue q)"
  have r: "Q \<noteq> nullptr" "Queues s Q = Some q" "?b \<noteq> nullptr" "Buffers s ?b = Some buf"
    using ring by (auto simp: ring_of_def)
  have r0: "0 < unat (queue_size (HSAQueue q))" using ring unfolding ring_of_def by (metis length_greater_0_conv)
  have k: "slot q i < length buf" using ring_slot_less(1) [OF ring, of i] by (simp add: slot_def)
  from bell obtain Obj where Obj: "?S \<noteq> nullptr" "Signals s ?S = Some Obj" "CurrentValue Obj \<noteq> nullptr"
    "CurrentValue Obj \<in> dom (SignalValues s)" "Instance s \<noteq> nullptr"
    by (auto simp: signal_usable_def split: option.splits)
  let ?c = "CurrentValue Obj"
  let ?s = "s\<lparr>Queues := (Queues s)(Q \<mapsto> set_write (i + 1) q), Buffers := (Buffers s)(?b \<mapsto> buf[slot q i := P]),
    SignalValues := (SignalValues s)(?c \<mapsto> i)\<rparr>"
  have add: "hsa_queue_add_write_index_acq_rel s Q 1 = Inr (i, s\<lparr>Queues := (Queues s)(Q \<mapsto> set_write (i + 1) q)\<rparr>)"
    using r id i by (simp add: hsa_queue_add_write_index_acq_rel_def FindQueue_def UserModeQueue_addWriteIndex_def
        deref_Some atomic_defs update_queue_def set_write_def)
  have enq: "enqueue Q P s = Inr ?s"
    using add r Obj by (auto simp: enqueue_def deref_Some hsa_signal_store_release_def GCCBuiltinSignal_store_def
        storeRelease_def signal_cell_def set_cell_def Runtime_memoryFence_def Runtime_flush_def Runtime_get_Inr)
  have "unat i < 2 ^ 63 - 1" using bound r0 by simp
  then have "i \<noteq> i64_max" by (auto simp: i64_max_def)
  then have rung: "rung i q" using last by (simp add: rung_def)
  have ui: "unat (i + 1) = Suc (unat i)" using bound by (simp add: unat_word_ariths)
  have load: "hsa_signal_load_acquire ?s (doorbell_signal (HSAQueue q)) = Inr i"
    using Obj by (simp add: hsa_signal_load_acquire_def GCCBuiltinSignal_load_def loadAcquire_def signal_cell_def
        deref_Some Runtime_memoryFence_def Runtime_get_Inr)
  have win: "published_window (set_write (i + 1) q) (buf[slot q i := P]) = [(i, P)]"
    using k ri ui by (simp add: published_window_def)
  have "ring_of Q ?s (set_write (i + 1) q) (buf[slot q i := P])"
    using ring by (simp add: ring_of_def)
  moreover have "in_reach i (set_write (i + 1) q)" using ri ui bound by (simp add: in_reach_def)
  ultimately have "queue_loaded Q ?s (set_write (i + 1) q) (buf[slot q i := P]) i"
    using active rung load win ri ui r0 P by (simp add: queue_loaded_def)
  with that [OF Obj(4) enq _ win] show thesis by blast
qed

section \<open>The packet\<close>

definition dispatch_of :: "AQLPacket \<Rightarrow> hsa_kernel_dispatch_packet_t" where
  "dispatch_of P = KernelDispatch P"

definition completion_of :: "'m agent_state_scheme \<Rightarrow> AQLPacket \<Rightarrow> addr" where
  "completion_of s P = fromHSAObject (SignalRegistry s) (kd_completion_signal (dispatch_of P))"

text \<open>
  A dispatch packet that the checks accept, for a kernel \<open>K\<close>: its arguments are aligned and it needs no group memory;
  its completion signal, if it names one, exists.
\<close>

definition dispatch_ready :: "'m agent_state_scheme \<Rightarrow> AQLPacket \<Rightarrow> Kernel \<Rightarrow> bool" where
  "dispatch_ready s P K \<longleftrightarrow>
     packet_type P = HSA_PACKET_TYPE_KERNEL_DISPATCH \<and> named_kernel s (kd_kernel_object (dispatch_of P)) = Some K \<and>
     dimensions_ok (dispatch_of P) \<and> kd_group_segment_size (dispatch_of P) = 0 \<and>
     0 \<notin> {kd_workgroup_size_x (dispatch_of P), kd_workgroup_size_y (dispatch_of P), kd_workgroup_size_z (dispatch_of P)} \<and>
     (ucast (KernargSegmentAlignment K) :: u64) \<noteq> 0 \<and>
     kd_kernarg_address (dispatch_of P) mod ucast (KernargSegmentAlignment K) = 0 \<and>
     (completion_of s P = nullptr \<or> signal_usable (completion_of s P) s)"

definition launch_data :: "u64 \<Rightarrow> AQLPacket \<Rightarrow> PHSAKernelLaunchData" where
  "launch_data i P = \<lparr>dp = dispatch_of P, packet_id = i, kernarg_addr = kd_kernarg_address (dispatch_of P)\<rparr>"

text \<open>The dispatch returns: it calls the kernel and nothing else.\<close>

lemma dispatch_returns:
  assumes "dispatch_ready s P K"
  shows "handle_packet code gr Q P i s =
    Inr (Completed (completion_of s P) (call_kernel code (Krn_Address K) (launch_data i P) nullptr s))"
proof -
  let ?D = "dispatch_of P"
  have type: "packet_type P = HSA_PACKET_TYPE_KERNEL_DISPATCH" using assms by (simp add: dispatch_ready_def)
  have valid: "AreDimensionsvalid ?D" "IsPacketTypeValid (kd_header ?D)"
    using assms kernel_dispatch_type_valid [OF type] by (simp_all add: AreDimensionsvalid_eq dispatch_ready_def dispatch_of_def)
  from assms obtain p S where p: "fromHSAObject (SymbolRegistry s) (kd_kernel_object ?D) = p" "p \<noteq> nullptr"
    "SymbolObjects s p = Some S" "as_kernel S = Some K"
    by (auto simp: dispatch_ready_def named_kernel_def Let_def bind_eq_Some_conv split: if_splits)
  then have "map_of (SymbolRegistry s) (kd_kernel_object ?D) = Some p"
    by (auto simp: fromHSAObject_def split: option.splits)
  then have "find_kernel s (kd_kernel_object ?D) = Inr (Some K, s)"
    using p by (simp add: find_kernel_def fromHandle_def deref_Some)
  then have "dispatch_kernel code gr Q ?D i s = Inr (call_kernel code (Krn_Address K) (launch_data i P) nullptr s)"
    using assms valid by (simp add: dispatch_kernel_def allocate_group_memory_def free_group_memory_def
        launch_or_report_def launch_kernel_def launch_data_def dispatch_ready_def Let_def)
  then show ?thesis
    using type by (simp add: handle_packet_def packet_type_defs dispatch_of_def completion_of_def)
qed

text \<open>What the worker leaves alone: the directories and the objects of signals and symbols.\<close>

definition same_objects :: "'m agent_state_scheme \<Rightarrow> 'm agent_state_scheme \<Rightarrow> bool" where
  "same_objects s t \<longleftrightarrow> SymbolRegistry t = SymbolRegistry s \<and> SymbolObjects t = SymbolObjects s \<and>
     SignalRegistry t = SignalRegistry s \<and> Signals t = Signals s \<and> dom (SignalValues t) = dom (SignalValues s) \<and>
     Instance t = Instance s"

lemma same_objects_usable: "same_objects s t \<Longrightarrow> signal_usable S t = signal_usable S s"
  by (auto simp: same_objects_def signal_usable_def split: option.splits)

lemma same_objects_ready: "same_objects s t \<Longrightarrow> dispatch_ready t P K = dispatch_ready s P K"
  using same_objects_usable [of s t]
  by (simp add: dispatch_ready_def same_objects_def named_kernel_def completion_of_def cong: if_cong)

lemma same_objects_trans: "same_objects s t \<Longrightarrow> same_objects t u \<Longrightarrow> same_objects s u"
  by (simp add: same_objects_def)

lemma call_kernel_objects: "same_objects s (call_kernel code a l g s)"
  by (auto simp: same_objects_def call_kernel_def case_prod_beta Let_def split: option.splits)

lemma packet_carried_out:
  assumes "dispatch_ready s P K"
  obtains t where "run_packets code gr Q [(i, P)] s = Inr (1, t)" "same_objects s t"
    "Events t = Events s @ [Kernel_Launch (Krn_Address K) (launch_data i P) nullptr]"
    "KernelAgents t = KernelAgents s" "Queues t = Queues s" "Buffers t = Buffers s"
    "completion_of s P \<noteq> nullptr \<Longrightarrow> signal_value (completion_of s P) t = 0"
proof -
  let ?c = "completion_of s P" and ?s1 = "call_kernel code (Krn_Address K) (launch_data i P) nullptr s"
  have s1: "same_objects s ?s1" "Events ?s1 = Events s @ [Kernel_Launch (Krn_Address K) (launch_data i P) nullptr]"
    "KernelAgents ?s1 = KernelAgents s" "Queues ?s1 = Queues s" "Buffers ?s1 = Buffers s"
    using call_kernel_objects by (simp_all add: call_kernel_def case_prod_beta Let_def)
  show thesis
  proof (cases "?c = nullptr")
    case True
    with dispatch_returns [OF assms] s1 show thesis
      by (intro that [of ?s1]) (simp_all add: finish_packet_def)
  next
    case False
    then have "signal_usable ?c ?s1" using assms same_objects_usable [OF s1(1)] by (simp add: dispatch_ready_def)
    then obtain Obj where Obj: "Signals ?s1 ?c = Some Obj" "CurrentValue Obj \<noteq> nullptr" "CurrentValue Obj \<in> dom (SignalValues ?s1)"
      by (auto simp: signal_usable_def split: option.splits)
    let ?t = "set_cell (CurrentValue Obj) 0 ?s1"
    have "finish_packet Q ?c ?s1 = Inr ?t"
      using False Obj by (auto simp: finish_packet_def GCCBuiltinSignal_store_def storeRelaxed_def signal_cell_def deref_Some)
    then have "run_packets code gr Q [(i, P)] s = Inr (1, ?t)" by (simp add: dispatch_returns [OF assms])
    moreover have "same_objects s ?t"
      using s1(1) Obj(3) by (auto simp: same_objects_def set_cell_def)
    moreover have "signal_value ?c ?t = 0" using Obj(1) by (simp add: signal_value_def set_cell_def)
    ultimately show thesis using s1 by (intro that [of ?t]) (simp_all add: set_cell_def)
  qed
qed

section \<open>One packet from the client to the kernel\<close>

lemma bookkeep_shape [simp]:
  "queue_id (HSAQueue (bookkeep k i i q)) = queue_id (HSAQueue q)" "queue_active (bookkeep k i i q) = queue_active q"
  "read_index (HSAQueue (bookkeep k i i q)) = i + 1" "write_index (HSAQueue (bookkeep k i i q)) = write_index (HSAQueue q)"
  "LastHandledDoorBell (bookkeep k i i q) = LastHandledDoorBell q" "queue_size (HSAQueue (bookkeep k i i q)) = queue_size (HSAQueue q)"
  "doorbell_signal (HSAQueue (bookkeep k i i q)) = doorbell_signal (HSAQueue q)"
  "base_address (HSAQueue (bookkeep k i i q)) = base_address (HSAQueue q)"
  using same_shape_fields [OF same_shape_mark(3) [of q k i i]] by (simp_all add: queue_active_def bookkeep_def)

lemma queue_active_handled [simp]: "queue_active (setLastHandledDoorBell v q) = queue_active q"
  by (simp add: queue_active_def)

lemma signal_value_rings [simp]: "signal_value S (with_rings M B s) = signal_value S s"
  by (simp add: signal_value_def split: option.split)

text \<open>The queue is idle again after the turn.\<close>

lemma idle_again:
  assumes "ring_of Q s (set_write (i + 1) q) buf" and "queue_idle (Suc n) Q s0 q buf0" and "i = write_index (HSAQueue q)"
    and "signal_usable (fromHSAObject (SignalRegistry t) (doorbell_signal (HSAQueue q))) t"
    and "Queues t Q = Some (bookkeep k i i (setLastHandledDoorBell i (set_write (i + 1) q)))"
    and "Buffers t (base_address (HSAQueue q)) = Some (cleared k buf)"
  shows "queue_idle n Q t (bookkeep k i i (setLastHandledDoorBell i (set_write (i + 1) q))) (cleared k buf)"
proof -
  let ?q = "setLastHandledDoorBell i (set_write (i + 1) q)"
  have bound: "unat i + unat (queue_size (HSAQueue q)) + Suc n < 2 ^ 63" using assms(2,3) by (simp add: queue_idle_def)
  then have "unat (i + 1) = Suc (unat i)" by (simp add: unat_word_ariths)
  moreover have "ring_of Q t (bookkeep k i i ?q) (cleared k buf)"
  proof -
    have "0 < length (norm_flags q)" using assms(1) unfolding ring_of_def set_write_simps by (metis length_greater_0_conv)
    then have "length (norm_flags (bookkeep k i i ?q)) = length (norm_flags q)" by (simp add: bookkeep_def)
    then show ?thesis using assms(1,5,6) by (auto simp: ring_of_def cleared_def)
  qed
  ultimately show ?thesis using assms(2-4) bound by (simp add: queue_idle_def)
qed

lemma load_acquire_agents [simp]:
  "hsa_signal_load_acquire (s\<lparr>KernelAgents := f\<rparr>) h = hsa_signal_load_acquire s h"
  by (simp add: hsa_signal_load_acquire_def GCCBuiltinSignal_load_def loadAcquire_def signal_cell_def
      Runtime_memoryFence_def Runtime_get_def)

lemma packet_starts_kernel:
  assumes idle: "queue_idle (Suc n) Q s q buf" and ready: "dispatch_ready s P K"
    and A: "a \<noteq> nullptr" "KernelAgents s a = Some A" "\<not> InterruptingTheQueue A"
  obtains s1 t q' buf' where "enqueue Q P s = Inr s1" "queue_turn code a Q s1 = Inr (Proceeds t)" "same_objects s t"
    "Events t = Events s @ [Kernel_Launch (Krn_Address K) (launch_data (write_index (HSAQueue q)) P) nullptr]"
    "queue_idle n Q t q' buf'" "write_index (HSAQueue q') = write_index (HSAQueue q) + 1"
    "KernelAgents t a = Some (A\<lparr>RunningQueue := Q\<rparr>)"
    "completion_of s P \<noteq> nullptr \<Longrightarrow> signal_value (completion_of s P) t = 0"
proof -
  define i where "i = write_index (HSAQueue q)"
  let ?q1 = "set_write (i + 1) q" and ?b = "base_address (HSAQueue q)" and ?buf1 = "buf[slot q i := P]"
  have "packet_type P \<noteq> HSA_PACKET_TYPE_INVALID" using ready by (simp add: dispatch_ready_def packet_type_defs)
  with idle obtain c where c: "c \<in> dom (SignalValues s)"
    "enqueue Q P s = Inr (s\<lparr>Queues := (Queues s)(Q \<mapsto> ?q1), Buffers := (Buffers s)(?b \<mapsto> ?buf1),
       SignalValues := (SignalValues s)(c \<mapsto> i)\<rparr>)"
    "queue_loaded Q (s\<lparr>Queues := (Queues s)(Q \<mapsto> ?q1), Buffers := (Buffers s)(?b \<mapsto> ?buf1),
       SignalValues := (SignalValues s)(c \<mapsto> i)\<rparr>) ?q1 ?buf1 i"
    "published_window ?q1 ?buf1 = [(i, P)]" using i_def by (rule enqueue_loads)
  define s1 where "s1 = s\<lparr>Queues := (Queues s)(Q \<mapsto> ?q1), Buffers := (Buffers s)(?b \<mapsto> ?buf1),
    SignalValues := (SignalValues s)(c \<mapsto> i)\<rparr>"
  define s2 where "s2 = s1\<lparr>KernelAgents := (KernelAgents s1)(a \<mapsto> A\<lparr>RunningQueue := Q\<rparr>)\<rparr>"
  note frame = s1_def s2_def
  have loaded: "queue_loaded Q s2 ?q1 ?buf1 i"
    using c(3) unfolding s1_def [symmetric] s2_def by (simp add: queue_loaded_def ring_of_def)
  have same2: "same_objects s s2" using c(1) by (auto simp: same_objects_def frame)
  obtain u where u: "run_packets code (GroupMemoryRegion A) Q [(i, P)] s2 = Inr (1, u)" "same_objects s2 u"
    "Events u = Events s2 @ [Kernel_Launch (Krn_Address K) (launch_data i P) nullptr]"
    "KernelAgents u = KernelAgents s2" "Queues u = Queues s2" "Buffers u = Buffers s2"
    "completion_of s2 P \<noteq> nullptr \<Longrightarrow> signal_value (completion_of s2 P) u = 0"
    by (rule packet_carried_out [OF ready [folded same_objects_ready [OF same2]]]) blast
  let ?q2 = "setLastHandledDoorBell i ?q1"
  define t where "t = with_rings ((Queues s2)(Q \<mapsto> bookkeep (slot q i) i i ?q2)) ((Buffers s2)(?b \<mapsto> cleared (slot q i) ?buf1)) u"
  have "read_index (HSAQueue ?q1) = i" using idle by (simp add: queue_idle_def i_def)
  then have "service_queue code (GroupMemoryRegion A) Q s2 = Inr t"
    using service_queue_refines [OF loaded, of code "GroupMemoryRegion A"] u(1) c(4)
    by (simp add: refined_def t_def with_rings_def)
  then have turn: "queue_turn code a Q s1 = Inr (Proceeds t)"
    using A by (simp add: queue_turn_def update_agent_def deref_Some frame)
  have same: "same_objects s t" using same_objects_trans [OF same2 u(2)] by (simp add: same_objects_def t_def)
  have "signal_usable (fromHSAObject (SignalRegistry t) (doorbell_signal (HSAQueue q))) t"
    using idle same same_objects_usable [OF same] by (simp add: queue_idle_def same_objects_def)
  moreover have "ring_of Q s2 ?q1 ?buf1" using loaded by (simp only: queue_loaded_def)
  ultimately have "queue_idle n Q t (bookkeep (slot q i) i i ?q2) (cleared (slot q i) ?buf1)"
    by (intro idle_again [OF _ idle i_def]) (simp_all add: t_def)
  moreover have "signal_value (completion_of s P) t = 0" if "completion_of s P \<noteq> nullptr"
    using u(7) that same2 by (simp add: completion_of_def same_objects_def t_def)
  moreover have "Events t = Events s @ [Kernel_Launch (Krn_Address K) (launch_data i P) nullptr]"
    "KernelAgents t a = Some (A\<lparr>RunningQueue := Q\<rparr>)" using u(3,4) by (simp_all add: t_def frame with_rings_def)
  ultimately show thesis
    using that [of s1 t "bookkeep (slot q i) i i ?q2" "cleared (slot q i) ?buf1"] c(2) turn same by (simp add: s1_def i_def)
qed

section \<open>Any number of packets\<close>

text \<open>The client submits the packets one after the other, and the worker takes a turn after each.\<close>

inductive delivered ::
  "kernel_code \<Rightarrow> addr \<Rightarrow> addr \<Rightarrow> AQLPacket list \<Rightarrow> 'm agent_state_scheme \<Rightarrow> 'm agent_state_scheme \<Rightarrow> bool"
  for code a Q where
    none: "delivered code a Q [] s s"
  | one: "enqueue Q P s = Inr s1 \<Longrightarrow> queue_turn code a Q s1 = Inr (Proceeds s2) \<Longrightarrow> delivered code a Q Ps s2 t \<Longrightarrow>
      delivered code a Q (P # Ps) s t"

fun launches :: "u64 \<Rightarrow> (AQLPacket \<times> Kernel) list \<Rightarrow> event list" where
  "launches i [] = []"
| "launches i ((P, K) # Ps) = Kernel_Launch (Krn_Address K) (launch_data i P) nullptr # launches (i + 1) Ps"

lemma packets_start_kernels:
  assumes "queue_idle (length Ps) Q s q buf" and "\<forall>(P, K) \<in> set Ps. dispatch_ready s P K"
    and "a \<noteq> nullptr" and "KernelAgents s a = Some A" and "\<not> InterruptingTheQueue A"
  shows "\<exists>t q' buf'. delivered code a Q (map fst Ps) s t \<and> same_objects s t \<and>
    Events t = Events s @ launches (write_index (HSAQueue q)) Ps \<and> queue_idle 0 Q t q' buf' \<and>
    write_index (HSAQueue q') = write_index (HSAQueue q) + of_nat (length Ps) \<and>
    (Ps \<noteq> [] \<longrightarrow> completion_of s (fst (last Ps)) \<noteq> nullptr \<longrightarrow> signal_value (completion_of s (fst (last Ps))) t = 0)"
  using assms
proof (induction Ps arbitrary: s q buf A)
  case Nil
  then show ?case
    by (intro exI [of _ s] exI [of _ q] exI [of _ buf]) (simp add: delivered.none same_objects_def)
next
  case (Cons e Ps)
  obtain P K where e: "e = (P, K)" by (cases e)
  have ready: "dispatch_ready s P K" and idle: "queue_idle (Suc (length Ps)) Q s q buf" using Cons.prems e by auto
  obtain s1 s2 q2 buf2 where s2: "enqueue Q P s = Inr s1" "queue_turn code a Q s1 = Inr (Proceeds s2)" "same_objects s s2"
    "Events s2 = Events s @ [Kernel_Launch (Krn_Address K) (launch_data (write_index (HSAQueue q)) P) nullptr]"
    "queue_idle (length Ps) Q s2 q2 buf2" "write_index (HSAQueue q2) = write_index (HSAQueue q) + 1"
    "KernelAgents s2 a = Some (A\<lparr>RunningQueue := Q\<rparr>)"
    "completion_of s P \<noteq> nullptr \<Longrightarrow> signal_value (completion_of s P) s2 = 0"
    by (rule packet_starts_kernel [OF idle ready Cons.prems(3-5), of code]) blast
  have rest: "\<forall>(P, K) \<in> set Ps. dispatch_ready s2 P K" "\<not> InterruptingTheQueue (A\<lparr>RunningQueue := Q\<rparr>)"
    using Cons.prems(2,5) same_objects_ready [OF s2(3)] by auto
  from Cons.IH [OF s2(5) rest(1) Cons.prems(3) s2(7) rest(2)] obtain t q' buf' where
    t: "delivered code a Q (map fst Ps) s2 t" "same_objects s2 t" "Events t = Events s2 @ launches (write_index (HSAQueue q2)) Ps"
      "queue_idle 0 Q t q' buf'" "write_index (HSAQueue q') = write_index (HSAQueue q2) + of_nat (length Ps)"
      "Ps \<noteq> [] \<longrightarrow> completion_of s2 (fst (last Ps)) \<noteq> nullptr \<longrightarrow> signal_value (completion_of s2 (fst (last Ps))) t = 0"
    by blast
  have "delivered code a Q (map fst (e # Ps)) s t" using delivered.one [OF s2(1,2) t(1)] by (simp add: e)
  moreover have "signal_value (completion_of s (fst (last (e # Ps)))) t = 0"
    if "completion_of s (fst (last (e # Ps))) \<noteq> nullptr"
  proof (cases "Ps = []")
    case True
    then have "t = s2" using t(1) by (auto elim: delivered.cases)
    then show ?thesis using that True s2(8) by (simp add: e)
  next
    case False
    then show ?thesis using that t(6) s2(3) by (simp add: completion_of_def same_objects_def)
  qed
  ultimately show ?case
    using t s2 same_objects_trans [OF s2(3) t(2)]
    by (intro exI [of _ t] exI [of _ q'] exI [of _ buf']) (simp add: e)
qed

section \<open>Property\<close>


text \<open>The example process with an idle queue of four slots, and five packets for it.\<close>

definition idle_queue :: UserModeQueue where
  "idle_queue = set_write 0 demo_queue"

definition idle_state :: agent_state where
  "idle_state = (demo_state invalid_packet)\<lparr>Queues := [256 \<mapsto> idle_queue]\<rparr>"

definition small_dispatch :: AQLPacket where
  "small_dispatch = make_kernel_dispatch
     \<lparr>kd_header = HSA_PACKET_TYPE_KERNEL_DISPATCH, kd_setup = 1, kd_workgroup_size_x = 4,
      kd_workgroup_size_y = 1, kd_workgroup_size_z = 1, kd_grid_size_x = 64, kd_grid_size_y = 1,
      kd_grid_size_z = 1, kd_private_segment_size = 0, kd_group_segment_size = 0,
      kd_kernel_object = 600, kd_kernarg_address = 64, kd_completion_signal = 544\<rparr>"

lemma idle_state_idle: "queue_idle 5 256 idle_state idle_queue (demo_buffer invalid_packet)"
  by (simp add: queue_idle_def ring_of_def queue_active_def idle_state_def idle_queue_def set_write_def demo_queue_def
      demo_state_def demo_buffer_def norm_flags_def signal_usable_def fromHSAObject_def i64_max_def)

lemma small_dispatch_ready: "dispatch_ready idle_state small_dispatch demo_kernel"
proof -
  have "packet_type small_dispatch = HSA_PACKET_TYPE_KERNEL_DISPATCH"
    by (simp add: packet_type_def packet_header_def small_dispatch_def make_kernel_dispatch_def packet_type_defs
        half_at_def [of _ 3] HSA_PACKET_HEADER_TYPE_def)
  moreover have "dispatch_of small_dispatch =
     \<lparr>kd_header = HSA_PACKET_TYPE_KERNEL_DISPATCH, kd_setup = 1, kd_workgroup_size_x = 4,
      kd_workgroup_size_y = 1, kd_workgroup_size_z = 1, kd_grid_size_x = 64, kd_grid_size_y = 1,
      kd_grid_size_z = 1, kd_private_segment_size = 0, kd_group_segment_size = 0,
      kd_kernel_object = 600, kd_kernarg_address = 64, kd_completion_signal = 544\<rparr>"
    unfolding dispatch_of_def small_dispatch_def by (rule KernelDispatch_make)
  ultimately show ?thesis
    by (simp add: dispatch_ready_def named_kernel_def completion_of_def dimensions_ok_def idle_state_def demo_state_def
        demo_kernel_def fromHSAObject_def signal_usable_def)
qed


end
