(* ===== verification/Spec2Isabelle.thy ===== *)
theory Spec2Isabelle
  imports Status Fixed_Region Agent_Claims Queue_Claims Interrupt_Protocol Isa_System Symbol_Claims Runtime_Claims
    Finalize_Claims Amd_Ext Image_Ext Contract_Claims Call_Safety Shutdown_Claims Enqueue_Claims
begin

text \<open>
  A model of the phsa HSA runtime: the whole runtime under \<open>src/\<close>, from the entry points of \<open>hsa.h\<close> down to
  the packet processor, with the properties that make its parts correct and the places where the code
  does not do what it means to.

  \<^bold>\<open>The program and the theories.\<close> The client calls the entry points of \<open>src/hsa/\<close>. They translate handles to
  objects, check the arguments and call the classes behind the interfaces of \<open>include/\<close>: the one \<open>Runtime\<close>
  object owns memory regions and agents; the CPU agent owns queues and a worker thread that takes packets
  from their ring buffers and calls kernels; a program collects BRIG modules, the finalizer turns it into a
  code object by running a compiler, an executable loads code objects and makes their kernels into symbols,
  whose handles the packets name.

  \<^item> \<open>Prelude\<close>: machine integers, the outcome of a call (a value or a fault), the base of the process state;
    \<open>Bytes\<close>: integers as bytes in memory; \<open>Hsa_Types\<close>: the enumerations of the headers; \<open>Status\<close>:
    \<open>hsa_status_string\<close>; \<open>Info\<close>: \<open>WriteField\<close> and the callbacks of the iterations.
  \<^item> \<open>Atomics\<close>: \<open>common/Atomic\<close>, \<open>common/MemoryOrder\<close>; \<open>Object_Registry\<close>: \<open>HSAObjectMapping.hh\<close>.
  \<^item> \<open>Region_Interface\<close>: the locale \<open>memory_region\<close> for \<open>MemoryRegion.hh\<close>, interpreted on
    \<open>Fixed_Region\<close> (\<open>FixedMemoryRegion\<close>) and \<open>Cpu_Region\<close> (\<open>CPUMemoryRegion\<close>, \<open>hsa_memory.cc\<close>, \<open>hsa_region.cc\<close>).
  \<^item> \<open>Signals\<close>: both signal classes and \<open>hsa_signal.cc\<close>; the locales for \<open>Signal.hh\<close> are interpreted on
    \<open>GCCBuiltinSignal\<close> and \<open>StdAtomicSignal\<close>, the law of compare-exchange on the first only.
  \<^item> \<open>Queues\<close> (packets, \<open>Queue\<close>, \<open>UserModeQueue\<close>, the index operations of \<open>hsa_queue.cc\<close>), \<open>Symbols\<close>,
    \<open>Kernel_Agent\<close> (\<open>Agent.hh\<close>, \<open>CPUKernelAgent\<close>), \<open>Queue_Api\<close> (creation, destruction, inactivation).
    \<open>Packet_Frames\<close>, \<open>Packet_Loop\<close>, \<open>Packet_Order\<close>, \<open>Agent_Service\<close>, \<open>Agent_Dispatch\<close> hold the lemmas on one
    packet, on the loop, its refinement to an executor without ring buffer, a queue's turn and a dispatch;
    \<open>Agent_Claims\<close> and \<open>Queue_Claims\<close> the properties; \<open>Enqueue_Claims\<close> puts the client in front of the queue: what it
    submits by the rules is executed. \<open>Interrupt_Protocol\<close> is the handshake between the
    worker and a client that inactivates a queue, as a step relation over all interleavings.
  \<^item> \<open>Isa_System\<close> (\<open>ISA.cc\<close>, \<open>ExtensionRegistry.cc\<close>, \<open>hsa_isa.cc\<close>, \<open>hsa_system.cc\<close>), \<open>Agent_Info\<close> (\<open>hsa_agent.cc\<close>).
  \<^item> \<open>Hsail_Program\<close>, \<open>Program_Api\<close>, \<open>Program_Claims\<close>: programs and the scan of BRIG modules;
    \<open>Code_Object\<close>, \<open>Code_Api\<close>, \<open>Code_Claims\<close>: code objects and their serialized form; \<open>Gcc_Finalizer\<close>,
    \<open>Finalize_Claims\<close>: the finalization; \<open>Executables\<close>, \<open>Executable_Api\<close>, \<open>Symbol_Loading\<close>, \<open>Symbol_Claims\<close>:
    loading, and the symbols.
  \<^item> \<open>Runtime_Life\<close>, \<open>Runtime_Shutdown\<close>, \<open>Runtime_Claims\<close>: \<open>Runtime.cc\<close>, \<open>CPURuntime.cc\<close>, \<open>hsa_init\<close>,
    \<open>hsa_shut_down\<close>; the locale \<open>collectable\<close> holds the termination of \<open>garbageCollect\<close>, interpreted on
    programs and on code objects.
  \<^item> \<open>Amd_Ext\<close> (\<open>amd/hsa_ext_amd.cc\<close>), \<open>Image_Ext\<close> (\<open>hsa_image.cc\<close>). This theory holds the property that
    spans the loading of a kernel and its execution.
  \<^item> \<open>Refinement\<close>: the locale \<open>refines\<close>, a step function that implements an abstract type, lifted to sequences of
    calls; interpreted in \<open>Signal_Calls\<close> (the signal API as a map from handles to values) and in \<open>Queue_Calls\<close> (the
    index operations as pairs of counters).
  \<^item> \<open>Allocation\<close> (the results of the allocators), \<open>Directories\<close> (when a registry is sound for its objects),
    \<open>Process_Types\<close> and \<open>Api_Typing\<close> (every operation keeps the registries sound), \<open>Api_Calls\<close> (the whole API as one
    transition relation, a rule for each entry point), \<open>Process_Claims\<close> (histories of the process), \<open>Call_Safety\<close>
    (which calls return for which handles after any history) and \<open>Shutdown_Claims\<close> (the last shut-down returns after
    any history).
  \<^item> \<open>Contracts\<close>: the statuses that the headers of \<open>src/include\<close> document for each entry point; \<open>Contract_Claims\<close>: what
    the code returns beyond them, and which entry points look at the initialisation.

  \<^bold>\<open>State.\<close> One record, extended from component to component (\<open>base_state\<close>, \<open>region_state\<close>, \<open>signal_state\<close>,
  \<open>queue_state\<close>, \<open>agent_state\<close>, \<open>platform_state\<close>, \<open>program_state\<close>, \<open>amd_state\<close>). Objects are maps from addresses
  to records with the members of their class; registries are association lists in iteration order; a member
  function takes the state and the address of its object. Integers have their width. A call that faults
  (null dereference, failed assertion, \<open>abort\<close>, exception, undefined behaviour) is \<open>Inl\<close> of the fault.

  \<^bold>\<open>Loops and fuel.\<close> There is no fuel. Loops over data are structural recursions; the packet loop
  has a measure, the distance to the write index; loops that may run for ever (waiting on a signal, the
  scan of a module, the worker, the collections) are partial functions into options, \<open>None\<close> being a loop that does not
  end, and both outcomes are proved where they occur.

  \<^bold>\<open>Concurrency.\<close> A wait takes what its loads and clock readings yield as arguments; the worker and the
  asynchronous copy take what the other threads do to the state between their steps; the interruption of queues is a step relation.
  In a history of the process a call is one step, and so is each packet of the worker.
  Atomic operations are single steps of a sequentially consistent memory: the memory orders select
  branches of the code and have no other effect.

  \<^bold>\<open>Parameters.\<close> The host is a record of functions: environment, shell, \<open>libelf\<close>, the dynamic loader. Kernels
  are a function on signal values and memory; \<open>std::hash\<close> is a function; the host's allocator is a supply
  of addresses, where 0 or nothing is a failure; in a history it may give the addresses of destroyed objects again; fresh names for temporary files are a supply too.

  \<^bold>\<open>Not modelled.\<close> Messages on the standard streams (\<open>Logging.hh\<close>); the mutexes, whose critical sections
  are single steps; \<open>dlclose\<close> and the memory of destroyed C++ objects other than the regions' chunks;
  permissions of files; the members of \<open>Brig.h\<close> that the runtime never reads; the small machine model,
  for which the runtime is not built; \<open>hsa_isa_from_name\<close>, which \<open>hsa.h\<close> declares and no file defines; the copies of the
  headers in \<open>src/include/hsa\<close>, which are identical to those in \<open>src/include\<close>; the deletion of the registered extensions, which have no state.
\<close>

section \<open>From the code object to the running kernel\<close>

text \<open>A dispatch packet for one dimension without group memory, and the queue it is in.\<close>

definition launch_packet :: "u64 \<Rightarrow> hsa_kernel_dispatch_packet_t" where
  "launch_packet kernel_object =
     \<lparr>kd_header = HSA_PACKET_TYPE_KERNEL_DISPATCH, kd_setup = 1, kd_workgroup_size_x = 4, kd_workgroup_size_y = 1,
      kd_workgroup_size_z = 1, kd_grid_size_x = 64, kd_grid_size_y = 1, kd_grid_size_z = 1,
      kd_private_segment_size = 0, kd_group_segment_size = 0, kd_kernel_object = kernel_object,
      kd_kernarg_address = 64, kd_completion_signal = 0\<rparr>"

lemma launch_packet_type: "packet_type (make_kernel_dispatch (launch_packet k)) = HSA_PACKET_TYPE_KERNEL_DISPATCH"
  by (simp add: packet_type_def packet_header_def make_kernel_dispatch_def launch_packet_def packet_type_defs
      half_at_def [of _ 3] HSA_PACKET_HEADER_TYPE_def)

lemma loaded_symbol:
  assumes "hsa_executable_load_code_object H s e agent c options = Inr (HSA_STATUS_SUCCESS, s')"
    and "fromHSAObject (CodeRegistry s) c = Program" and "FinalizedPrograms s Program = Some P"
    and "parse_elf H (ELFBlob P) = Some ELF" and "elf_symtab ELF = Some (earlier @ (n, info) # later)"
    and "n \<notin> fst ` set later" and "\<not> hidden_symbol n" and "map_of (FuncDescriptors P) n = Some bs"
    and "load_descriptor bs = Inr D" and "is_kernel D \<noteq> 0" and "distinct (HostHeap s)" and "out \<noteq> nullptr"
  obtains obj K where "hsa_executable_get_symbol s' e None (Some (CHR ''&'' # n)) agent' cc out = Inr (HSA_STATUS_SUCCESS, Some obj)"
    "obj \<noteq> nullptr" "fromHSAObject (SymbolRegistry s') obj = obj" "SymbolObjects s' obj = Some (Kernel_object K)"
    "library_address H (library_handle H (Files s) P) n (Krn_Address K)"
    "KernargSegmentAlignment K = ucast (max 16 (kernarg_max_align D))"
proof -
  let ?E = "fromHSAObject (ExecutableRegistry s) e"
  have load: "LoadCodeObject H ?E c s = Inr (HSA_STATUS_SUCCESS, s')" and init: "isInitialized s" and E0: "?E \<noteq> nullptr"
    using assms(1) by (auto simp: hsa_executable_load_code_object_def outcome_simps Let_def split: if_splits)
  from LoadCodeObject_kernel [OF load assms(2-11)] obtain p A X where p: "p \<noteq> nullptr"
    "Executables s' ?E = Some X" "getSymbol (CHR ''&'' # n) X = p"
    "SymbolObjects s' p = Some (kernel_symbol n Program (kernarg_segment_size D)
      (ucast (max MIN_ALIGNMENT (kernarg_max_align D))) (group_segment_size D) (private_segment_size D) p A)"
    "fromHSAObject (SymbolRegistry s') p = p" "library_address H (library_handle H (Files s) P) n A"
    "ExecutableRegistry s' = ExecutableRegistry s" "ReferenceCounter s' = ReferenceCounter s" by blast
  have "isInitialized s'" using init p(8) by (simp add: isInitialized_def)
  moreover have "n \<noteq> []" using assms(7) by (auto simp: hidden_symbol_def)
  ultimately have "hsa_executable_get_symbol s' e None (Some (CHR ''&'' # n)) agent' cc out = Inr (HSA_STATUS_SUCCESS, Some p)"
    using assms(12) p E0 by (simp add: hsa_executable_get_symbol_def executable_symbol_name_def deref_Some)
  moreover define K where "K = the (as_kernel (kernel_symbol n Program (kernarg_segment_size D)
    (ucast (max MIN_ALIGNMENT (kernarg_max_align D))) (group_segment_size D) (private_segment_size D) p A))"
  then have "SymbolObjects s' p = Some (Kernel_object K)" "Krn_Address K = A"
    "KernargSegmentAlignment K = ucast (max 16 (kernarg_max_align D))"
    using p(4) by (simp_all add: K_def kernel_symbol_def MIN_ALIGNMENT_def)
  ultimately show ?thesis using p(1,5,6) by (intro that [of p K]) simp_all
qed

text \<open>
  C1. What a client compiles is what runs: after a code object has been loaded into an executable, a
  dispatch packet that names the symbol handle of one of its kernels, with valid dimensions, no group
  memory and an aligned argument block, makes the packet processor call the code at the kernel's address
  in the library, once, with the packet, its index and its argument block, and nothing else, whatever has
  happened to the other parts of the process in between.
\<close>

theorem loaded_kernel_launched:
  assumes "hsa_executable_load_code_object H s e agent c options = Inr (HSA_STATUS_SUCCESS, s')"
    and "fromHSAObject (CodeRegistry s) c = Program" and "FinalizedPrograms s Program = Some P"
    and "parse_elf H (ELFBlob P) = Some ELF" and "elf_symtab ELF = Some (earlier @ (n, info) # later)"
    and "n \<notin> fst ` set later" and "\<not> hidden_symbol n" and "map_of (FuncDescriptors P) n = Some bs"
    and "load_descriptor bs = Inr D" and "is_kernel D \<noteq> 0" and "distinct (HostHeap s)" and "out \<noteq> nullptr"
    and "hsa_executable_get_symbol s' e None (Some (CHR ''&'' # n)) agent' cc out = Inr (HSA_STATUS_SUCCESS, Some obj)"
    and "SymbolRegistry t = SymbolRegistry s'" and "SymbolObjects t = SymbolObjects s'"
    and "handle_packet code gr Q Packet i t = Inr r" and "packet_type Packet = HSA_PACKET_TYPE_KERNEL_DISPATCH"
    and "Queues t Q = Some q" and "Q \<noteq> nullptr" and "KernelDispatch Packet = dispatch"
    and "kd_kernel_object dispatch = obj" and "dimensions_ok dispatch" and "kd_group_segment_size dispatch = 0"
    and "0 \<notin> {kd_workgroup_size_x dispatch, kd_workgroup_size_y dispatch, kd_workgroup_size_z dispatch}"
    and "kd_kernarg_address dispatch mod ucast (ucast (max 16 (kernarg_max_align D)) :: u32) = 0"
  shows "\<exists>address t'. library_address H (library_handle H (Files s) P) n address \<and>
    r = Completed (fromHSAObject (SignalRegistry t) (kd_completion_signal dispatch)) t' \<and>
    Events t' = Events t @
      [Kernel_Launch address \<lparr>dp = dispatch, packet_id = i, kernarg_addr = kd_kernarg_address dispatch\<rparr> nullptr]"
proof -
  from loaded_symbol [OF assms(1-12)] assms(13) obtain K where K: "obj \<noteq> nullptr" "fromHSAObject (SymbolRegistry s') obj = obj"
    "SymbolObjects s' obj = Some (Kernel_object K)" "library_address H (library_handle H (Files s) P) n (Krn_Address K)"
    "KernargSegmentAlignment K = ucast (max 16 (kernarg_max_align D))" by (metis Inr_inject option.inject prod.inject)
  then have named: "named_kernel t (kd_kernel_object dispatch) = Some K"
    using assms(14,15,21) by (simp add: named_kernel_def)
  obtain t' where t': "dispatch_kernel code gr Q dispatch i t = Inr t'"
    "r = Completed (fromHSAObject (SignalRegistry t) (kd_completion_signal dispatch)) t'"
    using assms(16,17,20) by (auto simp: handle_packet_def packet_type_defs outcome_simps)
  have "IsPacketTypeValid (kd_header dispatch)" using kernel_dispatch_type_valid [OF assms(17)] assms(20) by simp
  from dispatch_kernel_event [OF t'(1) assms(18,19) this named] assms(22-25) K(5)
  have "Events t' = Events t @
      [Kernel_Launch (Krn_Address K) \<lparr>dp = dispatch, packet_id = i, kernarg_addr = kd_kernarg_address dispatch\<rparr> nullptr]"
    by (auto simp: dispatch_status_def)
  with K(4) t'(2) show ?thesis by blast
qed

theorem loaded_kernel_launched_witness:
  "\<forall>code. \<exists>s' obj t t'. hsa_executable_load_code_object demo_host code_demo 0x700 0x200 0x600 None = Inr (HSA_STATUS_SUCCESS, s') \<and>
    hsa_executable_get_symbol s' 0x700 None (Some ''&k'') 0 0 8 = Inr (HSA_STATUS_SUCCESS, Some obj) \<and>
    t = s'\<lparr>Queues := [256 \<mapsto> demo_queue]\<rparr> \<and>
    handle_packet code 0x110 256 (make_kernel_dispatch (launch_packet obj)) 0 t =
      Inr (Completed (fromHSAObject (SignalRegistry t) 0) t') \<and>
    Events t' = Events t @ [Kernel_Launch 0x7100 \<lparr>dp = launch_packet obj, packet_id = 0, kernarg_addr = 64\<rparr> nullptr]"
proof
  fix code
  obtain D where D: "load_descriptor demo_descriptor = Inr D" "is_kernel D = 1" "kernarg_max_align D = 8"
    using demo_load_descriptor by blast
  obtain s' where s': "LoadCodeObject demo_host 0x700 0x600 code_demo = Inr (HSA_STATUS_SUCCESS, s')"
    using demo_loading by blast
  then have load: "hsa_executable_load_code_object demo_host code_demo 0x700 0x200 0x600 None = Inr (HSA_STATUS_SUCCESS, s')"
    by (simp add: hsa_executable_load_code_object_def code_demo_facts demo_executable deref_Some)
  have elf: "parse_elf demo_host (ELFBlob demo_code_object) = Some demo_elf" using demo_code_object_facts by simp
  have symtab: "elf_symtab demo_elf = Some ([(''frame_dummy'', 2)] @ (''k'', 2) # [(''g'', 1)])" by (simp add: demo_elf_def)
  have descriptor: "map_of (FuncDescriptors demo_code_object) ''k'' = Some demo_descriptor" by (simp add: demo_code_object_def)
  have names: "''k'' \<notin> fst ` set [(''g'', 1 :: u8)]" "is_kernel D \<noteq> 0" "distinct (HostHeap code_demo)"
    using D code_demo_facts(4) by simp_all
  note loaded = elf symtab names(1) demo_names(1) descriptor D(1) names(2,3)
  have "(8 :: addr) \<noteq> nullptr" by simp
  from loaded_symbol [OF load code_demo_facts(2,3) loaded this, of 0 0] obtain obj K where
    obj: "hsa_executable_get_symbol s' 0x700 None (Some (CHR ''&'' # ''k'')) 0 0 8 = Inr (HSA_STATUS_SUCCESS, Some obj)" and
    K: "obj \<noteq> nullptr" "fromHSAObject (SymbolRegistry s') obj = obj" "SymbolObjects s' obj = Some (Kernel_object K)"
    "KernargSegmentAlignment K = ucast (max 16 (kernarg_max_align D))" by blast
  let ?t = "s'\<lparr>Queues := [256 \<mapsto> demo_queue]\<rparr>" and ?P = "make_kernel_dispatch (launch_packet obj)"
  have valid: "dimensions_ok (launch_packet obj)" by (simp add: dimensions_ok_def launch_packet_def)
  have "map_of (SymbolRegistry s') obj = Some obj" using K(1,2) by (simp add: fromHSAObject_def split: option.splits)
  then have find: "find_kernel ?t obj = Inr (Some K, ?t)" using K(1,3) by (simp add: find_kernel_def fromHandle_def deref_Some)
  moreover have type: "IsPacketTypeValid (kd_header (launch_packet obj))"
    using kernel_dispatch_type_valid [OF launch_packet_type] by (simp only: KernelDispatch_make)
  ultimately have "\<exists>t'. dispatch_kernel code 0x110 256 (launch_packet obj) 0 ?t = Inr t'" using valid K(4) D(3)
    by (simp add: dispatch_kernel_def allocate_group_memory_def launch_packet_def launch_or_report_def AreDimensionsvalid_eq
        launch_kernel_def free_group_memory_def Let_def)
  then obtain t' where t': "handle_packet code 0x110 256 ?P 0 ?t = Inr (Completed (fromHSAObject (SignalRegistry ?t) 0) t')"
    using launch_packet_type [of obj] by (auto simp: handle_packet_def packet_type_defs KernelDispatch_make launch_packet_def)
  have library: "library_handle demo_host (Files code_demo) demo_code_object = 0x7000"
    by (simp add: library_handle_def demo_code_object_def demo_host_def)
  have address: "library_address demo_host 0x7000 ''k'' A \<longleftrightarrow> A = 0x7100" for A
    by (auto simp: library_address_def strip_ampersand_def demo_host_def)
  have "Events t' = Events ?t @ [Kernel_Launch 0x7100 \<lparr>dp = launch_packet obj, packet_id = 0, kernarg_addr = 64\<rparr> nullptr]"
    using loaded_kernel_launched [OF load code_demo_facts(2,3) loaded _ obj _ _ t' launch_packet_type _ _ KernelDispatch_make _ valid,
        of demo_queue] D(3)
    by (simp add: library address launch_packet_def)
  with load obj t' show "\<exists>s' obj t t'. hsa_executable_load_code_object demo_host code_demo 0x700 0x200 0x600 None =
      Inr (HSA_STATUS_SUCCESS, s') \<and>
    hsa_executable_get_symbol s' 0x700 None (Some ''&k'') 0 0 8 = Inr (HSA_STATUS_SUCCESS, Some obj) \<and>
    t = s'\<lparr>Queues := [256 \<mapsto> demo_queue]\<rparr> \<and>
    handle_packet code 0x110 256 (make_kernel_dispatch (launch_packet obj)) 0 t =
      Inr (Completed (fromHSAObject (SignalRegistry t) 0) t') \<and>
    Events t' = Events t @ [Kernel_Launch 0x7100 \<lparr>dp = launch_packet obj, packet_id = 0, kernarg_addr = 64\<rparr> nullptr]"
    by blast
qed

end
